(* ===== verification/Prelude.thy ===== *)
theory Prelude
  imports
    Complex_Main
    "HOL-Library.Char_ord"
    "HOL-Library.List_Lexorder"
    "HOL-Library.Product_Lexorder"
begin

text \<open>
  Shared vocabulary of the development: the types of identifiers and instants, the plumbing of
  fallible computations (an exception is an \<open>Inl\<close> value, a return an \<open>Inr\<close> value), the relational
  tables the services read and write (a list of rows in insertion order, with the primary-key
  operations the object-relational mapper performs), the ordered queries
  (\<open>ORDER BY \<dots> LIMIT 1\<close>), and the few string functions of the Python standard library that the
  sources call (\<open>str.strip\<close>).  A Python string is a list of characters; characters are the code
  points below 256.
\<close>

named_theorems tx_simps \<open>unfolding of the error plumbing\<close>
named_theorems frame_simps \<open>tables an operation leaves alone\<close>

type_synonym ident = string
type_synonym instant = int  \<comment> \<open>microseconds since the epoch, in UTC\<close>

section \<open>Fallible computations\<close>

definition ebind :: "'e + 'a \<Rightarrow> ('a \<Rightarrow> 'e + 'b) \<Rightarrow> 'e + 'b" where
  "ebind m f = (case m of Inl e \<Rightarrow> Inl e | Inr x \<Rightarrow> f x)"

definition require :: "bool \<Rightarrow> 'e \<Rightarrow> 'e + unit" where
  "require b e = (if b then Inr () else Inl e)"

definition from_option :: "'e \<Rightarrow> 'a option \<Rightarrow> 'e + 'a" where
  "from_option e m = (case m of None \<Rightarrow> Inl e | Some x \<Rightarrow> Inr x)"

definition is_ok :: "'e + 'a \<Rightarrow> bool" where
  "is_ok m = (case m of Inl _ \<Rightarrow> False | Inr _ \<Rightarrow> True)"

text \<open>
  \<open>commit\<close> is the meaning of \<open>with session.begin()\<close>: an exception rolls the transaction back, a
  normal exit makes its writes durable.
\<close>

definition commit :: "'s \<Rightarrow> ('e + 'a \<times> 's) \<Rightarrow> ('e + 'a) \<times> 's" where
  "commit s m = (case m of Inl e \<Rightarrow> (Inl e, s) | Inr (x, s') \<Rightarrow> (Inr x, s'))"

section \<open>Tables\<close>

definition row_get :: "('r \<Rightarrow> 'k) \<Rightarrow> 'k \<Rightarrow> 'r list \<Rightarrow> 'r option" where
  "row_get key k rows = List.find (\<lambda>r. key r = k) rows"

definition row_upd :: "('r \<Rightarrow> 'k) \<Rightarrow> 'k \<Rightarrow> ('r \<Rightarrow> 'r) \<Rightarrow> 'r list \<Rightarrow> 'r list" where
  "row_upd key k f rows = map (\<lambda>r. if key r = k then f r else r) rows"

definition row_add :: "'r \<Rightarrow> 'r list \<Rightarrow> 'r list" where
  "row_add r rows = rows @ [r]"

text \<open>\<open>scalar(select \<dots> where P order_by f limit 1)\<close>, and the same in descending order.\<close>

definition first_by :: "('r \<Rightarrow> 'o::linorder) \<Rightarrow> ('r \<Rightarrow> bool) \<Rightarrow> 'r list \<Rightarrow> 'r option" where
  "first_by f P rows = (case sort_key f (filter P rows) of [] \<Rightarrow> None | r # _ \<Rightarrow> Some r)"

definition last_by :: "('r \<Rightarrow> int) \<Rightarrow> ('r \<Rightarrow> bool) \<Rightarrow> 'r list \<Rightarrow> 'r option" where
  "last_by f P rows = first_by (\<lambda>r. - f r) P rows"

section \<open>Strings\<close>

definition is_space :: "char \<Rightarrow> bool" where
  "is_space c = (let n = of_char c :: nat in
     (9 \<le> n \<and> n \<le> 13) \<or> (28 \<le> n \<and> n \<le> 32) \<or> n = 133 \<or> n = 160)"

definition strip :: "string \<Rightarrow> string" where
  "strip s = rev (dropWhile is_space (rev (dropWhile is_space s)))"

section \<open>Lemmas on fallible computations\<close>

lemma ebind_simps [simp, tx_simps]:
  "ebind (Inl e) f = Inl e"
  "ebind (Inr x) f = f x"
  by (simp_all add: ebind_def)

lemma ebind_eq_Inr [tx_simps]: "ebind m f = Inr y \<longleftrightarrow> (\<exists>x. m = Inr x \<and> f x = Inr y)"
  by (cases m) auto

lemma ebind_eq_Inl: "ebind m f = Inl e \<longleftrightarrow> m = Inl e \<or> (\<exists>x. m = Inr x \<and> f x = Inl e)"
  by (cases m) auto

lemma guard_eq_Inr [tx_simps]: "(if b then Inl e else m) = Inr x \<longleftrightarrow> \<not> b \<and> m = Inr x"
  by simp

lemma require_eq_Inr [tx_simps]: "require b e = Inr u \<longleftrightarrow> b"
  by (simp add: require_def)

lemma require_eq_Inl [tx_simps]: "require b e = Inl e' \<longleftrightarrow> \<not> b \<and> e' = e"
  by (auto simp: require_def)

lemma require_simps [simp]: "require True e = Inr ()" "require False e = Inl e"
  by (simp_all add: require_def)

lemma from_option_eq_Inr [tx_simps]: "from_option e m = Inr x \<longleftrightarrow> m = Some x"
  by (auto simp: from_option_def split: option.splits)

lemma from_option_simps [simp]: "from_option e None = Inl e" "from_option e (Some x) = Inr x"
  by (simp_all add: from_option_def)

lemma is_ok_simps [simp]: "is_ok (Inr x)" "\<not> is_ok (Inl e)"
  by (simp_all add: is_ok_def)

lemma is_ok_iff: "is_ok m \<longleftrightarrow> (\<exists>x. m = Inr x)"
  by (cases m) auto

lemma commit_simps [simp]:
  "commit s (Inl e) = (Inl e, s)"
  "commit s (Inr (x, s')) = (Inr x, s')"
  by (simp_all add: commit_def)

lemma commit_cases:
  assumes "commit s m = (r, s')"
  obtains e where "m = Inl e" "r = Inl e" "s' = s"
  | x where "m = Inr (x, s')" "r = Inr x"
  using assms by (cases m) (auto simp: commit_def)

section \<open>Lemmas on tables\<close>

text \<open>
  The contract of a table with a primary key, as the services use it: what a lookup returns after
  an update by key and after an insertion, and that an update keeps the set of keys.
\<close>

locale keyed_table =
  fixes key :: "'r \<Rightarrow> 'k"
    and get :: "'k \<Rightarrow> 'r list \<Rightarrow> 'r option"
    and upd :: "'k \<Rightarrow> ('r \<Rightarrow> 'r) \<Rightarrow> 'r list \<Rightarrow> 'r list"
    and add :: "'r \<Rightarrow> 'r list \<Rightarrow> 'r list"
  assumes get_SomeD: "get k rows = Some r \<Longrightarrow> r \<in> set rows \<and> key r = k"
    and get_None_iff: "get k rows = None \<longleftrightarrow> k \<notin> key ` set rows"
    and set_upd: "set (upd k f rows) = (\<lambda>r. if key r = k then f r else r) ` set rows"
    and get_upd: "(\<And>r. key (f r) = key r) \<Longrightarrow>
      get k (upd k' f rows) = (if k = k' then map_option f (get k rows) else get k rows)"
    and keys_upd: "(\<And>r. key (f r) = key r) \<Longrightarrow> map key (upd k f rows) = map key rows"
    and get_add: "get k (add r rows) =
      (case get k rows of Some x \<Rightarrow> Some x | None \<Rightarrow> if key r = k then Some r else None)"
    and keys_add: "map key (add r rows) = map key rows @ [key r]"
begin

lemma get_in_set: "get k rows = Some r \<Longrightarrow> r \<in> set rows"
  by (simp add: get_SomeD)

lemma get_key: "get k rows = Some r \<Longrightarrow> key r = k"
  by (simp add: get_SomeD)

lemma distinct_upd: "(\<And>r. key (f r) = key r) \<Longrightarrow> distinct (map key rows) \<Longrightarrow>
    distinct (map key (upd k f rows))"
  by (simp add: keys_upd)

lemma distinct_add: "distinct (map key rows) \<Longrightarrow> get (key r) rows = None \<Longrightarrow>
    distinct (map key (add r rows))"
  by (simp add: keys_add get_None_iff)

lemma get_unique:
  assumes "distinct (map key rows)" "r \<in> set rows"
  shows "get (key r) rows = Some r"
proof (cases "get (key r) rows")
  case None
  then show ?thesis using assms(2) by (simp add: get_None_iff)
next
  case (Some r')
  then have "r' \<in> set rows" "key r' = key r" using get_SomeD by blast+
  with assms show ?thesis using Some by (metis distinct_map inj_onD)
qed

lemma get_iff: "distinct (map key rows) \<Longrightarrow> get k rows = Some r \<longleftrightarrow> r \<in> set rows \<and> key r = k"
  using get_SomeD get_unique by blast

end

lemma row_get_Cons [simp]:
  "row_get key k [] = None"
  "row_get key k (r # rows) = (if key r = k then Some r else row_get key k rows)"
  by (simp_all add: row_get_def)

lemma row_upd_Cons [simp]:
  "row_upd key k f [] = []"
  "row_upd key k f (r # rows) = (if key r = k then f r else r) # row_upd key k f rows"
  by (simp_all add: row_upd_def)

lemma row_get_append:
  "row_get key k (xs @ ys) = (case row_get key k xs of Some r \<Rightarrow> Some r | None \<Rightarrow> row_get key k ys)"
  by (induction xs) auto

text \<open>Every table of the model, with its primary key, meets that contract.\<close>

interpretation row: keyed_table key "row_get key" "row_upd key" row_add for key :: "'r \<Rightarrow> 'k"
proof
  fix k k' :: 'k and rows :: "'r list" and r :: 'r and f :: "'r \<Rightarrow> 'r"
  show "row_get key k rows = Some r \<Longrightarrow> r \<in> set rows \<and> key r = k"
    by (induction rows) (auto split: if_splits)
  show "row_get key k rows = None \<longleftrightarrow> k \<notin> key ` set rows"
    by (induction rows) auto
  show "set (row_upd key k f rows) = (\<lambda>r. if key r = k then f r else r) ` set rows"
    by (simp add: row_upd_def)
  show "(\<And>r. key (f r) = key r) \<Longrightarrow> row_get key k (row_upd key k' f rows) =
      (if k = k' then map_option f (row_get key k rows) else row_get key k rows)"
    by (induction rows) auto
  show "(\<And>r. key (f r) = key r) \<Longrightarrow> map key (row_upd key k f rows) = map key rows"
    by (induction rows) auto
  show "row_get key k (row_add r rows) = (case row_get key k rows of Some x \<Rightarrow> Some x
      | None \<Rightarrow> if key r = k then Some r else None)"
    by (simp add: row_add_def row_get_append split: option.split)
  show "map key (row_add r rows) = map key rows @ [key r]"
    by (simp add: row_add_def)
qed

lemma set_row_add [simp]: "set (row_add r rows) = insert r (set rows)"
  by (simp add: row_add_def)

lemma first_by_SomeD: "first_by f P rows = Some r \<Longrightarrow> r \<in> set rows \<and> P r"
proof -
  assume "first_by f P rows = Some r"
  then obtain rs where "sort_key f (filter P rows) = r # rs"
    by (auto simp: first_by_def split: list.splits)
  then have "r \<in> set (sort_key f (filter P rows))" by (simp only: list.set_intros(1))
  then show ?thesis by simp
qed

lemma first_by_None_iff: "first_by f P rows = None \<longleftrightarrow> (\<forall>r\<in>set rows. \<not> P r)"
proof -
  have "first_by f P rows = None \<longleftrightarrow> sort_key f (filter P rows) = []"
    by (auto simp: first_by_def split: list.splits)
  also have "\<dots> \<longleftrightarrow> set (sort_key f (filter P rows)) = {}"
    by (simp only: set_empty)
  finally show ?thesis by auto
qed

lemma first_by_least:
  assumes "first_by f P rows = Some r" "x \<in> set rows" "P x"
  shows "f r \<le> f x"
proof -
  obtain rs where rs: "sort_key f (filter P rows) = r # rs"
    using assms(1) by (auto simp: first_by_def split: list.splits)
  have "sorted (map f (r # rs))" unfolding rs [symmetric] by simp
  moreover have "x \<in> set (r # rs)" unfolding rs [symmetric] using assms(2,3) by simp
  ultimately show ?thesis by auto
qed

lemma last_by_SomeD: "last_by f P rows = Some r \<Longrightarrow> r \<in> set rows \<and> P r"
  unfolding last_by_def by (rule first_by_SomeD)

lemma last_by_None_iff: "last_by f P rows = None \<longleftrightarrow> (\<forall>r\<in>set rows. \<not> P r)"
  by (simp add: last_by_def first_by_None_iff)

lemma last_by_greatest: "last_by f P rows = Some r \<Longrightarrow> x \<in> set rows \<Longrightarrow> P x \<Longrightarrow> f x \<le> f r"
  unfolding last_by_def by (drule (2) first_by_least) simp

section \<open>Lemmas on strings\<close>

lemma strip_Nil [simp]: "strip [] = []"
  by (simp add: strip_def)

lemma hd_strip: "strip s \<noteq> [] \<Longrightarrow> \<not> is_space (hd (strip s))"
proof -
  let ?t = "dropWhile is_space s"
  assume ne: "strip s \<noteq> []"
  then have t: "?t \<noteq> []" by (metis dropWhile.simps(1) rev.simps(1) strip_def)
  then have h: "\<not> is_space (hd ?t)" by (rule hd_dropWhile)
  obtain us where us: "rev ?t = us @ dropWhile is_space (rev ?t)"
    using takeWhile_dropWhile_id [of is_space "rev ?t"] by metis
  have "?t = strip s @ rev us"
    using arg_cong [OF us, of rev] by (simp add: strip_def)
  with ne have "hd ?t = hd (strip s)" by (metis hd_append2)
  with h show ?thesis by simp
qed

lemma dropWhile_hd_False: "xs = [] \<or> \<not> P (hd xs) \<Longrightarrow> dropWhile P xs = xs"
  by (cases xs) auto

lemma strip_idem [simp]: "strip (strip s) = strip s"
proof -
  have 1: "dropWhile is_space (strip s) = strip s"
    using hd_strip [of s] by (cases "strip s = []") (auto intro: dropWhile_hd_False)
  have "rev (strip s) = dropWhile is_space (rev (dropWhile is_space s))"
    by (simp add: strip_def)
  then have 2: "dropWhile is_space (rev (strip s)) = rev (strip s)"
    by (simp add: dropWhile_idem)
  show ?thesis using 1 2 by (simp add: strip_def [of "strip s"])
qed

end
