(* ===== verification/Json.thy ===== *)
theory Json
  imports Prelude
begin

text \<open>
  JSON values as the services store and digest them, and the part of Python's \<open>json\<close> module the
  sources use: \<open>json.dumps(value, sort_keys=True, separators=(",", ":"))\<close>, the canonical text every
  digest and every audit hash is computed over.  A float is carried as its \<open>repr\<close> text.  The main
  result is that the canonical text determines the value up to the order of dictionary keys, which
  is what the tamper evidence of the audit chain rests on.
\<close>

section \<open>Values and dictionaries\<close>

datatype json =
    JNull
  | JBool bool
  | JInt int
  | JFloat string
  | JStr string
  | JList "json list"
  | JObj "(string \<times> json) list"

type_synonym dict = "(string \<times> json) list"

definition dict_get :: "dict \<Rightarrow> string \<Rightarrow> json option" where
  "dict_get d k = map_of d k"

text \<open>\<open>d[k] = v\<close> keeps the position of an existing key and appends a new one.\<close>

fun dict_set :: "dict \<Rightarrow> string \<Rightarrow> json \<Rightarrow> dict" where
  "dict_set [] k v = [(k, v)]"
| "dict_set ((k', v') # d) k v = (if k' = k then (k, v) # d else (k', v') # dict_set d k v)"

text \<open>\<open>d | e\<close>\<close>

definition dict_union :: "dict \<Rightarrow> dict \<Rightarrow> dict" where
  "dict_union d e = foldl (\<lambda>acc kv. dict_set acc (fst kv) (snd kv)) d e"

definition j_opt_str :: "string option \<Rightarrow> json" where
  "j_opt_str s = (case s of None \<Rightarrow> JNull | Some x \<Rightarrow> JStr x)"

definition j_strs :: "string list \<Rightarrow> json" where
  "j_strs xs = JList (map JStr xs)"

section \<open>Canonical text\<close>

definition digit :: "nat \<Rightarrow> char" where
  "digit n = ''0123456789'' ! n"

fun nat_str :: "nat \<Rightarrow> string" where
  "nat_str n = (if n < 10 then [digit n] else nat_str (n div 10) @ [digit (n mod 10)])"

declare nat_str.simps [simp del]

definition int_str :: "int \<Rightarrow> string" where
  "int_str i = (if i < 0 then CHR ''-'' # nat_str (nat (- i)) else nat_str (nat i))"

definition hex_digit :: "nat \<Rightarrow> char" where
  "hex_digit n = ''0123456789abcdef'' ! n"

text \<open>The escapes of \<open>json.dumps\<close> with \<open>ensure_ascii\<close> (its default).\<close>

definition esc_char :: "char \<Rightarrow> string" where
  "esc_char c = (let n = of_char c :: nat in
     if n = 34 then [CHR 0x5C, CHR 0x22]
     else if n = 92 then [CHR 0x5C, CHR 0x5C]
     else if n = 10 then [CHR 0x5C, CHR ''n'']
     else if n = 13 then [CHR 0x5C, CHR ''r'']
     else if n = 9 then [CHR 0x5C, CHR ''t'']
     else if n = 12 then [CHR 0x5C, CHR ''f'']
     else if n = 8 then [CHR 0x5C, CHR ''b'']
     else if 32 \<le> n \<and> n \<le> 126 then [c]
     else [CHR 0x5C, CHR ''u'', CHR ''0'', CHR ''0'', hex_digit (n div 16), hex_digit (n mod 16)])"

definition str_text :: "string \<Rightarrow> string" where
  "str_text s = CHR 0x22 # concat (map esc_char s) @ [CHR 0x22]"

fun render :: "json \<Rightarrow> string"
  and render_elems :: "json list \<Rightarrow> string"
  and render_members :: "(string \<times> json) list \<Rightarrow> string" where
  "render JNull = ''null''"
| "render (JBool b) = (if b then ''true'' else ''false'')"
| "render (JInt i) = int_str i"
| "render (JFloat t) = t"
| "render (JStr s) = str_text s"
| "render (JList xs) = ''['' @ render_elems xs @ '']''"
| "render (JObj kvs) = ''{'' @ render_members kvs @ ''}''"
| "render_elems [] = []"
| "render_elems (x # xs) = render x @ (if xs = [] then [] else '','' @ render_elems xs)"
| "render_members [] = []"
| "render_members (kv # kvs) = str_text (fst kv) @ '':'' @ render (snd kv) @
     (if kvs = [] then [] else '','' @ render_members kvs)"

primrec sort_keys :: "json \<Rightarrow> json" where
  "sort_keys JNull = JNull"
| "sort_keys (JBool b) = JBool b"
| "sort_keys (JInt i) = JInt i"
| "sort_keys (JFloat t) = JFloat t"
| "sort_keys (JStr s) = JStr s"
| "sort_keys (JList xs) = JList (map sort_keys xs)"
| "sort_keys (JObj kvs) = JObj (sort_key fst (map (map_prod id sort_keys) kvs))"

definition dumps :: "json \<Rightarrow> string" where
  "dumps j = render (sort_keys j)"

text \<open>
  What Python guarantees of a value: dictionary keys are distinct, and the text of a float is one
  \<open>repr\<close> or \<open>json\<close> prints (digits with a point or an exponent, \<open>NaN\<close>, \<open>Infinity\<close>).
\<close>

definition num_char :: "char \<Rightarrow> bool" where
  "num_char c \<longleftrightarrow> c \<in> set ''0123456789+-.eNaInfity''"

definition int_char :: "char \<Rightarrow> bool" where
  "int_char c \<longleftrightarrow> c \<in> set ''0123456789-''"

definition float_text :: "string \<Rightarrow> bool" where
  "float_text t \<longleftrightarrow> t \<noteq> [] \<and> list_all num_char t \<and> list_ex (\<lambda>c. \<not> int_char c) t \<and>
     hd t \<in> set ''0123456789-NI''"

primrec json_ok :: "json \<Rightarrow> bool" where
  "json_ok JNull = True"
| "json_ok (JBool b) = True"
| "json_ok (JInt i) = True"
| "json_ok (JFloat t) = float_text t"
| "json_ok (JStr s) = True"
| "json_ok (JList xs) = list_all id (map json_ok xs)"
| "json_ok (JObj kvs) = (distinct (map fst kvs) \<and> list_all snd (map (map_prod id json_ok) kvs))"

definition json_eq :: "json \<Rightarrow> json \<Rightarrow> bool" where
  "json_eq a b \<longleftrightarrow> sort_keys a = sort_keys b"

text \<open>The digests: \<open>sha256(json.dumps(value, \<dots>).encode()).hexdigest()\<close>, for the hash \<open>sha\<close>.\<close>

definition digest :: "(string \<Rightarrow> string) \<Rightarrow> json \<Rightarrow> string" where
  "digest sha v = sha (dumps v)"

section \<open>Dictionaries: lookup after update\<close>

lemma dict_get_set: "dict_get (dict_set d k v) k' = (if k = k' then Some v else dict_get d k')"
  by (induction d k v rule: dict_set.induct) (auto simp: dict_get_def)

lemma keys_dict_set: "fst ` set (dict_set d k v) = insert k (fst ` set d)"
  by (induction d k v rule: dict_set.induct) auto

lemma distinct_dict_set: "distinct (map fst d) \<Longrightarrow> distinct (map fst (dict_set d k v))"
  by (induction d k v rule: dict_set.induct) (simp_all add: keys_dict_set, blast)

lemma dict_get_union:
  "dict_get (dict_union d e) k = (case map_of (rev e) k of Some v \<Rightarrow> Some v | None \<Rightarrow> dict_get d k)"
  by (induction e arbitrary: d)
    (auto simp: dict_union_def dict_get_set map_add_def split: option.splits)

section \<open>The canonical text is injective\<close>

subsection \<open>Numbers\<close>

lemma less_10_cases: "n < 10 \<Longrightarrow> n \<in> {0, 1, 2, 3, 4, 5, 6, 7, 8, 9 :: nat}"
  by auto

lemma less_16_cases: "n < 16 \<Longrightarrow> n \<in> {0, 1, 2, 3, 4, 5, 6, 7, 8, 9, 10, 11, 12, 13, 14, 15 :: nat}"
  by (simp, arith)

definition digit_val :: "char \<Rightarrow> nat" where
  "digit_val c = of_char c - 48"

lemma digit_val_digit [simp]: "n < 10 \<Longrightarrow> digit_val (digit n) = n"
  by (drule less_10_cases) (auto simp: digit_val_def digit_def)

lemma nat_str_value: "foldl (\<lambda>a c. 10 * a + digit_val c) 0 (nat_str n) = n"
proof (induction n rule: nat_str.induct)
  case (1 n)
  show ?case
  proof (cases "n < 10")
    case True
    then show ?thesis by (subst nat_str.simps) simp
  next
    case False
    with 1 show ?thesis by (subst nat_str.simps) simp
  qed
qed

lemma nat_str_inj: "nat_str m = nat_str n \<Longrightarrow> m = n"
  by (metis nat_str_value)

lemma digit_cases: "n < 10 \<Longrightarrow> digit n \<in> set ''0123456789''"
  by (drule less_10_cases) (auto simp: digit_def)

lemma nat_str_digits: "set (nat_str n) \<subseteq> set ''0123456789''"
proof (induction n rule: nat_str.induct)
  case (1 n)
  show ?case
  proof (cases "n < 10")
    case True
    then show ?thesis using digit_cases [of n] by (subst nat_str.simps) auto
  next
    case False
    then show ?thesis using 1 digit_cases [of "n mod 10"] by (subst nat_str.simps) auto
  qed
qed

lemma nat_str_not_Nil [simp]: "nat_str n \<noteq> []"
  by (subst nat_str.simps) simp

lemma int_str_inj: "int_str i = int_str j \<Longrightarrow> i = j"
proof -
  have neg: "nat_str m \<noteq> CHR ''-'' # nat_str n" for m n
    using nat_str_digits [of m] by auto
  assume eq: "int_str i = int_str j"
  show ?thesis
  proof (cases "i < 0")
    case True
    with eq neg have j: "j < 0" and "nat_str (nat (- i)) = nat_str (nat (- j))"
      by (auto simp: int_str_def split: if_splits dest: neg [THEN notE, OF sym])
    from this(2) have "nat (- i) = nat (- j)" by (rule nat_str_inj)
    with True j show ?thesis by simp
  next
    case False
    with eq neg have j: "\<not> j < 0" and "nat_str (nat i) = nat_str (nat j)"
      by (auto simp: int_str_def split: if_splits)
    from this(2) have "nat i = nat j" by (rule nat_str_inj)
    with False j show ?thesis by simp
  qed
qed

lemma int_str_chars: "list_all int_char (int_str i)"
  using nat_str_digits by (fastforce simp: int_str_def int_char_def list_all_iff)

lemma int_str_hd: "int_str i \<noteq> []" "hd (int_str i) \<in> set ''0123456789-''"
proof -
  show "int_str i \<noteq> []" by (simp add: int_str_def)
  then have "hd (int_str i) \<in> set (int_str i)" by simp
  then show "hd (int_str i) \<in> set ''0123456789-''"
    using int_str_chars [of i] by (auto simp: list_all_iff int_char_def)
qed

text \<open>A number ends where the text continues with a delimiter or stops.\<close>

definition delim :: "string \<Rightarrow> bool" where
  "delim r \<longleftrightarrow> r = [] \<or> hd r \<in> set '',]}''"

lemma int_char_num_char: "int_char c \<Longrightarrow> num_char c"
  by (auto simp: int_char_def num_char_def)

lemma num_split:
  assumes "list_all num_char t" "list_all num_char t'" "delim r" "delim r'" "t @ r = t' @ r'"
  shows "t = t' \<and> r = r'"
proof -
  have nd: "r = [] \<or> \<not> num_char (hd r)" if "delim r" for r
    using that by (auto simp: delim_def num_char_def)
  have tk: "takeWhile num_char (t @ r) = t" if "list_all num_char t" "delim r" for t r
    using that nd [of r]
    by (cases r) (auto simp: takeWhile_append1 takeWhile_append2 list_all_iff takeWhile_tail)
  from assms have "t = t'" using tk [of t r] tk [of t' r'] by simp
  with assms(5) show ?thesis by simp
qed

subsection \<open>Strings\<close>

definition hex_val :: "char \<Rightarrow> nat" where
  "hex_val c = (let n = of_char c in if n < 58 then n - 48 else n - 87)"

lemma hex_val_digit [simp]: "n < 16 \<Longrightarrow> hex_val (hex_digit n) = n"
  by (drule less_16_cases) (auto simp: hex_val_def hex_digit_def)

text \<open>A decoder of one escaped character, left inverse to \<open>esc_char\<close>.\<close>

definition unesc :: "string \<Rightarrow> char \<times> string" where
  "unesc t = (case t of c # r \<Rightarrow>
     if of_char c = (92::nat) then
       (case r of d # r' \<Rightarrow>
          if d = CHR ''u'' then (char_of (16 * hex_val (r' ! 2) + hex_val (r' ! 3)), drop 4 r')
          else if d = CHR ''n'' then (CHR 0x0A, r')
          else if d = CHR ''r'' then (CHR 0x0D, r')
          else if d = CHR ''t'' then (CHR 0x09, r')
          else if d = CHR ''f'' then (CHR 0x0C, r')
          else if d = CHR ''b'' then (CHR 0x08, r')
          else (d, r')
        | [] \<Rightarrow> (c, []))
     else (c, r)
   | [] \<Rightarrow> (CHR 0x00, []))"

lemma char_eqI: "of_char c = (of_char d :: nat) \<Longrightarrow> c = d"
  by (metis of_char_eq_iff)

lemma of_char_lt: "(of_char c :: nat) < 256"
  by (metis nat_of_char_less_256)

lemma unesc_esc: "unesc (esc_char c @ r) = (c, r)"
proof -
  let ?n = "of_char c :: nat"
  have c: "c = char_of ?n" by simp
  have hex: "?n div 16 < 16" "?n mod 16 < 16" "16 * (?n div 16) + ?n mod 16 = ?n"
    using of_char_lt [of c] by (auto simp: less_mult_imp_div_less)
  consider "?n \<in> {34, 92, 10, 13, 9, 12, 8}" | "?n \<notin> {34, 92, 10, 13, 9, 12, 8}" by blast
  then show ?thesis
  proof cases
    case 1
    then show ?thesis by (auto simp: esc_char_def unesc_def Let_def intro!: char_eqI)
  next
    case 2
    then show ?thesis using hex by (auto simp: esc_char_def unesc_def Let_def)
  qed
qed

lemma esc_char_inj: "esc_char c @ r = esc_char d @ s \<Longrightarrow> c = d \<and> r = s"
  by (metis Pair_inject unesc_esc)

lemma esc_char_hd: "esc_char c \<noteq> []" "hd (esc_char c) \<noteq> CHR 0x22"
  by (auto simp: esc_char_def Let_def)

lemma esc_string_inj:
  "concat (map esc_char s) @ CHR 0x22 # r = concat (map esc_char s') @ CHR 0x22 # r'
   \<Longrightarrow> s = s' \<and> r = r'"
proof (induction s arbitrary: s')
  case Nil
  show ?case
  proof (cases s')
    case Nil
    with Nil.prems show ?thesis by simp
  next
    case (Cons d t)
    with Nil.prems have "hd (esc_char d @ concat (map esc_char t) @ CHR 0x22 # r') =
        CHR 0x22" by (metis append.assoc append_Nil concat.simps(1) concat.simps(2)
          list.sel(1) list.simps(8) list.simps(9))
    with esc_char_hd [of d] show ?thesis by simp
  qed
next
  case (Cons c s)
  show ?case
  proof (cases s')
    case Nil
    with Cons.prems have "hd (esc_char c @ concat (map esc_char s) @ CHR 0x22 # r) =
        CHR 0x22" by simp
    with esc_char_hd [of c] show ?thesis by simp
  next
    case (Cons d t)
    with Cons.prems have "esc_char c @ (concat (map esc_char s) @ CHR 0x22 # r) =
        esc_char d @ (concat (map esc_char t) @ CHR 0x22 # r')" by simp
    then have "c = d" "concat (map esc_char s) @ CHR 0x22 # r =
        concat (map esc_char t) @ CHR 0x22 # r'" using esc_char_inj by blast+
    with Cons.IH [of t] show ?thesis using \<open>s' = d # t\<close> by simp
  qed
qed

lemma str_text_inj: "str_text s @ r = str_text s' @ r' \<Longrightarrow> s = s' \<and> r = r'"
  using esc_string_inj [of s r s' r'] by (simp add: str_text_def)

subsection \<open>Values\<close>

definition head_class :: "json \<Rightarrow> char set" where
  "head_class j = (case j of JNull \<Rightarrow> {CHR ''n''} | JBool b \<Rightarrow> {if b then CHR ''t'' else CHR ''f''}
     | JInt _ \<Rightarrow> set ''0123456789-NI'' | JFloat _ \<Rightarrow> set ''0123456789-NI''
     | JStr _ \<Rightarrow> {CHR 0x22} | JList _ \<Rightarrow> {CHR ''[''} | JObj _ \<Rightarrow> {CHR ''{''})"

lemma render_hd: "json_ok j \<Longrightarrow> render j \<noteq> [] \<and> hd (render j) \<in> head_class j"
proof (cases j)
  case (JInt i)
  have "hd (int_str i) \<in> set ''0123456789-NI''" using int_str_hd(2) [of i] by auto
  with JInt int_str_hd(1) [of i] show ?thesis by (simp add: head_class_def del: set_simps)
next
  case (JFloat t)
  assume "json_ok j"
  with JFloat show ?thesis by (simp add: head_class_def float_text_def del: set_simps)
qed (auto simp: head_class_def str_text_def)

lemma render_hd_append: "json_ok j \<Longrightarrow> hd (render j @ r) \<in> head_class j"
  using render_hd [of j] by simp

lemma head_class_not_delim: "c \<in> head_class j \<Longrightarrow> c \<notin> set '',]}''"
  by (cases j) (auto simp: head_class_def)

lemma render_not_delim: "json_ok y \<Longrightarrow> c \<in> set '',]}'' \<Longrightarrow> render y @ z \<noteq> c # w"
  using render_hd_append [of y z] head_class_not_delim [of c y] by (metis list.sel(1))

definition is_num :: "json \<Rightarrow> bool" where
  "is_num j = (case j of JInt _ \<Rightarrow> True | JFloat _ \<Rightarrow> True | _ \<Rightarrow> False)"

lemma is_num_cases: "is_num j \<Longrightarrow> (\<exists>i. j = JInt i) \<or> (\<exists>t. j = JFloat t)"
  by (cases j) (auto simp: is_num_def)

lemma render_num_chars: "json_ok j \<Longrightarrow> is_num j \<Longrightarrow> list_all num_char (render j)"
  using int_str_chars int_char_num_char
  by (auto dest!: is_num_cases simp: float_text_def list_all_iff)

lemma render_num_inj:
  assumes "json_ok j" "json_ok j'" "is_num j" "is_num j'" "render j = render j'"
  shows "j = j'"
proof -
  have no: "float_text (int_str i) = False" for i
    using int_str_chars [of i] by (auto simp: float_text_def list_all_iff list_ex_iff)
  from assms show ?thesis
    by (auto dest!: is_num_cases int_str_inj simp: no)
qed

lemma class_disjoint:
  assumes "head_class j \<inter> head_class j' \<noteq> {}"
  shows "(is_num j \<and> is_num j') \<or> (j = JNull \<and> j' = JNull) \<or> (\<exists>b. j = JBool b \<and> j' = JBool b) \<or>
    (\<exists>s s'. j = JStr s \<and> j' = JStr s') \<or> (\<exists>x x'. j = JList x \<and> j' = JList x') \<or>
    (\<exists>d d'. j = JObj d \<and> j' = JObj d')"
  using assms by (cases j; cases j') (auto simp: head_class_def is_num_def split: if_splits)

text \<open>The text of a value, followed by a delimiter, fixes the value and the rest.\<close>

definition rigid :: "json \<Rightarrow> bool" where
  "rigid j \<longleftrightarrow> (\<forall>j' r r'. json_ok j \<longrightarrow> json_ok j' \<longrightarrow> delim r \<longrightarrow> delim r' \<longrightarrow>
     render j @ r = render j' @ r' \<longrightarrow> j = j' \<and> r = r')"

lemma rigidD: "rigid j \<Longrightarrow> json_ok j \<Longrightarrow> json_ok j' \<Longrightarrow> delim r \<Longrightarrow> delim r' \<Longrightarrow>
    render j @ r = render j' @ r' \<Longrightarrow> j = j' \<and> r = r'"
  unfolding rigid_def by blast

lemma delimI [simp, intro]: "delim (CHR '','' # r)" "delim (CHR '']'' # r)" "delim (CHR ''}'' # r)" "delim []"
  by (simp_all add: delim_def)

lemma elems_inj:
  assumes "\<forall>x\<in>set xs. rigid x" "\<forall>x\<in>set xs. json_ok x" "\<forall>x\<in>set xs'. json_ok x"
    "render_elems xs @ CHR '']'' # r = render_elems xs' @ CHR '']'' # r'"
  shows "xs = xs' \<and> r = r'"
  using assms
proof (induction xs arbitrary: xs')
  case Nil
  show ?case
  proof (cases xs')
    case (Cons y ys)
    with Nil.prems(3,4) render_not_delim [of y "CHR '']''", THEN not_sym] show ?thesis by auto
  qed (use Nil.prems in auto)
next
  case (Cons x xs)
  show ?case
  proof (cases xs')
    case Nil
    with Cons.prems(2,4) render_not_delim [of x "CHR '']''"] show ?thesis by auto
  next
    case (Cons y ys)
    let ?t = "\<lambda>zs r. (if zs = [] then [] else '','' @ render_elems zs) @ CHR '']'' # r"
    have "render x @ ?t xs r = render y @ ?t ys r'" using Cons.prems(4) Cons by simp
    moreover have "delim (?t xs r)" "delim (?t ys r')" by (auto split: if_splits)
    ultimately have xy: "x = y" and t: "?t xs r = ?t ys r'"
      using rigidD [of x y "?t xs r" "?t ys r'"] Cons.prems(1-3) Cons by auto
    from t have "xs = ys \<and> r = r'"
      using Cons.IH [of ys] Cons.prems(1-3) Cons by (auto split: if_splits)
    with xy Cons show ?thesis by simp
  qed
qed

lemma members_inj:
  assumes "\<forall>kv\<in>set d. rigid (snd kv)" "\<forall>kv\<in>set d. json_ok (snd kv)" "\<forall>kv\<in>set d'. json_ok (snd kv)"
    "render_members d @ CHR ''}'' # r = render_members d' @ CHR ''}'' # r'"
  shows "d = d' \<and> r = r'"
  using assms
proof (induction d arbitrary: d')
  case Nil
  then show ?case by (cases d') (auto simp: str_text_def)
next
  case (Cons kv d)
  show ?case
  proof (cases d')
    case Nil
    with Cons.prems(4) show ?thesis by (simp add: str_text_def)
  next
    case (Cons kv' e)
    let ?t = "\<lambda>zs r. (if zs = [] then [] else '','' @ render_members zs) @ CHR ''}'' # r"
    have "str_text (fst kv) @ ('':'' @ render (snd kv) @ ?t d r) =
        str_text (fst kv') @ ('':'' @ render (snd kv') @ ?t e r')" using Cons.prems(4) Cons by simp
    note kv = str_text_inj [OF this]
    from kv have k: "fst kv = fst kv'" by (rule conjunct1)
    from kv have v: "render (snd kv) @ ?t d r = render (snd kv') @ ?t e r'" by simp
    have "delim (?t d r)" "delim (?t e r')" by (auto split: if_splits)
    then have w: "snd kv = snd kv'" and t: "?t d r = ?t e r'"
      using rigidD [OF _ _ _ _ _ v] Cons.prems(1-3) Cons by auto
    from t have "d = e \<and> r = r'"
      using Cons.IH [of e] Cons.prems(1-3) Cons by (auto split: if_splits)
    with k w Cons show ?thesis by (simp add: prod_eq_iff)
  qed
qed

lemma json_ok_JList: "json_ok (JList xs) \<longleftrightarrow> (\<forall>x\<in>set xs. json_ok x)"
  by (simp add: list_all_iff)

lemma json_ok_JObj: "json_ok (JObj d) \<longleftrightarrow> distinct (map fst d) \<and> (\<forall>kv\<in>set d. json_ok (snd kv))"
  by (auto simp: list_all_iff)

lemma render_common:
  assumes "json_ok j" "json_ok j'" "render j @ r = render j' @ r'"
  shows "head_class j \<inter> head_class j' \<noteq> {}"
  using assms render_hd_append [of j r] render_hd_append [of j' r'] by auto

lemmas render_same_class = class_disjoint [OF render_common]

lemma rigid_num: "is_num j \<Longrightarrow> rigid j"
  unfolding rigid_def
proof (intro allI impI)
  fix j' r r'
  assume n: "is_num j" and a: "json_ok j" "json_ok j'" and d: "delim r" "delim r'"
    and eq: "render j @ r = render j' @ r'"
  from render_same_class [OF a eq] n have n': "is_num j'" by (auto simp: is_num_def)
  have "render j = render j' \<and> r = r'"
    using num_split [OF render_num_chars [OF a(1) n] render_num_chars [OF a(2) n'] d eq] .
  then show "j = j' \<and> r = r'" using render_num_inj [OF a n n'] by simp
qed

lemma rigid_all: "rigid j"
proof (induction j)
  case (JList xs)
  show ?case unfolding rigid_def
  proof (intro allI impI)
    fix j' r r'
    assume a: "json_ok (JList xs)" "json_ok j'" "render (JList xs) @ r = render j' @ r'"
    from render_same_class [OF a] obtain xs' where j': "j' = JList xs'" by (auto simp: is_num_def)
    then have "xs = xs' \<and> r = r'"
      using elems_inj [of xs xs' r r'] JList a by (simp add: json_ok_JList del: json_ok.simps(6))
    with j' show "JList xs = j' \<and> r = r'" by simp
  qed
next
  case (JObj d)
  have rig: "\<forall>kv\<in>set d. rigid (snd kv)" using JObj by fastforce
  show ?case unfolding rigid_def
  proof (intro allI impI)
    fix j' r r'
    assume a: "json_ok (JObj d)" "json_ok j'" "render (JObj d) @ r = render j' @ r'"
    from render_same_class [OF a] obtain d' where j': "j' = JObj d'" by (auto simp: is_num_def)
    then have "d = d' \<and> r = r'"
      using members_inj [of d d' r r'] rig a by (simp add: json_ok_JObj del: json_ok.simps(7))
    with j' show "JObj d = j' \<and> r = r'" by simp
  qed
next
  case (JStr s)
  show ?case unfolding rigid_def
  proof (intro allI impI)
    fix j' r r'
    assume a: "json_ok (JStr s)" "json_ok j'" "render (JStr s) @ r = render j' @ r'"
    from render_same_class [OF a] obtain s' where j': "j' = JStr s'" by (auto simp: is_num_def)
    with a(3) str_text_inj [of s r s' r'] show "JStr s = j' \<and> r = r'" by simp
  qed
next
  case JNull
  show ?case unfolding rigid_def
  proof (intro allI impI)
    fix j' r r'
    assume a: "json_ok JNull" "json_ok j'" "render JNull @ r = render j' @ r'"
    from render_same_class [OF a] have "j' = JNull" by (auto simp: is_num_def)
    with a(3) show "JNull = j' \<and> r = r'" by simp
  qed
next
  case (JBool b)
  show ?case unfolding rigid_def
  proof (intro allI impI)
    fix j' r r'
    assume a: "json_ok (JBool b)" "json_ok j'" "render (JBool b) @ r = render j' @ r'"
    from render_same_class [OF a] have "j' = JBool b" by (auto simp: is_num_def)
    with a(3) show "JBool b = j' \<and> r = r'" by simp
  qed
qed (auto intro: rigid_num simp: is_num_def)

lemma render_inj: "json_ok j \<Longrightarrow> json_ok j' \<Longrightarrow> render j = render j' \<Longrightarrow> j = j'"
  using rigidD [OF rigid_all [of j], of j' "[]" "[]"] by simp

subsection \<open>Sorting the keys\<close>

lemma distinct_keys_sort: "distinct (map fst (sort_key fst d)) \<longleftrightarrow> distinct (map fst d)"
  by (simp add: distinct_map)

lemma json_ok_sort_keys: "json_ok j \<Longrightarrow> json_ok (sort_keys j)"
proof (induction j)
  case (JObj d)
  have "distinct (map fst (sort_key fst (map (map_prod id sort_keys) d)))"
    using JObj.prems unfolding distinct_keys_sort by (simp add: json_ok_JObj comp_def del: json_ok.simps)
  moreover have "json_ok (snd kv)" if "kv \<in> set (sort_key fst (map (map_prod id sort_keys) d))" for kv
    using that JObj by (fastforce simp: json_ok_JObj simp del: json_ok.simps)
  ultimately show ?case by (simp add: json_ok_JObj del: json_ok.simps)
qed (auto simp: json_ok_JList simp del: json_ok.simps(6))

text \<open>
  The canonical text determines the value up to the order of keys: two values with the same text
  are equal as Python values.
\<close>

theorem dumps_inj: "json_ok a \<Longrightarrow> json_ok b \<Longrightarrow> dumps a = dumps b \<Longrightarrow> json_eq a b"
  unfolding dumps_def json_eq_def by (blast intro: render_inj json_ok_sort_keys)

lemma dumps_eq_iff: "json_ok a \<Longrightarrow> json_ok b \<Longrightarrow> dumps a = dumps b \<longleftrightarrow> json_eq a b"
  using dumps_inj by (auto simp: dumps_def json_eq_def)

lemma json_eq_refl [simp]: "json_eq a a"
  by (simp add: json_eq_def)

lemma map_of_sort_key: "distinct (map fst d) \<Longrightarrow> map_of (sort_key fst d) k = map_of d k"
  by (rule map_of_inject_set [THEN iffD2, THEN fun_cong]) (simp_all add: distinct_map)

lemma json_eq_JObj_get:
  assumes "json_ok (JObj d)" "json_ok (JObj e)" "json_eq (JObj d) (JObj e)"
    "map_of d k = Some v" "map_of e k = Some w"
  shows "json_eq v w"
proof -
  let ?f = "\<lambda>d. sort_key fst (map (map_prod id sort_keys) d)"
  have dist: "distinct (map fst (map (map_prod id sort_keys) x))" if "json_ok (JObj x)" for x
    using that by (simp add: json_ok_JObj comp_def del: json_ok.simps)
  have m: "map_of (map (map_prod id sort_keys) x) k = map_option sort_keys (map_of x k)" for x
    by (induction x) auto
  from assms(3) have "map_of (?f d) k = map_of (?f e) k" by (simp add: json_eq_def)
  then have "map_option sort_keys (map_of d k) = map_option sort_keys (map_of e k)"
    using map_of_sort_key [OF dist] assms(1,2) m by metis
  with assms(4,5) show ?thesis by (simp add: json_eq_def)
qed

lemma json_eq_atoms [simp]:
  "json_eq (JStr s) (JStr t) \<longleftrightarrow> s = t"
  "json_eq (JInt i) (JInt j) \<longleftrightarrow> i = j"
  "json_eq (JBool p) (JBool q) \<longleftrightarrow> p = q"
  by (simp_all add: json_eq_def)

end
