(* ===== verification/Domain.thy ===== *)
theory Domain
  imports Json
begin

text \<open>
  The vocabulary of \<open>domain.py\<close>: the enumerations with their database values, the role and task
  tables, the stable error classes and the frozen data classes that travel between the services,
  the providers and the executors.  An exception is a value of \<open>error\<close>; its message is kept, and
  \<open>error_name\<close> is Python's \<open>type(exc).__name__\<close>.  An error a provider or an adapter raises that is not
  one of the declared classes is \<open>OtherError\<close> with the name of its class.
\<close>

section \<open>Enumerations\<close>

datatype workflow_state =
    WS_CREATED | WS_PLANNING | WS_ARCHITECTURE_REVIEW | WS_APPROVED_FOR_IMPLEMENTATION
  | WS_IMPLEMENTING | WS_TESTING | WS_SECURITY_REVIEW | WS_CODE_REVIEW
  | WS_AWAITING_HUMAN_APPROVAL | WS_APPROVED | WS_MERGED | WS_AWAITING_DEPLOYMENT_APPROVAL
  | WS_DEPLOYED | WS_FAILED | WS_REJECTED | WS_BLOCKED
  | WS_CANCELLED | WS_ROLLBACK_REQUIRED | WS_ROLLED_BACK

fun workflow_state_value :: "workflow_state \<Rightarrow> string" where
  "workflow_state_value WS_CREATED = ''CREATED''"
| "workflow_state_value WS_PLANNING = ''PLANNING''"
| "workflow_state_value WS_ARCHITECTURE_REVIEW = ''ARCHITECTURE_REVIEW''"
| "workflow_state_value WS_APPROVED_FOR_IMPLEMENTATION = ''APPROVED_FOR_IMPLEMENTATION''"
| "workflow_state_value WS_IMPLEMENTING = ''IMPLEMENTING''"
| "workflow_state_value WS_TESTING = ''TESTING''"
| "workflow_state_value WS_SECURITY_REVIEW = ''SECURITY_REVIEW''"
| "workflow_state_value WS_CODE_REVIEW = ''CODE_REVIEW''"
| "workflow_state_value WS_AWAITING_HUMAN_APPROVAL = ''AWAITING_HUMAN_APPROVAL''"
| "workflow_state_value WS_APPROVED = ''APPROVED''"
| "workflow_state_value WS_MERGED = ''MERGED''"
| "workflow_state_value WS_AWAITING_DEPLOYMENT_APPROVAL = ''AWAITING_DEPLOYMENT_APPROVAL''"
| "workflow_state_value WS_DEPLOYED = ''DEPLOYED''"
| "workflow_state_value WS_FAILED = ''FAILED''"
| "workflow_state_value WS_REJECTED = ''REJECTED''"
| "workflow_state_value WS_BLOCKED = ''BLOCKED''"
| "workflow_state_value WS_CANCELLED = ''CANCELLED''"
| "workflow_state_value WS_ROLLBACK_REQUIRED = ''ROLLBACK_REQUIRED''"
| "workflow_state_value WS_ROLLED_BACK = ''ROLLED_BACK''"

datatype task_status =
    TS_PENDING | TS_READY | TS_LEASED | TS_RUNNING
  | TS_SUCCEEDED | TS_FAILED | TS_TIMED_OUT | TS_CANCELLED
  | TS_BLOCKED | TS_RECONCILED

fun task_status_value :: "task_status \<Rightarrow> string" where
  "task_status_value TS_PENDING = ''PENDING''"
| "task_status_value TS_READY = ''READY''"
| "task_status_value TS_LEASED = ''LEASED''"
| "task_status_value TS_RUNNING = ''RUNNING''"
| "task_status_value TS_SUCCEEDED = ''SUCCEEDED''"
| "task_status_value TS_FAILED = ''FAILED''"
| "task_status_value TS_TIMED_OUT = ''TIMED_OUT''"
| "task_status_value TS_CANCELLED = ''CANCELLED''"
| "task_status_value TS_BLOCKED = ''BLOCKED''"
| "task_status_value TS_RECONCILED = ''RECONCILED''"

datatype principal_type =
    PT_HUMAN | PT_AGENT | PT_SERVICE | PT_INTEGRATION

fun principal_type_value :: "principal_type \<Rightarrow> string" where
  "principal_type_value PT_HUMAN = ''HUMAN''"
| "principal_type_value PT_AGENT = ''AGENT''"
| "principal_type_value PT_SERVICE = ''SERVICE''"
| "principal_type_value PT_INTEGRATION = ''INTEGRATION''"

datatype agent_role =
    AR_ARCHITECT | AR_REVIEWER | AR_IMPLEMENTER | AR_TEST_AGENT
  | AR_SECURITY_AGENT | AR_DOCUMENTATION_AGENT | AR_ORCHESTRATOR | AR_HUMAN_APPROVER
  | AR_AUDITOR | AR_IDE_INTEGRATION | AR_CI_INTEGRATION | AR_REMOTE_AGENT_INTEGRATION

fun agent_role_value :: "agent_role \<Rightarrow> string" where
  "agent_role_value AR_ARCHITECT = ''ARCHITECT''"
| "agent_role_value AR_REVIEWER = ''REVIEWER''"
| "agent_role_value AR_IMPLEMENTER = ''IMPLEMENTER''"
| "agent_role_value AR_TEST_AGENT = ''TEST_AGENT''"
| "agent_role_value AR_SECURITY_AGENT = ''SECURITY_AGENT''"
| "agent_role_value AR_DOCUMENTATION_AGENT = ''DOCUMENTATION_AGENT''"
| "agent_role_value AR_ORCHESTRATOR = ''ORCHESTRATOR''"
| "agent_role_value AR_HUMAN_APPROVER = ''HUMAN_APPROVER''"
| "agent_role_value AR_AUDITOR = ''AUDITOR''"
| "agent_role_value AR_IDE_INTEGRATION = ''IDE_INTEGRATION''"
| "agent_role_value AR_CI_INTEGRATION = ''CI_INTEGRATION''"
| "agent_role_value AR_REMOTE_AGENT_INTEGRATION = ''REMOTE_AGENT_INTEGRATION''"

datatype capability =
    CAP_SUBMIT_WORKFLOW | CAP_READ_WORKFLOW | CAP_CANCEL_WORKFLOW | CAP_LEASE_TASK
  | CAP_PRODUCE_PLAN | CAP_REVIEW_ARCHITECTURE | CAP_IMPLEMENT_CHANGE | CAP_RUN_TESTS
  | CAP_RUN_SECURITY_REVIEW | CAP_RUN_CODE_REVIEW | CAP_APPROVE_MERGE | CAP_APPROVE_DEPLOYMENT
  | CAP_READ_AUDIT | CAP_DISPOSITION_WORKFLOW | CAP_RECONCILE_EXECUTION | CAP_CLAIM_IDE_TASK
  | CAP_HEARTBEAT_IDE_TASK | CAP_SUBMIT_IDE_EVIDENCE | CAP_SUBMIT_CI_EVIDENCE | CAP_PROPOSE_PULL_REQUEST
  | CAP_ASSESS_MERGE_READINESS | CAP_RECONCILE_GIT_OPERATION | CAP_CONFIRM_GIT_MERGE | CAP_MANAGE_DEPLOYMENT_ENVIRONMENTS
  | CAP_CREATE_DEPLOYMENT_PLAN | CAP_EXECUTE_DEPLOYMENT | CAP_APPROVE_ROLLBACK | CAP_EXECUTE_ROLLBACK
  | CAP_READ_DEPLOYMENT | CAP_CREATE_EVALUATION | CAP_SUBMIT_EVALUATION_EVIDENCE | CAP_READ_EVALUATION
  | CAP_EXECUTE_EVALUATION | CAP_VALIDATE_EVALUATION | CAP_RECONCILE_EVALUATION | CAP_PLAN_EVALUATION_REPAIR
  | CAP_RECOVER_EVALUATION | CAP_PROMOTE_EVALUATION | CAP_DISPATCH_REMOTE_AGENT

fun capability_value :: "capability \<Rightarrow> string" where
  "capability_value CAP_SUBMIT_WORKFLOW = ''SUBMIT_WORKFLOW''"
| "capability_value CAP_READ_WORKFLOW = ''READ_WORKFLOW''"
| "capability_value CAP_CANCEL_WORKFLOW = ''CANCEL_WORKFLOW''"
| "capability_value CAP_LEASE_TASK = ''LEASE_TASK''"
| "capability_value CAP_PRODUCE_PLAN = ''PRODUCE_PLAN''"
| "capability_value CAP_REVIEW_ARCHITECTURE = ''REVIEW_ARCHITECTURE''"
| "capability_value CAP_IMPLEMENT_CHANGE = ''IMPLEMENT_CHANGE''"
| "capability_value CAP_RUN_TESTS = ''RUN_TESTS''"
| "capability_value CAP_RUN_SECURITY_REVIEW = ''RUN_SECURITY_REVIEW''"
| "capability_value CAP_RUN_CODE_REVIEW = ''RUN_CODE_REVIEW''"
| "capability_value CAP_APPROVE_MERGE = ''APPROVE_MERGE''"
| "capability_value CAP_APPROVE_DEPLOYMENT = ''APPROVE_DEPLOYMENT''"
| "capability_value CAP_READ_AUDIT = ''READ_AUDIT''"
| "capability_value CAP_DISPOSITION_WORKFLOW = ''DISPOSITION_WORKFLOW''"
| "capability_value CAP_RECONCILE_EXECUTION = ''RECONCILE_EXECUTION''"
| "capability_value CAP_CLAIM_IDE_TASK = ''CLAIM_IDE_TASK''"
| "capability_value CAP_HEARTBEAT_IDE_TASK = ''HEARTBEAT_IDE_TASK''"
| "capability_value CAP_SUBMIT_IDE_EVIDENCE = ''SUBMIT_IDE_EVIDENCE''"
| "capability_value CAP_SUBMIT_CI_EVIDENCE = ''SUBMIT_CI_EVIDENCE''"
| "capability_value CAP_PROPOSE_PULL_REQUEST = ''PROPOSE_PULL_REQUEST''"
| "capability_value CAP_ASSESS_MERGE_READINESS = ''ASSESS_MERGE_READINESS''"
| "capability_value CAP_RECONCILE_GIT_OPERATION = ''RECONCILE_GIT_OPERATION''"
| "capability_value CAP_CONFIRM_GIT_MERGE = ''CONFIRM_GIT_MERGE''"
| "capability_value CAP_MANAGE_DEPLOYMENT_ENVIRONMENTS = ''MANAGE_DEPLOYMENT_ENVIRONMENTS''"
| "capability_value CAP_CREATE_DEPLOYMENT_PLAN = ''CREATE_DEPLOYMENT_PLAN''"
| "capability_value CAP_EXECUTE_DEPLOYMENT = ''EXECUTE_DEPLOYMENT''"
| "capability_value CAP_APPROVE_ROLLBACK = ''APPROVE_ROLLBACK''"
| "capability_value CAP_EXECUTE_ROLLBACK = ''EXECUTE_ROLLBACK''"
| "capability_value CAP_READ_DEPLOYMENT = ''READ_DEPLOYMENT''"
| "capability_value CAP_CREATE_EVALUATION = ''CREATE_EVALUATION''"
| "capability_value CAP_SUBMIT_EVALUATION_EVIDENCE = ''SUBMIT_EVALUATION_EVIDENCE''"
| "capability_value CAP_READ_EVALUATION = ''READ_EVALUATION''"
| "capability_value CAP_EXECUTE_EVALUATION = ''EXECUTE_EVALUATION''"
| "capability_value CAP_VALIDATE_EVALUATION = ''VALIDATE_EVALUATION''"
| "capability_value CAP_RECONCILE_EVALUATION = ''RECONCILE_EVALUATION''"
| "capability_value CAP_PLAN_EVALUATION_REPAIR = ''PLAN_EVALUATION_REPAIR''"
| "capability_value CAP_RECOVER_EVALUATION = ''RECOVER_EVALUATION''"
| "capability_value CAP_PROMOTE_EVALUATION = ''PROMOTE_EVALUATION''"
| "capability_value CAP_DISPATCH_REMOTE_AGENT = ''DISPATCH_REMOTE_AGENT''"

datatype approval_action =
    AA_MERGE | AA_DEPLOY | AA_ROLLBACK

fun approval_action_value :: "approval_action \<Rightarrow> string" where
  "approval_action_value AA_MERGE = ''MERGE''"
| "approval_action_value AA_DEPLOY = ''DEPLOY''"
| "approval_action_value AA_ROLLBACK = ''ROLLBACK''"

datatype approval_decision =
    AD_APPROVED | AD_REJECTED

fun approval_decision_value :: "approval_decision \<Rightarrow> string" where
  "approval_decision_value AD_APPROVED = ''APPROVED''"
| "approval_decision_value AD_REJECTED = ''REJECTED''"

datatype disposition_decision =
    DD_RESUME_CONTAINED | DD_REJECT

fun disposition_decision_value :: "disposition_decision \<Rightarrow> string" where
  "disposition_decision_value DD_RESUME_CONTAINED = ''RESUME_CONTAINED''"
| "disposition_decision_value DD_REJECT = ''REJECT''"

datatype reconciliation_decision =
    RD_RETRY | RD_FAIL

fun reconciliation_decision_value :: "reconciliation_decision \<Rightarrow> string" where
  "reconciliation_decision_value RD_RETRY = ''RETRY''"
| "reconciliation_decision_value RD_FAIL = ''FAIL''"

datatype task_kind =
    TK_PLAN | TK_ARCHITECTURE_REVIEW | TK_IMPLEMENT | TK_TEST
  | TK_SECURITY_REVIEW | TK_CODE_REVIEW

fun task_kind_value :: "task_kind \<Rightarrow> string" where
  "task_kind_value TK_PLAN = ''PLAN''"
| "task_kind_value TK_ARCHITECTURE_REVIEW = ''ARCHITECTURE_REVIEW''"
| "task_kind_value TK_IMPLEMENT = ''IMPLEMENT''"
| "task_kind_value TK_TEST = ''TEST''"
| "task_kind_value TK_SECURITY_REVIEW = ''SECURITY_REVIEW''"
| "task_kind_value TK_CODE_REVIEW = ''CODE_REVIEW''"

section \<open>Errors\<close>

datatype error =
    ControlPlaneError string
  | AuthorizationError string
  | AuthenticationError string
  | InvalidTransitionError string
  | ConflictError string
  | NotFoundError string
  | ValidationError string
  | ProviderReviewRejectedError string dict
  | SandboxError string
  | WorkspaceError string
  | IntegrationDisabledError string
  | DeploymentOutcomeUnknownError string
  | DeploymentVerificationError string
  | IntegrationResponseError string
  | ValueError string
  | OtherError string

fun error_name :: "error \<Rightarrow> string" where
  "error_name (ControlPlaneError _) = ''ControlPlaneError''"
| "error_name (AuthorizationError _) = ''AuthorizationError''"
| "error_name (AuthenticationError _) = ''AuthenticationError''"
| "error_name (InvalidTransitionError _) = ''InvalidTransitionError''"
| "error_name (ConflictError _) = ''ConflictError''"
| "error_name (NotFoundError _) = ''NotFoundError''"
| "error_name (ValidationError _) = ''ValidationError''"
| "error_name (ProviderReviewRejectedError _ _) = ''ProviderReviewRejectedError''"
| "error_name (SandboxError _) = ''SandboxError''"
| "error_name (WorkspaceError _) = ''WorkspaceError''"
| "error_name (IntegrationDisabledError _) = ''IntegrationDisabledError''"
| "error_name (DeploymentOutcomeUnknownError _) = ''DeploymentOutcomeUnknownError''"
| "error_name (DeploymentVerificationError _) = ''DeploymentVerificationError''"
| "error_name (IntegrationResponseError _) = ''IntegrationResponseError''"
| "error_name (ValueError _) = ''ValueError''"
| "error_name (OtherError n) = n"

definition is_review_rejected :: "error \<Rightarrow> bool" where
  "is_review_rejected e = (case e of ProviderReviewRejectedError _ _ \<Rightarrow> True | _ \<Rightarrow> False)"

section \<open>Role and task tables\<close>

fun ROLE_CAPABILITIES :: "agent_role \<Rightarrow> capability set" where
  "ROLE_CAPABILITIES AR_ARCHITECT = {CAP_PRODUCE_PLAN, CAP_READ_WORKFLOW}"
| "ROLE_CAPABILITIES AR_REVIEWER = {CAP_REVIEW_ARCHITECTURE, CAP_RUN_CODE_REVIEW, CAP_READ_WORKFLOW}"
| "ROLE_CAPABILITIES AR_IMPLEMENTER = {CAP_IMPLEMENT_CHANGE, CAP_READ_WORKFLOW}"
| "ROLE_CAPABILITIES AR_TEST_AGENT = {CAP_RUN_TESTS, CAP_READ_WORKFLOW}"
| "ROLE_CAPABILITIES AR_SECURITY_AGENT = {CAP_RUN_SECURITY_REVIEW, CAP_READ_WORKFLOW}"
| "ROLE_CAPABILITIES AR_DOCUMENTATION_AGENT = {CAP_READ_WORKFLOW}"
| "ROLE_CAPABILITIES AR_ORCHESTRATOR = {CAP_LEASE_TASK, CAP_READ_WORKFLOW}"
| "ROLE_CAPABILITIES AR_HUMAN_APPROVER = {CAP_SUBMIT_WORKFLOW, CAP_READ_WORKFLOW, CAP_CANCEL_WORKFLOW, CAP_APPROVE_MERGE,
     CAP_APPROVE_DEPLOYMENT, CAP_READ_AUDIT, CAP_DISPOSITION_WORKFLOW,
     CAP_RECONCILE_EXECUTION, CAP_PROPOSE_PULL_REQUEST, CAP_ASSESS_MERGE_READINESS,
     CAP_RECONCILE_GIT_OPERATION, CAP_CONFIRM_GIT_MERGE, CAP_MANAGE_DEPLOYMENT_ENVIRONMENTS,
     CAP_CREATE_DEPLOYMENT_PLAN, CAP_EXECUTE_DEPLOYMENT, CAP_APPROVE_ROLLBACK,
     CAP_EXECUTE_ROLLBACK, CAP_READ_DEPLOYMENT, CAP_CREATE_EVALUATION,
     CAP_SUBMIT_EVALUATION_EVIDENCE, CAP_READ_EVALUATION, CAP_EXECUTE_EVALUATION,
     CAP_VALIDATE_EVALUATION, CAP_RECONCILE_EVALUATION, CAP_PLAN_EVALUATION_REPAIR,
     CAP_RECOVER_EVALUATION, CAP_PROMOTE_EVALUATION, CAP_DISPATCH_REMOTE_AGENT}"
| "ROLE_CAPABILITIES AR_AUDITOR = {CAP_READ_WORKFLOW, CAP_READ_AUDIT, CAP_READ_DEPLOYMENT, CAP_READ_EVALUATION}"
| "ROLE_CAPABILITIES AR_IDE_INTEGRATION = {CAP_CLAIM_IDE_TASK, CAP_HEARTBEAT_IDE_TASK, CAP_SUBMIT_IDE_EVIDENCE}"
| "ROLE_CAPABILITIES AR_CI_INTEGRATION = {CAP_SUBMIT_CI_EVIDENCE}"
| "ROLE_CAPABILITIES AR_REMOTE_AGENT_INTEGRATION = {}"

fun TASK_CAPABILITY :: "task_kind \<Rightarrow> capability" where
  "TASK_CAPABILITY TK_PLAN = CAP_PRODUCE_PLAN"
| "TASK_CAPABILITY TK_ARCHITECTURE_REVIEW = CAP_REVIEW_ARCHITECTURE"
| "TASK_CAPABILITY TK_IMPLEMENT = CAP_IMPLEMENT_CHANGE"
| "TASK_CAPABILITY TK_TEST = CAP_RUN_TESTS"
| "TASK_CAPABILITY TK_SECURITY_REVIEW = CAP_RUN_SECURITY_REVIEW"
| "TASK_CAPABILITY TK_CODE_REVIEW = CAP_RUN_CODE_REVIEW"

fun TASK_ROLE :: "task_kind \<Rightarrow> agent_role" where
  "TASK_ROLE TK_PLAN = AR_ARCHITECT"
| "TASK_ROLE TK_ARCHITECTURE_REVIEW = AR_REVIEWER"
| "TASK_ROLE TK_IMPLEMENT = AR_IMPLEMENTER"
| "TASK_ROLE TK_TEST = AR_TEST_AGENT"
| "TASK_ROLE TK_SECURITY_REVIEW = AR_SECURITY_AGENT"
| "TASK_ROLE TK_CODE_REVIEW = AR_REVIEWER"

section \<open>Requests and results\<close>

record provider_request =
  pr_run_id :: ident
  pr_workflow_id :: ident
  pr_task_id :: ident
  pr_task_kind :: task_kind
  pr_role :: agent_role
  pr_objective :: string
  pr_context :: dict
  pr_required_capability :: capability
  pr_idempotency_key :: string

text \<open>\<open>output\<close> is any JSON value: \<open>validate_provider_result\<close> checks that it is an object.\<close>

record provider_result =
  res_status :: string
  res_output :: json
  res_provider :: string
  res_model :: string
  res_usage :: "(string \<times> int) list"

record execution_result =
  ex_status :: string
  ex_summary :: string
  ex_evidence :: dict
  ex_commands_executed :: "string list"

record execution_context =
  ec_workflow_id :: ident
  ec_task_id :: ident
  ec_repository_scope :: "string option"
  ec_candidate_revision :: "string option"
  ec_containment_required :: bool

section \<open>Facts about the tables\<close>

lemma workflow_state_value_inj: "workflow_state_value a = workflow_state_value b \<longleftrightarrow> a = b"
  by (cases a; cases b; simp)

lemma task_status_value_inj: "task_status_value a = task_status_value b \<longleftrightarrow> a = b"
  by (cases a; cases b; simp)

text \<open>A task's role carries the capability the task requires, so a grant of it is usable.\<close>

lemma task_role_has_capability: "TASK_CAPABILITY k \<in> ROLE_CAPABILITIES (TASK_ROLE k)"
  by (cases k) simp_all

text \<open>The approval capabilities belong to the human approver alone.\<close>

lemma approval_capability_human_approver:
  "c \<in> {CAP_APPROVE_MERGE, CAP_APPROVE_DEPLOYMENT, CAP_APPROVE_ROLLBACK, CAP_DISPOSITION_WORKFLOW,
     CAP_RECONCILE_EXECUTION, CAP_EXECUTE_DEPLOYMENT, CAP_EXECUTE_ROLLBACK, CAP_CONFIRM_GIT_MERGE} \<Longrightarrow>
   c \<in> ROLE_CAPABILITIES r \<Longrightarrow> r = AR_HUMAN_APPROVER"
  by (cases r) auto

end
