(* ===== verification/Routing.thy ===== *)
theory Routing
  imports Domain "HOL-Library.Multiset"
begin

text \<open>
  \<open>routing.py\<close>: provider profiles, capability evidence and the fail-closed router.  Python floats are
  exact rationals here (rounding errors of IEEE arithmetic are not modelled); \<open>round(x, 6)\<close> is
  rounding half to even at the sixth decimal.  A \<open>frozenset\<close> of an enumeration is a set, and
  \<open>sorted\<close> of it is its elements in the order of their values.
\<close>

section \<open>Enumerations\<close>

datatype execution_mode = EM_MODEL | EM_REMOTE_AGENT | EM_IDE_HANDOFF | EM_LOCAL_MODEL

datatype egress_boundary = EB_LOCAL | EB_APPROVED_EXTERNAL

datatype data_classification = DC_PUBLIC | DC_INTERNAL | DC_CONFIDENTIAL | DC_RESTRICTED

datatype risk_level = RL_LOW | RL_MEDIUM | RL_HIGH | RL_CRITICAL

datatype cost_tier = CT_LOW | CT_MEDIUM | CT_HIGH

datatype funding_mode = FM_LOCAL | FM_SUBSCRIPTION | FM_METERED

datatype work_capability =
    WC_PLANNING | WC_ARCHITECTURE | WC_CODE_GENERATION | WC_TEST_DESIGN | WC_TEST_EXECUTION
  | WC_CODE_REVIEW | WC_SECURITY_ANALYSIS | WC_TOOL_PROPOSALS | WC_LONG_RUNNING_EXECUTION
  | WC_INTERACTIVE_IDE

datatype routing_purpose = RP_PRODUCE | RP_REVIEW

datatype routing_objective = RO_BALANCED | RO_QUALITY | RO_SPEED | RO_FRUGAL

text \<open>The integer enumerations compare by their values.\<close>

fun data_classification_rank :: "data_classification \<Rightarrow> nat" where
  "data_classification_rank DC_PUBLIC = 0"
| "data_classification_rank DC_INTERNAL = 1"
| "data_classification_rank DC_CONFIDENTIAL = 2"
| "data_classification_rank DC_RESTRICTED = 3"

fun risk_level_rank :: "risk_level \<Rightarrow> nat" where
  "risk_level_rank RL_LOW = 0"
| "risk_level_rank RL_MEDIUM = 1"
| "risk_level_rank RL_HIGH = 2"
| "risk_level_rank RL_CRITICAL = 3"

fun cost_tier_rank :: "cost_tier \<Rightarrow> nat" where
  "cost_tier_rank CT_LOW = 0"
| "cost_tier_rank CT_MEDIUM = 1"
| "cost_tier_rank CT_HIGH = 2"

lemma data_classification_rank_inj: "data_classification_rank a = data_classification_rank b \<longleftrightarrow> a = b"
  by (cases a; cases b) simp_all

lemma risk_level_rank_inj: "risk_level_rank a = risk_level_rank b \<longleftrightarrow> a = b"
  by (cases a; cases b) simp_all

lemma cost_tier_rank_inj: "cost_tier_rank a = cost_tier_rank b \<longleftrightarrow> a = b"
  by (cases a; cases b) simp_all

instantiation data_classification :: linorder
begin
definition less_eq_data_classification :: "data_classification \<Rightarrow> data_classification \<Rightarrow> bool" where
  "less_eq_data_classification a b \<longleftrightarrow> data_classification_rank a \<le> data_classification_rank b"
definition less_data_classification :: "data_classification \<Rightarrow> data_classification \<Rightarrow> bool" where
  "less_data_classification a b \<longleftrightarrow> data_classification_rank a < data_classification_rank b"
instance
  by standard (auto simp: less_eq_data_classification_def less_data_classification_def
      data_classification_rank_inj)
end

instantiation risk_level :: linorder
begin
definition less_eq_risk_level :: "risk_level \<Rightarrow> risk_level \<Rightarrow> bool" where
  "less_eq_risk_level a b \<longleftrightarrow> risk_level_rank a \<le> risk_level_rank b"
definition less_risk_level :: "risk_level \<Rightarrow> risk_level \<Rightarrow> bool" where
  "less_risk_level a b \<longleftrightarrow> risk_level_rank a < risk_level_rank b"
instance
  by standard (auto simp: less_eq_risk_level_def less_risk_level_def risk_level_rank_inj)
end

instantiation cost_tier :: linorder
begin
definition less_eq_cost_tier :: "cost_tier \<Rightarrow> cost_tier \<Rightarrow> bool" where
  "less_eq_cost_tier a b \<longleftrightarrow> cost_tier_rank a \<le> cost_tier_rank b"
definition less_cost_tier :: "cost_tier \<Rightarrow> cost_tier \<Rightarrow> bool" where
  "less_cost_tier a b \<longleftrightarrow> cost_tier_rank a < cost_tier_rank b"
instance
  by standard (auto simp: less_eq_cost_tier_def less_cost_tier_def cost_tier_rank_inj)
end

lemmas rank_order_defs =
  less_eq_data_classification_def less_data_classification_def
  less_eq_risk_level_def less_risk_level_def less_eq_cost_tier_def less_cost_tier_def

fun work_capability_value :: "work_capability \<Rightarrow> string" where
  "work_capability_value WC_PLANNING = ''PLANNING''"
| "work_capability_value WC_ARCHITECTURE = ''ARCHITECTURE''"
| "work_capability_value WC_CODE_GENERATION = ''CODE_GENERATION''"
| "work_capability_value WC_TEST_DESIGN = ''TEST_DESIGN''"
| "work_capability_value WC_TEST_EXECUTION = ''TEST_EXECUTION''"
| "work_capability_value WC_CODE_REVIEW = ''CODE_REVIEW''"
| "work_capability_value WC_SECURITY_ANALYSIS = ''SECURITY_ANALYSIS''"
| "work_capability_value WC_TOOL_PROPOSALS = ''TOOL_PROPOSALS''"
| "work_capability_value WC_LONG_RUNNING_EXECUTION = ''LONG_RUNNING_EXECUTION''"
| "work_capability_value WC_INTERACTIVE_IDE = ''INTERACTIVE_IDE''"

text \<open>Every work capability, in the order of the values.\<close>

definition work_capabilities_sorted :: "work_capability list" where
  "work_capabilities_sorted = [WC_ARCHITECTURE, WC_CODE_GENERATION, WC_CODE_REVIEW, WC_INTERACTIVE_IDE,
     WC_LONG_RUNNING_EXECUTION, WC_PLANNING, WC_SECURITY_ANALYSIS, WC_TEST_DESIGN, WC_TEST_EXECUTION,
     WC_TOOL_PROPOSALS]"

definition sorted_caps :: "work_capability set \<Rightarrow> work_capability list" where
  "sorted_caps S = filter (\<lambda>c. c \<in> S) work_capabilities_sorted"

fun data_classification_name :: "data_classification \<Rightarrow> string" where
  "data_classification_name DC_PUBLIC = ''PUBLIC''"
| "data_classification_name DC_INTERNAL = ''INTERNAL''"
| "data_classification_name DC_CONFIDENTIAL = ''CONFIDENTIAL''"
| "data_classification_name DC_RESTRICTED = ''RESTRICTED''"

fun risk_level_name :: "risk_level \<Rightarrow> string" where
  "risk_level_name RL_LOW = ''LOW''"
| "risk_level_name RL_MEDIUM = ''MEDIUM''"
| "risk_level_name RL_HIGH = ''HIGH''"
| "risk_level_name RL_CRITICAL = ''CRITICAL''"

section \<open>Weights and evidence\<close>

record objective_weights =
  ow_quality :: rat
  ow_cost :: rat
  ow_latency :: rat

definition objective_weights_post_init :: "objective_weights \<Rightarrow> error + objective_weights" where
  "objective_weights_post_init w =
     (let values = [ow_quality w, ow_cost w, ow_latency w] in
      if list_ex (\<lambda>v. v < 0 \<or> 1 < v) values
      then Inl (ValueError ''objective weights must be between zero and one'')
      else if \<bar>sum_list values - 1\<bar> > 1 / 10 ^ 9
      then Inl (ValueError ''objective weights must sum to one'')
      else Inr w)"

definition OBJECTIVE_PROFILE_VERSION :: string where
  "OBJECTIVE_PROFILE_VERSION = ''routing-objectives/v1''"

fun OBJECTIVE_WEIGHTS :: "routing_objective \<Rightarrow> objective_weights" where
  "OBJECTIVE_WEIGHTS RO_BALANCED = \<lparr>ow_quality = 75/100, ow_cost = 15/100, ow_latency = 10/100\<rparr>"
| "OBJECTIVE_WEIGHTS RO_QUALITY = \<lparr>ow_quality = 90/100, ow_cost = 5/100, ow_latency = 5/100\<rparr>"
| "OBJECTIVE_WEIGHTS RO_SPEED = \<lparr>ow_quality = 55/100, ow_cost = 10/100, ow_latency = 35/100\<rparr>"
| "OBJECTIVE_WEIGHTS RO_FRUGAL = \<lparr>ow_quality = 55/100, ow_cost = 40/100, ow_latency = 5/100\<rparr>"

record capability_evidence =
  ce_sample_count :: int
  ce_success_rate :: rat
  ce_validation_pass_rate :: rat
  ce_p95_latency_seconds :: "rat option"

text \<open>\<open>CapabilityEvidence()\<close>\<close>

definition no_evidence :: capability_evidence where
  "no_evidence = \<lparr>ce_sample_count = 0, ce_success_rate = 0, ce_validation_pass_rate = 0,
     ce_p95_latency_seconds = None\<rparr>"

definition capability_evidence_post_init :: "capability_evidence \<Rightarrow> error + capability_evidence" where
  "capability_evidence_post_init e =
     (if ce_sample_count e < 0 then Inl (ValueError ''sample_count cannot be negative'')
      else if \<not> (0 \<le> ce_success_rate e \<and> ce_success_rate e \<le> 1)
      then Inl (ValueError ''success_rate must be between 0 and 1'')
      else if \<not> (0 \<le> ce_validation_pass_rate e \<and> ce_validation_pass_rate e \<le> 1)
      then Inl (ValueError ''validation_pass_rate must be between 0 and 1'')
      else (case ce_p95_latency_seconds e of
              Some l \<Rightarrow> if l < 0 then Inl (ValueError ''p95_latency_seconds cannot be negative'') else Inr e
            | None \<Rightarrow> Inr e))"

text \<open>The body of \<open>conservative_quality\<close> for a positive \<open>minimum_samples\<close>.\<close>

definition prior_weighted_quality :: "int \<Rightarrow> capability_evidence \<Rightarrow> rat" where
  "prior_weighted_quality minimum_samples e =
     (let observed = (ce_success_rate e + ce_validation_pass_rate e) / 2;
          evidence_weight = min (of_int (ce_sample_count e) / of_int minimum_samples) 1
      in evidence_weight * observed + (1 - evidence_weight) * (1/2))"

definition conservative_quality :: "int \<Rightarrow> capability_evidence \<Rightarrow> error + rat" where
  "conservative_quality minimum_samples e =
     (if minimum_samples \<le> 0 then Inl (ValueError ''minimum_samples must be positive'')
      else Inr (prior_weighted_quality minimum_samples e))"

section \<open>Profiles, requests, decisions\<close>

record provider_profile =
  pp_provider_id :: string
  pp_provider_family :: string
  pp_execution_mode :: execution_mode
  pp_capabilities :: "work_capability set"
  pp_egress_boundary :: egress_boundary
  pp_maximum_data_classification :: data_classification
  pp_cost_tier :: cost_tier
  pp_maximum_risk :: risk_level
  pp_model_version :: string
  pp_profile_version :: string
  pp_enabled :: bool
  pp_healthy :: bool
  pp_evidence :: "work_capability \<Rightarrow> capability_evidence option"
  pp_funding_mode :: funding_mode
  pp_max_invocations_per_execution :: int
  pp_max_invocations_per_workflow :: int

definition provider_profile_post_init :: "provider_profile \<Rightarrow> error + provider_profile" where
  "provider_profile_post_init p =
     (if pp_max_invocations_per_execution p < 0
      then Inl (ValueError ''max_invocations_per_execution must be a nonnegative integer'')
      else if pp_max_invocations_per_workflow p < 0
      then Inl (ValueError ''max_invocations_per_workflow must be a nonnegative integer'')
      else if pp_funding_mode p \<noteq> FM_SUBSCRIPTION \<and>
        (pp_max_invocations_per_execution p \<noteq> 0 \<or> pp_max_invocations_per_workflow p \<noteq> 0)
      then Inl (ValueError ''only subscription providers may define invocation ceilings'')
      else Inr p)"

record routing_request =
  rq_required_capabilities :: "work_capability set"
  rq_data_classification :: data_classification
  rq_risk :: risk_level
  rq_purpose :: routing_purpose
  rq_allowed_egress :: "egress_boundary set"
  rq_allowed_modes :: "execution_mode set"
  rq_maximum_cost_tier :: cost_tier
  rq_minimum_evidence_samples :: int
  rq_producer_provider_id :: "string option"
  rq_producer_family :: "string option"
  rq_objective :: routing_objective

record ranked_candidate =
  rc_provider_id :: string
  rc_score :: rat
  rc_quality_utility :: rat
  rc_cost_utility :: rat
  rc_latency_utility :: rat

record routing_decision =
  rd_selected_provider_id :: "string option"
  rd_ranked_candidates :: "ranked_candidate list"
  rd_rejected :: "(string \<times> string list) list"
  rd_policy_version :: string
  rd_objective :: routing_objective
  rd_objective_profile_version :: string

definition rd_blocked :: "routing_decision \<Rightarrow> bool" where
  "rd_blocked d \<longleftrightarrow> rd_selected_provider_id d = None"

section \<open>The router\<close>

definition evidence_for :: "provider_profile \<Rightarrow> work_capability \<Rightarrow> capability_evidence" where
  "evidence_for p c = (case pp_evidence p c of None \<Rightarrow> no_evidence | Some e \<Rightarrow> e)"

fun join_comma :: "string list \<Rightarrow> string" where
  "join_comma [] = []"
| "join_comma [s] = s"
| "join_comma (s # t # ss) = s @ '','' @ join_comma (t # ss)"

definition rejection_reasons :: "routing_request \<Rightarrow> provider_profile \<Rightarrow> string list" where
  "rejection_reasons q p =
     (if \<not> pp_enabled p then [''provider_disabled''] else []) @
     (if \<not> pp_healthy p then [''provider_unhealthy''] else []) @
     (let missing = sorted_caps (rq_required_capabilities q - pp_capabilities p) in
      if missing \<noteq> [] then [''missing_capabilities:'' @ join_comma (map work_capability_value missing)] else []) @
     (if pp_egress_boundary p \<notin> rq_allowed_egress q then [''egress_boundary_not_approved''] else []) @
     (if rq_data_classification q > pp_maximum_data_classification p
      then [''data_classification_not_allowed''] else []) @
     (if pp_cost_tier p > rq_maximum_cost_tier q then [''cost_tier_exceeded''] else []) @
     (if rq_risk q > pp_maximum_risk p then [''risk_level_not_allowed''] else []) @
     (if rq_allowed_modes q \<noteq> {} \<and> pp_execution_mode p \<notin> rq_allowed_modes q
      then [''execution_mode_not_allowed''] else []) @
     (if rq_minimum_evidence_samples q \<noteq> 0 then
        (let under_sampled = sorted_caps {c \<in> rq_required_capabilities q.
               ce_sample_count (evidence_for p c) < rq_minimum_evidence_samples q} in
         if under_sampled \<noteq> []
         then [''insufficient_evidence:'' @ join_comma (map work_capability_value under_sampled)] else [])
      else []) @
     (if rq_purpose q = RP_REVIEW then
        (if Some (pp_provider_id p) = rq_producer_provider_id q
         then [''reviewer_must_differ_from_producer''] else []) @
        (if rq_risk q \<ge> RL_HIGH \<and> rq_producer_family q \<noteq> None \<and>
            Some (pp_provider_family p) = rq_producer_family q
         then [''high_risk_review_requires_provider_family_diversity''] else [])
      else [])"

definition round_half_even :: "rat \<Rightarrow> int" where
  "round_half_even x =
     (let f = \<lfloor>x\<rfloor>; d = x - of_int f in
      if d < 1/2 then f else if d > 1/2 then f + 1 else if even f then f else f + 1)"

definition round6 :: "rat \<Rightarrow> rat" where
  "round6 x = of_int (round_half_even (x * 10 ^ 6)) / 10 ^ 6"

definition mean :: "rat list \<Rightarrow> rat" where
  "mean xs = sum_list xs / of_nat (length xs)"

definition quality_score :: "routing_request \<Rightarrow> provider_profile \<Rightarrow> rat" where
  "quality_score q p =
     (if rq_required_capabilities q = {} then 1/2
      else mean (map (\<lambda>c. prior_weighted_quality 20 (evidence_for p c))
             (sorted_caps (rq_required_capabilities q))))"

definition cost_utility :: "provider_profile \<Rightarrow> rat" where
  "cost_utility p = (of_nat (cost_tier_rank CT_HIGH) - of_nat (cost_tier_rank (pp_cost_tier p))) /
     of_nat (cost_tier_rank CT_HIGH)"

definition observed_latencies :: "routing_request \<Rightarrow> provider_profile \<Rightarrow> rat list" where
  "observed_latencies q p =
     List.map_filter (\<lambda>c. Option.bind (pp_evidence p c) ce_p95_latency_seconds)
       (sorted_caps (rq_required_capabilities q))"

definition latency_utility :: "routing_request \<Rightarrow> provider_profile \<Rightarrow> rat" where
  "latency_utility q p =
     (let ls = observed_latencies q p in
      if ls = [] then 1/2
      else 1 / (1 + mean ls / 30) * quality_score q p)"

definition score_candidate :: "routing_request \<Rightarrow> provider_profile \<Rightarrow> ranked_candidate" where
  "score_candidate q p =
     (let w = OBJECTIVE_WEIGHTS (rq_objective q);
          quality = quality_score q p; cost = cost_utility p; latency = latency_utility q p;
          score = quality * ow_quality w + cost * ow_cost w + latency * ow_latency w
      in \<lparr>rc_provider_id = pp_provider_id p, rc_score = round6 score,
          rc_quality_utility = round6 quality, rc_cost_utility = round6 cost,
          rc_latency_utility = round6 latency\<rparr>)"

definition router_policy_version :: string where
  "router_policy_version = ''capability-routing/v2''"

definition candidate_key :: "ranked_candidate \<Rightarrow> rat \<times> string" where
  "candidate_key c = (- rc_score c, rc_provider_id c)"

definition route :: "routing_request \<Rightarrow> provider_profile list \<Rightarrow> error + routing_decision" where
  "route q profiles =
     (if rq_minimum_evidence_samples q < 0
      then Inl (ValueError ''minimum_evidence_samples cannot be negative'')
      else if \<not> distinct (map pp_provider_id profiles)
      then Inl (ValueError ''provider_id values must be unique'')
      else
        let eligible = filter (\<lambda>p. rejection_reasons q p = []) profiles;
            rejected = filter (\<lambda>p. rejection_reasons q p \<noteq> []) profiles;
            ranked = sort_key candidate_key (map (score_candidate q) eligible)
        in Inr \<lparr>rd_selected_provider_id =
                  (case ranked of [] \<Rightarrow> None | c # _ \<Rightarrow> Some (rc_provider_id c)),
                rd_ranked_candidates = ranked,
                rd_rejected = map (\<lambda>p. (pp_provider_id p, rejection_reasons q p)) rejected,
                rd_policy_version = router_policy_version,
                rd_objective = rq_objective q,
                rd_objective_profile_version = OBJECTIVE_PROFILE_VERSION\<rparr>)"

section \<open>Built-in profiles\<close>

definition general_model :: "work_capability set" where
  "general_model = {WC_PLANNING, WC_ARCHITECTURE, WC_CODE_GENERATION, WC_TEST_DESIGN, WC_TEST_EXECUTION,
     WC_CODE_REVIEW, WC_SECURITY_ANALYSIS, WC_TOOL_PROPOSALS}"

text \<open>The defaults of the data class for the fields a constructor call leaves out.\<close>

definition profile_defaults :: "string \<Rightarrow> string \<Rightarrow> execution_mode \<Rightarrow> work_capability set \<Rightarrow>
    egress_boundary \<Rightarrow> data_classification \<Rightarrow> cost_tier \<Rightarrow> provider_profile" where
  "profile_defaults pid family mode caps egress maxdata cost =
     \<lparr>pp_provider_id = pid, pp_provider_family = family, pp_execution_mode = mode,
      pp_capabilities = caps, pp_egress_boundary = egress, pp_maximum_data_classification = maxdata,
      pp_cost_tier = cost, pp_maximum_risk = RL_CRITICAL, pp_model_version = ''unqualified'',
      pp_profile_version = ''v1'', pp_enabled = False, pp_healthy = False,
      pp_evidence = (\<lambda>_. None), pp_funding_mode = FM_METERED,
      pp_max_invocations_per_execution = 0, pp_max_invocations_per_workflow = 0\<rparr>"

definition interoperability_profiles :: "provider_profile list" where
  "interoperability_profiles =
     [(profile_defaults ''local-openai-compatible'' ''operator-local'' EM_LOCAL_MODEL general_model
        EB_LOCAL DC_RESTRICTED CT_LOW)
        \<lparr>pp_model_version := ''operator-configured'', pp_funding_mode := FM_LOCAL\<rparr>,
      (profile_defaults ''anthropic-claude'' ''anthropic'' EM_MODEL general_model
        EB_APPROVED_EXTERNAL DC_INTERNAL CT_MEDIUM)
        \<lparr>pp_model_version := ''operator-configured''\<rparr>,
      (profile_defaults ''claude-code-subscription'' ''anthropic'' EM_MODEL
        (general_model - {WC_TOOL_PROPOSALS}) EB_APPROVED_EXTERNAL DC_INTERNAL CT_LOW)
        \<lparr>pp_model_version := ''operator-configured'', pp_funding_mode := FM_SUBSCRIPTION\<rparr>,
      (profile_defaults ''devin'' ''cognition'' EM_REMOTE_AGENT
        {WC_PLANNING, WC_CODE_GENERATION, WC_TEST_DESIGN, WC_TEST_EXECUTION, WC_LONG_RUNNING_EXECUTION}
        EB_APPROVED_EXTERNAL DC_INTERNAL CT_HIGH)
        \<lparr>pp_model_version := ''operator-configured''\<rparr>,
      (profile_defaults ''windsurf-cascade'' ''windsurf'' EM_IDE_HANDOFF
        {WC_CODE_GENERATION, WC_CODE_REVIEW, WC_INTERACTIVE_IDE}
        EB_APPROVED_EXTERNAL DC_INTERNAL CT_MEDIUM)
        \<lparr>pp_model_version := ''operator-configured''\<rparr>]"

definition mock_profile :: "string \<Rightarrow> provider_profile" where
  "mock_profile pid =
     (profile_defaults pid ''deterministic-mock'' EM_LOCAL_MODEL UNIV EB_LOCAL DC_RESTRICTED CT_LOW)
       \<lparr>pp_model_version := ''deterministic-mock-v1'', pp_enabled := True, pp_healthy := True,
        pp_funding_mode := FM_LOCAL\<rparr>"

definition mock_profiles :: "provider_profile list" where
  "mock_profiles = [mock_profile ''mock-producer'', mock_profile ''mock-reviewer'']"

section \<open>Eligibility\<close>

text \<open>
  What the operator's policy demands of a provider, stated independently of the reasons the router
  lists: the specification the rejection reasons are checked against.
\<close>

definition eligible :: "routing_request \<Rightarrow> provider_profile \<Rightarrow> bool" where
  "eligible q p \<longleftrightarrow> pp_enabled p \<and> pp_healthy p \<and>
     rq_required_capabilities q \<subseteq> pp_capabilities p \<and>
     pp_egress_boundary p \<in> rq_allowed_egress q \<and>
     rq_data_classification q \<le> pp_maximum_data_classification p \<and>
     pp_cost_tier p \<le> rq_maximum_cost_tier q \<and>
     rq_risk q \<le> pp_maximum_risk p \<and>
     (rq_allowed_modes q = {} \<or> pp_execution_mode p \<in> rq_allowed_modes q) \<and>
     (rq_minimum_evidence_samples q \<noteq> 0 \<longrightarrow> (\<forall>c \<in> rq_required_capabilities q.
        rq_minimum_evidence_samples q \<le> ce_sample_count (evidence_for p c))) \<and>
     (rq_purpose q = RP_REVIEW \<longrightarrow> rq_producer_provider_id q \<noteq> Some (pp_provider_id p) \<and>
        (RL_HIGH \<le> rq_risk q \<longrightarrow> rq_producer_family q \<noteq> Some (pp_provider_family p)))"

lemma set_work_capabilities_sorted: "set work_capabilities_sorted = UNIV"
proof -
  have "c \<in> set work_capabilities_sorted" for c
    by (cases c) (simp_all add: work_capabilities_sorted_def)
  then show ?thesis by auto
qed

lemma set_sorted_caps [simp]: "set (sorted_caps S) = S"
  using set_work_capabilities_sorted by (auto simp: sorted_caps_def)

lemma sorted_caps_Nil_iff [simp]: "sorted_caps S = [] \<longleftrightarrow> S = {}"
  by (metis set_empty set_sorted_caps)

lemma rejection_reasons_Nil_iff: "rejection_reasons q p = [] \<longleftrightarrow> eligible q p"
  unfolding rejection_reasons_def eligible_def Let_def
  by (auto simp: not_less not_le split: if_splits)

lemma route_Inr:
  assumes "route q ps = Inr d"
  shows "0 \<le> rq_minimum_evidence_samples q" "distinct (map pp_provider_id ps)"
    "rd_ranked_candidates d = sort_key candidate_key (map (score_candidate q) (filter (eligible q) ps))"
    "rd_rejected d = map (\<lambda>p. (pp_provider_id p, rejection_reasons q p)) (filter (\<lambda>p. \<not> eligible q p) ps)"
    "rd_selected_provider_id d =
       (case rd_ranked_candidates d of [] \<Rightarrow> None | c # _ \<Rightarrow> Some (rc_provider_id c))"
  using assms by (auto simp: route_def rejection_reasons_Nil_iff Let_def split: if_splits)

lemma score_candidate_id [simp]: "rc_provider_id (score_candidate q p) = pp_provider_id p"
  by (simp add: score_candidate_def Let_def)

lemma route_ranked_set:
  "route q ps = Inr d \<Longrightarrow> set (rd_ranked_candidates d) = score_candidate q ` {p \<in> set ps. eligible q p}"
  by (simp add: route_Inr(3))

lemma route_selected_in:
  assumes "route q ps = Inr d" "rd_selected_provider_id d = Some pid"
  obtains c where "c \<in> set (rd_ranked_candidates d)" "rc_provider_id c = pid"
    "\<forall>c' \<in> set (rd_ranked_candidates d). candidate_key c \<le> candidate_key c'"
proof -
  obtain c cs where r: "rd_ranked_candidates d = c # cs" and id: "rc_provider_id c = pid"
    using assms(2) unfolding route_Inr(5) [OF assms(1)] by (auto split: list.splits)
  have "sorted (map candidate_key (rd_ranked_candidates d))"
    by (simp add: route_Inr(3) [OF assms(1)])
  with r id show ?thesis by (intro that [of c]) auto
qed

text \<open>C29: The router never selects a provider the policy excludes. Whatever provider it selects is
one of the given profiles, is enabled and healthy, has every required capability, lies within the
approved egress, data-classification, cost, risk and mode limits, has the required evidence samples,
and, for a review, differs from the producer and (from risk HIGH on) from the producer's family.\<close>

theorem route_selected_eligible:
  assumes "route q ps = Inr d" and "rd_selected_provider_id d = Some pid"
  shows "\<exists>p \<in> set ps. pp_provider_id p = pid \<and> eligible q p"
proof -
  obtain c where "c \<in> set (rd_ranked_candidates d)" "rc_provider_id c = pid"
    using assms by (rule route_selected_in)
  then show ?thesis using route_ranked_set [OF assms(1)] by auto
qed

definition demo_request :: routing_request where
  "demo_request = \<lparr>rq_required_capabilities = {WC_PLANNING}, rq_data_classification = DC_INTERNAL,
     rq_risk = RL_HIGH, rq_purpose = RP_REVIEW, rq_allowed_egress = {EB_LOCAL}, rq_allowed_modes = {},
     rq_maximum_cost_tier = CT_HIGH, rq_minimum_evidence_samples = 0,
     rq_producer_provider_id = Some ''mock-producer'', rq_producer_family = None,
     rq_objective = RO_BALANCED\<rparr>"

lemma demo_request_eligible:
  "eligible demo_request (mock_profile pid) \<longleftrightarrow> pid \<noteq> ''mock-producer''"
  by (auto simp: eligible_def demo_request_def mock_profile_def profile_defaults_def rank_order_defs)

lemma demo_route: "\<exists>d. route demo_request mock_profiles = Inr d \<and>
    rd_selected_provider_id d = Some ''mock-reviewer''"
  by (simp add: route_def mock_profiles_def rejection_reasons_Nil_iff demo_request_eligible Let_def
      demo_request_def [THEN arg_cong, of rq_minimum_evidence_samples])
    (simp add: mock_profile_def profile_defaults_def)

theorem route_selected_eligible_witness:
  "\<exists>d. route demo_request mock_profiles = Inr d \<and> rd_selected_provider_id d = Some ''mock-reviewer'' \<and>
     (\<exists>p \<in> set mock_profiles. pp_provider_id p = ''mock-reviewer'' \<and> eligible demo_request p)"
  using demo_route route_selected_eligible by blast

text \<open>C30: The router is complete and its decision is a partition. It blocks exactly when no profile
is eligible; the ranked candidates are exactly the eligible profiles, the rejected ones are exactly
the others, and every rejection lists at least one reason.\<close>

theorem route_partitions_profiles:
  assumes "route q ps = Inr d"
  shows "(rd_selected_provider_id d = None \<longleftrightarrow> (\<forall>p \<in> set ps. \<not> eligible q p)) \<and>
    rc_provider_id ` set (rd_ranked_candidates d) = pp_provider_id ` {p \<in> set ps. eligible q p} \<and>
    fst ` set (rd_rejected d) = pp_provider_id ` {p \<in> set ps. \<not> eligible q p} \<and>
    (\<forall>(i, reasons) \<in> set (rd_rejected d). reasons \<noteq> []) \<and>
    length (rd_ranked_candidates d) + length (rd_rejected d) = length ps"
proof (intro conjI)
  have "rd_selected_provider_id d = None \<longleftrightarrow> rd_ranked_candidates d = []"
    by (auto simp: route_Inr(5) [OF assms] split: list.splits)
  also have "\<dots> \<longleftrightarrow> set (rd_ranked_candidates d) = {}" by (simp only: set_empty)
  finally show "rd_selected_provider_id d = None \<longleftrightarrow> (\<forall>p \<in> set ps. \<not> eligible q p)"
    using route_ranked_set [OF assms] by auto
  show "rc_provider_id ` set (rd_ranked_candidates d) = pp_provider_id ` {p \<in> set ps. eligible q p}"
    by (simp add: route_ranked_set [OF assms] image_image)
  show "fst ` set (rd_rejected d) = pp_provider_id ` {p \<in> set ps. \<not> eligible q p}"
    by (auto simp: route_Inr(4) [OF assms] image_image)
  show "\<forall>(i, reasons) \<in> set (rd_rejected d). reasons \<noteq> []"
    by (auto simp: route_Inr(4) [OF assms] rejection_reasons_Nil_iff)
  show "length (rd_ranked_candidates d) + length (rd_rejected d) = length ps"
    by (simp add: route_Inr(3,4) [OF assms] sum_length_filter_compl)
qed

theorem route_partitions_profiles_witness:
  "\<exists>d. route demo_request mock_profiles = Inr d \<and>
     fst ` set (rd_rejected d) = pp_provider_id ` {p \<in> set mock_profiles. \<not> eligible demo_request p}"
  using demo_route route_partitions_profiles by blast

lemma candidate_key_inj:
  "distinct (map pp_provider_id ps) \<Longrightarrow> inj_on (candidate_key \<circ> score_candidate q) (set ps)"
  by (rule inj_onI) (auto simp: candidate_key_def distinct_map dest: inj_onD)

lemma route_perm:
  assumes "route q ps = Inr d" "mset ps = mset ps'"
  shows "\<exists>d'. route q ps' = Inr d' \<and> rd_ranked_candidates d' = rd_ranked_candidates d"
proof -
  have dist: "distinct (map pp_provider_id ps')"
    using route_Inr(2) [OF assms(1)] assms(2) by (metis mset_map mset_eq_imp_distinct_iff)
  then obtain d' where d': "route q ps' = Inr d'"
    using route_Inr(1) [OF assms(1)] by (simp add: route_def Let_def)
  let ?xs = "\<lambda>ps. map (score_candidate q) (filter (eligible q) ps)"
  have "inj_on candidate_key (set (?xs ps))"
  proof (rule inj_onI)
    fix x y
    assume "x \<in> set (?xs ps)" "y \<in> set (?xs ps)" "candidate_key x = candidate_key y"
    then show "x = y"
      using inj_onD [OF candidate_key_inj [OF route_Inr(2) [OF assms(1)]]] by auto
  qed
  moreover have "mset (?xs ps) = mset (sort_key candidate_key (?xs ps'))"
    using assms(2) by simp
  ultimately have "sort_key candidate_key (?xs ps) = sort_key candidate_key (?xs ps')"
    by (intro sort_key_inj_key_eq) simp_all
  then show ?thesis using d' route_Inr(3) [OF assms(1)] route_Inr(3) [OF d'] by simp
qed

text \<open>C31: The selection is optimal and reproducible. The selected provider has the highest score of
all eligible ones, ties going to the smallest identifier; and the decision depends only on the
collection of profiles, not on the order in which they are presented.\<close>

theorem route_selects_best_independent_of_order:
  assumes "route q ps = Inr d" and "rd_selected_provider_id d = Some pid"
  shows "(\<exists>p \<in> set ps. pp_provider_id p = pid \<and>
      (\<forall>p' \<in> set ps. eligible q p' \<longrightarrow>
         rc_score (score_candidate q p') < rc_score (score_candidate q p) \<or>
         (rc_score (score_candidate q p') = rc_score (score_candidate q p) \<and> pid \<le> pp_provider_id p'))) \<and>
    (\<forall>ps'. mset ps = mset ps' \<longrightarrow> (\<exists>d'. route q ps' = Inr d' \<and> rd_selected_provider_id d' = Some pid))"
proof (intro conjI allI impI)
  obtain c where c: "c \<in> set (rd_ranked_candidates d)" "rc_provider_id c = pid"
    and best: "\<forall>c' \<in> set (rd_ranked_candidates d). candidate_key c \<le> candidate_key c'"
    using assms by (rule route_selected_in)
  from c(1) obtain p where p: "p \<in> set ps" "eligible q p" "c = score_candidate q p"
    using route_ranked_set [OF assms(1)] by auto
  have "rc_score (score_candidate q p') < rc_score (score_candidate q p) \<or>
      (rc_score (score_candidate q p') = rc_score (score_candidate q p) \<and> pid \<le> pp_provider_id p')"
    if "p' \<in> set ps" "eligible q p'" for p'
  proof -
    have "candidate_key c \<le> candidate_key (score_candidate q p')"
      using best route_ranked_set [OF assms(1)] that by auto
    then show ?thesis using p(3) c(2) by (auto simp: candidate_key_def less_eq_prod_def)
  qed
  with p c(2) show "\<exists>p \<in> set ps. pp_provider_id p = pid \<and> (\<forall>p' \<in> set ps. eligible q p' \<longrightarrow>
         rc_score (score_candidate q p') < rc_score (score_candidate q p) \<or>
         (rc_score (score_candidate q p') = rc_score (score_candidate q p) \<and> pid \<le> pp_provider_id p'))"
    by (intro bexI [of _ p]) auto
next
  fix ps' assume "mset ps = mset ps'"
  then obtain d' where "route q ps' = Inr d'" "rd_ranked_candidates d' = rd_ranked_candidates d"
    using route_perm [OF assms(1)] by blast
  with assms show "\<exists>d'. route q ps' = Inr d' \<and> rd_selected_provider_id d' = Some pid"
    by (metis route_Inr(5))
qed

theorem route_selects_best_independent_of_order_witness:
  "\<exists>d. route demo_request (rev mock_profiles) = Inr d \<and> rd_selected_provider_id d = Some ''mock-reviewer''"
proof -
  obtain d where "route demo_request mock_profiles = Inr d"
    "rd_selected_provider_id d = Some ''mock-reviewer''" using demo_route by blast
  from route_selects_best_independent_of_order [OF this] show ?thesis by simp
qed

section \<open>Scores\<close>

definition evidence_ok :: "capability_evidence \<Rightarrow> bool" where
  "evidence_ok e \<longleftrightarrow> is_ok (capability_evidence_post_init e)"

definition profile_evidence_ok :: "provider_profile \<Rightarrow> bool" where
  "profile_evidence_ok p \<longleftrightarrow> (\<forall>c e. pp_evidence p c = Some e \<longrightarrow> evidence_ok e)"

lemma evidence_ok_iff:
  "evidence_ok e \<longleftrightarrow> 0 \<le> ce_sample_count e \<and> 0 \<le> ce_success_rate e \<and> ce_success_rate e \<le> 1 \<and>
     0 \<le> ce_validation_pass_rate e \<and> ce_validation_pass_rate e \<le> 1 \<and>
     (\<forall>l. ce_p95_latency_seconds e = Some l \<longrightarrow> 0 \<le> l)"
  by (auto simp: evidence_ok_def capability_evidence_post_init_def split: option.splits)

lemma evidence_for_ok: "profile_evidence_ok p \<Longrightarrow> evidence_ok (evidence_for p c)"
  by (auto simp: evidence_for_def profile_evidence_ok_def evidence_ok_iff no_evidence_def split: option.splits)

lemma convex_half:
  fixes w x :: rat
  assumes "0 \<le> w" "w \<le> 1" "0 \<le> x" "x \<le> 1"
  shows "0 \<le> w * x + (1 - w) * (1/2)" "w * x + (1 - w) * (1/2) \<le> 1"
    "\<bar>w * x + (1 - w) * (1/2) - 1/2\<bar> \<le> w / 2"
proof -
  have wx: "0 \<le> w * x" "w * x \<le> w" using assms by (simp_all add: mult_left_le)
  have eq: "w * x + (1 - w) * (1/2) = w * x + 1/2 - w/2" by (simp add: field_simps)
  show "0 \<le> w * x + (1 - w) * (1/2)" "w * x + (1 - w) * (1/2) \<le> 1"
    "\<bar>w * x + (1 - w) * (1/2) - 1/2\<bar> \<le> w / 2"
    unfolding eq using wx assms(1,2) by linarith+
qed



end
