(* ===== verification/Task_Strategy.thy ===== *)
theory Task_Strategy
  imports Routing
begin

text \<open>
  \<open>task_strategy.py\<close>: the planner that chooses how deep a workflow goes from its complexity, risk
  and inspection signals.
\<close>

datatype complexity_tier = CX_SIMPLE | CX_STANDARD | CX_COMPLEX | CX_ADVERSARIAL

fun complexity_tier_rank :: "complexity_tier \<Rightarrow> nat" where
  "complexity_tier_rank CX_SIMPLE = 0"
| "complexity_tier_rank CX_STANDARD = 1"
| "complexity_tier_rank CX_COMPLEX = 2"
| "complexity_tier_rank CX_ADVERSARIAL = 3"

fun complexity_tier_name :: "complexity_tier \<Rightarrow> string" where
  "complexity_tier_name CX_SIMPLE = ''SIMPLE''"
| "complexity_tier_name CX_STANDARD = ''STANDARD''"
| "complexity_tier_name CX_COMPLEX = ''COMPLEX''"
| "complexity_tier_name CX_ADVERSARIAL = ''ADVERSARIAL''"

datatype inspection_signal =
    IS_ENCODED_OR_PACKED_CONTENT | IS_CONCEALED_INSTRUCTIONS | IS_PROMPT_INJECTION
  | IS_UNKNOWN_BINARY | IS_SUSPECTED_MALICIOUS_BEHAVIOR

fun inspection_signal_value :: "inspection_signal \<Rightarrow> string" where
  "inspection_signal_value IS_ENCODED_OR_PACKED_CONTENT = ''ENCODED_OR_PACKED_CONTENT''"
| "inspection_signal_value IS_CONCEALED_INSTRUCTIONS = ''CONCEALED_INSTRUCTIONS''"
| "inspection_signal_value IS_PROMPT_INJECTION = ''PROMPT_INJECTION''"
| "inspection_signal_value IS_UNKNOWN_BINARY = ''UNKNOWN_BINARY''"
| "inspection_signal_value IS_SUSPECTED_MALICIOUS_BEHAVIOR = ''SUSPECTED_MALICIOUS_BEHAVIOR''"

text \<open>\<open>sorted(signal.value for signal in signals)\<close>\<close>

definition sorted_signal_values :: "inspection_signal set \<Rightarrow> string list" where
  "sorted_signal_values S = map inspection_signal_value (filter (\<lambda>s. s \<in> S)
     [IS_CONCEALED_INSTRUCTIONS, IS_ENCODED_OR_PACKED_CONTENT, IS_PROMPT_INJECTION,
      IS_SUSPECTED_MALICIOUS_BEHAVIOR, IS_UNKNOWN_BINARY])"

datatype strategy_stage =
    SS_CONTEXT_INSPECTION | SS_HUMAN_DISPOSITION | SS_PLAN | SS_ARCHITECTURE_REVIEW | SS_IMPLEMENT
  | SS_TEST | SS_SECURITY_REVIEW | SS_CODE_REVIEW | SS_HUMAN_APPROVAL

datatype execution_restriction =
    XR_NO_EXTERNAL_EGRESS | XR_NO_SECRET_RESOLUTION | XR_NO_NETWORK | XR_NO_WRITE_TOOLS

fun execution_restriction_value :: "execution_restriction \<Rightarrow> string" where
  "execution_restriction_value XR_NO_EXTERNAL_EGRESS = ''NO_EXTERNAL_EGRESS''"
| "execution_restriction_value XR_NO_SECRET_RESOLUTION = ''NO_SECRET_RESOLUTION''"
| "execution_restriction_value XR_NO_NETWORK = ''NO_NETWORK''"
| "execution_restriction_value XR_NO_WRITE_TOOLS = ''NO_WRITE_TOOLS''"

definition sorted_restriction_values :: "execution_restriction set \<Rightarrow> string list" where
  "sorted_restriction_values S = map execution_restriction_value (filter (\<lambda>s. s \<in> S)
     [XR_NO_EXTERNAL_EGRESS, XR_NO_NETWORK, XR_NO_SECRET_RESOLUTION, XR_NO_WRITE_TOOLS])"

record task_profile =
  tp_complexity :: complexity_tier
  tp_risk :: risk_level
  tp_data_classification :: data_classification
  tp_required_capabilities :: "work_capability set"
  tp_inspection_signals :: "inspection_signal set"

record execution_strategy =
  es_stages :: "strategy_stage list"
  es_restrictions :: "execution_restriction set"
  es_requires_independent_review :: bool
  es_requires_cross_family_review :: bool
  es_requires_human_disposition :: bool
  es_recommended_producer_count :: nat
  es_recommended_reviewer_count :: nat
  es_minimum_routing_evidence_samples :: nat

definition strategy_plan :: "task_profile \<Rightarrow> execution_strategy" where
  "strategy_plan profile =
     (let suspicious = (tp_inspection_signals profile \<noteq> {} \<or> tp_complexity profile = CX_ADVERSARIAL) in
      if suspicious then
        \<lparr>es_stages = [SS_CONTEXT_INSPECTION, SS_HUMAN_DISPOSITION],
         es_restrictions = {XR_NO_EXTERNAL_EGRESS, XR_NO_SECRET_RESOLUTION, XR_NO_NETWORK, XR_NO_WRITE_TOOLS},
         es_requires_independent_review = True,
         es_requires_cross_family_review = (RL_HIGH \<le> tp_risk profile),
         es_requires_human_disposition = True,
         es_recommended_producer_count = 0,
         es_recommended_reviewer_count = 1,
         es_minimum_routing_evidence_samples = 0\<rparr>
      else
        \<lparr>es_stages = (if tp_complexity profile = CX_SIMPLE \<and> tp_risk profile = RL_LOW
           then [SS_PLAN, SS_IMPLEMENT, SS_TEST, SS_CODE_REVIEW, SS_HUMAN_APPROVAL]
           else [SS_PLAN, SS_ARCHITECTURE_REVIEW, SS_IMPLEMENT, SS_TEST, SS_SECURITY_REVIEW,
                 SS_CODE_REVIEW, SS_HUMAN_APPROVAL]),
         es_restrictions = (if DC_CONFIDENTIAL \<le> tp_data_classification profile
           then {XR_NO_EXTERNAL_EGRESS} else {}),
         es_requires_independent_review = True,
         es_requires_cross_family_review = (RL_HIGH \<le> tp_risk profile),
         es_requires_human_disposition = False,
         es_recommended_producer_count = (if complexity_tier_rank CX_COMPLEX \<le>
           complexity_tier_rank (tp_complexity profile) then 2 else 1),
         es_recommended_reviewer_count = (if RL_HIGH \<le> tp_risk profile then 2 else 1),
         es_minimum_routing_evidence_samples = (if RL_HIGH \<le> tp_risk profile then 20 else 0)\<rparr>)"

text \<open>C33: Workflow depth never bypasses a safety gate. Every strategy ends in a human stage and requires
independent review; suspicious input (any inspection signal or the adversarial tier) is exactly what
requires a human disposition, and then no producing stage is planned and all four restrictions hold;
confidential or restricted data always forbids external egress; risk HIGH or CRITICAL always demands
cross-family review and the full review pipeline.\<close>

theorem strategy_keeps_safety_gates:
  "last (es_stages (strategy_plan p)) \<in> {SS_HUMAN_DISPOSITION, SS_HUMAN_APPROVAL} \<and>
   es_requires_independent_review (strategy_plan p) \<and>
   (es_requires_human_disposition (strategy_plan p) \<longleftrightarrow>
      tp_inspection_signals p \<noteq> {} \<or> tp_complexity p = CX_ADVERSARIAL) \<and>
   (es_requires_human_disposition (strategy_plan p) \<longrightarrow>
      es_restrictions (strategy_plan p) = UNIV \<and> es_recommended_producer_count (strategy_plan p) = 0 \<and>
      SS_IMPLEMENT \<notin> set (es_stages (strategy_plan p))) \<and>
   (DC_CONFIDENTIAL \<le> tp_data_classification p \<longrightarrow>
      XR_NO_EXTERNAL_EGRESS \<in> es_restrictions (strategy_plan p)) \<and>
   (RL_HIGH \<le> tp_risk p \<longrightarrow> es_requires_cross_family_review (strategy_plan p) \<and>
      (es_requires_human_disposition (strategy_plan p) \<or>
       {SS_ARCHITECTURE_REVIEW, SS_SECURITY_REVIEW, SS_CODE_REVIEW} \<subseteq> set (es_stages (strategy_plan p))))"
proof -
  have all: "(UNIV :: execution_restriction set) =
      {XR_NO_EXTERNAL_EGRESS, XR_NO_SECRET_RESOLUTION, XR_NO_NETWORK, XR_NO_WRITE_TOOLS}"
    by (auto intro: execution_restriction.exhaust)
  have low: "\<not> RL_HIGH \<le> RL_LOW" by (simp add: rank_order_defs)
  show ?thesis
    by (auto simp: strategy_plan_def Let_def all low)
qed

theorem strategy_keeps_safety_gates_witness:
  "es_restrictions (strategy_plan \<lparr>tp_complexity = CX_SIMPLE, tp_risk = RL_LOW,
     tp_data_classification = DC_PUBLIC, tp_required_capabilities = {},
     tp_inspection_signals = {IS_PROMPT_INJECTION}\<rparr>) = UNIV"
  using strategy_keeps_safety_gates [of "\<lparr>tp_complexity = CX_SIMPLE, tp_risk = RL_LOW,
     tp_data_classification = DC_PUBLIC, tp_required_capabilities = {},
     tp_inspection_signals = {IS_PROMPT_INJECTION}\<rparr>"] by simp

end
