(* ===== verification/Persistence.thy ===== *)
theory Persistence
  imports Task_Strategy
begin

text \<open>
  \<open>persistence.py\<close>: the rows of the relational store and the database as a record of tables, each a
  list of rows in insertion order.  A column that stores the value of an enumeration has the
  enumeration's type; a timestamp is an instant in UTC.  Left out are the surrogate keys that no query
  reads and the \<open>updated_at\<close> columns the mapper writes on its own; \<open>created_at\<close> is kept where a query
  orders by it.  Column widths and foreign keys are constraints of the database engine and are not
  modelled.

  The enumerations of \<open>deployment.py\<close> whose values the rows store are declared here.
\<close>

section \<open>Enumerations stored in the deployment tables\<close>

datatype environment_classification = EC_DEVELOPMENT | EC_STAGING | EC_PRODUCTION

fun environment_classification_value :: "environment_classification \<Rightarrow> string" where
  "environment_classification_value EC_DEVELOPMENT = ''DEVELOPMENT''"
| "environment_classification_value EC_STAGING = ''STAGING''"
| "environment_classification_value EC_PRODUCTION = ''PRODUCTION''"

datatype deployment_attempt_status =
    DS_RUNNING | DS_VERIFYING | DS_SUCCEEDED | DS_FAILED | DS_UNKNOWN | DS_ROLLBACK_REQUIRED | DS_RECONCILED

fun deployment_attempt_status_value :: "deployment_attempt_status \<Rightarrow> string" where
  "deployment_attempt_status_value DS_RUNNING = ''RUNNING''"
| "deployment_attempt_status_value DS_VERIFYING = ''VERIFYING''"
| "deployment_attempt_status_value DS_SUCCEEDED = ''SUCCEEDED''"
| "deployment_attempt_status_value DS_FAILED = ''FAILED''"
| "deployment_attempt_status_value DS_UNKNOWN = ''UNKNOWN''"
| "deployment_attempt_status_value DS_ROLLBACK_REQUIRED = ''ROLLBACK_REQUIRED''"
| "deployment_attempt_status_value DS_RECONCILED = ''RECONCILED''"

datatype rollback_status = RS_RUNNING | RS_SUCCEEDED | RS_FAILED | RS_UNKNOWN

fun rollback_status_value :: "rollback_status \<Rightarrow> string" where
  "rollback_status_value RS_RUNNING = ''RUNNING''"
| "rollback_status_value RS_SUCCEEDED = ''SUCCEEDED''"
| "rollback_status_value RS_FAILED = ''FAILED''"
| "rollback_status_value RS_UNKNOWN = ''UNKNOWN''"

section \<open>Rows\<close>

record principal =
  pn_id :: ident
  pn_principal_type :: principal_type
  pn_role :: agent_role
  pn_display_name :: string
  pn_active :: bool

record workflow =
  wf_id :: ident
  wf_title :: string
  wf_description :: string
  wf_state :: workflow_state
  wf_version :: int
  wf_risk_class :: risk_level
  wf_complexity_tier :: complexity_tier
  wf_data_classification :: data_classification
  wf_repository_scope :: "string option"
  wf_inspection_signals :: "string list"
  wf_containment_required :: bool
  wf_block_reason :: "string option"
  wf_requester_id :: ident
  wf_policy_version :: string
  wf_candidate_revision :: "string option"
  wf_merged_revision :: "string option"
  wf_created_at :: instant

record task =
  tk_id :: ident
  tk_workflow_id :: ident
  tk_kind :: task_kind
  tk_required_role :: agent_role
  tk_required_capability :: capability
  tk_work_capability :: work_capability
  tk_objective :: string
  tk_status :: task_status
  tk_position :: nat
  tk_max_attempts :: nat
  tk_lease_owner :: "ident option"
  tk_lease_token :: "ident option"
  tk_lease_expires_at :: "instant option"
  tk_created_at :: instant

record task_attempt =
  at_id :: ident
  at_task_id :: ident
  at_attempt_number :: nat
  at_agent_id :: ident
  at_provider :: string
  at_model :: string
  at_status :: task_status
  at_output :: dict
  at_error_code :: "string option"
  at_completed_at :: "instant option"

record routing_record =
  rr_workflow_id :: ident
  rr_task_id :: ident
  rr_attempt_id :: ident
  rr_policy_version :: string
  rr_request :: routing_request
  rr_provider_policy_version :: string
  rr_ranked_candidates :: "(ranked_candidate \<times> funding_mode \<times> int) list"
  rr_rejected_candidates :: "(string \<times> string list) list"
  rr_selected_provider_id :: "string option"
  rr_selected_provider_family :: "string option"
  rr_selected_model_version :: "string option"
  rr_created_at :: instant

text \<open>
  \<open>ProviderObservation\<close> and \<open>EvaluationObservationRecord\<close> share the columns routing evidence is
  computed from.
\<close>

record observation =
  ob_workflow_id :: ident
  ob_task_id :: ident
  ob_attempt_id :: ident
  ob_provider_id :: string
  ob_provider_family :: string
  ob_model_version :: string
  ob_profile_version :: string
  ob_work_capability :: work_capability
  ob_succeeded :: bool
  ob_validation_passed :: bool
  ob_latency_ms :: int
  ob_error_code :: "string option"
  ob_created_at :: instant

record capability_grant =
  cg_principal_id :: ident
  cg_workflow_id :: ident
  cg_task_id :: ident
  cg_capabilities :: "capability list"
  cg_policy_version :: string
  cg_expires_at :: instant
  cg_active :: bool

record approval =
  ap_id :: ident
  ap_workflow_id :: ident
  ap_action :: approval_action
  ap_target :: string
  ap_revision :: string
  ap_policy_version :: string
  ap_environment_id :: "string option"
  ap_plan_digest :: "string option"
  ap_deployment_attempt_id :: "ident option"
  ap_approver_id :: ident
  ap_decision :: approval_decision
  ap_rationale :: string
  ap_expires_at :: instant
  ap_consumed_at :: "instant option"
  ap_created_at :: instant

record deployment_environment =
  de_id :: string
  de_name :: string
  de_classification :: environment_classification
  de_provider :: string
  de_account_scope :: string
  de_region :: string
  de_resource_scope :: "string list"
  de_adapter_id :: string
  de_policy_version :: string
  de_repository :: string
  de_base_branch :: string
  de_required_checks :: "string list"
  de_required_attestations :: "string list"
  de_verification_policy :: "string list"
  de_rollback_policy :: string
  de_config_digest :: string
  de_active :: bool
  de_created_by :: ident
  de_created_at :: instant

record deployment_plan_record =
  dp_id :: ident
  dp_workflow_id :: ident
  dp_environment_id :: string
  dp_actor_id :: ident
  dp_idempotency_key :: string
  dp_request_digest :: string
  dp_revision :: string
  dp_artifact_digests :: "string list"
  dp_operations :: "dict list"
  dp_declared_impact :: string
  dp_verification_probes :: "string list"
  dp_rollback_reference :: string
  dp_policy_version :: string
  dp_digest :: string
  dp_created_at :: instant

record deployment_attempt_record =
  da_id :: ident
  da_workflow_id :: ident
  da_plan_id :: ident
  da_approval_id :: ident
  da_actor_id :: ident
  da_idempotency_key :: string
  da_request_digest :: string
  da_adapter_id :: string
  da_status :: deployment_attempt_status
  da_operation_reference :: "string option"
  da_simulated :: bool
  da_result_json :: dict
  da_error_code :: "string option"
  da_started_at :: instant
  da_completed_at :: "instant option"

record deployment_verification_record =
  dv_workflow_id :: ident
  dv_attempt_id :: ident
  dv_passed :: bool
  dv_observed_revision :: string
  dv_evidence :: dict

record deployment_rollback_record =
  dr_id :: ident
  dr_workflow_id :: ident
  dr_attempt_id :: ident
  dr_approval_id :: ident
  dr_actor_id :: ident
  dr_idempotency_key :: string
  dr_request_digest :: string
  dr_rollback_reference :: string
  dr_decision :: approval_decision
  dr_rationale :: string
  dr_status :: rollback_status
  dr_operation_reference :: "string option"
  dr_evidence :: dict
  dr_error_code :: "string option"
  dr_recovery_duration_ms :: "int option"
  dr_created_at :: instant
  dr_completed_at :: "instant option"

record workflow_disposition =
  wd_id :: ident
  wd_workflow_id :: ident
  wd_actor_id :: ident
  wd_decision :: disposition_decision
  wd_original_signals :: "string list"
  wd_rationale :: string

record execution_reconciliation =
  er_id :: ident
  er_workflow_id :: ident
  er_task_id :: ident
  er_attempt_id :: ident
  er_actor_id :: ident
  er_decision :: reconciliation_decision
  er_rationale :: string

record artifact =
  ar_workflow_id :: ident
  ar_task_id :: ident
  ar_attempt_id :: ident
  ar_artifact_type :: string
  ar_digest :: string
  ar_revision :: "string option"
  ar_metadata :: dict

record audit_event =
  ae_workflow_id :: ident
  ae_sequence :: int
  ae_event_type :: string
  ae_actor_id :: ident
  ae_resource_type :: string
  ae_resource_id :: string
  ae_outcome :: string
  ae_payload :: dict
  ae_previous_hash :: string
  ae_event_hash :: string

record idempotency_record =
  id_principal_id :: ident
  id_command :: string
  id_idempotency_key :: string
  id_request_digest :: string
  id_resource_id :: ident

record ci_check_evidence =
  ci_id :: ident
  ci_workflow_id :: ident
  ci_source :: string
  ci_delivery_id :: string
  ci_repository :: string
  ci_check_run_id :: string
  ci_check_name :: string
  ci_revision :: string
  ci_status :: string
  ci_conclusion :: string
  ci_details_url :: "string option"
  ci_app_slug :: "string option"
  ci_payload_digest :: string
  ci_created_at :: instant

text \<open>The three tables of pull-request operations keep their status as plain text.\<close>

record pull_request_proposal =
  pq_id :: ident
  pq_workflow_id :: ident
  pq_actor_id :: ident
  pq_idempotency_key :: string
  pq_request_digest :: string
  pq_repository :: string
  pq_head_branch :: string
  pq_base_branch :: string
  pq_revision :: string
  pq_title :: string
  pq_status :: string
  pq_pull_number :: "int option"
  pq_pull_url :: "string option"
  pq_error_code :: "string option"
  pq_created_at :: instant
  pq_completed_at :: "instant option"

record merge_readiness_assessment =
  mr_id :: ident
  mr_workflow_id :: ident
  mr_proposal_id :: ident
  mr_actor_id :: ident
  mr_idempotency_key :: string
  mr_revision :: string
  mr_status :: string
  mr_ready :: "bool option"
  mr_reasons :: "string list"
  mr_checks :: "(string \<times> string) list"
  mr_policy_version :: string
  mr_error_code :: "string option"
  mr_created_at :: instant
  mr_completed_at :: "instant option"

record merge_confirmation =
  mc_id :: ident
  mc_workflow_id :: ident
  mc_proposal_id :: ident
  mc_assessment_id :: ident
  mc_actor_id :: ident
  mc_idempotency_key :: string
  mc_revision :: string
  mc_status :: string
  mc_merge_commit_revision :: "string option"
  mc_error_code :: "string option"
  mc_created_at :: instant
  mc_completed_at :: "instant option"

section \<open>The database\<close>

record db =
  principals :: "principal list"
  workflows :: "workflow list"
  tasks :: "task list"
  attempts :: "task_attempt list"
  routing_records :: "routing_record list"
  observations :: "observation list"
  evaluation_observations :: "observation list"
  grants :: "capability_grant list"
  approvals :: "approval list"
  environments :: "deployment_environment list"
  plans :: "deployment_plan_record list"
  deployments :: "deployment_attempt_record list"
  verifications :: "deployment_verification_record list"
  rollbacks :: "deployment_rollback_record list"
  dispositions :: "workflow_disposition list"
  reconciliations :: "execution_reconciliation list"
  artifacts :: "artifact list"
  audit_events :: "audit_event list"
  idempotency_records :: "idempotency_record list"
  ci_checks :: "ci_check_evidence list"
  proposals :: "pull_request_proposal list"
  assessments :: "merge_readiness_assessment list"
  confirmations :: "merge_confirmation list"

definition empty_db :: db where
  "empty_db = \<lparr>principals = [], workflows = [], tasks = [], attempts = [], routing_records = [],
     observations = [], evaluation_observations = [], grants = [], approvals = [], environments = [],
     plans = [], deployments = [], verifications = [], rollbacks = [], dispositions = [],
     reconciliations = [], artifacts = [], audit_events = [], idempotency_records = [],
     ci_checks = [], proposals = [], assessments = [], confirmations = []\<rparr>"

section \<open>Built-in principals\<close>

definition builtin_principal :: "ident \<Rightarrow> principal_type \<Rightarrow> agent_role \<Rightarrow> string \<Rightarrow> principal" where
  "builtin_principal i t r n = \<lparr>pn_id = i, pn_principal_type = t, pn_role = r, pn_display_name = n, pn_active = True\<rparr>"

definition BUILTIN_PRINCIPALS :: "principal list" where
  "BUILTIN_PRINCIPALS =
     [builtin_principal ''dev-operator'' PT_HUMAN AR_HUMAN_APPROVER ''Development Operator'',
      builtin_principal ''orchestrator'' PT_SERVICE AR_ORCHESTRATOR ''Workflow Orchestrator'',
      builtin_principal ''architect-agent'' PT_AGENT AR_ARCHITECT ''Mock Architect'',
      builtin_principal ''reviewer-agent'' PT_AGENT AR_REVIEWER ''Mock Independent Reviewer'',
      builtin_principal ''implementer-agent'' PT_AGENT AR_IMPLEMENTER ''Mock Implementer'',
      builtin_principal ''test-agent'' PT_AGENT AR_TEST_AGENT ''Mock Test Agent'',
      builtin_principal ''security-agent'' PT_AGENT AR_SECURITY_AGENT ''Mock Security Agent'',
      builtin_principal ''windsurf-cascade'' PT_INTEGRATION AR_IDE_INTEGRATION ''Windsurf Cascade MCP'',
      builtin_principal ''github-ci'' PT_INTEGRATION AR_CI_INTEGRATION ''GitHub CI Webhook'',
      builtin_principal ''devin-remote'' PT_INTEGRATION AR_REMOTE_AGENT_INTEGRATION ''Devin Remote Session'']"

definition seed_one :: "principal \<Rightarrow> db \<Rightarrow> db" where
  "seed_one p d = (case row_get pn_id (pn_id p) (principals d) of
     None \<Rightarrow> d\<lparr>principals := row_add p (principals d)\<rparr>
   | Some _ \<Rightarrow> d)"

definition seed_principals :: "db \<Rightarrow> db" where
  "seed_principals d = foldl (\<lambda>acc p. seed_one p acc) d BUILTIN_PRINCIPALS"

section \<open>Shared queries and updates\<close>

text \<open>\<open>_get_workflow\<close>\<close>

definition get_workflow :: "db \<Rightarrow> ident \<Rightarrow> error + workflow" where
  "get_workflow d wid = from_option (NotFoundError ''workflow not found'') (row_get wf_id wid (workflows d))"

definition upd_workflow :: "ident \<Rightarrow> (workflow \<Rightarrow> workflow) \<Rightarrow> db \<Rightarrow> db" where
  "upd_workflow wid f d = d\<lparr>workflows := row_upd wf_id wid f (workflows d)\<rparr>"

definition upd_task :: "ident \<Rightarrow> (task \<Rightarrow> task) \<Rightarrow> db \<Rightarrow> db" where
  "upd_task tid f d = d\<lparr>tasks := row_upd tk_id tid f (tasks d)\<rparr>"

definition upd_attempt :: "ident \<Rightarrow> (task_attempt \<Rightarrow> task_attempt) \<Rightarrow> db \<Rightarrow> db" where
  "upd_attempt aid f d = d\<lparr>attempts := row_upd at_id aid f (attempts d)\<rparr>"

definition upd_approval :: "ident \<Rightarrow> (approval \<Rightarrow> approval) \<Rightarrow> db \<Rightarrow> db" where
  "upd_approval pid f d = d\<lparr>approvals := row_upd ap_id pid f (approvals d)\<rparr>"

definition upd_deployment :: "ident \<Rightarrow> (deployment_attempt_record \<Rightarrow> deployment_attempt_record) \<Rightarrow> db \<Rightarrow> db" where
  "upd_deployment aid f d = d\<lparr>deployments := row_upd da_id aid f (deployments d)\<rparr>"

definition upd_rollback :: "ident \<Rightarrow> (deployment_rollback_record \<Rightarrow> deployment_rollback_record) \<Rightarrow> db \<Rightarrow> db" where
  "upd_rollback rid f d = d\<lparr>rollbacks := row_upd dr_id rid f (rollbacks d)\<rparr>"

definition upd_proposal :: "ident \<Rightarrow> (pull_request_proposal \<Rightarrow> pull_request_proposal) \<Rightarrow> db \<Rightarrow> db" where
  "upd_proposal i f d = d\<lparr>proposals := row_upd pq_id i f (proposals d)\<rparr>"

definition upd_assessment :: "ident \<Rightarrow> (merge_readiness_assessment \<Rightarrow> merge_readiness_assessment) \<Rightarrow> db \<Rightarrow> db" where
  "upd_assessment i f d = d\<lparr>assessments := row_upd mr_id i f (assessments d)\<rparr>"

definition upd_confirmation :: "ident \<Rightarrow> (merge_confirmation \<Rightarrow> merge_confirmation) \<Rightarrow> db \<Rightarrow> db" where
  "upd_confirmation i f d = d\<lparr>confirmations := row_upd mc_id i f (confirmations d)\<rparr>"

text \<open>The relationships \<open>workflow.tasks\<close> and \<open>task.attempts\<close>.\<close>

definition workflow_tasks :: "db \<Rightarrow> ident \<Rightarrow> task list" where
  "workflow_tasks d wid = sort_key tk_position (filter (\<lambda>t. tk_workflow_id t = wid) (tasks d))"

definition task_attempts :: "db \<Rightarrow> ident \<Rightarrow> task_attempt list" where
  "task_attempts d tid = filter (\<lambda>a. at_task_id a = tid) (attempts d)"

section \<open>Frame facts\<close>

lemma get_workflow_eq_Inr [tx_simps]: "get_workflow d wid = Inr w \<longleftrightarrow> row_get wf_id wid (workflows d) = Some w"
  by (simp add: get_workflow_def tx_simps)

lemma upd_workflow_frame [simp]:
  "principals (upd_workflow i f d) = principals d" "tasks (upd_workflow i f d) = tasks d"
  "attempts (upd_workflow i f d) = attempts d" "routing_records (upd_workflow i f d) = routing_records d"
  "observations (upd_workflow i f d) = observations d" "grants (upd_workflow i f d) = grants d"
  "approvals (upd_workflow i f d) = approvals d" "environments (upd_workflow i f d) = environments d"
  "plans (upd_workflow i f d) = plans d" "deployments (upd_workflow i f d) = deployments d"
  "verifications (upd_workflow i f d) = verifications d" "rollbacks (upd_workflow i f d) = rollbacks d"
  "dispositions (upd_workflow i f d) = dispositions d" "reconciliations (upd_workflow i f d) = reconciliations d"
  "artifacts (upd_workflow i f d) = artifacts d" "audit_events (upd_workflow i f d) = audit_events d"
  "idempotency_records (upd_workflow i f d) = idempotency_records d"
  "ci_checks (upd_workflow i f d) = ci_checks d" "proposals (upd_workflow i f d) = proposals d"
  "assessments (upd_workflow i f d) = assessments d" "confirmations (upd_workflow i f d) = confirmations d"
  "workflows (upd_workflow i f d) = row_upd wf_id i f (workflows d)"
  by (simp_all add: upd_workflow_def)

lemma upd_task_frame [simp]:
  "principals (upd_task i f d) = principals d" "workflows (upd_task i f d) = workflows d"
  "attempts (upd_task i f d) = attempts d" "grants (upd_task i f d) = grants d"
  "routing_records (upd_task i f d) = routing_records d" "observations (upd_task i f d) = observations d"
  "approvals (upd_task i f d) = approvals d" "plans (upd_task i f d) = plans d"
  "environments (upd_task i f d) = environments d"
  "deployments (upd_task i f d) = deployments d" "rollbacks (upd_task i f d) = rollbacks d"
  "dispositions (upd_task i f d) = dispositions d" "reconciliations (upd_task i f d) = reconciliations d"
  "artifacts (upd_task i f d) = artifacts d" "audit_events (upd_task i f d) = audit_events d"
  "idempotency_records (upd_task i f d) = idempotency_records d" "confirmations (upd_task i f d) = confirmations d"
  "tasks (upd_task i f d) = row_upd tk_id i f (tasks d)"
  by (simp_all add: upd_task_def)

lemma upd_attempt_frame [simp]:
  "principals (upd_attempt i f d) = principals d" "workflows (upd_attempt i f d) = workflows d"
  "tasks (upd_attempt i f d) = tasks d" "grants (upd_attempt i f d) = grants d"
  "routing_records (upd_attempt i f d) = routing_records d" "observations (upd_attempt i f d) = observations d"
  "approvals (upd_attempt i f d) = approvals d" "plans (upd_attempt i f d) = plans d"
  "environments (upd_attempt i f d) = environments d"
  "deployments (upd_attempt i f d) = deployments d" "rollbacks (upd_attempt i f d) = rollbacks d"
  "dispositions (upd_attempt i f d) = dispositions d" "reconciliations (upd_attempt i f d) = reconciliations d"
  "artifacts (upd_attempt i f d) = artifacts d" "audit_events (upd_attempt i f d) = audit_events d"
  "idempotency_records (upd_attempt i f d) = idempotency_records d" "confirmations (upd_attempt i f d) = confirmations d"
  "attempts (upd_attempt i f d) = row_upd at_id i f (attempts d)"
  by (simp_all add: upd_attempt_def)

lemma upd_approval_frame [simp]:
  "principals (upd_approval i f d) = principals d" "workflows (upd_approval i f d) = workflows d"
  "tasks (upd_approval i f d) = tasks d" "attempts (upd_approval i f d) = attempts d"
  "grants (upd_approval i f d) = grants d" "environments (upd_approval i f d) = environments d"
  "plans (upd_approval i f d) = plans d" "deployments (upd_approval i f d) = deployments d"
  "verifications (upd_approval i f d) = verifications d" "rollbacks (upd_approval i f d) = rollbacks d"
  "audit_events (upd_approval i f d) = audit_events d" "proposals (upd_approval i f d) = proposals d"
  "assessments (upd_approval i f d) = assessments d" "confirmations (upd_approval i f d) = confirmations d"
  "ci_checks (upd_approval i f d) = ci_checks d"
  "approvals (upd_approval i f d) = row_upd ap_id i f (approvals d)"
  by (simp_all add: upd_approval_def)

lemma upd_deployment_frame [simp]:
  "principals (upd_deployment i f d) = principals d" "workflows (upd_deployment i f d) = workflows d"
  "tasks (upd_deployment i f d) = tasks d" "attempts (upd_deployment i f d) = attempts d"
  "grants (upd_deployment i f d) = grants d" "approvals (upd_deployment i f d) = approvals d"
  "environments (upd_deployment i f d) = environments d" "plans (upd_deployment i f d) = plans d"
  "verifications (upd_deployment i f d) = verifications d" "rollbacks (upd_deployment i f d) = rollbacks d"
  "audit_events (upd_deployment i f d) = audit_events d" "proposals (upd_deployment i f d) = proposals d"
  "assessments (upd_deployment i f d) = assessments d" "confirmations (upd_deployment i f d) = confirmations d"
  "ci_checks (upd_deployment i f d) = ci_checks d"
  "deployments (upd_deployment i f d) = row_upd da_id i f (deployments d)"
  by (simp_all add: upd_deployment_def)

lemma upd_rollback_frame [simp]:
  "principals (upd_rollback i f d) = principals d" "workflows (upd_rollback i f d) = workflows d"
  "tasks (upd_rollback i f d) = tasks d" "attempts (upd_rollback i f d) = attempts d"
  "grants (upd_rollback i f d) = grants d" "approvals (upd_rollback i f d) = approvals d"
  "environments (upd_rollback i f d) = environments d" "plans (upd_rollback i f d) = plans d"
  "deployments (upd_rollback i f d) = deployments d" "verifications (upd_rollback i f d) = verifications d"
  "audit_events (upd_rollback i f d) = audit_events d" "proposals (upd_rollback i f d) = proposals d"
  "assessments (upd_rollback i f d) = assessments d" "confirmations (upd_rollback i f d) = confirmations d"
  "ci_checks (upd_rollback i f d) = ci_checks d"
  "rollbacks (upd_rollback i f d) = row_upd dr_id i f (rollbacks d)"
  by (simp_all add: upd_rollback_def)

lemma upd_proposal_frame [simp]:
  "principals (upd_proposal i f d) = principals d" "workflows (upd_proposal i f d) = workflows d"
  "tasks (upd_proposal i f d) = tasks d" "attempts (upd_proposal i f d) = attempts d"
  "grants (upd_proposal i f d) = grants d" "approvals (upd_proposal i f d) = approvals d"
  "environments (upd_proposal i f d) = environments d" "plans (upd_proposal i f d) = plans d"
  "deployments (upd_proposal i f d) = deployments d" "verifications (upd_proposal i f d) = verifications d"
  "rollbacks (upd_proposal i f d) = rollbacks d" "audit_events (upd_proposal i f d) = audit_events d"
  "assessments (upd_proposal i f d) = assessments d" "confirmations (upd_proposal i f d) = confirmations d"
  "ci_checks (upd_proposal i f d) = ci_checks d"
  "proposals (upd_proposal i f d) = row_upd pq_id i f (proposals d)"
  by (simp_all add: upd_proposal_def)

lemma upd_assessment_frame [simp]:
  "principals (upd_assessment i f d) = principals d" "workflows (upd_assessment i f d) = workflows d"
  "tasks (upd_assessment i f d) = tasks d" "attempts (upd_assessment i f d) = attempts d"
  "grants (upd_assessment i f d) = grants d" "approvals (upd_assessment i f d) = approvals d"
  "environments (upd_assessment i f d) = environments d" "plans (upd_assessment i f d) = plans d"
  "deployments (upd_assessment i f d) = deployments d" "verifications (upd_assessment i f d) = verifications d"
  "rollbacks (upd_assessment i f d) = rollbacks d" "audit_events (upd_assessment i f d) = audit_events d"
  "proposals (upd_assessment i f d) = proposals d" "confirmations (upd_assessment i f d) = confirmations d"
  "ci_checks (upd_assessment i f d) = ci_checks d"
  "assessments (upd_assessment i f d) = row_upd mr_id i f (assessments d)"
  by (simp_all add: upd_assessment_def)

lemma upd_confirmation_frame [simp]:
  "principals (upd_confirmation i f d) = principals d" "workflows (upd_confirmation i f d) = workflows d"
  "tasks (upd_confirmation i f d) = tasks d" "attempts (upd_confirmation i f d) = attempts d"
  "grants (upd_confirmation i f d) = grants d" "approvals (upd_confirmation i f d) = approvals d"
  "environments (upd_confirmation i f d) = environments d" "plans (upd_confirmation i f d) = plans d"
  "deployments (upd_confirmation i f d) = deployments d" "verifications (upd_confirmation i f d) = verifications d"
  "rollbacks (upd_confirmation i f d) = rollbacks d" "audit_events (upd_confirmation i f d) = audit_events d"
  "proposals (upd_confirmation i f d) = proposals d" "assessments (upd_confirmation i f d) = assessments d"
  "ci_checks (upd_confirmation i f d) = ci_checks d"
  "confirmations (upd_confirmation i f d) = row_upd mc_id i f (confirmations d)"
  by (simp_all add: upd_confirmation_def)

text \<open>Seeding is idempotent in its effect on lookups: a principal that exists is left alone.\<close>

lemma seed_one_keeps: "row_get pn_id i (principals d) = Some p \<Longrightarrow>
    row_get pn_id i (principals (seed_one q d)) = Some p"
  by (auto simp: seed_one_def row.get_add split: option.splits)

lemma foldl_seed_keeps: "row_get pn_id i (principals d) = Some p \<Longrightarrow>
    row_get pn_id i (principals (foldl (\<lambda>acc p. seed_one p acc) d ps)) = Some p"
  by (induction ps arbitrary: d) (simp_all add: seed_one_keeps)

lemma foldl_seed_adds: "q \<in> set ps \<Longrightarrow> \<exists>p. row_get pn_id (pn_id q) (principals
    (foldl (\<lambda>acc p. seed_one p acc) d ps)) = Some p"
proof (induction ps arbitrary: d)
  case (Cons x ps)
  have "\<exists>p. row_get pn_id (pn_id x) (principals (seed_one x d)) = Some p"
    by (auto simp: seed_one_def row.get_add split: option.splits)
  with Cons show ?case by (auto intro: foldl_seed_keeps)
qed simp

end
