(* ===== verification/Policy.thy ===== *)
theory Policy
  imports Persistence
begin

text \<open>
  \<open>policy.py\<close>: the policy engine every command passes before it reads or writes.  The clock reading
  of \<open>authorize\<close> is its argument \<open>now\<close>.
\<close>

definition task_scoped_identity :: "principal \<Rightarrow> bool" where
  "task_scoped_identity p \<longleftrightarrow> pn_principal_type p \<in> {PT_AGENT, PT_INTEGRATION}"

definition unscoped_integration_capabilities :: "capability set" where
  "unscoped_integration_capabilities = {CAP_CLAIM_IDE_TASK, CAP_SUBMIT_CI_EVIDENCE}"

definition find_grant :: "db \<Rightarrow> ident \<Rightarrow> ident \<Rightarrow> ident \<Rightarrow> capability_grant option" where
  "find_grant d pid wid tid = List.find (\<lambda>g. cg_principal_id g = pid \<and> cg_workflow_id g = wid \<and>
     cg_task_id g = tid \<and> cg_active g) (grants d)"

definition authorize :: "db \<Rightarrow> instant \<Rightarrow> ident \<Rightarrow> capability \<Rightarrow> ident option \<Rightarrow> ident option \<Rightarrow> bool \<Rightarrow>
    error + principal" where
  "authorize d now pid cap workflow_id task_id require_human =
     (case row_get pn_id pid (principals d) of
        None \<Rightarrow> Inl (AuthorizationError ''principal is unknown or inactive'')
      | Some p \<Rightarrow>
          if \<not> pn_active p then Inl (AuthorizationError ''principal is unknown or inactive'')
          else if require_human \<and> pn_principal_type p \<noteq> PT_HUMAN
          then Inl (AuthorizationError ''this action requires an authenticated human principal'')
          else if cap \<notin> ROLE_CAPABILITIES (pn_role p)
          then Inl (AuthorizationError (''role '' @ agent_role_value (pn_role p) @ '' lacks capability '' @
                 capability_value cap))
          else if task_scoped_identity p \<and> cap \<notin> unscoped_integration_capabilities then
            (case (workflow_id, task_id) of
               (Some wid, Some tid) \<Rightarrow>
                 (case find_grant d pid wid tid of
                    None \<Rightarrow> Inl (AuthorizationError ''no active task-scoped capability grant'')
                  | Some g \<Rightarrow>
                      if cg_expires_at g \<le> now
                      then Inl (AuthorizationError ''no active task-scoped capability grant'')
                      else if cap \<notin> set (cg_capabilities g)
                      then Inl (AuthorizationError ''task grant does not include requested capability'')
                      else Inr p)
             | _ \<Rightarrow> Inl (AuthorizationError ''agent or integration action requires workflow and task scope''))
          else Inr p)"

section \<open>What authorization means\<close>

text \<open>The live, unexpired grant that a task-scoped identity needs.\<close>

definition live_grant :: "db \<Rightarrow> instant \<Rightarrow> ident \<Rightarrow> capability \<Rightarrow> ident option \<Rightarrow> ident option \<Rightarrow> bool" where
  "live_grant d now pid cap workflow_id task_id \<longleftrightarrow>
     (\<exists>wid tid g. workflow_id = Some wid \<and> task_id = Some tid \<and> find_grant d pid wid tid = Some g \<and>
        now < cg_expires_at g \<and> cap \<in> set (cg_capabilities g))"

lemma authorize_Inr_iff:
  "authorize d now pid cap wid tid hum = Inr p \<longleftrightarrow>
     row_get pn_id pid (principals d) = Some p \<and> pn_active p \<and>
     (hum \<longrightarrow> pn_principal_type p = PT_HUMAN) \<and> cap \<in> ROLE_CAPABILITIES (pn_role p) \<and>
     (task_scoped_identity p \<and> cap \<notin> unscoped_integration_capabilities \<longrightarrow>
        live_grant d now pid cap wid tid)"
  by (auto simp: authorize_def live_grant_def split: option.splits if_splits)

lemma authorize_Inl: "authorize d now pid cap wid tid hum = Inl e \<Longrightarrow> \<exists>m. e = AuthorizationError m"
  by (auto simp: authorize_def split: option.splits if_splits)

lemma authorize_cong:
  "principals d = principals d' \<Longrightarrow> grants d = grants d' \<Longrightarrow>
   authorize d now pid cap wid tid hum = authorize d' now pid cap wid tid hum"
proof -
  assume "principals d = principals d'" "grants d = grants d'"
  then have "find_grant d = find_grant d'" by (intro ext) (simp add: find_grant_def)
  with \<open>principals d = principals d'\<close> show ?thesis by (simp only: authorize_def)
qed

lemma find_grant_SomeD:
  assumes "find_grant d pid wid tid = Some g"
  shows "g \<in> set (grants d) \<and> cg_principal_id g = pid \<and> cg_workflow_id g = wid \<and> cg_task_id g = tid \<and> cg_active g"
  using assms unfolding find_grant_def by (auto simp: find_Some_iff)

lemma seeded_operator: "row_get pn_id ''dev-operator'' (principals (seed_principals empty_db)) =
    Some (builtin_principal ''dev-operator'' PT_HUMAN AR_HUMAN_APPROVER ''Development Operator'')"
  by (simp add: seed_principals_def BUILTIN_PRINCIPALS_def seed_one_def empty_db_def row_add_def
      builtin_principal_def)



text \<open>C28: No agent, service or integration can take a human decision. A principal that is authorized for
a merge, deployment or rollback approval, an input disposition, an execution reconciliation, a
deployment or rollback execution or a merge confirmation, with the human requirement the services set,
is an active HUMAN with the HUMAN-APPROVER role, whatever grants exist.\<close>

theorem human_decisions_need_a_human:
  assumes "authorize d now pid cap wid tid True = Inr p"
    and "cap \<in> {CAP_APPROVE_MERGE, CAP_APPROVE_DEPLOYMENT, CAP_APPROVE_ROLLBACK, CAP_DISPOSITION_WORKFLOW,
      CAP_RECONCILE_EXECUTION, CAP_EXECUTE_DEPLOYMENT, CAP_EXECUTE_ROLLBACK, CAP_CONFIRM_GIT_MERGE}"
  shows "pn_id p = pid \<and> pn_active p \<and> pn_principal_type p = PT_HUMAN \<and> pn_role p = AR_HUMAN_APPROVER"
proof -
  from assms(1) have g: "row_get pn_id pid (principals d) = Some p" and "pn_active p"
    and "pn_principal_type p = PT_HUMAN" and c: "cap \<in> ROLE_CAPABILITIES (pn_role p)"
    by (simp_all add: authorize_Inr_iff)
  moreover from g have "pn_id p = pid" by (rule row.get_key)
  moreover have "pn_role p = AR_HUMAN_APPROVER"
    using assms(2) c by (rule approval_capability_human_approver)
  ultimately show ?thesis by simp
qed

theorem human_decisions_need_a_human_witness:
  "\<exists>p. authorize (seed_principals empty_db) 0 ''dev-operator'' CAP_APPROVE_MERGE None None True = Inr p \<and>
     pn_role p = AR_HUMAN_APPROVER"
proof -
  let ?d = "seed_principals empty_db"
  let ?p = "builtin_principal ''dev-operator'' PT_HUMAN AR_HUMAN_APPROVER ''Development Operator''"
  have p: "authorize ?d 0 ''dev-operator'' CAP_APPROVE_MERGE None None True = Inr ?p"
    by (simp add: authorize_Inr_iff seeded_operator builtin_principal_def task_scoped_identity_def)
  have "pn_role ?p = AR_HUMAN_APPROVER"
    by (rule human_decisions_need_a_human [OF p, THEN conjunct2, THEN conjunct2, THEN conjunct2]) simp
  with p show ?thesis by (intro exI [of _ ?p] conjI)
qed

end
