(* ===== verification/Audit_Log.thy ===== *)
theory Audit_Log
  imports Persistence
begin

text \<open>
  \<open>audit.py\<close>: the hash-chained audit log.  The hash function is the parameter \<open>sha\<close> (SHA-256 of the
  canonical JSON text in the program); nothing is assumed of it.  Tamper evidence is therefore stated
  as a reduction: two verified chains with the same head either agree event by event or exhibit a
  collision of \<open>sha\<close>.
\<close>

definition GENESIS_HASH :: string where
  "GENESIS_HASH = replicate 64 (CHR ''0'')"

definition event_fields :: "audit_event \<Rightarrow> dict" where
  "event_fields e =
     [(''workflow_id'', JStr (ae_workflow_id e)), (''sequence'', JInt (ae_sequence e)),
      (''event_type'', JStr (ae_event_type e)), (''actor_id'', JStr (ae_actor_id e)),
      (''resource_type'', JStr (ae_resource_type e)), (''resource_id'', JStr (ae_resource_id e)),
      (''outcome'', JStr (ae_outcome e)), (''payload'', JObj (ae_payload e)),
      (''previous_hash'', JStr (ae_previous_hash e))]"

definition canonical_event :: "audit_event \<Rightarrow> json" where
  "canonical_event e = JObj (event_fields e)"

definition workflow_events :: "db \<Rightarrow> ident \<Rightarrow> audit_event list" where
  "workflow_events d wid = sort_key ae_sequence (filter (\<lambda>e. ae_workflow_id e = wid) (audit_events d))"

definition append_audit_event :: "(string \<Rightarrow> string) \<Rightarrow> ident \<Rightarrow> string \<Rightarrow> ident \<Rightarrow> string \<Rightarrow> string \<Rightarrow>
    string \<Rightarrow> dict \<Rightarrow> db \<Rightarrow> db" where
  "append_audit_event sha wid event_type actor_id resource_type resource_id outcome payload d =
     (let latest = last_by ae_sequence (\<lambda>e. ae_workflow_id e = wid) (audit_events d);
          sequence = (case latest of None \<Rightarrow> 1 | Some e \<Rightarrow> ae_sequence e + 1);
          previous_hash = (case latest of None \<Rightarrow> GENESIS_HASH | Some e \<Rightarrow> ae_event_hash e);
          event = \<lparr>ae_workflow_id = wid, ae_sequence = sequence, ae_event_type = event_type,
            ae_actor_id = actor_id, ae_resource_type = resource_type, ae_resource_id = resource_id,
            ae_outcome = outcome, ae_payload = payload, ae_previous_hash = previous_hash, ae_event_hash = []\<rparr>
      in d\<lparr>audit_events := row_add (event\<lparr>ae_event_hash := digest sha (canonical_event event)\<rparr>)
             (audit_events d)\<rparr>)"

text \<open>The loop of \<open>verify_audit_chain\<close>: the expected sequence number and the previous hash.\<close>

fun verify_events :: "(string \<Rightarrow> string) \<Rightarrow> int \<Rightarrow> string \<Rightarrow> audit_event list \<Rightarrow> bool" where
  "verify_events sha n prev [] = True"
| "verify_events sha n prev (e # es) =
     (if ae_sequence e \<noteq> n \<or> ae_previous_hash e \<noteq> prev then False
      else if digest sha (canonical_event e) \<noteq> ae_event_hash e then False
      else verify_events sha (n + 1) (ae_event_hash e) es)"

definition verify_audit_chain :: "(string \<Rightarrow> string) \<Rightarrow> db \<Rightarrow> ident \<Rightarrow> bool" where
  "verify_audit_chain sha d wid =
     (let events = workflow_events d wid in
      verify_events sha 1 GENESIS_HASH events \<and> events \<noteq> [])"

definition audit_count :: "db \<Rightarrow> ident \<Rightarrow> nat" where
  "audit_count d wid = length (filter (\<lambda>e. ae_workflow_id e = wid) (audit_events d))"

section \<open>Frame facts\<close>

lemma append_audit_frame [simp, frame_simps]:
  "principals (append_audit_event s w t a rt ri oc pl d) = principals d"
  "workflows (append_audit_event s w t a rt ri oc pl d) = workflows d"
  "tasks (append_audit_event s w t a rt ri oc pl d) = tasks d"
  "attempts (append_audit_event s w t a rt ri oc pl d) = attempts d"
  "routing_records (append_audit_event s w t a rt ri oc pl d) = routing_records d"
  "observations (append_audit_event s w t a rt ri oc pl d) = observations d"
  "evaluation_observations (append_audit_event s w t a rt ri oc pl d) = evaluation_observations d"
  "grants (append_audit_event s w t a rt ri oc pl d) = grants d"
  "approvals (append_audit_event s w t a rt ri oc pl d) = approvals d"
  "environments (append_audit_event s w t a rt ri oc pl d) = environments d"
  "plans (append_audit_event s w t a rt ri oc pl d) = plans d"
  "deployments (append_audit_event s w t a rt ri oc pl d) = deployments d"
  "verifications (append_audit_event s w t a rt ri oc pl d) = verifications d"
  "rollbacks (append_audit_event s w t a rt ri oc pl d) = rollbacks d"
  "dispositions (append_audit_event s w t a rt ri oc pl d) = dispositions d"
  "reconciliations (append_audit_event s w t a rt ri oc pl d) = reconciliations d"
  "artifacts (append_audit_event s w t a rt ri oc pl d) = artifacts d"
  "idempotency_records (append_audit_event s w t a rt ri oc pl d) = idempotency_records d"
  "ci_checks (append_audit_event s w t a rt ri oc pl d) = ci_checks d"
  "proposals (append_audit_event s w t a rt ri oc pl d) = proposals d"
  "assessments (append_audit_event s w t a rt ri oc pl d) = assessments d"
  "confirmations (append_audit_event s w t a rt ri oc pl d) = confirmations d"
  by (simp_all add: append_audit_event_def Let_def)

section \<open>The chain\<close>

text \<open>
  A log is well chained for a workflow when its events, in insertion order, verify.  Insertion order
  and sequence order then coincide, so the \<open>ORDER BY\<close> of the queries changes nothing.
\<close>

definition raw_events :: "db \<Rightarrow> ident \<Rightarrow> audit_event list" where
  "raw_events d wid = filter (\<lambda>e. ae_workflow_id e = wid) (audit_events d)"

definition chained :: "(string \<Rightarrow> string) \<Rightarrow> db \<Rightarrow> ident \<Rightarrow> bool" where
  "chained sha d wid \<longleftrightarrow> verify_events sha 1 GENESIS_HASH (raw_events d wid)"

lemma verify_events_sequences:
  "verify_events sha n prev es \<Longrightarrow> map ae_sequence es = map (\<lambda>k. n + int k) [0..<length es]"
proof (induction es arbitrary: n prev)
  case (Cons e es)
  then have "ae_sequence e = n" "map ae_sequence es = map (\<lambda>k. n + 1 + int k) [0..<length es]"
    by (auto split: if_splits)
  moreover have "map (\<lambda>k. n + int k) [0..<length (e # es)] = n # map (\<lambda>k. n + 1 + int k) [0..<length es]"
    by (simp add: upt_conv_Cons map_Suc_upt [symmetric] algebra_simps del: upt_Suc map_Suc_upt)
  ultimately show ?case by simp
qed simp

lemma verify_events_sorted: "verify_events sha n prev es \<Longrightarrow> sorted (map ae_sequence es)"
  by (drule verify_events_sequences) (simp add: sorted_iff_nth_mono)

lemma workflow_events_chained: "chained sha d wid \<Longrightarrow> workflow_events d wid = raw_events d wid"
  unfolding chained_def workflow_events_def raw_events_def
  by (drule verify_events_sorted) (simp add: sort_key_id_if_sorted)

definition last_hash :: "string \<Rightarrow> audit_event list \<Rightarrow> string" where
  "last_hash prev es = (if es = [] then prev else ae_event_hash (last es))"

lemma verify_events_snoc:
  "verify_events sha n prev (es @ [e]) \<longleftrightarrow> verify_events sha n prev es \<and>
     ae_sequence e = n + int (length es) \<and> ae_previous_hash e = last_hash prev es \<and>
     digest sha (canonical_event e) = ae_event_hash e"
  by (induction es arbitrary: n prev) (auto simp: last_hash_def algebra_simps)

lemma chained_last_sequence:
  assumes "chained sha d wid" "raw_events d wid \<noteq> []"
  shows "ae_sequence (last (raw_events d wid)) = int (length (raw_events d wid))"
  using arg_cong [OF verify_events_sequences [OF assms(1) [unfolded chained_def]], of last] assms(2)
  by (cases "length (raw_events d wid)") (simp_all add: last_map)

lemma chained_latest:
  assumes "chained sha d wid"
  shows "last_by ae_sequence (\<lambda>e. ae_workflow_id e = wid) (audit_events d) =
    (if raw_events d wid = [] then None else Some (last (raw_events d wid)))"
proof (cases "last_by ae_sequence (\<lambda>e. ae_workflow_id e = wid) (audit_events d)")
  case None
  then have "raw_events d wid = []" by (simp add: last_by_None_iff raw_events_def filter_empty_conv)
  with None show ?thesis by simp
next
  case (Some r)
  let ?es = "raw_events d wid"
  have mem: "r \<in> set ?es" using last_by_SomeD [OF Some] by (simp add: raw_events_def)
  then obtain k where k: "k < length ?es" "r = ?es ! k" by (metis in_set_conv_nth)
  have seq: "ae_sequence (?es ! i) = 1 + int i" if "i < length ?es" for i
    using arg_cong [OF verify_events_sequences [OF assms [unfolded chained_def]], of "\<lambda>l. l ! i"] that
    by simp
  have ne: "?es \<noteq> []" using mem by auto
  then have "last ?es \<in> set ?es" by simp
  then have "ae_sequence (last ?es) \<le> ae_sequence r"
    by (intro last_by_greatest [OF Some]) (simp_all add: raw_events_def)
  moreover have "last ?es = ?es ! (length ?es - 1)" using ne by (rule last_conv_nth)
  moreover have "length ?es - 1 < length ?es" using ne by simp
  ultimately have "length ?es - 1 \<le> k" using seq k by simp
  with k ne have "r = last ?es" by (metis Suc_pred' le_less_Suc_eq last_conv_nth length_greater_0_conv)
  with Some ne show ?thesis by simp
qed

lemma raw_events_append:
  "raw_events (append_audit_event sha w t a rt ri oc pl d) wid =
     (if w = wid then raw_events d wid @ [last (audit_events (append_audit_event sha w t a rt ri oc pl d))]
      else raw_events d wid)"
  by (simp add: append_audit_event_def raw_events_def Let_def row_add_def)

lemma chained_append_audit [simp, intro]:
  assumes "chained sha d w"
  shows "chained sha (append_audit_event sha w t a rt ri oc pl d) w"
proof -
  let ?d = "append_audit_event sha w t a rt ri oc pl d"
  let ?e = "last (audit_events ?d)"
  have e: "ae_sequence ?e = 1 + int (length (raw_events d w))"
    "ae_previous_hash ?e = last_hash GENESIS_HASH (raw_events d w)"
    "digest sha (canonical_event ?e) = ae_event_hash ?e"
    using chained_latest [OF assms] chained_last_sequence [OF assms]
    by (auto simp: append_audit_event_def Let_def row_add_def last_hash_def canonical_event_def event_fields_def)
  show ?thesis
    using assms e by (simp add: chained_def raw_events_append verify_events_snoc)
qed

lemma chained_append_other:
  "chained sha d wid \<Longrightarrow> chained sha (append_audit_event sha w t a rt ri oc pl d) wid"
  by (cases "w = wid") (simp_all add: chained_def [of sha _ wid] raw_events_append
      chained_append_audit [unfolded chained_def raw_events_append, simplified])

lemma chained_verify: "chained sha d wid \<Longrightarrow> raw_events d wid \<noteq> [] \<Longrightarrow> verify_audit_chain sha d wid"
  by (simp add: verify_audit_chain_def workflow_events_chained) (simp add: chained_def)

lemma chained_cong: "audit_events d = audit_events d' \<Longrightarrow> chained sha d wid = chained sha d' wid"
  by (simp add: chained_def raw_events_def)

text \<open>C21: Appending keeps the audit log verifiable and append-only. If every workflow's events chain
before the call, they chain after it; the workflow appended to then passes the verification with
exactly one more event, and the events recorded earlier are a prefix of the new log.\<close>

theorem append_keeps_chain_verifiable:
  assumes "\<forall>w. chained sha d w"
  shows "(\<forall>w. chained sha (append_audit_event sha wid t a rt ri oc pl d) w) \<and>
    verify_audit_chain sha (append_audit_event sha wid t a rt ri oc pl d) wid \<and>
    audit_count (append_audit_event sha wid t a rt ri oc pl d) wid = audit_count d wid + 1 \<and>
    (\<exists>e. audit_events (append_audit_event sha wid t a rt ri oc pl d) = audit_events d @ [e])"
proof (intro conjI)
  let ?d = "append_audit_event sha wid t a rt ri oc pl d"
  show "\<forall>w. chained sha ?d w" using assms by (simp add: chained_append_other)
  show "verify_audit_chain sha ?d wid"
    using assms by (intro chained_verify chained_append_other) (simp_all add: raw_events_append)
  show "audit_count ?d wid = audit_count d wid + 1" "\<exists>e. audit_events ?d = audit_events d @ [e]"
    by (simp_all add: audit_count_def append_audit_event_def Let_def row_add_def)
qed

lemma chained_empty [simp]: "chained sha empty_db w"
  by (simp add: chained_def raw_events_def empty_db_def)

theorem append_keeps_chain_verifiable_witness:
  "verify_audit_chain (\<lambda>s. s) (append_audit_event (\<lambda>s. s) ''w'' ''t'' ''a'' ''rt'' ''ri'' ''ok'' [] empty_db) ''w''"
  using append_keeps_chain_verifiable [of "\<lambda>s. s" empty_db "''w''"] by simp

section \<open>Tamper evidence\<close>

definition collision :: "(string \<Rightarrow> string) \<Rightarrow> bool" where
  "collision sha \<longleftrightarrow> (\<exists>x y. x \<noteq> y \<and> sha x = sha y)"

text \<open>Two events that are equal as recorded values: every column agrees, and the payloads are equal
as dictionaries.\<close>

definition same_event :: "audit_event \<Rightarrow> audit_event \<Rightarrow> bool" where
  "same_event e f \<longleftrightarrow> ae_workflow_id e = ae_workflow_id f \<and> ae_sequence e = ae_sequence f \<and>
     ae_event_type e = ae_event_type f \<and> ae_actor_id e = ae_actor_id f \<and>
     ae_resource_type e = ae_resource_type f \<and> ae_resource_id e = ae_resource_id f \<and>
     ae_outcome e = ae_outcome f \<and> json_eq (JObj (ae_payload e)) (JObj (ae_payload f)) \<and>
     ae_previous_hash e = ae_previous_hash f \<and> ae_event_hash e = ae_event_hash f"

definition payload_ok :: "audit_event \<Rightarrow> bool" where
  "payload_ok e \<longleftrightarrow> json_ok (JObj (ae_payload e))"

lemma canonical_event_ok: "payload_ok e \<Longrightarrow> json_ok (canonical_event e)"
  by (simp add: canonical_event_def event_fields_def payload_ok_def)

lemma canonical_event_eq:
  assumes "payload_ok e" "payload_ok f" "json_eq (canonical_event e) (canonical_event f)"
    "ae_event_hash e = ae_event_hash f"
  shows "same_event e f"
proof -
  have get: "json_eq (the (map_of (event_fields e) k)) (the (map_of (event_fields f) k))"
    if "map_of (event_fields e) k \<noteq> None" "map_of (event_fields f) k \<noteq> None" for k
    using json_eq_JObj_get [OF canonical_event_ok [OF assms(1), unfolded canonical_event_def]
        canonical_event_ok [OF assms(2), unfolded canonical_event_def]
        assms(3) [unfolded canonical_event_def]] that by auto
  show ?thesis
    using assms(4) get [of "''workflow_id''"] get [of "''sequence''"] get [of "''event_type''"]
      get [of "''actor_id''"] get [of "''resource_type''"] get [of "''resource_id''"]
      get [of "''outcome''"] get [of "''payload''"] get [of "''previous_hash''"]
    by (simp add: same_event_def event_fields_def)
qed

lemma same_hash_same_event:
  assumes "payload_ok e" "payload_ok f" "digest sha (canonical_event e) = ae_event_hash e"
    "digest sha (canonical_event f) = ae_event_hash f" "ae_event_hash e = ae_event_hash f" "\<not> collision sha"
  shows "same_event e f"
proof -
  have "dumps (canonical_event e) = dumps (canonical_event f)"
    using assms(3-6) unfolding digest_def collision_def by metis
  then show ?thesis
    using assms by (intro canonical_event_eq dumps_inj canonical_event_ok) simp_all
qed

lemma verify_events_agree:
  assumes "verify_events sha n prev es" "verify_events sha n prev fs" "length es = length fs"
    "last_hash prev es = last_hash prev fs" "list_all payload_ok es" "list_all payload_ok fs" "\<not> collision sha"
  shows "list_all2 same_event es fs"
  using assms
proof (induction es arbitrary: fs rule: rev_induct)
  case (snoc e es)
  from snoc.prems(3) obtain gs f where fs: "fs = gs @ [f]" "length es = length gs"
    by (cases fs rule: rev_cases) auto
  have e: "verify_events sha n prev es" "ae_previous_hash e = last_hash prev es"
    "digest sha (canonical_event e) = ae_event_hash e"
    using snoc.prems(1) by (simp_all add: verify_events_snoc)
  have f: "verify_events sha n prev gs" "ae_previous_hash f = last_hash prev gs"
    "digest sha (canonical_event f) = ae_event_hash f"
    using snoc.prems(2) by (simp_all add: fs verify_events_snoc)
  have same: "same_event e f"
    using snoc.prems(4-7) e f by (intro same_hash_same_event [of e f sha]) (simp_all add: fs last_hash_def)
  then have "list_all2 same_event es gs"
    using snoc.prems(5-7) e f fs by (intro snoc.IH) (simp_all add: same_event_def)
  with same fs show ?case by (simp add: list_all2_appendI)
qed simp



end
