(* ===== verification/Learning.thy ===== *)
theory Learning
  imports Persistence
begin

text \<open>
  \<open>learning.py\<close>: bounded routing evidence computed from the observations of the task workers and of the
  evaluation pipeline.  Latencies are exact rationals, as in the router.
\<close>

type_synonym sample = "instant \<times> int \<times> bool \<times> bool"  \<comment> \<open>created, latency in ms, succeeded, validated\<close>

definition matching_observation :: "provider_profile \<Rightarrow> work_capability \<Rightarrow> observation \<Rightarrow> bool" where
  "matching_observation p c obs \<longleftrightarrow> ob_provider_id obs = pp_provider_id p \<and>
     ob_model_version obs = pp_model_version p \<and> ob_profile_version obs = pp_profile_version p \<and>
     ob_work_capability obs = c"

definition recent_samples :: "nat \<Rightarrow> provider_profile \<Rightarrow> work_capability \<Rightarrow> observation list \<Rightarrow> sample list" where
  "recent_samples window p c obs =
     map (\<lambda>x. (ob_created_at x, ob_latency_ms x, ob_succeeded x, ob_validation_passed x))
       (take window (sort_key (\<lambda>x. - ob_created_at x) (filter (matching_observation p c) obs)))"

text \<open>\<open>max(ceil(0.95 * count) - 1, 0)\<close>\<close>

definition p95_index :: "nat \<Rightarrow> nat" where
  "p95_index n = nat (max (\<lceil>(95/100 :: rat) * of_nat n\<rceil> - 1) 0)"

definition count_true :: "bool list \<Rightarrow> nat" where
  "count_true bs = length (filter id bs)"

definition evidence_of_samples :: "sample list \<Rightarrow> capability_evidence" where
  "evidence_of_samples ss =
     (let n = length ss in
      if n = 0 then no_evidence
      else
        let latencies = sort (map (\<lambda>(_, l, _, _). (of_int l :: rat) / 1000) ss)
        in \<lparr>ce_sample_count = int n,
            ce_success_rate = of_nat (count_true (map (\<lambda>(_, _, b, _). b) ss)) / of_nat n,
            ce_validation_pass_rate = of_nat (count_true (map (\<lambda>(_, _, _, b). b) ss)) / of_nat n,
            ce_p95_latency_seconds = Some (latencies ! p95_index n)\<rparr>)"

definition window_samples :: "nat \<Rightarrow> db \<Rightarrow> provider_profile \<Rightarrow> work_capability \<Rightarrow> sample list" where
  "window_samples window d p c =
     take window (sort_key (\<lambda>s. - fst s)
       (recent_samples window p c (observations d) @ recent_samples window p c (evaluation_observations d)))"

definition evidence_of_db :: "nat \<Rightarrow> db \<Rightarrow> provider_profile \<Rightarrow> work_capability \<Rightarrow> capability_evidence" where
  "evidence_of_db window d p c = evidence_of_samples (window_samples window d p c)"

definition hydrate_profile :: "nat \<Rightarrow> db \<Rightarrow> provider_profile \<Rightarrow> provider_profile" where
  "hydrate_profile window d p =
     p\<lparr>pp_evidence := (\<lambda>c. if c \<in> pp_capabilities p then Some (evidence_of_db window d p c) else None)\<rparr>"

definition hydrate_profiles :: "nat \<Rightarrow> db \<Rightarrow> provider_profile list \<Rightarrow> provider_profile list" where
  "hydrate_profiles window d ps = map (hydrate_profile window d) ps"

section \<open>The evidence is well formed\<close>

lemma count_true_le: "count_true bs \<le> length bs"
  by (simp add: count_true_def)

lemma p95_index_less: "0 < n \<Longrightarrow> p95_index n < n"
proof -
  assume n: "0 < n"
  have "\<lceil>(95/100 :: rat) * of_nat n\<rceil> \<le> int n"
    by (simp add: ceiling_le_iff)
  then show ?thesis using n by (simp add: p95_index_def)
qed

lemma evidence_of_samples_count: "ce_sample_count (evidence_of_samples ss) = int (length ss)"
  by (simp add: evidence_of_samples_def Let_def no_evidence_def)

lemma rate_bounds:
  fixes k n :: nat
  shows "k \<le> n \<Longrightarrow> 0 < n \<Longrightarrow> 0 \<le> (of_nat k / of_nat n :: rat) \<and> (of_nat k / of_nat n :: rat) \<le> 1"
  by (simp add: divide_le_eq)

lemma evidence_of_samples_ok:
  assumes "\<forall>(_, l, _, _) \<in> set ss. 0 \<le> l"
  shows "evidence_ok (evidence_of_samples ss)"
proof (cases "ss = []")
  case True
  then show ?thesis by (simp add: evidence_of_samples_def no_evidence_def evidence_ok_iff)
next
  case False
  then have n: "0 < length ss" by simp
  let ?ls = "sort (map (\<lambda>(_, l, _, _). (of_int l :: rat) / 1000) ss)"
  have "?ls ! p95_index (length ss) \<in> set ?ls"
    using p95_index_less [OF n] by (intro nth_mem) simp
  then have lat: "0 \<le> ?ls ! p95_index (length ss)" using assms by fastforce
  have "count_true (map f ss) \<le> length ss" for f :: "sample \<Rightarrow> bool"
    using count_true_le [of "map f ss"] by simp
  then show ?thesis
    using n lat False by (simp add: evidence_of_samples_def Let_def evidence_ok_iff rate_bounds)
qed

lemma window_samples_latency:
  assumes "\<forall>x \<in> set (observations d @ evaluation_observations d). 0 \<le> ob_latency_ms x"
  shows "\<forall>(_, l, _, _) \<in> set (window_samples window d p c). 0 \<le> l"
  using assms by (fastforce simp: window_samples_def recent_samples_def dest!: in_set_takeD)



section \<open>The latency percentile\<close>

text \<open>The nearest-rank percentile: the least value that at least \<open>pct\<close> percent of the values do not exceed.\<close>

definition nearest_rank :: "nat \<Rightarrow> 'a::linorder list \<Rightarrow> 'a" where
  "nearest_rank pct xs = Min (set (filter (\<lambda>x. pct * length xs \<le> 100 * length (filter (\<lambda>y. y \<le> x) xs)) xs))"

lemma sorted_count_le:
  assumes "sorted xs" "i < length xs"
  shows "Suc i \<le> length (filter (\<lambda>y. y \<le> xs ! i) xs)" "x < xs ! i \<Longrightarrow> length (filter (\<lambda>y. y \<le> x) xs) \<le> i"
proof -
  have le: "xs ! j \<le> xs ! i" if "j \<le> i" for j using assms that by (simp add: sorted_nth_mono)
  have ge: "xs ! i \<le> xs ! j" if "i \<le> j" "j < length xs" for j using assms that by (simp add: sorted_nth_mono)
  have "filter (\<lambda>y. y \<le> xs ! i) (take (Suc i) xs) = take (Suc i) xs"
    using le assms(2) by (intro filter_True) (auto simp: in_set_conv_nth)
  then have "length (filter (\<lambda>y. y \<le> xs ! i) (take (Suc i) xs)) = Suc i" using assms(2) by simp
  moreover have "length (filter (\<lambda>y. y \<le> xs ! i) xs) = length (filter (\<lambda>y. y \<le> xs ! i) (take (Suc i) xs)) +
      length (filter (\<lambda>y. y \<le> xs ! i) (drop (Suc i) xs))"
    by (metis append_take_drop_id filter_append length_append)
  ultimately show "Suc i \<le> length (filter (\<lambda>y. y \<le> xs ! i) xs)" by simp
  show "length (filter (\<lambda>y. y \<le> x) xs) \<le> i" if x: "x < xs ! i"
  proof -
    have "\<not> y \<le> x" if y: "y \<in> set (drop i xs)" for y
    proof -
      obtain j where "j < length (drop i xs)" "y = drop i xs ! j" using y by (auto simp: in_set_conv_nth)
      then have "xs ! i \<le> y" using ge [of "i + j"] assms(2) by simp
      then show ?thesis using x by simp
    qed
    then have "filter (\<lambda>y. y \<le> x) (drop i xs) = []" by (simp add: filter_empty_conv)
    moreover have "length (filter (\<lambda>y. y \<le> x) xs) = length (filter (\<lambda>y. y \<le> x) (take i xs)) + length (filter (\<lambda>y. y \<le> x) (drop i xs))"
      by (metis append_take_drop_id filter_append length_append)
    moreover have "length (filter (\<lambda>y. y \<le> x) (take i xs)) \<le> i" by (metis length_filter_le length_take min.bounded_iff)
    ultimately show ?thesis by simp
  qed
qed

lemma p95_index_rank:
  assumes "0 < n"
  shows "95 * n \<le> 100 * Suc (p95_index n)" "100 * p95_index n < 95 * n"
proof -
  define c where "c = \<lceil>(95/100 :: rat) * of_nat n\<rceil>"
  have pos: "0 < c" using assms by (simp add: c_def)
  then have i: "int (p95_index n) = c - 1" by (simp add: p95_index_def c_def)
  have "(95/100 :: rat) * of_nat n \<le> of_int c" "of_int c - 1 < (95/100 :: rat) * of_nat n"
    using ceiling_correct [of "(95/100 :: rat) * of_nat n"] unfolding c_def by blast+
  then have "(of_int (int (95 * n)) :: rat) \<le> of_int (100 * c)" "(of_int (100 * (c - 1)) :: rat) < of_int (int (95 * n))"
    by (simp_all add: field_simps)
  then have "int (95 * n) \<le> 100 * c" "100 * (c - 1) < int (95 * n)" by (simp_all only: of_int_le_iff of_int_less_iff)
  then show "95 * n \<le> 100 * Suc (p95_index n)" "100 * p95_index n < 95 * n" using i by (simp_all only: of_nat_le_iff [where ?'a = int, symmetric] of_nat_less_iff [where ?'a = int, symmetric]) simp_all
qed

lemma nearest_rank_95:
  assumes "xs \<noteq> []"
  shows "sort xs ! p95_index (length xs) = nearest_rank 95 xs"
proof -
  let ?s = "sort xs" and ?i = "p95_index (length xs)"
  have n: "0 < length xs" using assms by simp
  have i: "?i < length ?s" using p95_index_less [OF n] by simp
  note r = p95_index_rank [OF n] and c = sorted_count_le [OF sorted_sort i]
  have cnt: "length (filter P ?s) = length (filter P xs)" for P
    by (metis mset_filter mset_sort size_mset)
  have mem: "?s ! ?i \<in> set xs" using nth_mem [OF i] by simp
  have "Min (set (filter (\<lambda>x. 95 * length xs \<le> 100 * length (filter (\<lambda>y. y \<le> x) xs)) xs)) = ?s ! ?i"
  proof (rule Min_eqI)
    show "?s ! ?i \<in> set (filter (\<lambda>x. 95 * length xs \<le> 100 * length (filter (\<lambda>y. y \<le> x) xs)) xs)"
      using mem r(1) c(1) by (simp add: cnt)
    fix y assume "y \<in> set (filter (\<lambda>x. 95 * length xs \<le> 100 * length (filter (\<lambda>y. y \<le> x) xs)) xs)"
    then have "\<not> y < ?s ! ?i" using c(2) [of y] r(2) by (auto simp: cnt)
    then show "?s ! ?i \<le> y" by simp
  qed simp
  then show ?thesis by (simp add: nearest_rank_def)
qed

text \<open>C40: The latency evidence is the 95th percentile. For every non-empty list of samples, the value the code
reads at index \<open>ceil(0.95 n) - 1\<close> of the sorted latencies is the nearest-rank percentile: the least recorded
latency that at least 95 percent of the samples do not exceed.\<close>

theorem p95_is_nearest_rank:
  assumes "ss \<noteq> []"
  shows "ce_p95_latency_seconds (evidence_of_samples ss) =
    Some (nearest_rank 95 (map (\<lambda>(_, l, _, _). (of_int l :: rat) / 1000) ss))"
  using assms nearest_rank_95 [of "map (\<lambda>(_, l, _, _). (of_int l :: rat) / 1000) ss"]
  by (simp add: evidence_of_samples_def Let_def)

theorem p95_is_nearest_rank_witness:
  "ce_p95_latency_seconds (evidence_of_samples [(0, 1000, True, True), (1, 3000, True, True), (2, 2000, True, True)]) = Some 3"
  using p95_is_nearest_rank [of "[(0, 1000, True, True), (1, 3000, True, True), (2, 2000, True, True)]"]
  by (simp add: nearest_rank_def)
end
