(* ===== verification/Validation.thy ===== *)
theory Validation
  imports Domain
begin

text \<open>
  \<open>validation.py\<close>: the contract a provider's structured output must meet for each kind of task, the
  JSON schema published to the providers, and the validator the worker runs before any result is
  accepted.
\<close>

section \<open>Contracts and schemas\<close>

fun provider_output_contract :: "task_kind \<Rightarrow> string" where
  "provider_output_contract TK_PLAN = ''Required keys: plan (array) and assumptions (array).''"
| "provider_output_contract TK_ARCHITECTURE_REVIEW =
     ''Required keys: findings (array) and independent_review (literal true).''"
| "provider_output_contract TK_IMPLEMENT =
     ''Required keys: commands_requested (array), candidate_revision (string), and '' @
     ''tool_requests (array of typed tool proposals).''"
| "provider_output_contract TK_TEST =
     ''This is pre-execution test planning, not test execution. Required keys: '' @
     ''test_plan_ready (boolean), concerns (array), and tool_requests (non-empty array '' @
     ''of typed deterministic test proposals). Never invent tool results.''"
| "provider_output_contract TK_SECURITY_REVIEW =
     ''Required keys: policy_passed (boolean) and findings (array).''"
| "provider_output_contract TK_CODE_REVIEW =
     ''Required keys: review_passed (boolean) and blocking_findings (array).''"

definition schema_array :: json where
  "schema_array = JObj [(''type'', JStr ''array''), (''maxItems'', JInt 8),
     (''items'', JObj [(''type'', JStr ''string''), (''maxLength'', JInt 500)])]"

definition schema_object :: "(string \<times> json) list \<Rightarrow> string list \<Rightarrow> json" where
  "schema_object properties required_keys =
     JObj [(''type'', JStr ''object''), (''properties'', JObj properties),
       (''required'', j_strs required_keys), (''additionalProperties'', JBool False)]"

definition schema_type :: "string \<Rightarrow> json" where
  "schema_type t = JObj [(''type'', JStr t)]"

definition schema_string_max :: "int \<Rightarrow> json" where
  "schema_string_max n = JObj [(''type'', JStr ''string''), (''maxLength'', JInt n)]"

fun provider_output_schema :: "task_kind \<Rightarrow> json" where
  "provider_output_schema TK_PLAN =
     schema_object [(''plan'', schema_array), (''assumptions'', schema_array)] [''plan'', ''assumptions'']"
| "provider_output_schema TK_ARCHITECTURE_REVIEW =
     schema_object [(''findings'', schema_array), (''independent_review'', JObj [(''const'', JBool True)])]
       [''findings'', ''independent_review'']"
| "provider_output_schema TK_IMPLEMENT =
     schema_object
       [(''commands_requested'', schema_array), (''candidate_revision'', schema_type ''string''),
        (''tool_requests'', JObj [(''type'', JStr ''array''), (''minItems'', JInt 1), (''maxItems'', JInt 8),
          (''items'', schema_object
             [(''name'', JObj [(''enum'', j_strs [''LIST_FILES'', ''PYTHON_COMPILE'', ''PYTHON_UNITTEST'',
                 ''WRITE_TEXT_FILE''])]),
              (''path'', schema_string_max 500), (''content'', schema_string_max 65536),
              (''targets'', JObj [(''type'', JStr ''array''), (''maxItems'', JInt 64),
                 (''items'', schema_type ''string'')])]
             [''name''])])]
       [''commands_requested'', ''candidate_revision'', ''tool_requests'']"
| "provider_output_schema TK_TEST =
     schema_object
       [(''test_plan_ready'', schema_type ''boolean''), (''concerns'', schema_array),
        (''tool_requests'', JObj [(''type'', JStr ''array''), (''maxItems'', JInt 8),
          (''items'', schema_object
             [(''name'', JObj [(''enum'', j_strs [''PYTHON_COMPILE'', ''PYTHON_UNITTEST''])]),
              (''targets'', JObj [(''type'', JStr ''array''), (''minItems'', JInt 1), (''maxItems'', JInt 64),
                 (''items'', schema_type ''string'')])]
             [''name'', ''targets''])])]
       [''test_plan_ready'', ''concerns'', ''tool_requests'']"
| "provider_output_schema TK_SECURITY_REVIEW =
     schema_object [(''policy_passed'', schema_type ''boolean''), (''findings'', schema_array)]
       [''policy_passed'', ''findings'']"
| "provider_output_schema TK_CODE_REVIEW =
     schema_object [(''review_passed'', schema_type ''boolean''), (''blocking_findings'', schema_array)]
       [''review_passed'', ''blocking_findings'']"

section \<open>The validator\<close>

definition is_list :: "json option \<Rightarrow> bool" where
  "is_list j = (case j of Some (JList _) \<Rightarrow> True | _ \<Rightarrow> False)"

definition is_bool :: "json option \<Rightarrow> bool" where
  "is_bool j = (case j of Some (JBool _) \<Rightarrow> True | _ \<Rightarrow> False)"

definition is_str :: "json option \<Rightarrow> bool" where
  "is_str j = (case j of Some (JStr _) \<Rightarrow> True | _ \<Rightarrow> False)"

definition require_list :: "dict \<Rightarrow> string \<Rightarrow> error + unit" where
  "require_list out field = require (is_list (dict_get out field))
     (ValidationError (''provider result field '' @ field @ '' must be a list''))"

text \<open>
  The three reviews (test plan, security, code) share their last two checks: the decision is a
  boolean, and a decision other than true is a rejection carrying the output.
\<close>

definition require_decision :: "dict \<Rightarrow> string \<Rightarrow> string \<Rightarrow> string \<Rightarrow> error + unit" where
  "require_decision out field type_message reject_message =
     (if \<not> is_bool (dict_get out field) then Inl (ValidationError type_message)
      else if dict_get out field \<noteq> Some (JBool True) then Inl (ProviderReviewRejectedError reject_message out)
      else Inr ())"

definition validate_output :: "task_kind \<Rightarrow> dict \<Rightarrow> error + unit" where
  "validate_output kind out = (case kind of
     TK_PLAN \<Rightarrow> ebind (require_list out ''plan'') (\<lambda>_. require_list out ''assumptions'')
   | TK_ARCHITECTURE_REVIEW \<Rightarrow> ebind (require_list out ''findings'') (\<lambda>_.
       require (dict_get out ''independent_review'' = Some (JBool True))
         (ValidationError ''architecture review lacks independence attestation''))
   | TK_IMPLEMENT \<Rightarrow> ebind (require_list out ''commands_requested'') (\<lambda>_.
       ebind (require_list out ''tool_requests'') (\<lambda>_.
       require (is_str (dict_get out ''candidate_revision''))
         (ValidationError ''implementation result lacks a candidate revision'')))
   | TK_TEST \<Rightarrow> ebind (require_list out ''concerns'') (\<lambda>_.
       ebind (require_list out ''tool_requests'') (\<lambda>_.
       require_decision out ''test_plan_ready'' ''test plan readiness decision must be boolean''
         ''test plan is not ready''))
   | TK_SECURITY_REVIEW \<Rightarrow> ebind (require_list out ''findings'') (\<lambda>_.
       require_decision out ''policy_passed'' ''security policy decision must be boolean''
         ''security policy did not pass'')
   | TK_CODE_REVIEW \<Rightarrow> ebind (require_list out ''blocking_findings'') (\<lambda>_.
       require_decision out ''review_passed'' ''code review decision must be boolean''
         ''code review did not pass''))"

definition validate_provider_result :: "task_kind \<Rightarrow> provider_result \<Rightarrow> error + unit" where
  "validate_provider_result kind result =
     (if res_status result \<noteq> ''SUCCEEDED''
      then Inl (ValidationError ''provider did not return a successful structured result'')
      else (case res_output result of
              JObj out \<Rightarrow> validate_output kind out
            | _ \<Rightarrow> Inl (ValidationError ''provider did not return a successful structured result'')))"

section \<open>What acceptance means\<close>

text \<open>The decision field whose truth a review must attest.\<close>

fun decision_field :: "task_kind \<Rightarrow> string option" where
  "decision_field TK_PLAN = None"
| "decision_field TK_ARCHITECTURE_REVIEW = Some ''independent_review''"
| "decision_field TK_IMPLEMENT = None"
| "decision_field TK_TEST = Some ''test_plan_ready''"
| "decision_field TK_SECURITY_REVIEW = Some ''policy_passed''"
| "decision_field TK_CODE_REVIEW = Some ''review_passed''"

definition schema_required :: "json \<Rightarrow> string set" where
  "schema_required s = (case s of JObj d \<Rightarrow> (case dict_get d ''required'' of
     Some (JList ks) \<Rightarrow> {k. JStr k \<in> set ks} | _ \<Rightarrow> {}) | _ \<Rightarrow> {})"

lemma schema_required_object [simp]: "schema_required (schema_object props ks) = set ks"
  by (auto simp: schema_required_def schema_object_def dict_get_def j_strs_def)

lemma is_list_SomeD: "is_list j \<Longrightarrow> \<exists>xs. j = Some (JList xs)"
  by (auto simp: is_list_def split: option.splits json.splits)

lemma is_str_SomeD: "is_str j \<Longrightarrow> \<exists>s. j = Some (JStr s)"
  by (auto simp: is_str_def split: option.splits json.splits)

lemma require_decision_ok: "require_decision out f m r = Inr u \<longleftrightarrow> dict_get out f = Some (JBool True)"
  by (auto simp: require_decision_def is_bool_def split: option.splits json.splits)

lemmas validate_defs = validate_output_def require_list_def require_decision_ok tx_simps

lemma validate_provider_result_ok:
  "validate_provider_result k r = Inr u \<longleftrightarrow>
     res_status r = ''SUCCEEDED'' \<and> (\<exists>out. res_output r = JObj out \<and> validate_output k out = Inr u)"
  by (auto simp: validate_provider_result_def split: json.splits)

text \<open>C34: A provider result is accepted only when it carries every key the published schema requires,
and a review is accepted only when its decision field is literally true; a missing, false or
non-boolean decision is never accepted, and a false boolean decision of a test-plan, security or code
review is reported as a review rejection that carries the output.\<close>

theorem validated_output_complete:
  assumes "validate_provider_result k r = Inr u"
  shows "\<exists>out. res_output r = JObj out \<and> schema_required (provider_output_schema k) \<subseteq> dom (dict_get out) \<and>
    (\<forall>f. decision_field k = Some f \<longrightarrow> dict_get out f = Some (JBool True))"
  using assms
  by (cases k) (auto simp: validate_provider_result_ok validate_defs dest!: is_list_SomeD is_str_SomeD)

theorem validated_output_complete_witness:
  "\<exists>r out. validate_provider_result TK_CODE_REVIEW r = Inr () \<and> res_output r = JObj out \<and>
     dict_get out ''review_passed'' = Some (JBool True)"
proof -
  let ?r = "\<lparr>res_status = ''SUCCEEDED'', res_output = JObj [(''review_passed'', JBool True),
      (''blocking_findings'', JList [])], res_provider = ''p'', res_model = ''m'', res_usage = []\<rparr>"
  have ok: "validate_provider_result TK_CODE_REVIEW ?r = Inr ()"
    by (simp add: validate_provider_result_def validate_output_def require_list_def require_decision_def
        is_list_def is_bool_def dict_get_def)
  from validated_output_complete [OF ok] ok show ?thesis by fastforce
qed

text \<open>The errors of the validator: only the two validation classes, and a review rejection only on
an explicit false decision.\<close>

lemma validate_review_rejection:
  assumes "validate_provider_result k r = Inl (ProviderReviewRejectedError m out)"
  shows "res_output r = JObj out \<and> k \<in> {TK_TEST, TK_SECURITY_REVIEW, TK_CODE_REVIEW} \<and>
    (\<exists>f. decision_field k = Some f \<and> dict_get out f = Some (JBool False))"
  using assms
  by (cases k)
    (auto simp: validate_provider_result_def validate_output_def require_list_def require_def
      require_decision_def is_bool_def ebind_def split: if_splits json.splits option.splits)

end
