(* ===== verification/State_Machine.thy ===== *)
theory State_Machine
  imports Domain
begin

text \<open>
  \<open>state_machine.py\<close>: the table of allowed workflow transitions and its guard, the step relation
  the guard induces, and what the table alone guarantees of every run: where a workflow can no
  longer move, and which states no run can bypass.
\<close>

section \<open>The table and the guard\<close>

fun ALLOWED_TRANSITIONS :: "workflow_state \<Rightarrow> workflow_state set" where
  "ALLOWED_TRANSITIONS WS_CREATED = {WS_PLANNING, WS_BLOCKED, WS_CANCELLED}"
| "ALLOWED_TRANSITIONS WS_PLANNING = {WS_ARCHITECTURE_REVIEW, WS_BLOCKED, WS_FAILED, WS_CANCELLED}"
| "ALLOWED_TRANSITIONS WS_ARCHITECTURE_REVIEW = {WS_APPROVED_FOR_IMPLEMENTATION, WS_BLOCKED, WS_FAILED, WS_CANCELLED}"
| "ALLOWED_TRANSITIONS WS_APPROVED_FOR_IMPLEMENTATION = {WS_IMPLEMENTING, WS_CANCELLED}"
| "ALLOWED_TRANSITIONS WS_IMPLEMENTING = {WS_TESTING, WS_BLOCKED, WS_FAILED, WS_CANCELLED}"
| "ALLOWED_TRANSITIONS WS_TESTING = {WS_SECURITY_REVIEW, WS_IMPLEMENTING, WS_BLOCKED, WS_FAILED, WS_CANCELLED}"
| "ALLOWED_TRANSITIONS WS_SECURITY_REVIEW = {WS_CODE_REVIEW, WS_IMPLEMENTING, WS_BLOCKED, WS_FAILED, WS_CANCELLED}"
| "ALLOWED_TRANSITIONS WS_CODE_REVIEW = {WS_AWAITING_HUMAN_APPROVAL, WS_IMPLEMENTING, WS_BLOCKED, WS_FAILED, WS_CANCELLED}"
| "ALLOWED_TRANSITIONS WS_AWAITING_HUMAN_APPROVAL = {WS_APPROVED, WS_REJECTED, WS_CANCELLED}"
| "ALLOWED_TRANSITIONS WS_APPROVED = {WS_MERGED, WS_CANCELLED}"
| "ALLOWED_TRANSITIONS WS_MERGED = {WS_AWAITING_DEPLOYMENT_APPROVAL}"
| "ALLOWED_TRANSITIONS WS_AWAITING_DEPLOYMENT_APPROVAL = {WS_DEPLOYED, WS_REJECTED, WS_ROLLBACK_REQUIRED}"
| "ALLOWED_TRANSITIONS WS_BLOCKED = {WS_PLANNING, WS_ARCHITECTURE_REVIEW, WS_IMPLEMENTING, WS_TESTING, WS_SECURITY_REVIEW,
     WS_CODE_REVIEW, WS_FAILED, WS_REJECTED, WS_CANCELLED}"
| "ALLOWED_TRANSITIONS WS_DEPLOYED = {WS_ROLLBACK_REQUIRED}"
| "ALLOWED_TRANSITIONS WS_FAILED = {}"
| "ALLOWED_TRANSITIONS WS_REJECTED = {}"
| "ALLOWED_TRANSITIONS WS_CANCELLED = {}"
| "ALLOWED_TRANSITIONS WS_ROLLBACK_REQUIRED = {WS_ROLLED_BACK}"
| "ALLOWED_TRANSITIONS WS_ROLLED_BACK = {}"

definition assert_transition_allowed :: "workflow_state \<Rightarrow> workflow_state \<Rightarrow> error + unit" where
  "assert_transition_allowed current target =
     (if target \<notin> ALLOWED_TRANSITIONS current
      then Inl (InvalidTransitionError (''transition '' @ workflow_state_value current @ '' -> '' @
             workflow_state_value target @ '' is forbidden''))
      else Inr ())"

section \<open>Runs of the table\<close>

inductive ws_step :: "workflow_state \<Rightarrow> workflow_state \<Rightarrow> bool" where
  allowed: "assert_transition_allowed s t = Inr u \<Longrightarrow> ws_step s t"

inductive_simps ws_step_iff: "ws_step s t"

text \<open>\<open>runs A s t\<close>: a run from \<open>s\<close> to \<open>t\<close> in which every state after the first lies in \<open>A\<close>.\<close>

inductive runs :: "workflow_state set \<Rightarrow> workflow_state \<Rightarrow> workflow_state \<Rightarrow> bool" for A where
  here: "runs A s s"
| further: "runs A s t \<Longrightarrow> ws_step t u \<Longrightarrow> u \<in> A \<Longrightarrow> runs A s u"

definition terminal_state :: "workflow_state \<Rightarrow> bool" where
  "terminal_state s \<longleftrightarrow> ALLOWED_TRANSITIONS s = {}"

section \<open>Properties of the table\<close>

lemma assert_transition_allowed_iff:
  "assert_transition_allowed s t = Inr u \<longleftrightarrow> t \<in> ALLOWED_TRANSITIONS s"
  by (simp add: assert_transition_allowed_def)

lemma assert_transition_allowed_Inl:
  "assert_transition_allowed s t = Inl e \<Longrightarrow> t \<notin> ALLOWED_TRANSITIONS s \<and> (\<exists>m. e = InvalidTransitionError m)"
  by (auto simp: assert_transition_allowed_def split: if_splits)

lemma ws_step_eq: "ws_step s t \<longleftrightarrow> t \<in> ALLOWED_TRANSITIONS s"
  by (simp add: ws_step_iff assert_transition_allowed_iff)

lemma terminal_state_iff:
  "terminal_state s \<longleftrightarrow> s \<in> {WS_FAILED, WS_REJECTED, WS_CANCELLED, WS_ROLLED_BACK}"
  by (cases s) (simp_all add: terminal_state_def)

lemma no_self_transition: "\<not> ws_step s s"
  by (cases s) (simp_all add: ws_step_eq)

text \<open>
  A set of states that contains the start and is closed under the allowed steps contains every
  reachable state: the rule the bypass arguments below use.
\<close>

lemma runs_closed:
  assumes "runs A s t" "s \<in> B" "\<And>x y. x \<in> B \<Longrightarrow> ws_step x y \<Longrightarrow> y \<in> A \<Longrightarrow> y \<in> B"
  shows "t \<in> B"
  using assms by (induction rule: runs.induct) auto

text \<open>C19: The transition table is fail-closed. No run of allowed transitions from a fresh workflow
reaches the states APPROVED, MERGED, AWAITING-DEPLOYMENT-APPROVAL, DEPLOYED, ROLLBACK-REQUIRED or
ROLLED-BACK without passing through AWAITING-HUMAN-APPROVAL, and none of the four terminal states has a successor, so a
failed, rejected, cancelled or rolled-back workflow never moves again.\<close>

theorem human_gate_cannot_be_bypassed:
  "(\<forall>t. runs (- {WS_AWAITING_HUMAN_APPROVAL}) WS_CREATED t \<longrightarrow>
      t \<notin> {WS_APPROVED, WS_MERGED, WS_AWAITING_DEPLOYMENT_APPROVAL, WS_DEPLOYED,
           WS_ROLLBACK_REQUIRED, WS_ROLLED_BACK}) \<and>
   (\<forall>s t. s \<in> {WS_FAILED, WS_REJECTED, WS_CANCELLED, WS_ROLLED_BACK} \<longrightarrow> \<not> ws_step s t)"
proof (intro conjI allI impI)
  fix t
  assume run: "runs (- {WS_AWAITING_HUMAN_APPROVAL}) WS_CREATED t"
  let ?bad = "{WS_APPROVED, WS_MERGED, WS_AWAITING_DEPLOYMENT_APPROVAL, WS_DEPLOYED,
    WS_ROLLBACK_REQUIRED, WS_ROLLED_BACK}"
  let ?B = "- insert WS_AWAITING_HUMAN_APPROVAL ?bad"
  have closed: "y \<in> ?B" if "x \<in> ?B" "ws_step x y" "y \<in> - {WS_AWAITING_HUMAN_APPROVAL}" for x y
    using that by (cases x) (auto simp: ws_step_eq)
  have "t \<in> ?B"
    by (rule runs_closed [OF run _ closed]) simp_all
  then show "t \<notin> ?bad" by simp
next
  fix s t
  assume "s \<in> {WS_FAILED, WS_REJECTED, WS_CANCELLED, WS_ROLLED_BACK}"
  then show "\<not> ws_step s t" by (auto simp: ws_step_eq)
qed

theorem human_gate_cannot_be_bypassed_witness:
  "runs (- {WS_AWAITING_HUMAN_APPROVAL}) WS_CREATED WS_PLANNING \<and>
   WS_PLANNING \<notin> {WS_APPROVED, WS_MERGED, WS_AWAITING_DEPLOYMENT_APPROVAL, WS_DEPLOYED,
     WS_ROLLBACK_REQUIRED, WS_ROLLED_BACK} \<and> \<not> ws_step WS_CANCELLED WS_PLANNING"
proof -
  have r: "runs (- {WS_AWAITING_HUMAN_APPROVAL}) WS_CREATED WS_PLANNING"
    by (rule runs.further [OF runs.here]) (simp_all add: ws_step_eq)
  show ?thesis
    using r human_gate_cannot_be_bypassed [THEN conjunct1, rule_format, OF r]
      human_gate_cannot_be_bypassed [THEN conjunct2, rule_format, of WS_CANCELLED WS_PLANNING]
    by simp
qed

section \<open>After the gate\<close>

text \<open>How many moves a workflow past its reviews has left at most.\<close>

fun moves_left :: "workflow_state \<Rightarrow> nat option" where
  "moves_left WS_AWAITING_HUMAN_APPROVAL = Some 6"
| "moves_left WS_APPROVED = Some 5"
| "moves_left WS_MERGED = Some 4"
| "moves_left WS_AWAITING_DEPLOYMENT_APPROVAL = Some 3"
| "moves_left WS_DEPLOYED = Some 2"
| "moves_left WS_ROLLBACK_REQUIRED = Some 1"
| "moves_left WS_ROLLED_BACK = Some 0"
| "moves_left WS_FAILED = Some 0"
| "moves_left WS_REJECTED = Some 0"
| "moves_left WS_CANCELLED = Some 0"
| "moves_left _ = None"

lemma moves_left_step: "ws_step s t \<Longrightarrow> moves_left s = Some n \<Longrightarrow> \<exists>m < n. moves_left t = Some m"
  by (cases s) (auto simp: ws_step_eq)

lemma moves_left_run: "(ws_step ^^ k) s t \<Longrightarrow> moves_left s = Some n \<Longrightarrow> \<exists>m. moves_left t = Some m \<and> m + k \<le> n"
proof (induction k arbitrary: t)
  case (Suc k)
  then obtain u where u: "(ws_step ^^ k) s u" "ws_step u t" by auto
  with Suc.IH [OF u(1)] Suc.prems(2) obtain m where "moves_left u = Some m" "m + k \<le> n" by auto
  with u(2) moves_left_step [of u t m] show ?case by fastforce
qed auto

lemma stuck_is_terminal: "(\<forall>t. \<not> ws_step s t) \<longleftrightarrow> s \<in> {WS_FAILED, WS_REJECTED, WS_CANCELLED, WS_ROLLED_BACK}"
  using terminal_state_iff [of s] by (auto simp: ws_step_eq terminal_state_def)

text \<open>C18: The end game terminates. From the human gate no run of allowed transitions has more than six steps,
whatever the outcomes, so that every workflow that reaches the gate comes to rest; a run can only come to rest for
good in FAILED, REJECTED, CANCELLED or ROLLED-BACK; and six steps, the full path through merge, deployment
and rollback, do occur. Before the gate the table has no such bound: a workflow may be sent back from testing to
implementation for ever.\<close>

theorem runs_from_gate_terminate:
  "(\<forall>k t. (ws_step ^^ k) WS_AWAITING_HUMAN_APPROVAL t \<longrightarrow> k \<le> 6) \<and>
   (ws_step ^^ 6) WS_AWAITING_HUMAN_APPROVAL WS_ROLLED_BACK \<and>
   (\<forall>s. (\<forall>t. \<not> ws_step s t) \<longleftrightarrow> s \<in> {WS_FAILED, WS_REJECTED, WS_CANCELLED, WS_ROLLED_BACK}) \<and>
   (\<forall>k. (ws_step ^^ (2 * k)) WS_IMPLEMENTING WS_IMPLEMENTING)"
proof (intro conjI allI impI)
  show "k \<le> 6" if "(ws_step ^^ k) WS_AWAITING_HUMAN_APPROVAL t" for k t
    using moves_left_run [OF that, of 6] by auto
  have "ws_step WS_AWAITING_HUMAN_APPROVAL WS_APPROVED" "ws_step WS_APPROVED WS_MERGED"
    "ws_step WS_MERGED WS_AWAITING_DEPLOYMENT_APPROVAL" "ws_step WS_AWAITING_DEPLOYMENT_APPROVAL WS_DEPLOYED"
    "ws_step WS_DEPLOYED WS_ROLLBACK_REQUIRED" "ws_step WS_ROLLBACK_REQUIRED WS_ROLLED_BACK" by (simp_all add: ws_step_eq)
  then show "(ws_step ^^ 6) WS_AWAITING_HUMAN_APPROVAL WS_ROLLED_BACK" 
    by (simp add: numeral_eq_Suc relcompp.simps) blast
  have loop: "ws_step WS_IMPLEMENTING WS_TESTING" "ws_step WS_TESTING WS_IMPLEMENTING" by (simp_all add: ws_step_eq)
  show "(ws_step ^^ (2 * k)) WS_IMPLEMENTING WS_IMPLEMENTING" for k
    using loop by (induction k) auto
qed (rule stuck_is_terminal)

theorem runs_from_gate_terminate_witness: "\<not> (ws_step ^^ 7) WS_AWAITING_HUMAN_APPROVAL WS_ROLLED_BACK"
  using runs_from_gate_terminate [THEN conjunct1, rule_format, of 7 WS_ROLLED_BACK] by auto

end
