(* ===== verification/Workflow_Core.thy ===== *)
theory Workflow_Core
  imports Policy Audit_Log Learning Validation State_Machine
begin

text \<open>
  The internal operations of \<open>workflow_tasks.py\<close> that its handlers share: the guarded state
  transition with its audit event, scheduling a task with its capability grant, advancing a workflow
  after a completed task, the lease checks and the dictionaries returned to callers.

  A handler is a function of the service's configuration, of one call's environment and of the
  database.  The environment gives what the call reads from outside: the successive readings of the
  clock (\<open>en_now 0, en_now 1, \<dots>\<close>), the fresh identifiers it draws (\<open>en_uuid 0, \<dots>\<close>) and the health the
  providers report.  A handler that raises returns \<open>Inl\<close>, and its transaction is rolled back; each
  transaction is atomic, as the row locks of the source make it.
\<close>

section \<open>Configuration and call environment\<close>

record config =
  cf_sha256 :: "string \<Rightarrow> string"
  cf_isoformat :: "instant \<Rightarrow> string"
  cf_lease_seconds :: int
  cf_profiles :: "provider_profile list"
  cf_window_size :: nat
  cf_allowed_egress :: "egress_boundary set"
  cf_high_risk_min_evidence_samples :: int
  cf_provider_policy_version :: string
  cf_routing_objective :: routing_objective

record env =
  en_now :: "nat \<Rightarrow> instant"
  en_uuid :: "nat \<Rightarrow> ident"
  en_healthy :: "string \<Rightarrow> bool"

definition seconds :: "int \<Rightarrow> int" where
  "seconds n = n * 1000000"

definition minutes :: "int \<Rightarrow> int" where
  "minutes n = seconds (60 * n)"

definition hours :: "int \<Rightarrow> int" where
  "hours n = minutes (60 * n)"

section \<open>Tables of the service\<close>

fun AGENT_FOR_ROLE :: "agent_role \<Rightarrow> ident option" where
  "AGENT_FOR_ROLE AR_ARCHITECT = Some ''architect-agent''"
| "AGENT_FOR_ROLE AR_REVIEWER = Some ''reviewer-agent''"
| "AGENT_FOR_ROLE AR_IMPLEMENTER = Some ''implementer-agent''"
| "AGENT_FOR_ROLE AR_TEST_AGENT = Some ''test-agent''"
| "AGENT_FOR_ROLE AR_SECURITY_AGENT = Some ''security-agent''"
| "AGENT_FOR_ROLE _ = None"

fun TASK_OBJECTIVES :: "task_kind \<Rightarrow> string" where
  "TASK_OBJECTIVES TK_PLAN = ''Create a bounded engineering plan and declare assumptions.''"
| "TASK_OBJECTIVES TK_ARCHITECTURE_REVIEW =
     ''Independently challenge the plan for security, operational, and failure risks.''"
| "TASK_OBJECTIVES TK_IMPLEMENT = ''Produce the assigned change artifact without executing host commands.''"
| "TASK_OBJECTIVES TK_TEST = ''Validate the candidate revision and produce structured test evidence.''"
| "TASK_OBJECTIVES TK_SECURITY_REVIEW = ''Evaluate the candidate revision against the security policy.''"
| "TASK_OBJECTIVES TK_CODE_REVIEW = ''Perform final independent review and identify blocking findings.''"

fun TASK_WORK_CAPABILITY :: "task_kind \<Rightarrow> work_capability" where
  "TASK_WORK_CAPABILITY TK_PLAN = WC_PLANNING"
| "TASK_WORK_CAPABILITY TK_ARCHITECTURE_REVIEW = WC_ARCHITECTURE"
| "TASK_WORK_CAPABILITY TK_IMPLEMENT = WC_CODE_GENERATION"
| "TASK_WORK_CAPABILITY TK_TEST = WC_TEST_EXECUTION"
| "TASK_WORK_CAPABILITY TK_SECURITY_REVIEW = WC_SECURITY_ANALYSIS"
| "TASK_WORK_CAPABILITY TK_CODE_REVIEW = WC_CODE_REVIEW"

fun REVIEW_PRODUCER_KIND :: "task_kind \<Rightarrow> task_kind option" where
  "REVIEW_PRODUCER_KIND TK_PLAN = None"
| "REVIEW_PRODUCER_KIND TK_ARCHITECTURE_REVIEW = Some TK_PLAN"
| "REVIEW_PRODUCER_KIND TK_IMPLEMENT = None"
| "REVIEW_PRODUCER_KIND TK_TEST = Some TK_IMPLEMENT"
| "REVIEW_PRODUCER_KIND TK_SECURITY_REVIEW = Some TK_IMPLEMENT"
| "REVIEW_PRODUCER_KIND TK_CODE_REVIEW = Some TK_IMPLEMENT"

fun TASK_WORKFLOW_STATE :: "task_kind \<Rightarrow> workflow_state" where
  "TASK_WORKFLOW_STATE TK_PLAN = WS_PLANNING"
| "TASK_WORKFLOW_STATE TK_ARCHITECTURE_REVIEW = WS_ARCHITECTURE_REVIEW"
| "TASK_WORKFLOW_STATE TK_IMPLEMENT = WS_IMPLEMENTING"
| "TASK_WORKFLOW_STATE TK_TEST = WS_TESTING"
| "TASK_WORKFLOW_STATE TK_SECURITY_REVIEW = WS_SECURITY_REVIEW"
| "TASK_WORKFLOW_STATE TK_CODE_REVIEW = WS_CODE_REVIEW"

section \<open>Dictionaries returned to callers\<close>

definition j_opt_time :: "config \<Rightarrow> instant option \<Rightarrow> json" where
  "j_opt_time cf t = (case t of None \<Rightarrow> JNull | Some x \<Rightarrow> JStr (cf_isoformat cf x))"

definition task_dict :: "config \<Rightarrow> db \<Rightarrow> bool \<Rightarrow> task \<Rightarrow> json" where
  "task_dict cf d include_lease_token t = JObj
     ([(''id'', JStr (tk_id t)), (''workflow_id'', JStr (tk_workflow_id t)),
       (''kind'', JStr (task_kind_value (tk_kind t))),
       (''required_role'', JStr (agent_role_value (tk_required_role t))),
       (''status'', JStr (task_status_value (tk_status t))), (''position'', JInt (int (tk_position t))),
       (''attempts'', JInt (int (length (task_attempts d (tk_id t))))),
       (''lease_owner'', j_opt_str (tk_lease_owner t)),
       (''lease_expires_at'', j_opt_time cf (tk_lease_expires_at t))] @
      (if include_lease_token then [(''lease_token'', j_opt_str (tk_lease_token t))] else []))"

definition task_dict_of :: "config \<Rightarrow> db \<Rightarrow> bool \<Rightarrow> ident \<Rightarrow> json" where
  "task_dict_of cf d include_lease_token tid =
     (case row_get tk_id tid (tasks d) of None \<Rightarrow> JNull | Some t \<Rightarrow> task_dict cf d include_lease_token t)"

definition workflow_dict :: "config \<Rightarrow> db \<Rightarrow> workflow \<Rightarrow> json" where
  "workflow_dict cf d w = JObj
     [(''id'', JStr (wf_id w)), (''title'', JStr (wf_title w)), (''description'', JStr (wf_description w)),
      (''state'', JStr (workflow_state_value (wf_state w))), (''version'', JInt (wf_version w)),
      (''risk_class'', JStr (risk_level_name (wf_risk_class w))),
      (''complexity_tier'', JStr (complexity_tier_name (wf_complexity_tier w))),
      (''data_classification'', JStr (data_classification_name (wf_data_classification w))),
      (''repository_scope'', j_opt_str (wf_repository_scope w)),
      (''inspection_signals'', j_strs (wf_inspection_signals w)),
      (''containment_required'', JBool (wf_containment_required w)),
      (''block_reason'', j_opt_str (wf_block_reason w)), (''requester_id'', JStr (wf_requester_id w)),
      (''policy_version'', JStr (wf_policy_version w)),
      (''candidate_revision'', j_opt_str (wf_candidate_revision w)),
      (''merged_revision'', j_opt_str (wf_merged_revision w)),
      (''tasks'', JList (map (task_dict cf d False) (workflow_tasks d (wf_id w)))),
      (''created_at'', JStr (cf_isoformat cf (wf_created_at w)))]"

definition workflow_dict_of :: "config \<Rightarrow> db \<Rightarrow> ident \<Rightarrow> json" where
  "workflow_dict_of cf d wid =
     (case row_get wf_id wid (workflows d) of None \<Rightarrow> JNull | Some w \<Rightarrow> workflow_dict cf d w)"

definition approval_dict :: "config \<Rightarrow> approval \<Rightarrow> json" where
  "approval_dict cf a = JObj
     [(''id'', JStr (ap_id a)), (''workflow_id'', JStr (ap_workflow_id a)),
      (''action'', JStr (approval_action_value (ap_action a))), (''target'', JStr (ap_target a)),
      (''revision'', JStr (ap_revision a)), (''policy_version'', JStr (ap_policy_version a)),
      (''environment_id'', j_opt_str (ap_environment_id a)), (''plan_digest'', j_opt_str (ap_plan_digest a)),
      (''deployment_attempt_id'', j_opt_str (ap_deployment_attempt_id a)),
      (''approver_id'', JStr (ap_approver_id a)),
      (''decision'', JStr (approval_decision_value (ap_decision a))), (''rationale'', JStr (ap_rationale a)),
      (''expires_at'', JStr (cf_isoformat cf (ap_expires_at a))),
      (''consumed_at'', j_opt_time cf (ap_consumed_at a))]"

section \<open>Transitions and scheduling\<close>

definition transition :: "config \<Rightarrow> ident \<Rightarrow> workflow_state \<Rightarrow> ident \<Rightarrow> string \<Rightarrow> dict \<Rightarrow> db \<Rightarrow> error + db" where
  "transition cf wid target actor_id reason extra d =
     ebind (get_workflow d wid) (\<lambda>w.
     ebind (assert_transition_allowed (wf_state w) target) (\<lambda>_.
       let version = wf_version w + 1;
           payload = dict_union [(''from_state'', JStr (workflow_state_value (wf_state w))),
             (''to_state'', JStr (workflow_state_value target)), (''reason'', JStr reason),
             (''workflow_version'', JInt version)] extra
       in Inr (append_audit_event (cf_sha256 cf) wid ''workflow.transitioned'' actor_id ''workflow'' wid
            ''SUCCEEDED'' payload
            (upd_workflow wid (\<lambda>w. w\<lparr>wf_state := target, wf_version := version\<rparr>) d))))"

text \<open>The task \<open>_schedule_task\<close> creates, and the grant that goes with it.\<close>

definition new_task :: "ident \<Rightarrow> instant \<Rightarrow> ident \<Rightarrow> task_kind \<Rightarrow> nat \<Rightarrow> task" where
  "new_task tid created_at wid kind position =
     \<lparr>tk_id = tid, tk_workflow_id = wid, tk_kind = kind, tk_required_role = TASK_ROLE kind,
      tk_required_capability = TASK_CAPABILITY kind, tk_work_capability = TASK_WORK_CAPABILITY kind,
      tk_objective = TASK_OBJECTIVES kind, tk_status = TS_READY, tk_position = position,
      tk_max_attempts = 2, tk_lease_owner = None, tk_lease_token = None, tk_lease_expires_at = None,
      tk_created_at = created_at\<rparr>"

definition schedule_task :: "config \<Rightarrow> ident \<Rightarrow> instant \<Rightarrow> instant \<Rightarrow> ident \<Rightarrow> task_kind \<Rightarrow> db \<Rightarrow> error + db" where
  "schedule_task cf tid created_at granted_at wid kind d =
     ebind (get_workflow d wid) (\<lambda>w.
     ebind (from_option (OtherError ''KeyError'') (AGENT_FOR_ROLE (TASK_ROLE kind))) (\<lambda>agent_id.
       let t = new_task tid created_at wid kind (length (workflow_tasks d wid) + 1);
           g = \<lparr>cg_principal_id = agent_id, cg_workflow_id = wid, cg_task_id = tid,
                cg_capabilities = [TASK_CAPABILITY kind], cg_policy_version = wf_policy_version w,
                cg_expires_at = granted_at + hours 1, cg_active = True\<rparr>
       in Inr (append_audit_event (cf_sha256 cf) wid ''task.scheduled'' ''orchestrator'' ''task'' tid
            ''SUCCEEDED''
            [(''kind'', JStr (task_kind_value kind)), (''role'', JStr (agent_role_value (TASK_ROLE kind))),
             (''agent_id'', JStr agent_id)]
            (d\<lparr>tasks := row_add t (tasks d), grants := row_add g (grants d)\<rparr>))))"

definition deactivate_task_grant :: "ident \<Rightarrow> db \<Rightarrow> db" where
  "deactivate_task_grant tid d = d\<lparr>grants := map (\<lambda>g.
     if cg_task_id g = tid \<and> cg_active g then g\<lparr>cg_active := False\<rparr> else g) (grants d)\<rparr>"

definition require_candidate_revision :: "workflow \<Rightarrow> error + unit" where
  "require_candidate_revision w =
     require (wf_candidate_revision w \<noteq> None \<and> wf_candidate_revision w \<noteq> Some [])
       (ConflictError ''candidate revision is required for evidence binding'')"

definition advance_after_task :: "config \<Rightarrow> ident \<Rightarrow> instant \<Rightarrow> instant \<Rightarrow> ident \<Rightarrow> task_kind \<Rightarrow> db \<Rightarrow> error + db" where
  "advance_after_task cf tid created_at granted_at wid completed_kind d =
     (let move = (\<lambda>target reason. transition cf wid target ''orchestrator'' reason []);
          schedule = (\<lambda>kind. schedule_task cf tid created_at granted_at wid kind);
          candidate = ebind (get_workflow d wid) require_candidate_revision
      in case completed_kind of
        TK_PLAN \<Rightarrow>
          ebind (move WS_ARCHITECTURE_REVIEW ''plan evidence recorded'' d) (schedule TK_ARCHITECTURE_REVIEW)
      | TK_ARCHITECTURE_REVIEW \<Rightarrow>
          ebind (move WS_APPROVED_FOR_IMPLEMENTATION
            ''independent critique completed with no blocking findings'' d) (\<lambda>d1.
          ebind (move WS_IMPLEMENTING ''implementation task scoped and granted'' d1) (schedule TK_IMPLEMENT))
      | TK_IMPLEMENT \<Rightarrow>
          ebind (move WS_TESTING ''candidate revision and change evidence recorded'' d) (schedule TK_TEST)
      | TK_TEST \<Rightarrow>
          ebind candidate (\<lambda>_.
          ebind (move WS_SECURITY_REVIEW ''test evidence passed for candidate revision'' d)
            (schedule TK_SECURITY_REVIEW))
      | TK_SECURITY_REVIEW \<Rightarrow>
          ebind candidate (\<lambda>_.
          ebind (move WS_CODE_REVIEW ''security evidence passed for candidate revision'' d)
            (schedule TK_CODE_REVIEW))
      | TK_CODE_REVIEW \<Rightarrow>
          ebind candidate (\<lambda>_.
          move WS_AWAITING_HUMAN_APPROVAL ''all deterministic evidence recorded for one revision'' d))"

section \<open>Lease checks\<close>

definition validate_lease :: "instant \<Rightarrow> task \<Rightarrow> ident \<Rightarrow> ident \<Rightarrow> error + unit" where
  "validate_lease now t lease_token worker_id =
     (if tk_status t \<noteq> TS_LEASED then Inl (ConflictError ''task does not have an active lease'')
      else if tk_lease_owner t \<noteq> Some worker_id \<or> tk_lease_token t \<noteq> Some lease_token
      then Inl (AuthorizationError ''lease owner or token does not match'')
      else (case tk_lease_expires_at t of
              None \<Rightarrow> Inl (ConflictError ''task lease has no expiry'')
            | Some expires_at \<Rightarrow>
                if expires_at \<le> now then Inl (ConflictError ''task lease has expired'') else Inr ()))"

definition validate_running_lease :: "instant \<Rightarrow> task \<Rightarrow> ident \<Rightarrow> ident \<Rightarrow> error + unit" where
  "validate_running_lease now t lease_token worker_id =
     (if tk_status t \<noteq> TS_RUNNING then Inl (ConflictError ''task does not have an active running lease'')
      else if tk_lease_owner t \<noteq> Some worker_id \<or> tk_lease_token t \<noteq> Some lease_token
      then Inl (AuthorizationError ''running lease owner or token does not match'')
      else (case tk_lease_expires_at t of
              None \<Rightarrow> Inl (ConflictError ''running task lease has no expiry'')
            | Some expires_at \<Rightarrow>
                if expires_at \<le> now then Inl (ConflictError ''running task lease has expired'') else Inr ()))"

definition clear_lease :: "task \<Rightarrow> task" where
  "clear_lease t = t\<lparr>tk_lease_owner := None, tk_lease_token := None, tk_lease_expires_at := None\<rparr>"

section \<open>Facts about the helpers\<close>

lemma validate_lease_ok:
  "validate_lease now t tok wk = Inr u \<longleftrightarrow> tk_status t = TS_LEASED \<and> tk_lease_owner t = Some wk \<and>
     tk_lease_token t = Some tok \<and> (\<exists>x. tk_lease_expires_at t = Some x \<and> now < x)"
  by (auto simp: validate_lease_def split: option.splits)

lemma validate_running_lease_ok:
  "validate_running_lease now t tok wk = Inr u \<longleftrightarrow> tk_status t = TS_RUNNING \<and> tk_lease_owner t = Some wk \<and>
     tk_lease_token t = Some tok \<and> (\<exists>x. tk_lease_expires_at t = Some x \<and> now < x)"
  by (auto simp: validate_running_lease_def split: option.splits)

lemma require_candidate_ok [tx_simps]:
  "require_candidate_revision w = Inr u \<longleftrightarrow> (\<exists>r. wf_candidate_revision w = Some r \<and> r \<noteq> [])"
  by (auto simp: require_candidate_revision_def tx_simps)

lemma clear_lease_simps [simp]:
  "tk_id (clear_lease t) = tk_id t" "tk_workflow_id (clear_lease t) = tk_workflow_id t"
  "tk_kind (clear_lease t) = tk_kind t" "tk_status (clear_lease t) = tk_status t"
  "tk_lease_owner (clear_lease t) = None" "tk_lease_token (clear_lease t) = None"
  "tk_lease_expires_at (clear_lease t) = None" "tk_max_attempts (clear_lease t) = tk_max_attempts t"
  "tk_required_role (clear_lease t) = tk_required_role t"
  "tk_required_capability (clear_lease t) = tk_required_capability t"
  by (simp_all add: clear_lease_def)

lemma deactivate_frame [simp]:
  "principals (deactivate_task_grant i d) = principals d" "workflows (deactivate_task_grant i d) = workflows d"
  "tasks (deactivate_task_grant i d) = tasks d" "attempts (deactivate_task_grant i d) = attempts d"
  "approvals (deactivate_task_grant i d) = approvals d" "audit_events (deactivate_task_grant i d) = audit_events d"
  "dispositions (deactivate_task_grant i d) = dispositions d"
  "reconciliations (deactivate_task_grant i d) = reconciliations d"
  "artifacts (deactivate_task_grant i d) = artifacts d" "observations (deactivate_task_grant i d) = observations d"
  "routing_records (deactivate_task_grant i d) = routing_records d"
  "idempotency_records (deactivate_task_grant i d) = idempotency_records d"
  "plans (deactivate_task_grant i d) = plans d" "deployments (deactivate_task_grant i d) = deployments d"
  "rollbacks (deactivate_task_grant i d) = rollbacks d" "confirmations (deactivate_task_grant i d) = confirmations d"
  "environments (deactivate_task_grant i d) = environments d"
  by (simp_all add: deactivate_task_grant_def)

lemma agent_for_task_role: "\<exists>a. AGENT_FOR_ROLE (TASK_ROLE k) = Some a"
  by (cases k) simp_all

lemma transition_Inr:
  assumes "transition cf wid target actor reason extra d = Inr d'"
  obtains w where "row_get wf_id wid (workflows d) = Some w" "target \<in> ALLOWED_TRANSITIONS (wf_state w)"
    "workflows d' = row_upd wf_id wid (\<lambda>x. x\<lparr>wf_state := target, wf_version := wf_version w + 1\<rparr>) (workflows d)"
  using assms by (auto simp: transition_def tx_simps assert_transition_allowed_iff Let_def)

lemma transition_frame:
  assumes "transition cf wid target actor reason extra d = Inr d'"
  shows "principals d' = principals d" "tasks d' = tasks d" "attempts d' = attempts d" "grants d' = grants d"
    "approvals d' = approvals d" "dispositions d' = dispositions d" "reconciliations d' = reconciliations d"
    "artifacts d' = artifacts d" "plans d' = plans d" "deployments d' = deployments d" "rollbacks d' = rollbacks d"
    "environments d' = environments d" "routing_records d' = routing_records d" "observations d' = observations d"
    "idempotency_records d' = idempotency_records d" "verifications d' = verifications d"
    "ci_checks d' = ci_checks d" "proposals d' = proposals d" "assessments d' = assessments d"
    "confirmations d' = confirmations d"
  using assms by (auto simp: transition_def tx_simps Let_def)

lemma transition_errors:
  assumes "transition cf wid target actor reason extra d = Inl e"
  shows "(row_get wf_id wid (workflows d) = None \<and> (\<exists>m. e = NotFoundError m)) \<or>
    (\<exists>w m. row_get wf_id wid (workflows d) = Some w \<and> target \<notin> ALLOWED_TRANSITIONS (wf_state w) \<and>
       e = InvalidTransitionError m)"
  using assms
  by (auto simp: transition_def ebind_eq_Inl get_workflow_def from_option_def Let_def
      dest: assert_transition_allowed_Inl split: option.splits)

lemma transition_succeeds:
  "row_get wf_id wid (workflows d) = Some w \<Longrightarrow> target \<in> ALLOWED_TRANSITIONS (wf_state w) \<Longrightarrow>
   \<exists>d'. transition cf wid target actor reason extra d = Inr d'"
  by (simp add: transition_def get_workflow_def assert_transition_allowed_def Let_def)

lemma transition_chained:
  assumes "transition cf wid target actor reason extra d = Inr d'" "\<forall>w. chained (cf_sha256 cf) d w"
  shows "\<forall>w. chained (cf_sha256 cf) d' w"
proof -
  have "chained (cf_sha256 cf) (upd_workflow i f d) w" for i f w
    using assms(2) chained_cong [of "upd_workflow i f d" d] by simp
  then show ?thesis using assms(1) by (auto simp: transition_def tx_simps Let_def intro!: chained_append_other)
qed

lemma schedule_task_Inr:
  assumes "schedule_task cf tid c g wid kind d = Inr d'"
  shows "tasks d' = row_add (new_task tid c wid kind (length (workflow_tasks d wid) + 1)) (tasks d)"
    "workflows d' = workflows d" "attempts d' = attempts d" "approvals d' = approvals d"
    "principals d' = principals d" "plans d' = plans d" "deployments d' = deployments d"
    "dispositions d' = dispositions d" "reconciliations d' = reconciliations d" "artifacts d' = artifacts d"
    "rollbacks d' = rollbacks d" "environments d' = environments d" "observations d' = observations d"
    "routing_records d' = routing_records d" "confirmations d' = confirmations d"
  using assms by (auto simp: schedule_task_def tx_simps Let_def)

lemma schedule_task_succeeds:
  "row_get wf_id wid (workflows d) = Some w \<Longrightarrow> \<exists>d'. schedule_task cf tid c g wid kind d = Inr d'"
  using agent_for_task_role [of kind] by (auto simp: schedule_task_def get_workflow_def Let_def)

lemma schedule_task_chained:
  assumes "schedule_task cf tid c g wid kind d = Inr d'" "\<forall>w. chained (cf_sha256 cf) d w"
  shows "\<forall>w. chained (cf_sha256 cf) d' w"
proof -
  have "chained (cf_sha256 cf) (d\<lparr>tasks := x, grants := y\<rparr>) w" for x y w
    using assms(2) chained_cong [of "d\<lparr>tasks := x, grants := y\<rparr>" d] by simp
  then show ?thesis using assms(1) by (auto simp: schedule_task_def tx_simps Let_def intro!: chained_append_other)
qed

lemma new_task_simps [simp]:
  "tk_id (new_task tid c wid k p) = tid" "tk_workflow_id (new_task tid c wid k p) = wid"
  "tk_kind (new_task tid c wid k p) = k" "tk_status (new_task tid c wid k p) = TS_READY"
  "tk_lease_owner (new_task tid c wid k p) = None" "tk_lease_token (new_task tid c wid k p) = None"
  "tk_lease_expires_at (new_task tid c wid k p) = None" "tk_max_attempts (new_task tid c wid k p) = 2"
  "tk_required_role (new_task tid c wid k p) = TASK_ROLE k"
  "tk_required_capability (new_task tid c wid k p) = TASK_CAPABILITY k"
  by (simp_all add: new_task_def)

end
