(* ===== verification/Lifecycle.thy ===== *)
theory Lifecycle
  imports Workflow_Core
begin

text \<open>
  The abstract specification of the workflow service: what may happen to one workflow and the set of
  its tasks.  The step relation \<open>lifecycle\<close> has one rule per kind of event and abstracts from leases'
  owners and times, from attempts, providers, grants and the audit log.  \<open>wf_ok\<close> is its invariant; the
  theory \<open>Workflow_Refinement\<close> shows that the handlers of \<open>workflow_tasks.py\<close> only make these steps.
\<close>

section \<open>Vocabulary\<close>

definition live :: "task \<Rightarrow> bool" where
  "live t \<longleftrightarrow> tk_status t = TS_READY \<or> tk_status t = TS_LEASED \<or> tk_status t = TS_RUNNING"

definition working :: "workflow_state \<Rightarrow> bool" where
  "working s \<longleftrightarrow> s \<in> {WS_PLANNING, WS_ARCHITECTURE_REVIEW, WS_IMPLEMENTING, WS_TESTING, WS_SECURITY_REVIEW,
     WS_CODE_REVIEW}"

definition past_review :: "workflow_state \<Rightarrow> bool" where
  "past_review s \<longleftrightarrow> s \<in> {WS_AWAITING_HUMAN_APPROVAL, WS_APPROVED, WS_MERGED, WS_AWAITING_DEPLOYMENT_APPROVAL,
     WS_DEPLOYED, WS_ROLLBACK_REQUIRED, WS_ROLLED_BACK}"

text \<open>The order of the pipeline.\<close>

fun kind_rank :: "task_kind \<Rightarrow> nat" where
  "kind_rank TK_PLAN = 0"
| "kind_rank TK_ARCHITECTURE_REVIEW = 1"
| "kind_rank TK_IMPLEMENT = 2"
| "kind_rank TK_TEST = 3"
| "kind_rank TK_SECURITY_REVIEW = 4"
| "kind_rank TK_CODE_REVIEW = 5"

fun next_kind :: "task_kind \<Rightarrow> task_kind option" where
  "next_kind TK_PLAN = Some TK_ARCHITECTURE_REVIEW"
| "next_kind TK_ARCHITECTURE_REVIEW = Some TK_IMPLEMENT"
| "next_kind TK_IMPLEMENT = Some TK_TEST"
| "next_kind TK_TEST = Some TK_SECURITY_REVIEW"
| "next_kind TK_SECURITY_REVIEW = Some TK_CODE_REVIEW"
| "next_kind TK_CODE_REVIEW = None"

definition has_candidate :: "workflow \<Rightarrow> bool" where
  "has_candidate w \<longleftrightarrow> (\<exists>r. wf_candidate_revision w = Some r \<and> r \<noteq> [])"

definition completed :: "task set \<Rightarrow> task_kind \<Rightarrow> bool" where
  "completed T k \<longleftrightarrow> (\<exists>s\<in>T. tk_kind s = k \<and> tk_status s = TS_SUCCEEDED)"

text \<open>A lease is complete or absent, and no task waits in PENDING: tasks are created READY.\<close>

definition lease_shape :: "task \<Rightarrow> bool" where
  "lease_shape t \<longleftrightarrow>
     (tk_status t = TS_LEASED \<or> tk_status t = TS_RUNNING \<longrightarrow> tk_lease_owner t \<noteq> None \<and>
        tk_lease_token t \<noteq> None \<and> tk_lease_expires_at t \<noteq> None) \<and>
     (tk_status t = TS_READY \<longrightarrow> tk_lease_owner t = None \<and> tk_lease_token t = None \<and>
        tk_lease_expires_at t = None) \<and> tk_status t \<noteq> TS_PENDING"

definition same_task :: "task \<Rightarrow> task \<Rightarrow> bool" where
  "same_task t t' \<longleftrightarrow> tk_id t' = tk_id t \<and> tk_workflow_id t' = tk_workflow_id t \<and> tk_kind t' = tk_kind t \<and>
     tk_max_attempts t' = tk_max_attempts t"

text \<open>The moves of a live task that leave its workflow where it is.\<close>

definition lease_move :: "task_status \<Rightarrow> task_status \<Rightarrow> bool" where
  "lease_move s s' \<longleftrightarrow> (s, s') \<in> {(TS_READY, TS_LEASED), (TS_LEASED, TS_READY), (TS_LEASED, TS_RUNNING),
     (TS_RUNNING, TS_RUNNING), (TS_RUNNING, TS_READY)}"

text \<open>The states after the merge, which only the pull-request and deployment services write.\<close>

definition delivered :: "workflow_state \<Rightarrow> bool" where
  "delivered s \<longleftrightarrow> s \<in> {WS_MERGED, WS_AWAITING_DEPLOYMENT_APPROVAL, WS_DEPLOYED, WS_ROLLBACK_REQUIRED, WS_ROLLED_BACK}"

lemma delivered_not_working:
  "delivered s' \<Longrightarrow> s' \<in> ALLOWED_TRANSITIONS s \<Longrightarrow> \<not> working s \<and> \<not> working s'"
  by (cases s) (auto simp: delivered_def working_def)

section \<open>The steps\<close>

datatype lifecycle_event =
    Ev_renew | Ev_stop | Ev_advance | Ev_finish | Ev_release | Ev_retry | Ev_give_up | Ev_settle | Ev_grant
  | Ev_deliver

inductive lifecycle :: "lifecycle_event \<Rightarrow> workflow \<times> task set \<Rightarrow> workflow \<times> task set \<Rightarrow> bool" where
  renew: "t \<in> T \<Longrightarrow> same_task t t' \<Longrightarrow> lease_move (tk_status t) (tk_status t') \<Longrightarrow> lease_shape t' \<Longrightarrow>
    lifecycle Ev_renew (w, T) (w, insert t' (T - {t}))"
| stop: "t \<in> T \<Longrightarrow> live t \<Longrightarrow> same_task t t' \<Longrightarrow> tk_status t' = s \<Longrightarrow>
    (s, wf_state w') \<in> {(TS_BLOCKED, WS_BLOCKED), (TS_FAILED, WS_FAILED), (TS_CANCELLED, WS_CANCELLED)} \<Longrightarrow>
    wf_candidate_revision w' = wf_candidate_revision w \<Longrightarrow>
    lifecycle Ev_stop (w, T) (w', insert t' (T - {t}))"
| advance: "t \<in> T \<Longrightarrow> same_task t t' \<Longrightarrow> tk_status t = TS_RUNNING \<Longrightarrow> tk_status t' = TS_SUCCEEDED \<Longrightarrow>
    next_kind (tk_kind t) = Some (tk_kind n) \<Longrightarrow> tk_status n = TS_READY \<Longrightarrow> lease_shape n \<Longrightarrow>
    wf_state w' = TASK_WORKFLOW_STATE (tk_kind n) \<Longrightarrow>
    (if tk_kind t = TK_IMPLEMENT then has_candidate w'
     else wf_candidate_revision w' = wf_candidate_revision w) \<Longrightarrow>
    lifecycle Ev_advance (w, T) (w', insert n (insert t' (T - {t})))"
| finish: "t \<in> T \<Longrightarrow> same_task t t' \<Longrightarrow> tk_status t = TS_RUNNING \<Longrightarrow> tk_status t' = TS_SUCCEEDED \<Longrightarrow>
    tk_kind t = TK_CODE_REVIEW \<Longrightarrow> wf_state w' = WS_AWAITING_HUMAN_APPROVAL \<Longrightarrow>
    wf_candidate_revision w' = wf_candidate_revision w \<Longrightarrow> has_candidate w \<Longrightarrow>
    lifecycle Ev_finish (w, T) (w', insert t' (T - {t}))"
| release: "wf_state w = WS_BLOCKED \<Longrightarrow> wf_state w' = WS_PLANNING \<Longrightarrow> tk_kind n = TK_PLAN \<Longrightarrow>
    tk_status n = TS_READY \<Longrightarrow> lease_shape n \<Longrightarrow> wf_candidate_revision w' = wf_candidate_revision w \<Longrightarrow>
    lifecycle Ev_release (w, T) (w', insert n T)"
| retry: "wf_state w = WS_BLOCKED \<Longrightarrow> t \<in> T \<Longrightarrow> same_task t t' \<Longrightarrow> tk_status t = TS_BLOCKED \<Longrightarrow>
    tk_status t' = TS_RECONCILED \<Longrightarrow> tk_kind n = tk_kind t \<Longrightarrow> tk_status n = TS_READY \<Longrightarrow> lease_shape n \<Longrightarrow>
    wf_state w' = TASK_WORKFLOW_STATE (tk_kind t) \<Longrightarrow> wf_candidate_revision w' = wf_candidate_revision w \<Longrightarrow>
    lifecycle Ev_retry (w, T) (w', insert n (insert t' (T - {t})))"
| give_up: "wf_state w = WS_BLOCKED \<Longrightarrow> t \<in> T \<Longrightarrow> same_task t t' \<Longrightarrow> tk_status t = TS_BLOCKED \<Longrightarrow>
    tk_status t' = TS_RECONCILED \<Longrightarrow> wf_state w' = WS_FAILED \<Longrightarrow>
    wf_candidate_revision w' = wf_candidate_revision w \<Longrightarrow> lifecycle Ev_give_up (w, T) (w', insert t' (T - {t}))"
| settle: "\<not> working (wf_state w) \<Longrightarrow> wf_state w' \<in> ALLOWED_TRANSITIONS (wf_state w) \<Longrightarrow>
    \<not> working (wf_state w') \<Longrightarrow> wf_state w' \<noteq> WS_APPROVED \<Longrightarrow> \<not> delivered (wf_state w') \<Longrightarrow>
    wf_candidate_revision w' = wf_candidate_revision w \<Longrightarrow> lifecycle Ev_settle (w, T) (w', T)"
| grant: "wf_state w = WS_AWAITING_HUMAN_APPROVAL \<Longrightarrow> wf_state w' = WS_APPROVED \<Longrightarrow>
    wf_candidate_revision w' = wf_candidate_revision w \<Longrightarrow> lifecycle Ev_grant (w, T) (w', T)"
| deliver: "delivered (wf_state w') \<Longrightarrow> wf_state w' \<in> ALLOWED_TRANSITIONS (wf_state w) \<Longrightarrow>
    wf_candidate_revision w' = wf_candidate_revision w \<Longrightarrow> lifecycle Ev_deliver (w, T) (w', T)"

section \<open>The invariant\<close>

definition stage_ok :: "workflow \<Rightarrow> task set \<Rightarrow> bool" where
  "stage_ok w T \<longleftrightarrow>
     (\<forall>t\<in>T. live t \<longrightarrow> wf_state w = TASK_WORKFLOW_STATE (tk_kind t)) \<and>
     (\<forall>t\<in>T. \<forall>t'\<in>T. live t \<longrightarrow> live t' \<longrightarrow> t = t') \<and>
     (working (wf_state w) \<longrightarrow> (\<exists>t\<in>T. live t)) \<and>
     (\<forall>t\<in>T. lease_shape t)"

definition pipeline_ok :: "workflow \<Rightarrow> task set \<Rightarrow> bool" where
  "pipeline_ok w T \<longleftrightarrow>
     (\<forall>t\<in>T. \<forall>k. kind_rank k < kind_rank (tk_kind t) \<longrightarrow> completed T k) \<and>
     (\<forall>t\<in>T. kind_rank TK_TEST \<le> kind_rank (tk_kind t) \<longrightarrow> has_candidate w) \<and>
     (past_review (wf_state w) \<longrightarrow> has_candidate w \<and> (\<forall>k. completed T k))"

definition wf_ok :: "workflow \<Rightarrow> task set \<Rightarrow> bool" where
  "wf_ok w T \<longleftrightarrow> stage_ok w T \<and> pipeline_ok w T"

lemma working_iff: "working s \<longleftrightarrow> (\<exists>k. s = TASK_WORKFLOW_STATE k)"
proof
  show "working s \<Longrightarrow> \<exists>k. s = TASK_WORKFLOW_STATE k"
    unfolding working_def by (auto intro: TASK_WORKFLOW_STATE.simps [symmetric])
  show "\<exists>k. s = TASK_WORKFLOW_STATE k \<Longrightarrow> working s"
    unfolding working_def by (elim exE, rename_tac k, case_tac k) auto
qed

lemma TASK_WORKFLOW_STATE_simps [simp]:
  "working (TASK_WORKFLOW_STATE k)"
  "\<not> past_review (TASK_WORKFLOW_STATE k)"
  "TASK_WORKFLOW_STATE k = TASK_WORKFLOW_STATE k' \<longleftrightarrow> k = k'"
  "TASK_WORKFLOW_STATE k \<noteq> WS_BLOCKED" "TASK_WORKFLOW_STATE k \<noteq> WS_FAILED" "TASK_WORKFLOW_STATE k \<noteq> WS_CANCELLED"
  "TASK_WORKFLOW_STATE k \<noteq> WS_AWAITING_HUMAN_APPROVAL"
  by (cases k; cases k'; simp add: working_def past_review_def)+

lemma state_class_simps [simp]:
  "\<not> working WS_BLOCKED" "\<not> working WS_FAILED" "\<not> working WS_CANCELLED" "\<not> working WS_REJECTED"
  "\<not> working WS_AWAITING_HUMAN_APPROVAL" "\<not> working WS_CREATED" "\<not> working WS_APPROVED"
  "\<not> past_review WS_BLOCKED" "\<not> past_review WS_FAILED" "\<not> past_review WS_CANCELLED" "\<not> past_review WS_REJECTED"
  "past_review WS_AWAITING_HUMAN_APPROVAL" "past_review WS_APPROVED" "\<not> past_review WS_CREATED"
  "\<not> past_review WS_PLANNING" "working WS_PLANNING"
  by (simp_all add: working_def past_review_def)

lemma same_taskD: "same_task t t' \<Longrightarrow> tk_kind t' = tk_kind t"
  by (simp add: same_task_def)

lemma lease_move_live: "lease_move s s' \<Longrightarrow> tk_status t = s \<Longrightarrow> tk_status t' = s' \<Longrightarrow> live t \<and> live t'"
  by (auto simp: lease_move_def live_def)

lemma completed_swap:
  "completed T k \<Longrightarrow> tk_status t \<noteq> TS_SUCCEEDED \<Longrightarrow> completed (insert t' (T - {t})) k"
  by (auto simp: completed_def)

lemma completed_insert: "completed T k \<Longrightarrow> completed (insert t T) k"
  by (auto simp: completed_def)

lemma completed_here: "tk_status t = TS_SUCCEEDED \<Longrightarrow> completed (insert t T) (tk_kind t)"
  by (auto simp: completed_def)

text \<open>Replacing a live task by a live one, or by a settled one while the workflow leaves its stage.\<close>

lemma stage_renew:
  assumes "stage_ok w T" "t \<in> T" "same_task t t'" "live t" "live t'" "lease_shape t'"
  shows "stage_ok w (insert t' (T - {t}))"
  using assms by (auto simp: stage_ok_def same_task_def)

lemma stage_stop:
  assumes "stage_ok w T" "t \<in> T" "live t" "\<not> live t'" "lease_shape t'" "\<not> working (wf_state w')"
  shows "stage_ok w' (insert t' (T - {t}))"
  using assms unfolding stage_ok_def by blast

lemma stage_start:
  assumes "\<forall>t\<in>T. \<not> live t \<and> lease_shape t" "live n" "lease_shape n"
    "wf_state w' = TASK_WORKFLOW_STATE (tk_kind n)"
  shows "stage_ok w' (insert n T)"
  using assms by (auto simp: stage_ok_def)

lemma no_live_if_idle: "stage_ok w T \<Longrightarrow> \<not> working (wf_state w) \<Longrightarrow> t \<in> T \<Longrightarrow> \<not> live t \<and> lease_shape t"
  by (auto simp: stage_ok_def)

lemma no_live_after: "stage_ok w T \<Longrightarrow> t \<in> T \<Longrightarrow> live t \<Longrightarrow> \<not> live t' \<Longrightarrow> lease_shape t' \<Longrightarrow>
    \<forall>x\<in>insert t' (T - {t}). \<not> live x \<and> lease_shape x"
  unfolding stage_ok_def by blast

lemma lease_shape_settled [simp]:
  "tk_status t \<in> {TS_BLOCKED, TS_FAILED, TS_CANCELLED, TS_SUCCEEDED, TS_RECONCILED} \<Longrightarrow> lease_shape t"
  by (auto simp: lease_shape_def)

lemma pipeline_swap:
  assumes "pipeline_ok w T" "t \<in> T" "same_task t t'" "tk_status t \<noteq> TS_SUCCEEDED"
    "has_candidate w \<Longrightarrow> has_candidate w'" "past_review (wf_state w') \<Longrightarrow> past_review (wf_state w)"
  shows "pipeline_ok w' (insert t' (T - {t}))"
  using assms completed_swap [of T _ t t'] by (auto simp: pipeline_ok_def same_task_def)

lemma pipeline_add:
  assumes "pipeline_ok w T" "\<And>k. kind_rank k < kind_rank (tk_kind n) \<Longrightarrow> completed T k"
    "kind_rank TK_TEST \<le> kind_rank (tk_kind n) \<Longrightarrow> has_candidate w" "\<not> past_review (wf_state w)"
  shows "pipeline_ok w (insert n T)"
  using assms completed_insert [of T _ n] by (auto simp: pipeline_ok_def)

lemma pipeline_state:
  assumes "pipeline_ok w T" "wf_candidate_revision w' = wf_candidate_revision w"
    "past_review (wf_state w') \<Longrightarrow> past_review (wf_state w)"
  shows "pipeline_ok w' T"
  using assms by (auto simp: pipeline_ok_def has_candidate_def)

lemma has_candidate_cong:
  "wf_candidate_revision w' = wf_candidate_revision w \<Longrightarrow> has_candidate w' \<longleftrightarrow> has_candidate w"
  by (simp add: has_candidate_def)

lemma rank_next:
  assumes "next_kind k = Some k'" "kind_rank j < kind_rank k'"
  shows "j = k \<or> kind_rank j < kind_rank k"
  using assms by (cases k; cases j) auto

lemma rank_last: "j = TK_CODE_REVIEW \<or> kind_rank j < kind_rank TK_CODE_REVIEW"
  by (cases j) auto

lemma past_review_pred:
  "s' \<in> ALLOWED_TRANSITIONS s \<Longrightarrow> past_review s' \<Longrightarrow> \<not> working s \<Longrightarrow> past_review s"
  by (cases s) (auto simp: past_review_def working_def)

text \<open>One lemma per kind of step, then the summary.\<close>

lemma advance_wf_ok:
  assumes ok: "wf_ok w T" and t: "t \<in> T" "same_task t t'" "tk_status t = TS_RUNNING" "tk_status t' = TS_SUCCEEDED"
    and n: "next_kind (tk_kind t) = Some (tk_kind n)" "tk_status n = TS_READY" "lease_shape n"
    and w': "wf_state w' = TASK_WORKFLOW_STATE (tk_kind n)"
    and cand: "if tk_kind t = TK_IMPLEMENT then has_candidate w'
      else wf_candidate_revision w' = wf_candidate_revision w"
  shows "wf_ok w' (insert n (insert t' (T - {t})))"
proof -
  let ?T = "insert t' (T - {t})"
  have stage: "stage_ok w T" and pipe: "pipeline_ok w T" using ok by (simp_all add: wf_ok_def)
  have c: "has_candidate w \<Longrightarrow> has_candidate w'"
    using cand has_candidate_cong [of w' w] by (auto split: if_splits)
  have p1: "pipeline_ok w' ?T"
    by (rule pipeline_swap [OF pipe t(1,2)]) (use t w' c in simp_all)
  have comp: "completed ?T k" if "kind_rank k < kind_rank (tk_kind n)" for k
    using rank_next [OF n(1) that] completed_here [OF t(4), of "T - {t}"] same_taskD [OF t(2)] pipe t(1,3)
      completed_swap [of T k t t'] by (auto simp: pipeline_ok_def)
  have "has_candidate w'" if "kind_rank TK_TEST \<le> kind_rank (tk_kind n)"
  proof (cases "tk_kind t = TK_IMPLEMENT")
    case True with cand show ?thesis by simp
  next
    case False
    then have "kind_rank TK_TEST \<le> kind_rank (tk_kind t)" using that n(1) by (cases "tk_kind t") auto
    then show ?thesis using pipe t(1) c by (auto simp: pipeline_ok_def)
  qed
  then have "pipeline_ok w' (insert n ?T)"
    by (intro pipeline_add [OF p1 comp]) (simp_all add: w')
  moreover have "stage_ok w' (insert n ?T)"
    by (rule stage_start [OF no_live_after [OF stage t(1)]]) (use t n w' in \<open>simp_all add: live_def\<close>)
  ultimately show ?thesis by (simp add: wf_ok_def)
qed

lemma resume_wf_ok:
  assumes ok: "wf_ok w T" and idle: "\<not> working (wf_state w)"
    and n: "tk_status n = TS_READY" "lease_shape n" "wf_state w' = TASK_WORKFLOW_STATE (tk_kind n)"
    and prior: "\<And>k. kind_rank k < kind_rank (tk_kind n) \<Longrightarrow> completed T k"
      "kind_rank TK_TEST \<le> kind_rank (tk_kind n) \<Longrightarrow> has_candidate w"
    and c: "wf_candidate_revision w' = wf_candidate_revision w"
  shows "wf_ok w' (insert n T)"
proof -
  have "stage_ok w' (insert n T)"
    by (rule stage_start) (use ok idle no_live_if_idle n in \<open>auto simp: wf_ok_def live_def\<close>)
  moreover have "pipeline_ok w' (insert n T)"
    by (rule pipeline_add [OF pipeline_state [where w = w]])
      (use ok c n prior has_candidate_cong [OF c] in \<open>auto simp: wf_ok_def\<close>)
  ultimately show ?thesis by (simp add: wf_ok_def)
qed

lemma reconciled_wf_ok:
  assumes "wf_ok w T" "wf_state w = WS_BLOCKED" "t \<in> T" "same_task t t'" "tk_status t = TS_BLOCKED"
    "tk_status t' = TS_RECONCILED"
  shows "wf_ok w (insert t' (T - {t}))"
proof -
  have "stage_ok w (insert t' (T - {t}))"
    using assms by (auto simp: wf_ok_def stage_ok_def live_def)
  moreover have "pipeline_ok w (insert t' (T - {t}))"
    by (rule pipeline_swap [where w = w, OF _ assms(3,4)]) (use assms in \<open>simp_all add: wf_ok_def\<close>)
  ultimately show ?thesis by (simp add: wf_ok_def)
qed

lemma stopped_wf_ok:
  assumes "wf_ok w T" "t \<in> T" "live t" "same_task t t'" "tk_status t' \<in> {TS_BLOCKED, TS_FAILED, TS_CANCELLED}"
    "wf_state w' \<in> {WS_BLOCKED, WS_FAILED, WS_CANCELLED}" "wf_candidate_revision w' = wf_candidate_revision w"
  shows "wf_ok w' (insert t' (T - {t}))"
proof -
  have "stage_ok w' (insert t' (T - {t}))"
    by (rule stage_stop [where w = w, OF _ assms(2,3)]) (use assms in \<open>auto simp: wf_ok_def live_def\<close>)
  moreover have "pipeline_ok w' (insert t' (T - {t}))"
    by (rule pipeline_swap [where w = w, OF _ assms(2,4)])
      (use assms has_candidate_cong [OF assms(7)] in \<open>auto simp: wf_ok_def live_def\<close>)
  ultimately show ?thesis by (simp add: wf_ok_def)
qed

lemma settled_wf_ok:
  assumes "wf_ok w T" "\<not> working (wf_state w)" "\<not> working (wf_state w')"
    "wf_state w' \<in> ALLOWED_TRANSITIONS (wf_state w)" "wf_candidate_revision w' = wf_candidate_revision w"
  shows "wf_ok w' T"
proof -
  have "stage_ok w' T"
  proof -
    have "stage_ok w T" using assms(1) by (simp add: wf_ok_def)
    then have "\<forall>t\<in>T. \<not> live t \<and> lease_shape t" using no_live_if_idle assms(2) by blast
    then show ?thesis using assms(3) by (simp add: stage_ok_def)
  qed
  moreover have "pipeline_ok w' T"
    by (rule pipeline_state [where w = w, OF _ assms(5)]) (use assms(1) past_review_pred [OF assms(4) _ assms(2)] in \<open>simp_all add: wf_ok_def\<close>)
  ultimately show ?thesis by (simp add: wf_ok_def)
qed

lemma finish_wf_ok:
  assumes ok: "wf_ok w T" and t: "t \<in> T" "same_task t t'" "tk_status t = TS_RUNNING" "tk_status t' = TS_SUCCEEDED"
    "tk_kind t = TK_CODE_REVIEW"
    and w': "wf_state w' = WS_AWAITING_HUMAN_APPROVAL" "wf_candidate_revision w' = wf_candidate_revision w"
      "has_candidate w"
  shows "wf_ok w' (insert t' (T - {t}))"
proof -
  let ?T = "insert t' (T - {t})"
  have stage: "stage_ok w T" and pipe: "pipeline_ok w T" using ok by (simp_all add: wf_ok_def)
  have "completed ?T k" for k
    using rank_last [of k] completed_here [OF t(4), of "T - {t}"] same_taskD [OF t(2)] pipe t(1,3,5)
      completed_swap [of T k t t'] by (auto simp: pipeline_ok_def)
  then have "pipeline_ok w' ?T" using w' has_candidate_cong [OF w'(2)] by (auto simp: pipeline_ok_def)
  moreover have "stage_ok w' ?T"
    by (rule stage_stop [OF stage t(1)]) (use t w' in \<open>simp_all add: live_def\<close>)
  ultimately show ?thesis by (simp add: wf_ok_def)
qed

theorem lifecycle_wf_ok:
  assumes "lifecycle e (w, T) (w', T')" "wf_ok w T"
  shows "wf_ok w' T'"
  using assms(1)
proof (cases rule: lifecycle.cases)
  case (renew t t')
  then have lv: "live t" "live t'" using lease_move_live by blast+
  show ?thesis unfolding renew wf_ok_def
  proof
    show "stage_ok w (insert t' (T - {t}))"
      using stage_renew [of w T t t'] renew lv assms(2) by (simp add: wf_ok_def)
    show "pipeline_ok w (insert t' (T - {t}))"
      by (rule pipeline_swap [of w T]) (use renew lv assms(2) in \<open>auto simp: wf_ok_def live_def\<close>)
  qed
next
  case (stop t t' s)
  show ?thesis unfolding stop(2)
    by (rule stopped_wf_ok [OF assms(2) stop(3,4,5)]) (use stop in auto)
next
  case (advance t t' n)
  then show ?thesis using advance_wf_ok [OF assms(2), of t t' n w'] by simp
next
  case (finish t t')
  then show ?thesis using finish_wf_ok [OF assms(2), of t t' w'] by simp
next
  case (release n)
  then show ?thesis using resume_wf_ok [OF assms(2), of n w'] by simp
next
  case (retry t t' n)
  let ?T = "insert t' (T - {t})"
  have ok: "wf_ok w ?T" using reconciled_wf_ok [OF assms(2)] retry by blast
  have k: "tk_kind n = tk_kind t'" using retry same_taskD [of t t'] by simp
  then have "\<And>j. kind_rank j < kind_rank (tk_kind n) \<Longrightarrow> completed ?T j"
      "kind_rank TK_TEST \<le> kind_rank (tk_kind n) \<Longrightarrow> has_candidate w"
    using ok by (auto simp: wf_ok_def pipeline_ok_def)
  then show ?thesis unfolding retry(2) using resume_wf_ok [OF ok, of n w'] retry by simp
next
  case (give_up t t')
  have "wf_ok w (insert t' (T - {t}))" using reconciled_wf_ok [OF assms(2)] give_up by blast
  then show ?thesis unfolding give_up(2)
    by (rule settled_wf_ok) (use give_up in auto)
next
  case settle
  then show ?thesis using settled_wf_ok [OF assms(2)] by simp
next
  case grant
  then show ?thesis using settled_wf_ok [OF assms(2), of w'] by simp
next
  case deliver
  then show ?thesis using settled_wf_ok [OF assms(2), of w'] delivered_not_working by simp
qed

end
