(* ===== verification/Workflow_Tasks.thy ===== *)
theory Workflow_Tasks
  imports Workflow_Core
begin

text \<open>
  The handlers of \<open>WorkflowTaskService\<close> (\<open>workflow_tasks.py\<close>): intake, leasing, reclaiming expired leases,
  the three phases of executing a leased task (prepare in one transaction, call the provider and the
  executor outside any transaction, finalise in a second one), heartbeats, the human decisions and
  cancellation.

  A handler takes its database last and returns an exception or the value of the call together with
  the database its transaction commits.  Providers and the executor are not part of the service: the
  functions \<open>submit\<close> and \<open>execute\<close> stand for them, and nothing is assumed about their answers.
  \<open>provider_bindings\<close> is the list of bound profiles, in the mapping's order; the provider behind a profile
  is addressed by the profile's identifier.
\<close>

section \<open>Data\<close>

record prepared_execution =
  px_workflow_id :: ident
  px_task_id :: ident
  px_attempt_id :: ident
  px_lease_token :: ident
  px_worker_id :: ident
  px_agent_id :: ident
  px_task_kind :: task_kind
  px_profile :: provider_profile
  px_request :: provider_request
  px_context :: execution_context

abbreviation audit :: "config \<Rightarrow> ident \<Rightarrow> string \<Rightarrow> ident \<Rightarrow> string \<Rightarrow> ident \<Rightarrow> string \<Rightarrow> dict \<Rightarrow> db \<Rightarrow> db" where
  "audit cf \<equiv> append_audit_event (cf_sha256 cf)"

section \<open>Intake\<close>

definition create_request_json :: "string \<Rightarrow> string \<Rightarrow> complexity_tier \<Rightarrow> risk_level \<Rightarrow> data_classification \<Rightarrow>
    string option \<Rightarrow> inspection_signal set \<Rightarrow> json" where
  "create_request_json title description complexity risk classification repository signals = JObj
     [(''title'', JStr (strip title)), (''description'', JStr (strip description)),
      (''complexity'', JStr (complexity_tier_name complexity)), (''risk'', JStr (risk_level_name risk)),
      (''data_classification'', JStr (data_classification_name classification)),
      (''repository_scope'', j_opt_str repository),
      (''inspection_signals'', j_strs (sorted_signal_values signals))]"

definition normalize_repository :: "string option \<Rightarrow> string option" where
  "normalize_repository repository =
     (case repository of None \<Rightarrow> None | Some r \<Rightarrow> if strip r = [] then None else Some (strip r))"

definition new_workflow :: "ident \<Rightarrow> instant \<Rightarrow> ident \<Rightarrow> string \<Rightarrow> string \<Rightarrow> complexity_tier \<Rightarrow> risk_level \<Rightarrow>
    data_classification \<Rightarrow> string option \<Rightarrow> inspection_signal set \<Rightarrow> bool \<Rightarrow> workflow" where
  "new_workflow wid created_at requester_id title description complexity risk classification repository
     signals containment =
     \<lparr>wf_id = wid, wf_title = strip title, wf_description = strip description, wf_state = WS_CREATED,
      wf_version = 1, wf_risk_class = risk, wf_complexity_tier = complexity,
      wf_data_classification = classification, wf_repository_scope = repository,
      wf_inspection_signals = sorted_signal_values signals, wf_containment_required = containment,
      wf_block_reason = (if containment then Some ''INPUT_DISPOSITION_REQUIRED'' else None),
      wf_requester_id = requester_id, wf_policy_version = ''phase1-v1'', wf_candidate_revision = None,
      wf_merged_revision = None, wf_created_at = created_at\<rparr>"

definition find_idempotency :: "ident \<Rightarrow> string \<Rightarrow> string \<Rightarrow> db \<Rightarrow> idempotency_record option" where
  "find_idempotency principal_id command key d =
     List.find (\<lambda>r. id_principal_id r = principal_id \<and> id_command r = command \<and> id_idempotency_key r = key)
       (idempotency_records d)"

text \<open>The writes of \<open>create_workflow\<close> for a request seen for the first time.\<close>

definition admit_workflow :: "config \<Rightarrow> env \<Rightarrow> workflow \<Rightarrow> idempotency_record \<Rightarrow> execution_strategy \<Rightarrow> db \<Rightarrow>
    error + db" where
  "admit_workflow cf en w r strategy d =
     (let wid = wf_id w;
          d1 = audit cf wid ''workflow.created'' (wf_requester_id w) ''workflow'' wid ''SUCCEEDED''
            [(''state'', JStr (workflow_state_value WS_CREATED))]
            (d\<lparr>workflows := row_add w (workflows d),
               idempotency_records := row_add r (idempotency_records d)\<rparr>)
      in
      if es_requires_human_disposition strategy
      then transition cf wid WS_BLOCKED ''orchestrator''
        ''suspicious or adversarial input contained pending human disposition''
        [(''restrictions'', j_strs (sorted_restriction_values (es_restrictions strategy)))] d1
      else ebind (transition cf wid WS_PLANNING ''orchestrator''
        ''validated request queued for planning'' [] d1)
        (schedule_task cf (en_uuid en 1) (en_now en 2) (en_now en 3) wid TK_PLAN))"

definition create_workflow :: "config \<Rightarrow> env \<Rightarrow> ident \<Rightarrow> string \<Rightarrow> string \<Rightarrow> string \<Rightarrow> complexity_tier \<Rightarrow>
    risk_level \<Rightarrow> data_classification \<Rightarrow> string option \<Rightarrow> inspection_signal set \<Rightarrow> db \<Rightarrow> error + json \<times> db" where
  "create_workflow cf en requester_id title description idempotency_key complexity risk classification
     repository_scope signals d =
     (if strip title = [] \<or> strip description = [] \<or> strip idempotency_key = []
      then Inl (ValidationError ''title, description, and idempotency key are required'')
      else
      let repository = normalize_repository repository_scope;
          strategy = strategy_plan \<lparr>tp_complexity = complexity, tp_risk = risk,
            tp_data_classification = classification, tp_required_capabilities = {WC_PLANNING},
            tp_inspection_signals = signals\<rparr>;
          containment = es_requires_human_disposition strategy;
          request_digest = digest (cf_sha256 cf) (create_request_json title description complexity risk
            classification repository signals);
          wid = en_uuid en 0
      in
      ebind (authorize d (en_now en 0) requester_id CAP_SUBMIT_WORKFLOW None None False) (\<lambda>_.
      (case find_idempotency requester_id ''create_workflow'' idempotency_key d of
         Some existing \<Rightarrow>
           if id_request_digest existing \<noteq> request_digest
           then Inl (ConflictError ''idempotency key was already used for a different request'')
           else (case row_get wf_id (id_resource_id existing) (workflows d) of
                   None \<Rightarrow> Inl (ConflictError ''idempotency record references a missing workflow'')
                 | Some w \<Rightarrow> Inr (workflow_dict cf d w, d))
       | None \<Rightarrow>
           let w = new_workflow wid (en_now en 1) requester_id title description complexity risk
                     classification repository signals containment;
               r = \<lparr>id_principal_id = requester_id, id_command = ''create_workflow'',
                    id_idempotency_key = idempotency_key, id_request_digest = request_digest,
                    id_resource_id = wid\<rparr>
           in ebind (admit_workflow cf en w r strategy d) (\<lambda>d1. Inr (workflow_dict_of cf d1 wid, d1)))))"

definition get_workflow_view :: "config \<Rightarrow> env \<Rightarrow> ident \<Rightarrow> ident \<Rightarrow> db \<Rightarrow> error + json" where
  "get_workflow_view cf en workflow_id principal_id d =
     ebind (authorize d (en_now en 0) principal_id CAP_READ_WORKFLOW None None False) (\<lambda>_.
     ebind (get_workflow d workflow_id) (\<lambda>w. Inr (workflow_dict cf d w)))"

section \<open>Leases\<close>

definition lease_next_task :: "config \<Rightarrow> env \<Rightarrow> ident \<Rightarrow> ident option \<Rightarrow> db \<Rightarrow> error + json \<times> db" where
  "lease_next_task cf en worker_id workflow_id d =
     ebind (authorize d (en_now en 0) worker_id CAP_LEASE_TASK None None False) (\<lambda>_.
     (case first_by (\<lambda>t. (tk_created_at t, tk_position t))
             (\<lambda>t. tk_status t = TS_READY \<and> (case workflow_id of None \<Rightarrow> True | Some wid \<Rightarrow> tk_workflow_id t = wid))
             (tasks d) of
        None \<Rightarrow> Inr (JNull, d)
      | Some t \<Rightarrow>
          let expires_at = en_now en 1 + seconds (cf_lease_seconds cf);
              d1 = upd_task (tk_id t) (\<lambda>t. t\<lparr>tk_status := TS_LEASED, tk_lease_owner := Some worker_id,
                     tk_lease_token := Some (en_uuid en 0), tk_lease_expires_at := Some expires_at\<rparr>) d
          in
          ebind (get_workflow d1 (tk_workflow_id t)) (\<lambda>_.
          let d2 = audit cf (tk_workflow_id t) ''task.leased'' worker_id ''task'' (tk_id t) ''SUCCEEDED''
                     [(''lease_expires_at'', JStr (cf_isoformat cf expires_at))] d1
          in Inr (task_dict_of cf d2 True (tk_id t), d2))))"

definition running_attempt_of :: "db \<Rightarrow> ident \<Rightarrow> task_attempt option" where
  "running_attempt_of d tid = last_by (\<lambda>a. int (at_attempt_number a))
     (\<lambda>a. at_task_id a = tid \<and> at_status a = TS_RUNNING) (attempts d)"

definition time_out_attempt :: "instant \<Rightarrow> task_attempt \<Rightarrow> task_attempt" where
  "time_out_attempt now a = a\<lparr>at_status := TS_TIMED_OUT, at_error_code := Some ''LeaseExpired'',
     at_output := dict_union (at_output a) [(''reconciliation'',
       JObj [(''error'', JStr ''execution outcome requires reconciliation'')])],
     at_completed_at := Some now\<rparr>"

text \<open>The body of the loop of \<open>reclaim_expired_tasks\<close>, for one task the query returned.\<close>

definition reclaim_one :: "config \<Rightarrow> instant \<Rightarrow> ident \<Rightarrow> task \<Rightarrow> db \<Rightarrow> error + db" where
  "reclaim_one cf now worker_id t d =
     ebind (get_workflow d (tk_workflow_id t)) (\<lambda>_.
     let tid = tk_id t; wid = tk_workflow_id t in
     if tk_status t = TS_LEASED then
       Inr (audit cf wid ''task.lease_reclaimed'' worker_id ''task'' tid ''SUCCEEDED''
         [(''prior_owner'', j_opt_str (tk_lease_owner t)), (''execution_started'', JBool False)]
         (upd_task tid (\<lambda>t. (clear_lease t)\<lparr>tk_status := TS_READY\<rparr>) d))
     else
       let d1 = upd_task tid (\<lambda>t. (clear_lease t)\<lparr>tk_status := TS_BLOCKED\<rparr>) d;
           running = running_attempt_of d1 tid;
           d2 = (case running of None \<Rightarrow> d1 | Some a \<Rightarrow> upd_attempt (at_id a) (time_out_attempt now) d1);
           d3 = upd_workflow wid (\<lambda>w. w\<lparr>wf_block_reason := Some ''EXECUTION_RECONCILIATION_REQUIRED''\<rparr>)
                  (deactivate_task_grant tid d2);
           attempt_id = j_opt_str (map_option at_id running)
       in
       ebind (transition cf wid WS_BLOCKED worker_id
         ''running task lease expired with unknown external outcome''
         [(''task_id'', JStr tid), (''attempt_id'', attempt_id)] d3) (\<lambda>d4.
       Inr (audit cf wid ''task.reconciliation_required'' worker_id ''task'' tid ''BLOCKED''
         [(''prior_owner'', j_opt_str (tk_lease_owner t)), (''execution_started'', JBool True),
          (''attempt_id'', attempt_id)] d4)))"

fun reclaim_all :: "config \<Rightarrow> instant \<Rightarrow> ident \<Rightarrow> task list \<Rightarrow> db \<Rightarrow> error + db" where
  "reclaim_all cf now worker_id [] d = Inr d"
| "reclaim_all cf now worker_id (t # ts) d =
     ebind (reclaim_one cf now worker_id t d) (reclaim_all cf now worker_id ts)"

definition lease_expired :: "instant \<Rightarrow> task \<Rightarrow> bool" where
  "lease_expired now t \<longleftrightarrow> tk_status t \<in> {TS_LEASED, TS_RUNNING} \<and>
     (case tk_lease_expires_at t of None \<Rightarrow> False | Some x \<Rightarrow> x < now)"

definition reclaim_expired_tasks :: "config \<Rightarrow> env \<Rightarrow> ident \<Rightarrow> db \<Rightarrow> error + nat \<times> db" where
  "reclaim_expired_tasks cf en worker_id d =
     (let now = en_now en 0 in
      ebind (authorize d (en_now en 1) worker_id CAP_LEASE_TASK None None False) (\<lambda>_.
      let expired = filter (lease_expired now) (tasks d) in
      ebind (reclaim_all cf now worker_id expired d) (\<lambda>d1. Inr (length expired, d1))))"

definition heartbeat_task :: "config \<Rightarrow> env \<Rightarrow> ident \<Rightarrow> ident \<Rightarrow> ident \<Rightarrow> db \<Rightarrow> error + unit \<times> db" where
  "heartbeat_task cf en task_id lease_token worker_id d =
     ebind (authorize d (en_now en 0) worker_id CAP_LEASE_TASK None None False) (\<lambda>_.
     ebind (from_option (NotFoundError ''task not found'') (row_get tk_id task_id (tasks d))) (\<lambda>t.
     ebind (validate_running_lease (en_now en 1) t lease_token worker_id) (\<lambda>_.
     let expires_at = en_now en 2 + seconds (cf_lease_seconds cf);
         d1 = upd_task task_id (\<lambda>t. t\<lparr>tk_lease_expires_at := Some expires_at\<rparr>) d
     in
     ebind (get_workflow d1 (tk_workflow_id t)) (\<lambda>_.
     Inr ((), audit cf (tk_workflow_id t) ''task.lease_heartbeat'' worker_id ''task'' task_id ''SUCCEEDED''
       [(''lease_expires_at'', JStr (cf_isoformat cf expires_at))] d1)))))"

section \<open>Preparing an execution\<close>

text \<open>\<open>select count(TaskAttempt.id) join Task where Task.workflow_id = wid and TaskAttempt.provider = pid\<close>\<close>

definition in_workflow :: "db \<Rightarrow> ident \<Rightarrow> ident \<Rightarrow> bool" where
  "in_workflow d wid tid = list_ex (\<lambda>t. tk_id t = tid \<and> tk_workflow_id t = wid) (tasks d)"

definition kind_in_workflow :: "db \<Rightarrow> ident \<Rightarrow> task_kind \<Rightarrow> ident \<Rightarrow> bool" where
  "kind_in_workflow d wid kind tid =
     list_ex (\<lambda>t. tk_id t = tid \<and> tk_workflow_id t = wid \<and> tk_kind t = kind) (tasks d)"

definition prior_invocations :: "db \<Rightarrow> ident \<Rightarrow> string \<Rightarrow> nat" where
  "prior_invocations d wid pid =
     length (filter (\<lambda>a. in_workflow d wid (at_task_id a) \<and> at_provider a = pid) (attempts d))"

text \<open>The health of one binding, and whether its subscription is exhausted for this workflow.\<close>

definition ceiling_reached :: "db \<Rightarrow> ident \<Rightarrow> provider_profile \<Rightarrow> bool" where
  "ceiling_reached d wid p \<longleftrightarrow> pp_max_invocations_per_workflow p \<le> 0 \<or>
     pp_max_invocations_per_workflow p \<le> int (prior_invocations d wid (pp_provider_id p))"

definition binding_exhausted :: "env \<Rightarrow> db \<Rightarrow> ident \<Rightarrow> provider_profile \<Rightarrow> bool" where
  "binding_exhausted en d wid p \<longleftrightarrow> pp_enabled p \<and> en_healthy en (pp_provider_id p) \<and>
     pp_funding_mode p = FM_SUBSCRIPTION \<and> ceiling_reached d wid p"

definition binding_profile :: "env \<Rightarrow> db \<Rightarrow> ident \<Rightarrow> provider_profile \<Rightarrow> provider_profile" where
  "binding_profile en d wid p = p\<lparr>pp_healthy :=
     pp_enabled p \<and> en_healthy en (pp_provider_id p) \<and> \<not> binding_exhausted en d wid p\<rparr>"

definition producer_route :: "db \<Rightarrow> ident \<Rightarrow> task_kind \<Rightarrow> routing_record option" where
  "producer_route d wid kind = (case REVIEW_PRODUCER_KIND kind of None \<Rightarrow> None
   | Some producer \<Rightarrow> last_by rr_created_at
       (\<lambda>r. kind_in_workflow d wid producer (rr_task_id r) \<and> rr_selected_provider_id r \<noteq> None)
       (routing_records d))"

definition attempt_routing_request :: "config \<Rightarrow> db \<Rightarrow> workflow \<Rightarrow> task \<Rightarrow> routing_request" where
  "attempt_routing_request cf d w t =
     (let producer = producer_route d (wf_id w) (tk_kind t) in
      \<lparr>rq_required_capabilities = {tk_work_capability t}, rq_data_classification = wf_data_classification w,
       rq_risk = wf_risk_class w,
       rq_purpose = (if REVIEW_PRODUCER_KIND (tk_kind t) = None then RP_PRODUCE else RP_REVIEW),
       rq_allowed_egress = cf_allowed_egress cf,
       rq_allowed_modes = {},
       rq_maximum_cost_tier = CT_HIGH,
       rq_minimum_evidence_samples =
         (if RL_HIGH \<le> wf_risk_class w then cf_high_risk_min_evidence_samples cf else 0),
       rq_producer_provider_id = (case producer of None \<Rightarrow> None | Some r \<Rightarrow> rr_selected_provider_id r),
       rq_producer_family = (case producer of None \<Rightarrow> None | Some r \<Rightarrow> rr_selected_provider_family r),
       rq_objective = cf_routing_objective cf\<rparr>)"

definition attempt_profiles :: "config \<Rightarrow> env \<Rightarrow> db \<Rightarrow> ident \<Rightarrow> provider_profile list" where
  "attempt_profiles cf en d wid =
     hydrate_profiles (cf_window_size cf) d (map (binding_profile en d wid) (cf_profiles cf))"

definition find_profile :: "string option \<Rightarrow> provider_profile list \<Rightarrow> provider_profile option" where
  "find_profile pid profiles = List.find (\<lambda>p. Some (pp_provider_id p) = pid) profiles"

definition ranked_entry :: "provider_profile list \<Rightarrow> ranked_candidate \<Rightarrow> ranked_candidate \<times> funding_mode \<times> int" where
  "ranked_entry profiles c = (case find_profile (Some (rc_provider_id c)) profiles of
     None \<Rightarrow> (c, FM_METERED, 0)
   | Some p \<Rightarrow> (c, pp_funding_mode p, pp_max_invocations_per_workflow p))"

text \<open>
  \<open>_route_attempt\<close>.  Every ranked candidate is one of the profiles, so the default of \<open>ranked_entry\<close> (in
  the source, \<open>StopIteration\<close>) is never taken.
\<close>

definition route_attempt :: "config \<Rightarrow> env \<Rightarrow> instant \<Rightarrow> workflow \<Rightarrow> task \<Rightarrow> ident \<Rightarrow> db \<Rightarrow>
    error + provider_profile option \<times> db" where
  "route_attempt cf en created_at w t attempt_id d =
     (let profiles = attempt_profiles cf en d (wf_id w);
          request = attempt_routing_request cf d w t;
          exhausted = map pp_provider_id (filter (binding_exhausted en d (wf_id w)) (cf_profiles cf))
      in
      ebind (route request profiles) (\<lambda>decision.
      let selected = find_profile (rd_selected_provider_id decision) profiles;
          rejected = map (\<lambda>(pid, reasons). (pid, if pid \<in> set exhausted
            then [''subscription_invocation_ceiling_exhausted''] else reasons)) (rd_rejected decision);
          r = \<lparr>rr_workflow_id = wf_id w, rr_task_id = tk_id t, rr_attempt_id = attempt_id,
               rr_policy_version = rd_policy_version decision, rr_request = request,
               rr_provider_policy_version = cf_provider_policy_version cf,
               rr_ranked_candidates = map (ranked_entry profiles) (rd_ranked_candidates decision),
               rr_rejected_candidates = rejected, rr_selected_provider_id = rd_selected_provider_id decision,
               rr_selected_provider_family = map_option pp_provider_family selected,
               rr_selected_model_version = map_option pp_model_version selected, rr_created_at = created_at\<rparr>;
          d1 = audit cf (wf_id w) (if selected \<noteq> None then ''task.routed'' else ''task.routing_blocked'')
            ''orchestrator'' ''task'' (tk_id t) (if selected \<noteq> None then ''SUCCEEDED'' else ''BLOCKED'')
            [(''attempt_id'', JStr attempt_id), (''policy_version'', JStr (rd_policy_version decision)),
             (''provider_policy_version'', JStr (cf_provider_policy_version cf)),
             (''selected_provider_id'', j_opt_str (rd_selected_provider_id decision)),
             (''rejected'', JObj (map (\<lambda>(pid, reasons). (pid, j_strs reasons)) rejected))]
            (d\<lparr>routing_records := row_add r (routing_records d)\<rparr>)
      in Inr (selected, d1)))"

definition record_routing_block :: "config \<Rightarrow> instant \<Rightarrow> ident \<Rightarrow> ident \<Rightarrow> ident \<Rightarrow> db \<Rightarrow> error + db" where
  "record_routing_block cf now wid tid attempt_id d =
     transition cf wid WS_BLOCKED ''orchestrator'' ''no policy-eligible provider for task''
       [(''attempt_id'', JStr attempt_id)]
       (upd_workflow wid (\<lambda>w. w\<lparr>wf_block_reason := Some ''NO_ELIGIBLE_PROVIDER''\<rparr>)
       (deactivate_task_grant tid
       (upd_task tid (\<lambda>t. (clear_lease t)\<lparr>tk_status := TS_BLOCKED\<rparr>)
       (upd_attempt attempt_id (\<lambda>a. a\<lparr>at_status := TS_FAILED, at_provider := ''none'', at_model := ''none'',
          at_error_code := Some ''RoutingBlocked'',
          at_output := [(''error'', JStr ''no policy-eligible provider'')], at_completed_at := Some now\<rparr>) d))))"

definition producer_attempt :: "db \<Rightarrow> ident \<Rightarrow> task_kind \<Rightarrow> task_attempt option" where
  "producer_attempt d wid producer = last_by
     (\<lambda>a. case at_completed_at a of None \<Rightarrow> 0 | Some x \<Rightarrow> x)
     (\<lambda>a. kind_in_workflow d wid producer (at_task_id a) \<and> at_status a = TS_SUCCEEDED) (attempts d)"

definition producer_context :: "config \<Rightarrow> db \<Rightarrow> ident \<Rightarrow> task_kind \<Rightarrow> error + dict" where
  "producer_context cf d wid kind = (case REVIEW_PRODUCER_KIND kind of
     None \<Rightarrow> Inr []
   | Some producer \<Rightarrow>
       ebind (from_option (ConflictError ''review source output is unavailable'')
         (producer_attempt d wid producer)) (\<lambda>a.
       let canonical = dumps (JObj (at_output a)) in
       if 1048576 < length canonical
       then Inl (ValidationError ''review source output exceeds one MiB'')
       else Inr [(''producer_output'', JObj (at_output a)),
                 (''producer_output_digest'', JStr (''sha256:'' @ cf_sha256 cf canonical))]))"

definition provider_request_for :: "workflow \<Rightarrow> task \<Rightarrow> ident \<Rightarrow> dict \<Rightarrow> provider_request" where
  "provider_request_for w t attempt_id extra =
     \<lparr>pr_run_id = attempt_id, pr_workflow_id = wf_id w, pr_task_id = tk_id t, pr_task_kind = tk_kind t,
      pr_role = tk_required_role t, pr_objective = tk_objective t,
      pr_context = dict_union
        [(''workflow_title'', JStr (wf_title w)), (''workflow_description'', JStr (wf_description w)),
         (''candidate_revision'', j_opt_str (wf_candidate_revision w)),
         (''content_trust'', JStr ''UNTRUSTED_REPOSITORY_CONTEXT''),
         (''data_classification'', JStr (data_classification_name (wf_data_classification w))),
         (''repository_scope'', j_opt_str (wf_repository_scope w))] extra,
      pr_required_capability = tk_required_capability t, pr_idempotency_key = attempt_id\<rparr>"

definition execution_context_for :: "workflow \<Rightarrow> task \<Rightarrow> execution_context" where
  "execution_context_for w t =
     \<lparr>ec_workflow_id = wf_id w, ec_task_id = tk_id t, ec_repository_scope = wf_repository_scope w,
      ec_candidate_revision = wf_candidate_revision w, ec_containment_required = wf_containment_required w\<rparr>"

definition new_attempt :: "ident \<Rightarrow> ident \<Rightarrow> nat \<Rightarrow> ident \<Rightarrow> task_attempt" where
  "new_attempt aid tid number agent_id =
     \<lparr>at_id = aid, at_task_id = tid, at_attempt_number = number, at_agent_id = agent_id,
      at_provider = ''pending-routing'', at_model = ''pending'', at_status = TS_RUNNING, at_output = [],
      at_error_code = None, at_completed_at = None\<rparr>"

text \<open>The start of \<open>_prepare_execution\<close>: the task runs, and its attempt is on record.\<close>

definition start_attempt :: "ident \<Rightarrow> ident \<Rightarrow> ident \<Rightarrow> db \<Rightarrow> db" where
  "start_attempt aid tid agent_id d =
     (let d1 = upd_task tid (\<lambda>t. t\<lparr>tk_status := TS_RUNNING\<rparr>) d
      in d1\<lparr>attempts := row_add (new_attempt aid tid (length (task_attempts d tid) + 1) agent_id) (attempts d1)\<rparr>)"

text \<open>What \<open>_prepare_execution\<close> does with the outcome of routing.\<close>

definition dispatch_routed :: "config \<Rightarrow> env \<Rightarrow> workflow \<Rightarrow> task \<Rightarrow> ident \<Rightarrow> ident \<Rightarrow> ident \<Rightarrow> ident \<Rightarrow>
    provider_profile option \<Rightarrow> db \<Rightarrow> error + (json + prepared_execution) \<times> db" where
  "dispatch_routed cf en w t lease_token worker_id agent_id attempt_id routed d =
     (case routed of
        None \<Rightarrow>
          ebind (record_routing_block cf (en_now en 4) (wf_id w) (tk_id t) attempt_id d) (\<lambda>d1.
          Inr (Inl (task_dict_of cf d1 False (tk_id t)), d1))
      | Some profile \<Rightarrow>
          if pp_funding_mode profile = FM_SUBSCRIPTION \<and> ceiling_reached d (wf_id w) profile
          then Inl (ConflictError ''subscription invocation ceiling exhausted for workflow'')
          else
          let d1 = upd_attempt attempt_id (\<lambda>a. a\<lparr>at_provider := pp_provider_id profile,
                     at_model := pp_model_version profile\<rparr>) d
          in
          ebind (producer_context cf d1 (wf_id w) (tk_kind t)) (\<lambda>extra.
          let d2 = upd_task (tk_id t) (\<lambda>t. t\<lparr>tk_lease_expires_at :=
                     Some (en_now en 4 + seconds (cf_lease_seconds cf))\<rparr>) d1
          in Inr (Inr \<lparr>px_workflow_id = wf_id w, px_task_id = tk_id t, px_attempt_id = attempt_id,
               px_lease_token = lease_token, px_worker_id = worker_id, px_agent_id = agent_id,
               px_task_kind = tk_kind t, px_profile = profile,
               px_request = provider_request_for w t attempt_id extra,
               px_context = execution_context_for w t\<rparr>, d2)))"

definition prepare_execution :: "config \<Rightarrow> env \<Rightarrow> ident \<Rightarrow> ident \<Rightarrow> ident \<Rightarrow> db \<Rightarrow>
    error + (json + prepared_execution) \<times> db" where
  "prepare_execution cf en task_id lease_token worker_id d =
     ebind (authorize d (en_now en 0) worker_id CAP_LEASE_TASK None None False) (\<lambda>_.
     ebind (from_option (NotFoundError ''task not found'') (row_get tk_id task_id (tasks d))) (\<lambda>t.
     ebind (validate_lease (en_now en 1) t lease_token worker_id) (\<lambda>_.
     ebind (get_workflow d (tk_workflow_id t)) (\<lambda>w.
     ebind (from_option (OtherError ''KeyError'') (AGENT_FOR_ROLE (tk_required_role t))) (\<lambda>agent_id.
     let attempt_id = en_uuid en 0; d1 = start_attempt attempt_id task_id agent_id d in
     ebind (authorize d1 (en_now en 2) agent_id (tk_required_capability t) (Some (wf_id w)) (Some task_id)
       False) (\<lambda>_.
     ebind (route_attempt cf en (en_now en 3) w t attempt_id d1) (\<lambda>(routed, d2).
     dispatch_routed cf en w t lease_token worker_id agent_id attempt_id routed d2)))))))"

section \<open>Calling the provider\<close>

definition output_dict :: "provider_result \<Rightarrow> dict" where
  "output_dict r = (case res_output r of JObj out \<Rightarrow> out | _ \<Rightarrow> [])"

text \<open>
  \<open>execution.evidence.get("result_revision", provider_result.output.get("candidate_revision"))\<close>, and the
  check that follows it.
\<close>

definition candidate_of :: "provider_result \<Rightarrow> execution_result \<Rightarrow> error + string" where
  "candidate_of result execution =
     (let candidate = (case dict_get (ex_evidence execution) ''result_revision'' of
            Some v \<Rightarrow> Some v | None \<Rightarrow> dict_get (output_dict result) ''candidate_revision'')
      in case candidate of
           Some (JStr c) \<Rightarrow> if c = [] then Inl (ValidationError ''implementation result lacks candidate revision'')
             else Inr c
         | _ \<Rightarrow> Inl (ValidationError ''implementation result lacks candidate revision''))"

text \<open>
  The \<open>try\<close> block of \<open>execute_leased_task\<close>.  A failure carries the value of \<open>validation_passed\<close> its handler
  sees.
\<close>

definition run_provider :: "(string \<Rightarrow> provider_request \<Rightarrow> error + provider_result) \<Rightarrow>
    (task_kind \<Rightarrow> provider_result \<Rightarrow> execution_context \<Rightarrow> error + execution_result) \<Rightarrow> prepared_execution \<Rightarrow>
    (error \<times> bool) + provider_result \<times> execution_result \<times> string option" where
  "run_provider submit execute p =
     (case submit (pp_provider_id (px_profile p)) (px_request p) of
        Inl e \<Rightarrow> Inl (e, is_review_rejected e)
      | Inr result \<Rightarrow>
          if res_model result \<noteq> pp_model_version (px_profile p)
          then Inl (ValidationError ''provider model does not match routed model version'', False)
          else (case validate_provider_result (px_task_kind p) result of
             Inl e \<Rightarrow> Inl (e, is_review_rejected e)
           | Inr _ \<Rightarrow> (case execute (px_task_kind p) result (px_context p) of
               Inl e \<Rightarrow> Inl (e, True)
             | Inr execution \<Rightarrow>
                 if px_task_kind p = TK_IMPLEMENT
                 then (case candidate_of result execution of
                         Inl e \<Rightarrow> Inl (e, True)
                       | Inr c \<Rightarrow> Inr (result, execution, Some c))
                 else Inr (result, execution, None))))"

section \<open>Finalising an execution\<close>

definition record_provider_observation :: "instant \<Rightarrow> ident \<Rightarrow> task \<Rightarrow> ident \<Rightarrow> provider_profile \<Rightarrow> bool \<Rightarrow> bool \<Rightarrow>
    int \<Rightarrow> string option \<Rightarrow> db \<Rightarrow> db" where
  "record_provider_observation created_at wid t attempt_id profile succeeded validation_passed latency_ms
     error_code d = d\<lparr>observations := row_add
       \<lparr>ob_workflow_id = wid, ob_task_id = tk_id t, ob_attempt_id = attempt_id,
        ob_provider_id = pp_provider_id profile, ob_provider_family = pp_provider_family profile,
        ob_model_version = pp_model_version profile, ob_profile_version = pp_profile_version profile,
        ob_work_capability = tk_work_capability t, ob_succeeded = succeeded,
        ob_validation_passed = validation_passed, ob_latency_ms = max latency_ms 0,
        ob_error_code = error_code, ob_created_at = created_at\<rparr> (observations d)\<rparr>"

text \<open>
  The guards both finalisers start with: the task and the attempt exist, the lease is still the
  caller's and has not expired, the attempt is still running.
\<close>

definition finalize_guard :: "instant \<Rightarrow> prepared_execution \<Rightarrow> db \<Rightarrow> error + task \<times> task_attempt \<times> workflow" where
  "finalize_guard now p d =
     (case (row_get tk_id (px_task_id p) (tasks d), row_get at_id (px_attempt_id p) (attempts d)) of
        (Some t, Some a) \<Rightarrow>
          ebind (validate_running_lease now t (px_lease_token p) (px_worker_id p)) (\<lambda>_.
          if at_status a \<noteq> TS_RUNNING then Inl (ConflictError ''task attempt is no longer running'')
          else ebind (get_workflow d (px_workflow_id p)) (\<lambda>w. Inr (t, a, w)))
      | _ \<Rightarrow> Inl (NotFoundError ''running task or attempt not found''))"

definition success_output :: "task_kind \<Rightarrow> provider_result \<Rightarrow> execution_result \<Rightarrow> dict" where
  "success_output kind result execution =
     (let out = dict_union (output_dict result) [(''execution_evidence'', JObj (ex_evidence execution))]
      in if kind = TK_TEST
         then dict_union out [(''tests_passed'', JBool True), (''failures'', JList [])] else out)"

definition finalize_execution_success :: "config \<Rightarrow> env \<Rightarrow> prepared_execution \<Rightarrow> provider_result \<Rightarrow>
    execution_result \<Rightarrow> string option \<Rightarrow> int \<Rightarrow> db \<Rightarrow> error + json \<times> db" where
  "finalize_execution_success cf en p result execution candidate_revision latency_ms d =
     ebind (finalize_guard (en_now en 0) p d) (\<lambda>(t, a, w).
     let tid = tk_id t; wid = wf_id w;
         output = success_output (px_task_kind p) result execution;
         d1 = upd_attempt (at_id a) (\<lambda>a. a\<lparr>at_model := res_model result, at_output := output,
                at_status := TS_SUCCEEDED, at_completed_at := Some (en_now en 1)\<rparr>) d;
         d2 = deactivate_task_grant tid
                (upd_task tid (\<lambda>t. (clear_lease t)\<lparr>tk_status := TS_SUCCEEDED\<rparr>) d1);
         d3 = record_provider_observation (en_now en 2) wid t (at_id a) (px_profile p) True True latency_ms
                None d2;
         artifact_digest = digest (cf_sha256 cf) (JObj output);
         revision = (if px_task_kind p = TK_IMPLEMENT then candidate_revision else wf_candidate_revision w);
         d4 = (if px_task_kind p = TK_IMPLEMENT
               then upd_workflow wid (\<lambda>w. w\<lparr>wf_candidate_revision := candidate_revision\<rparr>) d3 else d3);
         d5 = d4\<lparr>artifacts := row_add
                \<lparr>ar_workflow_id = wid, ar_task_id = tid, ar_attempt_id = at_id a,
                 ar_artifact_type = task_kind_value (tk_kind t) @ ''_EVIDENCE'', ar_digest = artifact_digest,
                 ar_revision = revision,
                 ar_metadata = [(''provider'', JStr (pp_provider_id (px_profile p))),
                   (''provider_reported'', JStr (res_provider result)), (''model'', JStr (res_model result)),
                   (''commands_executed'', j_strs (ex_commands_executed execution))]\<rparr> (artifacts d4)\<rparr>;
         d6 = audit cf wid ''task.succeeded'' (px_agent_id p) ''task'' tid ''SUCCEEDED''
                [(''attempt_id'', JStr (at_id a)), (''artifact_digest'', JStr artifact_digest),
                 (''candidate_revision'', j_opt_str revision),
                 (''commands_executed'', j_strs (ex_commands_executed execution))] d5
     in
     ebind (advance_after_task cf (en_uuid en 0) (en_now en 3) (en_now en 4) wid (px_task_kind p) d6) (\<lambda>d7.
     Inr (task_dict_of cf d7 False tid, d7)))"

definition failure_output :: "error \<Rightarrow> dict" where
  "failure_output e = (case e of
     ProviderReviewRejectedError _ out \<Rightarrow>
       [(''error'', JStr ''provider review rejected candidate''), (''review'', JObj out)]
   | _ \<Rightarrow> [(''error'', JStr ''provider or executor operation failed'')])"

definition record_attempt_failure :: "config \<Rightarrow> instant \<Rightarrow> ident \<Rightarrow> task \<Rightarrow> task_attempt \<Rightarrow> error \<Rightarrow> ident \<Rightarrow> db \<Rightarrow>
    error + db" where
  "record_attempt_failure cf now wid t a exc worker_id d =
     (let tid = tk_id t;
          review_rejected = is_review_rejected exc;
          retrying = (\<not> review_rejected \<and> at_attempt_number a < tk_max_attempts t);
          d1 = upd_attempt (at_id a) (\<lambda>a. a\<lparr>at_status := TS_FAILED,
                 at_model := (if at_model a = ''pending'' then ''unknown'' else at_model a),
                 at_error_code := Some (error_name exc), at_output := failure_output exc,
                 at_completed_at := Some now\<rparr>) d;
          d2 = upd_task tid (\<lambda>t. (clear_lease t)\<lparr>tk_status := if retrying then TS_READY else TS_FAILED\<rparr>) d1;
          d3 = (if retrying then d2 else deactivate_task_grant tid d2);
          d4 = audit cf wid (if retrying then ''task.retry_scheduled'' else ''task.failed'') worker_id ''task'' tid
                 ''FAILED''
                 [(''attempt_id'', JStr (at_id a)), (''attempt_number'', JInt (int (at_attempt_number a))),
                  (''error_code'', JStr (error_name exc)), (''review_rejected'', JBool review_rejected),
                  (''retrying'', JBool retrying)] d3
      in
      if retrying then Inr d4
      else transition cf wid WS_FAILED ''orchestrator''
        (if review_rejected then ''provider review rejected candidate'' else ''task retry limit exhausted'') [] d4)"

definition finalize_execution_failure :: "config \<Rightarrow> env \<Rightarrow> prepared_execution \<Rightarrow> error \<Rightarrow> bool \<Rightarrow> int \<Rightarrow> db \<Rightarrow>
    error + json \<times> db" where
  "finalize_execution_failure cf en p exc validation_passed latency_ms d =
     ebind (finalize_guard (en_now en 0) p d) (\<lambda>(t, a, w).
     let d1 = record_provider_observation (en_now en 1) (wf_id w) t (at_id a) (px_profile p) False
                validation_passed latency_ms (Some (error_name exc)) d
     in
     ebind (record_attempt_failure cf (en_now en 2) (wf_id w) t a exc (px_worker_id p) d1) (\<lambda>d2.
     Inr (task_dict_of cf d2 False (tk_id t), d2)))"

text \<open>
  \<open>execute_leased_task\<close> after \<open>_prepare_execution\<close> returned a prepared execution, and the whole call when no
  other call interleaves.  Heartbeats run on another thread and are calls of \<open>heartbeat_task\<close>.
\<close>

definition complete_execution :: "(string \<Rightarrow> provider_request \<Rightarrow> error + provider_result) \<Rightarrow>
    (task_kind \<Rightarrow> provider_result \<Rightarrow> execution_context \<Rightarrow> error + execution_result) \<Rightarrow> config \<Rightarrow> env \<Rightarrow>
    prepared_execution \<Rightarrow> int \<Rightarrow> db \<Rightarrow> error + json \<times> db" where
  "complete_execution submit execute cf en p latency_ms d =
     (case run_provider submit execute p of
        Inl (exc, validation_passed) \<Rightarrow> finalize_execution_failure cf en p exc validation_passed latency_ms d
      | Inr (result, execution, candidate) \<Rightarrow>
          finalize_execution_success cf en p result execution candidate latency_ms d)"

definition execute_leased_task :: "(string \<Rightarrow> provider_request \<Rightarrow> error + provider_result) \<Rightarrow>
    (task_kind \<Rightarrow> provider_result \<Rightarrow> execution_context \<Rightarrow> error + execution_result) \<Rightarrow> config \<Rightarrow> env \<Rightarrow> env \<Rightarrow>
    ident \<Rightarrow> ident \<Rightarrow> ident \<Rightarrow> int \<Rightarrow> db \<Rightarrow> (error + json) \<times> db" where
  "execute_leased_task submit execute cf en en' task_id lease_token worker_id latency_ms d =
     (case prepare_execution cf en task_id lease_token worker_id d of
        Inl e \<Rightarrow> (Inl e, d)
      | Inr (Inl blocked, d1) \<Rightarrow> (Inr blocked, d1)
      | Inr (Inr p, d1) \<Rightarrow> commit d1 (complete_execution submit execute cf en' p latency_ms d1))"

section \<open>Human decisions\<close>

definition apply_disposition :: "config \<Rightarrow> env \<Rightarrow> ident \<Rightarrow> ident \<Rightarrow> disposition_decision \<Rightarrow> dict \<Rightarrow> db \<Rightarrow> error + db" where
  "apply_disposition cf en workflow_id actor_id decision extra d = (case decision of
     DD_REJECT \<Rightarrow> transition cf workflow_id WS_REJECTED actor_id ''human rejected contained input'' extra
       (upd_workflow workflow_id (\<lambda>w. w\<lparr>wf_block_reason := Some ''INPUT_REJECTED''\<rparr>) d)
   | DD_RESUME_CONTAINED \<Rightarrow> ebind (transition cf workflow_id WS_PLANNING actor_id
         ''human authorized contained planning'' extra
         (upd_workflow workflow_id (\<lambda>w. w\<lparr>wf_block_reason := None, wf_containment_required := True\<rparr>) d))
       (schedule_task cf (en_uuid en 1) (en_now en 1) (en_now en 2) workflow_id TK_PLAN))"

definition disposition_workflow :: "config \<Rightarrow> env \<Rightarrow> ident \<Rightarrow> ident \<Rightarrow> disposition_decision \<Rightarrow> string \<Rightarrow> db \<Rightarrow>
    error + json \<times> db" where
  "disposition_workflow cf en workflow_id actor_id decision rationale d =
     (if strip rationale = [] then Inl (ValidationError ''disposition rationale is required'')
      else
      ebind (authorize d (en_now en 0) actor_id CAP_DISPOSITION_WORKFLOW None None True) (\<lambda>_.
      ebind (get_workflow d workflow_id) (\<lambda>w.
      if wf_state w \<noteq> WS_BLOCKED then Inl (ConflictError ''workflow is not blocked'')
      else if wf_block_reason w \<noteq> Some ''INPUT_DISPOSITION_REQUIRED''
      then Inl (ConflictError ''workflow block is not eligible for input disposition'')
      else if list_ex (\<lambda>x. wd_workflow_id x = workflow_id) (dispositions d)
      then Inl (ConflictError ''workflow already has an input disposition'')
      else
      let did = en_uuid en 0;
          extra = [(''disposition_id'', JStr did)];
          d1 = d\<lparr>dispositions := row_add
                 \<lparr>wd_id = did, wd_workflow_id = workflow_id, wd_actor_id = actor_id, wd_decision = decision,
                  wd_original_signals = wf_inspection_signals w, wd_rationale = strip rationale\<rparr>
                 (dispositions d)\<rparr>
      in
      ebind (apply_disposition cf en workflow_id actor_id decision extra d1) (\<lambda>d2.
      Inr (workflow_dict_of cf d2 workflow_id, d2)))))"

definition abandoned_attempt :: "db \<Rightarrow> ident \<Rightarrow> task_attempt option" where
  "abandoned_attempt d tid = last_by (\<lambda>a. int (at_attempt_number a)) (\<lambda>a. at_task_id a = tid \<and>
     at_status a = TS_TIMED_OUT \<and> at_error_code a = Some ''LeaseExpired'') (attempts d)"

text \<open>The workflow's way on, once the abandoned task is marked.\<close>

definition apply_reconciliation :: "config \<Rightarrow> env \<Rightarrow> ident \<Rightarrow> task_kind \<Rightarrow> ident \<Rightarrow> reconciliation_decision \<Rightarrow> dict \<Rightarrow>
    db \<Rightarrow> error + db" where
  "apply_reconciliation cf en workflow_id kind actor_id decision extra d = (case decision of
     RD_RETRY \<Rightarrow> ebind (transition cf workflow_id (TASK_WORKFLOW_STATE kind) actor_id
         ''human reconciled abandoned execution for retry'' extra
         (upd_workflow workflow_id (\<lambda>w. w\<lparr>wf_block_reason := None\<rparr>) d))
       (schedule_task cf (en_uuid en 1) (en_now en 1) (en_now en 2) workflow_id kind)
   | RD_FAIL \<Rightarrow> transition cf workflow_id WS_FAILED actor_id ''human reconciled abandoned execution as failed'' extra
       (upd_workflow workflow_id (\<lambda>w. w\<lparr>wf_block_reason := Some ''EXECUTION_RECONCILED_FAILED''\<rparr>) d))"

definition reconcile_execution :: "config \<Rightarrow> env \<Rightarrow> ident \<Rightarrow> ident \<Rightarrow> ident \<Rightarrow> reconciliation_decision \<Rightarrow> string \<Rightarrow>
    db \<Rightarrow> error + json \<times> db" where
  "reconcile_execution cf en workflow_id task_id actor_id decision rationale d =
     (if strip rationale = [] then Inl (ValidationError ''reconciliation rationale is required'')
      else
      ebind (authorize d (en_now en 0) actor_id CAP_RECONCILE_EXECUTION None None True) (\<lambda>_.
      ebind (get_workflow d workflow_id) (\<lambda>w.
      if wf_state w \<noteq> WS_BLOCKED \<or> wf_block_reason w \<noteq> Some ''EXECUTION_RECONCILIATION_REQUIRED''
      then Inl (ConflictError ''workflow is not awaiting execution reconciliation'')
      else (case row_get tk_id task_id (tasks d) of
        None \<Rightarrow> Inl (ConflictError ''task is not awaiting execution reconciliation'')
      | Some t \<Rightarrow>
        if tk_workflow_id t \<noteq> workflow_id \<or> tk_status t \<noteq> TS_BLOCKED
        then Inl (ConflictError ''task is not awaiting execution reconciliation'')
        else
        ebind (from_option (ConflictError ''task has no abandoned attempt to reconcile'')
          (abandoned_attempt d task_id)) (\<lambda>a.
        if list_ex (\<lambda>r. er_attempt_id r = at_id a) (reconciliations d)
        then Inl (ConflictError ''execution attempt was already reconciled'')
        else
        let rid = en_uuid en 0;
            extra = [(''reconciliation_id'', JStr rid), (''abandoned_attempt_id'', JStr (at_id a))];
            d1 = d\<lparr>reconciliations := row_add
                   \<lparr>er_id = rid, er_workflow_id = workflow_id, er_task_id = task_id, er_attempt_id = at_id a,
                    er_actor_id = actor_id, er_decision = decision, er_rationale = strip rationale\<rparr>
                   (reconciliations d)\<rparr>;
            d2 = upd_task task_id (\<lambda>t. t\<lparr>tk_status := TS_RECONCILED\<rparr>) d1
        in
        ebind (apply_reconciliation cf en workflow_id (tk_kind t) actor_id decision extra d2)
          (\<lambda>d3.
        let d4 = audit cf workflow_id ''execution.reconciled'' actor_id ''task_attempt'' (at_id a)
                   (reconciliation_decision_value decision)
                   [(''reconciliation_id'', JStr rid), (''task_id'', JStr task_id),
                    (''decision'', JStr (reconciliation_decision_value decision))] d3
        in Inr (workflow_dict_of cf d4 workflow_id, d4)))))))"

fun approval_capability :: "approval_action \<Rightarrow> capability" where
  "approval_capability AA_MERGE = CAP_APPROVE_MERGE"
| "approval_capability AA_DEPLOY = CAP_APPROVE_DEPLOYMENT"
| "approval_capability AA_ROLLBACK = CAP_APPROVE_ROLLBACK"

definition missing :: "string option \<Rightarrow> bool" where
  "missing s \<longleftrightarrow> s = None \<or> s = Some []"

text \<open>The checks of \<open>approve\<close> that bind an approval to its object; the result is the policy version.\<close>

definition check_merge_approval :: "workflow \<Rightarrow> string \<Rightarrow> string option \<Rightarrow> string option \<Rightarrow> string option \<Rightarrow>
    error + string" where
  "check_merge_approval w revision environment_id plan_digest attempt_id =
     (if environment_id \<noteq> None \<or> plan_digest \<noteq> None \<or> attempt_id \<noteq> None
      then Inl (ValidationError ''merge approval cannot include deployment bindings'')
      else if wf_state w \<noteq> WS_AWAITING_HUMAN_APPROVAL
      then Inl (InvalidTransitionError ''workflow is not awaiting merge approval'')
      else if missing (wf_candidate_revision w) \<or> wf_candidate_revision w \<noteq> Some revision
      then Inl (ConflictError ''approval revision does not match the candidate revision'')
      else Inr (wf_policy_version w))"

definition check_deploy_approval :: "db \<Rightarrow> workflow \<Rightarrow> string \<Rightarrow> string \<Rightarrow> string option \<Rightarrow> string option \<Rightarrow>
    string option \<Rightarrow> error + string" where
  "check_deploy_approval d w target revision environment_id plan_digest attempt_id =
     (if wf_state w \<noteq> WS_AWAITING_DEPLOYMENT_APPROVAL
      then Inl (InvalidTransitionError ''workflow is not awaiting deployment approval'')
      else if attempt_id \<noteq> None
      then Inl (ValidationError ''deployment approval cannot bind a prior attempt'')
      else if missing environment_id \<or> missing plan_digest
      then Inl (ValidationError ''deployment approval requires environment and plan digest'')
      else (case List.find (\<lambda>p. dp_workflow_id p = wf_id w \<and> Some (dp_environment_id p) = environment_id \<and>
               Some (dp_digest p) = plan_digest) (plans d) of
          None \<Rightarrow> Inl (ConflictError ''deployment approval does not match an immutable plan'')
        | Some p \<Rightarrow>
            if Some (strip target) \<noteq> environment_id
            then Inl (ConflictError ''deployment target must equal the environment ID'')
            else if revision \<noteq> dp_revision p \<or> Some revision \<noteq> wf_merged_revision w
            then Inl (ConflictError ''deployment approval revision is stale'')
            else Inr (dp_policy_version p)))"

definition check_rollback_approval :: "db \<Rightarrow> workflow \<Rightarrow> string \<Rightarrow> string \<Rightarrow> string option \<Rightarrow> string option \<Rightarrow>
    string option \<Rightarrow> error + string" where
  "check_rollback_approval d w target revision environment_id plan_digest attempt_id =
     (if wf_state w \<noteq> WS_ROLLBACK_REQUIRED
      then Inl (InvalidTransitionError ''workflow is not awaiting rollback disposition'')
      else if missing environment_id \<or> missing plan_digest \<or> missing attempt_id
      then Inl (ValidationError ''rollback approval requires environment, plan, and attempt bindings'')
      else (case row_get da_id (the attempt_id) (deployments d) of
          None \<Rightarrow> Inl (ConflictError ''rollback approval does not match a contained attempt'')
        | Some a \<Rightarrow>
            if da_workflow_id a \<noteq> wf_id w \<or> da_status a \<noteq> DS_ROLLBACK_REQUIRED
            then Inl (ConflictError ''rollback approval does not match a contained attempt'')
            else (case row_get dp_id (da_plan_id a) (plans d) of
                None \<Rightarrow> Inl (ConflictError ''rollback approval does not match the failed plan'')
              | Some p \<Rightarrow>
                  if Some (dp_environment_id p) \<noteq> environment_id \<or> Some (dp_digest p) \<noteq> plan_digest
                  then Inl (ConflictError ''rollback approval does not match the failed plan'')
                  else if strip target \<noteq> dp_rollback_reference p
                  then Inl (ConflictError ''rollback target must equal the recorded rollback reference'')
                  else if revision \<noteq> dp_revision p \<or> Some revision \<noteq> wf_merged_revision w
                  then Inl (ConflictError ''rollback approval revision is stale'')
                  else Inr (dp_policy_version p))))"

text \<open>\<open>f"human {decision.value.lower()} {action.value.lower()} for exact revision"\<close>\<close>

definition approval_reason :: "approval_decision \<Rightarrow> approval_action \<Rightarrow> string" where
  "approval_reason decision action = ''human '' @
     (case decision of AD_APPROVED \<Rightarrow> ''approved'' | AD_REJECTED \<Rightarrow> ''rejected'') @ '' '' @
     (case action of AA_MERGE \<Rightarrow> ''merge'' | AA_DEPLOY \<Rightarrow> ''deploy'' | AA_ROLLBACK \<Rightarrow> ''rollback'') @
     '' for exact revision''"

definition check_approval :: "db \<Rightarrow> workflow \<Rightarrow> approval_action \<Rightarrow> string \<Rightarrow> string \<Rightarrow> string option \<Rightarrow>
    string option \<Rightarrow> string option \<Rightarrow> error + string" where
  "check_approval d w action target revision environment_id plan_digest attempt_id = (case action of
     AA_MERGE \<Rightarrow> check_merge_approval w revision environment_id plan_digest attempt_id
   | AA_DEPLOY \<Rightarrow> check_deploy_approval d w target revision environment_id plan_digest attempt_id
   | AA_ROLLBACK \<Rightarrow> check_rollback_approval d w target revision environment_id plan_digest attempt_id)"

text \<open>
  The approval row.  A merge decision and a rejection take effect at once and are born consumed; an
  approval of a deployment or a rollback waits to be consumed by it.
\<close>

definition new_approval :: "env \<Rightarrow> ident \<Rightarrow> ident \<Rightarrow> approval_action \<Rightarrow> string \<Rightarrow> string \<Rightarrow> approval_decision \<Rightarrow>
    string \<Rightarrow> int \<Rightarrow> string option \<Rightarrow> string option \<Rightarrow> string option \<Rightarrow> string \<Rightarrow> approval" where
  "new_approval en workflow_id approver_id action target revision decision rationale expires_in_minutes
     environment_id plan_digest attempt_id policy_version =
     \<lparr>ap_id = en_uuid en 0, ap_workflow_id = workflow_id, ap_action = action, ap_target = strip target,
      ap_revision = revision, ap_policy_version = policy_version, ap_environment_id = environment_id,
      ap_plan_digest = plan_digest, ap_deployment_attempt_id = attempt_id,
      ap_approver_id = approver_id, ap_decision = decision, ap_rationale = strip rationale,
      ap_expires_at = en_now en 1 + minutes expires_in_minutes,
      ap_consumed_at = (if action = AA_MERGE \<or> decision = AD_REJECTED then Some (en_now en 3) else None),
      ap_created_at = en_now en 2\<rparr>"

definition record_approval :: "config \<Rightarrow> approval \<Rightarrow> string \<Rightarrow> db \<Rightarrow> error + db" where
  "record_approval cf a target d =
     (let wid = ap_workflow_id a; pid = ap_id a; actor = ap_approver_id a;
          bindings = [(''environment_id'', j_opt_str (ap_environment_id a)),
            (''plan_digest'', j_opt_str (ap_plan_digest a)), (''revision'', JStr (ap_revision a))];
          expiry = (''expires_at'', JStr (cf_isoformat cf (ap_expires_at a)));
          d1 = d\<lparr>approvals := row_add a (approvals d)\<rparr>
      in
      if ap_action a = AA_MERGE \<or> ap_action a = AA_DEPLOY \<and> ap_decision a = AD_REJECTED
      then transition cf wid (if ap_decision a = AD_APPROVED then WS_APPROVED else WS_REJECTED) actor
        (approval_reason (ap_decision a) (ap_action a))
        [(''approval_id'', JStr pid), (''revision'', JStr (ap_revision a)), (''target'', JStr target)] d1
      else if ap_action a = AA_DEPLOY
      then Inr (audit cf wid ''deployment.approved'' actor ''approval'' pid ''APPROVED''
        (bindings @ [(''policy_version'', JStr (ap_policy_version a)), expiry]) d1)
      else Inr (audit cf wid
        (if ap_decision a = AD_APPROVED then ''deployment.rollback_approved'' else ''deployment.rollback_rejected'')
        actor ''approval'' pid (approval_decision_value (ap_decision a))
        ((''deployment_attempt_id'', j_opt_str (ap_deployment_attempt_id a)) # bindings @
           [(''rollback_reference'', JStr (ap_target a)), expiry]) d1))"

definition approve :: "config \<Rightarrow> env \<Rightarrow> ident \<Rightarrow> ident \<Rightarrow> approval_action \<Rightarrow> string \<Rightarrow> string \<Rightarrow>
    approval_decision \<Rightarrow> string \<Rightarrow> int \<Rightarrow> string option \<Rightarrow> string option \<Rightarrow> string option \<Rightarrow> db \<Rightarrow>
    error + json \<times> db" where
  "approve cf en workflow_id approver_id action target revision decision rationale expires_in_minutes
     environment_id plan_digest deployment_attempt_id d =
     (if expires_in_minutes < 1 then Inl (ValidationError ''approval expiry must be at least one minute'')
      else
      ebind (authorize d (en_now en 0) approver_id (approval_capability action) None None True) (\<lambda>_.
      ebind (get_workflow d workflow_id) (\<lambda>w.
      if strip target = [] \<or> strip rationale = []
      then Inl (ValidationError ''approval target and rationale are required'')
      else
      ebind (check_approval d w action target revision environment_id plan_digest deployment_attempt_id)
        (\<lambda>policy_version.
      let a = new_approval en workflow_id approver_id action target revision decision rationale
                expires_in_minutes environment_id plan_digest deployment_attempt_id policy_version
      in ebind (record_approval cf a target d) (\<lambda>d1. Inr (approval_dict cf a, d1))))))"

section \<open>Cancellation\<close>

definition cancellable :: "task_status \<Rightarrow> bool" where
  "cancellable s \<longleftrightarrow> s \<in> {TS_PENDING, TS_READY, TS_LEASED, TS_RUNNING}"

definition cancel_tasks :: "task list \<Rightarrow> db \<Rightarrow> db" where
  "cancel_tasks ts d = foldl (\<lambda>acc t. if cancellable (tk_status t)
     then deactivate_task_grant (tk_id t) (upd_task (tk_id t) (\<lambda>t. t\<lparr>tk_status := TS_CANCELLED\<rparr>) acc)
     else acc) d ts"

definition cancel_workflow :: "config \<Rightarrow> env \<Rightarrow> ident \<Rightarrow> ident \<Rightarrow> db \<Rightarrow> error + json \<times> db" where
  "cancel_workflow cf en workflow_id principal_id d =
     ebind (authorize d (en_now en 0) principal_id CAP_CANCEL_WORKFLOW None None False) (\<lambda>_.
     ebind (get_workflow d workflow_id) (\<lambda>_.
     ebind (transition cf workflow_id WS_CANCELLED principal_id ''human cancellation requested'' [] d) (\<lambda>d1.
     let d2 = cancel_tasks (workflow_tasks d1 workflow_id) d1
     in Inr (workflow_dict_of cf d2 workflow_id, d2))))"

end
