(* ===== verification/Workflow_Refinement.thy ===== *)
theory Workflow_Refinement
  imports Lifecycle Workflow_Tasks
begin

text \<open>
  The handlers of \<open>workflow_tasks.py\<close> refine the abstract life cycle: each call that commits makes one step
  of \<open>Lifecycle.lifecycle\<close> in one workflow and leaves every other workflow alone (reclaiming expired
  leases makes one such step per task).  \<open>db_ok\<close> is the invariant of the database this gives.
\<close>

section \<open>The abstraction\<close>

definition wf_tasks :: "db \<Rightarrow> ident \<Rightarrow> task set" where
  "wf_tasks d wid = {t \<in> set (tasks d). tk_workflow_id t = wid}"

definition db_ok :: "db \<Rightarrow> bool" where
  "db_ok d \<longleftrightarrow> distinct (map wf_id (workflows d)) \<and> distinct (map tk_id (tasks d)) \<and>
     tk_workflow_id ` set (tasks d) \<subseteq> wf_id ` set (workflows d) \<and>
     (\<forall>w\<in>set (workflows d). wf_ok w (wf_tasks d (wf_id w)))"

text \<open>One life-cycle step of workflow \<open>wid\<close>, nothing else.\<close>

definition wf_step :: "lifecycle_event \<Rightarrow> ident \<Rightarrow> db \<Rightarrow> db \<Rightarrow> bool" where
  "wf_step e wid d d' \<longleftrightarrow>
     (\<exists>w w'. row_get wf_id wid (workflows d) = Some w \<and> row_get wf_id wid (workflows d') = Some w' \<and>
        lifecycle e (w, wf_tasks d wid) (w', wf_tasks d' wid)) \<and>
     (\<forall>v. v \<noteq> wid \<longrightarrow> row_get wf_id v (workflows d') = row_get wf_id v (workflows d) \<and>
        wf_tasks d' v = wf_tasks d v) \<and>
     map wf_id (workflows d') = map wf_id (workflows d) \<and> distinct (map tk_id (tasks d')) \<and>
     (\<forall>t\<in>set (tasks d). \<exists>t'\<in>set (tasks d'). same_task t t')"

lemma wf_tasks_cong: "tasks d' = tasks d \<Longrightarrow> wf_tasks d' = wf_tasks d"
  by (simp add: wf_tasks_def fun_eq_iff)

lemma db_ok_get:
  assumes "db_ok d" "row_get wf_id wid (workflows d) = Some w"
  shows "wf_ok w (wf_tasks d wid)"
proof -
  have "w \<in> set (workflows d)" "wf_id w = wid" using row.get_SomeD [OF assms(2)] by simp_all
  then show ?thesis using assms(1) by (auto simp: db_ok_def)
qed

lemma db_ok_task:
  assumes "db_ok d" "t \<in> set (tasks d)"
  shows "row_get tk_id (tk_id t) (tasks d) = Some t"
    and "\<exists>w. row_get wf_id (tk_workflow_id t) (workflows d) = Some w"
proof -
  show "row_get tk_id (tk_id t) (tasks d) = Some t"
    using assms by (intro row.get_unique) (simp_all add: db_ok_def)
  have "tk_workflow_id t \<in> wf_id ` set (workflows d)" using assms by (auto simp: db_ok_def)
  then show "\<exists>w. row_get wf_id (tk_workflow_id t) (workflows d) = Some w"
    using row.get_None_iff [of wf_id "tk_workflow_id t" "workflows d"] by (cases "row_get wf_id (tk_workflow_id t) (workflows d)") auto
qed

lemma db_ok_cong:
  assumes "workflows d' = workflows d" "tasks d' = tasks d"
  shows "db_ok d' \<longleftrightarrow> db_ok d"
  using assms wf_tasks_cong [OF assms(2)] by (simp add: db_ok_def)

theorem wf_step_db_ok:
  assumes "db_ok d" "wf_step e wid d d'"
  shows "db_ok d'"
proof -
  have keys: "map wf_id (workflows d') = map wf_id (workflows d)" using assms(2) by (simp add: wf_step_def)
  then have sets: "wf_id ` set (workflows d') = wf_id ` set (workflows d)" by (metis list.set_map)
  have dist: "distinct (map wf_id (workflows d'))" using assms(1) keys by (simp add: db_ok_def)
  have refs: "tk_workflow_id t \<in> wf_id ` set (workflows d')" if t: "t \<in> set (tasks d')" for t
  proof (cases "tk_workflow_id t = wid")
    case True
    obtain w' where "row_get wf_id wid (workflows d') = Some w'" using assms(2) by (auto simp: wf_step_def)
    from row.get_SomeD [OF this] show ?thesis using True by force
  next
    case False
    then have "t \<in> wf_tasks d (tk_workflow_id t)" using assms(2) t by (auto simp: wf_step_def wf_tasks_def)
    then show ?thesis unfolding sets using assms(1) by (auto simp: db_ok_def wf_tasks_def)
  qed
  have "wf_ok v (wf_tasks d' (wf_id v))" if v: "v \<in> set (workflows d')" for v
  proof -
    have get: "row_get wf_id (wf_id v) (workflows d') = Some v" by (rule row.get_unique [OF dist v])
    show ?thesis
    proof (cases "wf_id v = wid")
      case True
      with get assms(2) obtain w where "row_get wf_id wid (workflows d) = Some w"
        "lifecycle e (w, wf_tasks d wid) (v, wf_tasks d' wid)"
        by (auto simp: wf_step_def)
      then show ?thesis using True lifecycle_wf_ok db_ok_get [OF assms(1)] by simp
    next
      case False
      with get assms(2) have "row_get wf_id (wf_id v) (workflows d) = Some v"
        "wf_tasks d' (wf_id v) = wf_tasks d (wf_id v)"
        by (simp_all add: wf_step_def)
      then show ?thesis using db_ok_get [OF assms(1)] by simp
    qed
  qed
  then show ?thesis using dist refs assms(2) by (auto simp: db_ok_def wf_step_def)
qed

section \<open>From table updates to steps\<close>

lemma row_upd_id [simp]: "row_upd key k (\<lambda>r. r) rows = rows"
  by (simp add: row_upd_def)

lemma row_upd_comp:
  "(\<And>r. key (g r) = key r) \<Longrightarrow> row_upd key k f (row_upd key k g rows) = row_upd key k (\<lambda>r. f (g r)) rows"
  by (induction rows) auto

lemma row_upd_cong:
  assumes "row_get key k rows = Some r" "distinct (map key rows)" "f r = g r"
  shows "row_upd key k f rows = row_upd key k g rows"
  using assms
proof (induction rows)
  case (Cons x rows)
  show ?case
  proof (cases "key x = k")
    case True
    then have "k \<notin> key ` set rows" using Cons.prems(2) by auto
    then have "row_upd key k f rows = rows" "row_upd key k g rows = rows"
      by (auto simp: row_upd_def image_iff intro!: map_idI)
    then show ?thesis using True Cons.prems by simp
  qed (use Cons in simp)
qed simp

lemma get_only:
  assumes "distinct (map key rows)" "row_get key k rows = Some r" "x \<in> set rows" "key x = k"
  shows "x = r"
  using row.get_unique [OF assms(1,3)] assms(2,4) by simp

lemma wf_tasks_upd:
  assumes d: "distinct (map tk_id (tasks d))" and t: "row_get tk_id tid (tasks d) = Some t"
    and g: "tk_workflow_id (g t) = tk_workflow_id t"
    and d': "tasks d' = row_upd tk_id tid g (tasks d) @ nt"
    and nt: "\<forall>n\<in>set nt. tk_workflow_id n = tk_workflow_id t"
  shows "wf_tasks d' v = (if v = tk_workflow_id t then insert (g t) (wf_tasks d v - {t}) \<union> set nt
    else wf_tasks d v)"
proof -
  have tt: "t \<in> set (tasks d)" "tk_id t = tid" using row.get_SomeD [OF t] by simp_all
  have uniq: "x = t" if "x \<in> set (tasks d)" "tk_id x = tid" for x
    by (rule get_only [OF d t that])
  have img: "set (row_upd tk_id tid g (tasks d)) = insert (g t) (set (tasks d) - {t})"
  proof -
    have "(if tk_id r = tid then g r else r) = (if r = t then g t else r)" if "r \<in> set (tasks d)" for r
    proof (cases "tk_id r = tid")
      case True
      then show ?thesis using uniq [OF that] by simp
    next
      case False
      then have "r \<noteq> t" using tt(2) by metis
      with False show ?thesis by simp
    qed
    then have "set (row_upd tk_id tid g (tasks d)) = (\<lambda>r. if r = t then g t else r) ` set (tasks d)"
      unfolding row.set_upd by (rule image_cong [OF HOL.refl])
    then show ?thesis using tt(1) by auto
  qed
  show ?thesis unfolding wf_tasks_def d' using img g nt by auto
qed

lemma wf_stepI:
  assumes ok: "db_ok d" and t: "row_get tk_id tid (tasks d) = Some t" "same_task t (g t)"
    and w: "row_get wf_id (tk_workflow_id t) (workflows d) = Some w" "\<And>x. wf_id (f x) = wf_id x"
    and d': "workflows d' = row_upd wf_id (tk_workflow_id t) f (workflows d)"
      "tasks d' = row_upd tk_id tid g (tasks d) @ nt"
    and nt: "\<forall>n\<in>set nt. tk_workflow_id n = tk_workflow_id t" "distinct (map tk_id nt)"
      "set (map tk_id nt) \<inter> set (map tk_id (tasks d)) = {}"
    and step: "lifecycle e (w, wf_tasks d (tk_workflow_id t))
      (f w, insert (g t) (wf_tasks d (tk_workflow_id t) - {t}) \<union> set nt)"
  shows "wf_step e (tk_workflow_id t) d d'"
proof -
  have dist: "distinct (map tk_id (tasks d))" using ok by (simp add: db_ok_def)
  have gt: "tk_workflow_id (g t) = tk_workflow_id t" "tk_id (g t) = tk_id t" using t(2) by (simp_all add: same_task_def)
  note tasks' = wf_tasks_upd [OF dist t(1) gt(1) d'(2) nt(1)]
  have upd: "row_upd tk_id tid g (tasks d) = row_upd tk_id tid (\<lambda>_. g t) (tasks d)"
    by (rule row_upd_cong [OF t(1) dist]) simp
  have tid: "tk_id t = tid" using t(1) by (rule row.get_key)
  have keys: "map tk_id (row_upd tk_id tid g (tasks d)) = map tk_id (tasks d)"
    unfolding upd by (auto simp: row_upd_def gt tid)
  have "\<exists>t'\<in>set (tasks d'). same_task x t'" if "x \<in> set (tasks d)" for x
  proof (cases "tk_id x = tid")
    case True
    then have "x = t" using get_only [OF dist t(1) that] by simp
    then show ?thesis using t(2) that True by (auto simp: d'(2) row.set_upd intro!: bexI [of _ "g t"])
  qed (use that in \<open>auto simp: d'(2) row.set_upd same_task_def intro!: bexI [of _ x]\<close>)
  then show ?thesis
    unfolding wf_step_def d'(1)
    using w step tasks' dist nt(2) nt(3) [unfolded Int_commute [of "set (map tk_id nt)"]] keys
    by (simp add: d'(2) row.get_upd row.keys_upd)
qed

lemma wf_step_no_task:
  assumes ok: "db_ok d" and w: "row_get wf_id wid (workflows d) = Some w" "\<And>x. wf_id (f x) = wf_id x"
    and d': "workflows d' = row_upd wf_id wid f (workflows d)" "tasks d' = tasks d @ nt"
    and nt: "\<forall>n\<in>set nt. tk_workflow_id n = wid" "distinct (map tk_id nt)"
      "set (map tk_id nt) \<inter> set (map tk_id (tasks d)) = {}"
    and step: "lifecycle e (w, wf_tasks d wid) (f w, wf_tasks d wid \<union> set nt)"
  shows "wf_step e wid d d'"
proof -
  have "wf_tasks d' v = (if v = wid then wf_tasks d v \<union> set nt else wf_tasks d v)" for v
    unfolding wf_tasks_def d'(2) using nt(1) by auto
  moreover have "distinct (map tk_id (tasks d))" using ok by (simp add: db_ok_def)
  moreover have "same_task x x" for x by (simp add: same_task_def)
  ultimately show ?thesis
    unfolding wf_step_def d'(1) using w step nt(2,3)
    by (auto simp: d'(2) row.get_upd row.keys_upd)
qed

lemma renew_stepI:
  assumes "db_ok d" "row_get tk_id tid (tasks d) = Some t" "same_task t (g t)"
    "lease_move (tk_status t) (tk_status (g t))" "lease_shape (g t)"
    "workflows d' = workflows d" "tasks d' = row_upd tk_id tid g (tasks d)"
  shows "wf_step Ev_renew (tk_workflow_id t) d d'"
proof -
  have t: "t \<in> set (tasks d)" using row.get_SomeD [OF assms(2)] by simp
  then obtain w where w: "row_get wf_id (tk_workflow_id t) (workflows d) = Some w"
    using db_ok_task(2) [OF assms(1)] by blast
  have "t \<in> wf_tasks d (tk_workflow_id t)" using t by (simp add: wf_tasks_def)
  then show ?thesis
    using assms lifecycle.renew [of t _ "g t" w]
    by (intro wf_stepI [where tid = tid and g = g and f = "\<lambda>w. w" and nt = "[]" and w = w]) (simp_all add: w)
qed

lemma stop_stepI:
  assumes "db_ok d" "row_get tk_id tid (tasks d) = Some t" "same_task t (g t)" "live t"
    "row_get wf_id (tk_workflow_id t) (workflows d) = Some w" "\<And>x. wf_id (f x) = wf_id x"
    "(tk_status (g t), wf_state (f w)) \<in> {(TS_BLOCKED, WS_BLOCKED), (TS_FAILED, WS_FAILED), (TS_CANCELLED, WS_CANCELLED)}"
    "wf_candidate_revision (f w) = wf_candidate_revision w"
    "workflows d' = row_upd wf_id (tk_workflow_id t) f (workflows d)" "tasks d' = row_upd tk_id tid g (tasks d)"
  shows "wf_step Ev_stop (tk_workflow_id t) d d'"
proof -
  have "t \<in> wf_tasks d (tk_workflow_id t)" using row.get_SomeD [OF assms(2)] by (simp add: wf_tasks_def)
  then have "lifecycle Ev_stop (w, wf_tasks d (tk_workflow_id t))
      (f w, insert (g t) (wf_tasks d (tk_workflow_id t) - {t}) \<union> set [])"
    using lifecycle.stop [OF _ assms(4,3) HOL.refl assms(7,8)] by simp
  then show ?thesis
    by (intro wf_stepI [where g = g and f = f and nt = "[]", OF assms(1,2,3,5,6,9)]) (simp_all add: assms)
qed

lemma settle_stepI:
  assumes "db_ok d" "row_get wf_id wid (workflows d) = Some w" "\<And>x. wf_id (f x) = wf_id x"
    "wf_state (f w) \<in> ALLOWED_TRANSITIONS (wf_state w)" "\<not> working (wf_state w)" "\<not> working (wf_state (f w))"
    "wf_state (f w) \<noteq> WS_APPROVED \<and> \<not> delivered (wf_state (f w))"
    "wf_candidate_revision (f w) = wf_candidate_revision w"
    "workflows d' = row_upd wf_id wid f (workflows d)" "tasks d' = tasks d"
  shows "wf_step Ev_settle wid d d'"
  using lifecycle.settle [OF assms(5,4,6) conjunct1 [OF assms(7)] conjunct2 [OF assms(7)] assms(8), of "wf_tasks d wid"]
  by (intro wf_step_no_task [where f = f and nt = "[]", OF assms(1,2,3,9)]) (simp_all add: assms(10))

lemma deliver_stepI:
  assumes "db_ok d" "row_get wf_id wid (workflows d) = Some w" "\<And>x. wf_id (f x) = wf_id x"
    "wf_state (f w) \<in> ALLOWED_TRANSITIONS (wf_state w)" "delivered (wf_state (f w))"
    "wf_candidate_revision (f w) = wf_candidate_revision w"
    "workflows d' = row_upd wf_id wid f (workflows d)" "tasks d' = tasks d"
  shows "wf_step Ev_deliver wid d d'"
  using lifecycle.deliver [OF assms(5,4,6), of "wf_tasks d wid"]
  by (intro wf_step_no_task [where f = f and nt = "[]", OF assms(1,2,3,7)]) (simp_all add: assms(8))

definition any_step :: "lifecycle_event set \<Rightarrow> db \<Rightarrow> db \<Rightarrow> bool" where
  "any_step E d d' \<longleftrightarrow> (\<exists>e\<in>E. \<exists>v. wf_step e v d d')"

lemma any_stepI: "wf_step e v d d' \<Longrightarrow> e \<in> E \<Longrightarrow> any_step E d d'"
  by (auto simp: any_step_def)

lemma any_step_db_ok: "db_ok d \<Longrightarrow> any_step E d d' \<Longrightarrow> db_ok d'"
  using wf_step_db_ok by (auto simp: any_step_def)

lemma any_steps_db_ok: "(any_step E)\<^sup>*\<^sup>* d d' \<Longrightarrow> db_ok d \<Longrightarrow> db_ok d'"
  by (induction rule: rtranclp_induct) (auto intro: any_step_db_ok)

section \<open>The handlers\<close>

text \<open>The identifiers a call draws are new (\<open>uuid4\<close>).\<close>

definition fresh_ids :: "env \<Rightarrow> db \<Rightarrow> bool" where
  "fresh_ids en d \<longleftrightarrow> (\<forall>i\<in>{0, 1}. en_uuid en i \<notin> wf_id ` set (workflows d) \<and>
     en_uuid en i \<notin> tk_id ` set (tasks d) \<and> en_uuid en i \<notin> at_id ` set (attempts d) \<and>
     en_uuid en i \<notin> ap_id ` set (approvals d))"

lemma fresh_task: "fresh_ids en d \<Longrightarrow> i \<in> {0, 1} \<Longrightarrow> row_get tk_id (en_uuid en i) (tasks d) = None"
  by (auto simp: fresh_ids_def row.get_None_iff)

lemma lease_next_task_step:
  assumes ok: "db_ok d" and run: "lease_next_task cf en wk wid d = Inr (r, d')"
  shows "d' = d \<or> any_step {Ev_renew} d d'"
proof -
  let ?P = "\<lambda>t. tk_status t = TS_READY \<and> (case wid of None \<Rightarrow> True | Some i \<Rightarrow> tk_workflow_id t = i)"
  show ?thesis
  proof (cases "first_by (\<lambda>t. (tk_created_at t, tk_position t)) ?P (tasks d)")
    case None
    then show ?thesis using run by (auto simp: lease_next_task_def tx_simps)
  next
    case (Some t)
    then have t: "t \<in> set (tasks d)" "tk_status t = TS_READY" using first_by_SomeD [OF Some] by auto
    define g :: "task \<Rightarrow> task" where "g = (\<lambda>t. t\<lparr>tk_status := TS_LEASED, tk_lease_owner := Some wk,
      tk_lease_token := Some (en_uuid en 0), tk_lease_expires_at := Some (en_now en 1 + seconds (cf_lease_seconds cf))\<rparr>)"
    have "workflows d' = workflows d" "tasks d' = row_upd tk_id (tk_id t) g (tasks d)"
      using run Some by (auto simp: lease_next_task_def tx_simps Let_def g_def)
    then have "wf_step Ev_renew (tk_workflow_id t) d d'"
      by (intro renew_stepI [OF ok db_ok_task(1) [OF ok t(1)]])
        (simp_all add: g_def same_task_def lease_move_def lease_shape_def t)
    then show ?thesis by (simp add: any_stepI)
  qed
qed

lemma heartbeat_task_step:
  assumes ok: "db_ok d" and run: "heartbeat_task cf en tid tok wk d = Inr (r, d')"
  shows "any_step {Ev_renew} d d'"
proof -
  define g :: "task \<Rightarrow> task" where "g = (\<lambda>t. t\<lparr>tk_lease_expires_at := Some (en_now en 2 + seconds (cf_lease_seconds cf))\<rparr>)"
  obtain t where t: "row_get tk_id tid (tasks d) = Some t" "tk_status t = TS_RUNNING" "tk_lease_owner t = Some wk"
      "tk_lease_token t = Some tok"
    and d': "workflows d' = workflows d" "tasks d' = row_upd tk_id tid g (tasks d)"
    using run by (auto simp: heartbeat_task_def tx_simps Let_def validate_running_lease_ok g_def)
  have "wf_step Ev_renew (tk_workflow_id t) d d'"
    by (rule renew_stepI [OF ok t(1) _ _ _ d'])
      (simp_all add: g_def same_task_def lease_move_def lease_shape_def t)
  then show ?thesis by (simp add: any_stepI)
qed

text \<open>A transition after a change of other columns of the same row is one update of that row.\<close>

lemma transition_workflows:
  assumes "transition cf wid target actor reason extra d = Inr d'"
    "workflows d = row_upd wf_id wid f ws" "\<And>x. wf_id (f x) = wf_id x"
  shows "\<exists>w n. row_get wf_id wid ws = Some w \<and> target \<in> ALLOWED_TRANSITIONS (wf_state (f w)) \<and>
    workflows d' = row_upd wf_id wid (\<lambda>x. (f x)\<lparr>wf_state := target, wf_version := n\<rparr>) ws"
proof -
  from transition_Inr [OF assms(1)] obtain w where
    w: "row_get wf_id wid (workflows d) = Some w" "target \<in> ALLOWED_TRANSITIONS (wf_state w)"
    "workflows d' = row_upd wf_id wid (\<lambda>x. x\<lparr>wf_state := target, wf_version := wf_version w + 1\<rparr>) (workflows d)"
    by blast
  from w(1) obtain w0 where "row_get wf_id wid ws = Some w0" "w = f w0"
    by (auto simp: assms(2) row.get_upd assms(3))
  then show ?thesis using w(2,3) assms(2,3) by (auto simp: row_upd_comp)
qed

lemma live_workflow:
  assumes "db_ok d" "t \<in> set (tasks d)" "live t"
  obtains w where "row_get wf_id (tk_workflow_id t) (workflows d) = Some w"
    "wf_state w = TASK_WORKFLOW_STATE (tk_kind t)"
proof -
  obtain w where w: "row_get wf_id (tk_workflow_id t) (workflows d) = Some w"
    using db_ok_task(2) [OF assms(1,2)] by blast
  have "wf_ok w (wf_tasks d (tk_workflow_id t))" using db_ok_get [OF assms(1) w] .
  moreover have "t \<in> wf_tasks d (tk_workflow_id t)" using assms(2) by (simp add: wf_tasks_def)
  ultimately have "wf_state w = TASK_WORKFLOW_STATE (tk_kind t)"
    using assms(3) by (simp add: wf_ok_def stage_ok_def)
  with w show thesis by (rule that)
qed

lemma working_can_stop:
  "\<exists>s. s \<in> ALLOWED_TRANSITIONS (TASK_WORKFLOW_STATE k)"
  "WS_BLOCKED \<in> ALLOWED_TRANSITIONS (TASK_WORKFLOW_STATE k)"
  "WS_FAILED \<in> ALLOWED_TRANSITIONS (TASK_WORKFLOW_STATE k)"
  "WS_CANCELLED \<in> ALLOWED_TRANSITIONS (TASK_WORKFLOW_STATE k)"
  by (cases k; auto)+

subsection \<open>Reclaiming\<close>

definition reclaimed :: "task \<Rightarrow> task" where
  "reclaimed t = (clear_lease t)\<lparr>tk_status := if tk_status t = TS_LEASED then TS_READY else TS_BLOCKED\<rparr>"

lemma reclaimed_simps [simp]:
  "tk_id (reclaimed t) = tk_id t" "tk_workflow_id (reclaimed t) = tk_workflow_id t"
  "tk_status (reclaimed t) = (if tk_status t = TS_LEASED then TS_READY else TS_BLOCKED)"
  "tk_lease_owner (reclaimed t) = None" "tk_lease_token (reclaimed t) = None"
  "tk_lease_expires_at (reclaimed t) = None" "same_task t (reclaimed t)"
  by (simp_all add: reclaimed_def same_task_def)

lemma reclaim_one_tables:
  assumes "db_ok d" "t \<in> set (tasks d)" "reclaim_one cf now wk t d = Inr d'"
  shows "tasks d' = row_upd tk_id (tk_id t) reclaimed (tasks d)"
proof -
  have get: "row_get tk_id (tk_id t) (tasks d) = Some t" by (rule db_ok_task(1) [OF assms(1,2)])
  have dist: "distinct (map tk_id (tasks d))" using assms(1) by (simp add: db_ok_def)
  have eq: "row_upd tk_id (tk_id t) (\<lambda>t. (clear_lease t)\<lparr>tk_status := s\<rparr>) (tasks d) =
      row_upd tk_id (tk_id t) reclaimed (tasks d)"
    if "s = (if tk_status t = TS_LEASED then TS_READY else TS_BLOCKED)" for s
    by (rule row_upd_cong [OF get dist]) (simp add: reclaimed_def that)
  show ?thesis
    using assms(3) eq [of TS_READY] eq [of TS_BLOCKED]
    by (auto simp: reclaim_one_def tx_simps Let_def transition_frame split: if_splits option.splits)
qed

lemma reclaim_one_step:
  assumes ok: "db_ok d" and t: "t \<in> set (tasks d)" "tk_status t \<in> {TS_LEASED, TS_RUNNING}"
    and run: "reclaim_one cf now wk t d = Inr d'"
  shows "wf_step (if tk_status t = TS_LEASED then Ev_renew else Ev_stop) (tk_workflow_id t) d d'"
proof (cases "tk_status t = TS_LEASED")
  case True
  then have "workflows d' = workflows d" using run by (auto simp: reclaim_one_def tx_simps Let_def)
  then have "wf_step Ev_renew (tk_workflow_id t) d d'"
    by (intro renew_stepI [OF ok db_ok_task(1) [OF ok t(1)] _ _ _ _ reclaim_one_tables [OF ok t(1) run]])
      (simp_all add: lease_move_def lease_shape_def True)
  with True show ?thesis by simp
next
  case False
  define f :: "workflow \<Rightarrow> workflow" where "f = (\<lambda>w. w\<lparr>wf_block_reason := Some ''EXECUTION_RECONCILIATION_REQUIRED''\<rparr>)"
  let ?wid = "tk_workflow_id t"
  obtain d3 d4 a r e where tr: "transition cf ?wid WS_BLOCKED a r e d3 = Inr d4"
    and d3: "workflows d3 = row_upd wf_id ?wid f (workflows d)" and d': "workflows d' = workflows d4"
    using run False by (auto simp: reclaim_one_def tx_simps Let_def f_def split: option.splits)
  have "\<And>x. wf_id (f x) = wf_id x" by (simp add: f_def)
  from transition_workflows [OF tr d3 this] obtain w n where w: "row_get wf_id ?wid (workflows d) = Some w"
    and d4: "workflows d4 = row_upd wf_id ?wid (\<lambda>x. (f x)\<lparr>wf_state := WS_BLOCKED, wf_version := n\<rparr>) (workflows d)"
    by blast
  have "wf_step Ev_stop ?wid d d'"
    by (rule stop_stepI [where g = reclaimed and w = w and f = "\<lambda>x. (f x)\<lparr>wf_state := WS_BLOCKED, wf_version := n\<rparr>",
        OF ok db_ok_task(1) [OF ok t(1)]])
      (use False t w d' d4 reclaim_one_tables [OF ok t(1) run] in \<open>simp_all add: f_def live_def\<close>)
  with False show ?thesis by simp
qed

lemma reclaim_one_succeeds:
  assumes ok: "db_ok d" and t: "t \<in> set (tasks d)" "tk_status t \<in> {TS_LEASED, TS_RUNNING}"
  shows "\<exists>d'. reclaim_one cf now wk t d = Inr d'"
proof -
  obtain w where w: "row_get wf_id (tk_workflow_id t) (workflows d) = Some w"
      "wf_state w = TASK_WORKFLOW_STATE (tk_kind t)"
    using live_workflow [OF ok t(1)] t(2) by (auto simp: live_def)
  show ?thesis
  proof (cases "tk_status t = TS_LEASED")
    case True
    then show ?thesis using w(1) by (simp add: reclaim_one_def get_workflow_def Let_def)
  next
    case False
    have "\<exists>d2. transition cf (tk_workflow_id t) WS_BLOCKED a r e d1 = Inr d2"
      if "workflows d1 = row_upd wf_id (tk_workflow_id t) (\<lambda>w. w\<lparr>wf_block_reason := b\<rparr>) (workflows d)" for d1 a r e b
      by (rule transition_succeeds [where w = "w\<lparr>wf_block_reason := b\<rparr>"])
        (use that w working_can_stop(2) in \<open>simp_all add: row.get_upd\<close>)
    then show ?thesis using w(1) False
      by (auto simp: reclaim_one_def get_workflow_def Let_def ebind_eq_Inr split: option.splits)
  qed
qed

lemma reclaim_all_steps:
  assumes "db_ok d" "set ts \<subseteq> set (tasks d)" "distinct (map tk_id ts)"
    "\<forall>t\<in>set ts. tk_status t \<in> {TS_LEASED, TS_RUNNING}"
  shows "\<exists>d'. reclaim_all cf now wk ts d = Inr d' \<and> (any_step {Ev_renew, Ev_stop})\<^sup>*\<^sup>* d d'"
  using assms
proof (induction ts arbitrary: d)
  case (Cons t ts)
  have t: "t \<in> set (tasks d)" "tk_status t \<in> {TS_LEASED, TS_RUNNING}" using Cons.prems by simp_all
  obtain d1 where d1: "reclaim_one cf now wk t d = Inr d1" using reclaim_one_succeeds [OF Cons.prems(1) t] by blast
  have st: "any_step {Ev_renew, Ev_stop} d d1" using any_stepI [OF reclaim_one_step [OF Cons.prems(1) t d1]] by simp
  have "set ts \<subseteq> set (tasks d1)"
  proof
    fix x assume x: "x \<in> set ts"
    have "tk_id t \<notin> tk_id ` set ts" using Cons.prems(3) by simp
    with imageI [OF x, of tk_id] have "tk_id x \<noteq> tk_id t" by metis
    moreover have "x \<in> set (tasks d)" using x Cons.prems(2) by auto
    ultimately have "x \<in> set (tasks d)" "tk_id x \<noteq> tk_id t" by simp_all
    then show "x \<in> set (tasks d1)"
      unfolding reclaim_one_tables [OF Cons.prems(1) t(1) d1] row.set_upd
      by (intro image_eqI [of _ _ x]) simp_all
  qed
  then obtain d2 where "reclaim_all cf now wk ts d1 = Inr d2" "(any_step {Ev_renew, Ev_stop})\<^sup>*\<^sup>* d1 d2"
    using Cons.IH [OF any_step_db_ok [OF Cons.prems(1) st]] Cons.prems(3,4) by auto
  then show ?case using d1 st by (auto intro: converse_rtranclp_into_rtranclp)
qed simp

lemma reclaim_expired_tasks_steps:
  assumes ok: "db_ok d" and run: "reclaim_expired_tasks cf en wk d = Inr (n, d')"
  shows "(any_step {Ev_renew, Ev_stop})\<^sup>*\<^sup>* d d'"
proof -
  have ts: "set (filter (lease_expired (en_now en 0)) (tasks d)) \<subseteq> set (tasks d)"
    "distinct (map tk_id (filter (lease_expired (en_now en 0)) (tasks d)))"
    using ok by (auto simp: db_ok_def distinct_map_filter)
  show ?thesis
    using reclaim_all_steps [OF ok ts, of cf "en_now en 0" wk] run
    by (auto simp: reclaim_expired_tasks_def tx_simps Let_def lease_expired_def)
qed

subsection \<open>Preparing\<close>

text \<open>The tables of the deployment and pull-request services.\<close>

abbreviation same_outer :: "db \<Rightarrow> db \<Rightarrow> bool" where
  "same_outer d d' \<equiv> environments d' = environments d \<and> plans d' = plans d \<and> deployments d' = deployments d \<and>
     rollbacks d' = rollbacks d \<and> confirmations d' = confirmations d"

lemma route_attempt_frame:
  assumes "route_attempt cf en c w t aid d = Inr (x, d')"
  shows "workflows d' = workflows d" "tasks d' = tasks d" "attempts d' = attempts d" "approvals d' = approvals d"
    "principals d' = principals d" "grants d' = grants d" "reconciliations d' = reconciliations d"
    "dispositions d' = dispositions d" "same_outer d d'"
  using assms by (auto simp: route_attempt_def tx_simps Let_def)

lemma start_attempt_frame [simp]:
  "workflows (start_attempt aid tid ag d) = workflows d" "approvals (start_attempt aid tid ag d) = approvals d"
  "principals (start_attempt aid tid ag d) = principals d" "grants (start_attempt aid tid ag d) = grants d"
  "tasks (start_attempt aid tid ag d) = row_upd tk_id tid (\<lambda>t. t\<lparr>tk_status := TS_RUNNING\<rparr>) (tasks d)"
  "attempts (start_attempt aid tid ag d) =
     row_add (new_attempt aid tid (length (task_attempts d tid) + 1) ag) (attempts d)"
  "audit_events (start_attempt aid tid ag d) = audit_events d"
  "reconciliations (start_attempt aid tid ag d) = reconciliations d"
  "dispositions (start_attempt aid tid ag d) = dispositions d"
  "environments (start_attempt aid tid ag d) = environments d" "plans (start_attempt aid tid ag d) = plans d"
  "deployments (start_attempt aid tid ag d) = deployments d" "rollbacks (start_attempt aid tid ag d) = rollbacks d"
  "confirmations (start_attempt aid tid ag d) = confirmations d"
  by (simp_all add: start_attempt_def Let_def)

text \<open>What a successful \<open>prepare_execution\<close> checked and did, in its two outcomes.\<close>

lemma prepare_execution_Inr:
  assumes "prepare_execution cf en tid tok wk d = Inr (r, d')"
  obtains t w ag routed d2 where "row_get tk_id tid (tasks d) = Some t"
    "row_get wf_id (tk_workflow_id t) (workflows d) = Some w"
    "validate_lease (en_now en 1) t tok wk = Inr ()" "AGENT_FOR_ROLE (tk_required_role t) = Some ag"
    "is_ok (authorize (start_attempt (en_uuid en 0) tid ag d) (en_now en 2) ag (tk_required_capability t)
       (Some (wf_id w)) (Some tid) False)"
    "route_attempt cf en (en_now en 3) w t (en_uuid en 0) (start_attempt (en_uuid en 0) tid ag d) = Inr (routed, d2)"
    "dispatch_routed cf en w t tok wk ag (en_uuid en 0) routed d2 = Inr (r, d')"
    "tk_id t = tid" "wf_id w = tk_workflow_id t"
proof -
  obtain x t w ag y routed d2 where *: "row_get tk_id tid (tasks d) = Some t"
    "validate_lease (en_now en 1) t tok wk = Inr x" "row_get wf_id (tk_workflow_id t) (workflows d) = Some w"
    "AGENT_FOR_ROLE (tk_required_role t) = Some ag"
    "authorize (start_attempt (en_uuid en 0) tid ag d) (en_now en 2) ag (tk_required_capability t)
       (Some (wf_id w)) (Some tid) False = Inr y"
    "route_attempt cf en (en_now en 3) w t (en_uuid en 0) (start_attempt (en_uuid en 0) tid ag d) = Inr (routed, d2)"
    "dispatch_routed cf en w t tok wk ag (en_uuid en 0) routed d2 = Inr (r, d')"
    using assms unfolding prepare_execution_def tx_simps Let_def split_paired_Ex split_conv by blast
  have "tk_id t = tid" "wf_id w = tk_workflow_id t" using *(1,3) by (auto intro: row.get_key)
  with * show thesis by (intro that) simp_all
qed

lemma dispatch_routed_cases:
  assumes "dispatch_routed cf en w t tok wk ag aid routed d = Inr (r, d')"
  obtains (routed) profile p where "routed = Some profile"
      "\<not> (pp_funding_mode profile = FM_SUBSCRIPTION \<and> ceiling_reached d (wf_id w) profile)"
      "r = Inr p" "px_task_id p = tk_id t" "px_workflow_id p = wf_id w" "px_task_kind p = tk_kind t"
      "px_attempt_id p = aid" "px_lease_token p = tok" "px_worker_id p = wk" "px_profile p = profile"
      "px_agent_id p = ag" "px_context p = execution_context_for w t"
      "d' = upd_task (tk_id t) (\<lambda>t. t\<lparr>tk_lease_expires_at := Some (en_now en 4 + seconds (cf_lease_seconds cf))\<rparr>)
         (upd_attempt aid (\<lambda>a. a\<lparr>at_provider := pp_provider_id profile, at_model := pp_model_version profile\<rparr>) d)"
  | (blocked) "routed = None" "record_routing_block cf (en_now en 4) (wf_id w) (tk_id t) aid d = Inr d'"
      "r = Inl (task_dict_of cf d' False (tk_id t))"
proof (cases routed)
  case None
  then show thesis using assms blocked by (auto simp: dispatch_routed_def tx_simps)
next
  case (Some profile)
  then have "\<not> (pp_funding_mode profile = FM_SUBSCRIPTION \<and> ceiling_reached d (wf_id w) profile)"
    using assms by (auto simp: dispatch_routed_def)
  then show thesis using assms Some routed by (auto simp: dispatch_routed_def tx_simps Let_def)
qed

lemma prepare_execution_step:
  assumes ok: "db_ok d" and run: "prepare_execution cf en tid tok wk d = Inr (r, d')"
  shows "any_step {Ev_renew, Ev_stop} d d'"
  using run
proof (cases rule: prepare_execution_Inr)
  case (1 t w ag routed d2)
  note frame = route_attempt_frame [OF 1(6)]
  have lease: "tk_status t = TS_LEASED" "tk_lease_owner t = Some wk" "tk_lease_token t = Some tok"
    using 1(3) by (auto simp: validate_lease_ok)
  show ?thesis using 1(7)
  proof (cases rule: dispatch_routed_cases)
    case (routed profile p)
    have "wf_step Ev_renew (tk_workflow_id t) d d'"
      by (rule renew_stepI [OF ok 1(1), where g = "\<lambda>t. t\<lparr>tk_status := TS_RUNNING,
          tk_lease_expires_at := Some (en_now en 4 + seconds (cf_lease_seconds cf))\<rparr>"])
        (simp_all add: same_task_def lease_move_def lease_shape_def lease routed frame 1(8) row_upd_comp)
    then show ?thesis by (rule any_stepI) simp
  next
    case blocked
    define f :: "workflow \<Rightarrow> workflow" where "f = (\<lambda>w. w\<lparr>wf_block_reason := Some ''NO_ELIGIBLE_PROVIDER''\<rparr>)"
    have f: "\<And>x. wf_id (f x) = wf_id x" by (simp add: f_def)
    obtain w' n where w': "row_get wf_id (tk_workflow_id t) (workflows d) = Some w'"
      and wfs: "workflows d' = row_upd wf_id (tk_workflow_id t)
        (\<lambda>x. (f x)\<lparr>wf_state := WS_BLOCKED, wf_version := n\<rparr>) (workflows d)"
      using transition_workflows [OF blocked(2) [unfolded record_routing_block_def], of f "workflows d", OF _ f]
      by (auto simp: frame f_def 1(9))
    have tks: "tasks d' = row_upd tk_id tid
        (\<lambda>t. (clear_lease (t\<lparr>tk_status := TS_RUNNING\<rparr>))\<lparr>tk_status := TS_BLOCKED\<rparr>) (tasks d)"
      using transition_frame(2) [OF blocked(2) [unfolded record_routing_block_def]]
      by (simp add: frame 1(8) row_upd_comp)
    have "wf_step Ev_stop (tk_workflow_id t) d d'"
      by (rule stop_stepI [OF ok 1(1) _ _ w' _ _ _ wfs tks])
        (simp_all add: same_task_def live_def lease f_def)
    then show ?thesis by (rule any_stepI) simp
  qed
qed

subsection \<open>Finalising\<close>

lemma finalize_guard_Inr:
  "finalize_guard now p d = Inr (t, a, w) \<longleftrightarrow> row_get tk_id (px_task_id p) (tasks d) = Some t \<and>
     row_get at_id (px_attempt_id p) (attempts d) = Some a \<and>
     validate_running_lease now t (px_lease_token p) (px_worker_id p) = Inr () \<and> at_status a = TS_RUNNING \<and>
     row_get wf_id (px_workflow_id p) (workflows d) = Some w"
  by (auto simp: finalize_guard_def tx_simps split: option.splits if_splits)

lemma row_get_SomeE: "row_get key k rows = Some r \<Longrightarrow> key r = k"
  by (rule row.get_key)

text \<open>The prepared execution describes a task of the database.\<close>

definition prepared_for :: "prepared_execution \<Rightarrow> db \<Rightarrow> bool" where
  "prepared_for p d \<longleftrightarrow> (\<exists>t\<in>set (tasks d). tk_id t = px_task_id p \<and> tk_kind t = px_task_kind p \<and>
     tk_workflow_id t = px_workflow_id p)"

lemma prepared_for_get:
  assumes "prepared_for p d" "db_ok d" "row_get tk_id (px_task_id p) (tasks d) = Some t"
  shows "tk_kind t = px_task_kind p" "tk_workflow_id t = px_workflow_id p"
proof -
  have "distinct (map tk_id (tasks d))" using assms(2) by (simp add: db_ok_def)
  with assms(1,3) get_only [of tk_id "tasks d"] show "tk_kind t = px_task_kind p" "tk_workflow_id t = px_workflow_id p"
    by (auto simp: prepared_for_def)
qed

lemma finalize_guard_facts:
  assumes "db_ok d" "prepared_for p d" "finalize_guard now p d = Inr (t, a, w)"
  shows "row_get tk_id (tk_id t) (tasks d) = Some t" "tk_status t = TS_RUNNING" "tk_kind t = px_task_kind p"
    "wf_id w = tk_workflow_id t" "row_get wf_id (tk_workflow_id t) (workflows d) = Some w"
    "row_get at_id (at_id a) (attempts d) = Some a" "at_status a = TS_RUNNING"
proof -
  have g: "row_get tk_id (px_task_id p) (tasks d) = Some t" "row_get at_id (px_attempt_id p) (attempts d) = Some a"
    "row_get wf_id (px_workflow_id p) (workflows d) = Some w" "tk_status t = TS_RUNNING" "at_status a = TS_RUNNING"
    using assms(3) by (auto simp: finalize_guard_Inr validate_running_lease_ok)
  note keys = row_get_SomeE [OF g(1)] row_get_SomeE [OF g(2)] row_get_SomeE [OF g(3)]
  show "row_get tk_id (tk_id t) (tasks d) = Some t" "tk_status t = TS_RUNNING" "tk_kind t = px_task_kind p"
    "wf_id w = tk_workflow_id t" "row_get wf_id (tk_workflow_id t) (workflows d) = Some w"
    "row_get at_id (at_id a) (attempts d) = Some a" "at_status a = TS_RUNNING"
    using g keys prepared_for_get [OF assms(2,1) g(1)] by simp_all
qed

lemma prepared_for_step:
  assumes "any_step E d d'" "prepared_for p d"
  shows "prepared_for p d'"
  using assms by (fastforce simp: any_step_def wf_step_def prepared_for_def same_task_def)

lemma record_attempt_failure_tables:
  assumes "record_attempt_failure cf now wid t a exc wk d = Inr d'"
  shows "tasks d' = row_upd tk_id (tk_id t) (\<lambda>t'. (clear_lease t')\<lparr>tk_status :=
      if \<not> is_review_rejected exc \<and> at_attempt_number a < tk_max_attempts t then TS_READY else TS_FAILED\<rparr>) (tasks d)"
    and "\<not> is_review_rejected exc \<and> at_attempt_number a < tk_max_attempts t \<Longrightarrow> workflows d' = workflows d"
    and "\<not> (\<not> is_review_rejected exc \<and> at_attempt_number a < tk_max_attempts t) \<Longrightarrow>
      \<exists>w n. row_get wf_id wid (workflows d) = Some w \<and>
        workflows d' = row_upd wf_id wid (\<lambda>x. x\<lparr>wf_state := WS_FAILED, wf_version := n\<rparr>) (workflows d)"
  using assms
  by (auto simp: record_attempt_failure_def Let_def transition_frame split: if_splits elim!: transition_Inr)

lemma finalize_failure_step:
  assumes ok: "db_ok d" and p: "prepared_for p d"
    and run: "finalize_execution_failure cf en p exc v l d = Inr (r, d')"
  shows "any_step {Ev_renew, Ev_stop} d d'"
proof -
  obtain t a w d1 where g: "finalize_guard (en_now en 0) p d = Inr (t, a, w)"
    and rec: "record_attempt_failure cf (en_now en 2) (wf_id w) t a exc (px_worker_id p) d1 = Inr d'"
    and d1: "workflows d1 = workflows d" "tasks d1 = tasks d"
    using run by (auto simp: finalize_execution_failure_def tx_simps Let_def record_provider_observation_def)
  note t = finalize_guard_facts [OF ok p g] and wid = finalize_guard_facts(4) [OF ok p g]
  note tabs = record_attempt_failure_tables [OF rec, unfolded d1 wid]
  show ?thesis
  proof (cases "\<not> is_review_rejected exc \<and> at_attempt_number a < tk_max_attempts t")
    case True
    have "wf_step Ev_renew (tk_workflow_id t) d d'"
      by (rule renew_stepI [OF ok t(1) _ _ _ tabs(2) [OF True] tabs(1)])
        (simp_all add: True t(2) same_task_def lease_move_def lease_shape_def)
    then show ?thesis by (rule any_stepI) simp
  next
    case False
    from tabs(3) [OF False] obtain w' n where w': "row_get wf_id (tk_workflow_id t) (workflows d) = Some w'"
      "workflows d' = row_upd wf_id (tk_workflow_id t) (\<lambda>x. x\<lparr>wf_state := WS_FAILED, wf_version := n\<rparr>) (workflows d)"
      by blast
    have "wf_step Ev_stop (tk_workflow_id t) d d'"
      by (rule stop_stepI [OF ok t(1) _ _ w'(1) _ _ _ w'(2) tabs(1)])
        (simp_all only: False if_False, simp_all add: t(2) same_task_def live_def)
    then show ?thesis by (rule any_stepI) simp
  qed
qed

text \<open>The tables a transition or a new task leaves alone, and the row update a transition makes.\<close>

definition quiet :: "db \<Rightarrow> db \<Rightarrow> bool" where
  "quiet d d' \<longleftrightarrow> attempts d' = attempts d \<and> approvals d' = approvals d \<and> reconciliations d' = reconciliations d \<and>
     principals d' = principals d \<and> dispositions d' = dispositions d \<and> same_outer d d'"

definition moved :: "ident \<Rightarrow> workflow_state \<Rightarrow> db \<Rightarrow> db \<Rightarrow> bool" where
  "moved wid s d d' \<longleftrightarrow>
     (\<exists>n. workflows d' = row_upd wf_id wid (\<lambda>x. x\<lparr>wf_state := s, wf_version := n\<rparr>) (workflows d))"

definition scheduled :: "ident \<Rightarrow> instant \<Rightarrow> ident \<Rightarrow> task_kind \<Rightarrow> db \<Rightarrow> db \<Rightarrow> bool" where
  "scheduled tid c wid k d d' \<longleftrightarrow> (\<exists>pos. tasks d' = tasks d @ [new_task tid c wid k pos])"

lemma quiet_refl: "quiet d d"
  by (simp add: quiet_def)

lemma quiet_trans: "quiet d d1 \<Longrightarrow> quiet d1 d' \<Longrightarrow> quiet d d'"
  by (simp add: quiet_def)

lemma moved_trans: "moved wid s d d1 \<Longrightarrow> moved wid s' d1 d' \<Longrightarrow> moved wid s' d d'"
  unfolding moved_def by (elim exE) (simp add: row_upd_comp, metis)

lemma transition_effect:
  assumes "transition cf wid s ac re ex d = Inr d'"
  shows "moved wid s d d'" "tasks d' = tasks d" "quiet d d'"
  using transition_Inr [OF assms] transition_frame [OF assms] by (auto simp: moved_def quiet_def)

lemma schedule_task_effect:
  assumes "schedule_task cf tid c g wid k d = Inr d'"
  shows "scheduled tid c wid k d d'" "workflows d' = workflows d" "quiet d d'"
  using schedule_task_Inr [OF assms] by (auto simp: scheduled_def quiet_def row_add_def)

lemma move_and_schedule:
  assumes "transition cf wid s ac re ex d = Inr d1" "schedule_task cf tid c g wid k d1 = Inr d'"
  shows "moved wid s d d'" "scheduled tid c wid k d d'" "quiet d d'"
  using transition_effect [OF assms(1)] schedule_task_effect [OF assms(2)] quiet_trans
  by (auto simp: moved_def scheduled_def)

text \<open>Advancing: one row update of the workflow and at most one new task, of the next kind.\<close>

lemma advance_next:
  assumes run: "advance_after_task cf tid c g wid kind d = Inr d'" and k: "next_kind kind = Some k"
  shows "moved wid (TASK_WORKFLOW_STATE k) d d'" "scheduled tid c wid k d d'" "quiet d d'"
proof -
  have "\<exists>d1 d2 re ac. (d1 = d \<or> (\<exists>s ac re. transition cf wid s ac re [] d = Inr d1)) \<and>
      transition cf wid (TASK_WORKFLOW_STATE k) ac re [] d1 = Inr d2 \<and> schedule_task cf tid c g wid k d2 = Inr d'"
    using run k by (cases kind) (auto simp: advance_after_task_def Let_def ebind_eq_Inr)
  then obtain d1 d2 re ac where d1: "d1 = d \<or> (\<exists>s ac re. transition cf wid s ac re [] d = Inr d1)"
    and rest: "transition cf wid (TASK_WORKFLOW_STATE k) ac re [] d1 = Inr d2"
      "schedule_task cf tid c g wid k d2 = Inr d'"
    by blast
  have "(d1 = d \<or> (\<exists>s. moved wid s d d1)) \<and> tasks d1 = tasks d \<and> quiet d d1"
    using d1
  proof
    assume "\<exists>s ac re. transition cf wid s ac re [] d = Inr d1"
    then obtain s ac re where "transition cf wid s ac re [] d = Inr d1" by blast
    from transition_effect [OF this] show ?thesis by auto
  qed (simp add: quiet_refl)
  then show "moved wid (TASK_WORKFLOW_STATE k) d d'" "scheduled tid c wid k d d'" "quiet d d'"
    using move_and_schedule [OF rest] moved_trans quiet_trans by (auto simp: scheduled_def)
qed

lemma advance_last:
  assumes run: "advance_after_task cf tid c g wid TK_CODE_REVIEW d = Inr d'"
  shows "moved wid WS_AWAITING_HUMAN_APPROVAL d d'" "tasks d' = tasks d" "quiet d d'"
    "\<exists>w. row_get wf_id wid (workflows d) = Some w \<and> has_candidate w"
proof -
  obtain w re where w: "row_get wf_id wid (workflows d) = Some w" "has_candidate w"
    and tr: "transition cf wid WS_AWAITING_HUMAN_APPROVAL ''orchestrator'' re [] d = Inr d'"
    using run by (auto simp: advance_after_task_def Let_def tx_simps has_candidate_def)
  show "moved wid WS_AWAITING_HUMAN_APPROVAL d d'" "tasks d' = tasks d" "quiet d d'"
    "\<exists>w. row_get wf_id wid (workflows d) = Some w \<and> has_candidate w"
    using transition_effect [OF tr] w by auto
qed

lemma run_provider_candidate:
  "run_provider submit execute p = Inr (result, execution, candidate) \<Longrightarrow>
   (px_task_kind p = TK_IMPLEMENT \<longrightarrow> (\<exists>c. candidate = Some c \<and> c \<noteq> [])) \<and>
   (px_task_kind p \<noteq> TK_IMPLEMENT \<longrightarrow> candidate = None)"
  by (auto simp: run_provider_def candidate_of_def Let_def split: sum.splits if_splits option.splits json.splits)

text \<open>The rows a successful finalisation writes before it advances the workflow.\<close>

lemma finalize_success_Inr:
  assumes "finalize_execution_success cf en p result execution cand l d = Inr (r, d')"
  obtains t a w d6 where "finalize_guard (en_now en 0) p d = Inr (t, a, w)"
    "advance_after_task cf (en_uuid en 0) (en_now en 3) (en_now en 4) (wf_id w) (px_task_kind p) d6 = Inr d'"
    "workflows d6 = row_upd wf_id (wf_id w)
       (\<lambda>w. if px_task_kind p = TK_IMPLEMENT then w\<lparr>wf_candidate_revision := cand\<rparr> else w) (workflows d)"
    "tasks d6 = row_upd tk_id (tk_id t) (\<lambda>t. (clear_lease t)\<lparr>tk_status := TS_SUCCEEDED\<rparr>) (tasks d)"
    "attempts d6 = row_upd at_id (at_id a) (\<lambda>a. a\<lparr>at_model := res_model result,
       at_output := success_output (px_task_kind p) result execution, at_status := TS_SUCCEEDED,
       at_completed_at := Some (en_now en 1)\<rparr>) (attempts d)"
    "approvals d6 = approvals d" "reconciliations d6 = reconciliations d" "principals d6 = principals d"
    "dispositions d6 = dispositions d" "same_outer d d6"
proof -
  obtain t a w where g: "finalize_guard (en_now en 0) p d = Inr (t, a, w)"
    using assms by (auto simp: finalize_execution_success_def tx_simps)
  show thesis
    using assms g
    by (cases "px_task_kind p = TK_IMPLEMENT")
      (auto simp: finalize_execution_success_def Let_def record_provider_observation_def ebind_eq_Inr
        intro!: that [OF g])
qed

lemma finalize_success_step:
  assumes ok: "db_ok d" and p: "prepared_for p d" and fresh: "fresh_ids en d"
    and cand: "px_task_kind p = TK_IMPLEMENT \<longrightarrow> (\<exists>c. cand = Some c \<and> c \<noteq> [])"
    and run: "finalize_execution_success cf en p result execution cand l d = Inr (r, d')"
  shows "any_step {Ev_advance, Ev_finish} d d'"
  using run
proof (cases rule: finalize_success_Inr)
  case (1 t a w d6)
  note t = finalize_guard_facts [OF ok p 1(1)]
  define f :: "workflow \<Rightarrow> workflow" where
    "f = (\<lambda>w. if px_task_kind p = TK_IMPLEMENT then w\<lparr>wf_candidate_revision := cand\<rparr> else w)"
  define g :: "task \<Rightarrow> task" where "g = (\<lambda>t. (clear_lease t)\<lparr>tk_status := TS_SUCCEEDED\<rparr>)"
  have f: "\<And>x. wf_id (f x) = wf_id x" by (simp add: f_def)
  have gt: "same_task t (g t)" "tk_status (g t) = TS_SUCCEEDED" by (simp_all add: g_def same_task_def)
  note d6 = 1(3) [folded f_def] 1(4) [folded g_def]
  let ?wid = "tk_workflow_id t" and ?k = "px_task_kind p"
  have mem: "t \<in> wf_tasks d ?wid" using row.get_SomeD [OF t(1)] by (simp add: wf_tasks_def)
  have new: "en_uuid en 0 \<notin> tk_id ` set (tasks d)" using fresh by (simp add: fresh_ids_def)
  show ?thesis
  proof (cases "next_kind ?k")
    case (Some k)
    from advance_next [OF 1(2) Some] obtain n pos where
      d': "workflows d' = row_upd wf_id ?wid (\<lambda>x. (f x)\<lparr>wf_state := TASK_WORKFLOW_STATE k, wf_version := n\<rparr>) (workflows d)"
        "tasks d' = row_upd tk_id (tk_id t) g (tasks d) @ [new_task (en_uuid en 0) (en_now en 3) ?wid k pos]"
      by (auto simp: moved_def scheduled_def d6 t(4) row_upd_comp f)
    let ?n = "new_task (en_uuid en 0) (en_now en 3) ?wid k pos"
    have "wf_step Ev_advance ?wid d d'"
      by (rule wf_stepI [OF ok t(1) gt(1) t(5) _ d'])
        (use lifecycle.advance [OF mem gt(1) t(2) gt(2), of ?n "(f w)\<lparr>wf_state := TASK_WORKFLOW_STATE k, wf_version := n\<rparr>" w]
          Some cand new in \<open>auto simp: f t(3) f_def lease_shape_def has_candidate_def\<close>)
    then show ?thesis by (rule any_stepI) simp
  next
    case None
    then have k: "?k = TK_CODE_REVIEW" by (cases ?k) auto
    from advance_last [OF 1(2) [unfolded k]] obtain n where
      d': "workflows d' = row_upd wf_id ?wid (\<lambda>x. (f x)\<lparr>wf_state := WS_AWAITING_HUMAN_APPROVAL, wf_version := n\<rparr>) (workflows d)"
        "tasks d' = row_upd tk_id (tk_id t) g (tasks d) @ []"
      by (auto simp: moved_def d6 t(4) row_upd_comp f)
    have "has_candidate w" using advance_last(4) [OF 1(2) [unfolded k]] by (simp add: d6 f_def k t(4,5))
    then have "wf_step Ev_finish ?wid d d'"
      by (intro wf_stepI [OF ok t(1) gt(1) t(5) _ d'])
        (use lifecycle.finish [OF mem gt(1) t(2) gt(2), of "(f w)\<lparr>wf_state := WS_AWAITING_HUMAN_APPROVAL, wf_version := n\<rparr>" w]
          in \<open>auto simp: f t(3) k f_def\<close>)
    then show ?thesis by (rule any_stepI) simp
  qed
qed

lemma complete_execution_step:
  assumes "db_ok d" "prepared_for p d" "fresh_ids en d"
    "complete_execution submit execute cf en p l d = Inr (r, d')"
  shows "any_step {Ev_renew, Ev_stop, Ev_advance, Ev_finish} d d'"
proof (cases "run_provider submit execute p")
  case (Inl x)
  obtain exc v where x: "x = (exc, v)" by (cases x)
  have "any_step {Ev_renew, Ev_stop} d d'"
    by (rule finalize_failure_step [OF assms(1,2)]) (use assms(4) Inl x in \<open>simp add: complete_execution_def\<close>)
  then show ?thesis by (auto simp: any_step_def)
next
  case (Inr x)
  obtain result execution cand where x: "x = (result, execution, cand)" by (cases x)
  have "any_step {Ev_advance, Ev_finish} d d'"
    by (rule finalize_success_step [OF assms(1-3) conjunct1 [OF run_provider_candidate [OF Inr [unfolded x]]]])
      (use assms(4) Inr x in \<open>simp add: complete_execution_def\<close>)
  then show ?thesis by (auto simp: any_step_def)
qed

subsection \<open>Human decisions\<close>

definition same_core :: "db \<Rightarrow> db \<Rightarrow> bool" where
  "same_core d d' \<longleftrightarrow> workflows d' = workflows d \<and> tasks d' = tasks d"

lemma same_core_db_ok: "same_core d d' \<Longrightarrow> db_ok d' \<longleftrightarrow> db_ok d"
  by (rule db_ok_cong) (simp_all add: same_core_def)

lemma moved_upd:
  assumes "moved wid s d1 d'" "workflows d1 = row_upd wf_id wid f (workflows d)" "\<And>x. wf_id (f x) = wf_id x"
  shows "\<exists>n. workflows d' = row_upd wf_id wid (\<lambda>x. (f x)\<lparr>wf_state := s, wf_version := n\<rparr>) (workflows d)"
proof -
  obtain n where "workflows d' = row_upd wf_id wid (\<lambda>x. x\<lparr>wf_state := s, wf_version := n\<rparr>) (workflows d1)"
    using assms(1) by (auto simp: moved_def)
  then show ?thesis by (intro exI [of _ n]) (simp add: assms(2,3) row_upd_comp)
qed

lemma approve_Inr:
  assumes "approve cf en wid ap action target revision decision rationale mins env_id pd aid d = Inr (r, d')"
  obtains p w pv where "authorize d (en_now en 0) ap (approval_capability action) None None True = Inr p"
    "row_get wf_id wid (workflows d) = Some w" "1 \<le> mins" "strip target \<noteq> []" "strip rationale \<noteq> []"
    "check_approval d w action target revision env_id pd aid = Inr pv"
    "record_approval cf (new_approval en wid ap action target revision decision rationale mins env_id pd aid pv)
       target d = Inr d'"
    "r = approval_dict cf (new_approval en wid ap action target revision decision rationale mins env_id pd aid pv)"
  using assms by (auto simp: approve_def tx_simps Let_def)

lemma new_approval_simps [simp]:
  "ap_workflow_id (new_approval en wid ap ac ta re de ra mi e pd ai pv) = wid"
  "ap_id (new_approval en wid ap ac ta re de ra mi e pd ai pv) = en_uuid en 0"
  "ap_action (new_approval en wid ap ac ta re de ra mi e pd ai pv) = ac"
  "ap_decision (new_approval en wid ap ac ta re de ra mi e pd ai pv) = de"
  "ap_revision (new_approval en wid ap ac ta re de ra mi e pd ai pv) = re"
  "ap_approver_id (new_approval en wid ap ac ta re de ra mi e pd ai pv) = ap"
  by (simp_all add: new_approval_def)

lemma check_approval_state:
  "check_approval d w action target revision env_id pd aid = Inr pv \<Longrightarrow> wf_state w = (case action of
     AA_MERGE \<Rightarrow> WS_AWAITING_HUMAN_APPROVAL | AA_DEPLOY \<Rightarrow> WS_AWAITING_DEPLOYMENT_APPROVAL
   | AA_ROLLBACK \<Rightarrow> WS_ROLLBACK_REQUIRED)"
  by (cases action) (auto simp: check_approval_def check_merge_approval_def check_deploy_approval_def
      check_rollback_approval_def tx_simps)

lemma approve_step:
  assumes ok: "db_ok d"
    and run: "approve cf en wid ap action target revision decision rationale mins env_id pd aid d = Inr (r, d')"
  shows "same_core d d' \<or> any_step {Ev_settle, Ev_grant} d d'"
  using run
proof (cases rule: approve_Inr)
  case (1 p w pv)
  note rec = 1(7) and st = check_approval_state [OF 1(6)]
  show ?thesis
  proof (cases "action = AA_MERGE \<or> action = AA_DEPLOY \<and> decision = AD_REJECTED")
    case False
    then have "same_core d d'" using rec by (auto simp: record_approval_def Let_def same_core_def split: if_splits)
    then show ?thesis ..
  next
    case True
    define s where "s = (if decision = AD_APPROVED then WS_APPROVED else WS_REJECTED)"
    obtain d1 re ex where tr: "transition cf wid s ap re ex d1 = Inr d'" and d1: "workflows d1 = workflows d" "tasks d1 = tasks d"
      using rec True by (auto simp: record_approval_def Let_def s_def split: if_splits)
    obtain n where t: "s \<in> ALLOWED_TRANSITIONS (wf_state w)"
        "workflows d' = row_upd wf_id wid (\<lambda>x. x\<lparr>wf_state := s, wf_version := n\<rparr>) (workflows d)"
      using 1(2) by (auto simp: d1 intro: transition_Inr [OF tr])
    have nw: "\<not> working (wf_state w)" "\<not> working s" "\<not> delivered s"
      using st True by (auto simp: working_def s_def delivered_def)
    show ?thesis
    proof (cases "s = WS_APPROVED")
      case False
      have "wf_step Ev_settle wid d d'"
        by (rule settle_stepI [OF ok 1(2) _ _ _ _ _ _ t(2)])
          (simp_all add: nw False t(1) transition_frame(2) [OF tr] d1)
      then show ?thesis by (auto simp: any_step_def)
    next
      case True
      then have "wf_state w = WS_AWAITING_HUMAN_APPROVAL" using st t(1) by (cases action) auto
      then have "wf_step Ev_grant wid d d'"
        by (intro wf_step_no_task [OF ok 1(2) _ t(2), of "[]"])
          (use lifecycle.grant [of w "w\<lparr>wf_state := s, wf_version := n\<rparr>" "wf_tasks d wid"] True
            in \<open>simp_all add: transition_frame(2) [OF tr] d1\<close>)
      then show ?thesis by (auto simp: any_step_def)
    qed
  qed
qed

lemma disposition_step:
  assumes ok: "db_ok d" and fresh: "fresh_ids en d"
    and run: "disposition_workflow cf en wid ac decision rationale d = Inr (r, d')"
  shows "any_step {Ev_release, Ev_settle} d d'"
proof -
  obtain w where w: "row_get wf_id wid (workflows d) = Some w" "wf_state w = WS_BLOCKED"
    using run by (auto simp: disposition_workflow_def tx_simps)
  show ?thesis
  proof (cases decision)
    case DD_REJECT
    define f :: "workflow \<Rightarrow> workflow" where "f = (\<lambda>w. w\<lparr>wf_block_reason := Some ''INPUT_REJECTED''\<rparr>)"
    have f: "\<And>x. wf_id (f x) = wf_id x" by (simp add: f_def)
    obtain d1 re ex where tr: "transition cf wid WS_REJECTED ac re ex d1 = Inr d'"
      and d1: "workflows d1 = row_upd wf_id wid f (workflows d)" "tasks d1 = tasks d"
      using run DD_REJECT by (auto simp: disposition_workflow_def apply_disposition_def tx_simps Let_def f_def)
    obtain n where "workflows d' = row_upd wf_id wid (\<lambda>x. (f x)\<lparr>wf_state := WS_REJECTED, wf_version := n\<rparr>) (workflows d)"
      using moved_upd [OF transition_effect(1) [OF tr] d1(1) f] by blast
    then have "wf_step Ev_settle wid d d'"
      by (intro settle_stepI [OF ok w(1)]) (simp_all add: f w(2) f_def transition_frame(2) [OF tr] d1(2) delivered_def)
    then show ?thesis by (rule any_stepI) simp
  next
    case DD_RESUME_CONTAINED
    define f :: "workflow \<Rightarrow> workflow" where "f = (\<lambda>w. w\<lparr>wf_block_reason := None, wf_containment_required := True\<rparr>)"
    have f: "\<And>x. wf_id (f x) = wf_id x" by (simp add: f_def)
    obtain d1 d2 re ex where tr: "transition cf wid WS_PLANNING ac re ex d1 = Inr d2"
        "schedule_task cf (en_uuid en 1) (en_now en 1) (en_now en 2) wid TK_PLAN d2 = Inr d'"
      and d1: "workflows d1 = row_upd wf_id wid f (workflows d)" "tasks d1 = tasks d"
      using run DD_RESUME_CONTAINED by (auto simp: disposition_workflow_def apply_disposition_def tx_simps Let_def f_def)
    obtain n pos where d': "workflows d' = row_upd wf_id wid (\<lambda>x. (f x)\<lparr>wf_state := WS_PLANNING, wf_version := n\<rparr>) (workflows d)"
      "tasks d' = tasks d @ [new_task (en_uuid en 1) (en_now en 1) wid TK_PLAN pos]"
      using moved_upd [OF move_and_schedule(1) [OF tr] d1(1) f] move_and_schedule(2) [OF tr] d1(2)
      by (auto simp: scheduled_def)
    have "en_uuid en 1 \<notin> tk_id ` set (tasks d)" using fresh by (simp add: fresh_ids_def)
    then have "wf_step Ev_release wid d d'"
      by (intro wf_step_no_task [OF ok w(1) _ d'])
        (use lifecycle.release [OF w(2), of "(f w)\<lparr>wf_state := WS_PLANNING, wf_version := n\<rparr>"
            "new_task (en_uuid en 1) (en_now en 1) wid TK_PLAN pos" "wf_tasks d wid"]
          in \<open>simp_all add: f f_def lease_shape_def\<close>)
    then show ?thesis by (rule any_stepI) simp
  qed
qed

lemma reconcile_execution_Inr:
  assumes "reconcile_execution cf en wid tid ac decision rationale d = Inr (r, d')"
  obtains p w t a ex d1 d3 where "authorize d (en_now en 0) ac CAP_RECONCILE_EXECUTION None None True = Inr p"
    "row_get wf_id wid (workflows d) = Some w" "wf_state w = WS_BLOCKED"
    "row_get tk_id tid (tasks d) = Some t" "tk_workflow_id t = wid" "tk_status t = TS_BLOCKED"
    "abandoned_attempt d tid = Some a" "\<not> list_ex (\<lambda>r. er_attempt_id r = at_id a) (reconciliations d)"
    "apply_reconciliation cf en wid (tk_kind t) ac decision ex d1 = Inr d3"
    "workflows d1 = workflows d" "tasks d1 = row_upd tk_id tid (\<lambda>t. t\<lparr>tk_status := TS_RECONCILED\<rparr>) (tasks d)"
    "attempts d1 = attempts d" "approvals d1 = approvals d" "principals d1 = principals d"
    "workflows d' = workflows d3" "tasks d' = tasks d3" "quiet d3 d'"
    "\<exists>rr. er_attempt_id rr = at_id a \<and> reconciliations d1 = reconciliations d @ [rr]" "same_outer d d1"
proof -
  obtain p w where w: "authorize d (en_now en 0) ac CAP_RECONCILE_EXECUTION None None True = Inr p"
      "row_get wf_id wid (workflows d) = Some w" "wf_state w = WS_BLOCKED"
    using assms by (auto simp: reconcile_execution_def tx_simps)
  obtain t where t: "row_get tk_id tid (tasks d) = Some t"
    using assms by (auto simp: reconcile_execution_def tx_simps split: option.split_asm)
  obtain a where a: "abandoned_attempt d tid = Some a"
    using assms t by (auto simp: reconcile_execution_def tx_simps)
  show thesis
    using assms w t a
    by (auto simp: reconcile_execution_def tx_simps Let_def quiet_def row_add_def intro!: that [OF w t _ _ a])
qed

lemma reconcile_step:
  assumes ok: "db_ok d" and fresh: "fresh_ids en d"
    and run: "reconcile_execution cf en wid tid ac decision rationale d = Inr (r, d')"
  shows "any_step {Ev_retry, Ev_give_up} d d'"
  using run
proof (cases rule: reconcile_execution_Inr)
  case (1 p w t a ex d1 d3)
  define g :: "task \<Rightarrow> task" where "g = (\<lambda>t. t\<lparr>tk_status := TS_RECONCILED\<rparr>)"
  have g: "same_task t (g t)" "tk_status (g t) = TS_RECONCILED" by (simp_all add: g_def same_task_def)
  have mem: "t \<in> wf_tasks d wid" using row.get_SomeD [OF 1(4)] 1(5) by (simp add: wf_tasks_def)
  have w: "row_get wf_id (tk_workflow_id t) (workflows d) = Some w" using 1(2,5) by simp
  have new: "en_uuid en 1 \<notin> tk_id ` set (tasks d)" using fresh by (simp add: fresh_ids_def)
  show ?thesis
  proof (cases decision)
    case RD_RETRY
    let ?f = "\<lambda>w. w\<lparr>wf_block_reason := None\<rparr> :: workflow" and ?k = "tk_kind t"
    obtain d2 re where tr: "transition cf wid (TASK_WORKFLOW_STATE ?k) ac re ex (upd_workflow wid ?f d1) = Inr d2"
      "schedule_task cf (en_uuid en 1) (en_now en 1) (en_now en 2) wid ?k d2 = Inr d3"
      using 1(9) RD_RETRY by (auto simp: apply_reconciliation_def tx_simps)
    obtain n where n: "workflows d' = row_upd wf_id (tk_workflow_id t)
        (\<lambda>x. (?f x)\<lparr>wf_state := TASK_WORKFLOW_STATE ?k, wf_version := n\<rparr>) (workflows d)"
      using moved_upd [OF move_and_schedule(1) [OF tr], of ?f d] 1(5,10,15) by auto
    obtain pos where pos: "tasks d' = row_upd tk_id tid g (tasks d) @ [new_task (en_uuid en 1) (en_now en 1) wid ?k pos]"
      using move_and_schedule(2) [OF tr] 1(11,16) by (auto simp: scheduled_def g_def)
    have "wf_step Ev_retry (tk_workflow_id t) d d'"
      by (rule wf_stepI [OF ok 1(4) g(1) w _ n pos])
        (use lifecycle.retry [OF 1(3) mem g(1) 1(6) g(2), of "new_task (en_uuid en 1) (en_now en 1) wid ?k pos"
            "(?f w)\<lparr>wf_state := TASK_WORKFLOW_STATE ?k, wf_version := n\<rparr>"] new
          in \<open>auto simp: 1(5) lease_shape_def\<close>)
    then show ?thesis by (rule any_stepI) simp
  next
    case RD_FAIL
    let ?f = "\<lambda>w. w\<lparr>wf_block_reason := Some ''EXECUTION_RECONCILED_FAILED''\<rparr> :: workflow"
    obtain re where tr: "transition cf wid WS_FAILED ac re ex (upd_workflow wid ?f d1) = Inr d3"
      using 1(9) RD_FAIL by (auto simp: apply_reconciliation_def)
    obtain n where n: "workflows d' = row_upd wf_id (tk_workflow_id t)
        (\<lambda>x. (?f x)\<lparr>wf_state := WS_FAILED, wf_version := n\<rparr>) (workflows d)"
      using moved_upd [OF transition_effect(1) [OF tr], of ?f d] 1(5,10,15) by auto
    have tks: "tasks d' = row_upd tk_id tid g (tasks d) @ []"
      using transition_effect(2) [OF tr] 1(11,16) by (simp add: g_def)
    have "wf_step Ev_give_up (tk_workflow_id t) d d'"
      by (rule wf_stepI [OF ok 1(4) g(1) w _ n tks])
        (use lifecycle.give_up [OF 1(3) mem g(1) 1(6) g(2), of "(?f w)\<lparr>wf_state := WS_FAILED, wf_version := n\<rparr>"]
          in \<open>auto simp: 1(5)\<close>)
    then show ?thesis by (rule any_stepI) simp
  qed
qed

subsection \<open>Cancellation\<close>

lemma filter_unique:
  "distinct xs \<Longrightarrow> t \<in> set xs \<Longrightarrow> (\<And>x. x \<in> set xs \<Longrightarrow> P x \<longleftrightarrow> x = t) \<Longrightarrow> filter P xs = [t]"
proof (induction xs)
  case (Cons y ys)
  show ?case
  proof (cases "y = t")
    case True
    then have "filter P ys = []" using Cons.prems by (auto simp: filter_empty_conv)
    then show ?thesis using True Cons.prems(3) [of y] by simp
  next
    case False
    then have "\<not> P y" using Cons.prems(3) [of y] by simp
    then show ?thesis using False Cons by simp
  qed
qed simp

lemma cancel_tasks_filter:
  "cancel_tasks ts d = cancel_tasks (filter (\<lambda>t. cancellable (tk_status t)) ts) d"
  by (induction ts arbitrary: d) (simp_all add: cancel_tasks_def)

lemma set_workflow_tasks [simp]: "set (workflow_tasks d wid) = wf_tasks d wid"
  by (auto simp: workflow_tasks_def wf_tasks_def)

lemma distinct_workflow_tasks: "distinct (map tk_id (tasks d)) \<Longrightarrow> distinct (workflow_tasks d wid)"
  by (simp add: workflow_tasks_def distinct_map)

lemma cancellable_live: "lease_shape t \<Longrightarrow> cancellable (tk_status t) \<longleftrightarrow> live t"
  by (auto simp: cancellable_def live_def lease_shape_def)

lemma cancel_tasks_frame [simp]:
  "environments (cancel_tasks ts d) = environments d" "plans (cancel_tasks ts d) = plans d"
  "deployments (cancel_tasks ts d) = deployments d" "rollbacks (cancel_tasks ts d) = rollbacks d"
  "confirmations (cancel_tasks ts d) = confirmations d"
  "workflows (cancel_tasks ts d) = workflows d" "attempts (cancel_tasks ts d) = attempts d"
  "approvals (cancel_tasks ts d) = approvals d" "reconciliations (cancel_tasks ts d) = reconciliations d"
  "principals (cancel_tasks ts d) = principals d" "audit_events (cancel_tasks ts d) = audit_events d"
  "dispositions (cancel_tasks ts d) = dispositions d"
  by (induction ts arbitrary: d) (simp_all add: cancel_tasks_def)

lemma cancel_step:
  assumes ok: "db_ok d" and run: "cancel_workflow cf en wid pid d = Inr (r, d')"
  shows "any_step {Ev_stop, Ev_settle} d d'"
proof -
  obtain w d1 re where w: "row_get wf_id wid (workflows d) = Some w"
    and tr: "transition cf wid WS_CANCELLED pid re [] d = Inr d1" and d': "d' = cancel_tasks (workflow_tasks d1 wid) d1"
    using run by (auto simp: cancel_workflow_def tx_simps Let_def)
  obtain n where al: "WS_CANCELLED \<in> ALLOWED_TRANSITIONS (wf_state w)"
    and n: "workflows d' = row_upd wf_id wid (\<lambda>x. x\<lparr>wf_state := WS_CANCELLED, wf_version := n\<rparr>) (workflows d)"
    using w by (auto simp: d' intro: transition_Inr [OF tr])
  have td: "tasks d1 = tasks d" by (rule transition_frame(2) [OF tr])
  then have wt: "workflow_tasks d1 wid = workflow_tasks d wid" by (simp add: workflow_tasks_def)
  have st: "stage_ok w (wf_tasks d wid)" using db_ok_get [OF ok w] by (simp add: wf_ok_def)
  let ?P = "\<lambda>t. cancellable (tk_status t)" and ?ts = "workflow_tasks d wid"
  have Pl: "?P t \<longleftrightarrow> live t" if "t \<in> wf_tasks d wid" for t
    using st that cancellable_live [of t] by (auto simp: stage_ok_def)
  show ?thesis
  proof (cases "working (wf_state w)")
    case True
    then obtain t where t: "t \<in> wf_tasks d wid" "live t" using st by (auto simp: stage_ok_def)
    have "filter ?P ?ts = [t]"
      by (rule filter_unique [OF distinct_workflow_tasks])
        (use ok t Pl st in \<open>auto simp: db_ok_def stage_ok_def\<close>)
    then have tk: "tasks d' = row_upd tk_id (tk_id t) (\<lambda>t. t\<lparr>tk_status := TS_CANCELLED\<rparr>) (tasks d)"
      using Pl t by (subst d', subst cancel_tasks_filter) (simp add: wt cancel_tasks_def td)
    have tt: "t \<in> set (tasks d)" "tk_workflow_id t = wid" using t by (auto simp: wf_tasks_def)
    have "wf_step Ev_stop (tk_workflow_id t) d d'"
      by (rule stop_stepI [OF ok db_ok_task(1) [OF ok tt(1)], where w = w
          and f = "\<lambda>x. x\<lparr>wf_state := WS_CANCELLED, wf_version := n\<rparr>"])
        (simp_all add: tk n tt w t same_task_def)
    then show ?thesis by (rule any_stepI) simp
  next
    case False
    have "\<not> ?P t" if "t \<in> set ?ts" for t using that Pl no_live_if_idle [OF st False] by simp
    then have "filter ?P ?ts = []" by (simp add: filter_empty_conv)
    then have tk: "tasks d' = tasks d" by (subst d', subst cancel_tasks_filter) (simp add: wt cancel_tasks_def td)
    have "wf_step Ev_settle wid d d'"
      by (rule settle_stepI [OF ok w _ _ False _ _ _ n tk]) (simp_all add: al delivered_def)
    then show ?thesis by (rule any_stepI) simp
  qed
qed

subsection \<open>Intake\<close>

text \<open>A new workflow is contained, with no task, or planning, with its planning task.\<close>

definition born :: "db \<Rightarrow> db \<Rightarrow> bool" where
  "born d d' \<longleftrightarrow> (\<exists>w nt. workflows d' = workflows d @ [w] \<and> tasks d' = tasks d @ nt \<and>
     wf_id w \<notin> wf_id ` set (workflows d) \<and> wf_candidate_revision w = None \<and>
     ((wf_state w = WS_BLOCKED \<and> nt = []) \<or>
      (wf_state w = WS_PLANNING \<and> (\<exists>tid c pos. nt = [new_task tid c (wf_id w) TK_PLAN pos] \<and>
         tid \<notin> tk_id ` set (tasks d)))))"

lemma born_db_ok:
  assumes ok: "db_ok d" and b: "born d d'"
  shows "db_ok d'"
proof -
  obtain w nt where wn: "workflows d' = workflows d @ [w]" "tasks d' = tasks d @ nt"
    "wf_id w \<notin> wf_id ` set (workflows d)" "wf_candidate_revision w = None"
    "(wf_state w = WS_BLOCKED \<and> nt = []) \<or> (wf_state w = WS_PLANNING \<and>
      (\<exists>tid c pos. nt = [new_task tid c (wf_id w) TK_PLAN pos] \<and> tid \<notin> tk_id ` set (tasks d)))"
    using b unfolding born_def by blast
  have none: "wf_tasks d (wf_id w) = {}" 
  proof -
    have "tk_workflow_id t \<noteq> wf_id w" if "t \<in> set (tasks d)" for t
      using ok wn(3) imageI [OF that, of tk_workflow_id] unfolding db_ok_def by (metis subsetD)
    then show ?thesis by (auto simp: wf_tasks_def)
  qed
  have nw: "\<forall>n\<in>set nt. tk_workflow_id n = wf_id w" using wn(5) by auto
  have T: "wf_tasks d' v = (if v = wf_id w then set nt else wf_tasks d v)" for v
    using none nw by (auto simp: wf_tasks_def wn(2))
  have "wf_ok w (set nt)"
    using wn(4,5) by (auto simp: wf_ok_def stage_ok_def pipeline_ok_def live_def lease_shape_def)
  moreover have "wf_ok v (wf_tasks d' (wf_id v))" if "v \<in> set (workflows d)" for v
  proof -
    have "wf_id v \<noteq> wf_id w" using wn(3) that by (metis imageI)
    then show ?thesis using ok that by (simp add: T db_ok_def)
  qed
  moreover have "distinct (map wf_id (workflows d'))" "distinct (map tk_id (tasks d'))"
    using ok wn by (auto simp: db_ok_def)
  moreover have "tk_workflow_id ` set (tasks d') \<subseteq> wf_id ` set (workflows d')"
    using ok nw by (auto simp: db_ok_def wn(1,2))
  ultimately show ?thesis by (auto simp: db_ok_def wn(1) T)
qed

lemma row_upd_fresh: "k \<notin> key ` set rows \<Longrightarrow> row_upd key k f rows = rows"
  by (auto simp: row_upd_def image_iff intro!: map_idI)

lemma moved_new:
  assumes "moved wid s d1 d'" "workflows d1 = workflows d @ [w]" "wf_id w = wid" "wid \<notin> wf_id ` set (workflows d)"
  shows "\<exists>n. workflows d' = workflows d @ [w\<lparr>wf_state := s, wf_version := n\<rparr>]"
proof -
  obtain n where "workflows d' = row_upd wf_id wid (\<lambda>x. x\<lparr>wf_state := s, wf_version := n\<rparr>) (workflows d1)"
    using assms(1) by (auto simp: moved_def)
  then show ?thesis
    by (intro exI [of _ n]) (use assms(2-4) row_upd_fresh in \<open>simp add: row_upd_def\<close>)
qed

lemma admit_workflow_born:
  assumes run: "admit_workflow cf en w r strategy d = Inr d'"
    and new: "wf_id w \<notin> wf_id ` set (workflows d)" "en_uuid en 1 \<notin> tk_id ` set (tasks d)"
    and cand: "wf_candidate_revision w = None"
  shows "born d d'"
proof -
  define d1 where "d1 = audit cf (wf_id w) ''workflow.created'' (wf_requester_id w) ''workflow'' (wf_id w) ''SUCCEEDED''
    [(''state'', JStr (workflow_state_value WS_CREATED))]
    (d\<lparr>workflows := row_add w (workflows d), idempotency_records := row_add r (idempotency_records d)\<rparr>)"
  have d1: "workflows d1 = workflows d @ [w]" "tasks d1 = tasks d" by (simp_all add: d1_def row_add_def)
  have "\<exists>d2 s re ex. transition cf (wf_id w) s ''orchestrator'' re ex d1 = Inr d2 \<and>
      (s = WS_BLOCKED \<and> d' = d2 \<or> s = WS_PLANNING \<and>
       schedule_task cf (en_uuid en 1) (en_now en 2) (en_now en 3) (wf_id w) TK_PLAN d2 = Inr d')"
    using run unfolding admit_workflow_def Let_def d1_def [symmetric] by (auto simp: tx_simps split: if_splits)
  then obtain d2 s re ex where tr: "transition cf (wf_id w) s ''orchestrator'' re ex d1 = Inr d2"
    and alt: "s = WS_BLOCKED \<and> d' = d2 \<or> s = WS_PLANNING \<and>
      schedule_task cf (en_uuid en 1) (en_now en 2) (en_now en 3) (wf_id w) TK_PLAN d2 = Inr d'"
    by blast
  obtain n where n: "workflows d2 = workflows d @ [w\<lparr>wf_state := s, wf_version := n\<rparr>]"
    using moved_new [OF transition_effect(1) [OF tr] d1(1) HOL.refl new(1)] by blast
  have td: "tasks d2 = tasks d" using transition_effect(2) [OF tr] d1(2) by simp
  show ?thesis using alt
  proof
    assume "s = WS_BLOCKED \<and> d' = d2"
    then show ?thesis unfolding born_def
      by (intro exI [of _ "w\<lparr>wf_state := s, wf_version := n\<rparr>"] exI [of _ "[]"]) (simp add: n cand new td)
  next
    assume sc: "s = WS_PLANNING \<and>
      schedule_task cf (en_uuid en 1) (en_now en 2) (en_now en 3) (wf_id w) TK_PLAN d2 = Inr d'"
    obtain pos where pos: "tasks d' = tasks d @ [new_task (en_uuid en 1) (en_now en 2) (wf_id w) TK_PLAN pos]"
      using schedule_task_effect(1) [OF conjunct2 [OF sc]] td by (auto simp: scheduled_def)
    have "workflows d' = workflows d2" using sc schedule_task_effect(2) by blast
    then show ?thesis unfolding born_def
      by (intro exI [of _ "w\<lparr>wf_state := s, wf_version := n\<rparr>"]
          exI [of _ "[new_task (en_uuid en 1) (en_now en 2) (wf_id w) TK_PLAN pos]"])
        (use sc new pos in \<open>auto simp: n cand\<close>)
  qed
qed

lemma create_workflow_effect:
  assumes fresh: "fresh_ids en d"
    and run: "create_workflow cf en rq title descr key cx risk dc repo sig d = Inr (r, d')"
  shows "d' = d \<or> (find_idempotency rq ''create_workflow'' key d = None \<and> born d d')"
proof (cases "find_idempotency rq ''create_workflow'' key d")
  case (Some x)
  then show ?thesis using run by (auto simp: create_workflow_def tx_simps Let_def split: option.split_asm)
next
  case None
  have new: "en_uuid en 0 \<notin> wf_id ` set (workflows d)" "en_uuid en 1 \<notin> tk_id ` set (tasks d)"
    using fresh by (simp_all add: fresh_ids_def)
  obtain b ir st where "admit_workflow cf en (new_workflow (en_uuid en 0) (en_now en 1) rq title descr cx risk dc
      (normalize_repository repo) sig b) ir st d = Inr d'"
    using run None by (auto simp: create_workflow_def Let_def tx_simps)
  from admit_workflow_born [OF this] new None show ?thesis by (simp add: new_workflow_def)
qed

end
