(* ===== verification/Workflow_Attempts.thy ===== *)
theory Workflow_Attempts
  imports Workflow_Refinement
begin

text \<open>
  The execution attempts of a task: they are numbered from one, there are never more than the task's
  \<open>max_attempts\<close>, at most one of them is running and then it is the last one, and it runs only while the
  task does (or was cancelled meanwhile).
\<close>

section \<open>The invariant\<close>

definition task_attempts_ok :: "task \<Rightarrow> task_attempt list \<Rightarrow> bool" where
  "task_attempts_ok t as \<longleftrightarrow>
     map at_attempt_number as = [1..<Suc (length as)] \<and> length as \<le> tk_max_attempts t \<and>
     (tk_status t = TS_READY \<or> tk_status t = TS_LEASED \<longrightarrow> length as < tk_max_attempts t) \<and>
     (\<forall>b\<in>set (butlast as). at_status b \<noteq> TS_RUNNING) \<and>
     (tk_status t = TS_RUNNING \<longrightarrow> as \<noteq> [] \<and> at_status (last as) = TS_RUNNING) \<and>
     (tk_status t \<noteq> TS_RUNNING \<and> tk_status t \<noteq> TS_CANCELLED \<longrightarrow> (\<forall>a\<in>set as. at_status a \<noteq> TS_RUNNING))"

definition attempts_ok :: "db \<Rightarrow> bool" where
  "attempts_ok d \<longleftrightarrow> distinct (map at_id (attempts d)) \<and>
     at_task_id ` set (attempts d) \<subseteq> tk_id ` set (tasks d) \<and>
     (\<forall>t\<in>set (tasks d). task_attempts_ok t (task_attempts d (tk_id t)))"

lemma task_attempts_ok_new [simp]: "task_attempts_ok (new_task tid c wid k pos) []"
  by (simp add: task_attempts_ok_def)

lemma no_attempts: "attempts_ok d \<Longrightarrow> tid \<notin> tk_id ` set (tasks d) \<Longrightarrow> task_attempts d tid = []"
  by (auto simp: attempts_ok_def task_attempts_def filter_empty_conv)

lemma row_upd_keys:
  assumes "distinct (map key rows)" "row_get key k rows = Some r" "key (g r) = key r"
  shows "map key (row_upd key k g rows) = map key rows"
proof -
  have "row_upd key k g rows = row_upd key k (\<lambda>_. g r) rows" by (rule row_upd_cong [OF assms(2,1)]) simp
  then show ?thesis using assms(3) row_get_SomeE [OF assms(2)] by (simp add: row_upd_def)
qed

text \<open>One task and its attempts change, new tasks appear.\<close>

lemma attempts_okI:
  assumes ok: "attempts_ok d" and dist: "distinct (map tk_id (tasks d))"
    and t: "row_get tk_id tid (tasks d) = Some t" "same_task t (g t)"
    and tks: "tasks d' = row_upd tk_id tid g (tasks d) @ nt"
    and nt: "\<forall>n\<in>set nt. tk_id n \<notin> tk_id ` set (tasks d) \<and> task_attempts_ok n []"
    and H: "\<And>a. a \<in> set (attempts d) \<Longrightarrow> at_id (H a) = at_id a \<and> at_task_id (H a) = at_task_id a"
      "\<And>a. a \<in> set (attempts d) \<Longrightarrow> at_task_id a \<noteq> tid \<Longrightarrow> H a = a"
    and att: "attempts d' = map H (attempts d) @ na"
    and na: "\<forall>a\<in>set na. at_task_id a = tid" "distinct (map at_id (attempts d) @ map at_id na)"
    and loc: "task_attempts_ok (g t) (map H (task_attempts d tid) @ na)"
  shows "attempts_ok d'"
proof -
  have tt: "t \<in> set (tasks d)" "tk_id t = tid" using row.get_SomeD [OF t(1)] by simp_all
  have keys: "map at_id (map H (attempts d)) = map at_id (attempts d)" using H(1) by simp
  have fil: "filter (\<lambda>a. at_task_id a = i) (map H (attempts d)) = map H (task_attempts d i)" for i
    unfolding task_attempts_def using H(1)
    by (induction "attempts d" rule: rev_induct) (simp_all add: filter_map o_def cong: filter_cong)
  have other: "map H (task_attempts d i) = task_attempts d i" if "i \<noteq> tid" for i
    by (rule map_idI) (use H(2) that in \<open>auto simp: task_attempts_def\<close>)
  have view: "task_attempts d' i = (if i = tid then map H (task_attempts d tid) @ na else task_attempts d i)" for i
    using fil [of i] other [of i] na(1) by (auto simp: task_attempts_def att filter_empty_conv)
  have tkeys: "tk_id ` set (tasks d) \<subseteq> tk_id ` set (tasks d')"
    using arg_cong [OF row_upd_keys [OF dist t(1), of g], of set] t(2) by (auto simp: tks same_task_def)
  show ?thesis unfolding attempts_ok_def
  proof (intro conjI ballI)
    have "map at_id (attempts d') = map at_id (attempts d) @ map at_id na" using keys unfolding att map_append by simp
    then show "distinct (map at_id (attempts d'))" using na(2) by simp
    show "at_task_id ` set (attempts d') \<subseteq> tk_id ` set (tasks d')"
      using ok tkeys na(1) tt H(1) by (force simp: att attempts_ok_def)
  next
    fix x assume "x \<in> set (tasks d')"
    then consider (upd) y where "y \<in> set (tasks d)" "x = (if tk_id y = tid then g y else y)" | (new) "x \<in> set nt"
      by (auto simp: tks row.set_upd)
    then show "task_attempts_ok x (task_attempts d' (tk_id x))"
    proof cases
      case upd
      then show ?thesis
      proof (cases "tk_id y = tid")
        case True
        then have "y = t" using get_only [OF dist t(1) upd(1)] by simp
        then show ?thesis using upd True loc t(2) view [of tid] by (simp add: same_task_def tt)
      next
        case False
        then show ?thesis using upd ok view by (simp add: attempts_ok_def)
      qed
    next
      case new
      then have "tk_id x \<noteq> tid" using nt tt by (metis imageI)
      then show ?thesis using nt new view no_attempts [OF ok] by simp
    qed
  qed
qed

text \<open>The frequent special cases: the attempts stay, or a single row of them changes.\<close>

lemma attempts_ok_tasks:
  assumes "attempts_ok d" "distinct (map tk_id (tasks d))" "row_get tk_id tid (tasks d) = Some t" "same_task t (g t)"
    "tasks d' = row_upd tk_id tid g (tasks d) @ nt"
    "\<forall>n\<in>set nt. tk_id n \<notin> tk_id ` set (tasks d) \<and> task_attempts_ok n []" "attempts d' = attempts d"
    "\<And>as. task_attempts_ok t as \<Longrightarrow> task_attempts_ok (g t) as"
  shows "attempts_ok d'"
proof -
  have "task_attempts_ok t (task_attempts d tid)"
    using assms(1) row.get_SomeD [OF assms(3)] by (auto simp: attempts_ok_def)
  then show ?thesis
    using assms by (intro attempts_okI [where H = "\<lambda>a. a" and na = "[]", OF assms(1-6)]) (simp_all add: attempts_ok_def)
qed

lemma attempts_ok_new:
  assumes "attempts_ok d" "tasks d' = tasks d @ nt"
    "\<forall>n\<in>set nt. tk_id n \<notin> tk_id ` set (tasks d) \<and> task_attempts_ok n []" "attempts d' = attempts d"
  shows "attempts_ok d'"
proof -
  have "task_attempts d' = task_attempts d" using assms(4) by (simp add: task_attempts_def fun_eq_iff)
  then show ?thesis
    using assms no_attempts [OF assms(1)] by (auto simp: attempts_ok_def)
qed

lemma attempts_ok_cong: "tasks d' = tasks d \<Longrightarrow> attempts d' = attempts d \<Longrightarrow> attempts_ok d \<Longrightarrow> attempts_ok d'"
  using attempts_ok_new [of d d' "[]"] by simp

text \<open>The last attempt settles together with its running task.\<close>

lemma running_last:
  assumes "task_attempts_ok t as" "tk_status t = TS_RUNNING" "a \<in> set as" "at_status a = TS_RUNNING"
  shows "a = last as" "as \<noteq> []"
proof -
  show "as \<noteq> []" using assms(3) by auto
  then have "a \<in> set (butlast as) \<or> a = last as"
    using assms(3) by (subst (asm) append_butlast_last_id [symmetric]) (auto simp del: append_butlast_last_id)
  then show "a = last as" using assms(1,4) by (auto simp: task_attempts_ok_def)
qed

lemma settle_last:
  assumes ok: "task_attempts_ok t as" and run: "tk_status t = TS_RUNNING" and dist: "distinct (map at_id as)"
    and a: "a \<in> set as" "at_status a = TS_RUNNING"
    and h: "at_attempt_number (h a) = at_attempt_number a" "at_status (h a) \<noteq> TS_RUNNING"
    and t': "tk_max_attempts t' = tk_max_attempts t" "tk_status t' \<noteq> TS_RUNNING"
      "tk_status t' = TS_READY \<or> tk_status t' = TS_LEASED \<Longrightarrow> length as < tk_max_attempts t"
  shows "task_attempts_ok t' (map (\<lambda>x. if at_id x = at_id a then h x else x) as)"
proof -
  have l: "a = last as" "as \<noteq> []" using running_last [OF ok run a] by simp_all
  obtain bs where as: "as = bs @ [a]" using l by (metis append_butlast_last_id)
  have "at_id x \<noteq> at_id a" if "x \<in> set bs" for x using dist that by (auto simp: as image_iff)
  then have m: "map (\<lambda>x. if at_id x = at_id a then h x else x) as = bs @ [h a]"
    by (auto simp: as intro!: map_idI)
  show ?thesis
    using ok t' h run unfolding m by (auto simp: task_attempts_ok_def as)
qed

lemma attempts_ok_settle:
  assumes ok: "attempts_ok d" and dist: "distinct (map tk_id (tasks d))"
    and t: "row_get tk_id tid (tasks d) = Some t" "same_task t (g t)" "tk_status t = TS_RUNNING"
    and a: "row_get at_id aid (attempts d) = Some a" "at_task_id a = tid" "at_status a = TS_RUNNING"
    and h: "\<And>x. at_id (h x) = at_id x \<and> at_task_id (h x) = at_task_id x \<and> at_attempt_number (h x) = at_attempt_number x"
      "\<And>x. at_status (h x) \<noteq> TS_RUNNING"
    and g: "tk_status (g t) \<noteq> TS_RUNNING" "tk_status (g t) \<noteq> TS_LEASED"
      "tk_status (g t) = TS_READY \<Longrightarrow> at_attempt_number a < tk_max_attempts t"
    and d': "tasks d' = row_upd tk_id tid g (tasks d) @ nt" "attempts d' = row_upd at_id aid h (attempts d)"
    and nt: "\<forall>n\<in>set nt. tk_id n \<notin> tk_id ` set (tasks d) \<and> task_attempts_ok n []"
  shows "attempts_ok d'"
proof -
  let ?H = "\<lambda>x. if at_id x = aid then h x else x" and ?as = "task_attempts d tid"
  have key: "at_id a = aid" using a(1) by (rule row_get_SomeE)
  have ain: "a \<in> set (attempts d)" using row.get_SomeD [OF a(1)] by simp
  have dista: "distinct (map at_id (attempts d))" using ok by (simp add: attempts_ok_def)
  have aas: "a \<in> set ?as" using ain a(2) by (simp add: task_attempts_def)
  have tok: "task_attempts_ok t ?as" using ok row.get_SomeD [OF t(1)] by (auto simp: attempts_ok_def)
  have l: "?as \<noteq> []" "a = last ?as" using running_last [OF tok t(3) aas a(3)] by simp_all
  have nums: "map at_attempt_number ?as = [1..<Suc (length ?as)]" using tok by (simp add: task_attempts_ok_def)
  have "at_attempt_number a = last (map at_attempt_number ?as)" using l by (simp add: last_map)
  then have num: "at_attempt_number a = length ?as" using l(1) unfolding nums by (cases ?as) simp_all
  have "task_attempts_ok (g t) (map ?H ?as)"
    unfolding key [symmetric]
    by (rule settle_last [OF tok t(3) _ aas a(3)])
      (use dista t(2) h g num in \<open>auto simp: task_attempts_def distinct_map_filter same_task_def\<close>)
  moreover have "at_task_id x = tid" if "x \<in> set (attempts d)" "at_id x = aid" for x
    using get_only [OF dista a(1) that] a(2) by simp
  ultimately show ?thesis
    by (intro attempts_okI [where H = ?H and na = "[]", OF ok dist t(1,2) d'(1) nt])
      (use h dista in \<open>auto simp: d'(2) row_upd_def\<close>)
qed

section \<open>The handlers keep the invariant\<close>

lemma db_ok_dist: "db_ok d \<Longrightarrow> distinct (map tk_id (tasks d))"
  by (simp add: db_ok_def)

lemma reclaim_one_attempts:
  assumes "reclaim_one cf now wk t d = Inr d'"
  shows "attempts d' = (if tk_status t = TS_LEASED then attempts d else
    (case running_attempt_of d (tk_id t) of None \<Rightarrow> attempts d
     | Some a \<Rightarrow> row_upd at_id (at_id a) (time_out_attempt now) (attempts d)))"
proof -
  have "running_attempt_of (upd_task i g d) j = running_attempt_of d j" for i g j
    by (simp add: running_attempt_of_def)
  then show ?thesis using assms
    by (cases "tk_status t = TS_LEASED"; cases "running_attempt_of d (tk_id t)")
      (auto simp: reclaim_one_def tx_simps Let_def transition_frame)
qed

lemma reclaim_one_attempts_ok:
  assumes ok: "db_ok d" "attempts_ok d" and t: "t \<in> set (tasks d)" "tk_status t \<in> {TS_LEASED, TS_RUNNING}"
    and run: "reclaim_one cf now wk t d = Inr d'"
  shows "attempts_ok d'"
proof -
  note get = db_ok_task(1) [OF ok(1) t(1)] and dist = db_ok_dist [OF ok(1)]
    and tks = reclaim_one_tables [OF ok(1) t(1) run] and att = reclaim_one_attempts [OF run]
  show ?thesis
  proof (cases "tk_status t = TS_LEASED")
    case True
    show ?thesis
      by (rule attempts_ok_tasks [OF ok(2) dist get, of reclaimed d' "[]"])
        (use True tks att in \<open>auto simp: task_attempts_ok_def reclaimed_def same_task_def\<close>)
  next
    case False
    then have run: "tk_status t = TS_RUNNING" using t(2) by simp
    have tok: "task_attempts_ok t (task_attempts d (tk_id t))" using ok(2) t(1) by (simp add: attempts_ok_def)
    then obtain b where "b \<in> set (task_attempts d (tk_id t))" "at_status b = TS_RUNNING"
      using run last_in_set by (fastforce simp: task_attempts_ok_def)
    then have "running_attempt_of d (tk_id t) \<noteq> None"
      by (auto simp: running_attempt_of_def last_by_None_iff task_attempts_def)
    then obtain a where a: "running_attempt_of d (tk_id t) = Some a" by blast
    have aP: "a \<in> set (attempts d)" "at_task_id a = tk_id t" "at_status a = TS_RUNNING"
      using last_by_SomeD [OF a [unfolded running_attempt_of_def]] by auto
    have geta: "row_get at_id (at_id a) (attempts d) = Some a"
      by (rule row.get_unique) (use ok(2) aP in \<open>simp_all add: attempts_ok_def\<close>)
    show ?thesis
      by (rule attempts_ok_settle [OF ok(2) dist get _ run geta aP(2,3), of reclaimed "time_out_attempt now" d' "[]"])
        (use False tks att a run in \<open>simp_all add: time_out_attempt_def\<close>)
  qed
qed

text \<open>What reclaiming one task keeps, reclaiming all expired ones keeps.\<close>

lemma reclaim_all_keeps:
  assumes "db_ok d" "P d" "set ts \<subseteq> set (tasks d)" "distinct (map tk_id ts)"
    "\<forall>t\<in>set ts. tk_status t \<in> {TS_LEASED, TS_RUNNING}" "reclaim_all cf now wk ts d = Inr d'"
    and keep: "\<And>d d1 t. db_ok d \<Longrightarrow> P d \<Longrightarrow> t \<in> set (tasks d) \<Longrightarrow> tk_status t \<in> {TS_LEASED, TS_RUNNING} \<Longrightarrow>
      reclaim_one cf now wk t d = Inr d1 \<Longrightarrow> P d1"
  shows "P d'"
  using assms(1-6)
proof (induction ts arbitrary: d)
  case (Cons t ts)
  have t: "t \<in> set (tasks d)" "tk_status t \<in> {TS_LEASED, TS_RUNNING}" using Cons.prems by simp_all
  obtain d1 where d1: "reclaim_one cf now wk t d = Inr d1" "reclaim_all cf now wk ts d1 = Inr d'"
    using Cons.prems(6) by (auto simp: tx_simps)
  have "x \<in> set (tasks d1)" if x: "x \<in> set ts" for x
  proof -
    have "tk_id t \<notin> tk_id ` set ts" using Cons.prems(4) by simp
    with imageI [OF x, of tk_id] have "tk_id x \<noteq> tk_id t" by metis
    moreover have "x \<in> set (tasks d)" using x Cons.prems(3) by auto
    ultimately show ?thesis
      unfolding reclaim_one_tables [OF Cons.prems(1) t(1) d1(1)] row.set_upd by (intro image_eqI [of _ _ x]) simp_all
  qed
  then show ?case
    using Cons.IH [OF wf_step_db_ok [OF Cons.prems(1) reclaim_one_step [OF Cons.prems(1) t d1(1)]]
        keep [OF Cons.prems(1,2) t d1(1)]] Cons.prems(4,5) d1(2) by auto
qed simp

lemma reclaim_keeps:
  assumes ok: "db_ok d" "P d" and run: "reclaim_expired_tasks cf en wk d = Inr (n, d')"
    and keep: "\<And>d d1 t. db_ok d \<Longrightarrow> P d \<Longrightarrow> t \<in> set (tasks d) \<Longrightarrow> tk_status t \<in> {TS_LEASED, TS_RUNNING} \<Longrightarrow>
      reclaim_one cf (en_now en 0) wk t d = Inr d1 \<Longrightarrow> P d1"
  shows "P d'"
proof -
  let ?ts = "filter (lease_expired (en_now en 0)) (tasks d)"
  have all: "reclaim_all cf (en_now en 0) wk ?ts d = Inr d'"
    using run by (auto simp: reclaim_expired_tasks_def tx_simps Let_def)
  have ts: "set ?ts \<subseteq> set (tasks d)" "distinct (map tk_id ?ts)" "\<forall>t\<in>set ?ts. tk_status t \<in> {TS_LEASED, TS_RUNNING}"
    using ok(1) by (auto simp: db_ok_def distinct_map_filter lease_expired_def)
  show ?thesis by (rule reclaim_all_keeps [where P = P, OF ok ts all keep])
qed

lemma reclaim_attempts_ok:
  assumes "db_ok d" "attempts_ok d" "reclaim_expired_tasks cf en wk d = Inr (n, d')"
  shows "attempts_ok d'"
  by (rule reclaim_keeps [where P = attempts_ok, OF assms reclaim_one_attempts_ok])

lemma lease_attempts_ok:
  assumes ok: "db_ok d" "attempts_ok d" and run: "lease_next_task cf en wk wid d = Inr (r, d')"
  shows "attempts_ok d'"
proof -
  let ?P = "\<lambda>t. tk_status t = TS_READY \<and> (case wid of None \<Rightarrow> True | Some i \<Rightarrow> tk_workflow_id t = i)"
  show ?thesis
  proof (cases "first_by (\<lambda>t. (tk_created_at t, tk_position t)) ?P (tasks d)")
    case None
    then show ?thesis using run ok by (auto simp: lease_next_task_def tx_simps)
  next
    case (Some t)
    then have t: "t \<in> set (tasks d)" "tk_status t = TS_READY" using first_by_SomeD [OF Some] by auto
    show ?thesis
      by (rule attempts_ok_tasks [OF ok(2) db_ok_dist [OF ok(1)] db_ok_task(1) [OF ok(1) t(1)],
          where nt = "[]" and g = "\<lambda>t. t\<lparr>tk_status := TS_LEASED, tk_lease_owner := Some wk,
            tk_lease_token := Some (en_uuid en 0),
            tk_lease_expires_at := Some (en_now en 1 + seconds (cf_lease_seconds cf))\<rparr>"])
        (use run Some t in \<open>auto simp: lease_next_task_def tx_simps Let_def same_task_def task_attempts_ok_def\<close>)
  qed
qed

lemma heartbeat_attempts_ok:
  assumes ok: "db_ok d" "attempts_ok d" and run: "heartbeat_task cf en tid tok wk d = Inr (r, d')"
  shows "attempts_ok d'"
proof -
  obtain t where "row_get tk_id tid (tasks d) = Some t"
    and "tasks d' = row_upd tk_id tid (\<lambda>t. t\<lparr>tk_lease_expires_at :=
      Some (en_now en 2 + seconds (cf_lease_seconds cf))\<rparr>) (tasks d) @ []" "attempts d' = attempts d"
    using run by (auto simp: heartbeat_task_def tx_simps Let_def)
  then show ?thesis
    by (intro attempts_ok_tasks [OF ok(2) db_ok_dist [OF ok(1)], where nt = "[]" and tid = tid and t = t and
        g = "\<lambda>t. t\<lparr>tk_lease_expires_at := Some (en_now en 2 + seconds (cf_lease_seconds cf))\<rparr>"])
      (auto simp: same_task_def task_attempts_ok_def)
qed

lemma prepare_attempts_ok:
  assumes ok: "db_ok d" "attempts_ok d" and fresh: "fresh_ids en d"
    and run: "prepare_execution cf en tid tok wk d = Inr (r, d')"
  shows "attempts_ok d'"
    and "r = Inr p \<Longrightarrow> (\<exists>a\<in>set (attempts d'). at_id a = px_attempt_id p \<and> at_task_id a = px_task_id p)"
proof -
  let ?aid = "en_uuid en 0"
  have "attempts_ok d' \<and> (r = Inr p \<longrightarrow>
      (\<exists>a\<in>set (attempts d'). at_id a = px_attempt_id p \<and> at_task_id a = px_task_id p))"
    using run
  proof (cases rule: prepare_execution_Inr)
    case (1 t w ag routed d2)
    note frame = route_attempt_frame [OF 1(6)]
    have new: "?aid \<notin> at_id ` set (attempts d)" using fresh by (simp add: fresh_ids_def)
    let ?a = "new_attempt ?aid tid (length (task_attempts d tid) + 1) ag"
    have d2: "attempts d2 = attempts d @ [?a]" by (simp add: frame row_add_def)
    have upd: "row_upd at_id ?aid h (attempts d2) = attempts d @ [h ?a]" for h
      using row_upd_fresh [OF new, of h] by (simp add: d2 row_upd_def new_attempt_def)
    have tok: "task_attempts_ok t (task_attempts d tid)"
      using ok(2) row.get_SomeD [OF 1(1)] by (auto simp: attempts_ok_def)
    have st: "tk_status t = TS_LEASED" using 1(3) by (simp add: validate_lease_ok)
    have main: "attempts_ok d'"
      if "tasks d' = row_upd tk_id tid g (tasks d)" "attempts d' = attempts d @ [b]" "same_task t (g t)"
        "at_id b = ?aid" "at_task_id b = tid" "at_attempt_number b = length (task_attempts d tid) + 1"
        "tk_status (g t) = TS_RUNNING \<and> at_status b = TS_RUNNING \<or>
         tk_status (g t) = TS_BLOCKED \<and> at_status b \<noteq> TS_RUNNING" for g b
      by (rule attempts_okI [OF ok(2) db_ok_dist [OF ok(1)] 1(1), where H = "\<lambda>a. a" and na = "[b]" and nt = "[]"])
        (use that tok st new ok(2) in \<open>auto simp: task_attempts_ok_def same_task_def attempts_ok_def\<close>)
    show ?thesis using 1(7)
    proof (cases rule: dispatch_routed_cases)
      case (routed profile p')
      let ?h = "\<lambda>a. a\<lparr>at_provider := pp_provider_id profile, at_model := pp_model_version profile\<rparr>"
      have att: "attempts d' = attempts d @ [?h ?a]" using upd [of ?h] by (simp add: routed)
      have "attempts_ok d'"
        by (rule main [OF _ att, where g = "\<lambda>t. t\<lparr>tk_status := TS_RUNNING, tk_lease_expires_at :=
            Some (en_now en 4 + seconds (cf_lease_seconds cf))\<rparr>"])
          (simp_all add: routed frame 1(8) row_upd_comp same_task_def new_attempt_def)
      then show ?thesis using routed att by (auto simp: new_attempt_def 1(8))
    next
      case blocked
      note fr = transition_frame [OF blocked(2) [unfolded record_routing_block_def]]
      let ?h = "\<lambda>a. a\<lparr>at_status := TS_FAILED, at_provider := ''none'', at_model := ''none'',
          at_error_code := Some ''RoutingBlocked'',
          at_output := [(''error'', JStr ''no policy-eligible provider'')], at_completed_at := Some (en_now en 4)\<rparr>"
      have "attempts_ok d'"
        by (rule main [where b = "?h ?a" and g = "\<lambda>t. (clear_lease (t\<lparr>tk_status := TS_RUNNING\<rparr>))\<lparr>tk_status := TS_BLOCKED\<rparr>"])
          (use upd [of ?h] in \<open>simp_all add: fr frame 1(8) row_upd_comp same_task_def new_attempt_def\<close>)
      then show ?thesis using blocked by simp
    qed
  qed
  then show "attempts_ok d'" "r = Inr p \<Longrightarrow> (\<exists>a\<in>set (attempts d'). at_id a = px_attempt_id p \<and> at_task_id a = px_task_id p)"
    by auto
qed

text \<open>The prepared execution's attempt belongs to its task.\<close>

definition attempt_for :: "prepared_execution \<Rightarrow> db \<Rightarrow> bool" where
  "attempt_for p d \<longleftrightarrow> (\<exists>a\<in>set (attempts d). at_id a = px_attempt_id p \<and> at_task_id a = px_task_id p)"

lemma finalize_attempt:
  assumes "attempts_ok d" "attempt_for p d" "finalize_guard now p d = Inr (t, a, w)"
  shows "at_task_id a = tk_id t" "row_get at_id (at_id a) (attempts d) = Some a"
proof -
  have g: "row_get tk_id (px_task_id p) (tasks d) = Some t" "row_get at_id (px_attempt_id p) (attempts d) = Some a"
    using assms(3) by (auto simp: finalize_guard_Inr)
  obtain b where b: "b \<in> set (attempts d)" "at_id b = px_attempt_id p" "at_task_id b = px_task_id p"
    using assms(2) by (auto simp: attempt_for_def)
  have "distinct (map at_id (attempts d))" using assms(1) by (simp add: attempts_ok_def)
  from get_only [OF this g(2) b(1,2)] show "at_task_id a = tk_id t"
    using b(3) row_get_SomeE [OF g(1)] by simp
  show "row_get at_id (at_id a) (attempts d) = Some a" using g(2) row_get_SomeE [OF g(2)] by simp
qed

definition failed_attempt :: "instant \<Rightarrow> error \<Rightarrow> task_attempt \<Rightarrow> task_attempt" where
  "failed_attempt now exc a = a\<lparr>at_status := TS_FAILED,
     at_model := (if at_model a = ''pending'' then ''unknown'' else at_model a),
     at_error_code := Some (error_name exc), at_output := failure_output exc, at_completed_at := Some now\<rparr>"

lemma failed_attempt_simps [simp]:
  "at_id (failed_attempt now exc a) = at_id a" "at_task_id (failed_attempt now exc a) = at_task_id a"
  "at_attempt_number (failed_attempt now exc a) = at_attempt_number a" "at_status (failed_attempt now exc a) = TS_FAILED"
  "at_provider (failed_attempt now exc a) = at_provider a"
  by (simp_all add: failed_attempt_def)

lemma record_attempt_failure_attempts:
  "record_attempt_failure cf now wid t a exc wk d = Inr d' \<Longrightarrow>
   attempts d' = row_upd at_id (at_id a) (failed_attempt now exc) (attempts d)"
  by (auto simp: record_attempt_failure_def failed_attempt_def [abs_def] Let_def transition_frame split: if_splits)

lemma failure_attempts_ok:
  assumes ok: "db_ok d" "attempts_ok d" and p: "prepared_for p d" "attempt_for p d"
    and run: "finalize_execution_failure cf en p exc v l d = Inr (r, d')"
  shows "attempts_ok d'"
proof -
  obtain t a w d1 where g: "finalize_guard (en_now en 0) p d = Inr (t, a, w)"
    and rec: "record_attempt_failure cf (en_now en 2) (wf_id w) t a exc (px_worker_id p) d1 = Inr d'"
    and d1: "tasks d1 = tasks d" "attempts d1 = attempts d"
    using run by (auto simp: finalize_execution_failure_def tx_simps Let_def record_provider_observation_def)
  note t = finalize_guard_facts [OF ok(1) p(1) g] and a = finalize_attempt [OF ok(2) p(2) g]
  note att = record_attempt_failure_attempts [OF rec, unfolded d1(2)]
  note tks = record_attempt_failure_tables(1) [OF rec, unfolded d1(1)]
  show ?thesis
    by (rule attempts_ok_settle [OF ok(2) db_ok_dist [OF ok(1)] t(1) _ t(2) a(2,1) t(7),
        where h = "failed_attempt (en_now en 2) exc" and nt = "[]"])
      (use att tks in \<open>auto simp: same_task_def split: if_splits\<close>)
qed

lemma success_attempts_ok:
  assumes ok: "db_ok d" "attempts_ok d" and p: "prepared_for p d" "attempt_for p d" and fresh: "fresh_ids en d"
    and run: "finalize_execution_success cf en p result execution cand l d = Inr (r, d')"
  shows "attempts_ok d'"
  using run
proof (cases rule: finalize_success_Inr)
  case (1 t a w d6)
  note t = finalize_guard_facts [OF ok(1) p(1) 1(1)] and a = finalize_attempt [OF ok(2) p(2) 1(1)]
  have new: "en_uuid en 0 \<notin> tk_id ` set (tasks d)" using fresh by (simp add: fresh_ids_def)
  have "\<exists>nt. tasks d' = tasks d6 @ nt \<and> attempts d' = attempts d6 \<and>
      (\<forall>n\<in>set nt. tk_id n \<notin> tk_id ` set (tasks d) \<and> task_attempts_ok n [])"
  proof (cases "next_kind (px_task_kind p)")
    case (Some k)
    from advance_next(2,3) [OF 1(2) Some] show ?thesis using new by (auto simp: scheduled_def quiet_def)
  next
    case None
    then have k: "px_task_kind p = TK_CODE_REVIEW" by (cases "px_task_kind p") auto
    from advance_last(2,3) [OF 1(2) [unfolded k]] show ?thesis by (auto simp: quiet_def intro: exI [of _ "[]"])
  qed
  then obtain nt where nt: "tasks d' = tasks d6 @ nt" "attempts d' = attempts d6"
      "\<forall>n\<in>set nt. tk_id n \<notin> tk_id ` set (tasks d) \<and> task_attempts_ok n []" by blast
  show ?thesis
    by (rule attempts_ok_settle [OF ok(2) db_ok_dist [OF ok(1)] t(1) _ t(2) a(2,1) t(7) _ _ _ _ _
        nt(1) [unfolded 1(4)] nt(2) [unfolded 1(5)] nt(3)])
      (simp_all add: same_task_def)
qed

lemma complete_attempts_ok:
  assumes "db_ok d" "attempts_ok d" "prepared_for p d" "attempt_for p d" "fresh_ids en d"
    "complete_execution submit execute cf en p l d = Inr (r, d')"
  shows "attempts_ok d'"
proof (cases "run_provider submit execute p")
  case (Inl x)
  then show ?thesis using assms(6) failure_attempts_ok [OF assms(1-4)]
    by (cases x) (simp add: complete_execution_def)
next
  case (Inr x)
  then show ?thesis using assms(6) success_attempts_ok [OF assms(1-5)]
    by (cases x) (simp add: complete_execution_def)
qed

section \<open>Frames of the remaining handlers\<close>

lemma born_attempts_ok:
  assumes "attempts_ok d" "born d d'" "attempts d' = attempts d"
  shows "attempts_ok d'"
proof -
  obtain nt where "tasks d' = tasks d @ nt" "\<forall>n\<in>set nt. tk_id n \<notin> tk_id ` set (tasks d) \<and> task_attempts_ok n []"
    using assms(2) unfolding born_def by force
  then show ?thesis using attempts_ok_new [OF assms(1)] assms(3) by blast
qed

lemma create_quiet:
  assumes "create_workflow cf en rq title descr key cx risk dc repo sig d = Inr (r, d')"
  shows "quiet d d'"
proof (cases "find_idempotency rq ''create_workflow'' key d")
  case (Some x)
  then show ?thesis using assms
    by (auto simp: create_workflow_def tx_simps Let_def quiet_refl split: option.split_asm)
next
  case None
  then obtain w ir st where "admit_workflow cf en w ir st d = Inr d'"
    using assms by (auto simp: create_workflow_def Let_def tx_simps)
  then show ?thesis
    by (auto simp: admit_workflow_def Let_def tx_simps quiet_def transition_frame schedule_task_Inr split: if_splits)
qed

lemma lease_quiet: "lease_next_task cf en wk wid d = Inr (r, d') \<Longrightarrow> quiet d d'"
  by (auto simp: lease_next_task_def tx_simps Let_def quiet_def split: option.splits)

lemma heartbeat_quiet: "heartbeat_task cf en tid tok wk d = Inr (r, d') \<Longrightarrow> quiet d d'"
  by (auto simp: heartbeat_task_def tx_simps Let_def quiet_def)

lemma cancel_quiet: "cancel_workflow cf en wid pid d = Inr (r, d') \<Longrightarrow> quiet d d'"
  by (auto simp: cancel_workflow_def tx_simps Let_def quiet_def transition_frame)

lemma apply_disposition_effect:
  assumes "apply_disposition cf en wid ac decision ex d = Inr d'"
  shows "quiet d d'"
    "\<exists>nt. tasks d' = tasks d @ nt \<and> (nt = [] \<or> (\<exists>c k pos. nt = [new_task (en_uuid en 1) c wid k pos]))"
  using assms
  by (cases decision; auto simp: apply_disposition_def tx_simps quiet_def transition_frame schedule_task_Inr
      row_add_def intro: exI [of _ "[]"])+

lemma disposition_frame:
  assumes run: "disposition_workflow cf en wid ac decision rationale d = Inr (r, d')"
  shows "attempts d' = attempts d" "approvals d' = approvals d" "principals d' = principals d"
    "reconciliations d' = reconciliations d"
    "\<exists>nt. tasks d' = tasks d @ nt \<and> (nt = [] \<or> (\<exists>c k pos. nt = [new_task (en_uuid en 1) c wid k pos]))"
    "same_outer d d'"
proof -
  obtain ex d1 where "apply_disposition cf en wid ac decision ex d1 = Inr d'"
    and d1: "attempts d1 = attempts d" "approvals d1 = approvals d" "principals d1 = principals d"
      "reconciliations d1 = reconciliations d" "tasks d1 = tasks d" "same_outer d d1"
    using run by (auto simp: disposition_workflow_def tx_simps Let_def)
  from apply_disposition_effect [OF this(1)] d1
  show "attempts d' = attempts d" "approvals d' = approvals d" "principals d' = principals d"
    "reconciliations d' = reconciliations d"
    "\<exists>nt. tasks d' = tasks d @ nt \<and> (nt = [] \<or> (\<exists>c k pos. nt = [new_task (en_uuid en 1) c wid k pos]))"
    "same_outer d d'"
    by (simp_all add: quiet_def)
qed

lemma apply_reconciliation_effect:
  assumes "apply_reconciliation cf en wid k ac decision ex d = Inr d'"
  shows "quiet d d'"
    "\<exists>nt. tasks d' = tasks d @ nt \<and> (nt = [] \<or> (\<exists>c pos. nt = [new_task (en_uuid en 1) c wid k pos]))"
  using assms
  by (cases decision; auto simp: apply_reconciliation_def tx_simps quiet_def transition_frame schedule_task_Inr
      row_add_def intro: exI [of _ "[]"])+

lemma record_approval_frame:
  assumes "record_approval cf a ta d = Inr d'"
  shows "attempts d' = attempts d" "principals d' = principals d" "reconciliations d' = reconciliations d"
    "tasks d' = tasks d" "approvals d' = approvals d @ [a]" "same_outer d d'"
  using assms by (auto simp: record_approval_def Let_def transition_frame row_add_def split: if_splits)

lemma approve_frame:
  assumes "approve cf en wid ap action target revision decision rationale mins env_id pd aid d = Inr (r, d')"
  shows "attempts d' = attempts d" "principals d' = principals d" "reconciliations d' = reconciliations d"
    "tasks d' = tasks d" "same_outer d d'"
  using assms by (auto elim!: approve_Inr simp: record_approval_frame)

lemma disposition_attempts_ok:
  assumes ok: "attempts_ok d" and fresh: "fresh_ids en d"
    and run: "disposition_workflow cf en wid ac decision rationale d = Inr (r, d')"
  shows "attempts_ok d'"
proof -
  obtain nt where "tasks d' = tasks d @ nt" "nt = [] \<or> (\<exists>c k pos. nt = [new_task (en_uuid en 1) c wid k pos])"
    using disposition_frame(5) [OF run] by blast
  then show ?thesis
    by (intro attempts_ok_new [OF ok _ _ disposition_frame(1) [OF run], of nt])
      (use fresh in \<open>auto simp: fresh_ids_def\<close>)
qed

lemma reconcile_attempts_ok:
  assumes ok: "db_ok d" "attempts_ok d" and fresh: "fresh_ids en d"
    and run: "reconcile_execution cf en wid tid ac decision rationale d = Inr (r, d')"
  shows "attempts_ok d'"
  using run
proof (cases rule: reconcile_execution_Inr)
  case (1 p w t a ex d1 d3)
  obtain nt where nt: "tasks d3 = tasks d1 @ nt" "nt = [] \<or> (\<exists>c pos. nt = [new_task (en_uuid en 1) c wid (tk_kind t) pos])"
    using apply_reconciliation_effect(2) [OF 1(9)] by blast
  have att: "attempts d' = attempts d" using apply_reconciliation_effect(1) [OF 1(9)] 1(12,17) by (simp add: quiet_def)
  show ?thesis
    by (rule attempts_ok_tasks [OF ok(2) db_ok_dist [OF ok(1)] 1(4), where nt = nt
        and g = "\<lambda>t. t\<lparr>tk_status := TS_RECONCILED\<rparr>"])
      (use nt fresh 1(6) in \<open>auto simp: same_task_def att 1(11,16) fresh_ids_def task_attempts_ok_def\<close>)
qed

lemma cancel_attempts_ok:
  assumes ok: "attempts_ok d" and run: "cancel_workflow cf en wid pid d = Inr (r, d')"
  shows "attempts_ok d'"
proof -
  have step: "attempts_ok (upd_task i (\<lambda>t. t\<lparr>tk_status := TS_CANCELLED\<rparr>) x)" if "attempts_ok x" for i x
  proof -
    have "task_attempts_ok (t\<lparr>tk_status := TS_CANCELLED\<rparr>) as" if "task_attempts_ok t as" for t as
      using that by (simp add: task_attempts_ok_def)
    moreover have "task_attempts (upd_task i (\<lambda>t. t\<lparr>tk_status := TS_CANCELLED\<rparr>) x) = task_attempts x"
      by (simp add: task_attempts_def fun_eq_iff)
    moreover have "tk_id ` set (row_upd tk_id i (\<lambda>t. t\<lparr>tk_status := TS_CANCELLED\<rparr>) (tasks x)) = tk_id ` set (tasks x)"
      unfolding set_map [symmetric] by (subst row.keys_upd) simp_all
    ultimately show ?thesis using that by (auto simp: attempts_ok_def row.set_upd)
  qed
  have deact: "attempts_ok (deactivate_task_grant i x)" if "attempts_ok x" for i x
    by (rule attempts_ok_cong [OF _ _ that]) simp_all
  have loop: "attempts_ok (cancel_tasks ts x)" if "attempts_ok x" for ts x
    using that by (induction ts arbitrary: x) (auto simp: cancel_tasks_def intro!: step deact)
  obtain d1 ac re where tr: "transition cf wid WS_CANCELLED ac re [] d = Inr d1"
    and d': "d' = cancel_tasks (workflow_tasks d1 wid) d1"
    using run by (auto simp: cancel_workflow_def tx_simps Let_def)
  have "attempts_ok d1" by (rule attempts_ok_cong [OF _ _ ok]) (simp_all add: transition_frame [OF tr])
  then show ?thesis unfolding d' by (rule loop)
qed

end
