(* ===== verification/Workflow_Service.thy ===== *)
theory Workflow_Service
  imports Workflow_Attempts
begin

text \<open>
  The workflow service as a whole: any number of workers, operators and requesters call its handlers in
  any order.  A state is the database and the executions in flight between their two transactions; a
  step is one committed call (a call that raises changes nothing), or a worker that dies.  What holds of
  every reachable state: the stage discipline of \<open>Lifecycle\<close>, the attempt discipline of
  \<open>Workflow_Attempts\<close>, and that a workflow past the merge gate was approved by a human.
\<close>

section \<open>Frames: what the task handlers leave alone\<close>

definition steady :: "db \<Rightarrow> db \<Rightarrow> bool" where
  "steady d d' \<longleftrightarrow> approvals d' = approvals d \<and> principals d' = principals d \<and> same_outer d d'"

lemma steady_trans: "steady d d1 \<Longrightarrow> steady d1 d' \<Longrightarrow> steady d d'"
  by (simp add: steady_def)

lemma quiet_steady: "quiet d d' \<Longrightarrow> steady d d'"
  by (simp add: quiet_def steady_def)

lemma prepare_steady:
  assumes "prepare_execution cf en tid tok wk d = Inr (r, d')"
  shows "steady d d'"
  using assms
proof (cases rule: prepare_execution_Inr)
  case (1 t w ag routed d2)
  note frame = route_attempt_frame [OF 1(6)]
  show ?thesis using 1(7)
  proof (cases rule: dispatch_routed_cases)
    case (routed profile p)
    then show ?thesis by (simp add: steady_def frame)
  next
    case blocked
    note fr = transition_frame [OF blocked(2) [unfolded record_routing_block_def]]
    then show ?thesis by (simp add: steady_def frame)
  qed
qed

lemma complete_steady:
  assumes "complete_execution submit execute cf en p l d = Inr (r, d')"
  shows "steady d d'"
proof (cases "run_provider submit execute p")
  case (Inl x)
  then show ?thesis using assms
    by (cases x) (auto simp: complete_execution_def finalize_execution_failure_def record_attempt_failure_def tx_simps
        Let_def steady_def transition_frame record_provider_observation_def split: if_splits)
next
  case (Inr x)
  obtain result execution cand where x: "x = (result, execution, cand)" by (cases x)
  have "finalize_execution_success cf en p result execution cand l d = Inr (r, d')"
    using assms Inr x by (simp add: complete_execution_def)
  then show ?thesis
  proof (cases rule: finalize_success_Inr)
    case (1 t a w d6)
    have "quiet d6 d'"
      using advance_next(3) [OF 1(2)] advance_last(3) [of cf _ _ _ "wf_id w" d6 d'] 1(2)
      by (cases "px_task_kind p") auto
    then show ?thesis using 1 by (simp add: quiet_def steady_def)
  qed
qed

lemma reclaim_one_steady: "reclaim_one cf now wk t d = Inr d' \<Longrightarrow> steady d d'"
  by (cases "tk_status t = TS_LEASED"; cases "running_attempt_of d (tk_id t)")
    (auto simp: reclaim_one_def tx_simps Let_def transition_frame steady_def split: option.splits)

lemma reclaim_all_steady: "reclaim_all cf now wk ts d = Inr d' \<Longrightarrow> steady d d'"
proof (induction ts arbitrary: d)
  case (Cons t ts)
  then obtain d1 where "reclaim_one cf now wk t d = Inr d1" "reclaim_all cf now wk ts d1 = Inr d'"
    by (auto simp: tx_simps)
  then show ?case using Cons.IH reclaim_one_steady steady_trans by blast
qed (simp add: steady_def)

lemma reclaim_steady: "reclaim_expired_tasks cf en wk d = Inr (n, d') \<Longrightarrow> steady d d'"
  by (auto simp: reclaim_expired_tasks_def tx_simps Let_def intro: reclaim_all_steady)

lemma disposition_steady: "disposition_workflow cf en wid ac decision rationale d = Inr (r, d') \<Longrightarrow> steady d d'"
  by (simp add: steady_def disposition_frame)

lemma reconcile_steady:
  assumes "reconcile_execution cf en wid tid ac decision rationale d = Inr (r, d')"
  shows "steady d d'"
  using assms
proof (cases rule: reconcile_execution_Inr)
  case (1 p w t a ex d1 d3)
  then show ?thesis using apply_reconciliation_effect(1) [OF 1(9)] by (simp add: quiet_def steady_def)
qed

section \<open>The human gate\<close>

definition after_approval :: "workflow_state \<Rightarrow> bool" where
  "after_approval s \<longleftrightarrow> s \<in> {WS_APPROVED, WS_MERGED, WS_AWAITING_DEPLOYMENT_APPROVAL, WS_DEPLOYED,
     WS_ROLLBACK_REQUIRED, WS_ROLLED_BACK}"

definition human_approver :: "db \<Rightarrow> ident \<Rightarrow> bool" where
  "human_approver d i \<longleftrightarrow> (\<exists>p. row_get pn_id i (principals d) = Some p \<and> pn_principal_type p = PT_HUMAN \<and>
     CAP_APPROVE_MERGE \<in> ROLE_CAPABILITIES (pn_role p))"

definition merge_approved :: "db \<Rightarrow> workflow \<Rightarrow> bool" where
  "merge_approved d w \<longleftrightarrow> (\<exists>a\<in>set (approvals d). ap_workflow_id a = wf_id w \<and> ap_action a = AA_MERGE \<and>
     ap_decision a = AD_APPROVED \<and> ap_revision a \<noteq> [] \<and> wf_candidate_revision w = Some (ap_revision a) \<and>
     human_approver d (ap_approver_id a))"

definition approved_ok :: "db \<Rightarrow> bool" where
  "approved_ok d \<longleftrightarrow> (\<forall>w\<in>set (workflows d). after_approval (wf_state w) \<longrightarrow> merge_approved d w)"

lemma delivered_pred: "delivered s' \<Longrightarrow> s' \<in> ALLOWED_TRANSITIONS s \<Longrightarrow> after_approval s"
  by (cases s) (auto simp: delivered_def after_approval_def)

lemma after_approval_step:
  assumes "lifecycle e (w, T) (w', T')" "e \<noteq> Ev_grant" "after_approval (wf_state w')"
  shows "after_approval (wf_state w) \<and> wf_candidate_revision w' = wf_candidate_revision w"
  using assms(1)
proof (cases rule: lifecycle.cases)
  case settle
  then show ?thesis using assms(3) by (cases "wf_state w") (auto simp: after_approval_def)
next
  case deliver
  then show ?thesis using delivered_pred by blast
qed (use assms(2,3) in \<open>auto simp: after_approval_def split: if_splits\<close>,
   (metis TASK_WORKFLOW_STATE_simps(2) past_review_def insert_iff)+)

lemma merge_approved_cong:
  "approvals d' = approvals d \<Longrightarrow> principals d' = principals d \<Longrightarrow> merge_approved d' w = merge_approved d w"
  by (simp add: merge_approved_def human_approver_def)

lemma merge_approved_same:
  "merge_approved d w \<Longrightarrow> wf_id w' = wf_id w \<Longrightarrow> wf_candidate_revision w' = wf_candidate_revision w \<Longrightarrow>
   merge_approved d w'"
  by (simp add: merge_approved_def)

lemma approved_ok_move:
  assumes ok: "db_ok d" "approved_ok d" and st: "any_step E d d'" "Ev_grant \<notin> E"
    "approvals d' = approvals d" "principals d' = principals d"
  shows "approved_ok d'"
  unfolding approved_ok_def
proof (intro ballI impI)
  fix w' assume w': "w' \<in> set (workflows d')" "after_approval (wf_state w')"
  obtain e v where step: "wf_step e v d d'" "e \<noteq> Ev_grant" using st(1,2) by (auto simp: any_step_def)
  have dist: "distinct (map wf_id (workflows d'))"
    using any_step_db_ok [OF ok(1) st(1)] by (simp add: db_ok_def)
  have get: "row_get wf_id (wf_id w') (workflows d') = Some w'" by (rule row.get_unique [OF dist w'(1)])
  have "\<exists>w\<in>set (workflows d). wf_id w = wf_id w' \<and> after_approval (wf_state w) \<and>
      wf_candidate_revision w' = wf_candidate_revision w"
  proof (cases "wf_id w' = v")
    case True
    then obtain w where w: "row_get wf_id v (workflows d) = Some w" "lifecycle e (w, wf_tasks d v) (w', wf_tasks d' v)"
      using step(1) get by (auto simp: wf_step_def)
    have "w \<in> set (workflows d)" "wf_id w = wf_id w'" using row.get_SomeD [OF w(1)] True by simp_all
    then show ?thesis using after_approval_step [OF w(2) step(2) w'(2)] by blast
  next
    case False
    then have "row_get wf_id (wf_id w') (workflows d) = Some w'" using step(1) get by (simp add: wf_step_def)
    then have "w' \<in> set (workflows d)" using row.get_SomeD by fast
    then show ?thesis using w'(2) by blast
  qed
  then obtain w where w: "w \<in> set (workflows d)" "wf_id w = wf_id w'" "after_approval (wf_state w)"
    "wf_candidate_revision w' = wf_candidate_revision w" by blast
  have "merge_approved d w" using ok(2) w(1,3) by (simp add: approved_ok_def)
  from merge_approved_same [OF this w(2) [symmetric] w(4)] have "merge_approved d w'" .
  then show "merge_approved d' w'" using st(3,4) merge_approved_cong [of d' d w'] by simp
qed

lemma approved_ok_step:
  "db_ok d \<Longrightarrow> approved_ok d \<Longrightarrow> any_step E d d' \<Longrightarrow> Ev_grant \<notin> E \<Longrightarrow> steady d d' \<Longrightarrow> approved_ok d'"
  by (rule approved_ok_move) (simp_all add: steady_def)

lemma reclaim_approved_ok:
  assumes "db_ok d" "approved_ok d" "reclaim_expired_tasks cf en wk d = Inr (n, d')"
  shows "approved_ok d'"
proof (rule reclaim_keeps [where P = approved_ok, OF assms])
  fix d d1 t
  assume "db_ok d" "approved_ok d" and t: "t \<in> set (tasks d)" "tk_status t \<in> {TS_LEASED, TS_RUNNING}"
    "reclaim_one cf (en_now en 0) wk t d = Inr d1"
  then show "approved_ok d1"
    using any_stepI [OF reclaim_one_step, of d t cf "en_now en 0" wk d1 "{Ev_renew, Ev_stop}"]
    by (intro approved_ok_step [of d "{Ev_renew, Ev_stop}" d1]) (auto intro: reclaim_one_steady)
qed

lemma approved_ok_core:
  assumes "approved_ok d" "workflows d' = workflows d" "principals d' = principals d"
    "set (approvals d) \<subseteq> set (approvals d')"
  shows "approved_ok d'"
  using assms by (force simp: approved_ok_def merge_approved_def human_approver_def)

lemma born_approved_ok:
  assumes "approved_ok d" "born d d'" "steady d d'"
  shows "approved_ok d'"
proof -
  obtain w where w: "workflows d' = workflows d @ [w]" "wf_state w \<in> {WS_BLOCKED, WS_PLANNING}"
    using assms(2) unfolding born_def by blast
  then show ?thesis
    using assms(1,3) merge_approved_cong [of d' d] by (auto simp: approved_ok_def steady_def after_approval_def)
qed

lemma approve_approved_ok:
  assumes ok: "db_ok d" "approved_ok d"
    and run: "approve cf en wid ap action target revision decision rationale mins env_id pd aid d = Inr (r, d')"
  shows "approved_ok d'"
  using run
proof (cases rule: approve_Inr)
  case (1 p w pv)
  let ?a = "new_approval en wid ap action target revision decision rationale mins env_id pd aid pv"
  note fr = record_approval_frame [OF 1(7)]
  show ?thesis
  proof (cases "action = AA_MERGE \<or> action = AA_DEPLOY \<and> decision = AD_REJECTED")
    case False
    then have "workflows d' = workflows d" using 1(7) by (auto simp: record_approval_def Let_def split: if_splits)
    then show ?thesis using fr by (intro approved_ok_core [OF ok(2)]) auto
  next
    case True
    define s where "s = (if decision = AD_APPROVED then WS_APPROVED else WS_REJECTED)"
    obtain d1 re ex where tr: "transition cf wid s ap re ex d1 = Inr d'" and d1: "workflows d1 = workflows d"
      using 1(7) True by (auto simp: record_approval_def Let_def s_def split: if_splits)
    obtain n where wfs: "workflows d' = row_upd wf_id wid (\<lambda>x. x\<lparr>wf_state := s, wf_version := n\<rparr>) (workflows d)"
      using transition_effect(1) [OF tr] by (auto simp: moved_def d1)
    have dist: "distinct (map wf_id (workflows d))" using ok(1) by (simp add: db_ok_def)
    show ?thesis unfolding approved_ok_def
    proof (intro ballI impI)
      fix v' assume v': "v' \<in> set (workflows d')" "after_approval (wf_state v')"
      then obtain v where v: "v \<in> set (workflows d)"
        "v' = (if wf_id v = wid then v\<lparr>wf_state := s, wf_version := n\<rparr> else v)"
        unfolding wfs row.set_upd by blast
      show "merge_approved d' v'"
      proof (cases "wf_id v = wid")
        case False
        then have "merge_approved d v'" using v v'(2) ok(2) by (simp add: approved_ok_def)
        then show ?thesis using fr(2,5) by (auto simp: merge_approved_def human_approver_def)
      next
        case eq: True
        then have vw: "v = w" using get_only [OF dist 1(2) v(1)] by simp
        have "s = WS_APPROVED" using v'(2) v(2) eq by (auto simp: s_def after_approval_def split: if_splits)
        then have dec: "decision = AD_APPROVED" by (auto simp: s_def split: if_splits)
        then have act: "action = AA_MERGE" using True by auto
        have "wf_candidate_revision w = Some revision \<and> revision \<noteq> []"
          using 1(6) by (auto simp: act check_approval_def check_merge_approval_def missing_def tx_simps)
        moreover have "human_approver d' ap"
          using 1(1) by (auto simp: human_approver_def authorize_Inr_iff act fr(2))
        ultimately show ?thesis
          unfolding merge_approved_def by (intro bexI [of _ ?a]) (simp_all add: fr(5) v(2) eq vw [symmetric] dec act)
      qed
    qed
  qed
qed

section \<open>Attempts persist\<close>

definition attempt_keys :: "db \<Rightarrow> (ident \<times> ident) set" where
  "attempt_keys d = (\<lambda>a. (at_id a, at_task_id a)) ` set (attempts d)"

lemma attempt_for_iff: "attempt_for p d \<longleftrightarrow> (px_attempt_id p, px_task_id p) \<in> attempt_keys d"
  by (force simp: attempt_for_def attempt_keys_def)

lemma attempt_keys_upd:
  assumes "attempts d' = row_upd at_id i h (attempts d)" "\<And>a. at_id (h a) = at_id a \<and> at_task_id (h a) = at_task_id a"
  shows "attempt_keys d' = attempt_keys d"
proof -
  have "(\<lambda>a. (at_id a, at_task_id a)) ` set (attempts d') =
      (\<lambda>a. (at_id (if at_id a = i then h a else a), at_task_id (if at_id a = i then h a else a))) ` set (attempts d)"
    unfolding assms(1) row.set_upd by (simp only: image_image)
  also have "\<dots> = (\<lambda>a. (at_id a, at_task_id a)) ` set (attempts d)" using assms(2) by (intro image_cong) simp_all
  finally show ?thesis by (simp add: attempt_keys_def)
qed

lemma prepare_keys:
  assumes "prepare_execution cf en tid tok wk d = Inr (r, d')"
  shows "attempt_keys d \<subseteq> attempt_keys d'"
  using assms
proof (cases rule: prepare_execution_Inr)
  case (1 t w ag routed d2)
  have sub: "attempt_keys d \<subseteq> attempt_keys d2" by (auto simp: attempt_keys_def route_attempt_frame [OF 1(6)])
  show ?thesis using 1(7)
  proof (cases rule: dispatch_routed_cases)
    case (routed profile p)
    then show ?thesis using sub
      attempt_keys_upd [of d' "en_uuid en 0" "\<lambda>a. a\<lparr>at_provider := pp_provider_id profile, at_model := pp_model_version profile\<rparr>" d2]
      by simp
  next
    case blocked
    note fr = transition_frame [OF blocked(2) [unfolded record_routing_block_def]]
    show ?thesis using sub attempt_keys_upd [where d' = d' and d = d2 and i = "en_uuid en 0"] by (simp add: fr)
  qed
qed

lemma complete_keys:
  assumes "complete_execution submit execute cf en p l d = Inr (r, d')"
  shows "attempt_keys d' = attempt_keys d"
proof (cases "run_provider submit execute p")
  case (Inl x)
  obtain exc v where x: "x = (exc, v)" by (cases x)
  obtain t a w d1 where "finalize_guard (en_now en 0) p d = Inr (t, a, w)"
    and rec: "record_attempt_failure cf (en_now en 2) (wf_id w) t a exc (px_worker_id p) d1 = Inr d'"
    and d1: "attempts d1 = attempts d"
    using assms Inl x
    by (auto simp: complete_execution_def finalize_execution_failure_def tx_simps Let_def record_provider_observation_def)
  show ?thesis
    by (rule attempt_keys_upd [OF record_attempt_failure_attempts [OF rec, unfolded d1]]) simp
next
  case (Inr x)
  obtain result execution cand where x: "x = (result, execution, cand)" by (cases x)
  have "finalize_execution_success cf en p result execution cand l d = Inr (r, d')"
    using assms Inr x by (simp add: complete_execution_def)
  then show ?thesis
  proof (cases rule: finalize_success_Inr)
    case (1 t a w d6)
    have "quiet d6 d'"
      using advance_next(3) [OF 1(2)] advance_last(3) [of cf _ _ _ "wf_id w" d6 d'] 1(2)
      by (cases "px_task_kind p") auto
    then have "attempts d' = attempts d6" by (simp add: quiet_def)
    from this [unfolded 1(5)] show ?thesis by (rule attempt_keys_upd) simp
  qed
qed

lemma reclaim_keys:
  assumes "db_ok d" "reclaim_expired_tasks cf en wk d = Inr (n, d')"
  shows "attempt_keys d' = attempt_keys d"
proof (rule reclaim_keeps [where P = "\<lambda>x. attempt_keys x = attempt_keys d", OF assms(1) _ assms(2)])
  fix x y t assume "attempt_keys x = attempt_keys d" "reclaim_one cf (en_now en 0) wk t x = Inr y"
  then show "attempt_keys y = attempt_keys d"
    using reclaim_one_attempts [of cf "en_now en 0" wk t x y]
      attempt_keys_upd [of y _ "time_out_attempt (en_now en 0)" x]
    by (auto simp: time_out_attempt_def attempt_keys_def split: if_splits option.splits)
qed simp

section \<open>Runs of the service\<close>

type_synonym world = "db \<times> prepared_execution list"

inductive svc_step :: "config \<Rightarrow> world \<Rightarrow> world \<Rightarrow> bool" for cf where
  create: "fresh_ids en d \<Longrightarrow>
    create_workflow cf en rq title descr key cx risk dc repo sig d = Inr (r, d') \<Longrightarrow> svc_step cf (d, P) (d', P)"
| lease: "lease_next_task cf en wk wid d = Inr (r, d') \<Longrightarrow> svc_step cf (d, P) (d', P)"
| reclaim: "reclaim_expired_tasks cf en wk d = Inr (n, d') \<Longrightarrow> svc_step cf (d, P) (d', P)"
| prepare: "fresh_ids en d \<Longrightarrow> prepare_execution cf en tid tok wk d = Inr (Inr p, d') \<Longrightarrow>
    svc_step cf (d, P) (d', p # P)"
| unroutable: "fresh_ids en d \<Longrightarrow> prepare_execution cf en tid tok wk d = Inr (Inl j, d') \<Longrightarrow>
    svc_step cf (d, P) (d', P)"
| heartbeat: "heartbeat_task cf en tid tok wk d = Inr (r, d') \<Longrightarrow> svc_step cf (d, P) (d', P)"
| complete: "p \<in> set P \<Longrightarrow> fresh_ids en d \<Longrightarrow>
    complete_execution submit execute cf en p l d = Inr (r, d') \<Longrightarrow> svc_step cf (d, P) (d', remove1 p P)"
| abandon: "svc_step cf (d, P) (d, remove1 p P)"
| disposition: "fresh_ids en d \<Longrightarrow> disposition_workflow cf en wid ac dec ra d = Inr (r, d') \<Longrightarrow>
    svc_step cf (d, P) (d', P)"
| reconcile: "fresh_ids en d \<Longrightarrow> reconcile_execution cf en wid tid ac rdec ra d = Inr (r, d') \<Longrightarrow>
    svc_step cf (d, P) (d', P)"
| approval: "fresh_ids en d \<Longrightarrow>
    approve cf en wid ap action target revision adec ra mins env_id pd aid d = Inr (r, d') \<Longrightarrow>
    svc_step cf (d, P) (d', P)"
| cancel: "cancel_workflow cf en wid pid d = Inr (r, d') \<Longrightarrow> svc_step cf (d, P) (d', P)"

definition svc_init :: world where
  "svc_init = (seed_principals empty_db, [])"

definition svc_ok :: "world \<Rightarrow> bool" where
  "svc_ok W \<longleftrightarrow> (case W of (d, P) \<Rightarrow> db_ok d \<and> attempts_ok d \<and> approved_ok d \<and>
     (\<forall>p\<in>set P. prepared_for p d \<and> attempt_for p d))"

text \<open>A system with an invariant: what every step keeps holds in every reachable state.\<close>

locale step_system =
  fixes step :: "'s \<Rightarrow> 's \<Rightarrow> bool" and init :: 's and inv :: "'s \<Rightarrow> bool"
  assumes init_inv: "inv init"
    and step_inv: "inv s \<Longrightarrow> step s s' \<Longrightarrow> inv s'"
begin

lemma reach_inv: "step\<^sup>*\<^sup>* init s \<Longrightarrow> inv s"
  by (induction rule: rtranclp_induct) (auto intro: init_inv step_inv)

lemma reach_step:
  assumes "step\<^sup>*\<^sup>* init s" "\<And>s s'. inv s \<Longrightarrow> step s s' \<Longrightarrow> R s s'" "step s s'"
  shows "R s s'"
  using assms(2) [OF reach_inv [OF assms(1)] assms(3)] .

end

text \<open>The description a worker holds of its execution stays true.\<close>

definition inflight_ok :: "prepared_execution list \<Rightarrow> db \<Rightarrow> bool" where
  "inflight_ok P d \<longleftrightarrow> (\<forall>p\<in>set P. prepared_for p d \<and> attempt_for p d)"

lemma svc_ok_pair: "svc_ok (d, P) \<longleftrightarrow> db_ok d \<and> attempts_ok d \<and> approved_ok d \<and> inflight_ok P d"
  by (simp add: svc_ok_def inflight_ok_def)

lemma inflight_steps:
  assumes "inflight_ok P d" "(any_step E)\<^sup>*\<^sup>* d d'" "attempt_keys d \<subseteq> attempt_keys d'"
  shows "inflight_ok P d'"
proof -
  have "prepared_for p d'" if "prepared_for p d" for p
    using assms(2) that by (induction rule: rtranclp_induct) (auto intro: prepared_for_step)
  then show ?thesis using assms(1,3) by (auto simp: inflight_ok_def attempt_for_iff)
qed

lemmas inflight_step = inflight_steps [OF _ r_into_rtranclp]

lemma inflight_core:
  "inflight_ok P d \<Longrightarrow> set (tasks d) \<subseteq> set (tasks d') \<Longrightarrow> attempt_keys d \<subseteq> attempt_keys d' \<Longrightarrow> inflight_ok P d'"
  unfolding inflight_ok_def attempt_for_iff prepared_for_def by blast

lemma keys_cong: "attempts d' = attempts d \<Longrightarrow> attempt_keys d \<subseteq> attempt_keys d'"
  by (simp add: attempt_keys_def)

lemma quiet_keys: "quiet d d' \<Longrightarrow> attempt_keys d \<subseteq> attempt_keys d'"
  by (simp add: quiet_def attempt_keys_def)

lemma inflight_remove: "inflight_ok P d \<Longrightarrow> inflight_ok (remove1 p P) d"
  by (meson inflight_ok_def notin_set_remove1)

text \<open>One lemma per handler, then the summary.\<close>

lemma create_ok:
  assumes "svc_ok (d, P)" "fresh_ids en d"
    and run: "create_workflow cf en rq title descr key cx risk dc repo sig d = Inr (r, d')"
  shows "svc_ok (d', P)"
proof (cases "d' = d")
  case False
  then have b: "born d d'" using create_workflow_effect [OF assms(2) run] by blast
  have q: "quiet d d'" by (rule create_quiet [OF run])
  have "set (tasks d) \<subseteq> set (tasks d')" using b unfolding born_def by auto
  then show ?thesis
    using assms(1) b q quiet_steady [OF q] quiet_keys [OF q]
    by (auto simp: svc_ok_pair quiet_def intro: born_db_ok born_attempts_ok born_approved_ok inflight_core)
qed (use assms in simp)

lemma lease_ok:
  assumes ok: "svc_ok (d, P)" and run: "lease_next_task cf en wk wid d = Inr (r, d')"
  shows "svc_ok (d', P)"
proof (cases "d' = d")
  case False
  have st: "any_step {Ev_renew} d d'" using lease_next_task_step [OF _ run] ok False by (auto simp: svc_ok_pair)
  note q = lease_quiet [OF run]
  show ?thesis using ok st
    by (auto simp: svc_ok_pair intro: any_step_db_ok lease_attempts_ok [OF _ _ run]
        approved_ok_step [OF _ _ st _ quiet_steady [OF q]] inflight_step [OF _ st quiet_keys [OF q]])
qed (use ok in simp)

lemma heartbeat_ok:
  assumes ok: "svc_ok (d, P)" and run: "heartbeat_task cf en tid tok wk d = Inr (r, d')"
  shows "svc_ok (d', P)"
proof -
  have st: "any_step {Ev_renew} d d'" using heartbeat_task_step [OF _ run] ok by (auto simp: svc_ok_pair)
  note q = heartbeat_quiet [OF run]
  show ?thesis using ok st
    by (auto simp: svc_ok_pair intro: any_step_db_ok heartbeat_attempts_ok [OF _ _ run]
        approved_ok_step [OF _ _ st _ quiet_steady [OF q]] inflight_step [OF _ st quiet_keys [OF q]])
qed

lemma reclaim_ok:
  assumes ok: "svc_ok (d, P)" and run: "reclaim_expired_tasks cf en wk d = Inr (n, d')"
  shows "svc_ok (d', P)"
proof -
  have st: "(any_step {Ev_renew, Ev_stop})\<^sup>*\<^sup>* d d'"
    using reclaim_expired_tasks_steps [OF _ run] ok by (simp add: svc_ok_pair)
  have keys: "attempt_keys d \<subseteq> attempt_keys d'" using reclaim_keys [OF _ run] ok by (simp add: svc_ok_pair)
  show ?thesis using ok
    by (auto simp: svc_ok_pair intro: any_steps_db_ok [OF st] reclaim_attempts_ok [OF _ _ run]
        reclaim_approved_ok [OF _ _ run] inflight_steps [OF _ st keys])
qed

lemma prepare_ok:
  assumes ok: "svc_ok (d, P)" and fresh: "fresh_ids en d"
    and run: "prepare_execution cf en tid tok wk d = Inr (r, d')"
  shows "svc_ok (d', case r of Inl _ \<Rightarrow> P | Inr p \<Rightarrow> p # P)"
proof -
  have d: "db_ok d" "attempts_ok d" "approved_ok d" "inflight_ok P d" using ok by (simp_all add: svc_ok_pair)
  have st: "any_step {Ev_renew, Ev_stop} d d'" by (rule prepare_execution_step [OF d(1) run])
  have base: "db_ok d'" "attempts_ok d'" "approved_ok d'" "inflight_ok P d'"
    using any_step_db_ok [OF d(1) st] prepare_attempts_ok(1) [OF d(1,2) fresh run]
      approved_ok_step [OF d(1,3) st _ prepare_steady [OF run]] inflight_step [OF d(4) st prepare_keys [OF run]]
    by simp_all
  show ?thesis
  proof (cases r)
    case (Inr p)
    have "attempt_for p d'" using prepare_attempts_ok(2) [OF d(1,2) fresh run Inr] by (simp add: attempt_for_def)
    moreover have "prepared_for p d'"
    proof (rule prepared_for_step [OF st])
      show "prepared_for p d" using run
      proof (cases rule: prepare_execution_Inr)
        case (1 t w ag routed d2)
        show ?thesis using 1(7)
        proof (cases rule: dispatch_routed_cases)
          case (routed profile q)
          then show ?thesis using Inr 1(8,9) row.get_SomeD [OF 1(1)] by (auto simp: prepared_for_def)
        qed (use Inr in simp)
      qed
    qed
    ultimately show ?thesis using base Inr by (simp add: svc_ok_pair inflight_ok_def)
  qed (use base in \<open>simp add: svc_ok_pair\<close>)
qed

lemma complete_ok:
  assumes ok: "svc_ok (d, P)" and p: "p \<in> set P" and fresh: "fresh_ids en d"
    and run: "complete_execution submit execute cf en p l d = Inr (r, d')"
  shows "svc_ok (d', remove1 p P)"
proof -
  have d: "db_ok d" "attempts_ok d" "approved_ok d" "inflight_ok P d" using ok by (simp_all add: svc_ok_pair)
  have pf: "prepared_for p d" "attempt_for p d" using d(4) p by (simp_all add: inflight_ok_def)
  have st: "any_step {Ev_renew, Ev_stop, Ev_advance, Ev_finish} d d'" by (rule complete_execution_step [OF d(1) pf(1) fresh run])
  have keys: "attempt_keys d \<subseteq> attempt_keys d'" using complete_keys [OF run] by simp
  show ?thesis
    using any_step_db_ok [OF d(1) st] complete_attempts_ok [OF d(1,2) pf fresh run]
      approved_ok_step [OF d(1,3) st _ complete_steady [OF run]] inflight_remove [OF inflight_step [OF d(4) st keys]]
    by (simp add: svc_ok_pair)
qed

lemma disposition_ok:
  assumes ok: "svc_ok (d, P)" and fresh: "fresh_ids en d"
    and run: "disposition_workflow cf en wid ac dec ra d = Inr (r, d')"
  shows "svc_ok (d', P)"
proof -
  have d: "db_ok d" "attempts_ok d" "approved_ok d" "inflight_ok P d" using ok by (simp_all add: svc_ok_pair)
  note st = disposition_step [OF d(1) fresh run]
  show ?thesis
    using any_step_db_ok [OF d(1) st] disposition_attempts_ok [OF d(2) fresh run]
      approved_ok_step [OF d(1,3) st _ disposition_steady [OF run]]
      inflight_step [OF d(4) st keys_cong [OF disposition_frame(1) [OF run]]]
    by (simp add: svc_ok_pair)
qed

lemma reconcile_ok:
  assumes ok: "svc_ok (d, P)" and fresh: "fresh_ids en d"
    and run: "reconcile_execution cf en wid tid ac dec ra d = Inr (r, d')"
  shows "svc_ok (d', P)"
proof -
  have d: "db_ok d" "attempts_ok d" "approved_ok d" "inflight_ok P d" using ok by (simp_all add: svc_ok_pair)
  note st = reconcile_step [OF d(1) fresh run]
  have "attempts d' = attempts d" using run
  proof (cases rule: reconcile_execution_Inr)
    case (1 p w t a ex d1 d3)
    then show ?thesis using apply_reconciliation_effect(1) [OF 1(9)] by (simp add: quiet_def)
  qed
  then show ?thesis
    using any_step_db_ok [OF d(1) st] reconcile_attempts_ok [OF d(1,2) fresh run]
      approved_ok_step [OF d(1,3) st _ reconcile_steady [OF run]] inflight_step [OF d(4) st keys_cong]
    by (simp add: svc_ok_pair)
qed

lemma approve_ok:
  assumes ok: "svc_ok (d, P)"
    and run: "approve cf en wid ap action target revision dec ra mins env_id pd aid d = Inr (r, d')"
  shows "svc_ok (d', P)"
proof -
  have d: "db_ok d" "attempts_ok d" "approved_ok d" "inflight_ok P d" using ok by (simp_all add: svc_ok_pair)
  have "db_ok d'" using approve_step [OF d(1) run] d(1) same_core_db_ok any_step_db_ok by blast
  moreover have "attempts_ok d'" by (rule attempts_ok_cong [OF approve_frame(4,1) [OF run] d(2)])
  moreover have "approved_ok d'" by (rule approve_approved_ok [OF d(1,3) run])
  moreover have "inflight_ok P d'"
    by (rule inflight_core [OF d(4) _ keys_cong [OF approve_frame(1) [OF run]]]) (simp add: approve_frame(4) [OF run])
  ultimately show ?thesis by (simp add: svc_ok_pair)
qed

lemma cancel_ok:
  assumes ok: "svc_ok (d, P)" and run: "cancel_workflow cf en wid pid d = Inr (r, d')"
  shows "svc_ok (d', P)"
proof -
  have d: "db_ok d" "attempts_ok d" "approved_ok d" "inflight_ok P d" using ok by (simp_all add: svc_ok_pair)
  note st = cancel_step [OF d(1) run] and q = cancel_quiet [OF run]
  show ?thesis
    using any_step_db_ok [OF d(1) st] cancel_attempts_ok [OF d(2) run]
      approved_ok_step [OF d(1,3) st _ quiet_steady [OF q]] inflight_step [OF d(4) st quiet_keys [OF q]]
    by (simp add: svc_ok_pair)
qed

lemma svc_step_ok:
  assumes "svc_ok W" "svc_step cf W W'"
  shows "svc_ok W'"
  using assms(2,1)
proof cases
  case (prepare en d tid tok wk p d' P)
  then show ?thesis using prepare_ok [of d P en cf tid tok wk "Inr p" d'] assms(1) by simp
next
  case (unroutable en d tid tok wk j d' P)
  then show ?thesis using prepare_ok [of d P en cf tid tok wk "Inl j" d'] assms(1) by simp
next
  case (abandon d P p)
  then show ?thesis using assms(1) by (auto simp: svc_ok_pair inflight_remove)
next
  case create
  show ?thesis unfolding create(2) by (rule create_ok [OF assms(1) [unfolded create(1)] create(3,4)])
next
  case lease
  show ?thesis unfolding lease(2) by (rule lease_ok [OF assms(1) [unfolded lease(1)] lease(3)])
next
  case reclaim
  show ?thesis unfolding reclaim(2) by (rule reclaim_ok [OF assms(1) [unfolded reclaim(1)] reclaim(3)])
next
  case heartbeat
  show ?thesis unfolding heartbeat(2) by (rule heartbeat_ok [OF assms(1) [unfolded heartbeat(1)] heartbeat(3)])
next
  case complete
  show ?thesis unfolding complete(2) by (rule complete_ok [OF assms(1) [unfolded complete(1)] complete(3,4,5)])
next
  case disposition
  show ?thesis unfolding disposition(2) by (rule disposition_ok [OF assms(1) [unfolded disposition(1)] disposition(3,4)])
next
  case reconcile
  show ?thesis unfolding reconcile(2) by (rule reconcile_ok [OF assms(1) [unfolded reconcile(1)] reconcile(3,4)])
next
  case approval
  show ?thesis unfolding approval(2) by (rule approve_ok [OF assms(1) [unfolded approval(1)] approval(4)])
next
  case cancel
  show ?thesis unfolding cancel(2) by (rule cancel_ok [OF assms(1) [unfolded cancel(1)] cancel(3)])
qed

lemma seed_frame [simp]:
  "workflows (foldl (\<lambda>acc p. seed_one p acc) d ps) = workflows d" "tasks (foldl (\<lambda>acc p. seed_one p acc) d ps) = tasks d"
  "attempts (foldl (\<lambda>acc p. seed_one p acc) d ps) = attempts d"
  "audit_events (foldl (\<lambda>acc p. seed_one p acc) d ps) = audit_events d"
  by (induction ps arbitrary: d) (simp_all add: seed_one_def split: option.split)

interpretation svc: step_system "svc_step cf" svc_init svc_ok for cf
proof
  show "svc_ok svc_init"
    by (simp add: svc_init_def svc_ok_pair db_ok_def attempts_ok_def approved_ok_def inflight_ok_def seed_principals_def
        empty_db_def)
qed (rule svc_step_ok)

section \<open>The service refines the life cycle\<close>

text \<open>The events of the life cycle the task handlers can cause: all but the deliveries.\<close>

definition service_events :: "lifecycle_event set" where
  "service_events = UNIV - {Ev_deliver}"

lemma any_step_mono: "any_step E d d' \<Longrightarrow> E \<subseteq> F \<Longrightarrow> any_step F d d'"
  by (auto simp: any_step_def)

lemma any_steps_mono: "(any_step E)\<^sup>*\<^sup>* d d' \<Longrightarrow> E \<subseteq> F \<Longrightarrow> (any_step F)\<^sup>*\<^sup>* d d'"
  by (induction rule: rtranclp_induct) (auto intro: rtranclp.rtrancl_into_rtrancl any_step_mono)

lemma service_step: "any_step E d d' \<Longrightarrow> Ev_deliver \<notin> E \<Longrightarrow> (any_step service_events)\<^sup>*\<^sup>* d d'"
  by (rule r_into_rtranclp, rule any_step_mono) (auto simp: service_events_def)

lemma svc_step_refines:
  assumes "svc_ok (d, P)" "svc_step cf (d, P) (d', P')"
  shows "same_core d d' \<or> born d d' \<or> (any_step service_events)\<^sup>*\<^sup>* d d'"
proof -
  have ok: "db_ok d" "inflight_ok P d" using assms(1) by (simp_all add: svc_ok_pair)
  from assms(2) show ?thesis
  proof cases
    case (create en rq title descr key cx risk dc repo sig r)
    then show ?thesis using create_workflow_effect [OF create(2,3)] by (auto simp: same_core_def)
  next
    case (lease en wk wid r)
    then show ?thesis
      using lease_next_task_step [OF ok(1) lease(2)] service_step [of "{Ev_renew}" d d'] by (auto simp: same_core_def)
  next
    case (reclaim en wk n)
    then show ?thesis using any_steps_mono [OF reclaim_expired_tasks_steps [OF ok(1) reclaim(2)], of service_events]
      by (simp add: service_events_def)
  next
    case (prepare en tid tok wk p)
    then show ?thesis
      using service_step [OF prepare_execution_step [OF ok(1) prepare(3)]] by simp
  next
    case (unroutable en tid tok wk j)
    then show ?thesis using service_step [OF prepare_execution_step [OF ok(1) unroutable(3)]] by simp
  next
    case (heartbeat en tid tok wk r)
    then show ?thesis using service_step [of "{Ev_renew}" d d'] heartbeat_task_step [OF ok(1)] by auto
  next
    case (complete p en submit execute l r)
    then show ?thesis using service_step [OF complete_execution_step [OF ok(1) _ complete(3,4)]] ok(2)
      by (simp add: inflight_ok_def)
  next
    case (abandon p)
    then show ?thesis by (simp add: same_core_def)
  next
    case (disposition en wid ac dec ra r)
    then show ?thesis using service_step [OF disposition_step [OF ok(1) disposition(2,3)]] by simp
  next
    case (reconcile en wid tid ac rdec ra r)
    then show ?thesis using service_step [OF reconcile_step [OF ok(1) reconcile(2,3)]] by simp
  next
    case (approval en wid ap action target revision adec ra mins env_id pd aid r)
    then show ?thesis using approve_step [OF ok(1) approval(3)] service_step [of "{Ev_settle, Ev_grant}" d d'] by auto
  next
    case (cancel en wid pid r)
    then show ?thesis using service_step [OF cancel_step [OF ok(1) cancel(2)]] by simp
  qed
qed

text \<open>A delivered workflow is only ever left as it is by the task handlers, or moved out of its state.\<close>

lemma any_step_delivered:
  assumes "db_ok d" "any_step service_events d d'" "w \<in> set (workflows d')" "delivered (wf_state w)"
  shows "w \<in> set (workflows d)"
proof -
  obtain e v where st: "wf_step e v d d'" "e \<noteq> Ev_deliver" using assms(2) by (auto simp: any_step_def service_events_def)
  have dist: "distinct (map wf_id (workflows d'))"
    using any_step_db_ok [OF assms(1,2)] by (simp add: db_ok_def)
  have get: "row_get wf_id (wf_id w) (workflows d') = Some w" by (rule row.get_unique [OF dist assms(3)])
  show ?thesis
  proof (cases "wf_id w = v")
    case True
    then obtain u where u: "row_get wf_id v (workflows d) = Some u" "lifecycle e (u, wf_tasks d v) (w, wf_tasks d' v)"
      using st(1) get by (auto simp: wf_step_def)
    have "u = w" using u(2)
    proof (cases rule: lifecycle.cases)
      case (advance t t' n)
      then show ?thesis using assms(4) by (cases "tk_kind n") (simp_all add: delivered_def)
    next
      case (retry t t' n)
      then show ?thesis using assms(4) by (cases "tk_kind t") (simp_all add: delivered_def)
    qed (use assms(4) st(2) in \<open>auto simp: delivered_def\<close>)
    then show ?thesis using row.get_SomeD [OF u(1)] by simp
  next
    case False
    then have "row_get wf_id (wf_id w) (workflows d) = Some w" using st(1) get by (simp add: wf_step_def)
    then show ?thesis using row.get_SomeD by fast
  qed
qed

lemma any_steps_delivered:
  assumes "(any_step service_events)\<^sup>*\<^sup>* d d'" "db_ok d" "w \<in> set (workflows d')" "delivered (wf_state w)"
  shows "w \<in> set (workflows d)"
  using assms(1,3)
proof (induction rule: rtranclp_induct)
  case (step d1 d2)
  then show ?case using any_step_delivered [OF any_steps_db_ok [OF step(1) assms(2)] step(2,4) assms(4)] by blast
qed simp

lemma svc_step_delivered:
  assumes "svc_ok (d, P)" "svc_step cf (d, P) (d', P')" "w \<in> set (workflows d')" "delivered (wf_state w)"
  shows "w \<in> set (workflows d)"
  using svc_step_refines [OF assms(1,2)]
proof (elim disjE)
  assume "born d d'"
  then show ?thesis using assms(3,4) by (auto simp: born_def delivered_def)
next
  assume "(any_step service_events)\<^sup>*\<^sup>* d d'"
  then show ?thesis using assms any_steps_delivered by (auto simp: svc_ok_pair)
qed (use assms(3) in \<open>simp add: same_core_def\<close>)

lemma svc_step_frame:
  assumes "svc_step cf (d, P) (d', P')"
  shows "steady d d' \<or> (\<exists>en wid ap action target revision adec ra mins env_id pd aid r. fresh_ids en d \<and>
    approve cf en wid ap action target revision adec ra mins env_id pd aid d = Inr (r, d'))"
  using assms
proof cases
  case create
  then show ?thesis using quiet_steady [OF create_quiet [OF create(3)]] by blast
next
  case lease
  then show ?thesis using quiet_steady [OF lease_quiet [OF lease(2)]] by blast
next
  case reclaim
  then show ?thesis using reclaim_steady [OF reclaim(2)] by blast
next
  case prepare
  then show ?thesis using prepare_steady [OF prepare(3)] by blast
next
  case unroutable
  then show ?thesis using prepare_steady [OF unroutable(3)] by blast
next
  case heartbeat
  then show ?thesis using quiet_steady [OF heartbeat_quiet [OF heartbeat(2)]] by blast
next
  case complete
  then show ?thesis using complete_steady [OF complete(4)] by blast
next
  case abandon
  then show ?thesis by (simp add: steady_def)
next
  case disposition
  then show ?thesis using disposition_steady [OF disposition(3)] by blast
next
  case reconcile
  then show ?thesis using reconcile_steady [OF reconcile(3)] by blast
next
  case (approval en wid ap action target revision adec ra mins env_id pd aid r)
  show ?thesis
    by (rule disjI2, intro exI conjI) (rule approval(2), rule approval(3))
next
  case cancel
  then show ?thesis using quiet_steady [OF cancel_quiet [OF cancel(2)]] by blast
qed

end
