(* ===== verification/Workflow_Properties.thy ===== *)
theory Workflow_Properties
  imports Workflow_Service
begin

text \<open>
  The properties of the workflow service as a whole, stated over all runs of its handlers, with the
  concrete runs that witness them.
\<close>

section \<open>A concrete service\<close>

definition demo_cf :: config where
  "demo_cf = \<lparr>cf_sha256 = (\<lambda>s. ''h''), cf_isoformat = (\<lambda>t. ''t''), cf_lease_seconds = 60,
     cf_profiles = mock_profiles, cf_window_size = 100, cf_allowed_egress = {EB_LOCAL},
     cf_high_risk_min_evidence_samples = 20, cf_provider_policy_version = ''v'',
     cf_routing_objective = RO_BALANCED\<rparr>"

definition demo_env :: "int \<Rightarrow> string \<Rightarrow> env" where
  "demo_env t tag = \<lparr>en_now = (\<lambda>i. t + int i), en_uuid = (\<lambda>i. tag @ (if i = 0 then ''0'' else ''1'')),
     en_healthy = (\<lambda>_. True)\<rparr>"

definition demo_created :: "error + json \<times> db" where
  "demo_created = create_workflow demo_cf (demo_env 0 ''a'') ''dev-operator'' ''T'' ''D'' ''k'' CX_STANDARD RL_MEDIUM
     DC_INTERNAL None {} (seed_principals empty_db)"

definition demo_db :: db where
  "demo_db = (case demo_created of Inr (r, d) \<Rightarrow> d | Inl _ \<Rightarrow> empty_db)"

lemma demo_created_ok: "\<exists>r. demo_created = Inr (r, demo_db)"
proof -
  have "is_ok demo_created" unfolding demo_created_def by code_simp
  then obtain r d where *: "demo_created = Inr (r, d)" by (auto simp: is_ok_iff)
  have "demo_db = d" unfolding demo_db_def * by simp
  with * show ?thesis by blast
qed

lemma demo_reachable: "(svc_step demo_cf)\<^sup>*\<^sup>* svc_init (demo_db, [])"
proof -
  obtain r where "create_workflow demo_cf (demo_env 0 ''a'') ''dev-operator'' ''T'' ''D'' ''k'' CX_STANDARD RL_MEDIUM
     DC_INTERNAL None {} (seed_principals empty_db) = Inr (r, demo_db)"
    using demo_created_ok by (auto simp: demo_created_def)
  moreover have "fresh_ids (demo_env 0 ''a'') (seed_principals empty_db)"
    unfolding fresh_ids_def by code_simp
  ultimately show ?thesis unfolding svc_init_def by (intro r_into_rtranclp svc_step.create)
qed

definition demo_workflow :: workflow where
  "demo_workflow = hd (workflows demo_db)"

definition demo_task :: task where
  "demo_task = hd (tasks demo_db)"

lemma demo_workflow_facts:
  "demo_workflow \<in> set (workflows demo_db)" "wf_state demo_workflow = WS_PLANNING" "wf_id demo_workflow = ''a0''"
proof -
  have "workflows demo_db \<noteq> [] \<and> wf_state (hd (workflows demo_db)) = WS_PLANNING \<and> wf_id (hd (workflows demo_db)) = ''a0''"
    unfolding demo_db_def demo_created_def by code_simp
  then show "demo_workflow \<in> set (workflows demo_db)" "wf_state demo_workflow = WS_PLANNING" "wf_id demo_workflow = ''a0''"
    by (simp_all add: demo_workflow_def)
qed

lemma demo_task_facts:
  "demo_task \<in> set (tasks demo_db)" "tk_id demo_task = ''a1''"
proof -
  have "tasks demo_db \<noteq> [] \<and> tk_id (hd (tasks demo_db)) = ''a1''"
    unfolding demo_db_def demo_created_def by code_simp
  then show "demo_task \<in> set (tasks demo_db)" "tk_id demo_task = ''a1''" by (simp_all add: demo_task_def)
qed

section \<open>Invariants of every run\<close>

text \<open>C8: The stage discipline holds in every reachable state of the service. A workflow in a working
state has exactly one live task (READY, LEASED or RUNNING), of the kind that state is for; a workflow in
any other state has none. So no stage runs twice at once, no task runs for a stopped workflow, and no
workflow waits in a working state with nothing to lease.\<close>

theorem one_live_task_per_stage:
  assumes "(svc_step cf)\<^sup>*\<^sup>* svc_init (d, P)" and "w \<in> set (workflows d)"
  shows "if wf_state w \<in> TASK_WORKFLOW_STATE ` UNIV
    then \<exists>!t. t \<in> set (workflow_tasks d (wf_id w)) \<and> live t \<and> wf_state w = TASK_WORKFLOW_STATE (tk_kind t)
    else \<forall>t\<in>set (workflow_tasks d (wf_id w)). \<not> live t"
proof -
  have "db_ok d" using svc.reach_inv [OF assms(1)] by (simp add: svc_ok_pair)
  then have ok: "stage_ok w (wf_tasks d (wf_id w))" using assms(2) by (simp add: db_ok_def wf_ok_def)
  show ?thesis
  proof (cases "wf_state w \<in> TASK_WORKFLOW_STATE ` UNIV")
    case True
    then have "working (wf_state w)" by auto
    then show ?thesis using True ok unfolding stage_ok_def set_workflow_tasks by auto
  next
    case False
    then have "\<not> working (wf_state w)" unfolding working_iff by auto
    then show ?thesis using False no_live_if_idle [OF ok] by auto
  qed
qed

theorem one_live_task_per_stage_witness:
  "\<exists>!t. t \<in> set (workflow_tasks demo_db ''a0'') \<and> live t \<and> WS_PLANNING = TASK_WORKFLOW_STATE (tk_kind t)"
proof -
  have "WS_PLANNING \<in> TASK_WORKFLOW_STATE ` UNIV" by (metis TASK_WORKFLOW_STATE.simps(1) rangeI)
  then show ?thesis
    using one_live_task_per_stage [OF demo_reachable demo_workflow_facts(1)] demo_workflow_facts(2,3) by simp
qed

text \<open>A workflow that waits for its merge decision, six completed tasks behind it.\<close>

definition demo_done :: "task_kind \<Rightarrow> ident \<Rightarrow> nat \<Rightarrow> task" where
  "demo_done k tid pos = (new_task tid 0 ''w'' k pos)\<lparr>tk_status := TS_SUCCEEDED\<rparr>"

definition demo_state :: "workflow_state \<Rightarrow> string \<Rightarrow> string option \<Rightarrow> string option \<Rightarrow> db" where
  "demo_state s revision merged repository = (seed_principals empty_db)\<lparr>
     workflows := [(new_workflow ''w'' 0 ''dev-operator'' ''T'' ''D'' CX_STANDARD RL_MEDIUM DC_INTERNAL repository {} False)
       \<lparr>wf_state := s, wf_candidate_revision := Some revision, wf_merged_revision := merged\<rparr>],
     tasks := [demo_done TK_PLAN ''t1'' 1, demo_done TK_ARCHITECTURE_REVIEW ''t2'' 2, demo_done TK_IMPLEMENT ''t3'' 3,
       demo_done TK_TEST ''t4'' 4, demo_done TK_SECURITY_REVIEW ''t5'' 5, demo_done TK_CODE_REVIEW ''t6'' 6]\<rparr>"

definition demo_waiting :: db where
  "demo_waiting = demo_state WS_AWAITING_HUMAN_APPROVAL ''rev'' None None"

definition demo_approved :: "error + json \<times> db" where
  "demo_approved = approve demo_cf (demo_env 0 ''p'') ''w'' ''dev-operator'' AA_MERGE ''main'' ''rev'' AD_APPROVED ''ok'' 15
     None None None demo_waiting"

definition demo_merged :: db where
  "demo_merged = (case demo_approved of Inr (r, d) \<Rightarrow> d | Inl _ \<Rightarrow> empty_db)"

lemma demo_done_simps [simp]:
  "tk_id (demo_done k tid pos) = tid" "tk_kind (demo_done k tid pos) = k" "tk_workflow_id (demo_done k tid pos) = ''w''"
  "tk_status (demo_done k tid pos) = TS_SUCCEEDED" "tk_max_attempts (demo_done k tid pos) = 2"
  by (simp_all add: demo_done_def)

lemma demo_state_ok:
  assumes "revision \<noteq> []" "\<not> working s"
  shows "db_ok (demo_state s revision merged repository)" "attempts_ok (demo_state s revision merged repository)"
proof -
  let ?d = "demo_state s revision merged repository"
  define T where "T = wf_tasks ?d ''w''"
  have T: "T = {demo_done TK_PLAN ''t1'' 1, demo_done TK_ARCHITECTURE_REVIEW ''t2'' 2, demo_done TK_IMPLEMENT ''t3'' 3,
       demo_done TK_TEST ''t4'' 4, demo_done TK_SECURITY_REVIEW ''t5'' 5, demo_done TK_CODE_REVIEW ''t6'' 6}"
    by (auto simp: T_def wf_tasks_def demo_state_def)
  have comp: "completed T k" for k by (cases k) (auto simp: completed_def T)
  have shape: "lease_shape t" if "t \<in> T" for t using that by (intro lease_shape_settled) (auto simp: T)
  have nolive: "\<not> live t" if "t \<in> T" for t using that by (auto simp: T live_def)
  have "wf_ok w T" if "wf_state w = s" "wf_candidate_revision w = Some revision" for w
    using comp shape nolive that assms by (auto simp: wf_ok_def stage_ok_def pipeline_ok_def has_candidate_def)
  then have "wf_ok w (wf_tasks ?d (wf_id w))" if "w \<in> set (workflows ?d)" for w
    using that unfolding T_def by (auto simp: demo_state_def new_workflow_def)
  moreover have "distinct (map wf_id (workflows ?d))" "distinct (map tk_id (tasks ?d))"
    "tk_workflow_id ` set (tasks ?d) \<subseteq> wf_id ` set (workflows ?d)"
    by (simp_all add: demo_state_def new_workflow_def)
  ultimately show "db_ok ?d" by (simp add: db_ok_def)
  have "attempts ?d = []" by (simp add: demo_state_def seed_principals_def empty_db_def)
  then show "attempts_ok ?d"
    by (auto simp: attempts_ok_def task_attempts_def task_attempts_ok_def demo_state_def)
qed

lemma demo_state_svc_ok:
  "revision \<noteq> [] \<Longrightarrow> \<not> working s \<Longrightarrow> \<not> after_approval s \<Longrightarrow> svc_ok (demo_state s revision merged repository, [])"
  by (simp add: svc_ok_pair inflight_ok_def demo_state_ok approved_ok_def) (simp add: demo_state_def)

lemma demo_waiting_ok: "svc_ok (demo_waiting, [])"
  unfolding demo_waiting_def by (rule demo_state_svc_ok) (simp_all add: working_def after_approval_def)

lemma demo_approved_ok: "\<exists>r. demo_approved = Inr (r, demo_merged)"
proof -
  have "is_ok demo_approved" unfolding demo_approved_def by code_simp
  then obtain r d where *: "demo_approved = Inr (r, d)" by (auto simp: is_ok_iff)
  have "demo_merged = d" unfolding demo_merged_def * by simp
  with * show ?thesis by blast
qed

lemma demo_merged_run: "(svc_step demo_cf)\<^sup>*\<^sup>* (demo_waiting, []) (demo_merged, [])"
proof -
  have "fresh_ids (demo_env 0 ''p'') demo_waiting" unfolding fresh_ids_def by code_simp
  then show ?thesis
    using demo_approved_ok unfolding demo_approved_def by (intro r_into_rtranclp) (auto intro: svc_step.approval)
qed

definition demo_merged_workflow :: workflow where
  "demo_merged_workflow = hd (workflows demo_merged)"

lemma demo_merged_facts:
  "demo_merged_workflow \<in> set (workflows demo_merged)" "wf_state demo_merged_workflow = WS_APPROVED"
  "wf_id demo_merged_workflow = ''w''" "wf_candidate_revision demo_merged_workflow = Some ''rev''"
proof -
  have "workflows demo_merged \<noteq> [] \<and> wf_state (hd (workflows demo_merged)) = WS_APPROVED \<and>
      wf_id (hd (workflows demo_merged)) = ''w'' \<and> wf_candidate_revision (hd (workflows demo_merged)) = Some ''rev''"
    unfolding demo_merged_def demo_approved_def by code_simp
  then show "demo_merged_workflow \<in> set (workflows demo_merged)" "wf_state demo_merged_workflow = WS_APPROVED"
    "wf_id demo_merged_workflow = ''w''" "wf_candidate_revision demo_merged_workflow = Some ''rev''"
    by (simp_all add: demo_merged_workflow_def)
qed

lemma runs_keep_ok: "svc_ok W \<Longrightarrow> (svc_step cf)\<^sup>*\<^sup>* W W' \<Longrightarrow> svc_ok W'"
  by (rotate_tac, induction rule: rtranclp_induct) (auto intro: svc_step_ok)

text \<open>C3: No stage is skipped. From the seeded database, and from every state of the service invariant,
each run of the handlers keeps this: a task of some kind exists only when a task of every earlier kind
has succeeded in the same workflow, and a workflow that has reached the human gate or any later state
has a succeeded task of all six kinds and a non-empty candidate revision. The transition table alone
does not give this (it lets a blocked workflow resume at any stage).\<close>

theorem no_stage_skipped:
  assumes "W = svc_init \<or> svc_ok W" and "(svc_step cf)\<^sup>*\<^sup>* W (d, P)" and "w \<in> set (workflows d)"
  shows "(\<forall>t\<in>set (workflow_tasks d (wf_id w)). \<forall>k. kind_rank k < kind_rank (tk_kind t) \<longrightarrow>
       (\<exists>s\<in>set (workflow_tasks d (wf_id w)). tk_kind s = k \<and> tk_status s = TS_SUCCEEDED)) \<and>
    (past_review (wf_state w) \<longrightarrow>
       (\<exists>r. wf_candidate_revision w = Some r \<and> r \<noteq> []) \<and>
       (\<forall>k. \<exists>s\<in>set (workflow_tasks d (wf_id w)). tk_kind s = k \<and> tk_status s = TS_SUCCEEDED))"
proof -
  have "svc_ok W" using assms(1) svc.init_inv by blast
  from runs_keep_ok [OF this assms(2)] have "db_ok d" by (simp add: svc_ok_pair)
  then have "pipeline_ok w (wf_tasks d (wf_id w))" using assms(3) by (simp add: db_ok_def wf_ok_def)
  then show ?thesis by (simp add: pipeline_ok_def completed_def has_candidate_def)
qed

theorem no_stage_skipped_witness:
  "past_review WS_APPROVED \<and>
   (\<exists>s\<in>set (workflow_tasks demo_merged ''w''). tk_kind s = TK_SECURITY_REVIEW \<and> tk_status s = TS_SUCCEEDED)"
  using no_stage_skipped [OF disjI2 [OF demo_waiting_ok] demo_merged_run demo_merged_facts(1)]
  by (simp add: demo_merged_facts)

text \<open>C2: The human gate. From the seeded database, and from every state of the service invariant, every
run keeps this: a workflow that is APPROVED, MERGED, awaiting its deployment decision, DEPLOYED or in
rollback has an APPROVED merge approval on record for exactly its non-empty candidate revision, given by
a human principal whose role carries APPROVE-MERGE.\<close>

theorem merged_work_was_approved:
  assumes "W = svc_init \<or> svc_ok W" and "(svc_step cf)\<^sup>*\<^sup>* W (d, P)" and "w \<in> set (workflows d)"
    and "after_approval (wf_state w)"
  shows "\<exists>a\<in>set (approvals d). ap_workflow_id a = wf_id w \<and> ap_action a = AA_MERGE \<and>
     ap_decision a = AD_APPROVED \<and> ap_revision a \<noteq> [] \<and> wf_candidate_revision w = Some (ap_revision a) \<and>
     (\<exists>p. row_get pn_id (ap_approver_id a) (principals d) = Some p \<and> pn_principal_type p = PT_HUMAN \<and>
        CAP_APPROVE_MERGE \<in> ROLE_CAPABILITIES (pn_role p))"
proof -
  have "svc_ok W" using assms(1) svc.init_inv by blast
  from runs_keep_ok [OF this assms(2)] have "approved_ok d" by (simp add: svc_ok_pair)
  then have "merge_approved d w" using assms(3,4) by (simp add: approved_ok_def)
  then show ?thesis by (auto simp: merge_approved_def human_approver_def)
qed

theorem merged_work_was_approved_witness:
  "\<exists>a\<in>set (approvals demo_merged). ap_action a = AA_MERGE \<and> ap_revision a = ''rev''"
  using merged_work_was_approved [OF disjI2 [OF demo_waiting_ok] demo_merged_run demo_merged_facts(1)]
  by (auto simp: demo_merged_facts after_approval_def)



section \<open>Recovery of expired leases\<close>

lemma reclaim_all_tasks:
  assumes "db_ok d" "set ts \<subseteq> set (tasks d)" "distinct (map tk_id ts)"
    "\<forall>t\<in>set ts. tk_status t \<in> {TS_LEASED, TS_RUNNING}" "reclaim_all cf now wk ts d = Inr d'"
  shows "tasks d' = map (\<lambda>t. if t \<in> set ts then reclaimed t else t) (tasks d)"
  using assms
proof (induction ts arbitrary: d)
  case (Cons t ts)
  have t: "t \<in> set (tasks d)" "tk_status t \<in> {TS_LEASED, TS_RUNNING}" using Cons.prems by simp_all
  obtain d1 where d1: "reclaim_one cf now wk t d = Inr d1" "reclaim_all cf now wk ts d1 = Inr d'"
    using Cons.prems(5) by (auto simp: tx_simps)
  have same: "x = t" if "x \<in> set (tasks d)" "tk_id x = tk_id t" for x
    using that t(1) Cons.prems(1) by (auto simp: db_ok_def distinct_map inj_on_def)
  have notin: "tk_id t \<notin> tk_id ` set ts" using Cons.prems(3) by simp
  have d1_tasks: "tasks d1 = map (\<lambda>x. if x = t then reclaimed x else x) (tasks d)"
    unfolding reclaim_one_tables [OF Cons.prems(1) t(1) d1(1)] row_upd_def using same by (intro map_cong) auto
  have sub: "set ts \<subseteq> set (tasks d1)"
  proof
    fix x assume x: "x \<in> set ts"
    then have "x \<noteq> t" "x \<in> set (tasks d)" using notin Cons.prems(2) by auto
    then show "x \<in> set (tasks d1)" unfolding d1_tasks by (auto intro: image_eqI [of _ _ x])
  qed
  have "tasks d' = map (\<lambda>t. if t \<in> set ts then reclaimed t else t) (tasks d1)"
    using Cons.IH [OF wf_step_db_ok [OF Cons.prems(1) reclaim_one_step [OF Cons.prems(1) t d1(1)]] sub] Cons.prems(3,4) d1(2)
    by simp
  moreover have "reclaimed t \<notin> set ts"
  proof
    assume "reclaimed t \<in> set ts"
    then have "tk_id (reclaimed t) \<in> tk_id ` set ts" by (rule imageI)
    with notin show False by (simp add: reclaimed_def clear_lease_def split: if_splits)
  qed
  ultimately show ?case unfolding d1_tasks using notin by (auto intro!: map_cong)
qed simp


text \<open>The planning task leased at time 10 and forgotten.\<close>

definition demo_leased :: db where
  "demo_leased = (case lease_next_task demo_cf (demo_env 10 ''b'') ''orchestrator'' None demo_db of Inr (r, d) \<Rightarrow> d | Inl _ \<Rightarrow> empty_db)"

lemma demo_leased_run: "(svc_step demo_cf)\<^sup>*\<^sup>* svc_init (demo_leased, [])"
proof -
  have "is_ok (lease_next_task demo_cf (demo_env 10 ''b'') ''orchestrator'' None demo_db)"
    unfolding demo_db_def demo_created_def by code_simp
  then obtain r d where *: "lease_next_task demo_cf (demo_env 10 ''b'') ''orchestrator'' None demo_db = Inr (r, d)"
    by (auto simp: is_ok_iff)
  then have "demo_leased = d" unfolding demo_leased_def by simp
  with * show ?thesis by (intro rtranclp.rtrancl_into_rtrancl [OF demo_reachable svc_step.lease]) simp
qed

lemma demo_leased_facts:
  "is_ok (authorize demo_leased (en_now (demo_env 1000000000 ''c'') 1) ''orchestrator'' CAP_LEASE_TASK None None False)"
  "length (filter (lease_expired (en_now (demo_env 1000000000 ''c'') 0)) (tasks demo_leased)) = 1"
  unfolding demo_leased_def demo_db_def demo_created_def by code_simp+


section \<open>Idempotent submission\<close>

lemma find_snoc: "List.find P (xs @ [x]) = (case List.find P xs of Some y \<Rightarrow> Some y | None \<Rightarrow> if P x then Some x else None)"
  by (induction xs) auto

lemma admit_workflow_effect:
  assumes "admit_workflow cf en w r strategy d = Inr d'"
  shows "principals d' = principals d" "idempotency_records d' = row_add r (idempotency_records d)"
    "row_get wf_id (wf_id w) (workflows d') \<noteq> None"
proof -
  define d1 where "d1 = audit cf (wf_id w) ''workflow.created'' (wf_requester_id w) ''workflow'' (wf_id w) ''SUCCEEDED''
    [(''state'', JStr (workflow_state_value WS_CREATED))]
    (d\<lparr>workflows := row_add w (workflows d), idempotency_records := row_add r (idempotency_records d)\<rparr>)"
  have d1: "principals d1 = principals d" "idempotency_records d1 = row_add r (idempotency_records d)" by (simp_all add: d1_def)
  obtain s a re ex d2 where t: "transition cf (wf_id w) s a re ex d1 = Inr d2"
    and d': "d' = d2 \<or> (\<exists>u c g. schedule_task cf u c g (wf_id w) TK_PLAN d2 = Inr d')"
    using assms unfolding admit_workflow_def Let_def d1_def [symmetric]
    by (cases "es_requires_human_disposition strategy") (simp_all only: if_True if_False ebind_eq_Inr, blast+)
  have f: "principals d2 = principals d1" "idempotency_records d2 = idempotency_records d1" using transition_frame [OF t] by simp_all
  obtain v n where "row_get wf_id (wf_id w) (workflows d1) = Some v"
    "workflows d2 = row_upd wf_id (wf_id w) (\<lambda>x. x\<lparr>wf_state := s, wf_version := n\<rparr>) (workflows d1)"
    by (rule transition_Inr [OF t])
  then have g: "row_get wf_id (wf_id w) (workflows d2) \<noteq> None" by (simp add: row.get_upd)
  from d' have "principals d' = principals d2 \<and> workflows d' = workflows d2 \<and> idempotency_records d' = idempotency_records d2"
    by (auto simp: schedule_task_def tx_simps Let_def)
  with f d1 g show "principals d' = principals d" "idempotency_records d' = row_add r (idempotency_records d)"
    "row_get wf_id (wf_id w) (workflows d') \<noteq> None" by simp_all
qed

lemma authorize_unscoped_cong:
  "principals d' = principals d \<Longrightarrow> authorize d' n' p c None None h = authorize d n p c None None h"
  by (simp add: authorize_def split: option.split)

lemma create_workflow_recorded:
  assumes "create_workflow cf en requester title desc key cx rk cl scope sig d = Inr (r, d')"
  shows "strip title \<noteq> [] \<and> strip desc \<noteq> [] \<and> strip key \<noteq> []" "principals d' = principals d"
    "is_ok (authorize d (en_now en 0) requester CAP_SUBMIT_WORKFLOW None None False)"
    "\<exists>x w. find_idempotency requester ''create_workflow'' key d' = Some x \<and> row_get wf_id (id_resource_id x) (workflows d') = Some w \<and>
       r = workflow_dict cf d' w \<and>
       id_request_digest x = digest (cf_sha256 cf) (create_request_json title desc cx rk cl (normalize_repository scope) sig)"
proof -
  show ne: "strip title \<noteq> [] \<and> strip desc \<noteq> [] \<and> strip key \<noteq> []"
    using assms by (auto simp: create_workflow_def split: if_splits)
  then show "is_ok (authorize d (en_now en 0) requester CAP_SUBMIT_WORKFLOW None None False)"
    using assms by (auto simp: create_workflow_def tx_simps Let_def is_ok_iff split: if_splits)
  have "principals d' = principals d \<and> (\<exists>x w. find_idempotency requester ''create_workflow'' key d' = Some x \<and>
      row_get wf_id (id_resource_id x) (workflows d') = Some w \<and> r = workflow_dict cf d' w \<and>
      id_request_digest x = digest (cf_sha256 cf) (create_request_json title desc cx rk cl (normalize_repository scope) sig))"
  proof (cases "find_idempotency requester ''create_workflow'' key d")
    case (Some x)
    then show ?thesis using assms ne
      by (auto simp: create_workflow_def tx_simps Let_def split: if_splits option.splits)
  next
    case None
    then obtain w x st where run: "admit_workflow cf en w x st d = Inr d'" and r: "r = workflow_dict_of cf d' (wf_id w)"
      and x: "id_principal_id x = requester" "id_command x = ''create_workflow''" "id_idempotency_key x = key" "id_resource_id x = wf_id w"
        "id_request_digest x = digest (cf_sha256 cf) (create_request_json title desc cx rk cl (normalize_repository scope) sig)"
      using assms ne by (auto simp: create_workflow_def ebind_eq_Inr Let_def new_workflow_def split: if_splits)
    obtain v where v: "row_get wf_id (wf_id w) (workflows d') = Some v" using admit_workflow_effect(3) [OF run] by blast
    have "find_idempotency requester ''create_workflow'' key d' = Some x"
      using None x by (simp add: find_idempotency_def admit_workflow_effect(2) [OF run] row_add_def find_snoc)
    then show ?thesis using v x r admit_workflow_effect(1) [OF run] by (simp add: workflow_dict_of_def)
  qed
  then show "principals d' = principals d"
    "\<exists>x w. find_idempotency requester ''create_workflow'' key d' = Some x \<and> row_get wf_id (id_resource_id x) (workflows d') = Some w \<and>
       r = workflow_dict cf d' w \<and>
       id_request_digest x = digest (cf_sha256 cf) (create_request_json title desc cx rk cl (normalize_repository scope) sig)"
    by blast+
qed



end
