(* ===== verification/Python_Text.thy ===== *)
theory Python_Text
  imports Domain
begin

text \<open>
  The parts of Python's text functions the deployment components use: \<open>repr\<close> and \<open>str\<close> of JSON values
  (for code points below 256), truth of a value, the substring test \<open>in\<close>, \<open>startswith\<close> and
  \<open>removeprefix\<close>, and membership in the character classes of their regular expressions.
\<close>

section \<open>Text of a value\<close>

definition repr_char :: "char \<Rightarrow> char \<Rightarrow> string" where
  "repr_char q c = (let n = of_char c :: nat in
     if c = q \<or> n = 92 then [CHR 0x5C, c]
     else if n = 10 then [CHR 0x5C, CHR ''n'']
     else if n = 13 then [CHR 0x5C, CHR ''r'']
     else if n = 9 then [CHR 0x5C, CHR ''t'']
     else if n < 32 \<or> (127 \<le> n \<and> n \<le> 160) \<or> n = 173
     then [CHR 0x5C, CHR ''x'', hex_digit (n div 16), hex_digit (n mod 16)]
     else [c])"

definition repr_str :: "string \<Rightarrow> string" where
  "repr_str s = (let q = (if CHR 0x27 \<in> set s \<and> CHR 0x22 \<notin> set s then CHR 0x22 else CHR 0x27)
     in q # concat (map (repr_char q) s) @ [q])"

definition repr_float :: "string \<Rightarrow> string" where
  "repr_float t = (if t = ''NaN'' then ''nan'' else if t = ''Infinity'' then ''inf''
     else if t = ''-Infinity'' then ''-inf'' else t)"

fun join :: "string \<Rightarrow> string list \<Rightarrow> string" where
  "join sep [] = []"
| "join sep [x] = x"
| "join sep (x # y # ys) = x @ sep @ join sep (y # ys)"

primrec py_repr :: "json \<Rightarrow> string" where
  "py_repr JNull = ''None''"
| "py_repr (JBool b) = (if b then ''True'' else ''False'')"
| "py_repr (JInt i) = int_str i"
| "py_repr (JFloat t) = repr_float t"
| "py_repr (JStr s) = repr_str s"
| "py_repr (JList xs) = ''['' @ join '', '' (map py_repr xs) @ '']''"
| "py_repr (JObj kvs) = ''{'' @ join '', '' (map (\<lambda>kv. repr_str (fst kv) @ '': '' @ snd kv)
     (map (map_prod id py_repr) kvs)) @ ''}''"

definition py_str :: "json \<Rightarrow> string" where
  "py_str j = (case j of JStr s \<Rightarrow> s | _ \<Rightarrow> py_repr j)"

text \<open>\<open>str(d.get(k, ""))\<close>\<close>

definition str_get :: "dict \<Rightarrow> string \<Rightarrow> string" where
  "str_get d k = (case dict_get d k of None \<Rightarrow> [] | Some v \<Rightarrow> py_str v)"

fun truthy :: "json \<Rightarrow> bool" where
  "truthy JNull = False"
| "truthy (JBool b) = b"
| "truthy (JInt i) = (i \<noteq> 0)"
| "truthy (JFloat t) = (t \<noteq> ''0.0'' \<and> t \<noteq> ''-0.0'')"
| "truthy (JStr s) = (s \<noteq> [])"
| "truthy (JList xs) = (xs \<noteq> [])"
| "truthy (JObj kvs) = (kvs \<noteq> [])"

text \<open>\<open>str(exc)\<close>; an exception of another class carries its class name only.\<close>

fun error_message :: "error \<Rightarrow> string" where
  "error_message (ControlPlaneError m) = m"
| "error_message (AuthorizationError m) = m"
| "error_message (AuthenticationError m) = m"
| "error_message (InvalidTransitionError m) = m"
| "error_message (ConflictError m) = m"
| "error_message (NotFoundError m) = m"
| "error_message (ValidationError m) = m"
| "error_message (ProviderReviewRejectedError m _) = m"
| "error_message (SandboxError m) = m"
| "error_message (WorkspaceError m) = m"
| "error_message (IntegrationDisabledError m) = m"
| "error_message (DeploymentOutcomeUnknownError m) = m"
| "error_message (DeploymentVerificationError m) = m"
| "error_message (IntegrationResponseError m) = m"
| "error_message (ValueError m) = m"
| "error_message (OtherError n) = n"

section \<open>Substrings, prefixes and character classes\<close>

definition starts_with :: "string \<Rightarrow> string \<Rightarrow> bool" where
  "starts_with p s \<longleftrightarrow> take (length p) s = p"

definition remove_prefix :: "string \<Rightarrow> string \<Rightarrow> string" where
  "remove_prefix p s = (if starts_with p s then drop (length p) s else s)"

text \<open>\<open>sub in s\<close>\<close>

fun contains :: "string \<Rightarrow> string \<Rightarrow> bool" where
  "contains sub [] = (sub = [])"
| "contains sub (c # s) = (starts_with sub (c # s) \<or> contains sub s)"

definition hex_char :: "char \<Rightarrow> bool" where
  "hex_char c \<longleftrightarrow> c \<in> set ''0123456789abcdef''"

text \<open>\<open>[0-9a-f]{n}\<close>\<close>

definition is_hex :: "nat \<Rightarrow> string \<Rightarrow> bool" where
  "is_hex n s \<longleftrightarrow> length s = n \<and> list_all hex_char s"

definition lower_alnum :: "char \<Rightarrow> bool" where
  "lower_alnum c \<longleftrightarrow> c \<in> set ''abcdefghijklmnopqrstuvwxyz0123456789''"

definition alnum :: "char \<Rightarrow> bool" where
  "alnum c \<longleftrightarrow> lower_alnum c \<or> c \<in> set ''ABCDEFGHIJKLMNOPQRSTUVWXYZ''"

text \<open>\<open>s.split(".")\<close>\<close>

fun split_on :: "char \<Rightarrow> string \<Rightarrow> string list" where
  "split_on sep [] = [[]]"
| "split_on sep (c # s) = (if c = sep then [] # split_on sep s
     else (case split_on sep s of [] \<Rightarrow> [[c]] | p # ps \<Rightarrow> (c # p) # ps))"

text \<open>\<open>sorted(set(xs))\<close>\<close>

definition sorted_set :: "string list \<Rightarrow> string list" where
  "sorted_set xs = sort (remdups xs)"

section \<open>Lemmas\<close>

lemma sorted_set_facts [simp]: "set (sorted_set xs) = set xs" "distinct (sorted_set xs)" "sorted (sorted_set xs)"
  "length (sorted_set xs) \<le> length xs"
  by (simp_all add: sorted_set_def length_remdups_leq)

lemma sorted_set_Nil_iff [simp]: "sorted_set xs = [] \<longleftrightarrow> xs = []"
  by (metis set_empty sorted_set_facts(1))

lemma starts_with_iff: "starts_with p s \<longleftrightarrow> (\<exists>v. s = p @ v)"
  unfolding starts_with_def by (metis append_eq_conv_conj append_take_drop_id)

lemma contains_Nil [simp]: "contains [] s"
  by (induction s) (simp_all add: starts_with_def)

lemma contains_iff: "contains sub s \<longleftrightarrow> (\<exists>u v. s = u @ sub @ v)"
proof (induction s)
  case (Cons c s)
  have "(\<exists>u v. c # s = u @ sub @ v) \<longleftrightarrow> (\<exists>v. c # s = sub @ v) \<or> (\<exists>u v. s = u @ sub @ v)"
    by (metis append_Cons append_Nil list.inject neq_Nil_conv)
  then show ?case using Cons.IH by (simp add: starts_with_iff)
qed simp

lemma contains_chars: "contains sub s \<Longrightarrow> set sub \<subseteq> set s"
  by (auto simp: contains_iff)

lemma split_on_ne [simp]: "split_on sep s \<noteq> []"
  by (induction s) (auto split: list.splits)

lemma split_on_no_sep: "sep \<notin> set s \<Longrightarrow> split_on sep s = [s]"
  by (induction s) auto

lemma split_on_many: "length (split_on sep s) \<noteq> 1 \<Longrightarrow> sep \<in> set s"
  using split_on_no_sep by fastforce

text \<open>Splitting loses nothing: joining the parts with the separator gives the string back.\<close>

lemma join_split_on: "join [sep] (split_on sep s) = s"
proof (induction s)
  case (Cons c s)
  obtain p ps where ps: "split_on sep s = p # ps" using split_on_ne by (meson neq_Nil_conv)
  then show ?case using Cons.IH by (cases ps) auto
qed simp

lemma is_hex_mono: "is_hex n s \<Longrightarrow> c \<in> set s \<Longrightarrow> hex_char c"
  by (simp add: is_hex_def list_all_iff)

end
