(* ===== verification/Credentials.thy ===== *)
theory Credentials
  imports Python_Text
begin

text \<open>
  \<open>credentials.py\<close>: requests for workload credentials, the non-secret handles issued for them, and the
  brokers: the default that refuses, the fake one that returns metadata only, and the Kubernetes one that
  mints a short-lived token, checks its claims, lends it to one consumer and keeps it out of every result
  and every message.

  What the module calls outside the repository is a parameter: \<open>create_token\<close> (the Kubernetes TokenRequest
  API behind a requester), \<open>decode\<close> (base64 and \<open>json.loads\<close> on the padded payload of a token, \<open>None\<close> for
  a decoding error) and \<open>run_process\<close> (the subprocess of the kubectl requester).
\<close>

section \<open>Data\<close>

datatype credential_operation = CO_APPLY_PLAN | CO_OBSERVE | CO_VERIFY | CO_ROLLBACK

fun credential_operation_value :: "credential_operation \<Rightarrow> string" where
  "credential_operation_value CO_APPLY_PLAN = ''APPLY_PLAN''"
| "credential_operation_value CO_OBSERVE = ''OBSERVE''"
| "credential_operation_value CO_VERIFY = ''VERIFY''"
| "credential_operation_value CO_ROLLBACK = ''ROLLBACK''"

record workload_credential_request =
  cr_environment_id :: string
  cr_adapter_id :: string
  cr_plan_digest :: string
  cr_operation :: credential_operation
  cr_audience :: string
  cr_subject :: string
  cr_resource_scope :: "string list"
  cr_lifetime_seconds :: int

record workload_credential_handle =
  ch_reference :: string
  ch_broker_id :: string
  ch_environment_id :: string
  ch_plan_digest :: string
  ch_operation :: credential_operation
  ch_audience :: string
  ch_subject :: string
  ch_resource_scope :: "string list"
  ch_issued_at :: instant
  ch_expires_at :: instant
  ch_simulated :: bool

definition seconds_us :: "int \<Rightarrow> int" where
  "seconds_us n = n * 1000000"

definition is_sha256 :: "string \<Rightarrow> bool" where
  "is_sha256 s \<longleftrightarrow> length s = 64 \<and> list_all (\<lambda>c. c \<in> set ''0123456789abcdef'') s"

text \<open>\<open>[a-z0-9](?:[-a-z0-9]*[a-z0-9])?\<close>, at most 63 characters.\<close>

definition is_kubernetes_name :: "string \<Rightarrow> bool" where
  "is_kubernetes_name s \<longleftrightarrow> length s \<le> 63 \<and> s \<noteq> [] \<and> lower_alnum (hd s) \<and> lower_alnum (last s) \<and>
     list_all (\<lambda>c. lower_alnum c \<or> c = CHR ''-'') s"

section \<open>The broker that refuses, and the fake one\<close>

definition deny_issue :: "workload_credential_request \<Rightarrow> error + workload_credential_handle" where
  "deny_issue request = Inl (AuthorizationError ''workload credential issuance is disabled'')"

record fake_broker =
  fb_environment_id :: string
  fb_adapter_id :: string
  fb_audience :: string
  fb_subject :: string
  fb_resource_scope :: "string set"
  fb_allowed_operations :: "credential_operation set"
  fb_max_lifetime_seconds :: int

definition fake_broker_init :: "fake_broker \<Rightarrow> error + fake_broker" where
  "fake_broker_init b =
     (if strip (fb_environment_id b) = [] \<or> strip (fb_adapter_id b) = [] \<or> strip (fb_audience b) = [] \<or>
         strip (fb_subject b) = []
      then Inl (ValidationError ''complete fake credential-broker policy is required'')
      else if fb_resource_scope b = {} \<or> fb_allowed_operations b = {}
      then Inl (ValidationError ''fake credential-broker allowlists cannot be empty'')
      else if fb_max_lifetime_seconds b < 1 \<or> 900 < fb_max_lifetime_seconds b
      then Inl (ValidationError ''fake credential lifetime must be between 1 and 900 seconds'')
      else Inr b)"

definition fake_authorize :: "fake_broker \<Rightarrow> workload_credential_request \<Rightarrow> error + unit" where
  "fake_authorize b r =
     (if cr_environment_id r \<noteq> fb_environment_id b
      then Inl (AuthorizationError ''credential environment is not allowlisted'')
      else if cr_adapter_id r \<noteq> fb_adapter_id b
      then Inl (AuthorizationError ''credential adapter is not allowlisted'')
      else if cr_audience r \<noteq> fb_audience b \<or> cr_subject r \<noteq> fb_subject b
      then Inl (AuthorizationError ''credential trust binding does not match policy'')
      else if cr_operation r \<notin> fb_allowed_operations b
      then Inl (AuthorizationError ''credential operation is not allowlisted'')
      else if cr_resource_scope r = [] \<or> \<not> distinct (cr_resource_scope r)
      then Inl (ValidationError ''credential resource scope must be non-empty and unique'')
      else if \<not> set (cr_resource_scope r) \<subseteq> fb_resource_scope b
      then Inl (AuthorizationError ''credential resource scope exceeds policy'')
      else if cr_lifetime_seconds r < 1 \<or> fb_max_lifetime_seconds b < cr_lifetime_seconds r
      then Inl (AuthorizationError ''credential lifetime exceeds policy'')
      else if length (cr_plan_digest r) \<noteq> 64 \<or> \<not> list_all (\<lambda>c. c \<in> set ''0123456789abcdef'') (cr_plan_digest r)
      then Inl (ValidationError ''credential request requires a lowercase SHA-256 plan digest'')
      else Inr ())"

text \<open>\<open>asdict(request)\<close> with the operation's value and the time of issue.\<close>

definition request_payload :: "string \<Rightarrow> workload_credential_request \<Rightarrow> json" where
  "request_payload issued_at r = JObj
     [(''environment_id'', JStr (cr_environment_id r)), (''adapter_id'', JStr (cr_adapter_id r)),
      (''plan_digest'', JStr (cr_plan_digest r)), (''operation'', JStr (credential_operation_value (cr_operation r))),
      (''audience'', JStr (cr_audience r)), (''subject'', JStr (cr_subject r)),
      (''resource_scope'', j_strs (cr_resource_scope r)), (''lifetime_seconds'', JInt (cr_lifetime_seconds r)),
      (''issued_at'', JStr issued_at)]"

definition fake_issue :: "(string \<Rightarrow> string) \<Rightarrow> (instant \<Rightarrow> string) \<Rightarrow> fake_broker \<Rightarrow> instant \<Rightarrow>
    workload_credential_request \<Rightarrow> error + workload_credential_handle" where
  "fake_issue sha isoformat b issued_at r =
     ebind (fake_authorize b r) (\<lambda>_.
     Inr \<lparr>ch_reference = ''fake-credential:'' @ digest sha (request_payload (isoformat issued_at) r),
       ch_broker_id = ''fake-local-v1'', ch_environment_id = cr_environment_id r,
       ch_plan_digest = cr_plan_digest r, ch_operation = cr_operation r, ch_audience = cr_audience r,
       ch_subject = cr_subject r, ch_resource_scope = sort (cr_resource_scope r), ch_issued_at = issued_at,
       ch_expires_at = issued_at + seconds_us (cr_lifetime_seconds r), ch_simulated = True\<rparr>)"

section \<open>The kubectl requester\<close>

text \<open>
  The arguments of \<open>kubectl create token\<close>; \<open>run_process\<close> answers with the exit status and the standard
  output, or \<open>None\<close> when the process cannot be run or times out.
\<close>

definition create_token_command :: "string \<Rightarrow> string \<Rightarrow> string \<Rightarrow> string \<Rightarrow> string \<Rightarrow> int \<Rightarrow> string list" where
  "create_token_command kubectl kubeconfig namespace service_account audience duration =
     [kubectl, ''--kubeconfig'', kubeconfig, ''create'', ''token'', service_account, ''--namespace'', namespace,
      ''--audience'', audience, ''--duration'', int_str duration @ ''s'']"

definition kubectl_create_token :: "(string list \<Rightarrow> (int \<times> string) option) \<Rightarrow> string \<Rightarrow> string \<Rightarrow>
    string \<Rightarrow> string \<Rightarrow> string \<Rightarrow> int \<Rightarrow> error + string" where
  "kubectl_create_token run_process kubectl kubeconfig namespace service_account audience duration =
     (if \<not> is_kubernetes_name namespace \<or> \<not> is_kubernetes_name service_account
      then Inl (ValidationError ''Kubernetes TokenRequest target is invalid'')
      else if audience = [] \<or> 253 < length audience \<or> list_ex is_space audience
      then Inl (ValidationError ''Kubernetes TokenRequest audience is invalid'')
      else (case run_process (create_token_command kubectl kubeconfig namespace service_account audience duration) of
          None \<Rightarrow> Inl (ValidationError ''Kubernetes TokenRequest invocation failed'')
        | Some (returncode, stdout) \<Rightarrow>
            if returncode \<noteq> 0 then Inl (ValidationError ''Kubernetes TokenRequest was rejected'')
            else let token = strip stdout in
              if token = [] \<or> 16384 < length token \<or> list_ex is_space token
              then Inl (ValidationError ''Kubernetes TokenRequest returned an invalid credential'')
              else Inr token))"

section \<open>The Kubernetes broker\<close>

record token_broker =
  kb_environment_id :: string
  kb_adapter_id :: string
  kb_plan_digest :: string
  kb_namespace :: string
  kb_service_account :: string
  kb_audience :: string
  kb_issuer :: string
  kb_subject :: string
  kb_resource_scope :: "string list"
  kb_operation :: credential_operation
  kb_enabled :: bool
  kb_lifetime_seconds :: int

definition service_account_subject :: "string \<Rightarrow> string \<Rightarrow> string" where
  "service_account_subject namespace service_account =
     ''system:serviceaccount:'' @ namespace @ '':'' @ service_account"

text \<open>The constructor; the subject and the scope of its argument are recomputed.\<close>

definition token_broker_init :: "token_broker \<Rightarrow> error + token_broker" where
  "token_broker_init b =
     (if strip (kb_environment_id b) = [] \<or> strip (kb_adapter_id b) = [] \<or> strip (kb_plan_digest b) = [] \<or>
         strip (kb_namespace b) = [] \<or> strip (kb_service_account b) = [] \<or> strip (kb_audience b) = [] \<or>
         strip (kb_issuer b) = []
      then Inl (ValidationError ''complete Kubernetes credential-broker policy is required'')
      else if \<not> is_kubernetes_name (kb_namespace b) \<or> \<not> is_kubernetes_name (kb_service_account b)
      then Inl (ValidationError ''Kubernetes credential-broker identity is invalid'')
      else if kb_resource_scope b = [] \<or> \<not> distinct (kb_resource_scope b)
      then Inl (ValidationError ''Kubernetes credential resource scope must be non-empty and unique'')
      else if kb_lifetime_seconds b \<noteq> 600
      then Inl (ValidationError ''local Kubernetes credential lifetime must equal 600 seconds'')
      else if \<not> is_sha256 (kb_plan_digest b)
      then Inl (ValidationError ''Kubernetes credential policy requires a lowercase SHA-256 digest'')
      else Inr (b\<lparr>kb_subject := service_account_subject (kb_namespace b) (kb_service_account b),
                  kb_resource_scope := sort (kb_resource_scope b)\<rparr>))"

definition token_authorize :: "token_broker \<Rightarrow> workload_credential_request \<Rightarrow> error + unit" where
  "token_authorize b r =
     (if cr_environment_id r \<noteq> kb_environment_id b
      then Inl (AuthorizationError ''credential environment is not allowlisted'')
      else if cr_adapter_id r \<noteq> kb_adapter_id b
      then Inl (AuthorizationError ''credential adapter is not allowlisted'')
      else if cr_audience r \<noteq> kb_audience b \<or> cr_subject r \<noteq> kb_subject b
      then Inl (AuthorizationError ''credential trust binding does not match policy'')
      else if cr_operation r \<noteq> kb_operation b
      then Inl (AuthorizationError ''credential operation is not allowlisted'')
      else if sort (cr_resource_scope r) \<noteq> kb_resource_scope b
      then Inl (AuthorizationError ''credential resource scope does not exactly match policy'')
      else if cr_lifetime_seconds r \<noteq> kb_lifetime_seconds b
      then Inl (AuthorizationError ''credential lifetime does not exactly match policy'')
      else if cr_plan_digest r \<noteq> kb_plan_digest b
      then Inl (AuthorizationError ''credential plan digest does not exactly match policy'')
      else Inr ())"

text \<open>\<open>datetime.fromtimestamp(n, UTC)\<close> is defined for the years 1 to 9999.\<close>

definition from_timestamp :: "int \<Rightarrow> instant option" where
  "from_timestamp n = (if - 62135596800 \<le> n \<and> n \<le> 253402300799 then Some (seconds_us n) else None)"

definition audience_claim_ok :: "string \<Rightarrow> json option \<Rightarrow> bool" where
  "audience_claim_ok audience claim = (case claim of
     Some (JStr a) \<Rightarrow> a = audience
   | Some (JList xs) \<Rightarrow> xs = [JStr audience]
   | _ \<Rightarrow> False)"

definition workload_identity_ok :: "token_broker \<Rightarrow> dict \<Rightarrow> bool" where
  "workload_identity_ok b kubernetes_claims \<longleftrightarrow>
     dict_get kubernetes_claims ''namespace'' = Some (JStr (kb_namespace b)) \<and>
     (case dict_get kubernetes_claims ''serviceaccount'' of
        Some (JObj sa) \<Rightarrow> dict_get sa ''name'' = Some (JStr (kb_service_account b)) \<and>
          (case dict_get sa ''uid'' of None \<Rightarrow> False | Some u \<Rightarrow> truthy u)
      | _ \<Rightarrow> False)"

text \<open>The last part of \<open>_validate_claims\<close>: the validity window.\<close>

definition validate_window :: "token_broker \<Rightarrow> dict \<Rightarrow> instant \<Rightarrow> error + instant \<times> instant" where
  "validate_window b claims current_time =
     (case (dict_get claims ''iat'', dict_get claims ''exp'') of
        (Some (JInt issued_value), Some (JInt expires_value)) \<Rightarrow>
          if expires_value - issued_value \<noteq> kb_lifetime_seconds b
          then Inl (AuthorizationError ''issued credential lifetime does not match policy'')
          else (case (from_timestamp issued_value, from_timestamp expires_value) of
              (Some issued_at, Some expires_at) \<Rightarrow>
                if seconds_us 60 < \<bar>current_time - issued_at\<bar> \<or> expires_at \<le> current_time
                then Inl (AuthorizationError ''issued credential validity window is invalid'')
                else Inr (issued_at, expires_at)
            | _ \<Rightarrow> Inl (ValidationError ''issued credential timestamps are invalid''))
      | _ \<Rightarrow> Inl (ValidationError ''issued credential timestamps are invalid''))"

definition validate_claims :: "token_broker \<Rightarrow> dict \<Rightarrow> instant \<Rightarrow> error + instant \<times> instant" where
  "validate_claims b claims current_time =
     (if \<not> audience_claim_ok (kb_audience b) (dict_get claims ''aud'') \<or>
         dict_get claims ''sub'' \<noteq> Some (JStr (kb_subject b)) \<or> dict_get claims ''iss'' \<noteq> Some (JStr (kb_issuer b))
      then Inl (AuthorizationError ''issued credential trust binding does not match policy'')
      else (case dict_get claims ''kubernetes.io'' of
          Some (JObj kubernetes_claims) \<Rightarrow>
            if \<not> workload_identity_ok b kubernetes_claims
            then Inl (AuthorizationError ''issued credential workload identity is invalid'')
            else validate_window b claims current_time
        | _ \<Rightarrow> Inl (AuthorizationError ''issued credential workload identity is invalid'')))"

text \<open>\<open>-len(s) % 4\<close> padding characters.\<close>

definition pad_base64 :: "string \<Rightarrow> string" where
  "pad_base64 s = s @ replicate (nat ((- int (length s)) mod 4)) (CHR ''='')"

definition decode_jwt_claims :: "(string \<Rightarrow> json option) \<Rightarrow> string \<Rightarrow> error + dict" where
  "decode_jwt_claims decode token =
     (let parts = split_on (CHR ''.'') token in
      if length parts \<noteq> 3 \<or> [] \<in> set parts
      then Inl (ValidationError ''Kubernetes TokenRequest returned a malformed credential'')
      else (case decode (pad_base64 (parts ! 1)) of
          None \<Rightarrow> Inl (ValidationError ''Kubernetes TokenRequest returned a malformed credential'')
        | Some (JObj claims) \<Rightarrow> Inr claims
        | Some _ \<Rightarrow> Inl (ValidationError ''Kubernetes TokenRequest returned malformed claims'')))"

definition issued_handle :: "workload_credential_request \<Rightarrow> string \<Rightarrow> instant \<Rightarrow> instant \<Rightarrow> workload_credential_handle" where
  "issued_handle r uuid issued_at expires_at =
     \<lparr>ch_reference = ''kubernetes-token:'' @ uuid, ch_broker_id = ''kubernetes-token-request-v1'',
      ch_environment_id = cr_environment_id r, ch_plan_digest = cr_plan_digest r, ch_operation = cr_operation r,
      ch_audience = cr_audience r, ch_subject = cr_subject r, ch_resource_scope = sort (cr_resource_scope r),
      ch_issued_at = issued_at, ch_expires_at = expires_at, ch_simulated = False\<rparr>"

text \<open>What one issue reads from outside.\<close>

record issue_env =
  ie_create_token :: "string \<Rightarrow> string \<Rightarrow> string \<Rightarrow> int \<Rightarrow> error + string"
  ie_decode :: "string \<Rightarrow> json option"
  ie_now :: instant
  ie_uuid :: string

definition requested_token :: "issue_env \<Rightarrow> token_broker \<Rightarrow> error + string" where
  "requested_token en b =
     (case ie_create_token en (kb_namespace b) (kb_service_account b) (kb_audience b) (kb_lifetime_seconds b) of
        Inl _ \<Rightarrow> Inl (ValidationError ''Kubernetes TokenRequest invocation failed'')
      | Inr token \<Rightarrow> Inr token)"

definition issue_material :: "issue_env \<Rightarrow> token_broker \<Rightarrow> workload_credential_request \<Rightarrow>
    error + string \<times> workload_credential_handle" where
  "issue_material en b r =
     (if \<not> kb_enabled b then Inl (AuthorizationError ''Kubernetes workload credential issuance is disabled'')
      else
      ebind (token_authorize b r) (\<lambda>_.
      ebind (requested_token en b) (\<lambda>token.
      ebind (decode_jwt_claims (ie_decode en) token) (\<lambda>claims.
      ebind (validate_claims b claims (ie_now en)) (\<lambda>(issued_at, expires_at).
      Inr (token, issued_handle r (ie_uuid en) issued_at expires_at))))))"

definition token_issue :: "issue_env \<Rightarrow> token_broker \<Rightarrow> workload_credential_request \<Rightarrow>
    error + workload_credential_handle" where
  "token_issue en b r = ebind (issue_material en b r) (\<lambda>(_, handle). Inr handle)"

text \<open>The exception handlers of \<open>run\<close>.\<close>

definition bound_error :: "string \<Rightarrow> error \<Rightarrow> error" where
  "bound_error token e =
     (case e of
        DeploymentOutcomeUnknownError m \<Rightarrow> if contains token m
          then ValidationError ''credential-bound operation failed safely'' else e
      | DeploymentVerificationError m \<Rightarrow> if contains token m
          then ValidationError ''credential-bound operation failed safely'' else e
      | ValidationError m \<Rightarrow> if contains token m
          then ValidationError ''credential-bound operation failed safely'' else e
      | ProviderReviewRejectedError m _ \<Rightarrow> if contains token m
          then ValidationError ''credential-bound operation failed safely'' else e
      | _ \<Rightarrow> ValidationError ''credential-bound deployment operation failed'')"

text \<open>
  \<open>run\<close>: the consumer acts on the outside world, whose state \<open>'s\<close> is threaded through it; \<open>repr\<close> is the
  text of its result.
\<close>

definition token_run :: "issue_env \<Rightarrow> ('r \<Rightarrow> string) \<Rightarrow> token_broker \<Rightarrow> workload_credential_request \<Rightarrow>
    (string \<Rightarrow> workload_credential_handle \<Rightarrow> 's \<Rightarrow> (error + 'r) \<times> 's) \<Rightarrow> 's \<Rightarrow>
    (error + workload_credential_handle \<times> 'r) \<times> 's" where
  "token_run en repr b r consumer s =
     (case issue_material en b r of
        Inl e \<Rightarrow> (Inl e, s)
      | Inr (token, handle) \<Rightarrow>
          (case consumer token handle s of
             (Inl e, s') \<Rightarrow> (Inl (bound_error token e), s')
           | (Inr result, s') \<Rightarrow>
               if contains token (repr result)
               then (Inl (bound_error token (ValidationError ''credential-bound result contained credential material'')), s')
               else (Inr (handle, result), s')))"

section \<open>The broker factory\<close>

record token_broker_factory =
  kf_environment_id :: string
  kf_adapter_id :: string
  kf_namespace :: string
  kf_service_account :: string
  kf_audience :: string
  kf_issuer :: string
  kf_resource_scope :: "string list"
  kf_allowed_operations :: "credential_operation set"
  kf_enabled :: bool
  kf_lifetime_seconds :: int

definition for_request :: "token_broker_factory \<Rightarrow> workload_credential_request \<Rightarrow> error + token_broker" where
  "for_request f r =
     (if \<not> is_sha256 (cr_plan_digest r)
      then Inl (ValidationError ''credential broker factory requires a lowercase SHA-256 digest'')
      else if cr_operation r \<notin> kf_allowed_operations f
      then Inl (AuthorizationError ''credential broker factory operation is not allowlisted'')
      else token_broker_init \<lparr>kb_environment_id = kf_environment_id f, kb_adapter_id = kf_adapter_id f,
        kb_plan_digest = cr_plan_digest r, kb_namespace = kf_namespace f,
        kb_service_account = kf_service_account f, kb_audience = kf_audience f, kb_issuer = kf_issuer f,
        kb_subject = [], kb_resource_scope = kf_resource_scope f, kb_operation = cr_operation r,
        kb_enabled = kf_enabled f, kb_lifetime_seconds = kf_lifetime_seconds f\<rparr>)"

text \<open>The constructor tries one request, for an operation \<open>op\<close> of the allowlist.\<close>

definition token_broker_factory_init :: "credential_operation \<Rightarrow> token_broker_factory \<Rightarrow> error + token_broker_factory" where
  "token_broker_factory_init op f =
     (if kf_allowed_operations f = {}
      then Inl (ValidationError ''credential broker factory operations cannot be empty'')
      else ebind (for_request f \<lparr>cr_environment_id = kf_environment_id f, cr_adapter_id = kf_adapter_id f,
        cr_plan_digest = replicate 64 (CHR ''0''), cr_operation = op, cr_audience = kf_audience f,
        cr_subject = service_account_subject (kf_namespace f) (kf_service_account f),
        cr_resource_scope = kf_resource_scope f, cr_lifetime_seconds = kf_lifetime_seconds f\<rparr>) (\<lambda>_. Inr f))"

section \<open>What an issued credential is bound to\<close>

lemma for_request_Inr:
  assumes "for_request f r = Inr b"
  shows "kb_environment_id b = kf_environment_id f" "kb_adapter_id b = kf_adapter_id f"
    "kb_audience b = kf_audience f" "kb_plan_digest b = cr_plan_digest r" "is_sha256 (cr_plan_digest r)"
    "kb_subject b = service_account_subject (kf_namespace f) (kf_service_account f)"
    "kb_resource_scope b = sort (kf_resource_scope f)" "kb_operation b = cr_operation r"
    "cr_operation r \<in> kf_allowed_operations f" "kb_lifetime_seconds b = 600" "kb_enabled b = kf_enabled f"
  using assms by (auto simp: for_request_def token_broker_init_def tx_simps)

lemma token_authorize_Inr:
  "token_authorize b r = Inr u \<longleftrightarrow> cr_environment_id r = kb_environment_id b \<and> cr_adapter_id r = kb_adapter_id b \<and>
     cr_audience r = kb_audience b \<and> cr_subject r = kb_subject b \<and> cr_operation r = kb_operation b \<and>
     sort (cr_resource_scope r) = kb_resource_scope b \<and> cr_lifetime_seconds r = kb_lifetime_seconds b \<and>
     cr_plan_digest r = kb_plan_digest b"
  by (auto simp: token_authorize_def)

lemma validate_window_Inr:
  assumes "validate_window b claims now = Inr (issued_at, expires_at)"
  shows "expires_at - issued_at = seconds_us (kb_lifetime_seconds b) \<and> \<bar>now - issued_at\<bar> \<le> seconds_us 60 \<and>
    now < expires_at"
proof -
  obtain i e where ie: "e - i = kb_lifetime_seconds b" "issued_at = seconds_us i" "expires_at = seconds_us e"
    "\<not> (seconds_us 60 < \<bar>now - issued_at\<bar> \<or> expires_at \<le> now)"
    using assms by (auto simp: validate_window_def from_timestamp_def tx_simps
        split: option.splits json.splits if_splits)
  then have "expires_at - issued_at = seconds_us (kb_lifetime_seconds b)" by (auto simp: seconds_us_def)
  with ie(4) show ?thesis by auto
qed

lemma validate_claims_Inr: "validate_claims b claims now = Inr x \<Longrightarrow> validate_window b claims now = Inr x"
  by (auto simp: validate_claims_def tx_simps split: option.splits json.splits)

lemma issue_material_Inr:
  assumes "issue_material en b r = Inr (token, h)"
  obtains claims i e where "token_authorize b r = Inr ()" "requested_token en b = Inr token"
    "decode_jwt_claims (ie_decode en) token = Inr claims" "validate_claims b claims (ie_now en) = Inr (i, e)"
    "h = issued_handle r (ie_uuid en) i e" "kb_enabled b"
  using assms by (auto simp: issue_material_def tx_simps)

lemma decode_jwt_dotted: "decode_jwt_claims decode token = Inr claims \<Longrightarrow> CHR ''.'' \<in> set token"
  by (rule split_on_many [of "CHR ''.''" token]) (auto simp: decode_jwt_claims_def Let_def tx_simps)

definition demo_factory :: token_broker_factory where
  "demo_factory = \<lparr>kf_environment_id = ''e'', kf_adapter_id = ''a'', kf_namespace = ''n'', kf_service_account = ''s'',
     kf_audience = ''u'', kf_issuer = ''i'', kf_resource_scope = [''x''], kf_allowed_operations = {CO_APPLY_PLAN},
     kf_enabled = True, kf_lifetime_seconds = 600\<rparr>"

definition demo_request :: workload_credential_request where
  "demo_request = \<lparr>cr_environment_id = ''e'', cr_adapter_id = ''a'', cr_plan_digest = replicate 64 (CHR ''0''),
     cr_operation = CO_APPLY_PLAN, cr_audience = ''u'', cr_subject = ''system:serviceaccount:n:s'',
     cr_resource_scope = [''x''], cr_lifetime_seconds = 600\<rparr>"

definition demo_claims :: dict where
  "demo_claims = [(''aud'', JList [JStr ''u'']), (''sub'', JStr ''system:serviceaccount:n:s''), (''iss'', JStr ''i''),
     (''kubernetes.io'', JObj [(''namespace'', JStr ''n''),
       (''serviceaccount'', JObj [(''name'', JStr ''s''), (''uid'', JStr ''1'')])]),
     (''iat'', JInt 100), (''exp'', JInt 700)]"

definition demo_issue_env :: issue_env where
  "demo_issue_env = \<lparr>ie_create_token = (\<lambda>_ _ _ _. Inr ''h.p.s''), ie_decode = (\<lambda>_. Some (JObj demo_claims)),
     ie_now = 110000000, ie_uuid = ''7''\<rparr>"

definition demo_broker :: token_broker where
  "demo_broker = projr (for_request demo_factory demo_request)"

lemma demo_for_request: "for_request demo_factory demo_request = Inr demo_broker"
proof -
  have "is_ok (for_request demo_factory demo_request)" by code_simp
  then show ?thesis by (auto simp: is_ok_iff demo_broker_def)
qed

lemma demo_issue: "issue_material demo_issue_env demo_broker demo_request =
    Inr (''h.p.s'', issued_handle demo_request ''7'' 100000000 700000000)"
  unfolding demo_broker_def by code_simp



section \<open>The token stays inside the broker\<close>

lemma bound_error_safe:
  assumes "CHR ''.'' \<in> set token"
  shows "\<not> contains token (error_message (bound_error token e))"
proof -
  have fixed: "\<not> contains token m" if "CHR ''.'' \<notin> set m" for m
    using assms that contains_chars by blast
  show ?thesis by (cases e) (simp_all add: bound_error_def fixed del: contains.simps)
qed

text \<open>C36: The token never leaves the broker. Whatever the consumer does and returns, a run whose request
was granted either returns a result whose printed form does not contain the token, or raises an exception
whose message does not contain it; and the world is exactly as the consumer left it. When no token was
issued the consumer was not called.\<close>

theorem credential_never_leaks:
  "case issue_material en b r of
     Inl e \<Rightarrow> token_run en repr b r consumer s = (Inl e, s)
   | Inr (token, h) \<Rightarrow>
       snd (token_run en repr b r consumer s) = snd (consumer token h s) \<and>
       (case fst (token_run en repr b r consumer s) of
          Inl e \<Rightarrow> \<not> contains token (error_message e)
        | Inr (h', result) \<Rightarrow> h' = h \<and> fst (consumer token h s) = Inr result \<and> \<not> contains token (repr result))"
proof (cases "issue_material en b r")
  case (Inr x)
  obtain token h where x: "x = (token, h)" by (cases x)
  have "CHR ''.'' \<in> set token"
    using Inr x by (auto elim!: issue_material_Inr dest: decode_jwt_dotted)
  then have safe: "\<not> contains token (error_message (bound_error token e))" for e by (rule bound_error_safe)
  obtain res s' where "consumer token h s = (res, s')" by (cases "consumer token h s")
  then show ?thesis using Inr x safe by (cases res) (simp_all add: token_run_def)
qed (simp add: token_run_def)

end
