(* ===== verification/Deployment.thy ===== *)
theory Deployment
  imports Credentials Persistence
begin

text \<open>
  \<open>deployment.py\<close>: the immutable plan, what an adapter reports, the adapter protocols and the dry-run
  adapter.  An adapter is a record of its methods; the outside world it acts on is a state of type \<open>'k\<close>
  threaded through the two methods that contact a target.  A class without a method has an entry that
  raises \<open>AttributeError\<close>, and \<open>ad_recoverable\<close> is the structural \<open>isinstance\<close> test.
\<close>

section \<open>Data\<close>

datatype deployment_operation_kind = OK_VERIFY_ARTIFACT | OK_APPLY_RELEASE | OK_UPDATE_SERVICE

fun deployment_operation_kind_value :: "deployment_operation_kind \<Rightarrow> string" where
  "deployment_operation_kind_value OK_VERIFY_ARTIFACT = ''VERIFY_ARTIFACT''"
| "deployment_operation_kind_value OK_APPLY_RELEASE = ''APPLY_RELEASE''"
| "deployment_operation_kind_value OK_UPDATE_SERVICE = ''UPDATE_SERVICE''"

definition operation_kinds :: "string list" where
  "operation_kinds = map deployment_operation_kind_value [OK_VERIFY_ARTIFACT, OK_APPLY_RELEASE, OK_UPDATE_SERVICE]"

record deployment_plan =
  pl_plan_id :: ident
  pl_workflow_id :: ident
  pl_environment_id :: string
  pl_revision :: string
  pl_artifact_digests :: "string list"
  pl_operations :: "dict list"
  pl_verification_probes :: "string list"
  pl_rollback_reference :: string
  pl_policy_version :: string
  pl_digest :: string

record deployment_execution =
  dx_operation_reference :: string
  dx_simulated :: bool
  dx_changed :: bool
  dx_evidence :: dict

record deployment_observation =
  do_observed_revision :: string
  do_evidence :: dict

record deployment_verification =
  vf_passed :: bool
  vf_observed_revision :: string
  vf_evidence :: dict

text \<open>\<open>CredentialedDeploymentRun\<close> and \<open>CredentialedRollbackRun\<close> have the same fields.\<close>

record credentialed_run =
  cu_execution :: deployment_execution
  cu_observation :: deployment_observation
  cu_verification :: deployment_verification

section \<open>Adapters\<close>

type_synonym release = "(string \<times> string) list"

text \<open>A dictionary all of whose values are strings.\<close>

fun release_entries :: "dict \<Rightarrow> release option" where
  "release_entries [] = Some []"
| "release_entries ((k, JStr v) # d) = map_option ((#) (k, v)) (release_entries d)"
| "release_entries (_ # d) = None"

lemma release_entries_json [simp]: "release_entries (map (\<lambda>(k, v). (k, JStr v)) r) = Some r"
  by (induction r) auto

record 'k adapter =
  ad_adapter_id :: string
  ad_requires_credentials :: bool
  ad_recoverable :: bool
  ad_validate_plan :: "deployment_plan \<Rightarrow> error + unit"
  ad_execute :: "deployment_plan \<Rightarrow> ident \<Rightarrow> error + deployment_execution"
  ad_observe :: "deployment_plan \<Rightarrow> deployment_execution \<Rightarrow> error + deployment_observation"
  ad_verify :: "deployment_plan \<Rightarrow> deployment_observation \<Rightarrow> error + deployment_verification"
  ad_credential_request :: "deployment_plan \<Rightarrow> error + workload_credential_request"
  ad_run_with_credential :: "deployment_plan \<Rightarrow> string \<Rightarrow> workload_credential_handle \<Rightarrow> ident \<Rightarrow> 'k \<Rightarrow>
    (error + credentialed_run) \<times> 'k"
  ad_rollback_credential_request :: "deployment_plan \<Rightarrow> error + workload_credential_request"
  ad_rollback_with_credential :: "deployment_plan \<Rightarrow> release \<Rightarrow> string \<Rightarrow> workload_credential_handle \<Rightarrow> ident \<Rightarrow>
    'k \<Rightarrow> (error + credentialed_run) \<times> 'k"

text \<open>Sequencing of steps that act on the outside world: what was done stays done when one raises.\<close>

definition sbind :: "(error + 'a) \<times> 's \<Rightarrow> ('a \<Rightarrow> 's \<Rightarrow> (error + 'b) \<times> 's) \<Rightarrow> (error + 'b) \<times> 's" where
  "sbind m f = (case m of (Inl e, s) \<Rightarrow> (Inl e, s) | (Inr x, s) \<Rightarrow> f x s)"

lemma sbind_simps [simp]:
  "sbind (Inl e, s) f = (Inl e, s)"
  "sbind (Inr x, s) f = f x s"
  by (simp_all add: sbind_def)

lemma sbind_eq_Inr: "sbind m f = (Inr y, s') \<longleftrightarrow> (\<exists>x s. m = (Inr x, s) \<and> f x s = (Inr y, s'))"
  by (auto simp: sbind_def split: prod.splits sum.splits)

section \<open>The dry-run adapter\<close>

definition dry_run_adapter_id :: string where
  "dry_run_adapter_id = ''dry-run-v1''"

definition check_operation :: "deployment_plan \<Rightarrow> dict \<Rightarrow> error + unit" where
  "check_operation plan operation =
     (let resource_id = strip (str_get operation ''resource_id'') in
      if str_get operation ''kind'' \<notin> set operation_kinds
      then Inl (ValidationError ''deployment operation kind is not allowlisted'')
      else if \<not> fst ` set operation \<subseteq> {''kind'', ''resource_id'', ''artifact_digest''}
      then Inl (ValidationError ''deployment operation contains unsupported fields'')
      else if resource_id = [] \<or> 256 < length resource_id
      then Inl (ValidationError ''deployment operation requires a resource ID'')
      else if str_get operation ''artifact_digest'' \<notin> set (pl_artifact_digests plan)
      then Inl (ValidationError ''deployment operation references an unbound artifact'')
      else Inr ())"

fun check_operations :: "deployment_plan \<Rightarrow> dict list \<Rightarrow> error + unit" where
  "check_operations plan [] = Inr ()"
| "check_operations plan (operation # operations) =
     ebind (check_operation plan operation) (\<lambda>_. check_operations plan operations)"

definition dry_validate_plan :: "deployment_plan \<Rightarrow> error + unit" where
  "dry_validate_plan plan =
     (if pl_operations plan = []
      then Inl (ValidationError ''deployment plan requires at least one typed operation'')
      else check_operations plan (pl_operations plan))"

definition dry_execute :: "deployment_plan \<Rightarrow> ident \<Rightarrow> error + deployment_execution" where
  "dry_execute plan idempotency_key =
     ebind (dry_validate_plan plan) (\<lambda>_.
     Inr \<lparr>dx_operation_reference = ''dry-run:'' @ pl_digest plan @ '':'' @ idempotency_key, dx_simulated = True,
       dx_changed = False,
       dx_evidence = [(''adapter_id'', JStr dry_run_adapter_id), (''credential_requested'', JBool False),
         (''external_target_contacted'', JBool False), (''operation_count'', JInt (int (length (pl_operations plan)))),
         (''plan_digest'', JStr (pl_digest plan))]\<rparr>)"

definition dry_observe :: "deployment_plan \<Rightarrow> deployment_execution \<Rightarrow> error + deployment_observation" where
  "dry_observe plan execution =
     (if \<not> dx_simulated execution \<or> dx_changed execution
      then Inl (ValidationError ''dry-run execution evidence is invalid'')
      else Inr \<lparr>do_observed_revision = pl_revision plan,
        do_evidence = [(''simulated'', JBool True), (''external_target_contacted'', JBool False),
          (''observed_plan_digest'', JStr (pl_digest plan))]\<rparr>)"

definition dry_verify :: "deployment_plan \<Rightarrow> deployment_observation \<Rightarrow> error + deployment_verification" where
  "dry_verify plan observation =
     (let revision_matches = (do_observed_revision observation = pl_revision plan);
          digest_matches = (dict_get (do_evidence observation) ''observed_plan_digest'' = Some (JStr (pl_digest plan)))
      in Inr \<lparr>vf_passed = (revision_matches \<and> digest_matches),
        vf_observed_revision = do_observed_revision observation,
        vf_evidence = [(''simulated'', JBool True), (''revision_matches'', JBool revision_matches),
          (''plan_digest_matches'', JBool digest_matches), (''probes'', j_strs (pl_verification_probes plan))]\<rparr>)"

definition no_method :: "'a \<Rightarrow> error + 'b" where
  "no_method _ = Inl (OtherError ''AttributeError'')"

definition dry_run_adapter :: "'k adapter" where
  "dry_run_adapter = \<lparr>ad_adapter_id = dry_run_adapter_id, ad_requires_credentials = False, ad_recoverable = False,
     ad_validate_plan = dry_validate_plan, ad_execute = dry_execute, ad_observe = dry_observe,
     ad_verify = dry_verify, ad_credential_request = no_method,
     ad_run_with_credential = (\<lambda>_ _ _ _ s. (no_method (), s)), ad_rollback_credential_request = no_method,
     ad_rollback_with_credential = (\<lambda>_ _ _ _ _ s. (no_method (), s))\<rparr>"

section \<open>The dry run verifies every plan it accepts\<close>

lemma check_operations_Inr:
  "check_operations plan ops = Inr u \<longleftrightarrow> (\<forall>operation\<in>set ops. check_operation plan operation = Inr ())"
  by (induction ops) (auto simp: tx_simps)

lemma dry_run_succeeds:
  assumes "dry_validate_plan plan = Inr ()"
  obtains x ob v where "dry_execute plan key = Inr x" "dry_observe plan x = Inr ob" "dry_verify plan ob = Inr v"
    "dx_simulated x" "\<not> dx_changed x" "vf_passed v" "vf_observed_revision v = pl_revision plan"
  using assms by (auto simp: dry_execute_def dry_observe_def dry_verify_def dict_get_def Let_def)

section \<open>The printed form of a run\<close>

definition py_bool :: "bool \<Rightarrow> string" where
  "py_bool b = (if b then ''True'' else ''False'')"

text \<open>\<open>repr\<close> of the data class \<open>cls\<close>.\<close>

definition run_repr :: "string \<Rightarrow> credentialed_run \<Rightarrow> string" where
  "run_repr cls u = cls @ ''(execution=DeploymentExecution(operation_reference='' @
     repr_str (dx_operation_reference (cu_execution u)) @ '', simulated='' @ py_bool (dx_simulated (cu_execution u)) @
     '', changed='' @ py_bool (dx_changed (cu_execution u)) @ '', evidence='' @
     py_repr (JObj (dx_evidence (cu_execution u))) @ ''), observation=DeploymentObservation(observed_revision='' @
     repr_str (do_observed_revision (cu_observation u)) @ '', evidence='' @
     py_repr (JObj (do_evidence (cu_observation u))) @ ''), verification=DeploymentVerification(passed='' @
     py_bool (vf_passed (cu_verification u)) @ '', observed_revision='' @
     repr_str (vf_observed_revision (cu_verification u)) @ '', evidence='' @
     py_repr (JObj (vf_evidence (cu_verification u))) @ ''))''"

end
