(* ===== verification/Deployment_Recovery.thy ===== *)
theory Deployment_Recovery
  imports Workflow_Tasks Deployment
begin

text \<open>
  \<open>DeploymentRecoveryService\<close> (\<open>deployment_recovery.py\<close>): environments, immutable plans, the dry run, the
  credentialed local deployment and its rollback.  Execution has three phases, as in the source: a first
  transaction that consumes the approval and commits the intent, the adapter call outside any transaction,
  and a second transaction that records the outcome (or the failure).  The two transactions read the clock
  separately (\<open>en\<close> and \<open>en2\<close>).  Adapters and credential brokers are arguments; \<open>'k\<close> is the state of the
  outside world they act on, and the flag beside it records whether the target was contacted.
\<close>

section \<open>Configuration\<close>

type_synonym 's session_broker = "workload_credential_request \<Rightarrow>
    (string \<Rightarrow> workload_credential_handle \<Rightarrow> 's \<Rightarrow> (error + credentialed_run) \<times> 's) \<Rightarrow> 's \<Rightarrow>
    (error + workload_credential_handle \<times> credentialed_run) \<times> 's"

text \<open>\<open>dc_session_broker\<close> is the credential broker when it implements \<open>run\<close>.\<close>

record 'k deploy_config =
  dc_adapters :: "string \<Rightarrow> 'k adapter option"
  dc_broker_factory :: "(workload_credential_request \<Rightarrow> error + ('k \<times> bool) session_broker) option"
  dc_session_broker :: "('k \<times> bool) session_broker option"
  dc_enable_local_deployment :: bool

section \<open>Dictionaries returned to callers\<close>

definition credential_handle_dict :: "config \<Rightarrow> workload_credential_handle \<Rightarrow> json" where
  "credential_handle_dict cf h = JObj
     [(''reference'', JStr (ch_reference h)), (''broker_id'', JStr (ch_broker_id h)),
      (''environment_id'', JStr (ch_environment_id h)), (''plan_digest'', JStr (ch_plan_digest h)),
      (''operation'', JStr (credential_operation_value (ch_operation h))), (''audience'', JStr (ch_audience h)),
      (''subject'', JStr (ch_subject h)), (''resource_scope'', j_strs (ch_resource_scope h)),
      (''issued_at'', JStr (cf_isoformat cf (ch_issued_at h))),
      (''expires_at'', JStr (cf_isoformat cf (ch_expires_at h))), (''simulated'', JBool (ch_simulated h))]"

definition deployment_plan_value :: "deployment_plan_record \<Rightarrow> deployment_plan" where
  "deployment_plan_value p =
     \<lparr>pl_plan_id = dp_id p, pl_workflow_id = dp_workflow_id p, pl_environment_id = dp_environment_id p,
      pl_revision = dp_revision p, pl_artifact_digests = dp_artifact_digests p, pl_operations = dp_operations p,
      pl_verification_probes = dp_verification_probes p, pl_rollback_reference = dp_rollback_reference p,
      pl_policy_version = dp_policy_version p, pl_digest = dp_digest p\<rparr>"

definition deployment_environment_dict :: "config \<Rightarrow> deployment_environment \<Rightarrow> json" where
  "deployment_environment_dict cf e = JObj
     [(''id'', JStr (de_id e)), (''name'', JStr (de_name e)),
      (''classification'', JStr (environment_classification_value (de_classification e))),
      (''provider'', JStr (de_provider e)), (''account_scope'', JStr (de_account_scope e)),
      (''region'', JStr (de_region e)), (''resource_scope'', j_strs (de_resource_scope e)),
      (''adapter_id'', JStr (de_adapter_id e)), (''policy_version'', JStr (de_policy_version e)),
      (''repository'', JStr (de_repository e)), (''base_branch'', JStr (de_base_branch e)),
      (''required_checks'', j_strs (de_required_checks e)),
      (''required_attestations'', j_strs (de_required_attestations e)),
      (''verification_policy'', j_strs (de_verification_policy e)),
      (''rollback_policy'', JStr (de_rollback_policy e)), (''config_digest'', JStr (de_config_digest e)),
      (''active'', JBool (de_active e)), (''created_by'', JStr (de_created_by e)),
      (''created_at'', JStr (cf_isoformat cf (de_created_at e)))]"

definition deployment_plan_dict :: "config \<Rightarrow> deployment_plan_record \<Rightarrow> json" where
  "deployment_plan_dict cf p = JObj
     [(''id'', JStr (dp_id p)), (''workflow_id'', JStr (dp_workflow_id p)),
      (''environment_id'', JStr (dp_environment_id p)), (''revision'', JStr (dp_revision p)),
      (''artifact_digests'', j_strs (dp_artifact_digests p)), (''operations'', JList (map JObj (dp_operations p))),
      (''declared_impact'', JStr (dp_declared_impact p)),
      (''verification_probes'', j_strs (dp_verification_probes p)),
      (''rollback_reference'', JStr (dp_rollback_reference p)), (''policy_version'', JStr (dp_policy_version p)),
      (''digest'', JStr (dp_digest p)), (''created_at'', JStr (cf_isoformat cf (dp_created_at p)))]"

definition deployment_attempt_dict :: "config \<Rightarrow> deployment_attempt_record \<Rightarrow> json" where
  "deployment_attempt_dict cf a = JObj
     [(''id'', JStr (da_id a)), (''workflow_id'', JStr (da_workflow_id a)), (''plan_id'', JStr (da_plan_id a)),
      (''approval_id'', JStr (da_approval_id a)), (''adapter_id'', JStr (da_adapter_id a)),
      (''status'', JStr (deployment_attempt_status_value (da_status a))),
      (''operation_reference'', j_opt_str (da_operation_reference a)), (''simulated'', JBool (da_simulated a)),
      (''result'', JObj (da_result_json a)), (''error_code'', j_opt_str (da_error_code a)),
      (''started_at'', JStr (cf_isoformat cf (da_started_at a))), (''completed_at'', j_opt_time cf (da_completed_at a))]"

definition deployment_rollback_dict :: "config \<Rightarrow> deployment_rollback_record \<Rightarrow> json" where
  "deployment_rollback_dict cf r = JObj
     [(''id'', JStr (dr_id r)), (''workflow_id'', JStr (dr_workflow_id r)), (''attempt_id'', JStr (dr_attempt_id r)),
      (''approval_id'', JStr (dr_approval_id r)), (''actor_id'', JStr (dr_actor_id r)),
      (''rollback_reference'', JStr (dr_rollback_reference r)),
      (''decision'', JStr (approval_decision_value (dr_decision r))), (''rationale'', JStr (dr_rationale r)),
      (''status'', JStr (rollback_status_value (dr_status r))),
      (''operation_reference'', j_opt_str (dr_operation_reference r)), (''evidence'', JObj (dr_evidence r)),
      (''error_code'', j_opt_str (dr_error_code r)),
      (''recovery_duration_ms'', (case dr_recovery_duration_ms r of None \<Rightarrow> JNull | Some n \<Rightarrow> JInt n)),
      (''created_at'', JStr (cf_isoformat cf (dr_created_at r))), (''completed_at'', j_opt_time cf (dr_completed_at r))]"

text \<open>\<open>sha256:\<close> and 64 lowercase hexadecimal digits.  The test \<open>suffix == suffix.lower()\<close> is implied by the last one.\<close>

definition is_sha256_digest :: "string \<Rightarrow> bool" where
  "is_sha256_digest value \<longleftrightarrow> (let suffix = remove_prefix ''sha256:'' value in
     starts_with ''sha256:'' value \<and> length suffix = 64 \<and> set suffix \<subseteq> set ''0123456789abcdef'')"

section \<open>Environments\<close>

record environment_spec =
  sp_environment_id :: string
  sp_name :: string
  sp_classification :: environment_classification
  sp_repository :: string
  sp_base_branch :: string
  sp_resource_scope :: "string list"
  sp_required_checks :: "string list"
  sp_required_attestations :: "string list"
  sp_verification_policy :: "string list"
  sp_rollback_policy :: string
  sp_policy_version :: string
  sp_provider :: string
  sp_account_scope :: string
  sp_region :: string
  sp_adapter_id :: string

text \<open>The dictionary \<open>values\<close>, as the row it becomes and as the text its digest is computed from.\<close>

definition environment_values :: "env \<Rightarrow> ident \<Rightarrow> environment_spec \<Rightarrow> string \<Rightarrow> deployment_environment" where
  "environment_values en actor_id sp config_digest =
     \<lparr>de_id = strip (sp_environment_id sp), de_name = strip (sp_name sp), de_classification = sp_classification sp,
      de_provider = strip (sp_provider sp), de_account_scope = strip (sp_account_scope sp),
      de_region = strip (sp_region sp), de_resource_scope = sorted_set (sp_resource_scope sp),
      de_adapter_id = strip (sp_adapter_id sp), de_policy_version = strip (sp_policy_version sp),
      de_repository = strip (sp_repository sp), de_base_branch = strip (sp_base_branch sp),
      de_required_checks = sorted_set (sp_required_checks sp),
      de_required_attestations = sorted_set (sp_required_attestations sp),
      de_verification_policy = sp_verification_policy sp, de_rollback_policy = strip (sp_rollback_policy sp),
      de_config_digest = config_digest, de_active = True, de_created_by = actor_id, de_created_at = en_now en 1\<rparr>"

definition environment_values_json :: "deployment_environment \<Rightarrow> json" where
  "environment_values_json e = JObj
     [(''environment_id'', JStr (de_id e)), (''name'', JStr (de_name e)),
      (''classification'', JStr (environment_classification_value (de_classification e))),
      (''provider'', JStr (de_provider e)), (''account_scope'', JStr (de_account_scope e)),
      (''region'', JStr (de_region e)), (''resource_scope'', j_strs (de_resource_scope e)),
      (''adapter_id'', JStr (de_adapter_id e)), (''policy_version'', JStr (de_policy_version e)),
      (''repository'', JStr (de_repository e)), (''base_branch'', JStr (de_base_branch e)),
      (''required_checks'', j_strs (de_required_checks e)),
      (''required_attestations'', j_strs (de_required_attestations e)),
      (''verification_policy'', j_strs (de_verification_policy e)), (''rollback_policy'', JStr (de_rollback_policy e))]"

definition bad_items :: "string list \<Rightarrow> bool" where
  "bad_items items \<longleftrightarrow> 100 < length items \<or> list_ex (\<lambda>i. strip i = [] \<or> 256 < length i) items"

definition environment_id_char :: "char \<Rightarrow> bool" where
  "environment_id_char c \<longleftrightarrow> c \<in> set ''abcdefghijklmnopqrstuvwxyz0123456789._-''"

definition check_environment :: "'k deploy_config \<Rightarrow> environment_spec \<Rightarrow> error + unit" where
  "check_environment dc sp =
     (if list_ex (\<lambda>v. strip v = []) [sp_environment_id sp, sp_name sp, sp_repository sp, sp_base_branch sp,
           sp_policy_version sp, sp_rollback_policy sp]
      then Inl (ValidationError ''complete deployment environment policy is required'')
      else if 128 < length (sp_environment_id sp) \<or> 200 < length (sp_name sp) \<or> 500 < length (sp_repository sp) \<or>
         200 < length (sp_base_branch sp) \<or> 64 < length (sp_policy_version sp) \<or> 256 < length (sp_rollback_policy sp) \<or>
         list_ex (\<lambda>c. \<not> environment_id_char c) (sp_environment_id sp)
      then Inl (ValidationError ''deployment environment policy exceeds its boundary'')
      else if list_ex bad_items [sp_resource_scope sp, sp_required_checks sp, sp_required_attestations sp,
           sp_verification_policy sp]
      then Inl (ValidationError ''deployment environment collection is invalid'')
      else if \<not> distinct (sp_resource_scope sp)
      then Inl (ValidationError ''deployment resource scope contains duplicates'')
      else if \<not> distinct (sp_required_checks sp) \<or> \<not> distinct (sp_required_attestations sp)
      then Inl (ValidationError ''deployment environment requirements contain duplicates'')
      else if \<not> distinct (sp_verification_policy sp)
      then Inl (ValidationError ''deployment verification policy contains duplicates'')
      else if sp_classification sp = EC_PRODUCTION
      then Inl (AuthorizationError ''Phase 4 does not permit production environments'')
      else (case dc_adapters dc (sp_adapter_id sp) of
          None \<Rightarrow> Inl (AuthorizationError ''deployment adapter is not approved'')
        | Some adapter \<Rightarrow>
            if ad_requires_credentials adapter
            then (if \<not> dc_enable_local_deployment dc \<or> sp_classification sp \<noteq> EC_DEVELOPMENT \<or>
                     sp_provider sp \<noteq> ''local-k3d'' \<or> sp_account_scope sp \<noteq> ''local'' \<or> sp_region sp \<noteq> ''local''
                  then Inl (AuthorizationError ''credentialed deployment is restricted to local k3d'') else Inr ())
            else if sp_provider sp \<noteq> ''dry-run'' \<or> sp_account_scope sp \<noteq> ''none'' \<or> sp_region sp \<noteq> ''none''
            then Inl (AuthorizationError ''dry-run environment must have no external target'')
            else Inr ()))"

definition register_deployment_environment :: "config \<Rightarrow> 'k deploy_config \<Rightarrow> env \<Rightarrow> ident \<Rightarrow> environment_spec \<Rightarrow>
    db \<Rightarrow> error + json \<times> db" where
  "register_deployment_environment cf dc en actor_id sp d =
     ebind (check_environment dc sp) (\<lambda>_.
     let config_digest = digest (cf_sha256 cf) (environment_values_json (environment_values en actor_id sp []));
         e = environment_values en actor_id sp config_digest
     in
     ebind (authorize d (en_now en 0) actor_id CAP_MANAGE_DEPLOYMENT_ENVIRONMENTS None None True) (\<lambda>_.
     (case row_get de_id (sp_environment_id sp) (environments d) of
        Some existing \<Rightarrow>
          if de_config_digest existing \<noteq> config_digest
          then Inl (ConflictError ''deployment environment ID is already bound'')
          else Inr (deployment_environment_dict cf existing, d)
      | None \<Rightarrow> Inr (deployment_environment_dict cf e, d\<lparr>environments := row_add e (environments d)\<rparr>))))"

definition list_deployment_environments :: "config \<Rightarrow> env \<Rightarrow> ident \<Rightarrow> db \<Rightarrow> error + json list" where
  "list_deployment_environments cf en principal_id d =
     ebind (authorize d (en_now en 0) principal_id CAP_READ_DEPLOYMENT None None False) (\<lambda>_.
     Inr (map (deployment_environment_dict cf) (sort_key de_id (environments d))))"

section \<open>Plans\<close>

record plan_spec =
  ps_environment_id :: string
  ps_artifact_digests :: "string list"
  ps_operations :: "dict list"
  ps_declared_impact :: string
  ps_verification_probes :: "string list"
  ps_rollback_reference :: string
  ps_idempotency_key :: string

definition check_plan_request :: "plan_spec \<Rightarrow> error + unit" where
  "check_plan_request ps =
     (if strip (ps_idempotency_key ps) = [] \<or> strip (ps_declared_impact ps) = [] \<or> strip (ps_rollback_reference ps) = []
      then Inl (ValidationError ''deployment plan intent, rollback, and idempotency are required'')
      else if 128 < length (ps_idempotency_key ps) \<or> 4000 < length (ps_declared_impact ps) \<or>
         256 < length (ps_rollback_reference ps) \<or> 100 < length (ps_artifact_digests ps) \<or>
         100 < length (ps_operations ps) \<or> 100 < length (ps_verification_probes ps) \<or>
         list_ex (\<lambda>p. strip p = [] \<or> 256 < length p) (ps_verification_probes ps)
      then Inl (ValidationError ''deployment plan exceeds its boundary'')
      else if ps_artifact_digests ps = [] \<or> \<not> distinct (ps_artifact_digests ps)
      then Inl (ValidationError ''deployment plan requires unique artifact digests'')
      else if ps_operations ps = [] \<or> ps_verification_probes ps = []
      then Inl (ValidationError ''deployment operations and verification probes are required'')
      else if list_ex (\<lambda>a. \<not> is_sha256_digest a) (ps_artifact_digests ps)
      then Inl (ValidationError ''artifact digests must use sha256:<64 lowercase hex>'')
      else Inr ())"

definition plan_request_json :: "ident \<Rightarrow> deployment_environment \<Rightarrow> string option \<Rightarrow> plan_spec \<Rightarrow> json" where
  "plan_request_json wid e revision ps = JObj
     [(''workflow_id'', JStr wid), (''environment_id'', JStr (ps_environment_id ps)),
      (''environment_config_digest'', JStr (de_config_digest e)), (''revision'', j_opt_str revision),
      (''artifact_digests'', j_strs (sort (ps_artifact_digests ps))),
      (''operations'', JList (map JObj (ps_operations ps))), (''declared_impact'', JStr (strip (ps_declared_impact ps))),
      (''verification_probes'', j_strs (ps_verification_probes ps)),
      (''rollback_reference'', JStr (strip (ps_rollback_reference ps))), (''policy_version'', JStr (de_policy_version e))]"

definition find_plan :: "ident \<Rightarrow> string \<Rightarrow> db \<Rightarrow> deployment_plan_record option" where
  "find_plan actor_id key d = List.find (\<lambda>p. dp_actor_id p = actor_id \<and> dp_idempotency_key p = key) (plans d)"

definition new_plan :: "env \<Rightarrow> ident \<Rightarrow> ident \<Rightarrow> deployment_environment \<Rightarrow> string \<Rightarrow> string \<Rightarrow> plan_spec \<Rightarrow>
    deployment_plan_record" where
  "new_plan en wid actor_id e revision plan_digest ps =
     \<lparr>dp_id = en_uuid en 0, dp_workflow_id = wid, dp_environment_id = ps_environment_id ps, dp_actor_id = actor_id,
      dp_idempotency_key = ps_idempotency_key ps, dp_request_digest = plan_digest, dp_revision = revision,
      dp_artifact_digests = sort (ps_artifact_digests ps), dp_operations = ps_operations ps,
      dp_declared_impact = strip (ps_declared_impact ps), dp_verification_probes = ps_verification_probes ps,
      dp_rollback_reference = strip (ps_rollback_reference ps), dp_policy_version = de_policy_version e,
      dp_digest = plan_digest, dp_created_at = en_now en 1\<rparr>"

text \<open>The conditions on a plan that is not a replay; the result is the confirmed merge revision.\<close>

definition check_new_plan :: "workflow \<Rightarrow> deployment_environment \<Rightarrow> plan_spec \<Rightarrow> error + string" where
  "check_new_plan w e ps =
     (if wf_state w \<noteq> WS_MERGED
      then Inl (InvalidTransitionError ''workflow is not ready for a deployment plan'')
      else (case wf_merged_revision w of
          None \<Rightarrow> Inl (ConflictError ''workflow lacks an independently confirmed merge revision'')
        | Some revision \<Rightarrow>
            if revision = []
            then Inl (ConflictError ''workflow lacks an independently confirmed merge revision'')
            else if wf_repository_scope w \<noteq> Some (de_repository e)
            then Inl (ConflictError ''deployment environment repository does not match workflow'')
            else if \<not> (\<lambda>operation. strip (str_get operation ''resource_id'')) ` set (ps_operations ps)
                \<subseteq> set (de_resource_scope e)
            then Inl (AuthorizationError ''deployment operation exceeds environment resource scope'')
            else if \<not> set (ps_verification_probes ps) \<subseteq> set (de_verification_policy e)
            then Inl (AuthorizationError ''deployment probe exceeds environment verification policy'')
            else if strip (ps_rollback_reference ps) \<noteq> de_rollback_policy e
            then Inl (ConflictError ''deployment rollback reference does not match environment policy'')
            else Inr revision))"

definition active_environment :: "string \<Rightarrow> db \<Rightarrow> deployment_environment option" where
  "active_environment i d = (case row_get de_id i (environments d) of
     Some e \<Rightarrow> if de_active e then Some e else None | None \<Rightarrow> None)"

definition create_deployment_plan :: "config \<Rightarrow> 'k deploy_config \<Rightarrow> env \<Rightarrow> ident \<Rightarrow> ident \<Rightarrow> plan_spec \<Rightarrow> db \<Rightarrow>
    error + json \<times> db" where
  "create_deployment_plan cf dc en workflow_id actor_id ps d =
     ebind (check_plan_request ps) (\<lambda>_.
     ebind (authorize d (en_now en 0) actor_id CAP_CREATE_DEPLOYMENT_PLAN None None True) (\<lambda>_.
     ebind (get_workflow d workflow_id) (\<lambda>w.
     ebind (from_option (NotFoundError ''active deployment environment not found'')
       (active_environment (ps_environment_id ps) d)) (\<lambda>e.
     let request_digest = digest (cf_sha256 cf) (plan_request_json workflow_id e (wf_merged_revision w) ps) in
     (case find_plan actor_id (ps_idempotency_key ps) d of
        Some existing \<Rightarrow>
          if dp_request_digest existing \<noteq> request_digest
          then Inl (ConflictError ''deployment-plan idempotency key was reused'')
          else Inr (deployment_plan_dict cf existing, d)
      | None \<Rightarrow>
          ebind (check_new_plan w e ps) (\<lambda>revision.
          let p = new_plan en workflow_id actor_id e revision request_digest ps in
          ebind (from_option (AuthorizationError ''deployment environment adapter is disabled'')
            (dc_adapters dc (de_adapter_id e))) (\<lambda>adapter.
          ebind (ad_validate_plan adapter (deployment_plan_value p)) (\<lambda>_.
          ebind (transition cf workflow_id WS_AWAITING_DEPLOYMENT_APPROVAL actor_id
            ''immutable deployment plan created for confirmed merge revision''
            [(''deployment_plan_id'', JStr (dp_id p)), (''environment_id'', JStr (ps_environment_id ps)),
             (''plan_digest'', JStr request_digest), (''revision'', JStr revision),
             (''simulated'', JBool (\<not> ad_requires_credentials adapter))]
            (d\<lparr>plans := row_add p (plans d)\<rparr>)) (\<lambda>d1.
          Inr (deployment_plan_dict cf p, d1))))))))))"

definition list_deployment_plans :: "config \<Rightarrow> env \<Rightarrow> ident \<Rightarrow> ident \<Rightarrow> db \<Rightarrow> error + json list" where
  "list_deployment_plans cf en workflow_id principal_id d =
     ebind (authorize d (en_now en 0) principal_id CAP_READ_DEPLOYMENT None None False) (\<lambda>_.
     ebind (get_workflow d workflow_id) (\<lambda>_.
     Inr (map (deployment_plan_dict cf)
       (sort_key dp_created_at (filter (\<lambda>p. dp_workflow_id p = workflow_id) (plans d))))))"

section \<open>Consuming an approval\<close>

text \<open>The newest approved, unconsumed approval that names exactly this plan.\<close>

definition deploy_approval :: "db \<Rightarrow> ident \<Rightarrow> deployment_environment \<Rightarrow> deployment_plan_record \<Rightarrow> approval option" where
  "deploy_approval d wid e p = last_by ap_created_at (\<lambda>a. ap_workflow_id a = wid \<and> ap_action a = AA_DEPLOY \<and>
     ap_decision a = AD_APPROVED \<and> ap_environment_id a = Some (de_id e) \<and> ap_plan_digest a = Some (dp_digest p) \<and>
     ap_revision a = dp_revision p \<and> ap_policy_version a = dp_policy_version p \<and> ap_consumed_at a = None) (approvals d)"

definition require_approval :: "string \<Rightarrow> instant \<Rightarrow> approval option \<Rightarrow> error + approval" where
  "require_approval what now found =
     (case found of
        None \<Rightarrow> Inl (AuthorizationError (''exact unconsumed '' @ what @ '' approval is required''))
      | Some a \<Rightarrow> if ap_expires_at a \<le> now then Inl (AuthorizationError (what @ '' approval has expired'')) else Inr a)"

definition consume_approval :: "instant \<Rightarrow> ident \<Rightarrow> db \<Rightarrow> db" where
  "consume_approval now i d = upd_approval i (\<lambda>a. a\<lparr>ap_consumed_at := Some now\<rparr>) d"

section \<open>Starting an execution\<close>

record started =
  st_workflow_id :: ident
  st_attempt_id :: ident
  st_plan :: deployment_plan

definition find_deployment :: "ident \<Rightarrow> string \<Rightarrow> db \<Rightarrow> deployment_attempt_record option" where
  "find_deployment actor_id key d =
     List.find (\<lambda>a. da_actor_id a = actor_id \<and> da_idempotency_key a = key) (deployments d)"

definition execution_digest :: "config \<Rightarrow> ident \<Rightarrow> ident \<Rightarrow> string \<Rightarrow> string" where
  "execution_digest cf workflow_id plan_id mode = digest (cf_sha256 cf)
     (JObj [(''workflow_id'', JStr workflow_id), (''plan_id'', JStr plan_id), (''mode'', JStr mode)])"

definition replay_deployment :: "config \<Rightarrow> string \<Rightarrow> deployment_attempt_record \<Rightarrow> error + json" where
  "replay_deployment cf request_digest a =
     (if da_request_digest a \<noteq> request_digest then Inl (ConflictError ''deployment idempotency key was reused'')
      else if da_status a = DS_SUCCEEDED then Inr (deployment_attempt_dict cf a)
      else Inl (ConflictError ''deployment attempt is not replayable''))"

definition new_deployment :: "env \<Rightarrow> ident \<Rightarrow> ident \<Rightarrow> ident \<Rightarrow> ident \<Rightarrow> string \<Rightarrow> string \<Rightarrow> string \<Rightarrow> bool \<Rightarrow>
    deployment_attempt_record" where
  "new_deployment en wid plan_id approval_id actor_id key request_digest adapter_id simulated =
     \<lparr>da_id = en_uuid en 0, da_workflow_id = wid, da_plan_id = plan_id, da_approval_id = approval_id,
      da_actor_id = actor_id, da_idempotency_key = key, da_request_digest = request_digest,
      da_adapter_id = adapter_id, da_status = DS_RUNNING, da_operation_reference = None, da_simulated = simulated,
      da_result_json = [(''intent_committed'', JBool True), (''credential_requested'', JBool (\<not> simulated))],
      da_error_code = None, da_started_at = en_now en 2, da_completed_at = None\<rparr>"

text \<open>The writes both kinds of execution make before they call their adapter.\<close>

definition commit_intent :: "config \<Rightarrow> env \<Rightarrow> ident \<Rightarrow> deployment_attempt_record \<Rightarrow> string \<Rightarrow> dict \<Rightarrow> db \<Rightarrow> db" where
  "commit_intent cf en actor_id a event_type payload d =
     audit cf (da_workflow_id a) event_type actor_id ''deployment_attempt'' (da_id a) ''STARTED'' payload
       (consume_approval (en_now en 3) (da_approval_id a) (d\<lparr>deployments := row_add a (deployments d)\<rparr>))"

definition workflow_plan :: "db \<Rightarrow> ident \<Rightarrow> ident \<Rightarrow> error + deployment_plan_record" where
  "workflow_plan d wid plan_id =
     (case row_get dp_id plan_id (plans d) of
        None \<Rightarrow> Inl (NotFoundError ''deployment plan not found'')
      | Some p \<Rightarrow> if dp_workflow_id p \<noteq> wid then Inl (NotFoundError ''deployment plan not found'') else Inr p)"

definition start_dry_run :: "config \<Rightarrow> 'k deploy_config \<Rightarrow> env \<Rightarrow> ident \<Rightarrow> ident \<Rightarrow> ident \<Rightarrow> string \<Rightarrow> db \<Rightarrow>
    error + (json + started \<times> 'k adapter) \<times> db" where
  "start_dry_run cf dc en workflow_id plan_id actor_id idempotency_key d =
     (let request_digest = execution_digest cf workflow_id plan_id ''DRY_RUN'' in
      ebind (authorize d (en_now en 0) actor_id CAP_EXECUTE_DEPLOYMENT None None True) (\<lambda>_.
      ebind (get_workflow d workflow_id) (\<lambda>w.
      (case find_deployment actor_id idempotency_key d of
         Some existing \<Rightarrow> ebind (replay_deployment cf request_digest existing) (\<lambda>r. Inr (Inl r, d))
       | None \<Rightarrow>
           if wf_state w \<noteq> WS_AWAITING_DEPLOYMENT_APPROVAL
           then Inl (InvalidTransitionError ''workflow is not awaiting deployment approval'')
           else
           ebind (workflow_plan d workflow_id plan_id) (\<lambda>p.
           ebind (from_option (ConflictError ''deployment environment is unavailable'')
             (active_environment (dp_environment_id p) d)) (\<lambda>e.
           (case dc_adapters dc (de_adapter_id e) of
              None \<Rightarrow> Inl (AuthorizationError ''only the no-credential dry-run adapter is permitted'')
            | Some adapter \<Rightarrow>
                if ad_requires_credentials adapter
                then Inl (AuthorizationError ''only the no-credential dry-run adapter is permitted'')
                else
                ebind (require_approval ''deployment'' (en_now en 1) (deploy_approval d workflow_id e p)) (\<lambda>ap.
                let plan = deployment_plan_value p in
                ebind (ad_validate_plan adapter plan) (\<lambda>_.
                let a = new_deployment en workflow_id plan_id (ap_id ap) actor_id idempotency_key request_digest
                          (ad_adapter_id adapter) True
                in Inr (Inr (\<lparr>st_workflow_id = workflow_id, st_attempt_id = da_id a, st_plan = plan\<rparr>, adapter),
                     commit_intent cf en actor_id a ''deployment.dry_run_started''
                       [(''plan_id'', JStr plan_id), (''plan_digest'', JStr (pl_digest plan)),
                        (''environment_id'', JStr (pl_environment_id plan)), (''revision'', JStr (pl_revision plan)),
                        (''approval_id'', JStr (ap_id ap)), (''credential_requested'', JBool False)] d))))))))))"

definition local_target :: "deployment_environment \<Rightarrow> bool" where
  "local_target e \<longleftrightarrow> de_active e \<and> de_classification e = EC_DEVELOPMENT \<and> de_provider e = ''local-k3d'' \<and>
     de_account_scope e = ''local'' \<and> de_region e = ''local''"

definition local_environment :: "string \<Rightarrow> string \<Rightarrow> db \<Rightarrow> error + deployment_environment" where
  "local_environment what i d =
     (case row_get de_id i (environments d) of
        None \<Rightarrow> Inl (AuthorizationError (what @ '' environment is not an active local target''))
      | Some e \<Rightarrow> if local_target e then Inr e
          else Inl (AuthorizationError (what @ '' environment is not an active local target'')))"

definition recovery_enabled :: "'k deploy_config \<Rightarrow> bool" where
  "recovery_enabled dc \<longleftrightarrow> dc_enable_local_deployment dc \<and> (dc_broker_factory dc \<noteq> None \<or> dc_session_broker dc \<noteq> None)"

definition start_local_deployment :: "config \<Rightarrow> 'k deploy_config \<Rightarrow> env \<Rightarrow> ident \<Rightarrow> ident \<Rightarrow> ident \<Rightarrow> string \<Rightarrow> db \<Rightarrow>
    error + (json + started \<times> 'k adapter) \<times> db" where
  "start_local_deployment cf dc en workflow_id plan_id actor_id idempotency_key d =
     (if strip idempotency_key = [] \<or> 128 < length idempotency_key
      then Inl (ValidationError ''deployment idempotency key is invalid'')
      else if \<not> recovery_enabled dc
      then Inl (AuthorizationError ''local credentialed deployment is disabled'')
      else
      let request_digest = execution_digest cf workflow_id plan_id ''LOCAL_K3D'' in
      ebind (authorize d (en_now en 0) actor_id CAP_EXECUTE_DEPLOYMENT None None True) (\<lambda>_.
      ebind (get_workflow d workflow_id) (\<lambda>w.
      (case find_deployment actor_id idempotency_key d of
         Some existing \<Rightarrow> ebind (replay_deployment cf request_digest existing) (\<lambda>r. Inr (Inl r, d))
       | None \<Rightarrow>
           if wf_state w \<noteq> WS_AWAITING_DEPLOYMENT_APPROVAL
           then Inl (InvalidTransitionError ''workflow is not awaiting deployment approval'')
           else
           ebind (workflow_plan d workflow_id plan_id) (\<lambda>p.
           ebind (local_environment ''deployment'' (dp_environment_id p) d) (\<lambda>e.
           (case dc_adapters dc (de_adapter_id e) of
              None \<Rightarrow> Inl (AuthorizationError ''credentialed local deployment adapter is unavailable'')
            | Some adapter \<Rightarrow>
                if \<not> ad_requires_credentials adapter
                then Inl (AuthorizationError ''credentialed local deployment adapter is unavailable'')
                else
                ebind (require_approval ''deployment'' (en_now en 1) (deploy_approval d workflow_id e p)) (\<lambda>ap.
                let plan = deployment_plan_value p in
                ebind (ad_validate_plan adapter plan) (\<lambda>_.
                let a = new_deployment en workflow_id plan_id (ap_id ap) actor_id idempotency_key request_digest
                          (ad_adapter_id adapter) False
                in Inr (Inr (\<lparr>st_workflow_id = workflow_id, st_attempt_id = da_id a, st_plan = plan\<rparr>, adapter),
                     commit_intent cf en actor_id a ''deployment.local_started''
                       [(''adapter_id'', JStr (ad_adapter_id adapter)), (''approval_id'', JStr (ap_id ap)),
                        (''environment_id'', JStr (pl_environment_id plan)),
                        (''plan_digest'', JStr (pl_digest plan)), (''revision'', JStr (pl_revision plan))] d))))))))))"

section \<open>Recording the outcome of an execution\<close>

definition running_deployment :: "db \<Rightarrow> ident \<Rightarrow> deployment_attempt_record option" where
  "running_deployment d i = (case row_get da_id i (deployments d) of
     Some a \<Rightarrow> if da_status a = DS_RUNNING then Some a else None | None \<Rightarrow> None)"

definition deployment_dict_of :: "config \<Rightarrow> db \<Rightarrow> ident \<Rightarrow> json" where
  "deployment_dict_of cf d i =
     (case row_get da_id i (deployments d) of None \<Rightarrow> JNull | Some a \<Rightarrow> deployment_attempt_dict cf a)"

definition add_verification :: "ident \<Rightarrow> ident \<Rightarrow> deployment_verification \<Rightarrow> db \<Rightarrow> db" where
  "add_verification wid aid v d = d\<lparr>verifications := row_add \<lparr>dv_workflow_id = wid, dv_attempt_id = aid,
     dv_passed = vf_passed v, dv_observed_revision = vf_observed_revision v, dv_evidence = vf_evidence v\<rparr> (verifications d)\<rparr>"

definition finish_dry_run :: "config \<Rightarrow> env \<Rightarrow> started \<Rightarrow> deployment_execution \<Rightarrow> deployment_observation \<Rightarrow>
    deployment_verification \<Rightarrow> db \<Rightarrow> error + json \<times> db" where
  "finish_dry_run cf en st x ob v d =
     (let aid = st_attempt_id st; wid = st_workflow_id st; plan = st_plan st in
      ebind (from_option (ConflictError ''deployment attempt is no longer running'') (running_deployment d aid)) (\<lambda>_.
      ebind (get_workflow d wid) (\<lambda>_.
      let status = (if vf_passed v \<and> \<not> dx_changed x \<and> dx_simulated x then DS_SUCCEEDED else DS_ROLLBACK_REQUIRED);
          d1 = add_verification wid aid v (upd_deployment aid (\<lambda>a. a\<lparr>
                 da_operation_reference := Some (dx_operation_reference x), da_simulated := dx_simulated x,
                 da_result_json := [(''execution'', JObj (dx_evidence x)), (''observation'', JObj (do_evidence ob)),
                   (''changed'', JBool (dx_changed x))],
                 da_completed_at := Some (en_now en 0), da_status := status\<rparr>) d)
      in
      ebind (if status = DS_ROLLBACK_REQUIRED
        then transition cf wid WS_ROLLBACK_REQUIRED ''orchestrator''
          ''deployment dry-run evidence violated its no-change invariant'' [(''deployment_attempt_id'', JStr aid)] d1
        else Inr d1) (\<lambda>d2.
      let d3 = audit cf wid ''deployment.dry_run_completed'' ''orchestrator'' ''deployment_attempt'' aid
                 (deployment_attempt_status_value status)
                 [(''plan_digest'', JStr (pl_digest plan)), (''revision'', JStr (pl_revision plan)),
                  (''verification_passed'', JBool (vf_passed v)), (''simulated'', JBool (dx_simulated x)),
                  (''changed'', JBool (dx_changed x)), (''credential_requested'', JBool False)] d2
      in Inr (deployment_dict_of cf d3 aid, d3)))))"

definition fail_deployment_dry_run :: "config \<Rightarrow> env \<Rightarrow> ident \<Rightarrow> string \<Rightarrow> db \<Rightarrow> db" where
  "fail_deployment_dry_run cf en aid error_code d =
     (case running_deployment d aid of
        None \<Rightarrow> d
      | Some a \<Rightarrow>
          audit cf (da_workflow_id a) ''deployment.dry_run_failed'' ''orchestrator'' ''deployment_attempt'' aid ''FAILED''
            [(''error_code'', JStr (take 64 error_code)), (''credential_requested'', JBool False),
             (''external_target_contacted'', JBool False)]
            (upd_deployment aid (\<lambda>a. a\<lparr>da_status := DS_FAILED, da_error_code := Some (take 64 error_code),
               da_completed_at := Some (en_now en 0),
               da_result_json := [(''credential_requested'', JBool False), (''external_target_contacted'', JBool False),
                 (''error'', JStr ''dry-run adapter failed before any target change'')]\<rparr>) d))"

definition run_dry_adapter :: "'k adapter \<Rightarrow> started \<Rightarrow>
    error + deployment_execution \<times> deployment_observation \<times> deployment_verification" where
  "run_dry_adapter adapter st =
     ebind (ad_execute adapter (st_plan st) (st_attempt_id st)) (\<lambda>x.
     ebind (ad_observe adapter (st_plan st) x) (\<lambda>ob.
     ebind (ad_verify adapter (st_plan st) ob) (\<lambda>v. Inr (x, ob, v))))"

definition complete_dry_run :: "config \<Rightarrow> env \<Rightarrow> 'k adapter \<Rightarrow> started \<Rightarrow> db \<Rightarrow> (error + json) \<times> db" where
  "complete_dry_run cf en adapter st d =
     (case run_dry_adapter adapter st of
        Inl e \<Rightarrow> (Inl e, fail_deployment_dry_run cf en (st_attempt_id st) (error_name e) d)
      | Inr (x, ob, v) \<Rightarrow> commit d (finish_dry_run cf en st x ob v d))"

definition execute_deployment_dry_run :: "config \<Rightarrow> 'k deploy_config \<Rightarrow> env \<Rightarrow> env \<Rightarrow> ident \<Rightarrow> ident \<Rightarrow> ident \<Rightarrow>
    string \<Rightarrow> db \<Rightarrow> (error + json) \<times> db" where
  "execute_deployment_dry_run cf dc en en2 workflow_id plan_id actor_id idempotency_key d =
     (case start_dry_run cf dc en workflow_id plan_id actor_id idempotency_key d of
        Inl e \<Rightarrow> (Inl e, d)
      | Inr (Inl replayed, d1) \<Rightarrow> (Inr replayed, d1)
      | Inr (Inr (st, adapter), d1) \<Rightarrow> complete_dry_run cf en2 adapter st d1)"

section \<open>The credentialed local deployment\<close>

definition fail_local_deployment :: "config \<Rightarrow> env \<Rightarrow> ident \<Rightarrow> deployment_attempt_status \<Rightarrow> string \<Rightarrow> bool \<Rightarrow> db \<Rightarrow>
    error + db" where
  "fail_local_deployment cf en aid status error_code target_contacted d =
     (if status \<notin> {DS_FAILED, DS_UNKNOWN, DS_ROLLBACK_REQUIRED}
      then Inl (ValueError ''invalid local deployment failure status'')
      else (case running_deployment d aid of
          None \<Rightarrow> Inr d
        | Some a \<Rightarrow>
            let wid = da_workflow_id a;
                d1 = upd_deployment aid (\<lambda>a. a\<lparr>da_status := status, da_error_code := Some (take 64 error_code),
                  da_completed_at := Some (en_now en 0),
                  da_result_json := [(''credential_requested'', JBool True),
                    (''error'', JStr ''local deployment did not produce verified success''),
                    (''target_contacted'', JBool target_contacted)]\<rparr>) d
            in
            ebind (if status = DS_ROLLBACK_REQUIRED
              then transition cf wid WS_ROLLBACK_REQUIRED ''orchestrator''
                ''local deployment changed but verification was not established''
                [(''deployment_attempt_id'', JStr aid)] d1
              else Inr d1) (\<lambda>d2.
            Inr (audit cf wid ''deployment.local_failed'' ''orchestrator'' ''deployment_attempt'' aid
              (deployment_attempt_status_value status)
              [(''error_code'', JStr (take 64 error_code)), (''target_contacted'', JBool target_contacted)] d2))))"

text \<open>The broker of the configuration for one request.\<close>

definition session_broker_for :: "'k deploy_config \<Rightarrow> workload_credential_request \<Rightarrow> error + ('k \<times> bool) session_broker" where
  "session_broker_for dc request =
     (case dc_broker_factory dc of
        Some factory \<Rightarrow> factory request
      | None \<Rightarrow> from_option (OtherError ''AttributeError'') (dc_session_broker dc))"

text \<open>
  The \<open>try\<close> block: obtain the request, choose the broker, and let it run the adapter.  The consumer marks
  the target as contacted before it calls the adapter.
\<close>

definition use_credential :: "'k deploy_config \<Rightarrow> (error + workload_credential_request) \<Rightarrow>
    (string \<Rightarrow> workload_credential_handle \<Rightarrow> 'k \<Rightarrow> (error + credentialed_run) \<times> 'k) \<Rightarrow> 'k \<Rightarrow>
    (error + workload_credential_handle \<times> credentialed_run) \<times> 'k \<times> bool" where
  "use_credential dc requested adapter_call k =
     (case ebind requested (\<lambda>request. ebind (session_broker_for dc request) (\<lambda>broker. Inr (request, broker))) of
        Inl e \<Rightarrow> (Inl e, k, False)
      | Inr (request, broker) \<Rightarrow>
          broker request (\<lambda>credential handle (k, _).
            let (r, k') = adapter_call credential handle k in (r, k', True)) (k, False))"

fun failure_status :: "error \<Rightarrow> deployment_attempt_status" where
  "failure_status (DeploymentOutcomeUnknownError _) = DS_UNKNOWN"
| "failure_status (DeploymentVerificationError _) = DS_ROLLBACK_REQUIRED"
| "failure_status _ = DS_FAILED"

definition finish_local_deployment :: "config \<Rightarrow> env \<Rightarrow> started \<Rightarrow> workload_credential_handle \<Rightarrow> credentialed_run \<Rightarrow>
    db \<Rightarrow> error + json \<times> db" where
  "finish_local_deployment cf en st handle run d =
     (let aid = st_attempt_id st; wid = st_workflow_id st; plan = st_plan st;
          x = cu_execution run; ob = cu_observation run; v = cu_verification run in
      ebind (from_option (ConflictError ''deployment attempt is no longer running'') (running_deployment d aid)) (\<lambda>_.
      ebind (get_workflow d wid) (\<lambda>_.
      let status = (if vf_passed v \<and> \<not> dx_simulated x then DS_SUCCEEDED else DS_ROLLBACK_REQUIRED);
          target_state = (if status = DS_SUCCEEDED then WS_DEPLOYED else WS_ROLLBACK_REQUIRED);
          d1 = add_verification wid aid v (upd_deployment aid (\<lambda>a. a\<lparr>
                 da_operation_reference := Some (dx_operation_reference x),
                 da_result_json := [(''credential'', credential_handle_dict cf handle),
                   (''execution'', JObj (dx_evidence x)), (''observation'', JObj (do_evidence ob)),
                   (''changed'', JBool (dx_changed x))],
                 da_completed_at := Some (en_now en 0), da_status := status\<rparr>) d)
      in
      ebind (transition cf wid target_state ''orchestrator'' ''local deployment verification completed''
        [(''deployment_attempt_id'', JStr aid)] d1) (\<lambda>d2.
      let d3 = audit cf wid ''deployment.local_completed'' ''orchestrator'' ''deployment_attempt'' aid
                 (deployment_attempt_status_value status)
                 [(''changed'', JBool (dx_changed x)), (''credential_reference'', JStr (ch_reference handle)),
                  (''plan_digest'', JStr (pl_digest plan)), (''revision'', JStr (pl_revision plan)),
                  (''verification_passed'', JBool (vf_passed v))] d2
      in Inr (deployment_dict_of cf d3 aid, d3)))))"

text \<open>The second half of \<open>execute_local_deployment\<close>, for the outcome of the \<open>try\<close> block.\<close>

definition complete_local_deployment :: "config \<Rightarrow> env \<Rightarrow> started \<Rightarrow>
    error + workload_credential_handle \<times> credentialed_run \<Rightarrow> bool \<Rightarrow> db \<Rightarrow> (error + json) \<times> db" where
  "complete_local_deployment cf en st outcome target_contacted d =
     (case outcome of
        Inl e \<Rightarrow>
          (case fail_local_deployment cf en (st_attempt_id st) (failure_status e) (error_name e)
             (if failure_status e = DS_FAILED then target_contacted else True) d of
             Inl e' \<Rightarrow> (Inl e', d)
           | Inr d1 \<Rightarrow> (Inl e, d1))
      | Inr (handle, run) \<Rightarrow> commit d (finish_local_deployment cf en st handle run d))"

definition execute_local_deployment :: "config \<Rightarrow> 'k deploy_config \<Rightarrow> env \<Rightarrow> env \<Rightarrow> ident \<Rightarrow> ident \<Rightarrow> ident \<Rightarrow>
    string \<Rightarrow> db \<times> 'k \<Rightarrow> (error + json) \<times> db \<times> 'k" where
  "execute_local_deployment cf dc en en2 workflow_id plan_id actor_id idempotency_key = (\<lambda>(d, k).
     (case start_local_deployment cf dc en workflow_id plan_id actor_id idempotency_key d of
        Inl e \<Rightarrow> (Inl e, d, k)
      | Inr (Inl replayed, d1) \<Rightarrow> (Inr replayed, d1, k)
      | Inr (Inr (st, adapter), d1) \<Rightarrow>
          let (outcome, k', contacted) = use_credential dc (ad_credential_request adapter (st_plan st))
                (\<lambda>credential handle. ad_run_with_credential adapter (st_plan st) credential handle (st_attempt_id st)) k;
              (r, d2) = complete_local_deployment cf en2 st outcome contacted d1
          in (r, d2, k')))"

definition list_deployment_attempts :: "config \<Rightarrow> env \<Rightarrow> ident \<Rightarrow> ident \<Rightarrow> db \<Rightarrow> error + json list" where
  "list_deployment_attempts cf en workflow_id principal_id d =
     ebind (authorize d (en_now en 0) principal_id CAP_READ_DEPLOYMENT None None False) (\<lambda>_.
     ebind (get_workflow d workflow_id) (\<lambda>_.
     Inr (map (deployment_attempt_dict cf)
       (sort_key da_started_at (filter (\<lambda>a. da_workflow_id a = workflow_id) (deployments d))))))"

section \<open>The local rollback\<close>

record rollback_started =
  rs_workflow_id :: ident
  rs_attempt_id :: ident
  rs_rollback_id :: ident
  rs_plan :: deployment_plan
  rs_previous_release :: release

definition find_rollback :: "ident \<Rightarrow> string \<Rightarrow> db \<Rightarrow> deployment_rollback_record option" where
  "find_rollback actor_id key d =
     List.find (\<lambda>r. dr_actor_id r = actor_id \<and> dr_idempotency_key r = key) (rollbacks d)"

definition rollback_digest :: "config \<Rightarrow> ident \<Rightarrow> ident \<Rightarrow> string" where
  "rollback_digest cf workflow_id attempt_id = digest (cf_sha256 cf)
     (JObj [(''workflow_id'', JStr workflow_id), (''attempt_id'', JStr attempt_id), (''mode'', JStr ''LOCAL_ROLLBACK'')])"

definition replay_rollback :: "config \<Rightarrow> string \<Rightarrow> deployment_rollback_record \<Rightarrow> error + json" where
  "replay_rollback cf request_digest r =
     (if dr_request_digest r \<noteq> request_digest then Inl (ConflictError ''rollback idempotency key was reused'')
      else if dr_status r = RS_SUCCEEDED then Inr (deployment_rollback_dict cf r)
      else Inl (ConflictError ''rollback attempt is not replayable''))"

definition contained_attempt :: "db \<Rightarrow> ident \<Rightarrow> ident \<Rightarrow> error + deployment_attempt_record" where
  "contained_attempt d wid aid =
     (case row_get da_id aid (deployments d) of
        None \<Rightarrow> Inl (ConflictError ''rollback target is not a contained deployment attempt'')
      | Some a \<Rightarrow> if da_workflow_id a \<noteq> wid \<or> da_status a \<noteq> DS_ROLLBACK_REQUIRED
          then Inl (ConflictError ''rollback target is not a contained deployment attempt'') else Inr a)"

definition rollback_approval :: "db \<Rightarrow> ident \<Rightarrow> ident \<Rightarrow> deployment_environment \<Rightarrow> deployment_plan_record \<Rightarrow>
    approval option" where
  "rollback_approval d wid aid e p = last_by ap_created_at (\<lambda>a. ap_workflow_id a = wid \<and> ap_action a = AA_ROLLBACK \<and>
     ap_decision a = AD_APPROVED \<and> ap_environment_id a = Some (de_id e) \<and> ap_plan_digest a = Some (dp_digest p) \<and>
     ap_deployment_attempt_id a = Some aid \<and> ap_revision a = dp_revision p \<and>
     ap_policy_version a = dp_policy_version p \<and> ap_target a = dp_rollback_reference p \<and>
     ap_consumed_at a = None) (approvals d)"

text \<open>The snapshot the deployment recorded: \<open>result_json["execution"]["previous_release"]\<close>, a dictionary of strings.\<close>

definition recorded_snapshot :: "dict \<Rightarrow> release option" where
  "recorded_snapshot result_json =
     (case dict_get result_json ''execution'' of
        Some (JObj evidence) \<Rightarrow> (case dict_get evidence ''previous_release'' of
            Some (JObj previous) \<Rightarrow> release_entries previous | _ \<Rightarrow> None)
      | _ \<Rightarrow> None)"

definition new_rollback :: "env \<Rightarrow> ident \<Rightarrow> ident \<Rightarrow> approval \<Rightarrow> ident \<Rightarrow> string \<Rightarrow> string \<Rightarrow> string \<Rightarrow>
    deployment_rollback_record" where
  "new_rollback en wid aid ap actor_id key request_digest rollback_reference =
     \<lparr>dr_id = en_uuid en 0, dr_workflow_id = wid, dr_attempt_id = aid, dr_approval_id = ap_id ap,
      dr_actor_id = actor_id, dr_idempotency_key = key, dr_request_digest = request_digest,
      dr_rollback_reference = rollback_reference, dr_decision = AD_APPROVED, dr_rationale = ap_rationale ap,
      dr_status = RS_RUNNING, dr_operation_reference = None,
      dr_evidence = [(''intent_committed'', JBool True), (''credential_requested'', JBool True)],
      dr_error_code = None, dr_recovery_duration_ms = None, dr_created_at = en_now en 2, dr_completed_at = None\<rparr>"

definition start_local_rollback :: "config \<Rightarrow> 'k deploy_config \<Rightarrow> env \<Rightarrow> ident \<Rightarrow> ident \<Rightarrow> ident \<Rightarrow> string \<Rightarrow> db \<Rightarrow>
    error + (json + rollback_started \<times> 'k adapter) \<times> db" where
  "start_local_rollback cf dc en workflow_id attempt_id actor_id idempotency_key d =
     (if strip idempotency_key = [] \<or> 128 < length idempotency_key
      then Inl (ValidationError ''rollback idempotency key is invalid'')
      else if \<not> recovery_enabled dc then Inl (AuthorizationError ''local credentialed recovery is disabled'')
      else
      let request_digest = rollback_digest cf workflow_id attempt_id in
      ebind (authorize d (en_now en 0) actor_id CAP_EXECUTE_ROLLBACK None None True) (\<lambda>_.
      ebind (get_workflow d workflow_id) (\<lambda>w.
      (case find_rollback actor_id idempotency_key d of
         Some existing \<Rightarrow> ebind (replay_rollback cf request_digest existing) (\<lambda>r. Inr (Inl r, d))
       | None \<Rightarrow>
           if wf_state w \<noteq> WS_ROLLBACK_REQUIRED
           then Inl (InvalidTransitionError ''workflow is not awaiting controlled recovery'')
           else
           ebind (contained_attempt d workflow_id attempt_id) (\<lambda>a.
           ebind (from_option (ConflictError ''rollback plan evidence is unavailable'')
             (row_get dp_id (da_plan_id a) (plans d))) (\<lambda>p.
           ebind (local_environment ''rollback'' (dp_environment_id p) d) (\<lambda>e.
           (case dc_adapters dc (de_adapter_id e) of
              None \<Rightarrow> Inl (AuthorizationError ''recoverable local deployment adapter is unavailable'')
            | Some adapter \<Rightarrow>
                if \<not> ad_recoverable adapter
                then Inl (AuthorizationError ''recoverable local deployment adapter is unavailable'')
                else
                ebind (require_approval ''rollback'' (en_now en 1) (rollback_approval d workflow_id attempt_id e p)) (\<lambda>ap.
                ebind (from_option (ConflictError ''recorded rollback snapshot is unavailable or invalid'')
                  (recorded_snapshot (da_result_json a))) (\<lambda>previous.
                let plan = deployment_plan_value p in
                ebind (ad_validate_plan adapter plan) (\<lambda>_.
                let r = new_rollback en workflow_id attempt_id ap actor_id idempotency_key request_digest
                          (pl_rollback_reference plan);
                    d1 = consume_approval (en_now en 3) (ap_id ap) (d\<lparr>rollbacks := row_add r (rollbacks d)\<rparr>)
                in Inr (Inr (\<lparr>rs_workflow_id = workflow_id, rs_attempt_id = attempt_id, rs_rollback_id = dr_id r,
                       rs_plan = plan, rs_previous_release = previous\<rparr>, adapter),
                     audit cf workflow_id ''deployment.rollback_started'' actor_id ''deployment_rollback'' (dr_id r) ''STARTED''
                       [(''approval_id'', JStr (ap_id ap)), (''deployment_attempt_id'', JStr attempt_id),
                        (''environment_id'', JStr (de_id e)), (''plan_digest'', JStr (pl_digest plan)),
                        (''rollback_reference'', JStr (pl_rollback_reference plan))] d1))))))))))))"

definition running_rollback :: "db \<Rightarrow> ident \<Rightarrow> deployment_rollback_record option" where
  "running_rollback d i = (case row_get dr_id i (rollbacks d) of
     Some r \<Rightarrow> if dr_status r = RS_RUNNING then Some r else None | None \<Rightarrow> None)"

definition fail_local_rollback :: "config \<Rightarrow> env \<Rightarrow> ident \<Rightarrow> rollback_status \<Rightarrow> string \<Rightarrow> bool \<Rightarrow> int \<Rightarrow> db \<Rightarrow> error + db" where
  "fail_local_rollback cf en rid status error_code target_contacted duration_ms d =
     (if status \<notin> {RS_FAILED, RS_UNKNOWN} then Inl (ValueError ''invalid local rollback failure status'')
      else (case running_rollback d rid of
          None \<Rightarrow> Inr d
        | Some r \<Rightarrow>
            Inr (audit cf (dr_workflow_id r) ''deployment.rollback_failed'' ''orchestrator'' ''deployment_rollback'' rid
              (rollback_status_value status)
              [(''error_code'', JStr (take 64 error_code)), (''recovery_duration_ms'', JInt (max duration_ms 0)),
               (''target_contacted'', JBool target_contacted)]
              (upd_rollback rid (\<lambda>r. r\<lparr>dr_status := status, dr_error_code := Some (take 64 error_code),
                 dr_completed_at := Some (en_now en 0), dr_recovery_duration_ms := Some (max duration_ms 0),
                 dr_evidence := [(''credential_requested'', JBool True),
                   (''error'', JStr ''local rollback did not produce verified recovery''),
                   (''target_contacted'', JBool target_contacted)]\<rparr>) d))))"

definition finish_local_rollback :: "config \<Rightarrow> env \<Rightarrow> rollback_started \<Rightarrow> workload_credential_handle \<Rightarrow>
    credentialed_run \<Rightarrow> int \<Rightarrow> db \<Rightarrow> error + (json \<times> bool) \<times> db" where
  "finish_local_rollback cf en rs handle run duration_ms d =
     (let rid = rs_rollback_id rs; wid = rs_workflow_id rs; aid = rs_attempt_id rs;
          x = cu_execution run; v = cu_verification run in
      ebind (from_option (ConflictError ''rollback attempt is no longer running'') (running_rollback d rid)) (\<lambda>_.
      ebind (get_workflow d wid) (\<lambda>_.
      let recovered = (vf_passed v \<and> \<not> dx_simulated x);
          status = (if recovered then RS_SUCCEEDED else RS_FAILED);
          d1 = upd_rollback rid (\<lambda>r. r\<lparr>dr_operation_reference := Some (dx_operation_reference x),
                 dr_completed_at := Some (en_now en 0), dr_recovery_duration_ms := Some duration_ms,
                 dr_evidence := [(''credential'', credential_handle_dict cf handle), (''execution'', JObj (dx_evidence x)),
                   (''observation'', JObj (do_evidence (cu_observation run))), (''verification'', JObj (vf_evidence v)),
                   (''changed'', JBool (dx_changed x))],
                 dr_status := status\<rparr>) d
      in
      ebind (if recovered
        then transition cf wid WS_ROLLED_BACK ''orchestrator'' ''approved local rollback independently verified recovery''
          [(''deployment_attempt_id'', JStr aid), (''deployment_rollback_id'', JStr rid),
           (''recovery_duration_ms'', JInt duration_ms)] d1
        else Inr d1) (\<lambda>d2.
      let d3 = audit cf wid ''deployment.rollback_completed'' ''orchestrator'' ''deployment_rollback'' rid
                 (rollback_status_value status)
                 [(''changed'', JBool (dx_changed x)), (''deployment_attempt_id'', JStr aid),
                  (''recovery_duration_ms'', JInt duration_ms), (''verification_passed'', JBool (vf_passed v))] d2
      in Inr ((case row_get dr_id rid (rollbacks d3) of None \<Rightarrow> JNull | Some r \<Rightarrow> deployment_rollback_dict cf r,
               recovered), d3)))))"

fun rollback_failure_status :: "error \<Rightarrow> rollback_status" where
  "rollback_failure_status (DeploymentOutcomeUnknownError _) = RS_UNKNOWN"
| "rollback_failure_status (DeploymentVerificationError _) = RS_UNKNOWN"
| "rollback_failure_status _ = RS_FAILED"

definition complete_local_rollback :: "config \<Rightarrow> env \<Rightarrow> rollback_started \<Rightarrow>
    error + workload_credential_handle \<times> credentialed_run \<Rightarrow> bool \<Rightarrow> int \<Rightarrow> db \<Rightarrow> (error + json) \<times> db" where
  "complete_local_rollback cf en rs outcome target_contacted duration_ms d =
     (case outcome of
        Inl e \<Rightarrow>
          (case fail_local_rollback cf en (rs_rollback_id rs) (rollback_failure_status e) (error_name e)
             (if rollback_failure_status e = RS_FAILED then target_contacted else True) duration_ms d of
             Inl e' \<Rightarrow> (Inl e', d)
           | Inr d1 \<Rightarrow> (Inl e, d1))
      | Inr (handle, run) \<Rightarrow>
          (case finish_local_rollback cf en rs handle run duration_ms d of
             Inl e \<Rightarrow> (Inl e, d)
           | Inr ((result, recovered), d1) \<Rightarrow>
               (if recovered then Inr result
                else Inl (DeploymentVerificationError ''local rollback did not verify recovery''), d1)))"

definition execute_local_rollback :: "config \<Rightarrow> 'k deploy_config \<Rightarrow> env \<Rightarrow> env \<Rightarrow> int \<Rightarrow> ident \<Rightarrow> ident \<Rightarrow> ident \<Rightarrow>
    string \<Rightarrow> db \<times> 'k \<Rightarrow> (error + json) \<times> db \<times> 'k" where
  "execute_local_rollback cf dc en en2 duration_ms workflow_id attempt_id actor_id idempotency_key = (\<lambda>(d, k).
     (case start_local_rollback cf dc en workflow_id attempt_id actor_id idempotency_key d of
        Inl e \<Rightarrow> (Inl e, d, k)
      | Inr (Inl replayed, d1) \<Rightarrow> (Inr replayed, d1, k)
      | Inr (Inr (rs, adapter), d1) \<Rightarrow>
          let (outcome, k', contacted) = use_credential dc (ad_rollback_credential_request adapter (rs_plan rs))
                (\<lambda>credential handle. ad_rollback_with_credential adapter (rs_plan rs) (rs_previous_release rs)
                   credential handle (rs_rollback_id rs)) k;
              (r, d2) = complete_local_rollback cf en2 rs outcome contacted duration_ms d1
          in (r, d2, k')))"

definition list_deployment_rollbacks :: "config \<Rightarrow> env \<Rightarrow> ident \<Rightarrow> ident \<Rightarrow> db \<Rightarrow> error + json list" where
  "list_deployment_rollbacks cf en workflow_id principal_id d =
     ebind (authorize d (en_now en 0) principal_id CAP_READ_DEPLOYMENT None None False) (\<lambda>_.
     ebind (get_workflow d workflow_id) (\<lambda>_.
     Inr (map (deployment_rollback_dict cf)
       (sort_key dr_created_at (filter (\<lambda>r. dr_workflow_id r = workflow_id) (rollbacks d))))))"

end
