(* ===== verification/Github_App.thy ===== *)
theory Github_App
  imports Python_Text
begin

text \<open>
  \<open>github_app.py\<close>: the least-privilege GitHub client, which proposes draft pull requests, assesses merge
  readiness and confirms merges, and has no merge operation.  Two functions stand for what is outside the
  repository, and nothing is assumed of them: \<open>http\<close>, which answers a request with a status and a body
  (\<open>None\<close> when the body is not JSON) or not at all, and \<open>app_jwt\<close>, the signed application token or the
  exception of resolving the key and signing.  A method makes its requests in the order of the source; no
  method repeats one.

  The normalisation of check-run webhooks in \<open>github.py\<close> shares its constants and is included; \<open>hmac\<close> and
  the parsing of the event by the validation library are parameters there.
\<close>

section \<open>Text helpers\<close>

text \<open>\<open>str.lower\<close> on the code points below 256.\<close>

definition lower_char :: "char \<Rightarrow> char" where
  "lower_char c = (let n = of_char c :: nat in
     if (65 \<le> n \<and> n \<le> 90) \<or> (192 \<le> n \<and> n \<le> 222 \<and> n \<noteq> 215) then char_of (n + 32) else c)"

definition lower :: "string \<Rightarrow> string" where
  "lower s = map lower_char s"

definition percent_byte :: "nat \<Rightarrow> string" where
  "percent_byte n = [CHR ''%'', (''0123456789ABCDEF'' ! (n div 16)), (''0123456789ABCDEF'' ! (n mod 16))]"

text \<open>\<open>urllib.parse.quote\<close>: UTF-8 bytes outside the unreserved and the safe characters are percent-encoded.\<close>

definition quote_char :: "string \<Rightarrow> char \<Rightarrow> string" where
  "quote_char safe c = (let n = of_char c :: nat in
     if alnum c \<or> c \<in> set ''_.-~'' \<or> c \<in> set safe then [c]
     else if n < 128 then percent_byte n
     else percent_byte (192 + n div 64) @ percent_byte (128 + n mod 64))"

definition quote :: "string \<Rightarrow> string \<Rightarrow> string" where
  "quote safe s = concat (map (quote_char safe) s)"

text \<open>\<open>repository.split("/", 1)\<close>; a name without a slash cannot be unpacked into two parts.\<close>

definition split_repository :: "string \<Rightarrow> error + string \<times> string" where
  "split_repository repository =
     (if CHR ''/'' \<in> set repository
      then Inr (takeWhile (\<lambda>c. c \<noteq> CHR ''/'') repository, tl (dropWhile (\<lambda>c. c \<noteq> CHR ''/'') repository))
      else Inl (ValueError ''not enough values to unpack''))"

definition ends_with :: "string \<Rightarrow> string \<Rightarrow> bool" where
  "ends_with p s \<longleftrightarrow> starts_with (rev p) (rev s)"

section \<open>Policy\<close>

record github_repository_policy =
  gp_full_name :: string
  gp_base_branch :: string
  gp_required_checks :: "string list"
  gp_minimum_approving_reviews :: int
  gp_require_admin_enforcement :: bool
  gp_require_linear_history :: bool

record github_app_policy =
  ga_policy_version :: string
  ga_enabled :: bool
  ga_api_base :: string
  ga_client_id :: string
  ga_installation_id :: int
  ga_private_key_ref :: string
  ga_secret_environment :: "(string \<times> string) list"
  ga_repositories :: "github_repository_policy list"

definition GITHUB_API_BASE :: string where
  "GITHUB_API_BASE = ''https://api.github.com''"

definition is_github_sha :: "string \<Rightarrow> bool" where
  "is_github_sha s \<longleftrightarrow> is_hex 40 s \<or> is_hex 64 s"

definition validate_revision :: "string \<Rightarrow> error + unit" where
  "validate_revision revision = require (is_github_sha revision)
     (ValidationError ''GitHub revision must be an immutable commit digest'')"

text \<open>\<open>[A-Za-z0-9][A-Za-z0-9._/-]{0,199}\<close>\<close>

definition branch_pattern :: "string \<Rightarrow> bool" where
  "branch_pattern s \<longleftrightarrow> s \<noteq> [] \<and> length s \<le> 200 \<and> alnum (hd s) \<and> list_all (\<lambda>c. alnum c \<or> c \<in> set ''._/-'') s"

definition validate_branch :: "string \<Rightarrow> error + unit" where
  "validate_branch branch =
     (if \<not> branch_pattern branch \<or> contains ''..'' branch \<or> contains ''//'' branch \<or> contains [CHR 0x40, CHR 0x7B] branch \<or>
         ends_with ''/'' branch \<or> ends_with ''.'' branch \<or> ends_with ''.lock'' branch
      then Inl (ValidationError ''GitHub branch name is invalid'')
      else Inr ())"

text \<open>The two model validators.\<close>

definition validate_repository_policy :: "github_repository_policy \<Rightarrow> error + unit" where
  "validate_repository_policy p =
     ebind (validate_branch (gp_base_branch p)) (\<lambda>_.
     if \<not> distinct (gp_required_checks p) then Inl (ValueError ''required GitHub check names must be unique'')
     else if list_ex (\<lambda>c. strip c = [] \<or> 200 < length c) (gp_required_checks p)
     then Inl (ValueError ''required GitHub check name is invalid'')
     else Inr ())"

text \<open>\<open>[A-Z][A-Z0-9_]{2,127}\<close>\<close>

definition environment_name :: "string \<Rightarrow> bool" where
  "environment_name s \<longleftrightarrow> 3 \<le> length s \<and> length s \<le> 128 \<and> hd s \<in> set ''ABCDEFGHIJKLMNOPQRSTUVWXYZ'' \<and>
     list_all (\<lambda>c. c \<in> set ''ABCDEFGHIJKLMNOPQRSTUVWXYZ0123456789_'') s"

definition validate_policy :: "github_app_policy \<Rightarrow> error + unit" where
  "validate_policy p =
     (if ga_api_base p \<noteq> GITHUB_API_BASE
      then Inl (ValueError ''only the official GitHub API endpoint is permitted'')
      else if ga_enabled p \<and> ga_private_key_ref p \<notin> fst ` set (ga_secret_environment p)
      then Inl (ValueError ''enabled GitHub App lacks an allowlisted private-key reference'')
      else if list_ex (\<lambda>(reference, variable). reference = [] \<or> \<not> environment_name variable) (ga_secret_environment p)
      then Inl (ValueError ''GitHub secret environment mapping is invalid'')
      else if \<not> distinct (map (\<lambda>r. lower (gp_full_name r)) (ga_repositories p))
      then Inl (ValueError ''GitHub repository policies must be unique'')
      else Inr ())"

section \<open>Results\<close>

record pull_request_value =
  pv_repository :: string
  pv_number :: int
  pv_url :: string
  pv_head_branch :: string
  pv_base_branch :: string
  pv_head_revision :: string
  pv_draft :: bool

record merge_readiness =
  me_repository :: string
  me_pull_number :: int
  me_revision :: string
  me_ready :: bool
  me_reasons :: "string list"
  me_checks :: "(string \<times> string) list"
  me_policy_version :: string

record merge_confirmed =
  mf_repository :: string
  mf_pull_number :: int
  mf_head_revision :: string
  mf_base_branch :: string
  mf_merge_commit_revision :: string

section \<open>Requests\<close>

datatype github_outcome = GH_request_error | GH_response int "json option"

record github_request =
  gr_method :: string
  gr_url :: string
  gr_credential :: string
  gr_json :: "json option"
  gr_params :: "(string \<times> string) list"

type_synonym github_http = "github_request \<Rightarrow> github_outcome"

definition gh_request :: "github_http \<Rightarrow> github_app_policy \<Rightarrow> string \<Rightarrow> string \<Rightarrow> string \<Rightarrow> json option \<Rightarrow>
    (string \<times> string) list \<Rightarrow> int \<Rightarrow> error + json option" where
  "gh_request http p verb path credential body params expected_status =
     (case http \<lparr>gr_method = verb, gr_url = ga_api_base p @ path, gr_credential = credential, gr_json = body,
        gr_params = params\<rparr> of
        GH_request_error \<Rightarrow> Inl (IntegrationResponseError ''GitHub request outcome is unknown'')
      | GH_response status payload \<Rightarrow>
          if status \<noteq> expected_status
          then Inl (IntegrationResponseError (''GitHub request failed with HTTP '' @ int_str status))
          else Inr payload)"

definition gh_request_json :: "github_http \<Rightarrow> github_app_policy \<Rightarrow> string \<Rightarrow> string \<Rightarrow> string \<Rightarrow> json option \<Rightarrow>
    (string \<times> string) list \<Rightarrow> int \<Rightarrow> error + dict" where
  "gh_request_json http p verb path credential body params expected_status =
     ebind (gh_request http p verb path credential body params expected_status) (\<lambda>payload.
     (case payload of
        None \<Rightarrow> Inl (IntegrationResponseError ''GitHub returned invalid JSON'')
      | Some (JObj d) \<Rightarrow> Inr d
      | Some _ \<Rightarrow> Inl (IntegrationResponseError ''GitHub returned an invalid response object'')))"

definition require_enabled :: "github_app_policy \<Rightarrow> error + unit" where
  "require_enabled p = require (ga_enabled p)
     (IntegrationDisabledError ''GitHub App integration is disabled by policy'')"

definition repository_policy :: "github_app_policy \<Rightarrow> string \<Rightarrow> error + github_repository_policy" where
  "repository_policy p repository =
     ebind (require_enabled p) (\<lambda>_.
     from_option (ValidationError ''repository is not allowlisted for the GitHub App'')
       (List.find (\<lambda>r. lower (gp_full_name r) = lower repository) (ga_repositories p)))"

definition requested_permissions :: "bool \<Rightarrow> (string \<times> string) list" where
  "requested_permissions pull_request_write =
     [(''administration'', ''read''), (''checks'', ''read''), (''contents'', ''read''),
      (''pull_requests'', if pull_request_write then ''write'' else ''read'')]"

text \<open>\<open>app_jwt\<close> is the application token: resolving the private key and signing, or the exception of either.\<close>

definition installation_token :: "github_http \<Rightarrow> (error + string) \<Rightarrow> github_app_policy \<Rightarrow> github_repository_policy \<Rightarrow>
    bool \<Rightarrow> error + string" where
  "installation_token http app_jwt p r pull_request_write =
     ebind (require_enabled p) (\<lambda>_.
     ebind app_jwt (\<lambda>bearer.
     ebind (split_repository (gp_full_name r)) (\<lambda>(owner, repo).
     let wanted = requested_permissions pull_request_write in
     ebind (gh_request_json http p ''POST''
       (''/app/installations/'' @ int_str (ga_installation_id p) @ ''/access_tokens'') bearer
       (Some (JObj [(''repositories'', JList [JStr repo]),
          (''permissions'', JObj (map (\<lambda>(k, v). (k, JStr v)) wanted))])) [] 201) (\<lambda>response.
     (case (dict_get response ''token'', dict_get response ''permissions'') of
        (Some (JStr token), Some (JObj permissions)) \<Rightarrow>
          if token = [] then Inl (IntegrationResponseError ''GitHub returned an invalid installation token'')
          else if list_ex (\<lambda>(name, v). v = JStr ''write'' \<and> name \<noteq> ''pull_requests'') permissions
          then Inl (IntegrationResponseError ''GitHub installation token exceeds allowed permissions'')
          else if list_ex (\<lambda>(name, level). dict_get permissions name \<noteq> Some (JStr level)) wanted
          then Inl (IntegrationResponseError ''GitHub installation token lacks required permissions'')
          else Inr token
      | _ \<Rightarrow> Inl (IntegrationResponseError ''GitHub returned an invalid installation token''))))))"

section \<open>Reading answers\<close>

definition j_get :: "json \<Rightarrow> string \<Rightarrow> json option" where
  "j_get j k = (case j of JObj d \<Rightarrow> dict_get d k | _ \<Rightarrow> None)"

text \<open>\<open>isinstance(x, int)\<close> also holds of the two booleans.\<close>

definition as_int :: "json \<Rightarrow> int option" where
  "as_int j = (case j of JInt n \<Rightarrow> Some n | JBool b \<Rightarrow> Some (if b then 1 else 0) | _ \<Rightarrow> None)"

definition obind :: "'a option \<Rightarrow> ('a \<Rightarrow> 'b option) \<Rightarrow> 'b option" where
  "obind m f = (case m of None \<Rightarrow> None | Some x \<Rightarrow> f x)"

definition as_str :: "json \<Rightarrow> string option" where
  "as_str j = (case j of JStr s \<Rightarrow> Some s | _ \<Rightarrow> None)"

definition pull_fields :: "json \<Rightarrow> string \<Rightarrow> pull_request_value option" where
  "pull_fields payload repository =
     obind (obind (j_get payload ''number'') as_int) (\<lambda>number.
     obind (obind (j_get payload ''html_url'') as_str) (\<lambda>url.
     obind (j_get payload ''head'') (\<lambda>head.
     obind (obind (j_get head ''ref'') as_str) (\<lambda>head_branch.
     obind (obind (j_get head ''sha'') as_str) (\<lambda>head_revision.
     obind (obind (obind (j_get head ''repo'') (\<lambda>r. j_get r ''full_name'')) as_str) (\<lambda>head_repository.
     obind (obind (obind (j_get payload ''base'') (\<lambda>b. j_get b ''ref'')) as_str) (\<lambda>base_branch.
     (case j_get payload ''draft'' of
        Some (JBool draft) \<Rightarrow>
          if number < 1 \<or> lower head_repository \<noteq> lower repository then None
          else Some \<lparr>pv_repository = repository, pv_number = number, pv_url = url, pv_head_branch = head_branch,
            pv_base_branch = base_branch, pv_head_revision = head_revision, pv_draft = draft\<rparr>
      | _ \<Rightarrow> None))))))))"

definition normalize_pull :: "json \<Rightarrow> string \<Rightarrow> error + pull_request_value" where
  "normalize_pull payload repository =
     from_option (IntegrationResponseError ''GitHub returned an invalid pull request'') (pull_fields payload repository)"

text \<open>
  \<open>d.get(k, {}).get(k2)\<close>: a value that is not a dictionary has no method \<open>get\<close>.
\<close>

definition section_of :: "dict \<Rightarrow> string \<Rightarrow> error + dict" where
  "section_of d k = (case dict_get d k of
     None \<Rightarrow> Inr [] | Some (JObj e) \<Rightarrow> Inr e | Some _ \<Rightarrow> Inl (OtherError ''AttributeError''))"

definition truthy_get :: "dict \<Rightarrow> string \<Rightarrow> bool" where
  "truthy_get d k = (case dict_get d k of None \<Rightarrow> False | Some v \<Rightarrow> truthy v)"

definition unhashable :: "json \<Rightarrow> bool" where
  "unhashable j = (case j of JList _ \<Rightarrow> True | JObj _ \<Rightarrow> True | _ \<Rightarrow> False)"

definition context_reasons :: "dict \<Rightarrow> github_repository_policy \<Rightarrow> error + string list" where
  "context_reasons checks p =
     (case dict_get checks ''contexts'' of
        None \<Rightarrow> Inr (if gp_required_checks p = [] then [] else [''required_checks_not_protected''])
      | Some (JList contexts) \<Rightarrow>
          if list_ex unhashable contexts then Inl (OtherError ''TypeError'')
          else Inr (if JStr ` set (gp_required_checks p) \<subseteq> set contexts then [] else [''required_checks_not_protected''])
      | Some _ \<Rightarrow> Inr [''required_checks_not_protected''])"

definition enabled_in :: "bool \<Rightarrow> dict \<Rightarrow> string \<Rightarrow> error + bool" where
  "enabled_in wanted payload k = (if wanted then ebind (section_of payload k) (\<lambda>e. Inr (truthy_get e ''enabled'')) else Inr True)"

definition review_reasons :: "dict \<Rightarrow> github_repository_policy \<Rightarrow> string list" where
  "review_reasons reviews p =
     (let count = (case dict_get reviews ''required_approving_review_count'' of None \<Rightarrow> Some 0 | Some v \<Rightarrow> as_int v) in
      (case count of
         Some n \<Rightarrow> if n < gp_minimum_approving_reviews p then [''insufficient_required_reviews''] else []
       | None \<Rightarrow> [''insufficient_required_reviews'']) @
      (if truthy_get reviews ''dismiss_stale_reviews'' then [] else [''stale_review_dismissal_disabled'']) @
      (if truthy_get reviews ''require_last_push_approval'' then [] else [''last_push_approval_disabled'']))"

definition assess_protection :: "dict \<Rightarrow> github_repository_policy \<Rightarrow> error + string list" where
  "assess_protection payload p =
     ebind (section_of payload ''required_status_checks'') (\<lambda>checks.
     ebind (context_reasons checks p) (\<lambda>contexts.
     ebind (enabled_in (gp_require_admin_enforcement p) payload ''enforce_admins'') (\<lambda>admins.
     ebind (section_of payload ''required_pull_request_reviews'') (\<lambda>reviews.
     ebind (enabled_in (gp_require_linear_history p) payload ''required_linear_history'') (\<lambda>linear.
     ebind (section_of payload ''allow_force_pushes'') (\<lambda>force.
     ebind (section_of payload ''allow_deletions'') (\<lambda>deletions.
     Inr (contexts @ (if admins then [] else [''admin_enforcement_disabled'']) @ review_reasons reviews p @
       (if linear then [] else [''linear_history_not_required'']) @
       (if truthy_get force ''enabled'' then [''force_pushes_allowed''] else []) @
       (if truthy_get deletions ''enabled'' then [''branch_deletions_allowed''] else [])))))))))"

definition TERMINAL_CONCLUSIONS :: "string list" where
  "TERMINAL_CONCLUSIONS = [''action_required'', ''cancelled'', ''failure'', ''neutral'', ''skipped'', ''stale'',
     ''startup_failure'', ''success'', ''timed_out'']"

text \<open>The loop over the runs; the first terminal conclusion of a name is kept.\<close>

fun observe_checks :: "json list \<Rightarrow> (string \<times> string) list \<Rightarrow> error + (string \<times> string) list" where
  "observe_checks [] observed = Inr observed"
| "observe_checks (run # runs) observed =
     (case obind (j_get run ''name'') as_str of
        None \<Rightarrow> observe_checks runs observed
      | Some name \<Rightarrow>
          if j_get run ''status'' \<noteq> Some (JStr ''completed'') then observe_checks runs observed
          else (case j_get run ''conclusion'' of
              None \<Rightarrow> observe_checks runs observed
            | Some conclusion \<Rightarrow>
                if unhashable conclusion then Inl (OtherError ''TypeError'')
                else (case as_str conclusion of
                    Some c \<Rightarrow> if c \<in> set TERMINAL_CONCLUSIONS \<and> map_of observed name = None
                      then observe_checks runs (observed @ [(name, c)]) else observe_checks runs observed
                  | None \<Rightarrow> observe_checks runs observed)))"

definition required_check_reasons :: "(string \<times> string) list \<Rightarrow> string list \<Rightarrow> string list" where
  "required_check_reasons observed required = concat (map (\<lambda>name. case map_of observed name of
     None \<Rightarrow> [''required_check_missing:'' @ name]
   | Some c \<Rightarrow> if c = ''success'' then [] else [''required_check_not_successful:'' @ name]) required)"

definition assess_checks :: "dict \<Rightarrow> github_repository_policy \<Rightarrow> error + string list \<times> (string \<times> string) list" where
  "assess_checks payload p =
     (case dict_get payload ''check_runs'' of
        Some (JList runs) \<Rightarrow>
          ebind (observe_checks runs []) (\<lambda>observed.
          Inr (required_check_reasons observed (gp_required_checks p),
               filter (\<lambda>(name, _). name \<in> set (gp_required_checks p)) (sort_key fst observed)))
      | _ \<Rightarrow> Inl (IntegrationResponseError ''GitHub check-runs response is invalid''))"

section \<open>The operations\<close>

definition validate_pull_request :: "github_app_policy \<Rightarrow> string \<Rightarrow> string \<Rightarrow> string \<Rightarrow> string \<Rightarrow> string \<Rightarrow>
    error + github_repository_policy" where
  "validate_pull_request p repository head_branch expected_revision title body =
     ebind (repository_policy p repository) (\<lambda>r.
     ebind (validate_branch head_branch) (\<lambda>_.
     ebind (validate_revision expected_revision) (\<lambda>_.
     if strip title = [] \<or> 256 < length title \<or> 20000 < length body
     then Inl (ValidationError ''pull-request title or body is invalid'')
     else Inr r)))"

definition repo_path :: "string \<Rightarrow> string \<Rightarrow> string" where
  "repo_path owner repo = ''/repos/'' @ quote ''/'' owner @ ''/'' @ quote ''/'' repo"

definition create_draft_pull_request :: "github_http \<Rightarrow> (error + string) \<Rightarrow> github_app_policy \<Rightarrow> string \<Rightarrow> string \<Rightarrow>
    string \<Rightarrow> string \<Rightarrow> string \<Rightarrow> error + pull_request_value" where
  "create_draft_pull_request http app_jwt p repository head_branch expected_revision title body =
     ebind (validate_pull_request p repository head_branch expected_revision title body) (\<lambda>r.
     ebind (installation_token http app_jwt p r True) (\<lambda>token.
     ebind (split_repository repository) (\<lambda>(owner, repo).
     ebind (gh_request_json http p ''GET'' (repo_path owner repo @ ''/git/ref/heads/'' @ quote [] head_branch) token
       None [] 200) (\<lambda>remote_ref.
     ebind (section_of remote_ref ''object'') (\<lambda>object.
     if dict_get object ''sha'' \<noteq> Some (JStr expected_revision)
     then Inl (IntegrationResponseError ''GitHub branch head does not match candidate revision'')
     else
     ebind (gh_request_json http p ''POST'' (repo_path owner repo @ ''/pulls'') token
       (Some (JObj [(''title'', JStr (strip title)), (''body'', JStr body), (''head'', JStr head_branch),
          (''base'', JStr (gp_base_branch r)), (''draft'', JBool True), (''maintainer_can_modify'', JBool False)]))
       [] 201) (\<lambda>response.
     ebind (normalize_pull (JObj response) repository) (\<lambda>proposal.
     if pv_head_revision proposal \<noteq> expected_revision \<or> pv_head_branch proposal \<noteq> head_branch \<or>
        pv_base_branch proposal \<noteq> gp_base_branch r \<or> \<not> pv_draft proposal
     then Inl (IntegrationResponseError ''created pull request does not match requested scope'')
     else Inr proposal)))))))"

definition pull_reasons :: "dict \<Rightarrow> pull_request_value \<Rightarrow> string \<Rightarrow> github_repository_policy \<Rightarrow> string list" where
  "pull_reasons pull proposal expected_revision r =
     (if pv_head_revision proposal \<noteq> expected_revision then [''pull_head_revision_mismatch''] else []) @
     (if pv_base_branch proposal \<noteq> gp_base_branch r then [''pull_base_branch_mismatch''] else []) @
     (if dict_get pull ''state'' \<noteq> Some (JStr ''open'') then [''pull_request_not_open''] else []) @
     (if pv_draft proposal then [''pull_request_is_draft''] else [])"

text \<open>The protection of the base branch; only an unreadable answer is turned into a reason.\<close>

definition protection_reasons :: "error + dict \<Rightarrow> github_repository_policy \<Rightarrow> error + string list" where
  "protection_reasons answer r = (case answer of
     Inl (IntegrationResponseError _) \<Rightarrow> Inr [''branch_protection_unverifiable'']
   | Inl e \<Rightarrow> Inl e
   | Inr protection \<Rightarrow> assess_protection protection r)"

definition assess_merge_readiness_gh :: "github_http \<Rightarrow> (error + string) \<Rightarrow> github_app_policy \<Rightarrow> string \<Rightarrow> int \<Rightarrow>
    string \<Rightarrow> error + merge_readiness" where
  "assess_merge_readiness_gh http app_jwt p repository pull_number expected_revision =
     ebind (repository_policy p repository) (\<lambda>r.
     ebind (validate_revision expected_revision) (\<lambda>_.
     if pull_number < 1 then Inl (ValidationError ''pull-request number must be positive'')
     else
     ebind (installation_token http app_jwt p r False) (\<lambda>token.
     ebind (split_repository repository) (\<lambda>(owner, repo).
     ebind (gh_request_json http p ''GET'' (repo_path owner repo @ ''/pulls/'' @ int_str pull_number) token None [] 200)
       (\<lambda>pull.
     ebind (normalize_pull (JObj pull) repository) (\<lambda>proposal.
     ebind (protection_reasons (gh_request_json http p ''GET'' (repo_path owner repo @ ''/branches/'' @
         quote [] (gp_base_branch r) @ ''/protection'') token None [] 200) r) (\<lambda>protection.
     ebind (gh_request_json http p ''GET'' (repo_path owner repo @ ''/commits/'' @ expected_revision @ ''/check-runs'')
       token None [(''filter'', ''latest''), (''per_page'', ''100'')] 200) (\<lambda>checks_body.
     ebind (assess_checks checks_body r) (\<lambda>(check_reasons, observed).
     let reasons = pull_reasons pull proposal expected_revision r @ protection @ check_reasons in
     Inr \<lparr>me_repository = repository, me_pull_number = pull_number, me_revision = expected_revision,
       me_ready = (reasons = []), me_reasons = reasons, me_checks = observed,
       me_policy_version = ga_policy_version p\<rparr>)))))))))"

fun normalize_pulls :: "json list \<Rightarrow> string \<Rightarrow> error + pull_request_value list" where
  "normalize_pulls [] repository = Inr []"
| "normalize_pulls (x # xs) repository =
     ebind (normalize_pull x repository) (\<lambda>v. ebind (normalize_pulls xs repository) (\<lambda>vs. Inr (v # vs)))"

definition find_pull_requests :: "github_http \<Rightarrow> (error + string) \<Rightarrow> github_app_policy \<Rightarrow> string \<Rightarrow> string \<Rightarrow>
    error + pull_request_value list" where
  "find_pull_requests http app_jwt p repository head_branch =
     ebind (repository_policy p repository) (\<lambda>r.
     ebind (validate_branch head_branch) (\<lambda>_.
     ebind (installation_token http app_jwt p r False) (\<lambda>token.
     ebind (split_repository repository) (\<lambda>(owner, repo).
     ebind (gh_request http p ''GET'' (repo_path owner repo @ ''/pulls'') token None
       [(''state'', ''all''), (''head'', owner @ '':'' @ head_branch), (''base'', gp_base_branch r),
        (''per_page'', ''100'')] 200) (\<lambda>payload.
     (case payload of
        None \<Rightarrow> Inl (IntegrationResponseError ''GitHub returned invalid JSON'')
      | Some (JList items) \<Rightarrow> normalize_pulls items repository
      | Some _ \<Rightarrow> Inl (IntegrationResponseError ''GitHub returned an invalid pull-request list'')))))))"

definition confirm_pull_request_merged_gh :: "github_http \<Rightarrow> (error + string) \<Rightarrow> github_app_policy \<Rightarrow> string \<Rightarrow> int \<Rightarrow>
    string \<Rightarrow> error + merge_confirmed" where
  "confirm_pull_request_merged_gh http app_jwt p repository pull_number expected_revision =
     ebind (repository_policy p repository) (\<lambda>r.
     ebind (validate_revision expected_revision) (\<lambda>_.
     if pull_number < 1 then Inl (ValidationError ''pull-request number must be positive'')
     else
     ebind (installation_token http app_jwt p r False) (\<lambda>token.
     ebind (split_repository repository) (\<lambda>(owner, repo).
     let path = repo_path owner repo @ ''/pulls/'' @ int_str pull_number in
     ebind (gh_request_json http p ''GET'' path token None [] 200) (\<lambda>pull.
     ebind (normalize_pull (JObj pull) repository) (\<lambda>proposal.
     (case dict_get pull ''merge_commit_sha'' of
        Some (JStr merge_revision) \<Rightarrow>
          if pv_head_revision proposal \<noteq> expected_revision \<or> pv_base_branch proposal \<noteq> gp_base_branch r \<or>
             dict_get pull ''state'' \<noteq> Some (JStr ''closed'') \<or> dict_get pull ''merged'' \<noteq> Some (JBool True)
          then Inl (IntegrationResponseError ''GitHub has not confirmed the expected pull-request merge'')
          else
          ebind (validate_revision merge_revision) (\<lambda>_.
          ebind (gh_request http p ''GET'' (path @ ''/merge'') token None [] 204) (\<lambda>_.
          Inr \<lparr>mf_repository = repository, mf_pull_number = pull_number, mf_head_revision = expected_revision,
            mf_base_branch = pv_base_branch proposal, mf_merge_commit_revision = merge_revision\<rparr>))
      | _ \<Rightarrow> Inl (IntegrationResponseError ''GitHub has not confirmed the expected pull-request merge''))))))))"

section \<open>Check-run webhooks\<close>

text \<open>\<open>verify_github_signature\<close>; \<open>hmac secret body\<close> is the hexadecimal HMAC-SHA-256.\<close>

definition verify_github_signature :: "(string \<Rightarrow> string \<Rightarrow> string) \<Rightarrow> string \<Rightarrow> string option \<Rightarrow> string \<Rightarrow> error + unit" where
  "verify_github_signature hmac body signature secret =
     (case signature of
        None \<Rightarrow> Inl (AuthorizationError ''GitHub webhook signature is missing or invalid'')
      | Some s \<Rightarrow>
          if secret = [] \<or> \<not> starts_with ''sha256='' s \<or> ''sha256='' @ hmac secret body \<noteq> s
          then Inl (AuthorizationError ''GitHub webhook signature is missing or invalid'')
          else Inr ())"

record github_check_run_event =
  ge_action :: string
  ge_check_id :: int
  ge_name :: string
  ge_head_sha :: string
  ge_status :: string
  ge_conclusion :: "string option"
  ge_details_url :: "string option"
  ge_app_slug :: "string option"
  ge_full_name :: string

record normalized_github_check =
  nc_repository :: string
  nc_check_run_id :: string
  nc_check_name :: string
  nc_revision :: string
  nc_status :: string
  nc_conclusion :: string
  nc_details_url :: "string option"
  nc_app_slug :: "string option"

text \<open>\<open>parse\<close> is the validation of the body against the event's schema.\<close>

definition normalize_check_run :: "(string \<Rightarrow> github_check_run_event option) \<Rightarrow> string \<Rightarrow> string \<Rightarrow>
    error + normalized_github_check option" where
  "normalize_check_run parse body delivery_id =
     (if \<not> (1 \<le> length delivery_id \<and> length delivery_id \<le> 64 \<and>
            list_all (\<lambda>c. c \<in> set ''0123456789ABCDEFabcdef-'') delivery_id)
      then Inl (ValidationError ''GitHub delivery ID is invalid'')
      else (case parse body of
          None \<Rightarrow> Inl (ValidationError ''GitHub check_run payload is invalid'')
        | Some e \<Rightarrow>
            if ge_action e \<noteq> ''completed'' then Inr None
            else (case ge_conclusion e of
                None \<Rightarrow> Inl (ValidationError ''completed GitHub check_run lacks a terminal conclusion'')
              | Some c \<Rightarrow>
                  if ge_status e \<noteq> ''completed'' \<or> c \<notin> set TERMINAL_CONCLUSIONS
                  then Inl (ValidationError ''completed GitHub check_run lacks a terminal conclusion'')
                  else Inr (Some \<lparr>nc_repository = ge_full_name e, nc_check_run_id = int_str (ge_check_id e),
                    nc_check_name = ge_name e, nc_revision = ge_head_sha e, nc_status = ge_status e,
                    nc_conclusion = c, nc_details_url = ge_details_url e, nc_app_slug = ge_app_slug e\<rparr>))))"

section \<open>What a positive answer means\<close>

text \<open>One run of the answer reports the terminal conclusion \<open>c\<close> for the check \<open>name\<close>.\<close>

definition run_reports :: "json \<Rightarrow> string \<Rightarrow> string \<Rightarrow> bool" where
  "run_reports run name c \<longleftrightarrow> j_get run ''name'' = Some (JStr name) \<and> j_get run ''status'' = Some (JStr ''completed'') \<and>
     j_get run ''conclusion'' = Some (JStr c)"

lemma as_str_Some: "as_str j = Some s \<longleftrightarrow> j = JStr s"
  by (cases j) (simp_all add: as_str_def)

lemma obind_Some: "obind m f = Some y \<longleftrightarrow> (\<exists>x. m = Some x \<and> f x = Some y)"
  by (cases m) (simp_all add: obind_def)

lemma observe_checks_Cons:
  assumes "observe_checks (run # runs) observed = Inr result"
  shows "observe_checks runs observed = Inr result \<or>
    (\<exists>n v. run_reports run n v \<and> observe_checks runs (observed @ [(n, v)]) = Inr result)"
proof (cases "obind (j_get run ''name'') as_str")
  case (Some n)
  then have n: "j_get run ''name'' = Some (JStr n)" by (auto simp: obind_Some as_str_Some)
  show ?thesis
  proof (cases "j_get run ''conclusion''")
    case (Some j)
    then show ?thesis using assms \<open>obind _ _ = Some n\<close> n
      by (cases j) (auto simp: as_str_def run_reports_def split: if_splits)
  qed (use assms \<open>obind _ _ = Some n\<close> in \<open>simp split: if_splits\<close>)
qed (use assms in simp)

lemma observe_checks_sound:
  "observe_checks runs observed = Inr result \<Longrightarrow> (name, c) \<in> set result \<Longrightarrow>
   (name, c) \<in> set observed \<or> (\<exists>run\<in>set runs. run_reports run name c)"
proof (induction runs arbitrary: observed)
  case (Cons run runs)
  from observe_checks_Cons [OF Cons.prems(1)] Cons.IH Cons.prems(2) show ?case by fastforce
qed simp

lemma required_check_reasons_Nil:
  "required_check_reasons observed required = [] \<longleftrightarrow> (\<forall>name\<in>set required. map_of observed name = Some ''success'')"
proof -
  have "(case m of None \<Rightarrow> [x] | Some c \<Rightarrow> if c = ''success'' then [] else [y c]) = [] \<longleftrightarrow> m = Some ''success''"
    for m :: "string option" and x :: string and y by (cases m) auto
  then show ?thesis by (simp add: required_check_reasons_def)
qed

lemma assess_checks_clean:
  assumes "assess_checks payload p = Inr ([], observed)" "name \<in> set (gp_required_checks p)"
  obtains runs run where "dict_get payload ''check_runs'' = Some (JList runs)" "run \<in> set runs"
    "run_reports run name ''success''"
proof -
  obtain runs all where runs: "dict_get payload ''check_runs'' = Some (JList runs)" "observe_checks runs [] = Inr all"
    "required_check_reasons all (gp_required_checks p) = []"
    using assms(1) by (auto simp: assess_checks_def tx_simps split: option.splits json.splits)
  then have "(name, ''success'') \<in> set all" using assms(2) by (auto simp: required_check_reasons_Nil intro: map_of_SomeD)
  then show thesis using observe_checks_sound [OF runs(2)] runs(1) that by auto
qed

lemma section_enabled: "enabled_in True payload k = Inr b \<Longrightarrow> \<exists>e. section_of payload k = Inr e \<and> truthy_get e ''enabled'' = b"
  by (auto simp: enabled_in_def tx_simps)

lemma assess_protection_clean:
  assumes "assess_protection payload p = Inr []"
  shows "(gp_required_checks p \<noteq> [] \<longrightarrow> (\<exists>checks contexts. section_of payload ''required_status_checks'' = Inr checks \<and>
      dict_get checks ''contexts'' = Some (JList contexts) \<and> JStr ` set (gp_required_checks p) \<subseteq> set contexts)) \<and>
    (gp_require_admin_enforcement p \<longrightarrow> (\<exists>e. section_of payload ''enforce_admins'' = Inr e \<and> truthy_get e ''enabled'')) \<and>
    (\<exists>e. section_of payload ''allow_force_pushes'' = Inr e \<and> \<not> truthy_get e ''enabled'') \<and>
    (\<exists>e. section_of payload ''allow_deletions'' = Inr e \<and> \<not> truthy_get e ''enabled'')"
proof -
  obtain checks cs admins reviews linear force del where *:
    "section_of payload ''required_status_checks'' = Inr checks" "context_reasons checks p = Inr cs"
    "enabled_in (gp_require_admin_enforcement p) payload ''enforce_admins'' = Inr admins"
    "section_of payload ''allow_force_pushes'' = Inr force" "section_of payload ''allow_deletions'' = Inr del"
    "cs @ (if admins then [] else [''admin_enforcement_disabled'']) @ review_reasons reviews p @
       (if linear then [] else [''linear_history_not_required'']) @
       (if truthy_get force ''enabled'' then [''force_pushes_allowed''] else []) @
       (if truthy_get del ''enabled'' then [''branch_deletions_allowed''] else []) = []"
    using assms by (auto simp: assess_protection_def tx_simps)
  have "gp_required_checks p \<noteq> [] \<longrightarrow>
      (\<exists>contexts. dict_get checks ''contexts'' = Some (JList contexts) \<and> JStr ` set (gp_required_checks p) \<subseteq> set contexts)"
    using *(2,6) by (auto simp: context_reasons_def tx_simps split: option.splits json.splits if_splits)
  moreover have "admins" "\<not> truthy_get force ''enabled''" "\<not> truthy_get del ''enabled''"
    using *(6) by (auto split: if_splits)
  ultimately show ?thesis using *(1,3,4,5) section_enabled by fastforce
qed


definition demo_policy :: github_app_policy where
  "demo_policy = \<lparr>ga_policy_version = ''v'', ga_enabled = True, ga_api_base = GITHUB_API_BASE, ga_client_id = ''c'',
     ga_installation_id = 1, ga_private_key_ref = ''k'', ga_secret_environment = [(''k'', ''KEY'')],
     ga_repositories = [\<lparr>gp_full_name = ''o/r'', gp_base_branch = ''main'', gp_required_checks = [''ci''],
       gp_minimum_approving_reviews = 1, gp_require_admin_enforcement = True, gp_require_linear_history = True\<rparr>]\<rparr>"

definition demo_sha :: string where
  "demo_sha = replicate 40 (CHR ''a'')"

definition demo_enabled :: json where
  "demo_enabled = JObj [(''enabled'', JBool True)]"

definition demo_http :: github_http where
  "demo_http q =
     (if gr_method q = ''POST'' then GH_response 201 (Some (JObj [(''token'', JStr ''t''),
        (''permissions'', JObj (map (\<lambda>(k, v). (k, JStr v)) (requested_permissions False)))]))
      else if ends_with ''/protection'' (gr_url q) then GH_response 200 (Some (JObj
        [(''required_status_checks'', JObj [(''contexts'', JList [JStr ''ci''])]), (''enforce_admins'', demo_enabled),
         (''required_pull_request_reviews'', JObj [(''required_approving_review_count'', JInt 1),
            (''dismiss_stale_reviews'', JBool True), (''require_last_push_approval'', JBool True)]),
         (''required_linear_history'', demo_enabled)]))
      else if ends_with ''/check-runs'' (gr_url q) then GH_response 200 (Some (JObj [(''check_runs'', JList
        [JObj [(''name'', JStr ''ci''), (''status'', JStr ''completed''), (''conclusion'', JStr ''success'')]])]))
      else GH_response 200 (Some (JObj [(''number'', JInt 7), (''html_url'', JStr ''u''),
        (''head'', JObj [(''ref'', JStr ''f''), (''sha'', JStr demo_sha), (''repo'', JObj [(''full_name'', JStr ''o/r'')])]),
        (''base'', JObj [(''ref'', JStr ''main'')]), (''draft'', JBool False), (''state'', JStr ''open'')])))"

definition demo_ready :: merge_readiness where
  "demo_ready = projr (assess_merge_readiness_gh demo_http (Inr ''j'') demo_policy ''o/r'' 7 demo_sha)"

lemma demo_ready: "assess_merge_readiness_gh demo_http (Inr ''j'') demo_policy ''o/r'' 7 demo_sha = Inr demo_ready"
  "me_ready demo_ready"
proof -
  have "is_ok (assess_merge_readiness_gh demo_http (Inr ''j'') demo_policy ''o/r'' 7 demo_sha)" by code_simp
  then show "assess_merge_readiness_gh demo_http (Inr ''j'') demo_policy ''o/r'' 7 demo_sha = Inr demo_ready"
    by (auto simp: is_ok_iff demo_ready_def)
  show "me_ready demo_ready" unfolding demo_ready_def by code_simp
qed


end
