(* ===== verification/Pull_Requests.thy ===== *)
theory Pull_Requests
  imports Workflow_Tasks Github_App
begin

text \<open>
  \<open>GitPullRequestService\<close> (\<open>git_pull_requests.py\<close>): CI evidence, pull-request proposals, merge readiness and
  the confirmation of a merge, which is the only way into the state MERGED.  An operation that calls GitHub
  has two transactions around the call; the part between them is the client of \<open>Github_App\<close>.
\<close>

record github_client =
  gc_policy :: github_app_policy
  gc_http :: github_http
  gc_jwt :: "error + string"

section \<open>Dictionaries returned to callers\<close>

definition ci_check_fields :: "config \<Rightarrow> ci_check_evidence \<Rightarrow> dict" where
  "ci_check_fields cf c =
     [(''id'', JStr (ci_id c)), (''workflow_id'', JStr (ci_workflow_id c)), (''source'', JStr (ci_source c)),
      (''delivery_id'', JStr (ci_delivery_id c)), (''repository'', JStr (ci_repository c)),
      (''check_run_id'', JStr (ci_check_run_id c)), (''check_name'', JStr (ci_check_name c)),
      (''revision'', JStr (ci_revision c)), (''status'', JStr (ci_status c)), (''conclusion'', JStr (ci_conclusion c)),
      (''details_url'', j_opt_str (ci_details_url c)), (''app_slug'', j_opt_str (ci_app_slug c)),
      (''payload_digest'', JStr (ci_payload_digest c)), (''created_at'', JStr (cf_isoformat cf (ci_created_at c)))]"

definition pull_request_record_dict :: "config \<Rightarrow> pull_request_proposal \<Rightarrow> json" where
  "pull_request_record_dict cf r = JObj
     [(''id'', JStr (pq_id r)), (''workflow_id'', JStr (pq_workflow_id r)), (''repository'', JStr (pq_repository r)),
      (''head_branch'', JStr (pq_head_branch r)), (''base_branch'', JStr (pq_base_branch r)),
      (''revision'', JStr (pq_revision r)), (''status'', JStr (pq_status r)),
      (''pull_number'', (case pq_pull_number r of None \<Rightarrow> JNull | Some n \<Rightarrow> JInt n)),
      (''pull_url'', j_opt_str (pq_pull_url r)), (''error_code'', j_opt_str (pq_error_code r)),
      (''created_at'', JStr (cf_isoformat cf (pq_created_at r))), (''completed_at'', j_opt_time cf (pq_completed_at r))]"

definition merge_readiness_dict :: "config \<Rightarrow> merge_readiness_assessment \<Rightarrow> json" where
  "merge_readiness_dict cf r = JObj
     [(''id'', JStr (mr_id r)), (''workflow_id'', JStr (mr_workflow_id r)), (''proposal_id'', JStr (mr_proposal_id r)),
      (''revision'', JStr (mr_revision r)), (''status'', JStr (mr_status r)),
      (''ready'', (case mr_ready r of None \<Rightarrow> JNull | Some b \<Rightarrow> JBool b)), (''reasons'', j_strs (mr_reasons r)),
      (''checks'', JObj (map (\<lambda>(k, v). (k, JStr v)) (mr_checks r))), (''policy_version'', JStr (mr_policy_version r)),
      (''error_code'', j_opt_str (mr_error_code r)), (''created_at'', JStr (cf_isoformat cf (mr_created_at r))),
      (''completed_at'', j_opt_time cf (mr_completed_at r))]"

definition merge_confirmation_dict :: "config \<Rightarrow> merge_confirmation \<Rightarrow> json" where
  "merge_confirmation_dict cf r = JObj
     [(''id'', JStr (mc_id r)), (''workflow_id'', JStr (mc_workflow_id r)), (''proposal_id'', JStr (mc_proposal_id r)),
      (''assessment_id'', JStr (mc_assessment_id r)), (''revision'', JStr (mc_revision r)),
      (''status'', JStr (mc_status r)), (''merge_commit_revision'', j_opt_str (mc_merge_commit_revision r)),
      (''error_code'', j_opt_str (mc_error_code r)), (''created_at'', JStr (cf_isoformat cf (mc_created_at r))),
      (''completed_at'', j_opt_time cf (mc_completed_at r))]"

section \<open>CI evidence\<close>

definition list_ci_check_evidence :: "config \<Rightarrow> env \<Rightarrow> ident \<Rightarrow> ident \<Rightarrow> db \<Rightarrow> error + json list" where
  "list_ci_check_evidence cf en workflow_id principal_id d =
     ebind (authorize d (en_now en 0) principal_id CAP_READ_AUDIT None None False) (\<lambda>_.
     ebind (get_workflow d workflow_id) (\<lambda>_.
     Inr (map (\<lambda>c. JObj (ci_check_fields cf c)) (sort_key (\<lambda>c. (ci_created_at c, ci_id c))
       (filter (\<lambda>c. ci_workflow_id c = workflow_id) (ci_checks d))))))"

definition new_ci_check :: "env \<Rightarrow> ident \<Rightarrow> string \<Rightarrow> string \<Rightarrow> normalized_github_check \<Rightarrow> ci_check_evidence" where
  "new_ci_check en wid delivery_id payload_digest c =
     \<lparr>ci_id = en_uuid en 0, ci_workflow_id = wid, ci_source = ''github'', ci_delivery_id = delivery_id,
      ci_repository = nc_repository c, ci_check_run_id = nc_check_run_id c, ci_check_name = nc_check_name c,
      ci_revision = nc_revision c, ci_status = nc_status c, ci_conclusion = nc_conclusion c,
      ci_details_url = nc_details_url c, ci_app_slug = nc_app_slug c, ci_payload_digest = payload_digest,
      ci_created_at = en_now en 1\<rparr>"

definition ingest_ci_check_evidence :: "config \<Rightarrow> env \<Rightarrow> ident \<Rightarrow> string \<Rightarrow> normalized_github_check \<Rightarrow> string \<Rightarrow> db \<Rightarrow>
    error + json \<times> db" where
  "ingest_ci_check_evidence cf en actor_id delivery_id c payload_digest d =
     ebind (authorize d (en_now en 0) actor_id CAP_SUBMIT_CI_EVIDENCE None None False) (\<lambda>_.
     (case List.find (\<lambda>e. ci_source e = ''github'' \<and> ci_delivery_id e = delivery_id) (ci_checks d) of
        Some existing \<Rightarrow>
          if ci_payload_digest existing \<noteq> payload_digest
          then Inl (ConflictError ''CI delivery ID was reused with a different payload'')
          else Inr (JObj (ci_check_fields cf existing @ [(''replayed'', JBool True)]), d)
      | None \<Rightarrow>
          (case filter (\<lambda>w. wf_repository_scope w = Some (nc_repository c) \<and> wf_candidate_revision w = Some (nc_revision c))
             (workflows d) of
             [] \<Rightarrow> Inl (NotFoundError ''CI evidence does not match a workflow candidate revision'')
           | [w] \<Rightarrow>
               if list_ex (\<lambda>e. ci_source e = ''github'' \<and> ci_check_run_id e = nc_check_run_id c) (ci_checks d)
               then Inl (ConflictError ''CI check run was already recorded by another delivery'')
               else
               let e = new_ci_check en (wf_id w) delivery_id payload_digest c;
                   d1 = audit cf (wf_id w) ''ci.check_recorded'' actor_id ''ci_check'' (ci_id e) ''SUCCEEDED''
                     [(''source'', JStr (ci_source e)), (''repository'', JStr (ci_repository e)),
                      (''check_run_id'', JStr (ci_check_run_id e)), (''check_name'', JStr (ci_check_name e)),
                      (''revision'', JStr (ci_revision e)), (''status'', JStr (ci_status e)),
                      (''conclusion'', JStr (ci_conclusion e)), (''payload_digest'', JStr payload_digest),
                      (''gate_eligible'', JBool False)] (d\<lparr>ci_checks := row_add e (ci_checks d)\<rparr>)
               in Inr (JObj (ci_check_fields cf e @ [(''replayed'', JBool False)]), d1)
           | _ \<Rightarrow> Inl (ConflictError ''CI evidence matches multiple workflows''))))"

section \<open>Proposing a pull request\<close>

definition require_github_app :: "github_client option \<Rightarrow> error + github_client" where
  "require_github_app g = from_option (IntegrationDisabledError ''GitHub App integration is disabled'') g"

definition find_proposal :: "ident \<Rightarrow> string \<Rightarrow> db \<Rightarrow> pull_request_proposal option" where
  "find_proposal actor_id key d =
     List.find (\<lambda>r. pq_actor_id r = actor_id \<and> pq_idempotency_key r = key) (proposals d)"

definition new_proposal :: "env \<Rightarrow> ident \<Rightarrow> ident \<Rightarrow> string \<Rightarrow> string \<Rightarrow> string \<Rightarrow> string \<Rightarrow> string \<Rightarrow> string \<Rightarrow> string \<Rightarrow>
    pull_request_proposal" where
  "new_proposal en wid actor_id key request_digest repository head_branch base_branch revision title =
     \<lparr>pq_id = en_uuid en 0, pq_workflow_id = wid, pq_actor_id = actor_id, pq_idempotency_key = key,
      pq_request_digest = request_digest, pq_repository = repository, pq_head_branch = head_branch,
      pq_base_branch = base_branch, pq_revision = revision, pq_title = strip title, pq_status = ''RUNNING'',
      pq_pull_number = None, pq_pull_url = None, pq_error_code = None, pq_created_at = en_now en 1,
      pq_completed_at = None\<rparr>"

definition start_pull_request :: "config \<Rightarrow> github_client option \<Rightarrow> env \<Rightarrow> ident \<Rightarrow> ident \<Rightarrow> string \<Rightarrow> string \<Rightarrow> string \<Rightarrow>
    string \<Rightarrow> db \<Rightarrow> error + (json + github_client \<times> pull_request_proposal) \<times> db" where
  "start_pull_request cf g en workflow_id actor_id head_branch title body idempotency_key d =
     ebind (require_github_app g) (\<lambda>github.
     ebind (authorize d (en_now en 0) actor_id CAP_PROPOSE_PULL_REQUEST None None False) (\<lambda>_.
     ebind (get_workflow d workflow_id) (\<lambda>w.
     if wf_state w \<noteq> WS_AWAITING_HUMAN_APPROVAL
     then Inl (InvalidTransitionError ''workflow is not ready for a pull-request proposal'')
     else if missing (wf_repository_scope w) \<or> missing (wf_candidate_revision w)
     then Inl (ValidationError ''workflow lacks repository and candidate revision'')
     else
     let repository = the (wf_repository_scope w); revision = the (wf_candidate_revision w) in
     ebind (validate_pull_request (gc_policy github) repository head_branch revision title body) (\<lambda>repo_policy.
     let request_digest = digest (cf_sha256 cf) (JObj [(''workflow_id'', JStr workflow_id),
           (''repository'', JStr repository), (''revision'', JStr revision), (''head_branch'', JStr head_branch),
           (''title'', JStr title), (''body'', JStr body)])
     in
     (case find_proposal actor_id idempotency_key d of
        Some existing \<Rightarrow>
          if pq_request_digest existing \<noteq> request_digest
          then Inl (ConflictError ''pull-request idempotency key was reused'')
          else if pq_status existing = ''SUCCEEDED'' then Inr (Inl (pull_request_record_dict cf existing), d)
          else Inl (ConflictError (''pull-request proposal requires reconciliation: '' @ pq_id existing))
      | None \<Rightarrow>
          let r = new_proposal en workflow_id actor_id idempotency_key request_digest repository head_branch
                    (gp_base_branch repo_policy) revision title
          in Inr (Inr (github, r), audit cf workflow_id ''git.pull_request_requested'' actor_id
               ''pull_request_proposal'' (pq_id r) ''STARTED''
               [(''revision'', JStr revision), (''head_branch'', JStr head_branch)]
               (d\<lparr>proposals := row_add r (proposals d)\<rparr>)))))))"

definition mark_pull_request_unknown :: "config \<Rightarrow> env \<Rightarrow> ident \<Rightarrow> string \<Rightarrow> db \<Rightarrow> db" where
  "mark_pull_request_unknown cf en rid error_code d =
     (case row_get pq_id rid (proposals d) of
        None \<Rightarrow> d
      | Some r \<Rightarrow>
          if pq_status r \<noteq> ''RUNNING'' then d
          else audit cf (pq_workflow_id r) ''git.pull_request_outcome_unknown'' ''orchestrator'' ''pull_request_proposal''
            rid ''UNKNOWN'' [(''revision'', JStr (pq_revision r)), (''error_code'', JStr (take 64 error_code))]
            (upd_proposal rid (\<lambda>r. r\<lparr>pq_status := ''UNKNOWN'', pq_error_code := Some (take 64 error_code),
               pq_completed_at := Some (en_now en 0)\<rparr>) d))"

definition proposal_dict_of :: "config \<Rightarrow> db \<Rightarrow> ident \<Rightarrow> json" where
  "proposal_dict_of cf d rid =
     (case row_get pq_id rid (proposals d) of None \<Rightarrow> JNull | Some r \<Rightarrow> pull_request_record_dict cf r)"

text \<open>A result for a candidate that has changed meanwhile is recorded as stale, and then reported as an error.\<close>

definition complete_pull_request :: "config \<Rightarrow> env \<Rightarrow> ident \<Rightarrow> pull_request_value \<Rightarrow> bool \<Rightarrow> db \<Rightarrow> (error + json) \<times> db" where
  "complete_pull_request cf en rid v reconciled d =
     (case ebind (from_option (NotFoundError ''pull-request proposal was not found'') (row_get pq_id rid (proposals d)))
             (\<lambda>r. ebind (get_workflow d (pq_workflow_id r)) (\<lambda>w. Inr (r, w))) of
        Inl e \<Rightarrow> (Inl e, d)
      | Inr (r, w) \<Rightarrow>
          let stale = (wf_candidate_revision w \<noteq> Some (pq_revision r));
              d1 = upd_proposal rid (\<lambda>r. r\<lparr>pq_status := (if stale then ''STALE'' else ''SUCCEEDED''),
                     pq_pull_number := Some (pv_number v), pq_pull_url := Some (pv_url v),
                     pq_error_code := (if stale then Some ''CandidateRevisionChanged'' else None),
                     pq_completed_at := Some (en_now en 0)\<rparr>) d;
              d2 = audit cf (pq_workflow_id r)
                     (if reconciled then ''git.pull_request_reconciled'' else ''git.pull_request_created'') ''orchestrator''
                     ''pull_request_proposal'' rid (if stale then ''STALE'' else ''SUCCEEDED'')
                     [(''revision'', JStr (pq_revision r)), (''pull_number'', JInt (pv_number v)),
                      (''draft'', JBool (pv_draft v)), (''reconciled'', JBool reconciled)] d1
          in (if stale then Inl (ConflictError ''candidate revision changed during pull-request creation'')
              else Inr (proposal_dict_of cf d2 rid), d2))"

definition propose_pull_request :: "config \<Rightarrow> github_client option \<Rightarrow> env \<Rightarrow> env \<Rightarrow> ident \<Rightarrow> ident \<Rightarrow> string \<Rightarrow> string \<Rightarrow>
    string \<Rightarrow> string \<Rightarrow> db \<Rightarrow> (error + json) \<times> db" where
  "propose_pull_request cf g en en2 workflow_id actor_id head_branch title body idempotency_key d =
     (case start_pull_request cf g en workflow_id actor_id head_branch title body idempotency_key d of
        Inl e \<Rightarrow> (Inl e, d)
      | Inr (Inl replayed, d1) \<Rightarrow> (Inr replayed, d1)
      | Inr (Inr (github, r), d1) \<Rightarrow>
          (case create_draft_pull_request (gc_http github) (gc_jwt github) (gc_policy github) (pq_repository r)
             head_branch (pq_revision r) title body of
             Inl e \<Rightarrow> (Inl e, mark_pull_request_unknown cf en2 (pq_id r) (error_name e) d1)
           | Inr v \<Rightarrow> complete_pull_request cf en2 (pq_id r) v False d1))"

section \<open>Reconciling a proposal\<close>

definition read_proposal :: "config \<Rightarrow> env \<Rightarrow> ident \<Rightarrow> ident \<Rightarrow> ident \<Rightarrow> db \<Rightarrow> error + (json + pull_request_proposal)" where
  "read_proposal cf en workflow_id proposal_id actor_id d =
     ebind (authorize d (en_now en 0) actor_id CAP_RECONCILE_GIT_OPERATION None None False) (\<lambda>_.
     (case row_get pq_id proposal_id (proposals d) of
        None \<Rightarrow> Inl (NotFoundError ''pull-request proposal was not found'')
      | Some r \<Rightarrow>
          if pq_workflow_id r \<noteq> workflow_id then Inl (NotFoundError ''pull-request proposal was not found'')
          else if pq_status r = ''SUCCEEDED'' then Inr (Inl (pull_request_record_dict cf r))
          else Inr (Inr r)))"

definition fail_proposal :: "config \<Rightarrow> env \<Rightarrow> ident \<Rightarrow> ident \<Rightarrow> db \<Rightarrow> error + json \<times> db" where
  "fail_proposal cf en proposal_id actor_id d =
     ebind (from_option (OtherError ''AssertionError'') (row_get pq_id proposal_id (proposals d))) (\<lambda>r.
     let d1 = audit cf (pq_workflow_id r) ''git.pull_request_reconciled'' actor_id ''pull_request_proposal'' proposal_id
                ''FAILED'' [(''revision'', JStr (pq_revision r)), (''remote_match_count'', JInt 0)]
                (upd_proposal proposal_id (\<lambda>r. r\<lparr>pq_status := ''FAILED'',
                   pq_error_code := Some ''RemotePullRequestNotFound'', pq_completed_at := Some (en_now en 0)\<rparr>) d)
     in Inr (proposal_dict_of cf d1 proposal_id, d1))"

definition reconcile_pull_request :: "config \<Rightarrow> github_client option \<Rightarrow> env \<Rightarrow> env \<Rightarrow> ident \<Rightarrow> ident \<Rightarrow> ident \<Rightarrow> db \<Rightarrow>
    (error + json) \<times> db" where
  "reconcile_pull_request cf g en en2 workflow_id proposal_id actor_id d =
     (case ebind (require_github_app g) (\<lambda>github. ebind (read_proposal cf en workflow_id proposal_id actor_id d)
             (\<lambda>x. Inr (github, x))) of
        Inl e \<Rightarrow> (Inl e, d)
      | Inr (github, Inl replayed) \<Rightarrow> (Inr replayed, d)
      | Inr (github, Inr r) \<Rightarrow>
          (case find_pull_requests (gc_http github) (gc_jwt github) (gc_policy github) (pq_repository r) (pq_head_branch r) of
             Inl e \<Rightarrow> (Inl e, d)
           | Inr found \<Rightarrow>
               (case filter (\<lambda>v. pv_head_revision v = pq_revision r \<and> pv_base_branch v = pq_base_branch r) found of
                  [] \<Rightarrow> commit d (fail_proposal cf en2 proposal_id actor_id d)
                | [v] \<Rightarrow> complete_pull_request cf en2 proposal_id v True d
                | _ \<Rightarrow> (Inl (ConflictError ''multiple remote pull requests match the proposal''), d))))"

section \<open>Merge readiness\<close>

definition find_assessment :: "ident \<Rightarrow> string \<Rightarrow> db \<Rightarrow> merge_readiness_assessment option" where
  "find_assessment actor_id key d =
     List.find (\<lambda>r. mr_actor_id r = actor_id \<and> mr_idempotency_key r = key) (assessments d)"

definition new_assessment :: "env \<Rightarrow> github_client \<Rightarrow> ident \<Rightarrow> ident \<Rightarrow> ident \<Rightarrow> string \<Rightarrow> string \<Rightarrow>
    merge_readiness_assessment" where
  "new_assessment en github wid proposal_id actor_id key revision =
     \<lparr>mr_id = en_uuid en 0, mr_workflow_id = wid, mr_proposal_id = proposal_id, mr_actor_id = actor_id,
      mr_idempotency_key = key, mr_revision = revision, mr_status = ''RUNNING'', mr_ready = None, mr_reasons = [],
      mr_checks = [], mr_policy_version = ga_policy_version (gc_policy github), mr_error_code = None,
      mr_created_at = en_now en 1, mr_completed_at = None\<rparr>"

text \<open>\<open>proposal.status != "SUCCEEDED" or proposal.pull_number is None\<close>\<close>

definition confirmed_proposal :: "pull_request_proposal \<Rightarrow> bool" where
  "confirmed_proposal r \<longleftrightarrow> pq_status r = ''SUCCEEDED'' \<and> pq_pull_number r \<noteq> None"

definition start_readiness :: "config \<Rightarrow> github_client option \<Rightarrow> env \<Rightarrow> ident \<Rightarrow> ident \<Rightarrow> ident \<Rightarrow> string \<Rightarrow> db \<Rightarrow>
    error + (json + github_client \<times> pull_request_proposal \<times> merge_readiness_assessment) \<times> db" where
  "start_readiness cf g en workflow_id proposal_id actor_id idempotency_key d =
     ebind (require_github_app g) (\<lambda>github.
     ebind (authorize d (en_now en 0) actor_id CAP_ASSESS_MERGE_READINESS None None False) (\<lambda>_.
     ebind (get_workflow d workflow_id) (\<lambda>w.
     (case row_get pq_id proposal_id (proposals d) of
        None \<Rightarrow> Inl (NotFoundError ''pull-request proposal was not found'')
      | Some r \<Rightarrow>
          if pq_workflow_id r \<noteq> workflow_id then Inl (NotFoundError ''pull-request proposal was not found'')
          else if \<not> confirmed_proposal r then Inl (ConflictError ''pull-request proposal is not confirmed'')
          else if wf_candidate_revision w \<noteq> Some (pq_revision r)
          then Inl (ConflictError ''pull-request proposal revision is stale'')
          else (case find_assessment actor_id idempotency_key d of
              Some existing \<Rightarrow>
                if mr_workflow_id existing \<noteq> workflow_id \<or> mr_proposal_id existing \<noteq> proposal_id \<or>
                   mr_revision existing \<noteq> pq_revision r
                then Inl (ConflictError ''readiness idempotency key was reused'')
                else if mr_status existing = ''SUCCEEDED'' then Inr (Inl (merge_readiness_dict cf existing), d)
                else Inl (ConflictError ''readiness assessment requires a new idempotency key'')
            | None \<Rightarrow>
                let a = new_assessment en github workflow_id proposal_id actor_id idempotency_key (pq_revision r)
                in Inr (Inr (github, r, a), audit cf workflow_id ''git.merge_readiness_requested'' actor_id
                     ''merge_readiness'' (mr_id a) ''STARTED''
                     [(''revision'', JStr (pq_revision r)), (''pull_number'', JInt (the (pq_pull_number r)))]
                     (d\<lparr>assessments := row_add a (assessments d)\<rparr>)))))))"

definition record_merge_readiness :: "config \<Rightarrow> env \<Rightarrow> ident \<Rightarrow> merge_readiness \<Rightarrow> db \<Rightarrow> error + json \<times> db" where
  "record_merge_readiness cf en aid result d =
     ebind (from_option (NotFoundError ''readiness assessment was not found'') (row_get mr_id aid (assessments d))) (\<lambda>a.
     ebind (get_workflow d (mr_workflow_id a)) (\<lambda>w.
     if wf_candidate_revision w \<noteq> Some (me_revision result)
     then Inl (ConflictError ''candidate revision changed during readiness assessment'')
     else
     let d1 = audit cf (mr_workflow_id a) ''git.merge_readiness_assessed'' (mr_actor_id a) ''merge_readiness'' aid
                (if me_ready result then ''SUCCEEDED'' else ''BLOCKED'')
                [(''revision'', JStr (me_revision result)), (''ready'', JBool (me_ready result)),
                 (''reasons'', j_strs (me_reasons result)), (''policy_version'', JStr (me_policy_version result))]
                (upd_assessment aid (\<lambda>a. a\<lparr>mr_status := ''SUCCEEDED'', mr_ready := Some (me_ready result),
                   mr_reasons := me_reasons result, mr_checks := me_checks result,
                   mr_policy_version := me_policy_version result, mr_completed_at := Some (en_now en 0)\<rparr>) d)
     in Inr (case row_get mr_id aid (assessments d1) of None \<Rightarrow> JNull | Some a \<Rightarrow> merge_readiness_dict cf a, d1)))"

definition mark_readiness_failed :: "config \<Rightarrow> env \<Rightarrow> ident \<Rightarrow> string \<Rightarrow> db \<Rightarrow> db" where
  "mark_readiness_failed cf en aid error_code d =
     (case row_get mr_id aid (assessments d) of
        None \<Rightarrow> d
      | Some a \<Rightarrow>
          if mr_status a \<noteq> ''RUNNING'' then d
          else audit cf (mr_workflow_id a) ''git.merge_readiness_failed'' ''orchestrator'' ''merge_readiness'' aid ''FAILED''
            [(''revision'', JStr (mr_revision a)), (''error_code'', JStr (take 64 error_code))]
            (upd_assessment aid (\<lambda>a. a\<lparr>mr_status := ''FAILED'', mr_error_code := Some (take 64 error_code),
               mr_completed_at := Some (en_now en 0)\<rparr>) d))"

definition assess_merge_readiness :: "config \<Rightarrow> github_client option \<Rightarrow> env \<Rightarrow> env \<Rightarrow> ident \<Rightarrow> ident \<Rightarrow> ident \<Rightarrow> string \<Rightarrow>
    db \<Rightarrow> (error + json) \<times> db" where
  "assess_merge_readiness cf g en en2 workflow_id proposal_id actor_id idempotency_key d =
     (case start_readiness cf g en workflow_id proposal_id actor_id idempotency_key d of
        Inl e \<Rightarrow> (Inl e, d)
      | Inr (Inl replayed, d1) \<Rightarrow> (Inr replayed, d1)
      | Inr (Inr (github, r, a), d1) \<Rightarrow>
          (case assess_merge_readiness_gh (gc_http github) (gc_jwt github) (gc_policy github) (pq_repository r)
             (the (pq_pull_number r)) (pq_revision r) of
             Inl e \<Rightarrow> (Inl e, mark_readiness_failed cf en2 (mr_id a) (error_name e) d1)
           | Inr result \<Rightarrow> commit d1 (record_merge_readiness cf en2 (mr_id a) result d1)))"

definition list_pull_request_proposals :: "config \<Rightarrow> env \<Rightarrow> ident \<Rightarrow> ident \<Rightarrow> db \<Rightarrow> error + json list" where
  "list_pull_request_proposals cf en workflow_id principal_id d =
     ebind (authorize d (en_now en 0) principal_id CAP_READ_AUDIT None None False) (\<lambda>_.
     ebind (get_workflow d workflow_id) (\<lambda>_.
     Inr (map (pull_request_record_dict cf) (sort_key pq_created_at
       (filter (\<lambda>r. pq_workflow_id r = workflow_id) (proposals d))))))"

section \<open>Confirming a merge\<close>

definition find_confirmation :: "ident \<Rightarrow> string \<Rightarrow> db \<Rightarrow> merge_confirmation option" where
  "find_confirmation actor_id key d =
     List.find (\<lambda>r. mc_actor_id r = actor_id \<and> mc_idempotency_key r = key) (confirmations d)"

definition new_confirmation :: "env \<Rightarrow> ident \<Rightarrow> ident \<Rightarrow> ident \<Rightarrow> ident \<Rightarrow> string \<Rightarrow> string \<Rightarrow> merge_confirmation" where
  "new_confirmation en wid proposal_id assessment_id actor_id key revision =
     \<lparr>mc_id = en_uuid en 0, mc_workflow_id = wid, mc_proposal_id = proposal_id, mc_assessment_id = assessment_id,
      mc_actor_id = actor_id, mc_idempotency_key = key, mc_revision = revision, mc_status = ''RUNNING'',
      mc_merge_commit_revision = None, mc_error_code = None, mc_created_at = en_now en 1, mc_completed_at = None\<rparr>"

text \<open>The evidence a confirmation needs: a confirmed proposal, a positive readiness assessment and the consumed human
  approval, all for the candidate revision of the workflow.\<close>

definition check_merge_evidence :: "db \<Rightarrow> workflow \<Rightarrow> ident \<Rightarrow> ident \<Rightarrow> error + pull_request_proposal" where
  "check_merge_evidence d w proposal_id assessment_id =
     ebind (from_option (ConflictError ''pull-request proposal is not confirmed'')
       (case row_get pq_id proposal_id (proposals d) of None \<Rightarrow> None
        | Some r \<Rightarrow> if pq_workflow_id r = wf_id w \<and> confirmed_proposal r then Some r else None)) (\<lambda>r.
     ebind (from_option (ConflictError ''successful merge-readiness evidence is required'')
       (case row_get mr_id assessment_id (assessments d) of None \<Rightarrow> None
        | Some a \<Rightarrow> if mr_workflow_id a = wf_id w \<and> mr_proposal_id a = proposal_id \<and> mr_status a = ''SUCCEEDED'' \<and>
            mr_ready a = Some True then Some a else None)) (\<lambda>a.
     if missing (wf_candidate_revision w) \<or> pq_revision r \<noteq> mr_revision a \<or> Some (mr_revision a) \<noteq> wf_candidate_revision w
     then Inl (ConflictError ''merge evidence is stale'')
     else
     ebind (from_option (ConflictError ''consumed human approval evidence is missing'')
       (last_by ap_created_at (\<lambda>p. ap_workflow_id p = wf_id w \<and> ap_action p = AA_MERGE \<and> ap_decision p = AD_APPROVED \<and>
          Some (ap_revision p) = wf_candidate_revision w \<and> ap_policy_version p = wf_policy_version w \<and>
          ap_consumed_at p \<noteq> None) (approvals d))) (\<lambda>_.
     Inr r)))"

definition start_confirmation :: "config \<Rightarrow> github_client option \<Rightarrow> env \<Rightarrow> ident \<Rightarrow> ident \<Rightarrow> ident \<Rightarrow> ident \<Rightarrow> string \<Rightarrow>
    db \<Rightarrow> error + (json + github_client \<times> pull_request_proposal \<times> merge_confirmation) \<times> db" where
  "start_confirmation cf g en workflow_id proposal_id assessment_id actor_id idempotency_key d =
     ebind (require_github_app g) (\<lambda>github.
     ebind (authorize d (en_now en 0) actor_id CAP_CONFIRM_GIT_MERGE None None True) (\<lambda>_.
     ebind (get_workflow d workflow_id) (\<lambda>w.
     if wf_state w = WS_MERGED then
       (case find_confirmation actor_id idempotency_key d of
          Some existing \<Rightarrow> if mc_workflow_id existing = workflow_id
            then Inr (Inl (merge_confirmation_dict cf existing), d)
            else Inl (InvalidTransitionError ''workflow merge was already confirmed'')
        | None \<Rightarrow> Inl (InvalidTransitionError ''workflow merge was already confirmed''))
     else if wf_state w \<noteq> WS_APPROVED
     then Inl (InvalidTransitionError ''workflow lacks exact human merge approval'')
     else
     ebind (check_merge_evidence d w proposal_id assessment_id) (\<lambda>r.
     (case find_confirmation actor_id idempotency_key d of
        Some existing \<Rightarrow>
          if mc_workflow_id existing \<noteq> workflow_id \<or> mc_proposal_id existing \<noteq> proposal_id \<or>
             mc_assessment_id existing \<noteq> assessment_id \<or> Some (mc_revision existing) \<noteq> wf_candidate_revision w
          then Inl (ConflictError ''merge-confirmation idempotency key was reused'')
          else if mc_status existing = ''SUCCEEDED'' then Inr (Inl (merge_confirmation_dict cf existing), d)
          else Inl (ConflictError ''merge confirmation requires a new idempotency key'')
      | None \<Rightarrow>
          let c = new_confirmation en workflow_id proposal_id assessment_id actor_id idempotency_key
                    (the (wf_candidate_revision w))
          in Inr (Inr (github, r, c), audit cf workflow_id ''git.merge_confirmation_requested'' actor_id
               ''merge_confirmation'' (mc_id c) ''STARTED''
               [(''revision'', JStr (pq_revision r)), (''pull_number'', JInt (the (pq_pull_number r)))]
               (d\<lparr>confirmations := row_add c (confirmations d)\<rparr>)))))))"

definition complete_merge_confirmation :: "config \<Rightarrow> env \<Rightarrow> ident \<Rightarrow> merge_confirmed \<Rightarrow> db \<Rightarrow> error + json \<times> db" where
  "complete_merge_confirmation cf en rid result d =
     ebind (from_option (ConflictError ''merge confirmation is not pending'')
       (case row_get mc_id rid (confirmations d) of None \<Rightarrow> None
        | Some c \<Rightarrow> if mc_status c = ''RUNNING'' then Some c else None)) (\<lambda>c.
     ebind (get_workflow d (mc_workflow_id c)) (\<lambda>w.
     ebind (from_option (ConflictError ''pull-request proposal disappeared'')
       (case row_get pq_id (mc_proposal_id c) (proposals d) of None \<Rightarrow> None
        | Some r \<Rightarrow> if pq_pull_number r = None then None else Some r)) (\<lambda>r.
     if wf_state w \<noteq> WS_APPROVED \<or> wf_candidate_revision w \<noteq> Some (mc_revision c) \<or>
        mf_repository result \<noteq> pq_repository r \<or> Some (mf_pull_number result) \<noteq> pq_pull_number r \<or>
        mf_head_revision result \<noteq> mc_revision c \<or> mf_base_branch result \<noteq> pq_base_branch r
     then Inl (ConflictError ''merge confirmation no longer matches the approved workflow'')
     else
     let merged = mf_merge_commit_revision result;
         d1 = upd_workflow (mc_workflow_id c) (\<lambda>w. w\<lparr>wf_merged_revision := Some merged\<rparr>)
                (upd_confirmation rid (\<lambda>c. c\<lparr>mc_status := ''SUCCEEDED'', mc_merge_commit_revision := Some merged,
                   mc_completed_at := Some (en_now en 0)\<rparr>) d)
     in
     ebind (transition cf (mc_workflow_id c) WS_MERGED (mc_actor_id c)
       ''GitHub independently confirmed the protected pull-request merge''
       [(''proposal_id'', JStr (mc_proposal_id c)), (''assessment_id'', JStr (mc_assessment_id c)),
        (''pull_number'', JInt (mf_pull_number result)), (''revision'', JStr (mc_revision c)),
        (''merge_commit_revision'', JStr merged)] d1) (\<lambda>d2.
     let d3 = audit cf (mc_workflow_id c) ''git.merge_confirmed'' (mc_actor_id c) ''merge_confirmation'' rid ''SUCCEEDED''
                [(''revision'', JStr (mc_revision c)), (''merge_commit_revision'', JStr merged)] d2
     in Inr (case row_get mc_id rid (confirmations d3) of None \<Rightarrow> JNull | Some c \<Rightarrow> merge_confirmation_dict cf c, d3)))))"

definition mark_merge_confirmation_failed :: "config \<Rightarrow> env \<Rightarrow> ident \<Rightarrow> string \<Rightarrow> db \<Rightarrow> db" where
  "mark_merge_confirmation_failed cf en rid error_code d =
     (case row_get mc_id rid (confirmations d) of
        None \<Rightarrow> d
      | Some c \<Rightarrow>
          if mc_status c \<noteq> ''RUNNING'' then d
          else audit cf (mc_workflow_id c) ''git.merge_confirmation_failed'' (mc_actor_id c) ''merge_confirmation'' rid ''FAILED''
            [(''revision'', JStr (mc_revision c)), (''error_code'', JStr (take 64 error_code))]
            (upd_confirmation rid (\<lambda>c. c\<lparr>mc_status := ''FAILED'', mc_error_code := Some (take 64 error_code),
               mc_completed_at := Some (en_now en 1)\<rparr>) d))"

text \<open>What follows the call to GitHub, for its answer.\<close>

definition settle_confirmation :: "config \<Rightarrow> env \<Rightarrow> ident \<Rightarrow> error + merge_confirmed \<Rightarrow> db \<Rightarrow> (error + json) \<times> db" where
  "settle_confirmation cf en rid answer d =
     (case answer of
        Inl e \<Rightarrow> (Inl e, mark_merge_confirmation_failed cf en rid (error_name e) d)
      | Inr result \<Rightarrow>
          (case complete_merge_confirmation cf en rid result d of
             Inl e \<Rightarrow> (Inl e, mark_merge_confirmation_failed cf en rid (error_name e) d)
           | Inr (r, d1) \<Rightarrow> (Inr r, d1)))"

definition confirm_pull_request_merged :: "config \<Rightarrow> github_client option \<Rightarrow> env \<Rightarrow> env \<Rightarrow> ident \<Rightarrow> ident \<Rightarrow> ident \<Rightarrow>
    ident \<Rightarrow> string \<Rightarrow> db \<Rightarrow> (error + json) \<times> db" where
  "confirm_pull_request_merged cf g en en2 workflow_id proposal_id assessment_id actor_id idempotency_key d =
     (case start_confirmation cf g en workflow_id proposal_id assessment_id actor_id idempotency_key d of
        Inl e \<Rightarrow> (Inl e, d)
      | Inr (Inl replayed, d1) \<Rightarrow> (Inr replayed, d1)
      | Inr (Inr (github, r, c), d1) \<Rightarrow> settle_confirmation cf en2 (mc_id c)
          (confirm_pull_request_merged_gh (gc_http github) (gc_jwt github) (gc_policy github) (pq_repository r)
             (the (pq_pull_number r)) (pq_revision r)) d1)"

definition list_merge_confirmations :: "config \<Rightarrow> env \<Rightarrow> ident \<Rightarrow> ident \<Rightarrow> db \<Rightarrow> error + json list" where
  "list_merge_confirmations cf en workflow_id principal_id d =
     ebind (authorize d (en_now en 0) principal_id CAP_READ_AUDIT None None False) (\<lambda>_.
     ebind (get_workflow d workflow_id) (\<lambda>_.
     Inr (map (merge_confirmation_dict cf) (sort_key mc_created_at
       (filter (\<lambda>r. mc_workflow_id r = workflow_id) (confirmations d))))))"

end
