(* ===== verification/Delivery_Effects.thy ===== *)
theory Delivery_Effects
  imports Workflow_Service Deployment_Recovery Pull_Requests
begin

text \<open>
  What the handlers of the pull-request and deployment services read and write, one inversion lemma per
  transaction: which rows they found, which tables they changed, and that they touch a workflow only by
  delivering it (a move to MERGED or later that keeps the candidate).
\<close>

section \<open>Shapes of change\<close>

text \<open>Nothing the invariants speak of changes.\<close>

definition inert :: "db \<Rightarrow> db \<Rightarrow> bool" where
  "inert d d' \<longleftrightarrow> workflows d' = workflows d \<and> tasks d' = tasks d \<and> attempts d' = attempts d \<and>
     approvals d' = approvals d \<and> principals d' = principals d \<and> same_outer d d'"

text \<open>The workflows, the tasks and who is known stay; the rest is described separately.\<close>

definition core_kept :: "db \<Rightarrow> db \<Rightarrow> bool" where
  "core_kept d d' \<longleftrightarrow> workflows d' = workflows d \<and> tasks d' = tasks d \<and> attempts d' = attempts d \<and>
     principals d' = principals d"

text \<open>One workflow is moved to a delivered state \<open>s\<close>; \<open>f\<close> is what else changes in its row.\<close>

definition delivers :: "ident \<Rightarrow> workflow_state \<Rightarrow> (workflow \<Rightarrow> workflow) \<Rightarrow> db \<Rightarrow> db \<Rightarrow> bool" where
  "delivers wid s f d d' \<longleftrightarrow> delivered s \<and>
     (\<exists>w n. row_get wf_id wid (workflows d) = Some w \<and> s \<in> ALLOWED_TRANSITIONS (wf_state w) \<and>
        workflows d' = row_upd wf_id wid (\<lambda>x. (f x)\<lparr>wf_state := s, wf_version := n\<rparr>) (workflows d)) \<and>
     tasks d' = tasks d \<and> attempts d' = attempts d \<and> principals d' = principals d"

definition plain :: "(workflow \<Rightarrow> workflow) \<Rightarrow> bool" where
  "plain f \<longleftrightarrow> (\<forall>x. wf_id (f x) = wf_id x \<and> wf_state (f x) = wf_state x \<and>
     wf_candidate_revision (f x) = wf_candidate_revision x)"

lemma plain_id [simp]: "plain (\<lambda>x. x)" "plain (\<lambda>x. x\<lparr>wf_merged_revision := r\<rparr>)"
  by (simp_all add: plain_def)

lemma delivers_step:
  assumes "db_ok d" "delivers wid s f d d'" "plain f"
  shows "wf_step Ev_deliver wid d d'"
proof -
  obtain w n where w: "row_get wf_id wid (workflows d) = Some w" "s \<in> ALLOWED_TRANSITIONS (wf_state w)"
    "workflows d' = row_upd wf_id wid (\<lambda>x. (f x)\<lparr>wf_state := s, wf_version := n\<rparr>) (workflows d)"
    and r: "delivered s" "tasks d' = tasks d"
    using assms(2) by (auto simp: delivers_def)
  show ?thesis
    by (rule deliver_stepI [OF assms(1) w(1) _ _ _ _ w(3) r(2)]) (use assms(3) w(2) r(1) in \<open>simp_all add: plain_def\<close>)
qed

text \<open>Tables the audit log and a transition do not touch.\<close>

lemma transition_delivers:
  assumes "transition cf wid s ac re ex d = Inr d'" "delivered s"
  shows "delivers wid s (\<lambda>x. x) d d'"
  using assms(2) transition_frame [OF assms(1)]
  by (auto simp: delivers_def intro: transition_Inr [OF assms(1)])

section \<open>Operations that touch none of it\<close>

lemma start_pull_request_inert:
  "start_pull_request cf g en wid actor hb title body key d = Inr (x, d') \<Longrightarrow> inert d d'"
  by (auto simp: start_pull_request_def tx_simps Let_def inert_def split: option.splits if_splits)

lemma mark_pull_request_unknown_inert: "inert d (mark_pull_request_unknown cf en rid c d)"
  by (auto simp: mark_pull_request_unknown_def inert_def split: option.splits)

lemma complete_pull_request_inert: "inert d (snd (complete_pull_request cf en rid v rec d))"
  by (auto simp: complete_pull_request_def inert_def Let_def split: sum.splits)

lemma fail_proposal_inert: "fail_proposal cf en pid actor d = Inr (r, d') \<Longrightarrow> inert d d'"
  by (auto simp: fail_proposal_def tx_simps Let_def inert_def)

lemma start_readiness_inert: "start_readiness cf g en wid pid actor key d = Inr (x, d') \<Longrightarrow> inert d d'"
  by (auto simp: start_readiness_def tx_simps Let_def inert_def split: option.splits if_splits)

lemma record_merge_readiness_inert: "record_merge_readiness cf en aid res d = Inr (r, d') \<Longrightarrow> inert d d'"
  by (auto simp: record_merge_readiness_def tx_simps Let_def inert_def)

lemma mark_readiness_failed_inert: "inert d (mark_readiness_failed cf en aid c d)"
  by (auto simp: mark_readiness_failed_def inert_def split: option.splits)

lemma ingest_ci_inert: "ingest_ci_check_evidence cf en actor did c pd d = Inr (r, d') \<Longrightarrow> inert d d'"
  by (auto simp: ingest_ci_check_evidence_def tx_simps Let_def inert_def split: option.splits list.splits if_splits)

section \<open>Confirming a merge\<close>

abbreviation but_confirmations :: "db \<Rightarrow> db \<Rightarrow> bool" where
  "but_confirmations d d' \<equiv> approvals d' = approvals d \<and> environments d' = environments d \<and> plans d' = plans d \<and>
     deployments d' = deployments d \<and> rollbacks d' = rollbacks d"

definition pending :: "db \<Rightarrow> ident \<Rightarrow> merge_confirmation \<Rightarrow> bool" where
  "pending d rid c \<longleftrightarrow> row_get mc_id rid (confirmations d) = Some c \<and> mc_status c = ''RUNNING''"

lemma start_confirmation_effect:
  assumes "start_confirmation cf g en wid pid aid actor key d = Inr (x, d')"
  shows "inert d d' \<or> (core_kept d d' \<and> but_confirmations d d' \<and>
    (\<exists>c. confirmations d' = confirmations d @ [c] \<and> mc_id c = en_uuid en 0))"
proof -
  have "inert d d" by (simp add: inert_def)
  moreover have "mc_id (new_confirmation en wid pid aid actor key rev) = en_uuid en 0" for rev
    by (simp add: new_confirmation_def)
  ultimately show ?thesis
    using assms
    by (auto simp: start_confirmation_def tx_simps Let_def core_kept_def row_add_def split: option.splits if_splits)
qed

lemma complete_merge_confirmation_effect:
  assumes "complete_merge_confirmation cf en rid res d = Inr (r, d')"
  obtains c w m where "pending d rid c" "row_get wf_id (mc_workflow_id c) (workflows d) = Some w"
    "wf_candidate_revision w = Some (mc_revision c)" "m = mf_merge_commit_revision res"
    "delivers (mc_workflow_id c) WS_MERGED (\<lambda>w. w\<lparr>wf_merged_revision := Some m\<rparr>) d d'" "but_confirmations d d'"
    "confirmations d' = row_upd mc_id rid (\<lambda>c. c\<lparr>mc_status := ''SUCCEEDED'', mc_merge_commit_revision := Some m,
       mc_completed_at := Some (en_now en 0)\<rparr>) (confirmations d)"
proof -
  define m where "m = mf_merge_commit_revision res"
  obtain c w where c: "pending d rid c" "row_get wf_id (mc_workflow_id c) (workflows d) = Some w"
      "wf_candidate_revision w = Some (mc_revision c)"
    using assms by (auto simp: complete_merge_confirmation_def tx_simps pending_def Let_def split: option.splits if_splits)
  define f where "f = (\<lambda>w. w\<lparr>wf_merged_revision := Some m\<rparr> :: workflow)"
  obtain d1 d2 re ex where tr: "transition cf (mc_workflow_id c) WS_MERGED (mc_actor_id c) re ex d1 = Inr d2"
    and d1: "d1 = upd_workflow (mc_workflow_id c) f (upd_confirmation rid (\<lambda>c. c\<lparr>mc_status := ''SUCCEEDED'',
         mc_merge_commit_revision := Some m, mc_completed_at := Some (en_now en 0)\<rparr>) d)"
    and d': "workflows d' = workflows d2" "tasks d' = tasks d2" "attempts d' = attempts d2" "principals d' = principals d2"
      "but_confirmations d2 d'" "confirmations d' = confirmations d2"
    using assms c(1) by (auto simp: complete_merge_confirmation_def tx_simps Let_def pending_def f_def m_def
        split: option.splits if_splits)
  note fr = transition_frame [OF tr]
  have id: "wf_id (f x) = wf_id x" for x by (simp add: f_def)
  have get: "row_get wf_id (mc_workflow_id c) (workflows d1) = Some (f w)"
    unfolding d1 using c(2) id by (simp add: row.get_upd)
  obtain n where al: "WS_MERGED \<in> ALLOWED_TRANSITIONS (wf_state w)"
    and wfs: "workflows d2 = row_upd wf_id (mc_workflow_id c) (\<lambda>x. x\<lparr>wf_state := WS_MERGED, wf_version := n\<rparr>) (workflows d1)"
    using get by (auto simp: f_def intro: transition_Inr [OF tr])
  have "workflows d' = row_upd wf_id (mc_workflow_id c) (\<lambda>x. (f x)\<lparr>wf_state := WS_MERGED, wf_version := n\<rparr>) (workflows d)"
    unfolding d'(1) wfs d1 using id by (simp add: row_upd_comp)
  then have "delivers (mc_workflow_id c) WS_MERGED f d d'"
    using al c(2) d' fr d1 unfolding delivers_def by (auto simp: delivered_def)
  then show thesis using that [OF c m_def] d' fr d1 by (simp add: f_def)
qed

lemma mark_merge_confirmation_failed_effect:
  "inert d (mark_merge_confirmation_failed cf en rid code d) \<or>
   (\<exists>c f. pending d rid c \<and> core_kept d (mark_merge_confirmation_failed cf en rid code d) \<and>
      but_confirmations d (mark_merge_confirmation_failed cf en rid code d) \<and> (\<forall>x. mc_id (f x) = mc_id x \<and> mc_status (f x) = ''FAILED'') \<and>
      confirmations (mark_merge_confirmation_failed cf en rid code d) = row_upd mc_id rid f (confirmations d))"
proof (cases "\<exists>c. pending d rid c")
  case True
  then obtain c where c: "pending d rid c" by blast
  let ?f = "\<lambda>c. c\<lparr>mc_status := ''FAILED'', mc_error_code := Some (take 64 code), mc_completed_at := Some (en_now en 1)\<rparr>"
  have "confirmations (mark_merge_confirmation_failed cf en rid code d) = row_upd mc_id rid ?f (confirmations d)"
    using c by (simp add: mark_merge_confirmation_failed_def pending_def)
  then show ?thesis using c
    by (intro disjI2 exI [of _ c] exI [of _ ?f])
      (simp add: mark_merge_confirmation_failed_def pending_def core_kept_def)
next
  case False
  then show ?thesis by (auto simp: mark_merge_confirmation_failed_def pending_def inert_def split: option.splits)
qed

section \<open>Environments and plans\<close>

text \<open>The shape of a registered environment: what the boundary checks leave of its fields.\<close>

definition bounded_items :: "string list \<Rightarrow> bool" where
  "bounded_items xs \<longleftrightarrow> length xs \<le> 100 \<and> distinct xs \<and> (\<forall>x\<in>set xs. strip x \<noteq> [] \<and> length x \<le> 256)"

definition environment_wf :: "deployment_environment \<Rightarrow> bool" where
  "environment_wf e \<longleftrightarrow> de_id e \<noteq> [] \<and> length (de_id e) \<le> 128 \<and>
     set (de_id e) \<subseteq> set ''abcdefghijklmnopqrstuvwxyz0123456789._-'' \<and>
     de_name e \<noteq> [] \<and> de_repository e \<noteq> [] \<and> de_base_branch e \<noteq> [] \<and> de_policy_version e \<noteq> [] \<and> de_rollback_policy e \<noteq> [] \<and>
     bounded_items (de_resource_scope e) \<and> sorted (de_resource_scope e) \<and>
     bounded_items (de_required_checks e) \<and> sorted (de_required_checks e) \<and>
     bounded_items (de_required_attestations e) \<and> sorted (de_required_attestations e) \<and>
     bounded_items (de_verification_policy e) \<and> de_classification e \<noteq> EC_PRODUCTION"

lemma bounded_sorted_set: "\<not> bad_items xs \<Longrightarrow> bounded_items (sorted_set xs)"
  using order_trans [OF sorted_set_facts(4) [of xs], of 100]
  by (auto simp: bad_items_def bounded_items_def list_ex_iff not_less)

lemma strip_subset: "set (strip s) \<subseteq> set s" "length (strip s) \<le> length s"
proof -
  show "set (strip s) \<subseteq> set s" by (auto simp: strip_def dest!: set_dropWhileD)
  have "length (dropWhile is_space (rev (dropWhile is_space s))) \<le> length (rev (dropWhile is_space s))"
    by (rule length_dropWhile_le)
  also have "\<dots> \<le> length s" by (simp add: length_dropWhile_le)
  finally show "length (strip s) \<le> length s" by (simp add: strip_def)
qed

lemma check_environment_wf:
  assumes "check_environment dc sp = Inr ()"
  shows "environment_wf (environment_values en actor sp x)"
proof -
  have c: "\<not> list_ex (\<lambda>v. strip v = []) [sp_environment_id sp, sp_name sp, sp_repository sp, sp_base_branch sp,
           sp_policy_version sp, sp_rollback_policy sp]"
    "length (sp_environment_id sp) \<le> 128" "list_all environment_id_char (sp_environment_id sp)"
    "\<not> list_ex bad_items [sp_resource_scope sp, sp_required_checks sp, sp_required_attestations sp, sp_verification_policy sp]"
    "distinct (sp_verification_policy sp)" "sp_classification sp \<noteq> EC_PRODUCTION"
    using assms by (auto simp: check_environment_def list_all_iff list_ex_iff split: if_splits)
  have id: "set (strip (sp_environment_id sp)) \<subseteq> set ''abcdefghijklmnopqrstuvwxyz0123456789._-''"
    using c(3) strip_subset(1) [of "sp_environment_id sp"] unfolding list_all_iff environment_id_char_def by blast
  have "bounded_items (sp_verification_policy sp)"
    using c(4,5) by (auto simp: bad_items_def bounded_items_def list_ex_iff not_less)
  then show ?thesis
    using c id strip_subset(2) [of "sp_environment_id sp"] bounded_sorted_set
    by (simp add: environment_wf_def environment_values_def)
qed

lemma register_effect:
  assumes "register_deployment_environment cf dc en actor sp d = Inr (r, d')"
  shows "inert d d' \<or> (\<exists>e. d' = d\<lparr>environments := environments d @ [e]\<rparr> \<and> environment_wf e)"
proof -
  have "check_environment dc sp = Inr ()"
    using assms by (auto simp: register_deployment_environment_def tx_simps)
  from check_environment_wf [OF this] show ?thesis
    using assms
    by (auto simp: register_deployment_environment_def tx_simps Let_def row_add_def inert_def split: option.splits)
qed

text \<open>The shape of a plan.\<close>

definition plan_wf :: "deployment_plan_record \<Rightarrow> bool" where
  "plan_wf p \<longleftrightarrow> dp_artifact_digests p \<noteq> [] \<and> distinct (dp_artifact_digests p) \<and> sorted (dp_artifact_digests p) \<and>
     list_all is_sha256_digest (dp_artifact_digests p) \<and> length (dp_artifact_digests p) \<le> 100 \<and>
     dp_operations p \<noteq> [] \<and> length (dp_operations p) \<le> 100 \<and>
     dp_verification_probes p \<noteq> [] \<and> length (dp_verification_probes p) \<le> 100 \<and>
     dp_declared_impact p \<noteq> [] \<and> dp_rollback_reference p \<noteq> [] \<and> dp_digest p = dp_request_digest p"

lemma sort_Nil_iff [simp]: "sort xs = [] \<longleftrightarrow> xs = []"
  by (metis length_0_conv length_sort)

lemma check_plan_request_wf: "check_plan_request ps = Inr () \<Longrightarrow> plan_wf (new_plan en wid actor e revision rd ps)"
  by (auto simp: check_plan_request_def plan_wf_def new_plan_def list_all_iff list_ex_iff not_less split: if_splits)

lemma check_new_plan_Inr:
  assumes "check_new_plan w e ps = Inr revision"
  shows "wf_state w = WS_MERGED" "wf_merged_revision w = Some revision"
    "(\<lambda>operation. strip (str_get operation ''resource_id'')) ` set (ps_operations ps) \<subseteq> set (de_resource_scope e)"
    "set (ps_verification_probes ps) \<subseteq> set (de_verification_policy e)"
    "strip (ps_rollback_reference ps) = de_rollback_policy e"
  using assms by (auto simp: check_new_plan_def split: option.splits if_splits)

lemma active_environment_Some:
  assumes "active_environment i d = Some e"
  shows "e \<in> set (environments d)" "de_id e = i"
  using assms row.get_SomeD [of de_id i "environments d" e] by (auto simp: active_environment_def split: option.splits if_splits)

text \<open>The plan \<open>p\<close> is added, for the workflow \<open>w\<close> and the environment \<open>e\<close>.\<close>

definition adds_plan :: "workflow \<Rightarrow> deployment_environment \<Rightarrow> deployment_plan_record \<Rightarrow> db \<Rightarrow> db \<Rightarrow> bool" where
  "adds_plan w e p d d' \<longleftrightarrow> row_get wf_id (dp_workflow_id p) (workflows d) = Some w \<and> wf_state w = WS_MERGED \<and> plan_wf p \<and>
     wf_merged_revision w = Some (dp_revision p) \<and> e \<in> set (environments d) \<and> de_id e = dp_environment_id p \<and>
     (\<lambda>operation. strip (str_get operation ''resource_id'')) ` set (dp_operations p) \<subseteq> set (de_resource_scope e) \<and>
     set (dp_verification_probes p) \<subseteq> set (de_verification_policy e) \<and> dp_rollback_reference p = de_rollback_policy e \<and>
     delivers (dp_workflow_id p) WS_AWAITING_DEPLOYMENT_APPROVAL (\<lambda>x. x) d d' \<and> plans d' = plans d @ [p] \<and>
     approvals d' = approvals d \<and> environments d' = environments d \<and> deployments d' = deployments d \<and>
     rollbacks d' = rollbacks d \<and> confirmations d' = confirmations d"

lemma create_plan_effect:
  assumes "create_deployment_plan cf dc en wid actor ps d = Inr (r, d')"
  shows "d' = d \<or> (\<exists>w e p. adds_plan w e p d d' \<and> dp_id p = en_uuid en 0)"
proof (cases "d' = d")
  case False
  then obtain w e revision rd ex where w: "row_get wf_id wid (workflows d) = Some w" "check_new_plan w e ps = Inr revision"
      "active_environment (ps_environment_id ps) d = Some e" "check_plan_request ps = Inr ()"
    and tr: "transition cf wid WS_AWAITING_DEPLOYMENT_APPROVAL actor
      ''immutable deployment plan created for confirmed merge revision'' ex
      (d\<lparr>plans := row_add (new_plan en wid actor e revision rd ps) (plans d)\<rparr>) = Inr d'"
    using assms
    by (auto simp: create_deployment_plan_def tx_simps Let_def split: option.splits if_splits)
  define p where "p = new_plan en wid actor e revision rd ps"
  have p: "dp_workflow_id p = wid" "dp_revision p = revision" "dp_environment_id p = ps_environment_id ps"
    "dp_operations p = ps_operations ps" "dp_verification_probes p = ps_verification_probes ps"
    "dp_rollback_reference p = strip (ps_rollback_reference ps)"
    by (simp_all add: p_def new_plan_def)
  have "delivers wid WS_AWAITING_DEPLOYMENT_APPROVAL (\<lambda>x. x) (d\<lparr>plans := row_add p (plans d)\<rparr>) d'"
    unfolding p_def by (rule transition_delivers [OF tr]) (simp add: delivered_def)
  then have "delivers wid WS_AWAITING_DEPLOYMENT_APPROVAL (\<lambda>x. x) d d'" by (simp add: delivers_def)
  then have "adds_plan w e p d d'"
    using transition_frame [OF tr, folded p_def] w(1) check_new_plan_Inr [OF w(2)] active_environment_Some [OF w(3)]
      check_plan_request_wf [OF w(4), of en wid actor e revision rd, folded p_def]
    by (simp add: adds_plan_def p row_add_def)
  moreover have "dp_id p = en_uuid en 0" by (simp add: p_def new_plan_def)
  ultimately show ?thesis by blast
qed simp

section \<open>Starting an execution\<close>

text \<open>An attempt \<open>a\<close> is on record, backed by the approval \<open>ap\<close> for the plan \<open>p\<close>, which it consumed.\<close>

definition begins :: "env \<Rightarrow> bool \<Rightarrow> started \<Rightarrow> approval \<Rightarrow> deployment_plan_record \<Rightarrow> deployment_attempt_record \<Rightarrow> db \<Rightarrow> db \<Rightarrow> bool" where
  "begins en simulated st ap p a d d' \<longleftrightarrow>
     ap \<in> set (approvals d) \<and> ap_consumed_at ap = None \<and> en_now en 1 < ap_expires_at ap \<and> ap_action ap = AA_DEPLOY \<and>
     ap_decision ap = AD_APPROVED \<and> ap_workflow_id ap = da_workflow_id a \<and> ap_plan_digest ap = Some (dp_digest p) \<and>
     ap_environment_id ap = Some (dp_environment_id p) \<and> ap_revision ap = dp_revision p \<and>
     p \<in> set (plans d) \<and> dp_id p = da_plan_id a \<and> dp_workflow_id p = da_workflow_id a \<and>
     da_id a = en_uuid en 0 \<and> da_approval_id a = ap_id ap \<and> da_status a = DS_RUNNING \<and> da_simulated a = simulated \<and>
     st_attempt_id st = da_id a \<and> st_workflow_id st = da_workflow_id a \<and> st_plan st = deployment_plan_value p \<and>
     core_kept d d' \<and> deployments d' = deployments d @ [a] \<and> environments d' = environments d \<and> plans d' = plans d \<and>
     rollbacks d' = rollbacks d \<and> confirmations d' = confirmations d \<and>
     approvals d' = row_upd ap_id (ap_id ap) (\<lambda>x. x\<lparr>ap_consumed_at := Some (en_now en 3)\<rparr>) (approvals d)"

lemma commit_intent_frame:
  "core_kept d (commit_intent cf en actor a ev pl d)" "deployments (commit_intent cf en actor a ev pl d) = deployments d @ [a]"
  "environments (commit_intent cf en actor a ev pl d) = environments d" "plans (commit_intent cf en actor a ev pl d) = plans d"
  "rollbacks (commit_intent cf en actor a ev pl d) = rollbacks d"
  "confirmations (commit_intent cf en actor a ev pl d) = confirmations d"
  "approvals (commit_intent cf en actor a ev pl d) =
     row_upd ap_id (da_approval_id a) (\<lambda>x. x\<lparr>ap_consumed_at := Some (en_now en 3)\<rparr>) (approvals d)"
  by (simp_all add: commit_intent_def consume_approval_def core_kept_def row_add_def)

lemma new_deployment_simps [simp]:
  "da_id (new_deployment en w p ap ac k rd ad sim) = en_uuid en 0" "da_workflow_id (new_deployment en w p ap ac k rd ad sim) = w"
  "da_plan_id (new_deployment en w p ap ac k rd ad sim) = p" "da_approval_id (new_deployment en w p ap ac k rd ad sim) = ap"
  "da_status (new_deployment en w p ap ac k rd ad sim) = DS_RUNNING" "da_simulated (new_deployment en w p ap ac k rd ad sim) = sim"
  by (simp_all add: new_deployment_def)

lemma require_approval_Inr: "require_approval what now x = Inr a \<longleftrightarrow> x = Some a \<and> now < ap_expires_at a"
  by (auto simp: require_approval_def split: option.splits)

lemma workflow_plan_Inr:
  "workflow_plan d wid pid = Inr p \<longleftrightarrow> row_get dp_id pid (plans d) = Some p \<and> dp_workflow_id p = wid"
  by (auto simp: workflow_plan_def split: option.splits)

lemma beginsI:
  assumes "row_get dp_id pid (plans d) = Some p" "dp_workflow_id p = wid" "de_id e = dp_environment_id p"
    "deploy_approval d wid e p = Some ap" "en_now en 1 < ap_expires_at ap"
  shows "begins en sim \<lparr>st_workflow_id = wid, st_attempt_id = en_uuid en 0, st_plan = deployment_plan_value p\<rparr> ap p
    (new_deployment en wid pid (ap_id ap) actor key rd adid sim) d
    (commit_intent cf en actor (new_deployment en wid pid (ap_id ap) actor key rd adid sim) ev pl d)"
  using last_by_SomeD [OF assms(4) [unfolded deploy_approval_def]] row.get_SomeD [OF assms(1)] assms(2,3,5)
  by (auto simp: begins_def commit_intent_frame)

lemma start_dry_run_effect:
  assumes "start_dry_run cf dc en wid pid actor key d = Inr (x, d')"
  shows "(\<exists>j. x = Inl j \<and> d' = d) \<or> (\<exists>st ad ap p a. x = Inr (st, ad) \<and> begins en True st ap p a d d')"
proof (cases "find_deployment actor key d")
  case (Some e)
  then show ?thesis using assms by (auto simp: start_dry_run_def tx_simps Let_def)
next
  case None
  then obtain p e ad ap where p: "row_get dp_id pid (plans d) = Some p" "dp_workflow_id p = wid"
      "active_environment (dp_environment_id p) d = Some e" "dc_adapters dc (de_adapter_id e) = Some ad"
    and ap: "deploy_approval d wid e p = Some ap" "en_now en 1 < ap_expires_at ap"
    using assms by (auto simp: start_dry_run_def tx_simps Let_def require_approval_Inr workflow_plan_Inr
        split: option.splits)
  have x: "x = Inr (\<lparr>st_workflow_id = wid, st_attempt_id = en_uuid en 0, st_plan = deployment_plan_value p\<rparr>, ad) \<and>
      (\<exists>rd ev pl. d' = commit_intent cf en actor (new_deployment en wid pid (ap_id ap) actor key rd (ad_adapter_id ad) True) ev pl d)"
    using assms None p ap unfolding start_dry_run_def Let_def tx_simps
    by (auto simp: require_approval_Inr workflow_plan_Inr tx_simps split: option.splits)
  have "de_id e = dp_environment_id p"
    using p(3) by (auto simp: active_environment_def split: option.splits if_splits intro: row.get_key)
  then show ?thesis using beginsI [OF p(1,2) _ ap] x by blast
qed

lemma local_environment_Inr:
  "local_environment what i d = Inr e \<longleftrightarrow> row_get de_id i (environments d) = Some e \<and> local_target e"
  by (auto simp: local_environment_def split: option.splits)

lemma start_local_deployment_effect:
  assumes "start_local_deployment cf dc en wid pid actor key d = Inr (x, d')"
  shows "(\<exists>j. x = Inl j \<and> d' = d) \<or> (\<exists>st ad ap p a e. x = Inr (st, ad) \<and> begins en False st ap p a d d' \<and>
    e \<in> set (environments d) \<and> de_id e = dp_environment_id p \<and> local_target e)"
proof (cases "find_deployment actor key d")
  case (Some e)
  then show ?thesis using assms by (auto simp: start_local_deployment_def tx_simps Let_def)
next
  case None
  then obtain p e ad ap where p: "row_get dp_id pid (plans d) = Some p" "dp_workflow_id p = wid"
      "row_get de_id (dp_environment_id p) (environments d) = Some e" "local_target e"
      "dc_adapters dc (de_adapter_id e) = Some ad"
    and ap: "deploy_approval d wid e p = Some ap" "en_now en 1 < ap_expires_at ap"
    using assms by (auto simp: start_local_deployment_def tx_simps Let_def require_approval_Inr workflow_plan_Inr
        local_environment_Inr split: option.splits)
  have x: "x = Inr (\<lparr>st_workflow_id = wid, st_attempt_id = en_uuid en 0, st_plan = deployment_plan_value p\<rparr>, ad) \<and>
      (\<exists>rd ev pl. d' = commit_intent cf en actor (new_deployment en wid pid (ap_id ap) actor key rd (ad_adapter_id ad) False) ev pl d)"
    using assms None p ap unfolding start_local_deployment_def Let_def tx_simps
    by (auto simp: require_approval_Inr workflow_plan_Inr local_environment_Inr tx_simps split: option.splits)
  show ?thesis using beginsI [OF p(1,2) _ ap] x row.get_SomeD [OF p(3)] p(4) by blast
qed

section \<open>Recording the outcome of an execution\<close>

text \<open>The running attempt \<open>aid\<close> is closed by \<open>f\<close>, and its workflow moves to \<open>s\<close>, if anywhere.\<close>

definition settles :: "ident \<Rightarrow> (deployment_attempt_record \<Rightarrow> deployment_attempt_record) \<Rightarrow> workflow_state option \<Rightarrow> bool" where
  "settles aid f s \<longleftrightarrow> s \<in> {None, Some WS_DEPLOYED, Some WS_ROLLBACK_REQUIRED} \<and>
     (\<forall>x. da_id (f x) = da_id x \<and> da_workflow_id (f x) = da_workflow_id x \<and> da_plan_id (f x) = da_plan_id x \<and>
        da_approval_id (f x) = da_approval_id x \<and> da_status (f x) \<noteq> DS_RUNNING \<and>
        (s = Some WS_DEPLOYED \<longrightarrow> da_status (f x) = DS_SUCCEEDED) \<and>
        (s = Some WS_ROLLBACK_REQUIRED \<longrightarrow> da_status (f x) = DS_ROLLBACK_REQUIRED))"

definition closes :: "bool \<Rightarrow> ident \<Rightarrow> ident \<Rightarrow> db \<Rightarrow> db \<Rightarrow> bool" where
  "closes local aid wid d d' \<longleftrightarrow> (\<exists>a f s. running_deployment d aid = Some a \<and> settles aid f s \<and>
     (if local then \<forall>x. da_simulated (f x) = da_simulated x else s \<noteq> Some WS_DEPLOYED) \<and>
     deployments d' = row_upd da_id aid f (deployments d) \<and> approvals d' = approvals d \<and>
     environments d' = environments d \<and> plans d' = plans d \<and> rollbacks d' = rollbacks d \<and>
     confirmations d' = confirmations d \<and>
     (case s of None \<Rightarrow> core_kept d d' | Some ws \<Rightarrow> delivers wid ws (\<lambda>x. x) d d'))"

lemma delivers_after:
  assumes "transition cf wid s ac re ex d1 = Inr d2" "delivered s" "core_kept d d1" "core_kept d2 d'"
  shows "delivers wid s (\<lambda>x. x) d d'"
  using transition_delivers [OF assms(1,2)] assms(3,4) by (simp add: delivers_def core_kept_def)

text \<open>The rows a recording transaction writes before it moves the workflow (\<open>d1\<close>) and after (\<open>d'\<close>).\<close>

definition records :: "ident \<Rightarrow> (deployment_attempt_record \<Rightarrow> deployment_attempt_record) \<Rightarrow> db \<Rightarrow> db \<Rightarrow> bool" where
  "records aid f d d1 \<longleftrightarrow> core_kept d d1 \<and> deployments d1 = row_upd da_id aid f (deployments d) \<and>
     approvals d1 = approvals d \<and> environments d1 = environments d \<and> plans d1 = plans d \<and> rollbacks d1 = rollbacks d \<and>
     confirmations d1 = confirmations d"

lemma records_upd [simp]:
  "records aid f d (add_verification wid i v (upd_deployment aid f d))" "records aid f d (upd_deployment aid f d)"
  "records aid f d (audit cf wid ev ac rt ri oc pl (upd_deployment aid f d))"
  by (simp_all add: records_def add_verification_def core_kept_def)

lemma closes_stay:
  assumes "running_deployment d aid = Some a" "settles aid f None" "local \<Longrightarrow> \<forall>x. da_simulated (f x) = da_simulated x"
    "records aid f d d1" "d' = audit cf wid ev ac rt ri oc pl d1"
  shows "closes local aid wid' d d'"
  unfolding closes_def using assms
  by (intro exI [of _ a] exI [of _ f] exI [of _ None]) (simp add: records_def core_kept_def)

lemma closes_move:
  assumes "running_deployment d aid = Some a" "settles aid f (Some s)"
    "if local then \<forall>x. da_simulated (f x) = da_simulated x else s \<noteq> WS_DEPLOYED" "records aid f d d1"
    "transition cf wid s ac re ex d1 = Inr d2" "d' = audit cf wid' ev ac' rt ri oc pl d2"
  shows "closes local aid wid d d'"
proof -
  have "delivers wid s (\<lambda>x. x) d d'"
    by (rule delivers_after [OF assms(5)])
      (use assms(2,4,6) in \<open>auto simp: settles_def delivered_def records_def core_kept_def\<close>)
  then show ?thesis unfolding closes_def using assms(1-4,6) transition_frame [OF assms(5)]
    by (intro exI [of _ a] exI [of _ f] exI [of _ "Some s"]) (simp add: records_def split: if_splits)
qed

lemma finish_dry_run_effect:
  assumes "finish_dry_run cf en st x ob v d = Inr (r, d')"
  shows "closes False (st_attempt_id st) (st_workflow_id st) d d'"
proof -
  let ?aid = "st_attempt_id st" and ?wid = "st_workflow_id st"
  define status where "status = (if vf_passed v \<and> \<not> dx_changed x \<and> dx_simulated x then DS_SUCCEEDED else DS_ROLLBACK_REQUIRED)"
  define f where "f = (\<lambda>a. a\<lparr>da_operation_reference := Some (dx_operation_reference x), da_simulated := dx_simulated x,
     da_result_json := [(''execution'', JObj (dx_evidence x)), (''observation'', JObj (do_evidence ob)),
       (''changed'', JBool (dx_changed x))], da_completed_at := Some (en_now en 0), da_status := status\<rparr> :: deployment_attempt_record)"
  define d1 where "d1 = add_verification ?wid ?aid v (upd_deployment ?aid f d)"
  obtain a d2 ev ac rt pl re ex where run: "running_deployment d ?aid = Some a"
    and d2: "(if status = DS_ROLLBACK_REQUIRED then transition cf ?wid WS_ROLLBACK_REQUIRED ''orchestrator'' re ex d1 else Inr d1) = Inr d2"
    and d': "d' = audit cf ?wid ev ac rt ?aid (deployment_attempt_status_value status) pl d2"
    using assms unfolding finish_dry_run_def Let_def tx_simps status_def [symmetric] f_def [symmetric] d1_def [symmetric]
    by (fastforce simp: tx_simps)
  have rec: "records ?aid f d d1" by (simp add: d1_def)
  show ?thesis
  proof (cases "status = DS_ROLLBACK_REQUIRED")
    case True
    then show ?thesis using d2 by (intro closes_move [OF run _ _ rec _ d', where s = WS_ROLLBACK_REQUIRED]) (simp_all add: settles_def f_def)
  next
    case False
    then have "d2 = d1" "status \<noteq> DS_RUNNING" using d2 by (simp_all add: status_def split: if_splits)
    then show ?thesis using d' by (intro closes_stay [OF run _ _ rec]) (simp_all add: settles_def f_def)
  qed
qed

lemma fail_dry_run_effect:
  "fail_deployment_dry_run cf en aid code d = d \<or> closes False aid wid d (fail_deployment_dry_run cf en aid code d)"
proof (cases "running_deployment d aid")
  case (Some a)
  define f where "f = (\<lambda>a. a\<lparr>da_status := DS_FAILED, da_error_code := Some (take 64 code), da_completed_at := Some (en_now en 0),
     da_result_json := [(''credential_requested'', JBool False), (''external_target_contacted'', JBool False),
       (''error'', JStr ''dry-run adapter failed before any target change'')]\<rparr> :: deployment_attempt_record)"
  have "closes False aid wid d (fail_deployment_dry_run cf en aid code d)"
    by (rule closes_stay [OF Some, where f = f and ?d1.0 = "upd_deployment aid f d"])
      (simp_all add: settles_def f_def fail_deployment_dry_run_def Some)
  then show ?thesis by blast
qed (simp add: fail_deployment_dry_run_def)

lemma finish_local_deployment_effect:
  assumes "finish_local_deployment cf en st h run d = Inr (r, d')"
  shows "closes True (st_attempt_id st) (st_workflow_id st) d d'"
proof -
  let ?aid = "st_attempt_id st" and ?wid = "st_workflow_id st"
  define x v ob where "x = cu_execution run" and "v = cu_verification run" and "ob = cu_observation run"
  define status where "status = (if vf_passed v \<and> \<not> dx_simulated x then DS_SUCCEEDED else DS_ROLLBACK_REQUIRED)"
  define f where "f = (\<lambda>a. a\<lparr>da_operation_reference := Some (dx_operation_reference x),
     da_result_json := [(''credential'', credential_handle_dict cf h), (''execution'', JObj (dx_evidence x)),
       (''observation'', JObj (do_evidence ob)), (''changed'', JBool (dx_changed x))],
     da_completed_at := Some (en_now en 0), da_status := status\<rparr> :: deployment_attempt_record)"
  define d1 where "d1 = add_verification ?wid ?aid v (upd_deployment ?aid f d)"
  define s where "s = (if status = DS_SUCCEEDED then WS_DEPLOYED else WS_ROLLBACK_REQUIRED)"
  obtain a d2 ev ac rt pl re ex where run: "running_deployment d ?aid = Some a"
    and d2: "transition cf ?wid s ''orchestrator'' re ex d1 = Inr d2"
    and d': "d' = audit cf ?wid ev ac rt ?aid (deployment_attempt_status_value status) pl d2"
    using assms unfolding finish_local_deployment_def Let_def tx_simps x_def [symmetric] v_def [symmetric] ob_def [symmetric]
      status_def [symmetric] f_def [symmetric] d1_def [symmetric] s_def [symmetric]
    by (fastforce simp: tx_simps)
  show ?thesis
    by (rule closes_move [OF run, where f = f, OF _ _ _ d2 d'])
      (auto simp: settles_def f_def s_def status_def d1_def split: if_splits)
qed

lemma fail_local_deployment_effect:
  assumes "fail_local_deployment cf en aid status code tc d = Inr d'"
  shows "d' = d \<or> (\<exists>a. running_deployment d aid = Some a \<and> closes True aid (da_workflow_id a) d d')"
proof (cases "running_deployment d aid")
  case (Some a)
  let ?wid = "da_workflow_id a"
  define f where "f = (\<lambda>a. a\<lparr>da_status := status, da_error_code := Some (take 64 code), da_completed_at := Some (en_now en 0),
     da_result_json := [(''credential_requested'', JBool True), (''error'', JStr ''local deployment did not produce verified success''),
       (''target_contacted'', JBool tc)]\<rparr> :: deployment_attempt_record)"
  have st: "status \<noteq> DS_RUNNING" using assms by (auto simp: fail_local_deployment_def split: if_splits)
  obtain re ex ev ac rt oc pl where
    "ebind (if status = DS_ROLLBACK_REQUIRED then transition cf ?wid WS_ROLLBACK_REQUIRED ''orchestrator'' re ex (upd_deployment aid f d)
        else Inr (upd_deployment aid f d)) (\<lambda>d2. Inr (audit cf ?wid ev ac rt aid oc pl d2)) = Inr d'"
    using assms Some unfolding fail_local_deployment_def Let_def f_def [symmetric]
    by (simp only: option.case sum.distinct split: if_split_asm)
  then obtain d2 where
    d2: "(if status = DS_ROLLBACK_REQUIRED then transition cf ?wid WS_ROLLBACK_REQUIRED ''orchestrator'' re ex (upd_deployment aid f d)
        else Inr (upd_deployment aid f d)) = Inr d2" and d': "d' = audit cf ?wid ev ac rt aid oc pl d2"
    by (auto simp only: ebind_eq_Inr sum.inject)
  have "closes True aid ?wid d d'"
  proof (cases "status = DS_ROLLBACK_REQUIRED")
    case True
    then show ?thesis using d2
      by (intro closes_move [OF Some, where f = f and s = WS_ROLLBACK_REQUIRED, OF _ _ _ _ d'])
        (simp_all add: settles_def f_def)
  next
    case False
    then have d'': "d' = audit cf ?wid ev ac rt aid oc pl (upd_deployment aid f d)" using d2 d' by simp
    show ?thesis by (rule closes_stay [OF Some _ _ records_upd(2) d'']) (use False st in \<open>simp_all add: settles_def f_def\<close>)
  qed
  then show ?thesis using Some by blast
qed (use assms in \<open>auto simp: fail_local_deployment_def split: if_splits\<close>)

section \<open>The rollback\<close>

text \<open>A rollback \<open>r\<close> of the contained attempt \<open>a\<close> is on record, backed by the approval it consumed.\<close>

definition begins_rollback :: "env \<Rightarrow> rollback_started \<Rightarrow> approval \<Rightarrow> deployment_plan_record \<Rightarrow>
    deployment_attempt_record \<Rightarrow> deployment_rollback_record \<Rightarrow> db \<Rightarrow> db \<Rightarrow> bool" where
  "begins_rollback en rs ap p a r d d' \<longleftrightarrow>
     ap \<in> set (approvals d) \<and> ap_consumed_at ap = None \<and> ap_action ap = AA_ROLLBACK \<and>
     ap_decision ap = AD_APPROVED \<and> ap_workflow_id ap = dr_workflow_id r \<and> ap_plan_digest ap = Some (dp_digest p) \<and>
     ap_environment_id ap = Some (dp_environment_id p) \<and> ap_revision ap = dp_revision p \<and>
     ap_deployment_attempt_id ap = Some (dr_attempt_id r) \<and> ap_target ap = dp_rollback_reference p \<and>
     p \<in> set (plans d) \<and> dp_id p = da_plan_id a \<and> a \<in> set (deployments d) \<and> da_id a = dr_attempt_id r \<and>
     da_workflow_id a = dr_workflow_id r \<and> da_status a = DS_ROLLBACK_REQUIRED \<and>
     recorded_snapshot (da_result_json a) = Some (rs_previous_release rs) \<and>
     dr_id r = en_uuid en 0 \<and> dr_approval_id r = ap_id ap \<and> dr_status r = RS_RUNNING \<and>
     rs_rollback_id rs = dr_id r \<and> rs_workflow_id rs = dr_workflow_id r \<and> rs_attempt_id rs = dr_attempt_id r \<and>
     core_kept d d' \<and> rollbacks d' = rollbacks d @ [r] \<and> environments d' = environments d \<and> plans d' = plans d \<and>
     deployments d' = deployments d \<and> confirmations d' = confirmations d \<and>
     approvals d' = row_upd ap_id (ap_id ap) (\<lambda>x. x\<lparr>ap_consumed_at := Some (en_now en 3)\<rparr>) (approvals d)"

lemma contained_attempt_Inr:
  "contained_attempt d wid aid = Inr a \<longleftrightarrow>
     row_get da_id aid (deployments d) = Some a \<and> da_workflow_id a = wid \<and> da_status a = DS_ROLLBACK_REQUIRED"
  by (auto simp: contained_attempt_def split: option.splits)

lemma new_rollback_simps [simp]:
  "dr_id (new_rollback en w a ap ac k rd rr) = en_uuid en 0" "dr_workflow_id (new_rollback en w a ap ac k rd rr) = w"
  "dr_attempt_id (new_rollback en w a ap ac k rd rr) = a" "dr_approval_id (new_rollback en w a ap ac k rd rr) = ap_id ap"
  "dr_status (new_rollback en w a ap ac k rd rr) = RS_RUNNING"
  by (simp_all add: new_rollback_def)

lemma begins_rollbackI:
  assumes "row_get da_id aid (deployments d) = Some a" "da_workflow_id a = wid" "da_status a = DS_ROLLBACK_REQUIRED"
    "row_get dp_id (da_plan_id a) (plans d) = Some p" "de_id e = dp_environment_id p"
    "rollback_approval d wid aid e p = Some ap" "recorded_snapshot (da_result_json a) = Some prev"
  shows "begins_rollback en \<lparr>rs_workflow_id = wid, rs_attempt_id = aid, rs_rollback_id = en_uuid en 0,
      rs_plan = pl, rs_previous_release = prev\<rparr> ap p a (new_rollback en wid aid ap actor key rd rr) d
    (audit cf wid' ev ac rt ri oc py (consume_approval (en_now en 3) (ap_id ap)
       (d\<lparr>rollbacks := row_add (new_rollback en wid aid ap actor key rd rr) (rollbacks d)\<rparr>)))"
  using last_by_SomeD [OF assms(6) [unfolded rollback_approval_def]] row.get_SomeD [OF assms(1)]
    row.get_SomeD [OF assms(4)] assms(2,3,5,7)
  by (auto simp: begins_rollback_def consume_approval_def core_kept_def row_add_def)

lemma start_local_rollback_effect:
  assumes "start_local_rollback cf dc en wid aid actor key d = Inr (x, d')"
  shows "(\<exists>j. x = Inl j \<and> d' = d) \<or> (\<exists>rs ad ap p a r. x = Inr (rs, ad) \<and> begins_rollback en rs ap p a r d d')"
proof (cases "find_rollback actor key d")
  case (Some e)
  then show ?thesis using assms by (auto simp: start_local_rollback_def tx_simps Let_def)
next
  case None
  then obtain a p e ad ap prev where a: "row_get da_id aid (deployments d) = Some a" "da_workflow_id a = wid"
      "da_status a = DS_ROLLBACK_REQUIRED" "row_get dp_id (da_plan_id a) (plans d) = Some p"
      "row_get de_id (dp_environment_id p) (environments d) = Some e" "local_target e"
      "dc_adapters dc (de_adapter_id e) = Some ad"
      "recorded_snapshot (da_result_json a) = Some prev"
    and ap: "rollback_approval d wid aid e p = Some ap" "en_now en 1 < ap_expires_at ap"
    using assms by (auto simp: start_local_rollback_def tx_simps Let_def require_approval_Inr contained_attempt_Inr
        local_environment_Inr split: option.splits)
  have x: "x = Inr (\<lparr>rs_workflow_id = wid, rs_attempt_id = aid, rs_rollback_id = en_uuid en 0,
        rs_plan = deployment_plan_value p, rs_previous_release = prev\<rparr>, ad) \<and>
      (\<exists>wid' ev ac rt ri oc py rd rr. d' = audit cf wid' ev ac rt ri oc py (consume_approval (en_now en 3) (ap_id ap)
         (d\<lparr>rollbacks := row_add (new_rollback en wid aid ap actor key rd rr) (rollbacks d)\<rparr>)))"
    using assms None a ap unfolding start_local_rollback_def Let_def tx_simps
    by (auto simp: require_approval_Inr contained_attempt_Inr local_environment_Inr tx_simps split: option.splits)
      (intro exI, rule refl)
  then obtain wid' ev ac rt ri oc py rd rr where d': "d' = audit cf wid' ev ac rt ri oc py (consume_approval (en_now en 3) (ap_id ap)
         (d\<lparr>rollbacks := row_add (new_rollback en wid aid ap actor key rd rr) (rollbacks d)\<rparr>))" by blast
  have "begins_rollback en \<lparr>rs_workflow_id = wid, rs_attempt_id = aid, rs_rollback_id = en_uuid en 0,
      rs_plan = deployment_plan_value p, rs_previous_release = prev\<rparr> ap p a (new_rollback en wid aid ap actor key rd rr) d d'"
    unfolding d' by (rule begins_rollbackI [OF a(1-4) row.get_key [OF a(5)] ap(1) a(8)])
  then show ?thesis using conjunct1 [OF x] by blast
qed

text \<open>The running rollback \<open>rid\<close> is closed; a verified one moves the workflow to ROLLED-BACK.\<close>

definition closes_rollback :: "ident \<Rightarrow> ident \<Rightarrow> db \<Rightarrow> db \<Rightarrow> bool" where
  "closes_rollback rid wid d d' \<longleftrightarrow> (\<exists>r f. running_rollback d rid = Some r \<and>
     (\<forall>x. dr_id (f x) = dr_id x \<and> dr_workflow_id (f x) = dr_workflow_id x \<and> dr_attempt_id (f x) = dr_attempt_id x \<and>
        dr_approval_id (f x) = dr_approval_id x \<and> dr_status (f x) \<noteq> RS_RUNNING) \<and>
     rollbacks d' = row_upd dr_id rid f (rollbacks d) \<and> approvals d' = approvals d \<and>
     environments d' = environments d \<and> plans d' = plans d \<and> deployments d' = deployments d \<and>
     confirmations d' = confirmations d \<and>
     (core_kept d d' \<or> delivers wid WS_ROLLED_BACK (\<lambda>x. x) d d' \<and> (\<forall>x. dr_status (f x) = RS_SUCCEEDED)))"

lemma fail_local_rollback_effect:
  assumes "fail_local_rollback cf en rid status code tc ms d = Inr d'"
  shows "d' = d \<or> closes_rollback rid wid d d'"
proof (cases "running_rollback d rid")
  case (Some r)
  define f where "f = (\<lambda>r. r\<lparr>dr_status := status, dr_error_code := Some (take 64 code), dr_completed_at := Some (en_now en 0),
     dr_recovery_duration_ms := Some (max ms 0), dr_evidence := [(''credential_requested'', JBool True),
       (''error'', JStr ''local rollback did not produce verified recovery''),
       (''target_contacted'', JBool tc)]\<rparr> :: deployment_rollback_record)"
  have st: "status \<noteq> RS_RUNNING" using assms by (auto simp: fail_local_rollback_def split: if_splits)
  obtain ev ac rt oc pl where d': "d' = audit cf (dr_workflow_id r) ev ac rt rid oc pl (upd_rollback rid f d)"
    using assms Some unfolding fail_local_rollback_def f_def [symmetric]
    by (simp only: option.case sum.distinct sum.inject split: if_split_asm) metis
  have "closes_rollback rid wid d d'"
    unfolding closes_rollback_def using Some st
    by (intro exI [of _ r] exI [of _ f]) (simp add: d' f_def core_kept_def)
  then show ?thesis by blast
qed (use assms in \<open>auto simp: fail_local_rollback_def split: if_splits\<close>)

lemma finish_local_rollback_effect:
  assumes "finish_local_rollback cf en rs h run ms d = Inr (r, d')"
  shows "closes_rollback (rs_rollback_id rs) (rs_workflow_id rs) d d'"
proof -
  let ?rid = "rs_rollback_id rs" and ?wid = "rs_workflow_id rs"
  define x v where "x = cu_execution run" and "v = cu_verification run"
  define recovered where "recovered = (vf_passed v \<and> \<not> dx_simulated x)"
  define status where "status = (if recovered then RS_SUCCEEDED else RS_FAILED)"
  define f where "f = (\<lambda>r. r\<lparr>dr_operation_reference := Some (dx_operation_reference x),
     dr_completed_at := Some (en_now en 0), dr_recovery_duration_ms := Some ms,
     dr_evidence := [(''credential'', credential_handle_dict cf h), (''execution'', JObj (dx_evidence x)),
       (''observation'', JObj (do_evidence (cu_observation run))), (''verification'', JObj (vf_evidence v)),
       (''changed'', JBool (dx_changed x))], dr_status := status\<rparr> :: deployment_rollback_record)"
  obtain a d2 ev ac rt pl re ex where run: "running_rollback d ?rid = Some a"
    and d2: "(if recovered then transition cf ?wid WS_ROLLED_BACK ''orchestrator'' re ex (upd_rollback ?rid f d)
      else Inr (upd_rollback ?rid f d)) = Inr d2"
    and d': "d' = audit cf ?wid ev ac rt ?rid (rollback_status_value status) pl d2"
    using assms unfolding finish_local_rollback_def Let_def tx_simps x_def [symmetric] v_def [symmetric]
      recovered_def [symmetric] status_def [symmetric] f_def [symmetric]
    by (fastforce simp: tx_simps)
  have keep: "dr_id (f x) = dr_id x \<and> dr_workflow_id (f x) = dr_workflow_id x \<and> dr_attempt_id (f x) = dr_attempt_id x \<and>
      dr_approval_id (f x) = dr_approval_id x \<and> dr_status (f x) \<noteq> RS_RUNNING" for x
    by (simp add: f_def status_def)
  show ?thesis
  proof (cases recovered)
    case True
    then have tr: "transition cf ?wid WS_ROLLED_BACK ''orchestrator'' re ex (upd_rollback ?rid f d) = Inr d2" using d2 by simp
    have "delivers ?wid WS_ROLLED_BACK (\<lambda>x. x) d d'"
      by (rule delivers_after [OF tr]) (simp_all add: delivered_def core_kept_def d')
    moreover have "dr_status (f x) = RS_SUCCEEDED" for x using True by (simp add: f_def status_def)
    ultimately show ?thesis unfolding closes_rollback_def using run keep transition_frame [OF tr] d'
      by (intro exI [of _ a] exI [of _ f]) simp
  next
    case False
    then have "d2 = upd_rollback ?rid f d" using d2 by simp
    then show ?thesis unfolding closes_rollback_def using run keep
      by (intro exI [of _ a] exI [of _ f]) (simp add: core_kept_def d')
  qed
qed

end
