(* ===== verification/Control_Plane.thy ===== *)
theory Control_Plane
  imports Workflow_Service Delivery_Effects
begin

text \<open>
  The control plane as a whole: the handlers of the workflow service, of the pull-request service and of
  the deployment service, called in any order on one database.  A state is the database, the task
  executions in flight and the deployments in flight, between the transaction that committed their
  intent and the one that records their outcome; whatever GitHub, an adapter or a credential broker
  answers in between is arbitrary.  The invariant follows a change from its merge confirmation through
  its plan and approval to the attempt that deployed it.
\<close>

section \<open>Steps\<close>

datatype call = Call_dry started | Call_local started | Call_rollback rollback_started

type_synonym plane = "db \<times> prepared_execution list \<times> call list"

definition fresh_rows :: "env \<Rightarrow> db \<Rightarrow> bool" where
  "fresh_rows en d \<longleftrightarrow> en_uuid en 0 \<notin> da_id ` set (deployments d) \<and> en_uuid en 0 \<notin> dr_id ` set (rollbacks d) \<and>
     en_uuid en 0 \<notin> mc_id ` set (confirmations d) \<and> en_uuid en 0 \<notin> dp_id ` set (plans d)"

inductive plane_step :: "config \<Rightarrow> 'k deploy_config \<Rightarrow> plane \<Rightarrow> plane \<Rightarrow> bool" for cf dc where
  service: "svc_step cf (d, P) (d', P') \<Longrightarrow> plane_step cf dc (d, P, S) (d', P', S)"
| ingest: "ingest_ci_check_evidence cf en actor did chk pd d = Inr (r, d') \<Longrightarrow> plane_step cf dc (d, P, S) (d', P, S)"
| propose: "start_pull_request cf g en wid actor hb title body key d = Inr (x, d') \<Longrightarrow>
    plane_step cf dc (d, P, S) (d', P, S)"
| proposed: "complete_pull_request cf en rid v rec d = (r, d') \<Longrightarrow> plane_step cf dc (d, P, S) (d', P, S)"
| unknown: "plane_step cf dc (d, P, S) (mark_pull_request_unknown cf en rid code d, P, S)"
| not_found: "fail_proposal cf en rid actor d = Inr (r, d') \<Longrightarrow> plane_step cf dc (d, P, S) (d', P, S)"
| assess: "start_readiness cf g en wid pid actor key d = Inr (y, d') \<Longrightarrow> plane_step cf dc (d, P, S) (d', P, S)"
| assessed: "record_merge_readiness cf en aid res d = Inr (r, d') \<Longrightarrow> plane_step cf dc (d, P, S) (d', P, S)"
| assess_failed: "plane_step cf dc (d, P, S) (mark_readiness_failed cf en aid code d, P, S)"
| confirm: "fresh_rows en d \<Longrightarrow> start_confirmation cf g en wid pid aid actor key d = Inr (z, d') \<Longrightarrow>
    plane_step cf dc (d, P, S) (d', P, S)"
| confirmed: "settle_confirmation cf en rid answer d = (r, d') \<Longrightarrow> plane_step cf dc (d, P, S) (d', P, S)"
| register: "register_deployment_environment cf dc en actor sp d = Inr (r, d') \<Longrightarrow> plane_step cf dc (d, P, S) (d', P, S)"
| plan: "fresh_rows en d \<Longrightarrow> create_deployment_plan cf dc en wid actor ps d = Inr (r, d') \<Longrightarrow> plane_step cf dc (d, P, S) (d', P, S)"
| dry: "fresh_rows en d \<Longrightarrow> start_dry_run cf dc en wid pid actor key d = Inr (Inr (st, ad), d') \<Longrightarrow>
    plane_step cf dc (d, P, S) (d', P, Call_dry st # S)"
| dry_done: "Call_dry st \<in> set S \<Longrightarrow> complete_dry_run cf en (ad :: 'k adapter) st d = (r, d') \<Longrightarrow>
    plane_step cf dc (d, P, S) (d', P, remove1 (Call_dry st) S)"
| local: "fresh_rows en d \<Longrightarrow> start_local_deployment cf dc en wid pid actor key d = Inr (Inr (st, ad), d') \<Longrightarrow>
    plane_step cf dc (d, P, S) (d', P, Call_local st # S)"
| local_done: "Call_local st \<in> set S \<Longrightarrow> complete_local_deployment cf en st outcome contacted d = (r, d') \<Longrightarrow>
    plane_step cf dc (d, P, S) (d', P, remove1 (Call_local st) S)"
| rollback: "fresh_rows en d \<Longrightarrow> start_local_rollback cf dc en wid aid actor key d = Inr (Inr (rs, ad), d') \<Longrightarrow>
    plane_step cf dc (d, P, S) (d', P, Call_rollback rs # S)"
| rollback_done: "Call_rollback rs \<in> set S \<Longrightarrow> complete_local_rollback cf en rs outcome contacted ms d = (r, d') \<Longrightarrow>
    plane_step cf dc (d, P, S) (d', P, remove1 (Call_rollback rs) S)"
| lost: "plane_step cf dc (d, P, S) (d, P, remove1 c S)"

definition plane_init :: plane where
  "plane_init = (seed_principals empty_db, [], [])"

section \<open>The invariant\<close>

definition approval_by_human :: "db \<Rightarrow> approval \<Rightarrow> bool" where
  "approval_by_human d a \<longleftrightarrow> (\<exists>p. row_get pn_id (ap_approver_id a) (principals d) = Some p \<and>
     pn_principal_type p = PT_HUMAN \<and> approval_capability (ap_action a) \<in> ROLE_CAPABILITIES (pn_role p))"

definition approvals_ok :: "db \<Rightarrow> bool" where
  "approvals_ok d \<longleftrightarrow> distinct (map ap_id (approvals d)) \<and> (\<forall>a\<in>set (approvals d). approval_by_human d a)"

text \<open>GitHub confirmed the merge of candidate \<open>rv\<close> as commit \<open>m\<close>.\<close>

definition merge_confirmed_as :: "db \<Rightarrow> ident \<Rightarrow> string \<Rightarrow> string \<Rightarrow> bool" where
  "merge_confirmed_as d wid rv m \<longleftrightarrow> (\<exists>c\<in>set (confirmations d). mc_workflow_id c = wid \<and>
     mc_status c = ''SUCCEEDED'' \<and> mc_revision c = rv \<and> mc_merge_commit_revision c = Some m)"

definition settled_for :: "merge_confirmation \<Rightarrow> workflow \<Rightarrow> bool" where
  "settled_for c w \<longleftrightarrow> wf_id w = mc_workflow_id c \<and> (wf_state w = WS_REJECTED \<or> delivered (wf_state w) \<and>
     wf_candidate_revision w = Some (mc_revision c) \<and> wf_merged_revision w = mc_merge_commit_revision c)"

definition merges_ok :: "db \<Rightarrow> bool" where
  "merges_ok d \<longleftrightarrow> distinct (map mc_id (confirmations d)) \<and>
     (\<forall>c\<in>set (confirmations d). mc_status c = ''SUCCEEDED'' \<longrightarrow> (\<exists>w\<in>set (workflows d). settled_for c w)) \<and>
     (\<forall>w\<in>set (workflows d). delivered (wf_state w) \<longrightarrow> (\<exists>rv m. wf_candidate_revision w = Some rv \<and>
        wf_merged_revision w = Some m \<and> merge_confirmed_as d (wf_id w) rv m))"

text \<open>A plan stays inside the environment it names, and deploys a confirmed merge commit of its workflow.\<close>

definition within_environment :: "deployment_plan_record \<Rightarrow> deployment_environment \<Rightarrow> bool" where
  "within_environment p e \<longleftrightarrow> de_id e = dp_environment_id p \<and>
     (\<lambda>operation. strip (str_get operation ''resource_id'')) ` set (dp_operations p) \<subseteq> set (de_resource_scope e) \<and>
     set (dp_verification_probes p) \<subseteq> set (de_verification_policy e) \<and> dp_rollback_reference p = de_rollback_policy e"

definition plan_ok :: "db \<Rightarrow> deployment_plan_record \<Rightarrow> bool" where
  "plan_ok d p \<longleftrightarrow> (\<exists>e\<in>set (environments d). within_environment p e) \<and>
     (\<exists>rv. merge_confirmed_as d (dp_workflow_id p) rv (dp_revision p))"

definition plans_ok :: "db \<Rightarrow> bool" where
  "plans_ok d \<longleftrightarrow> (\<forall>e\<in>set (environments d). environment_wf e) \<and> distinct (map dp_id (plans d)) \<and>
     (\<forall>p\<in>set (plans d). plan_wf p \<and> plan_ok d p)"

text \<open>An approval for exactly this plan was given and has been consumed.\<close>

definition used_for :: "approval_action \<Rightarrow> ident \<Rightarrow> deployment_plan_record \<Rightarrow> approval \<Rightarrow> bool" where
  "used_for action wid p ap \<longleftrightarrow> ap_consumed_at ap \<noteq> None \<and> ap_action ap = action \<and> ap_decision ap = AD_APPROVED \<and>
     ap_workflow_id ap = wid \<and> ap_plan_digest ap = Some (dp_digest p) \<and>
     ap_environment_id ap = Some (dp_environment_id p) \<and> ap_revision ap = dp_revision p"

definition attempt_backed :: "db \<Rightarrow> deployment_attempt_record \<Rightarrow> bool" where
  "attempt_backed d a \<longleftrightarrow> (\<exists>ap\<in>set (approvals d). \<exists>p\<in>set (plans d). ap_id ap = da_approval_id a \<and>
     dp_id p = da_plan_id a \<and> dp_workflow_id p = da_workflow_id a \<and> used_for AA_DEPLOY (da_workflow_id a) p ap)"

definition rollback_backed :: "db \<Rightarrow> deployment_rollback_record \<Rightarrow> bool" where
  "rollback_backed d r \<longleftrightarrow> (\<exists>ap\<in>set (approvals d). \<exists>p\<in>set (plans d). ap_id ap = dr_approval_id r \<and>
     used_for AA_ROLLBACK (dr_workflow_id r) p ap \<and> ap_deployment_attempt_id ap = Some (dr_attempt_id r) \<and>
     (\<exists>a\<in>set (deployments d). da_id a = dr_attempt_id r \<and> da_workflow_id a = dr_workflow_id r \<and> da_plan_id a = dp_id p))"

definition executions_ok :: "db \<Rightarrow> bool" where
  "executions_ok d \<longleftrightarrow> distinct (map da_id (deployments d)) \<and> distinct (map da_approval_id (deployments d)) \<and>
     distinct (map dr_id (rollbacks d)) \<and> distinct (map dr_approval_id (rollbacks d)) \<and>
     (\<forall>a\<in>set (deployments d). attempt_backed d a) \<and> (\<forall>r\<in>set (rollbacks d). rollback_backed d r)"

definition local_attempt :: "db \<Rightarrow> deployment_attempt_record \<Rightarrow> bool" where
  "local_attempt d a \<longleftrightarrow> \<not> da_simulated a \<and>
     (\<exists>p\<in>set (plans d). \<exists>e\<in>set (environments d). dp_id p = da_plan_id a \<and> de_id e = dp_environment_id p \<and> local_target e)"

definition outcome_ok :: "db \<Rightarrow> workflow \<Rightarrow> bool" where
  "outcome_ok d w \<longleftrightarrow>
     (wf_state w = WS_DEPLOYED \<longrightarrow> (\<exists>a\<in>set (deployments d). da_workflow_id a = wf_id w \<and>
        da_status a = DS_SUCCEEDED \<and> local_attempt d a)) \<and>
     (wf_state w = WS_ROLLBACK_REQUIRED \<longrightarrow> (\<exists>a\<in>set (deployments d). da_workflow_id a = wf_id w \<and>
        da_status a = DS_ROLLBACK_REQUIRED)) \<and>
     (wf_state w = WS_ROLLED_BACK \<longrightarrow> (\<exists>r\<in>set (rollbacks d). dr_workflow_id r = wf_id w \<and> dr_status r = RS_SUCCEEDED))"

fun call_ok :: "db \<Rightarrow> call \<Rightarrow> bool" where
  "call_ok d (Call_dry st) \<longleftrightarrow> (\<exists>a\<in>set (deployments d). da_id a = st_attempt_id st \<and>
     da_workflow_id a = st_workflow_id st \<and> (da_status a = DS_RUNNING \<longrightarrow> da_simulated a))"
| "call_ok d (Call_local st) \<longleftrightarrow> (\<exists>a\<in>set (deployments d). da_id a = st_attempt_id st \<and>
     da_workflow_id a = st_workflow_id st \<and> local_attempt d a)"
| "call_ok d (Call_rollback rs) \<longleftrightarrow> (\<exists>r\<in>set (rollbacks d). dr_id r = rs_rollback_id rs \<and>
     dr_workflow_id r = rs_workflow_id rs)"

definition plane_ok :: "plane \<Rightarrow> bool" where
  "plane_ok W \<longleftrightarrow> (case W of (d, P, S) \<Rightarrow> svc_ok (d, P) \<and> approvals_ok d \<and> merges_ok d \<and> plans_ok d \<and>
     executions_ok d \<and> (\<forall>w\<in>set (workflows d). outcome_ok d w) \<and> (\<forall>c\<in>set S. call_ok d c))"

lemma plane_ok_iff: "plane_ok (d, P, S) \<longleftrightarrow> svc_ok (d, P) \<and> approvals_ok d \<and> merges_ok d \<and> plans_ok d \<and>
     executions_ok d \<and> (\<forall>w\<in>set (workflows d). outcome_ok d w) \<and> (\<forall>c\<in>set S. call_ok d c)"
  by (simp add: plane_ok_def)

section \<open>What stays on record\<close>

text \<open>An approval may be consumed; nothing else of it changes.\<close>

definition kept_approval :: "approval \<Rightarrow> approval \<Rightarrow> bool" where
  "kept_approval a a' \<longleftrightarrow> a' = a \<or> (\<exists>t. a' = a\<lparr>ap_consumed_at := Some t\<rparr>)"

text \<open>An attempt is closed once; a dry run stays a dry run until then.\<close>

definition kept_attempt :: "deployment_attempt_record \<Rightarrow> deployment_attempt_record \<Rightarrow> bool" where
  "kept_attempt a a' \<longleftrightarrow> a' = a \<or> (da_status a = DS_RUNNING \<and> da_status a' \<noteq> DS_RUNNING \<and> da_id a' = da_id a \<and>
     da_workflow_id a' = da_workflow_id a \<and> da_plan_id a' = da_plan_id a \<and> da_approval_id a' = da_approval_id a \<and>
     (\<not> da_simulated a \<longrightarrow> \<not> da_simulated a'))"

definition kept_rollback :: "deployment_rollback_record \<Rightarrow> deployment_rollback_record \<Rightarrow> bool" where
  "kept_rollback r r' \<longleftrightarrow> r' = r \<or> (dr_status r = RS_RUNNING \<and> dr_status r' \<noteq> RS_RUNNING \<and> dr_id r' = dr_id r \<and>
     dr_workflow_id r' = dr_workflow_id r \<and> dr_attempt_id r' = dr_attempt_id r \<and> dr_approval_id r' = dr_approval_id r)"

definition all_kept :: "('a \<Rightarrow> 'a \<Rightarrow> bool) \<Rightarrow> 'a list \<Rightarrow> 'a list \<Rightarrow> bool" where
  "all_kept R xs ys \<longleftrightarrow> (\<forall>x\<in>set xs. \<exists>y\<in>set ys. R x y)"

definition lasts :: "db \<Rightarrow> db \<Rightarrow> bool" where
  "lasts d d' \<longleftrightarrow> all_kept kept_approval (approvals d) (approvals d') \<and> all_kept kept_attempt (deployments d) (deployments d') \<and>
     all_kept kept_rollback (rollbacks d) (rollbacks d') \<and> set (environments d) \<subseteq> set (environments d') \<and>
     set (plans d) \<subseteq> set (plans d') \<and>
     (\<forall>c\<in>set (confirmations d). mc_status c = ''SUCCEEDED'' \<longrightarrow> c \<in> set (confirmations d'))"

lemma all_kept_subset: "set xs \<subseteq> set ys \<Longrightarrow> (\<And>x. R x x) \<Longrightarrow> all_kept R xs ys"
  by (auto simp: all_kept_def)

lemma all_kept_upd:
  assumes "\<And>x. x \<in> set xs \<Longrightarrow> R x x" "\<And>x. x \<in> set xs \<Longrightarrow> key x = k \<Longrightarrow> R x (f x)"
  shows "all_kept R xs (row_upd key k f xs)"
  unfolding all_kept_def row.set_upd
proof
  fix x assume "x \<in> set xs"
  then show "\<exists>y\<in>(\<lambda>r. if key r = k then f r else r) ` set xs. R x y"
    using assms [of x] by (intro bexI [of _ "if key x = k then f x else x"]) simp_all
qed

lemma kept_refl [simp]: "kept_approval a a" "kept_attempt b b" "kept_rollback c c"
  by (simp_all add: kept_approval_def kept_attempt_def kept_rollback_def)

lemma all_kept_refl [simp]: "all_kept kept_approval xs xs" "all_kept kept_attempt ys ys" "all_kept kept_rollback zs zs"
  by (simp_all add: all_kept_subset)

lemma lasts_same [simp]: "approvals d' = approvals d \<Longrightarrow> same_outer d d' \<Longrightarrow> lasts d d'"
  by (simp add: lasts_def)

lemma kept_used_for: "kept_approval ap ap' \<Longrightarrow> used_for ac wid p ap \<Longrightarrow> used_for ac wid p ap' \<and> ap_id ap' = ap_id ap \<and>
    ap_deployment_attempt_id ap' = ap_deployment_attempt_id ap"
  by (auto simp: kept_approval_def used_for_def)

lemma attempt_backed_lasts:
  assumes "lasts d d'" "attempt_backed d a" "da_approval_id a' = da_approval_id a" "da_plan_id a' = da_plan_id a"
    "da_workflow_id a' = da_workflow_id a"
  shows "attempt_backed d' a'"
proof -
  obtain ap p where ap: "ap \<in> set (approvals d)" "p \<in> set (plans d)" "ap_id ap = da_approval_id a" "dp_id p = da_plan_id a"
    "dp_workflow_id p = da_workflow_id a" "used_for AA_DEPLOY (da_workflow_id a) p ap"
    using assms(2) by (auto simp: attempt_backed_def)
  obtain ap' where "ap' \<in> set (approvals d')" "kept_approval ap ap'"
    using assms(1) ap(1) by (auto simp: lasts_def all_kept_def)
  moreover have "p \<in> set (plans d')" using assms(1) ap(2) by (auto simp: lasts_def)
  ultimately show ?thesis using kept_used_for ap assms(3-5) unfolding attempt_backed_def by metis
qed

lemma rollback_backed_lasts:
  assumes "lasts d d'" "rollback_backed d r" "dr_approval_id r' = dr_approval_id r" "dr_attempt_id r' = dr_attempt_id r"
    "dr_workflow_id r' = dr_workflow_id r"
  shows "rollback_backed d' r'"
proof -
  obtain ap p a where ap: "ap \<in> set (approvals d)" "p \<in> set (plans d)" "ap_id ap = dr_approval_id r"
    "used_for AA_ROLLBACK (dr_workflow_id r) p ap" "ap_deployment_attempt_id ap = Some (dr_attempt_id r)"
    "a \<in> set (deployments d)" "da_id a = dr_attempt_id r" "da_workflow_id a = dr_workflow_id r" "da_plan_id a = dp_id p"
    using assms(2) by (auto simp: rollback_backed_def)
  obtain ap' where ap': "ap' \<in> set (approvals d')" "kept_approval ap ap'"
    using assms(1) ap(1) by (auto simp: lasts_def all_kept_def)
  obtain a' where a': "a' \<in> set (deployments d')" "kept_attempt a a'"
    using assms(1) ap(6) by (auto simp: lasts_def all_kept_def)
  have "da_id a' = da_id a" "da_workflow_id a' = da_workflow_id a" "da_plan_id a' = da_plan_id a"
    using a'(2) by (auto simp: kept_attempt_def)
  moreover have "p \<in> set (plans d')" using assms(1) ap(2) by (auto simp: lasts_def)
  ultimately show ?thesis using kept_used_for [OF ap'(2) ap(4)] ap ap'(1) a'(1) assms(3-5)
    unfolding rollback_backed_def by (intro bexI [of _ ap'] bexI [of _ p] conjI bexI [of _ a']) simp_all
qed

lemma local_attempt_lasts: "lasts d d' \<Longrightarrow> local_attempt d a \<Longrightarrow> kept_attempt a a' \<Longrightarrow> local_attempt d' a'"
  by (fastforce simp: local_attempt_def lasts_def kept_attempt_def)

lemma kept_attemptE:
  assumes "lasts d d'" "a \<in> set (deployments d)"
  obtains a' where "a' \<in> set (deployments d')" "kept_attempt a a'"
  using assms by (auto simp: lasts_def all_kept_def)

lemma kept_rollbackE:
  assumes "lasts d d'" "r \<in> set (rollbacks d)"
  obtains r' where "r' \<in> set (rollbacks d')" "kept_rollback r r'"
  using assms by (auto simp: lasts_def all_kept_def)

lemma call_ok_lasts:
  assumes "lasts d d'" "call_ok d c"
  shows "call_ok d' c"
proof (cases c)
  case (Call_dry st)
  then obtain a where a: "a \<in> set (deployments d)" "da_id a = st_attempt_id st" "da_workflow_id a = st_workflow_id st"
    "da_status a = DS_RUNNING \<longrightarrow> da_simulated a" using assms(2) by auto
  obtain a' where "a' \<in> set (deployments d')" "kept_attempt a a'" by (rule kept_attemptE [OF assms(1) a(1)])
  then show ?thesis using a Call_dry by (auto simp: kept_attempt_def)
next
  case (Call_local st)
  then obtain a where a: "a \<in> set (deployments d)" "da_id a = st_attempt_id st" "da_workflow_id a = st_workflow_id st"
    "local_attempt d a" using assms(2) by auto
  obtain a' where a': "a' \<in> set (deployments d')" "kept_attempt a a'" by (rule kept_attemptE [OF assms(1) a(1)])
  have "da_id a' = da_id a" "da_workflow_id a' = da_workflow_id a" using a'(2) by (auto simp: kept_attempt_def)
  then show ?thesis using a a'(1) local_attempt_lasts [OF assms(1) a(4) a'(2)] Call_local by auto
next
  case (Call_rollback rs)
  then obtain r where r: "r \<in> set (rollbacks d)" "dr_id r = rs_rollback_id rs" "dr_workflow_id r = rs_workflow_id rs"
    using assms(2) by auto
  obtain r' where "r' \<in> set (rollbacks d')" "kept_rollback r r'" by (rule kept_rollbackE [OF assms(1) r(1)])
  then show ?thesis using r Call_rollback by (auto simp: kept_rollback_def)
qed

lemma outcome_ok_lasts:
  assumes "lasts d d'" "outcome_ok d w" "wf_id w' = wf_id w" "wf_state w' = wf_state w"
  shows "outcome_ok d' w'"
proof -
  have a: "\<exists>a'\<in>set (deployments d'). kept_attempt a a'" if "a \<in> set (deployments d)" for a
    using kept_attemptE [OF assms(1) that] by blast
  have r: "\<exists>r'\<in>set (rollbacks d'). kept_rollback r r'" if "r \<in> set (rollbacks d)" for r
    using kept_rollbackE [OF assms(1) that] by blast
  have same: "a' = a" if "kept_attempt a a'" "da_status a \<noteq> DS_RUNNING" for a a' using that by (simp add: kept_attempt_def)
  have same_r: "r' = r" if "kept_rollback r r'" "dr_status r \<noteq> RS_RUNNING" for r r' using that by (simp add: kept_rollback_def)
  show ?thesis
    unfolding outcome_ok_def assms(3,4)
  proof (intro conjI impI)
    assume "wf_state w = WS_DEPLOYED"
    then obtain x where x: "x \<in> set (deployments d)" "da_workflow_id x = wf_id w" "da_status x = DS_SUCCEEDED" "local_attempt d x"
      using assms(2) by (auto simp: outcome_ok_def)
    obtain y where y: "y \<in> set (deployments d')" "kept_attempt x y" using a [OF x(1)] by blast
    then have "y = x" using same x(3) by simp
    then show "\<exists>a\<in>set (deployments d'). da_workflow_id a = wf_id w \<and> da_status a = DS_SUCCEEDED \<and> local_attempt d' a"
      using x y local_attempt_lasts [OF assms(1)] by blast
  next
    assume "wf_state w = WS_ROLLBACK_REQUIRED"
    then show "\<exists>a\<in>set (deployments d'). da_workflow_id a = wf_id w \<and> da_status a = DS_ROLLBACK_REQUIRED"
      using assms(2) a same unfolding outcome_ok_def by (metis deployment_attempt_status.distinct)
  next
    assume "wf_state w = WS_ROLLED_BACK"
    then show "\<exists>r\<in>set (rollbacks d'). dr_workflow_id r = wf_id w \<and> dr_status r = RS_SUCCEEDED"
      using assms(2) r same_r unfolding outcome_ok_def by (metis rollback_status.distinct)
  qed
qed

section \<open>Keeping the workflow invariant\<close>

lemma approved_ok_kept:
  assumes "approved_ok d" "workflows d' = workflows d" "principals d' = principals d"
    "all_kept kept_approval (approvals d) (approvals d')"
  shows "approved_ok d'"
  unfolding approved_ok_def
proof (intro ballI impI)
  fix w assume "w \<in> set (workflows d')" "after_approval (wf_state w)"
  then have "merge_approved d w" using assms(1,2) by (simp add: approved_ok_def)
  then obtain a where a: "a \<in> set (approvals d)" "ap_workflow_id a = wf_id w" "ap_action a = AA_MERGE"
    "ap_decision a = AD_APPROVED" "ap_revision a \<noteq> []" "wf_candidate_revision w = Some (ap_revision a)"
    "human_approver d (ap_approver_id a)" by (auto simp: merge_approved_def)
  obtain a' where "a' \<in> set (approvals d')" "kept_approval a a'" using assms(4) a(1) by (auto simp: all_kept_def)
  then show "merge_approved d' w" using a assms(3) unfolding merge_approved_def
    by (intro bexI [of _ a']) (auto simp: kept_approval_def human_approver_def)
qed

lemma core_svc_ok:
  assumes "svc_ok (d, P)" "core_kept d d'" "all_kept kept_approval (approvals d) (approvals d')"
  shows "svc_ok (d', P)"
proof -
  have ok: "db_ok d" "attempts_ok d" "approved_ok d" "inflight_ok P d" using assms(1) by (simp_all add: svc_ok_pair)
  have same: "workflows d' = workflows d" "tasks d' = tasks d" "attempts d' = attempts d" "principals d' = principals d"
    using assms(2) by (simp_all add: core_kept_def)
  have "db_ok d'" using same_core_db_ok [of d d'] ok(1) by (simp add: same_core_def same)
  moreover have "attempts_ok d'" by (rule attempts_ok_cong [OF same(2,3) ok(2)])
  moreover have "approved_ok d'" by (rule approved_ok_kept [OF ok(3) same(1,4) assms(3)])
  moreover have "inflight_ok P d'" by (rule inflight_core [OF ok(4) _ keys_cong [OF same(3)]]) (simp add: same)
  ultimately show ?thesis by (simp add: svc_ok_pair)
qed

lemma delivers_svc_ok:
  assumes "svc_ok (d, P)" "delivers wid s f d d'" "plain f" "approvals d' = approvals d"
  shows "svc_ok (d', P)"
proof -
  have ok: "db_ok d" "attempts_ok d" "approved_ok d" "inflight_ok P d" using assms(1) by (simp_all add: svc_ok_pair)
  have same: "tasks d' = tasks d" "attempts d' = attempts d" "principals d' = principals d"
    using assms(2) by (simp_all add: delivers_def)
  have st: "any_step {Ev_deliver} d d'" using delivers_step [OF ok(1) assms(2,3)] by (rule any_stepI) simp
  have "db_ok d'" by (rule any_step_db_ok [OF ok(1) st])
  moreover have "attempts_ok d'" by (rule attempts_ok_cong [OF same(1,2) ok(2)])
  moreover have "approved_ok d'" by (rule approved_ok_move [OF ok(1,3) st _ assms(4) same(3)]) simp
  moreover have "inflight_ok P d'" by (rule inflight_step [OF ok(4) st keys_cong [OF same(2)]])
  ultimately show ?thesis by (simp add: svc_ok_pair)
qed

section \<open>Keeping the approvals\<close>

lemma approvals_ok_same: "approvals_ok d \<Longrightarrow> approvals d' = approvals d \<Longrightarrow> principals d' = principals d \<Longrightarrow> approvals_ok d'"
  by (simp add: approvals_ok_def approval_by_human_def)

lemma approvals_ok_consume:
  assumes "approvals_ok d" "principals d' = principals d"
    "approvals d' = row_upd ap_id i (\<lambda>x. x\<lparr>ap_consumed_at := Some t\<rparr>) (approvals d)"
  shows "approvals_ok d'" "all_kept kept_approval (approvals d) (approvals d')"
proof -
  have "approval_by_human d' (a\<lparr>ap_consumed_at := u\<rparr>) = approval_by_human d a" "approval_by_human d' a = approval_by_human d a" for a u
    by (simp_all add: approval_by_human_def assms(2))
  then show "approvals_ok d'" using assms(1) unfolding approvals_ok_def assms(3) by (auto simp: row.keys_upd row.set_upd)
  show "all_kept kept_approval (approvals d) (approvals d')"
    unfolding assms(3) by (rule all_kept_upd) (auto simp: kept_approval_def)
qed

lemma approve_approvals_ok:
  assumes "approvals_ok d" "fresh_ids en d"
    "approve cf en wid ap action target revision adec ra mins env_id pd aid d = Inr (r, d')"
  shows "approvals_ok d'" "all_kept kept_approval (approvals d) (approvals d')"
proof -
  obtain p w pv where p: "authorize d (en_now en 0) ap (approval_capability action) None None True = Inr p"
    and rec: "record_approval cf (new_approval en wid ap action target revision adec ra mins env_id pd aid pv) target d = Inr d'"
    using assms(3) by (rule approve_Inr)
  define a where "a = new_approval en wid ap action target revision adec ra mins env_id pd aid pv"
  note fr = record_approval_frame [OF rec, folded a_def]
  have "approval_by_human d' a"
    using p by (auto simp: approval_by_human_def authorize_Inr_iff a_def fr(2))
  moreover have "ap_id a \<notin> ap_id ` set (approvals d)" using assms(2) by (simp add: fresh_ids_def a_def)
  moreover have "approval_by_human d' x = approval_by_human d x" for x by (simp add: approval_by_human_def fr(2))
  ultimately show "approvals_ok d'" using assms(1) by (simp add: approvals_ok_def fr(5))
  show "all_kept kept_approval (approvals d) (approvals d')" by (rule all_kept_subset) (auto simp: fr(5))
qed

section \<open>Keeping the merge confirmations\<close>

lemma merges_ok_same: "merges_ok d \<Longrightarrow> workflows d' = workflows d \<Longrightarrow> confirmations d' = confirmations d \<Longrightarrow> merges_ok d'"
  by (simp add: merges_ok_def merge_confirmed_as_def)

lemma delivered_stays: "delivered s' \<Longrightarrow> s' \<in> ALLOWED_TRANSITIONS s \<Longrightarrow> s' \<noteq> WS_MERGED \<Longrightarrow> delivered s"
  by (cases s) (auto simp: delivered_def)

lemma delivers_get:
  assumes "delivers wid s f d d'" "db_ok d" "plain f" "w' \<in> set (workflows d')"
  obtains (other) "wf_id w' \<noteq> wid" "w' \<in> set (workflows d)"
    | (moved) w n where "w \<in> set (workflows d)" "wf_id w = wid" "s \<in> ALLOWED_TRANSITIONS (wf_state w)"
      "row_get wf_id wid (workflows d) = Some w" "w' = (f w)\<lparr>wf_state := s, wf_version := n\<rparr>"
proof -
  obtain w n where w: "row_get wf_id wid (workflows d) = Some w" "s \<in> ALLOWED_TRANSITIONS (wf_state w)"
    "workflows d' = row_upd wf_id wid (\<lambda>x. (f x)\<lparr>wf_state := s, wf_version := n\<rparr>) (workflows d)"
    using assms(1) unfolding delivers_def by blast
  obtain v where v: "v \<in> set (workflows d)" "w' = (if wf_id v = wid then (f v)\<lparr>wf_state := s, wf_version := n\<rparr> else v)"
    using assms(4) unfolding w(3) row.set_upd by blast
  have "distinct (map wf_id (workflows d))" using assms(2) by (simp add: db_ok_def)
  then have "v = w" if "wf_id v = wid" using get_only [OF _ w(1) v(1) that] by simp
  then show thesis using v w(1,2) that row.get_SomeD [OF w(1)] by (cases "wf_id v = wid") auto
qed

lemma delivers_forward:
  assumes "delivers wid s f d d'" "w \<in> set (workflows d)"
  obtains (other) "wf_id w \<noteq> wid" "w \<in> set (workflows d')" | (moved) n where "wf_id w = wid" "(f w)\<lparr>wf_state := s, wf_version := n\<rparr> \<in> set (workflows d')"
proof -
  obtain n where n: "workflows d' = row_upd wf_id wid (\<lambda>x. (f x)\<lparr>wf_state := s, wf_version := n\<rparr>) (workflows d)"
    using assms(1) unfolding delivers_def by blast
  have "(if wf_id w = wid then (f w)\<lparr>wf_state := s, wf_version := n\<rparr> else w) \<in> set (workflows d')"
    unfolding n row.set_upd using assms(2) by blast
  then show thesis using that by (cases "wf_id w = wid") auto
qed

lemma merges_ok_delivers:
  assumes ok: "merges_ok d" "db_ok d" and st: "delivers wid s (\<lambda>x. x) d d'" "s \<noteq> WS_MERGED" "confirmations d' = confirmations d"
  shows "merges_ok d'"
proof -
  have s: "delivered s" using st(1) by (simp add: delivers_def)
  have same: "merge_confirmed_as d' = merge_confirmed_as d" by (simp add: fun_eq_iff merge_confirmed_as_def st(3))
  have 1: "\<exists>w'\<in>set (workflows d'). settled_for c w'" if c: "c \<in> set (confirmations d)" "mc_status c = ''SUCCEEDED''" for c
  proof -
    obtain w where w: "w \<in> set (workflows d)" "settled_for c w" using ok(1) c by (auto simp: merges_ok_def)
    show ?thesis using st(1) w(1)
    proof (cases rule: delivers_forward)
      case (moved n)
      obtain w0 where w0: "row_get wf_id wid (workflows d) = Some w0" "s \<in> ALLOWED_TRANSITIONS (wf_state w0)"
        using st(1) by (auto simp: delivers_def)
      have "w = w0" using get_only [OF _ w0(1) w(1) moved(1)] ok(2) by (simp add: db_ok_def)
      then have "delivered (wf_state w)" using delivered_stays [OF s] w0(2) st(2) by simp
      then show ?thesis using moved(2) w(2) s by (intro bexI [OF _ moved(2)]) (auto simp: settled_for_def delivered_def)
    qed (use w(2) in blast)
  qed
  have 2: "\<exists>rv m. wf_candidate_revision w' = Some rv \<and> wf_merged_revision w' = Some m \<and> merge_confirmed_as d (wf_id w') rv m"
    if w': "w' \<in> set (workflows d')" "delivered (wf_state w')" for w'
    using st(1) ok(2) plain_id(1) w'(1)
  proof (cases rule: delivers_get)
    case (moved w n)
    have "delivered (wf_state w)" using delivered_stays [OF s moved(3) st(2)] .
    then show ?thesis using ok(1) moved(1,5) by (auto simp: merges_ok_def)
  qed (use ok(1) w'(2) in \<open>auto simp: merges_ok_def\<close>)
  show ?thesis using ok(1) 1 2 unfolding merges_ok_def same st(3) by simp
qed

text \<open>A delivered or rejected workflow is left alone by the task handlers, or rejected.\<close>

definition closed_state :: "workflow_state \<Rightarrow> bool" where
  "closed_state s \<longleftrightarrow> s = WS_REJECTED \<or> delivered s"

lemma closed_not_working: "closed_state s \<Longrightarrow> \<not> working s \<and> s \<noteq> WS_BLOCKED \<and> s \<noteq> WS_AWAITING_HUMAN_APPROVAL"
  by (auto simp: closed_state_def delivered_def working_def)

lemma lifecycle_closed:
  assumes "lifecycle e (w, T) (w', T')" "stage_ok w T" "closed_state (wf_state w)" "e \<noteq> Ev_deliver"
  shows "w' = w \<or> wf_state w' = WS_REJECTED"
proof -
  note idle = closed_not_working [OF assms(3)]
  have no: "\<not> live t" if "t \<in> T" for t using no_live_if_idle [OF assms(2)] idle that by blast
  from assms(1) show ?thesis
  proof (cases rule: lifecycle.cases)
    case settle
    then show ?thesis using assms(3) by (cases "wf_state w") (auto simp: closed_state_def delivered_def)
  qed (use no idle assms(4) in \<open>auto simp: live_def\<close>)
qed

lemma any_step_closed:
  assumes "db_ok d" "any_step service_events d d'" "w \<in> set (workflows d)" "closed_state (wf_state w)"
  shows "\<exists>w'\<in>set (workflows d'). wf_id w' = wf_id w \<and> (w' = w \<or> wf_state w' = WS_REJECTED)"
proof -
  obtain e v where st: "wf_step e v d d'" "e \<noteq> Ev_deliver" using assms(2) by (auto simp: any_step_def service_events_def)
  have get: "row_get wf_id (wf_id w) (workflows d) = Some w"
    using assms(1,3) by (intro row.get_unique) (auto simp: db_ok_def)
  show ?thesis
  proof (cases "wf_id w = v")
    case True
    then obtain w' where w': "row_get wf_id v (workflows d') = Some w'" "lifecycle e (w, wf_tasks d v) (w', wf_tasks d' v)"
      using st(1) get by (auto simp: wf_step_def)
    have "stage_ok w (wf_tasks d v)" using assms(1,3) True by (auto simp: db_ok_def wf_ok_def)
    from lifecycle_closed [OF w'(2) this assms(4) st(2)] row.get_SomeD [OF w'(1)] True show ?thesis
      by (intro bexI [of _ w']) simp_all
  next
    case False
    then have "row_get wf_id (wf_id w) (workflows d') = Some w" using st(1) get by (simp add: wf_step_def)
    then show ?thesis using row.get_SomeD by fast
  qed
qed

lemma any_steps_closed:
  assumes "(any_step service_events)\<^sup>*\<^sup>* d d'" "db_ok d" "w \<in> set (workflows d)" "closed_state (wf_state w)"
  shows "\<exists>w'\<in>set (workflows d'). wf_id w' = wf_id w \<and> (w' = w \<or> wf_state w' = WS_REJECTED)"
  using assms(1)
proof (induction rule: rtranclp_induct)
  case (step d1 d2)
  then obtain w1 where w1: "w1 \<in> set (workflows d1)" "wf_id w1 = wf_id w" "w1 = w \<or> wf_state w1 = WS_REJECTED" by blast
  have "closed_state (wf_state w1)" using w1(3) assms(4) by (auto simp: closed_state_def)
  from any_step_closed [OF any_steps_db_ok [OF step(1) assms(2)] step(2) w1(1) this] show ?case using w1(2,3) by metis
qed (use assms(3) in blast)

lemma svc_step_closed:
  assumes "svc_ok (d, P)" "svc_step cf (d, P) (d', P')" "w \<in> set (workflows d)" "closed_state (wf_state w)"
  shows "\<exists>w'\<in>set (workflows d'). wf_id w' = wf_id w \<and> (w' = w \<or> wf_state w' = WS_REJECTED)"
  using svc_step_refines [OF assms(1,2)]
proof (elim disjE)
  assume "born d d'"
  then show ?thesis using assms(3) by (auto simp: born_def)
next
  assume "(any_step service_events)\<^sup>*\<^sup>* d d'"
  then show ?thesis using assms any_steps_closed by (auto simp: svc_ok_pair)
qed (use assms(3) in \<open>auto simp: same_core_def\<close>)

lemma merges_ok_svc:
  assumes ok: "svc_ok (d, P)" "merges_ok d" and st: "svc_step cf (d, P) (d', P')" and same: "confirmations d' = confirmations d"
  shows "merges_ok d'"
proof -
  have "\<exists>w'\<in>set (workflows d'). settled_for c w'" if c: "c \<in> set (confirmations d)" "mc_status c = ''SUCCEEDED''" for c
  proof -
    obtain w where w: "w \<in> set (workflows d)" "settled_for c w" using ok(2) c by (auto simp: merges_ok_def)
    then have "closed_state (wf_state w)" by (auto simp: settled_for_def closed_state_def)
    from svc_step_closed [OF ok(1) st w(1) this] show ?thesis using w(2) by (auto simp: settled_for_def)
  qed
  moreover have "merge_confirmed_as d' = merge_confirmed_as d" by (simp add: fun_eq_iff merge_confirmed_as_def same)
  ultimately show ?thesis using ok(2) svc_step_delivered [OF ok(1) st] unfolding merges_ok_def same by auto
qed

text \<open>A confirmation that is added or closed as failed is not yet, or not, a success.\<close>

lemma merges_ok_pending:
  assumes "merges_ok d" "workflows d' = workflows d" "distinct (map mc_id (confirmations d'))"
    "\<And>c. mc_status c = ''SUCCEEDED'' \<Longrightarrow> c \<in> set (confirmations d') \<longleftrightarrow> c \<in> set (confirmations d)"
  shows "merges_ok d'"
proof -
  have "merge_confirmed_as d' = merge_confirmed_as d" using assms(4) by (auto simp: fun_eq_iff merge_confirmed_as_def)
  then show ?thesis using assms(1,3) assms(4) unfolding merges_ok_def assms(2) by (elim conjE) (intro conjI ballI impI; blast?; simp)
qed

lemma merges_ok_complete:
  assumes ok: "merges_ok d" "db_ok d" and c: "pending d rid c"
    and w: "row_get wf_id (mc_workflow_id c) (workflows d) = Some w" "wf_candidate_revision w = Some (mc_revision c)"
    and st: "delivers (mc_workflow_id c) WS_MERGED (\<lambda>w. w\<lparr>wf_merged_revision := Some m\<rparr>) d d'"
      "confirmations d' = row_upd mc_id rid (\<lambda>c. c\<lparr>mc_status := ''SUCCEEDED'', mc_merge_commit_revision := Some m,
       mc_completed_at := Some t\<rparr>) (confirmations d)"
  shows "merges_ok d'" "\<And>x. x \<in> set (confirmations d) \<Longrightarrow> mc_status x = ''SUCCEEDED'' \<Longrightarrow> x \<in> set (confirmations d')"
proof -
  let ?g = "\<lambda>c. c\<lparr>mc_status := ''SUCCEEDED'', mc_merge_commit_revision := Some m, mc_completed_at := Some t\<rparr>"
  let ?f = "\<lambda>w. w\<lparr>wf_merged_revision := Some m\<rparr> :: workflow"
  have dist: "distinct (map mc_id (confirmations d))" "distinct (map wf_id (workflows d))"
    using ok by (simp_all add: merges_ok_def db_ok_def)
  have cget: "row_get mc_id rid (confirmations d) = Some c" "mc_status c = ''RUNNING''" using c by (simp_all add: pending_def)
  have cs: "x \<in> set (confirmations d') \<longleftrightarrow> (x \<in> set (confirmations d) \<and> mc_id x \<noteq> rid) \<or> x = ?g c" for x
  proof -
    have "y = c" if "y \<in> set (confirmations d)" "mc_id y = rid" for y using get_only [OF dist(1) cget(1) that] .
    then show ?thesis using row.get_SomeD [OF cget(1)] unfolding st(2) row.set_upd by (auto simp: image_iff)
  qed
  have ap: "wf_state w = WS_APPROVED"
  proof -
    obtain w0 where "row_get wf_id (mc_workflow_id c) (workflows d) = Some w0" "WS_MERGED \<in> ALLOWED_TRANSITIONS (wf_state w0)"
      using st(1) by (auto simp: delivers_def)
    then show ?thesis using w(1) by (cases "wf_state w") auto
  qed
  show keep: "x \<in> set (confirmations d')" if "x \<in> set (confirmations d)" "mc_status x = ''SUCCEEDED''" for x
    using that cs [of x] get_only [OF dist(1) cget(1), of x] cget(2) by auto
  note win = row.get_SomeD [OF w(1)]
  have "\<exists>w'\<in>set (workflows d'). settled_for x w'" if x: "x \<in> set (confirmations d')" "mc_status x = ''SUCCEEDED''" for x
  proof (cases "x = ?g c")
    case True
    from st(1) have "w \<in> set (workflows d)" using win by simp
    from st(1) this show ?thesis
    proof (cases rule: delivers_forward)
      case (moved n)
      then show ?thesis using w(2) win True by (intro bexI [OF _ moved(2)]) (simp add: settled_for_def delivered_def)
    qed (use win in simp)
  next
    case False
    then have "x \<in> set (confirmations d)" using x(1) cs by blast
    then obtain v where v: "v \<in> set (workflows d)" "settled_for x v" using ok(1) x(2) by (auto simp: merges_ok_def)
    have "v \<noteq> w" using v(2) ap by (auto simp: settled_for_def delivered_def)
    then have ne: "wf_id v \<noteq> mc_workflow_id c" using get_only [OF dist(2) w(1) v(1)] by blast
    from st(1) v(1) show ?thesis by (cases rule: delivers_forward) (use v(2) ne in auto)
  qed
  moreover have "\<exists>rv q. wf_candidate_revision w' = Some rv \<and> wf_merged_revision w' = Some q \<and> merge_confirmed_as d' (wf_id w') rv q"
    if w': "w' \<in> set (workflows d')" "delivered (wf_state w')" for w'
    using st(1) ok(2) plain_id(2) w'(1)
  proof (cases rule: delivers_get)
    case other
    then obtain rv q where rv: "wf_candidate_revision w' = Some rv" "wf_merged_revision w' = Some q" "merge_confirmed_as d (wf_id w') rv q"
      using ok(1) w'(2) by (auto simp: merges_ok_def)
    moreover have "merge_confirmed_as d' (wf_id w') rv q" using rv(3) keep by (auto simp: merge_confirmed_as_def)
    ultimately show ?thesis by blast
  next
    case (moved v n)
    then have "v = w" using w(1) by simp
    moreover have "merge_confirmed_as d' (mc_workflow_id c) (mc_revision c) m"
      unfolding merge_confirmed_as_def by (intro bexI [of _ "?g c"]) (simp_all add: cs)
    ultimately show ?thesis using moved win w(2) by simp
  qed
  moreover have "distinct (map mc_id (confirmations d'))" unfolding st(2) using dist(1) by (simp add: row.keys_upd)
  ultimately show "merges_ok d'" unfolding merges_ok_def by blast
qed

section \<open>Keeping plans and executions\<close>

lemma plan_ok_lasts: "lasts d d' \<Longrightarrow> plan_ok d p \<Longrightarrow> plan_ok d' p"
  unfolding plan_ok_def merge_confirmed_as_def lasts_def by blast

lemma plans_ok_lasts:
  assumes "lasts d d'" "plans_ok d" "environments d' = environments d" "plans d' = plans d"
  shows "plans_ok d'"
  using assms plan_ok_lasts [OF assms(1)] by (auto simp: plans_ok_def)

definition attempt_key :: "deployment_attempt_record \<Rightarrow> ident \<times> ident \<times> ident \<times> ident" where
  "attempt_key a = (da_id a, da_workflow_id a, da_plan_id a, da_approval_id a)"

definition rollback_key :: "deployment_rollback_record \<Rightarrow> ident \<times> ident \<times> ident \<times> ident" where
  "rollback_key r = (dr_id r, dr_workflow_id r, dr_attempt_id r, dr_approval_id r)"

lemma executions_ok_lasts:
  assumes "lasts d d'" "executions_ok d" "map attempt_key (deployments d') = map attempt_key (deployments d)"
    "map rollback_key (rollbacks d') = map rollback_key (rollbacks d)"
  shows "executions_ok d'"
proof -
  have m: "map da_id (deployments d') = map da_id (deployments d)" "map da_approval_id (deployments d') = map da_approval_id (deployments d)"
    using arg_cong [OF assms(3), of "map fst"] arg_cong [OF assms(3), of "map (\<lambda>k. snd (snd (snd k)))"]
    by (simp_all add: attempt_key_def comp_def)
  have r: "map dr_id (rollbacks d') = map dr_id (rollbacks d)" "map dr_approval_id (rollbacks d') = map dr_approval_id (rollbacks d)"
    using arg_cong [OF assms(4), of "map fst"] arg_cong [OF assms(4), of "map (\<lambda>k. snd (snd (snd k)))"]
    by (simp_all add: rollback_key_def comp_def)
  have "attempt_backed d' a" if "a \<in> set (deployments d')" for a
  proof -
    have "attempt_key a \<in> attempt_key ` set (deployments d)" using that assms(3) by (metis image_eqI list.set_map)
    then obtain b where "b \<in> set (deployments d)" "attempt_key a = attempt_key b" by blast
    then show ?thesis using attempt_backed_lasts [OF assms(1)] assms(2) by (auto simp: executions_ok_def attempt_key_def)
  qed
  moreover have "rollback_backed d' x" if "x \<in> set (rollbacks d')" for x
  proof -
    have "rollback_key x \<in> rollback_key ` set (rollbacks d)" using that assms(4) by (metis image_eqI list.set_map)
    then obtain y where "y \<in> set (rollbacks d)" "rollback_key x = rollback_key y" by blast
    then show ?thesis using rollback_backed_lasts [OF assms(1)] assms(2) by (auto simp: executions_ok_def rollback_key_def)
  qed
  ultimately show ?thesis using assms(2) m r unfolding executions_ok_def by simp
qed

section \<open>Every step keeps the invariant\<close>

text \<open>A step that leaves plans, environments and the keys of executions alone, and moves no workflow into a
  state that needs an execution on record.\<close>

lemma plane_ok_quiet:
  assumes ok: "plane_ok (d, P, S)" and d': "svc_ok (d', P')" "approvals_ok d'" "merges_ok d'" "lasts d d'"
    and same: "environments d' = environments d" "plans d' = plans d" "deployments d' = deployments d" "rollbacks d' = rollbacks d"
    and ws: "\<And>w'. w' \<in> set (workflows d') \<Longrightarrow> wf_state w' \<in> {WS_DEPLOYED, WS_ROLLBACK_REQUIRED, WS_ROLLED_BACK} \<Longrightarrow>
      \<exists>w\<in>set (workflows d). wf_id w' = wf_id w \<and> wf_state w' = wf_state w"
  shows "plane_ok (d', P', S)"
proof -
  have "plans_ok d'" using plans_ok_lasts [OF d'(4) _ same(1,2)] ok by (simp add: plane_ok_iff)
  moreover have "executions_ok d'" using executions_ok_lasts [OF d'(4)] ok same by (simp add: plane_ok_iff)
  moreover have "outcome_ok d' w'" if "w' \<in> set (workflows d')" for w'
  proof (cases "wf_state w' \<in> {WS_DEPLOYED, WS_ROLLBACK_REQUIRED, WS_ROLLED_BACK}")
    case True
    then show ?thesis using ws [OF that True] outcome_ok_lasts [OF d'(4)] ok by (auto simp: plane_ok_iff)
  qed (auto simp: outcome_ok_def)
  moreover have "call_ok d' c" if "c \<in> set S" for c using call_ok_lasts [OF d'(4)] ok that by (simp add: plane_ok_iff)
  ultimately show ?thesis using d' by (simp add: plane_ok_iff)
qed

lemma service_ok:
  assumes ok: "plane_ok (d, P, S)" and st: "svc_step cf (d, P) (d', P')"
  shows "plane_ok (d', P', S)"
proof -
  have d: "svc_ok (d, P)" "approvals_ok d" "merges_ok d" using ok by (simp_all add: plane_ok_iff)
  have fr: "same_outer d d' \<and> approvals_ok d' \<and> all_kept kept_approval (approvals d) (approvals d')"
    using svc_step_frame [OF st]
  proof (elim disjE exE conjE)
    assume "steady d d'"
    then show ?thesis using approvals_ok_same [OF d(2)] by (simp add: steady_def)
  next
    fix en wid ap action target revision adec ra mins env_id pd aid r
    assume "fresh_ids en d" and run: "approve cf en wid ap action target revision adec ra mins env_id pd aid d = Inr (r, d')"
    then show ?thesis using approve_approvals_ok [OF d(2) _ run] approve_frame(5) [OF run] by simp
  qed
  show ?thesis
  proof (rule plane_ok_quiet [OF ok svc_step_ok [OF d(1) st]])
    show "merges_ok d'" using merges_ok_svc [OF d(1,3) st] fr by simp
    show "\<exists>w\<in>set (workflows d). wf_id w' = wf_id w \<and> wf_state w' = wf_state w"
      if "w' \<in> set (workflows d')" "wf_state w' \<in> {WS_DEPLOYED, WS_ROLLBACK_REQUIRED, WS_ROLLED_BACK}" for w'
      using svc_step_delivered [OF d(1) st that(1)] that(2) by (auto simp: delivered_def)
  qed (use fr in \<open>simp_all add: lasts_def\<close>)
qed

lemma inert_ok: "plane_ok (d, P, S) \<Longrightarrow> inert d d' \<Longrightarrow> plane_ok (d', P, S)"
  by (rule plane_ok_quiet [of d P S])
    (auto simp: plane_ok_iff inert_def core_kept_def intro: core_svc_ok approvals_ok_same merges_ok_same)

lemma confirmations_ok:
  assumes ok: "plane_ok (d, P, S)" and d': "core_kept d d'" "but_confirmations d d'"
    "distinct (map mc_id (confirmations d'))"
    "\<And>c. mc_status c = ''SUCCEEDED'' \<Longrightarrow> c \<in> set (confirmations d') \<longleftrightarrow> c \<in> set (confirmations d)"
  shows "plane_ok (d', P, S)"
proof (rule plane_ok_quiet [OF ok])
  show "svc_ok (d', P)" by (rule core_svc_ok [OF _ d'(1)]) (use ok d'(2) in \<open>simp_all add: plane_ok_iff\<close>)
  show "approvals_ok d'" by (rule approvals_ok_same [of d]) (use ok d' in \<open>simp_all add: plane_ok_iff core_kept_def\<close>)
  show "merges_ok d'" by (rule merges_ok_pending [of d]) (use ok d' in \<open>simp_all add: plane_ok_iff core_kept_def\<close>)
  show "lasts d d'" using d'(2,4) by (simp add: lasts_def)
qed (use d' in \<open>auto simp: core_kept_def\<close>)

lemma start_confirmation_ok:
  assumes ok: "plane_ok (d, P, S)" "fresh_rows en d" and run: "start_confirmation cf g en wid pid aid actor key d = Inr (x, d')"
  shows "plane_ok (d', P, S)"
  using start_confirmation_effect [OF run]
proof (elim disjE exE conjE)
  fix c assume d': "core_kept d d'" "approvals d' = approvals d" "environments d' = environments d" "plans d' = plans d"
    "deployments d' = deployments d" "rollbacks d' = rollbacks d" and c: "confirmations d' = confirmations d @ [c]"
    "mc_id c = en_uuid en 0"
  have "mc_status c \<noteq> ''SUCCEEDED''"
  proof -
    have "mc_status x = ''RUNNING''" if "confirmations d' = confirmations d @ [x]" for x
      using run that by (auto simp: start_confirmation_def tx_simps Let_def row_add_def new_confirmation_def split: option.splits if_splits)
    then show ?thesis using c(1) by simp
  qed
  moreover have "distinct (map mc_id (confirmations d'))"
    using ok by (simp add: c fresh_rows_def plane_ok_iff merges_ok_def)
  ultimately show ?thesis using d' c(1) by (intro confirmations_ok [OF ok(1) d'(1)]) auto
qed (rule inert_ok [OF ok(1)])

lemma settle_confirmation_ok:
  assumes ok: "plane_ok (d, P, S)" and run: "settle_confirmation cf en rid answer d = (r, d')"
  shows "plane_ok (d', P, S)"
proof -
  have failed: "plane_ok (mark_merge_confirmation_failed cf en rid code d, P, S)" for code
    using mark_merge_confirmation_failed_effect [of d cf en rid code]
  proof (elim disjE exE conjE)
    fix c f assume c: "pending d rid c" "core_kept d (mark_merge_confirmation_failed cf en rid code d)"
      "\<forall>x. mc_id (f x) = mc_id x \<and> mc_status (f x) = ''FAILED''"
      "confirmations (mark_merge_confirmation_failed cf en rid code d) = row_upd mc_id rid f (confirmations d)"
    then have same: "but_confirmations d (mark_merge_confirmation_failed cf en rid code d)"
      by (auto simp: mark_merge_confirmation_failed_def pending_def)
    have dist: "distinct (map mc_id (confirmations d))" using ok by (simp add: plane_ok_iff merges_ok_def)
    have run: "mc_status x = ''RUNNING''" if "x \<in> set (confirmations d)" "mc_id x = rid" for x
      using get_only [OF dist _ that] c(1) by (auto simp: pending_def)
    show ?thesis
    proof (rule confirmations_ok [OF ok c(2) same])
      show "distinct (map mc_id (confirmations (mark_merge_confirmation_failed cf en rid code d)))"
        unfolding c(4) using dist c(3) by (simp add: row.keys_upd)
      show "x \<in> set (confirmations (mark_merge_confirmation_failed cf en rid code d)) \<longleftrightarrow> x \<in> set (confirmations d)"
        if "mc_status x = ''SUCCEEDED''" for x
        unfolding c(4) row.set_upd using that c(3) run [of x] by (auto simp: image_iff)
    qed
  qed (rule inert_ok [OF ok])
  have success: "plane_ok (d1, P, S)" if comp: "complete_merge_confirmation cf en rid res d = Inr (j, d1)" for res j d1
  proof -
    obtain c w m where c: "pending d rid c" "row_get wf_id (mc_workflow_id c) (workflows d) = Some w"
      "wf_candidate_revision w = Some (mc_revision c)"
      and dl: "delivers (mc_workflow_id c) WS_MERGED (\<lambda>w. w\<lparr>wf_merged_revision := Some m\<rparr>) d d1" and same: "but_confirmations d d1"
      and cs: "confirmations d1 = row_upd mc_id rid (\<lambda>c. c\<lparr>mc_status := ''SUCCEEDED'', mc_merge_commit_revision := Some m,
        mc_completed_at := Some (en_now en 0)\<rparr>) (confirmations d)"
      using comp by (rule complete_merge_confirmation_effect)
    have d: "svc_ok (d, P)" "approvals_ok d" "merges_ok d" "db_ok d" using ok by (simp_all add: plane_ok_iff svc_ok_pair)
    note mg = merges_ok_complete [OF d(3,4) c dl cs]
    show ?thesis
    proof (rule plane_ok_quiet [OF ok delivers_svc_ok [OF d(1) dl] _ mg(1)])
      show "approvals_ok d1" by (rule approvals_ok_same [OF d(2)]) (use dl same in \<open>simp_all add: delivers_def\<close>)
      show "lasts d d1" using same mg(2) by (simp add: lasts_def)
      show "\<exists>w\<in>set (workflows d). wf_id w' = wf_id w \<and> wf_state w' = wf_state w"
        if "w' \<in> set (workflows d1)" "wf_state w' \<in> {WS_DEPLOYED, WS_ROLLBACK_REQUIRED, WS_ROLLED_BACK}" for w'
        using dl d(4) plain_id(2) that(1) by (cases rule: delivers_get) (use that(2) in auto)
    qed (use same in simp_all)
  qed
  show ?thesis using run failed success
    by (auto simp: settle_confirmation_def split: sum.splits)
qed

lemma register_ok:
  assumes ok: "plane_ok (d, P, S)" and run: "register_deployment_environment cf dc en actor sp d = Inr (r, d')"
  shows "plane_ok (d', P, S)"
  using register_effect [OF run]
proof (elim disjE exE conjE)
  fix e assume d': "d' = d\<lparr>environments := environments d @ [e]\<rparr>" and e: "environment_wf e"
  have l: "lasts d d'" by (auto simp: lasts_def d')
  have "svc_ok (d', P)" by (rule core_svc_ok [of d]) (use ok in \<open>simp_all add: plane_ok_iff d' core_kept_def\<close>)
  moreover have "approvals_ok d'" "merges_ok d'"
    using ok by (auto simp: plane_ok_iff d' intro: approvals_ok_same [of d] merges_ok_same [of d])
  moreover have "plans_ok d'" using ok e plan_ok_lasts [OF l] by (auto simp: plane_ok_iff plans_ok_def d')
  moreover have "executions_ok d'" using executions_ok_lasts [OF l] ok by (simp add: plane_ok_iff d')
  moreover have "outcome_ok d' w" if "w \<in> set (workflows d')" for w
    using outcome_ok_lasts [OF l _ refl refl] ok that by (simp add: plane_ok_iff d')
  moreover have "call_ok d' c" if "c \<in> set S" for c using call_ok_lasts [OF l] ok that by (simp add: plane_ok_iff)
  ultimately show ?thesis by (simp add: plane_ok_iff)
qed (rule inert_ok [OF ok])

text \<open>The same when executions, plans or outcomes do change: the parts to check.\<close>

lemma plane_ok_outcomes:
  assumes ok: "plane_ok (d, P, S)" and l: "lasts d d'"
    and parts: "svc_ok (d', P)" "approvals_ok d'" "merges_ok d'" "plans_ok d'" "executions_ok d'"
    and ws: "\<And>w'. w' \<in> set (workflows d') \<Longrightarrow> (\<exists>w\<in>set (workflows d). wf_id w' = wf_id w \<and> wf_state w' = wf_state w) \<or>
      outcome_ok d' w'"
    and calls: "\<And>c. c \<in> set S' \<Longrightarrow> c \<in> set S \<or> call_ok d' c"
  shows "plane_ok (d', P, S')"
proof -
  have "outcome_ok d' w'" if "w' \<in> set (workflows d')" for w'
    using ws [OF that] outcome_ok_lasts [OF l] ok by (auto simp: plane_ok_iff)
  moreover have "call_ok d' c" if "c \<in> set S'" for c using calls [OF that] call_ok_lasts [OF l] ok by (auto simp: plane_ok_iff)
  ultimately show ?thesis using parts by (simp add: plane_ok_iff)
qed

lemma plan_step_ok:
  assumes ok: "plane_ok (d, P, S)" "fresh_rows en d" and run: "create_deployment_plan cf dc en wid actor ps d = Inr (r, d')"
  shows "plane_ok (d', P, S)"
proof (cases "d' = d")
  case False
  then obtain w e p where ad: "adds_plan w e p d d'" and id: "dp_id p = en_uuid en 0"
    using create_plan_effect [OF run] by blast
  let ?wid = "dp_workflow_id p"
  have dl: "delivers ?wid WS_AWAITING_DEPLOYMENT_APPROVAL (\<lambda>x. x) d d'" and pl: "plans d' = plans d @ [p]"
    and same: "approvals d' = approvals d" "environments d' = environments d" "deployments d' = deployments d"
      "rollbacks d' = rollbacks d" "confirmations d' = confirmations d"
    and w: "row_get wf_id ?wid (workflows d) = Some w" "wf_state w = WS_MERGED" "wf_merged_revision w = Some (dp_revision p)"
    using ad by (simp_all add: adds_plan_def)
  have d: "svc_ok (d, P)" "approvals_ok d" "merges_ok d" "db_ok d" "plans_ok d" "executions_ok d"
    using ok(1) by (simp_all add: plane_ok_iff svc_ok_pair)
  have l: "lasts d d'" using same pl by (simp add: lasts_def subset_insertI)
  have mg: "merges_ok d'" by (rule merges_ok_delivers [OF d(3,4) dl _ same(5)]) simp
  obtain rv where "merge_confirmed_as d ?wid rv (dp_revision p)"
    using d(3) row.get_SomeD [OF w(1)] w(2,3) by (auto simp: merges_ok_def delivered_def)
  then have "merge_confirmed_as d' ?wid rv (dp_revision p)" by (simp add: merge_confirmed_as_def same(5))
  moreover have "within_environment p e" "e \<in> set (environments d')"
    using ad by (simp_all add: adds_plan_def within_environment_def)
  ultimately have "plan_ok d' p" by (auto simp: plan_ok_def)
  moreover have "plan_wf p" using ad by (simp add: adds_plan_def)
  moreover have "dp_id p \<notin> dp_id ` set (plans d)" using ok(2) id by (simp add: fresh_rows_def)
  ultimately have "plans_ok d'" using d(5) plan_ok_lasts [OF l] by (auto simp: plans_ok_def pl same(2))
  moreover have "executions_ok d'" using executions_ok_lasts [OF l d(6)] same by simp
  moreover have "svc_ok (d', P)" by (rule delivers_svc_ok [OF d(1) dl _ same(1)]) simp
  moreover have "approvals_ok d'" by (rule approvals_ok_same [OF d(2) same(1)]) (use dl in \<open>simp add: delivers_def\<close>)
  moreover have "(\<exists>w\<in>set (workflows d). wf_id w' = wf_id w \<and> wf_state w' = wf_state w) \<or> outcome_ok d' w'"
    if "w' \<in> set (workflows d')" for w'
    using dl d(4) plain_id(1) that by (cases rule: delivers_get) (auto simp: outcome_ok_def)
  ultimately show ?thesis using mg by (intro plane_ok_outcomes [OF ok(1) l]) auto
qed (use ok(1) in simp)

lemma used_by_consumption:
  assumes "ap \<in> set (approvals d)" "approvals d' = row_upd ap_id (ap_id ap) (\<lambda>x. x\<lparr>ap_consumed_at := Some t\<rparr>) (approvals d)"
  shows "ap\<lparr>ap_consumed_at := Some t\<rparr> \<in> set (approvals d')"
  using assms unfolding assms(2) row.set_upd by (auto simp: image_iff)

text \<open>An approval that is still unconsumed has backed nothing yet.\<close>

lemma unused_approval:
  assumes "approvals_ok d" "executions_ok d" "ap \<in> set (approvals d)" "ap_consumed_at ap = None"
  shows "ap_id ap \<notin> da_approval_id ` set (deployments d)" "ap_id ap \<notin> dr_approval_id ` set (rollbacks d)"
proof -
  have uniq: "x = ap" if "x \<in> set (approvals d)" "ap_id x = ap_id ap" for x
    using assms(1,3) that by (auto simp: approvals_ok_def distinct_map inj_on_def)
  show "ap_id ap \<notin> da_approval_id ` set (deployments d)"
  proof
    assume "ap_id ap \<in> da_approval_id ` set (deployments d)"
    then obtain a where "a \<in> set (deployments d)" "da_approval_id a = ap_id ap" by auto
    then show False using assms(2,4) uniq by (fastforce simp: executions_ok_def attempt_backed_def used_for_def)
  qed
  show "ap_id ap \<notin> dr_approval_id ` set (rollbacks d)"
  proof
    assume "ap_id ap \<in> dr_approval_id ` set (rollbacks d)"
    then obtain a where "a \<in> set (rollbacks d)" "dr_approval_id a = ap_id ap" by auto
    then show False using assms(2,4) uniq by (fastforce simp: executions_ok_def rollback_backed_def used_for_def)
  qed
qed

lemma backed_last:
  assumes "lasts d d'" "executions_ok d"
  shows "a \<in> set (deployments d) \<Longrightarrow> attempt_backed d' a" "r \<in> set (rollbacks d) \<Longrightarrow> rollback_backed d' r"
  using attempt_backed_lasts [OF assms(1) _ refl refl refl, of a] rollback_backed_lasts [OF assms(1) _ refl refl refl, of r] assms(2)
  by (simp_all add: executions_ok_def)

lemma begins_ok:
  assumes ok: "plane_ok (d, P, S)" "fresh_rows en d" and b: "begins en sim st ap p a d d'"
  shows "plane_ok (d', P, S)" "a \<in> set (deployments d')" "lasts d d'"
proof -
  have d: "svc_ok (d, P)" "approvals_ok d" "merges_ok d" "plans_ok d" "executions_ok d"
    using ok(1) by (simp_all add: plane_ok_iff)
  have ck: "core_kept d d'" and deps: "deployments d' = deployments d @ [a]"
    and same: "environments d' = environments d" "plans d' = plans d" "rollbacks d' = rollbacks d" "confirmations d' = confirmations d"
    and ap: "ap \<in> set (approvals d)" "ap_consumed_at ap = None"
      "approvals d' = row_upd ap_id (ap_id ap) (\<lambda>x. x\<lparr>ap_consumed_at := Some (en_now en 3)\<rparr>) (approvals d)"
    using b by (simp_all add: begins_def)
  have ws: "workflows d' = workflows d" "principals d' = principals d" using ck by (simp_all add: core_kept_def)
  note con = approvals_ok_consume [OF d(2) ws(2) ap(3)]
  show l: "lasts d d'" using con(2) same by (auto simp: lasts_def deps intro: all_kept_subset)
  have new: "attempt_backed d' a"
    unfolding attempt_backed_def
    by (rule bexI [OF _ used_by_consumption [OF ap(1,3)]], rule bexI [of _ p]) (use b in \<open>simp_all add: begins_def used_for_def\<close>)
  have "executions_ok d'"
  proof -
    have "attempt_backed d' x" if "x \<in> set (deployments d)" for x using backed_last(1) [OF l d(5) that] .
    moreover have "rollback_backed d' x" if "x \<in> set (rollbacks d)" for x using backed_last(2) [OF l d(5) that] .
    moreover have "da_id a \<notin> da_id ` set (deployments d)" using ok(2) b by (simp add: fresh_rows_def begins_def)
    moreover have "da_approval_id a \<notin> da_approval_id ` set (deployments d)"
      using unused_approval(1) [OF d(2,5) ap(1,2)] b by (simp add: begins_def)
    ultimately show ?thesis using d(5) new by (auto simp: executions_ok_def deps same)
  qed
  then show "plane_ok (d', P, S)"
    using con(1) merges_ok_same [OF d(3) ws(1) same(4)] plans_ok_lasts [OF l d(4) same(1,2)]
      core_svc_ok [OF d(1) ck con(2)]
    by (intro plane_ok_outcomes [OF ok(1) l]) (auto simp: ws)
  show "a \<in> set (deployments d')" by (simp add: deps)
qed

lemma closes_ok:
  assumes ok: "plane_ok (d, P, S)" and cl: "closes loc aid wid d d'"
    and kind: "\<And>a. a \<in> set (deployments d) \<Longrightarrow> da_id a = aid \<Longrightarrow> da_status a = DS_RUNNING \<Longrightarrow>
      da_workflow_id a = wid \<and> (if loc then local_attempt d a else da_simulated a)"
    and S': "set S' \<subseteq> set S"
  shows "plane_ok (d', P, S')"
proof -
  obtain a f s where run: "running_deployment d aid = Some a" and f: "settles aid f s"
    and sim: "if loc then \<forall>x. da_simulated (f x) = da_simulated x else s \<noteq> Some WS_DEPLOYED"
    and deps: "deployments d' = row_upd da_id aid f (deployments d)"
    and same: "approvals d' = approvals d" "environments d' = environments d" "plans d' = plans d" "rollbacks d' = rollbacks d"
      "confirmations d' = confirmations d"
    and move: "case s of None \<Rightarrow> core_kept d d' | Some ws \<Rightarrow> delivers wid ws (\<lambda>x. x) d d'"
    using cl unfolding closes_def by (elim exE conjE) blast
  have d: "svc_ok (d, P)" "approvals_ok d" "merges_ok d" "plans_ok d" "executions_ok d" "db_ok d"
    using ok by (simp_all add: plane_ok_iff svc_ok_pair)
  have get: "row_get da_id aid (deployments d) = Some a" "da_status a = DS_RUNNING"
    using run by (auto simp: running_deployment_def split: option.splits if_splits)
  note ain = row.get_SomeD [OF get(1)]
  have dist: "distinct (map da_id (deployments d))" using d(5) by (simp add: executions_ok_def)
  have only: "x = a" if "x \<in> set (deployments d)" "da_id x = aid" for x by (rule get_only [OF dist get(1) that])
  have fk: "da_id (f x) = da_id x" "da_workflow_id (f x) = da_workflow_id x" "da_plan_id (f x) = da_plan_id x"
    "da_approval_id (f x) = da_approval_id x" "da_status (f x) \<noteq> DS_RUNNING" for x
    using f by (simp_all add: settles_def)
  have kept: "kept_attempt a (f a)"
    using fk get(2) sim kind [of a] ain by (auto simp: kept_attempt_def split: if_splits)
  have l: "lasts d d'"
    using same all_kept_upd [of "deployments d" kept_attempt da_id aid f] only kept by (auto simp: lasts_def deps)
  have keys: "map attempt_key (deployments d') = map attempt_key (deployments d)"
    unfolding deps row_upd_def by (simp add: attempt_key_def fk)
  have fa: "f a \<in> set (deployments d')" unfolding deps row.set_upd using ain by (auto simp: image_iff)
  have parts: "svc_ok (d', P) \<and> merges_ok d' \<and> principals d' = principals d"
  proof (cases s)
    case None
    then have ck: "core_kept d d'" using move by simp
    show ?thesis using core_svc_ok [OF d(1) ck] merges_ok_same [OF d(3) _ same(5)] ck by (simp add: same core_kept_def)
  next
    case (Some ws)
    then have dl: "delivers wid ws (\<lambda>x. x) d d'" and ne: "ws \<noteq> WS_MERGED" using move f by (auto simp: settles_def)
    then show ?thesis using delivers_svc_ok [OF d(1) dl _ same(1)] merges_ok_delivers [OF d(3,6) dl ne same(5)]
      by (simp add: delivers_def)
  qed
  have out: "(\<exists>w\<in>set (workflows d). wf_id w' = wf_id w \<and> wf_state w' = wf_state w) \<or> outcome_ok d' w'"
    if w': "w' \<in> set (workflows d')" for w'
  proof (cases s)
    case None
    then show ?thesis using move w' by (auto simp: core_kept_def)
  next
    case (Some ws)
    then have dl: "delivers wid ws (\<lambda>x. x) d d'" using move by simp
    from dl d(6) plain_id(1) w' show ?thesis
    proof (cases rule: delivers_get)
      case (moved w n)
      have wf: "wf_id w' = wid" "wf_state w' = ws" using moved by simp_all
      have a: "da_workflow_id (f a) = wid" using fk kind [of a] ain get(2) by simp
      have "local_attempt d' (f a)" if "ws = WS_DEPLOYED"
        using local_attempt_lasts [OF l _ kept] kind [of a] ain get(2) sim Some that by (auto split: if_splits)
      then show ?thesis using f fa a wf Some unfolding settles_def outcome_ok_def by auto
    qed blast
  qed
  show ?thesis
    using parts approvals_ok_same [OF d(2) same(1)] plans_ok_lasts [OF l d(4) same(2,3)]
      executions_ok_lasts [OF l d(5) keys] same(4) out S'
    by (intro plane_ok_outcomes [OF ok l]) auto
qed

lemma begins_rollback_ok:
  assumes ok: "plane_ok (d, P, S)" "fresh_rows en d" and b: "begins_rollback en rs ap p a r d d'"
  shows "plane_ok (d', P, Call_rollback rs # S)"
proof -
  have d: "svc_ok (d, P)" "approvals_ok d" "merges_ok d" "plans_ok d" "executions_ok d"
    using ok(1) by (simp_all add: plane_ok_iff)
  have ck: "core_kept d d'" and rbs: "rollbacks d' = rollbacks d @ [r]"
    and same: "environments d' = environments d" "plans d' = plans d" "deployments d' = deployments d" "confirmations d' = confirmations d"
    and ap: "ap \<in> set (approvals d)" "ap_consumed_at ap = None"
      "approvals d' = row_upd ap_id (ap_id ap) (\<lambda>x. x\<lparr>ap_consumed_at := Some (en_now en 3)\<rparr>) (approvals d)"
    using b by (simp_all add: begins_rollback_def)
  have ws: "workflows d' = workflows d" "principals d' = principals d" using ck by (simp_all add: core_kept_def)
  note con = approvals_ok_consume [OF d(2) ws(2) ap(3)]
  have l: "lasts d d'" using con(2) same by (auto simp: lasts_def rbs intro: all_kept_subset)
  have new: "rollback_backed d' r"
    unfolding rollback_backed_def
    by (rule bexI [OF _ used_by_consumption [OF ap(1,3)]], rule bexI [of _ p], intro conjI bexI [of _ a])
      (use b in \<open>simp_all add: begins_rollback_def used_for_def\<close>)
  have "executions_ok d'"
  proof -
    have "attempt_backed d' x" if "x \<in> set (deployments d)" for x using backed_last(1) [OF l d(5) that] .
    moreover have "rollback_backed d' x" if "x \<in> set (rollbacks d)" for x using backed_last(2) [OF l d(5) that] .
    moreover have "dr_id r \<notin> dr_id ` set (rollbacks d)" using ok(2) b by (simp add: fresh_rows_def begins_rollback_def)
    moreover have "dr_approval_id r \<notin> dr_approval_id ` set (rollbacks d)"
      using unused_approval(2) [OF d(2,5) ap(1,2)] b by (simp add: begins_rollback_def)
    ultimately show ?thesis using d(5) new by (auto simp: executions_ok_def rbs same)
  qed
  moreover have "call_ok d' (Call_rollback rs)" using b by (auto simp: begins_rollback_def rbs)
  ultimately show ?thesis
    using con(1) merges_ok_same [OF d(3) ws(1) same(4)] plans_ok_lasts [OF l d(4) same(1,2)]
      core_svc_ok [OF d(1) ck con(2)]
    by (intro plane_ok_outcomes [OF ok(1) l]) (auto simp: ws)
qed

lemma closes_rollback_ok:
  assumes ok: "plane_ok (d, P, S)" and cl: "closes_rollback rid wid d d'"
    and kind: "\<And>r. r \<in> set (rollbacks d) \<Longrightarrow> dr_id r = rid \<Longrightarrow> dr_workflow_id r = wid"
    and S': "set S' \<subseteq> set S"
  shows "plane_ok (d', P, S')"
proof -
  obtain r f where run: "running_rollback d rid = Some r"
    and f: "\<forall>x. dr_id (f x) = dr_id x \<and> dr_workflow_id (f x) = dr_workflow_id x \<and> dr_attempt_id (f x) = dr_attempt_id x \<and>
        dr_approval_id (f x) = dr_approval_id x \<and> dr_status (f x) \<noteq> RS_RUNNING"
    and rbs: "rollbacks d' = row_upd dr_id rid f (rollbacks d)"
    and same: "approvals d' = approvals d" "environments d' = environments d" "plans d' = plans d" "deployments d' = deployments d"
      "confirmations d' = confirmations d"
    and move: "core_kept d d' \<or> delivers wid WS_ROLLED_BACK (\<lambda>x. x) d d' \<and> (\<forall>x. dr_status (f x) = RS_SUCCEEDED)"
    using cl unfolding closes_rollback_def by (elim exE conjE) blast
  have d: "svc_ok (d, P)" "approvals_ok d" "merges_ok d" "plans_ok d" "executions_ok d" "db_ok d"
    using ok by (simp_all add: plane_ok_iff svc_ok_pair)
  have get: "row_get dr_id rid (rollbacks d) = Some r" "dr_status r = RS_RUNNING"
    using run by (auto simp: running_rollback_def split: option.splits if_splits)
  note rin = row.get_SomeD [OF get(1)]
  have dist: "distinct (map dr_id (rollbacks d))" using d(5) by (simp add: executions_ok_def)
  have only: "x = r" if "x \<in> set (rollbacks d)" "dr_id x = rid" for x by (rule get_only [OF dist get(1) that])
  have kept: "kept_rollback r (f r)" using f get(2) by (simp add: kept_rollback_def)
  have l: "lasts d d'"
    using same all_kept_upd [of "rollbacks d" kept_rollback dr_id rid f] only kept by (auto simp: lasts_def rbs)
  have keys: "map rollback_key (rollbacks d') = map rollback_key (rollbacks d)"
    unfolding rbs row_upd_def using f by (simp add: rollback_key_def)
  have fr: "f r \<in> set (rollbacks d')" unfolding rbs row.set_upd using rin by (auto simp: image_iff)
  have parts: "svc_ok (d', P) \<and> merges_ok d' \<and> principals d' = principals d"
    using move
  proof
    assume ck: "core_kept d d'"
    show ?thesis using core_svc_ok [OF d(1) ck] merges_ok_same [OF d(3) _ same(5)] ck by (simp add: same core_kept_def)
  next
    assume dl: "delivers wid WS_ROLLED_BACK (\<lambda>x. x) d d' \<and> (\<forall>x. dr_status (f x) = RS_SUCCEEDED)"
    then show ?thesis using delivers_svc_ok [OF d(1) conjunct1 [OF dl] _ same(1)]
      merges_ok_delivers [OF d(3,6) conjunct1 [OF dl] _ same(5)] by (simp add: delivers_def)
  qed
  have out: "(\<exists>w\<in>set (workflows d). wf_id w' = wf_id w \<and> wf_state w' = wf_state w) \<or> outcome_ok d' w'"
    if w': "w' \<in> set (workflows d')" for w'
    using move
  proof
    assume "core_kept d d'"
    then show ?thesis using w' by (auto simp: core_kept_def)
  next
    assume dl: "delivers wid WS_ROLLED_BACK (\<lambda>x. x) d d' \<and> (\<forall>x. dr_status (f x) = RS_SUCCEEDED)"
    from conjunct1 [OF dl] d(6) plain_id(1) w' show ?thesis
    proof (cases rule: delivers_get)
      case (moved w n)
      have "wf_id w' = wid" "wf_state w' = WS_ROLLED_BACK" "dr_workflow_id (f r) = wid"
        using moved f kind [of r] rin by simp_all
      then show ?thesis using fr dl unfolding outcome_ok_def by auto
    qed blast
  qed
  show ?thesis
    using parts approvals_ok_same [OF d(2) same(1)] plans_ok_lasts [OF l d(4) same(2,3)]
      executions_ok_lasts [OF l d(5) _ keys] same(4) out S'
    by (intro plane_ok_outcomes [OF ok l]) auto
qed

lemma in_set_remove1: "x \<in> set (remove1 c S) \<Longrightarrow> x \<in> set S"
  by (metis notin_set_remove1)

lemma drop_call: "plane_ok (d, P, S) \<Longrightarrow> plane_ok (d, P, remove1 c S)"
  by (auto simp: plane_ok_iff dest: in_set_remove1)

lemma add_call: "plane_ok (d, P, S) \<Longrightarrow> call_ok d c \<Longrightarrow> plane_ok (d, P, c # S)"
  by (simp add: plane_ok_iff)

lemma started_ok:
  assumes "plane_ok (d, P, S)" "fresh_rows en d" "begins en sim st ap p a d d'"
  shows "sim \<Longrightarrow> plane_ok (d', P, Call_dry st # S)"
    and "\<not> sim \<Longrightarrow> e \<in> set (environments d) \<Longrightarrow> de_id e = dp_environment_id p \<Longrightarrow> local_target e \<Longrightarrow>
      plane_ok (d', P, Call_local st # S)"
proof -
  note b = begins_ok [OF assms]
  have a: "da_id a = st_attempt_id st" "da_workflow_id a = st_workflow_id st" "da_simulated a = sim" "dp_id p = da_plan_id a"
    "p \<in> set (plans d')" "environments d' = environments d"
    using assms(3) by (simp_all add: begins_def)
  show "plane_ok (d', P, Call_dry st # S)" if sim
    using that b a by (intro add_call) auto
  show "plane_ok (d', P, Call_local st # S)"
    if "\<not> sim" "e \<in> set (environments d)" "de_id e = dp_environment_id p" "local_target e"
  proof (rule add_call [OF b(1)])
    have "local_attempt d' a" unfolding local_attempt_def using that a by auto
    then show "call_ok d' (Call_local st)" using a b(2) by auto
  qed
qed

lemma call_only:
  assumes "plane_ok (d, P, S)" "c \<in> set S"
  shows "c = Call_dry st \<Longrightarrow> x \<in> set (deployments d) \<Longrightarrow> da_id x = st_attempt_id st \<Longrightarrow> da_status x = DS_RUNNING \<Longrightarrow>
      da_workflow_id x = st_workflow_id st \<and> da_simulated x"
    and "c = Call_local st \<Longrightarrow> x \<in> set (deployments d) \<Longrightarrow> da_id x = st_attempt_id st \<Longrightarrow>
      da_workflow_id x = st_workflow_id st \<and> local_attempt d x"
    and "c = Call_rollback rs \<Longrightarrow> r \<in> set (rollbacks d) \<Longrightarrow> dr_id r = rs_rollback_id rs \<Longrightarrow>
      dr_workflow_id r = rs_workflow_id rs"
proof -
  have dist: "distinct (map da_id (deployments d))" "distinct (map dr_id (rollbacks d))" and c: "call_ok d c"
    using assms by (simp_all add: plane_ok_iff executions_ok_def)
  have same: "a = x" if "a \<in> set (deployments d)" "x \<in> set (deployments d)" "da_id a = da_id x" for a x
    using dist(1) that by (auto simp: distinct_map inj_on_def)
  have same_r: "a = x" if "a \<in> set (rollbacks d)" "x \<in> set (rollbacks d)" "dr_id a = dr_id x" for a x
    using dist(2) that by (auto simp: distinct_map inj_on_def)
  show "da_workflow_id x = st_workflow_id st \<and> da_simulated x"
    if "c = Call_dry st" "x \<in> set (deployments d)" "da_id x = st_attempt_id st" "da_status x = DS_RUNNING"
    using c that same by fastforce
  show "da_workflow_id x = st_workflow_id st \<and> local_attempt d x"
    if "c = Call_local st" "x \<in> set (deployments d)" "da_id x = st_attempt_id st"
    using c that same by fastforce
  show "dr_workflow_id r = rs_workflow_id rs"
    if "c = Call_rollback rs" "r \<in> set (rollbacks d)" "dr_id r = rs_rollback_id rs"
    using c that same_r by fastforce
qed

lemma complete_dry_run_effect:
  assumes "complete_dry_run cf en ad st d = (r, d')"
  shows "d' = d \<or> closes False (st_attempt_id st) (st_workflow_id st) d d'"
proof (cases "run_dry_adapter ad st")
  case (Inl e)
  then show ?thesis using assms fail_dry_run_effect [of cf en "st_attempt_id st" "error_name e" d "st_workflow_id st"]
    by (auto simp: complete_dry_run_def)
next
  case (Inr x)
  then show ?thesis using assms finish_dry_run_effect [of cf en st _ _ _ d]
    by (auto simp: complete_dry_run_def commit_def split: sum.splits prod.splits)
qed

lemma dry_done_ok:
  assumes ok: "plane_ok (d, P, S)" "Call_dry st \<in> set S" and run: "complete_dry_run cf en ad st d = (r, d')"
  shows "plane_ok (d', P, remove1 (Call_dry st) S)"
  using complete_dry_run_effect [OF run]
proof
  assume cl: "closes False (st_attempt_id st) (st_workflow_id st) d d'"
  show ?thesis by (rule closes_ok [OF ok(1) cl]) (use call_only(1) [OF ok] in_set_remove1 in auto)
qed (use drop_call ok(1) in simp)

lemma complete_local_deployment_effect:
  assumes ok: "plane_ok (d, P, S)" "Call_local st \<in> set S"
    and run: "complete_local_deployment cf en st outcome contacted d = (r, d')"
  shows "d' = d \<or> closes True (st_attempt_id st) (st_workflow_id st) d d'"
proof (cases outcome)
  case (Inl e)
  have "d1 = d \<or> closes True (st_attempt_id st) (st_workflow_id st) d d1"
    if "fail_local_deployment cf en (st_attempt_id st) s code tc d = Inr d1" for s code tc d1
    using fail_local_deployment_effect [OF that]
  proof (elim disjE exE conjE)
    fix a assume a: "running_deployment d (st_attempt_id st) = Some a" "closes True (st_attempt_id st) (da_workflow_id a) d d1"
    have "a \<in> set (deployments d)" "da_id a = st_attempt_id st"
      using a(1) row.get_SomeD [of da_id "st_attempt_id st" "deployments d" a]
      by (auto simp: running_deployment_def split: option.splits if_splits)
    then show ?thesis using call_only(2) [OF ok refl] a(2) by simp
  qed simp
  then show ?thesis using run Inl by (auto simp: complete_local_deployment_def split: sum.splits)
next
  case (Inr x)
  then show ?thesis using run finish_local_deployment_effect [of cf en st _ _ d]
    by (auto simp: complete_local_deployment_def commit_def split: sum.splits prod.splits)
qed

lemma local_done_ok:
  assumes ok: "plane_ok (d, P, S)" "Call_local st \<in> set S"
    and run: "complete_local_deployment cf en st outcome contacted d = (r, d')"
  shows "plane_ok (d', P, remove1 (Call_local st) S)"
  using complete_local_deployment_effect [OF ok run]
proof
  assume cl: "closes True (st_attempt_id st) (st_workflow_id st) d d'"
  show ?thesis by (rule closes_ok [OF ok(1) cl]) (use call_only(2) [OF ok refl] in_set_remove1 in auto)
qed (use drop_call ok(1) in simp)

lemma complete_local_rollback_effect:
  assumes "complete_local_rollback cf en rs outcome contacted ms d = (r, d')"
  shows "d' = d \<or> closes_rollback (rs_rollback_id rs) (rs_workflow_id rs) d d'"
  using assms fail_local_rollback_effect [of cf en "rs_rollback_id rs" _ _ _ ms d _ "rs_workflow_id rs"]
    finish_local_rollback_effect [of cf en rs _ _ ms d]
  by (auto simp: complete_local_rollback_def split: sum.splits prod.splits)

lemma rollback_done_ok:
  assumes ok: "plane_ok (d, P, S)" "Call_rollback rs \<in> set S"
    and run: "complete_local_rollback cf en rs outcome contacted ms d = (r, d')"
  shows "plane_ok (d', P, remove1 (Call_rollback rs) S)"
  using complete_local_rollback_effect [OF run]
proof
  assume cl: "closes_rollback (rs_rollback_id rs) (rs_workflow_id rs) d d'"
  show ?thesis by (rule closes_rollback_ok [OF ok(1) cl]) (use call_only(3) [OF ok refl] in_set_remove1 in auto)
qed (use drop_call ok(1) in simp)

lemma plane_step_ok:
  assumes "plane_ok W" "plane_step cf dc W W'"
  shows "plane_ok W'"
  using assms(2,1)
proof (induction rule: plane_step.induct)
  case (proposed en rid v rec d r d' P S)
  then show ?case using inert_ok [of d P S d'] complete_pull_request_inert [of d cf en rid v rec] by simp
next
  case (dry en d wid pid actor key st ad d' P S)
  then show ?case using start_dry_run_effect [OF dry(2)] started_ok(1) [OF dry(3,1)] by auto
next
  case (local en d wid pid actor key st ad d' P S)
  then show ?case using start_local_deployment_effect [OF local(2)] started_ok(2) [OF local(3,1), where sim = False] by auto
next
  case (rollback en d wid aid actor key rs ad d' P S)
  then show ?case using start_local_rollback_effect [OF rollback(2)] begins_rollback_ok [OF rollback(3,1)] by auto
qed (auto intro: service_ok inert_ok ingest_ci_inert start_pull_request_inert mark_pull_request_unknown_inert
    fail_proposal_inert start_readiness_inert record_merge_readiness_inert mark_readiness_failed_inert
    start_confirmation_ok settle_confirmation_ok register_ok plan_step_ok dry_done_ok local_done_ok rollback_done_ok drop_call)

lemma seed_outer [simp]:
  "approvals (foldl (\<lambda>acc p. seed_one p acc) d ps) = approvals d" "same_outer d (foldl (\<lambda>acc p. seed_one p acc) d ps)"
  by (induction ps arbitrary: d) (simp_all add: seed_one_def split: option.split)

lemma plane_init_ok: "plane_ok plane_init"
proof -
  let ?d = "seed_principals empty_db"
  have e: "workflows ?d = []" "approvals ?d = []" "environments ?d = []" "plans ?d = []" "deployments ?d = []" "rollbacks ?d = []"
    "confirmations ?d = []"
    using seed_outer by (simp_all add: seed_principals_def empty_db_def)
  have "svc_ok (?d, [])" using svc.init_inv by (simp add: svc_init_def)
  then show ?thesis
    by (simp add: plane_init_def plane_ok_iff approvals_ok_def merges_ok_def plans_ok_def executions_ok_def e)
qed

interpretation plane: step_system "plane_step cf dc" plane_init plane_ok for cf dc
  by unfold_locales (auto intro: plane_init_ok plane_step_ok)

lemma plane_runs_ok: "plane_ok W \<Longrightarrow> (plane_step cf dc)\<^sup>*\<^sup>* W W' \<Longrightarrow> plane_ok W'"
  by (rotate_tac, induction rule: rtranclp_induct) (auto intro: plane_step_ok)

end
