(* ===== verification/Delivery_Demo.thy ===== *)
theory Delivery_Demo
  imports Workflow_Properties Control_Plane
begin

text \<open>
  Two concrete runs of the control plane: one merges a reviewed change (approval, confirmation), the other
  deploys a merged one to the local target.  Every step is a call of the handler concerned.
\<close>

definition demo_github :: "github_client option" where
  "demo_github = Some \<lparr>gc_policy = demo_policy, gc_http = demo_http, gc_jwt = Inr ''j''\<rparr>"

definition demo_proposal :: pull_request_proposal where
  "demo_proposal = \<lparr>pq_id = ''pr'', pq_workflow_id = ''w'', pq_actor_id = ''dev-operator'', pq_idempotency_key = ''k'',
     pq_request_digest = ''h'', pq_repository = ''o/r'', pq_head_branch = ''f'', pq_base_branch = ''main'', pq_revision = demo_sha,
     pq_title = ''T'', pq_status = ''SUCCEEDED'', pq_pull_number = Some 7, pq_pull_url = Some ''u'', pq_error_code = None,
     pq_created_at = 1, pq_completed_at = Some 2\<rparr>"

definition demo_assessment :: merge_readiness_assessment where
  "demo_assessment = \<lparr>mr_id = ''as'', mr_workflow_id = ''w'', mr_proposal_id = ''pr'', mr_actor_id = ''dev-operator'',
     mr_idempotency_key = ''k'', mr_revision = demo_sha, mr_status = ''SUCCEEDED'', mr_ready = Some True, mr_reasons = [],
     mr_checks = [], mr_policy_version = ''v'', mr_error_code = None, mr_created_at = 3, mr_completed_at = Some 4\<rparr>"

definition demo_merge :: merge_confirmed where
  "demo_merge = \<lparr>mf_repository = ''o/r'', mf_pull_number = 7, mf_head_revision = demo_sha, mf_base_branch = ''main'',
     mf_merge_commit_revision = ''merge''\<rparr>"

definition demo_spec :: environment_spec where
  "demo_spec = \<lparr>sp_environment_id = ''dev'', sp_name = ''Dev'', sp_classification = EC_DEVELOPMENT, sp_repository = ''o/r'',
     sp_base_branch = ''main'', sp_resource_scope = [''cm''], sp_required_checks = [], sp_required_attestations = [],
     sp_verification_policy = [''probe''], sp_rollback_policy = ''restore'', sp_policy_version = ''p1'',
     sp_provider = ''local-k3d'', sp_account_scope = ''local'', sp_region = ''local'', sp_adapter_id = ''local''\<rparr>"

definition demo_plan_spec :: plan_spec where
  "demo_plan_spec = \<lparr>ps_environment_id = ''dev'', ps_artifact_digests = [''sha256:'' @ replicate 64 CHR ''a''],
     ps_operations = [[(''resource_id'', JStr ''cm'')]], ps_declared_impact = ''none'', ps_verification_probes = [''probe''],
     ps_rollback_reference = ''restore'', ps_idempotency_key = ''k''\<rparr>"

definition demo_adapter :: "unit adapter" where
  "demo_adapter = dry_run_adapter\<lparr>ad_adapter_id := ''local'', ad_requires_credentials := True, ad_recoverable := True,
     ad_validate_plan := (\<lambda>_. Inr ())\<rparr>"

definition demo_dc :: "unit deploy_config" where
  "demo_dc = \<lparr>dc_adapters = (\<lambda>i. if i = ''local'' then Some demo_adapter else if i = dry_run_adapter_id then Some dry_run_adapter else None),
     dc_broker_factory = None, dc_session_broker = Some (\<lambda>_ _ s. (Inl (ValidationError ''unused''), s)),
     dc_enable_local_deployment = True\<rparr>"

definition demo_session_handle :: workload_credential_handle where
  "demo_session_handle = \<lparr>ch_reference = ''ref'', ch_broker_id = ''b'', ch_environment_id = ''dev'', ch_plan_digest = ''h'',
     ch_operation = CO_APPLY_PLAN, ch_audience = ''a'', ch_subject = ''s'', ch_resource_scope = [''cm''], ch_issued_at = 0,
     ch_expires_at = 9, ch_simulated = False\<rparr>"

definition demo_run :: "bool \<Rightarrow> credentialed_run" where
  "demo_run passed = \<lparr>cu_execution = \<lparr>dx_operation_reference = ''op'', dx_simulated = False, dx_changed = True,
       dx_evidence = [(''previous_release'', JObj [(''revision'', JStr ''old'')])]\<rparr>,
     cu_observation = \<lparr>do_observed_revision = ''merge'', do_evidence = []\<rparr>,
     cu_verification = \<lparr>vf_passed = passed, vf_observed_revision = ''merge'', vf_evidence = []\<rparr>\<rparr>"

section \<open>Merging\<close>

definition demo_reviewed :: db where
  "demo_reviewed = (demo_state WS_AWAITING_HUMAN_APPROVAL demo_sha None (Some ''o/r''))
     \<lparr>proposals := [demo_proposal], assessments := [demo_assessment]\<rparr>"

definition demo_stale :: error where
  "demo_stale = OtherError ''identifier reused''"

definition demo_merging :: "error + db" where
  "demo_merging =
     ebind (require (fresh_ids (demo_env 10 ''a'') demo_reviewed) demo_stale) (\<lambda>_.
     ebind (approve demo_cf (demo_env 10 ''a'') ''w'' ''dev-operator'' AA_MERGE ''main'' demo_sha AD_APPROVED ''ok'' 15 None None None
       demo_reviewed) (\<lambda>(x1, d1).
     ebind (require (fresh_rows (demo_env 20 ''b'') d1) demo_stale) (\<lambda>_.
     ebind (start_confirmation demo_cf demo_github (demo_env 20 ''b'') ''w'' ''pr'' ''as'' ''dev-operator'' ''k'' d1) (\<lambda>(x2, d2).
     Inr (snd (settle_confirmation demo_cf (demo_env 30 ''c'') ''b0'' (Inr demo_merge) d2))))))"

lemma demo_merging_facts:
  "case demo_merging of Inl _ \<Rightarrow> False | Inr d \<Rightarrow> workflows d \<noteq> [] \<and> wf_state (hd (workflows d)) = WS_MERGED \<and>
     wf_id (hd (workflows d)) = ''w''"
  by code_simp

definition demo_main :: db where
  "demo_main = projr demo_merging"

definition demo_main_workflow :: workflow where
  "demo_main_workflow = hd (workflows demo_main)"

lemma demo_main_facts:
  "demo_merging = Inr demo_main" "demo_main_workflow \<in> set (workflows demo_main)" "wf_state demo_main_workflow = WS_MERGED"
  "wf_id demo_main_workflow = ''w''"
proof -
  obtain d where d: "demo_merging = Inr d" "workflows d \<noteq> []" "wf_state (hd (workflows d)) = WS_MERGED" "wf_id (hd (workflows d)) = ''w''"
    using demo_merging_facts by (auto split: sum.splits)
  have "demo_main = d" unfolding demo_main_def d(1) by simp
  with d show "demo_merging = Inr demo_main" "demo_main_workflow \<in> set (workflows demo_main)" "wf_state demo_main_workflow = WS_MERGED"
    "wf_id demo_main_workflow = ''w''"
    by (simp_all add: demo_main_workflow_def)
qed

lemma demo_outer:
  "approvals (demo_state s r m q) = []" "environments (demo_state s r m q) = []" "plans (demo_state s r m q) = []"
  "deployments (demo_state s r m q) = []" "rollbacks (demo_state s r m q) = []" "confirmations (demo_state s r m q) = []"
  using seed_outer by (simp_all add: demo_state_def seed_principals_def empty_db_def)

lemma demo_reviewed_ok: "plane_ok (demo_reviewed, [], [])"
proof -
  let ?d = "demo_state WS_AWAITING_HUMAN_APPROVAL demo_sha None (Some ''o/r'')"
  have "svc_ok (?d, [])" by (rule demo_state_svc_ok) (simp_all add: demo_sha_def working_def after_approval_def)
  moreover have "wf_state w = WS_AWAITING_HUMAN_APPROVAL" if "w \<in> set (workflows ?d)" for w
    using that by (simp add: demo_state_def)
  ultimately have ok: "plane_ok (?d, [], [])"
    by (auto simp: plane_ok_iff approvals_ok_def merges_ok_def plans_ok_def executions_ok_def outcome_ok_def delivered_def demo_outer)
  show ?thesis by (rule inert_ok [OF ok]) (simp add: demo_reviewed_def inert_def)
qed

lemma demo_merging_run: "(plane_step demo_cf dc)\<^sup>*\<^sup>* (demo_reviewed, [], []) (demo_main, [], [])"
proof -
  let ?R = "plane_step demo_cf dc"
  obtain x1 d1 x2 d2 where
    1: "fresh_ids (demo_env 10 ''a'') demo_reviewed" "approve demo_cf (demo_env 10 ''a'') ''w'' ''dev-operator'' AA_MERGE ''main''
      demo_sha AD_APPROVED ''ok'' 15 None None None demo_reviewed = Inr (x1, d1)"
    and 2: "fresh_rows (demo_env 20 ''b'') d1"
      "start_confirmation demo_cf demo_github (demo_env 20 ''b'') ''w'' ''pr'' ''as'' ''dev-operator'' ''k'' d1 = Inr (x2, d2)"
    and 3: "demo_main = snd (settle_confirmation demo_cf (demo_env 30 ''c'') ''b0'' (Inr demo_merge) d2)"
    using demo_main_facts(1) unfolding demo_merging_def ebind_eq_Inr require_eq_Inr split_paired_Ex prod.case
    by (elim exE conjE) (metis sum.inject(2))
  have "?R\<^sup>*\<^sup>* (demo_reviewed, [], []) (d1, [], [])" by (rule r_into_rtranclp, rule plane_step.service [OF svc_step.approval [OF 1]])
  also have "?R (d1, [], []) (d2, [], [])" by (rule plane_step.confirm [OF 2])
  also have "?R (d2, [], []) (demo_main, [], [])" unfolding 3 by (rule plane_step.confirmed [OF prod.collapse [symmetric]])
  finally show ?thesis .
qed

section \<open>Deploying\<close>

definition demo_approval :: "ident \<Rightarrow> approval_action \<Rightarrow> string \<Rightarrow> string \<Rightarrow> string option \<Rightarrow> string option \<Rightarrow> approval" where
  "demo_approval i action target revision environment plan_digest = new_approval (demo_env 0 i) ''w'' ''dev-operator'' action target
     revision AD_APPROVED ''ok'' 15 environment plan_digest None ''p1''"

definition demo_environment :: deployment_environment where
  "demo_environment = environment_values (demo_env 0 ''e'') ''dev-operator'' demo_spec ''h''"

definition demo_plan_record :: deployment_plan_record where
  "demo_plan_record = new_plan (demo_env 0 ''p'') ''w'' ''dev-operator'' demo_environment ''merge'' ''h'' demo_plan_spec"

definition demo_confirmation :: merge_confirmation where
  "demo_confirmation = (new_confirmation (demo_env 0 ''c'') ''w'' ''pr'' ''as'' ''dev-operator'' ''k'' demo_sha)
     \<lparr>mc_status := ''SUCCEEDED'', mc_merge_commit_revision := Some ''merge''\<rparr>"

definition demo_planned :: db where
  "demo_planned = (demo_state WS_AWAITING_DEPLOYMENT_APPROVAL demo_sha (Some ''merge'') (Some ''o/r''))
     \<lparr>approvals := [demo_approval ''m'' AA_MERGE ''main'' demo_sha None None,
        demo_approval ''d'' AA_DEPLOY ''dev'' ''merge'' (Some ''dev'') (Some ''h'')],
      environments := [demo_environment], plans := [demo_plan_record], confirmations := [demo_confirmation]\<rparr>"

text \<open>The broker hands the adapter a credential, the adapter reports \<open>demo_run passed\<close>.\<close>

definition demo_deploying :: "error + started \<times> db" where
  "demo_deploying =
     ebind (require (fresh_rows (demo_env 10 ''a'') demo_planned) demo_stale) (\<lambda>_.
     ebind (start_local_deployment demo_cf demo_dc (demo_env 10 ''a'') ''w'' ''p0'' ''dev-operator'' ''k'' demo_planned) (\<lambda>(x, d).
     case x of Inl _ \<Rightarrow> Inl demo_stale | Inr (st, _) \<Rightarrow> Inr (st, d)))"

definition demo_deployment :: "error + workload_credential_handle \<times> credentialed_run \<Rightarrow> error + db" where
  "demo_deployment outcome = ebind demo_deploying (\<lambda>(st, d).
     Inr (snd (complete_local_deployment demo_cf (demo_env 20 ''b'') st outcome True d)))"

lemma demo_deployment_facts:
  "case demo_deployment (Inr (demo_session_handle, demo_run True)) of Inl _ \<Rightarrow> False | Inr d \<Rightarrow> workflows d \<noteq> [] \<and>
     wf_state (hd (workflows d)) = WS_DEPLOYED \<and> wf_id (hd (workflows d)) = ''w'' \<and>
     wf_merged_revision (hd (workflows d)) = Some ''merge'' \<and> map da_approval_id (deployments d) = [''d0'']"
  by code_simp

definition demo_local :: db where
  "demo_local = projr (demo_deployment (Inr (demo_session_handle, demo_run True)))"

definition demo_local_workflow :: workflow where
  "demo_local_workflow = hd (workflows demo_local)"

lemma demo_local_facts:
  "demo_deployment (Inr (demo_session_handle, demo_run True)) = Inr demo_local"
  "demo_local_workflow \<in> set (workflows demo_local)" "wf_state demo_local_workflow = WS_DEPLOYED"
  "wf_id demo_local_workflow = ''w''" "wf_merged_revision demo_local_workflow = Some ''merge''"
  "map da_approval_id (deployments demo_local) = [''d0'']"
proof -
  obtain d where d: "demo_deployment (Inr (demo_session_handle, demo_run True)) = Inr d" "workflows d \<noteq> []"
    "wf_state (hd (workflows d)) = WS_DEPLOYED" "wf_id (hd (workflows d)) = ''w''"
    "wf_merged_revision (hd (workflows d)) = Some ''merge''" "map da_approval_id (deployments d) = [''d0'']"
    using demo_deployment_facts by (auto split: sum.splits)
  have "demo_local = d" unfolding demo_local_def d(1) by simp
  with d show "demo_deployment (Inr (demo_session_handle, demo_run True)) = Inr demo_local"
    "demo_local_workflow \<in> set (workflows demo_local)" "wf_state demo_local_workflow = WS_DEPLOYED"
    "wf_id demo_local_workflow = ''w''" "wf_merged_revision demo_local_workflow = Some ''merge''"
    "map da_approval_id (deployments demo_local) = [''d0'']"
    by (simp_all add: demo_local_workflow_def)
qed

lemma sum_case_witness: "(case x of Inl _ \<Rightarrow> False | Inr (a, b) \<Rightarrow> Q a b) \<Longrightarrow> \<exists>a b. x = Inr (a, b) \<and> Q a b"
  by (cases x) auto

lemma demo_deploying_step:
  assumes "demo_deploying = Inr (st, d)"
  shows "plane_step demo_cf demo_dc (demo_planned, [], []) (d, [], [Call_local st])"
proof -
  obtain x d0 where fr: "fresh_rows (demo_env 10 ''a'') demo_planned"
    and run: "start_local_deployment demo_cf demo_dc (demo_env 10 ''a'') ''w'' ''p0'' ''dev-operator'' ''k'' demo_planned = Inr (x, d0)"
    and x: "(case x of Inl _ \<Rightarrow> Inl demo_stale | Inr (st, _) \<Rightarrow> Inr (st, d0)) = Inr (st, d)"
    using assms unfolding demo_deploying_def ebind_eq_Inr require_eq_Inr split_paired_Ex prod.case by blast
  obtain ad where "x = Inr (st, ad)" "d0 = d" using x by (cases x) auto
  note 1 = fr run [unfolded this]
  show ?thesis by (rule plane_step.local [OF 1])
qed

lemma demo_deploying_ok: "\<exists>st d. demo_deploying = Inr (st, d)"
  using demo_local_facts(1) unfolding demo_deployment_def ebind_eq_Inr by auto

lemma demo_run_of:
  assumes "demo_deployment outcome = Inr d'"
  shows "(plane_step demo_cf demo_dc)\<^sup>*\<^sup>* (demo_planned, [], []) (d', [], [])"
proof -
  obtain st d where s: "demo_deploying = Inr (st, d)"
    and d': "d' = snd (complete_local_deployment demo_cf (demo_env 20 ''b'') st outcome True d)"
    using assms unfolding demo_deployment_def ebind_eq_Inr split_paired_Ex prod.case by (elim exE conjE) (metis sum.inject(2))
  have "plane_step demo_cf demo_dc (d, [], [Call_local st]) (d', [], remove1 (Call_local st) [Call_local st])"
    unfolding d' by (rule plane_step.local_done [OF _ prod.collapse [symmetric]]) simp
  with demo_deploying_step [OF s] show ?thesis by (simp add: rtranclp.rtrancl_into_rtrancl [OF r_into_rtranclp])
qed

lemma demo_planned_ok: "plane_ok (demo_planned, [], [])"
proof -
  let ?d = "demo_state WS_AWAITING_DEPLOYMENT_APPROVAL demo_sha (Some ''merge'') (Some ''o/r'')"
  have rest: "principals demo_planned = principals ?d" "workflows demo_planned = workflows ?d" "tasks demo_planned = tasks ?d"
    "attempts demo_planned = attempts ?d" "deployments demo_planned = []" "rollbacks demo_planned = []"
    by (simp_all add: demo_planned_def demo_outer)
  have human: "\<exists>p. row_get pn_id ''dev-operator'' (principals ?d) = Some p \<and> pn_principal_type p = PT_HUMAN \<and>
      pn_role p = AR_HUMAN_APPROVER"
    using seeded_operator by (simp add: demo_state_def builtin_principal_def)
  have ws: "wf_id w = ''w'' \<and> wf_state w = WS_AWAITING_DEPLOYMENT_APPROVAL \<and> wf_candidate_revision w = Some demo_sha \<and>
      wf_merged_revision w = Some ''merge''" if "w \<in> set (workflows ?d)" for w
    using that by (simp add: demo_state_def new_workflow_def)
  have one: "\<exists>w\<in>set (workflows ?d). wf_id w = ''w''" by (simp add: demo_state_def new_workflow_def)
  have aps: "set (approvals demo_planned) = {demo_approval ''m'' AA_MERGE ''main'' demo_sha None None,
      demo_approval ''d'' AA_DEPLOY ''dev'' ''merge'' (Some ''dev'') (Some ''h'')}" by (simp add: demo_planned_def)
  have ap: "ap_id (demo_approval i ac t r e p) = i @ ''0''" "ap_workflow_id (demo_approval i ac t r e p) = ''w''"
    "ap_action (demo_approval i ac t r e p) = ac" "ap_decision (demo_approval i ac t r e p) = AD_APPROVED"
    "ap_revision (demo_approval i ac t r e p) = r" "ap_approver_id (demo_approval i ac t r e p) = ''dev-operator''" for i ac t r e p
    by (simp_all add: demo_approval_def new_approval_def demo_env_def)
  have cs: "confirmations demo_planned = [demo_confirmation]" "mc_workflow_id demo_confirmation = ''w''"
    "mc_status demo_confirmation = ''SUCCEEDED''" "mc_revision demo_confirmation = demo_sha" "mc_merge_commit_revision demo_confirmation = Some ''merge''"
    by (simp_all add: demo_planned_def demo_confirmation_def new_confirmation_def)
  have conf: "merge_confirmed_as demo_planned ''w'' demo_sha ''merge''" by (simp add: merge_confirmed_as_def cs)
  have sha: "demo_sha \<noteq> []" by (simp add: demo_sha_def)
  have "db_ok demo_planned" using demo_state_ok(1) [OF sha] same_core_db_ok [of ?d demo_planned]
    by (simp add: same_core_def rest working_def)
  moreover have "attempts_ok demo_planned" using demo_state_ok(2) [OF sha] attempts_ok_cong [of demo_planned ?d]
    by (simp add: rest working_def)
  moreover have "approved_ok demo_planned"
    using ws human sha by (auto simp: approved_ok_def merge_approved_def human_approver_def rest aps ap)
  ultimately have "svc_ok (demo_planned, [])" by (simp add: svc_ok_pair inflight_ok_def)
  moreover have "approvals_ok demo_planned"
    using human by (auto simp: approvals_ok_def approval_by_human_def rest aps ap) (simp add: demo_planned_def ap)
  moreover have "merges_ok demo_planned"
    using ws one conf by (auto simp: merges_ok_def cs rest settled_for_def delivered_def)
  moreover have "plans_ok demo_planned"
  proof -
    have "environment_wf demo_environment" "within_environment demo_plan_record demo_environment" "plan_wf demo_plan_record"
      unfolding environment_wf_def bounded_items_def within_environment_def plan_wf_def by code_simp+
    moreover have "dp_workflow_id demo_plan_record = ''w''" "dp_revision demo_plan_record = ''merge''"
      by (simp_all add: demo_plan_record_def new_plan_def)
    moreover have "environments demo_planned = [demo_environment]" "plans demo_planned = [demo_plan_record]"
      by (simp_all add: demo_planned_def)
    ultimately show ?thesis using conf by (auto simp: plans_ok_def plan_ok_def)
  qed
  moreover have "outcome_ok demo_planned w" if "w \<in> set (workflows demo_planned)" for w
    using ws that by (simp add: outcome_ok_def rest)
  ultimately show ?thesis by (simp add: plane_ok_iff executions_ok_def rest)
qed

end
