(* ===== verification/Delivery_Properties.thy ===== *)
theory Delivery_Properties
  imports Delivery_Demo
begin

text \<open>
  The properties of merging, deploying and recovering, over all runs of the whole control plane.
\<close>

section \<open>From approval to deployment\<close>

lemma runs_ok: "W = plane_init \<or> plane_ok W \<Longrightarrow> (plane_step cf dc)\<^sup>*\<^sup>* W W' \<Longrightarrow> plane_ok W'"
  using plane.init_inv plane_runs_ok by blast

lemma confirmed_unique:
  assumes "merges_ok d" "db_ok d" "w \<in> set (workflows d)" "delivered (wf_state w)" "merge_confirmed_as d (wf_id w) rv m"
  shows "wf_candidate_revision w = Some rv \<and> wf_merged_revision w = Some m"
proof -
  obtain c where c: "c \<in> set (confirmations d)" "mc_workflow_id c = wf_id w" "mc_status c = ''SUCCEEDED''" "mc_revision c = rv"
    "mc_merge_commit_revision c = Some m" using assms(5) by (auto simp: merge_confirmed_as_def)
  obtain v where v: "v \<in> set (workflows d)" "settled_for c v" using assms(1) c(1,3) by (auto simp: merges_ok_def)
  have "v = w" using assms(2,3) v c(2) by (auto simp: db_ok_def settled_for_def distinct_map inj_on_def)
  then show ?thesis using v(2) assms(4) c by (auto simp: settled_for_def delivered_def)
qed

text \<open>C1: What is deployed was approved, for that commit. In every state the control plane can reach, a
DEPLOYED workflow has a successful, non-simulated attempt on record; the attempt carried out a plan of that
workflow for exactly its merged revision, on a registered local development target and inside that
environment's resource scope; an approved deployment approval for exactly that plan, environment and
revision was consumed for it, given by a human whose role may approve deployments; and GitHub confirmed
the deployed commit as the merge of the candidate revision that was reviewed.\<close>

theorem deployed_work_was_approved:
  assumes "W = plane_init \<or> plane_ok W" and "(plane_step cf dc)\<^sup>*\<^sup>* W (d, P, S)" and "w \<in> set (workflows d)"
    and "wf_state w = WS_DEPLOYED"
  shows "\<exists>a\<in>set (deployments d). \<exists>p\<in>set (plans d). \<exists>e\<in>set (environments d). \<exists>ap\<in>set (approvals d). \<exists>c\<in>set (confirmations d).
     da_workflow_id a = wf_id w \<and> da_status a = DS_SUCCEEDED \<and> \<not> da_simulated a \<and>
     dp_id p = da_plan_id a \<and> dp_workflow_id p = wf_id w \<and> wf_merged_revision w = Some (dp_revision p) \<and>
     de_id e = dp_environment_id p \<and> de_classification e = EC_DEVELOPMENT \<and> de_provider e = ''local-k3d'' \<and>
     ap_id ap = da_approval_id a \<and> ap_consumed_at ap \<noteq> None \<and> ap_action ap = AA_DEPLOY \<and> ap_decision ap = AD_APPROVED \<and>
     ap_plan_digest ap = Some (dp_digest p) \<and> ap_environment_id ap = Some (de_id e) \<and> ap_revision ap = dp_revision p \<and>
     (\<exists>u. row_get pn_id (ap_approver_id ap) (principals d) = Some u \<and> pn_principal_type u = PT_HUMAN \<and>
        CAP_APPROVE_DEPLOYMENT \<in> ROLE_CAPABILITIES (pn_role u)) \<and>
     mc_workflow_id c = wf_id w \<and> mc_status c = ''SUCCEEDED'' \<and> wf_candidate_revision w = Some (mc_revision c) \<and>
     mc_merge_commit_revision c = Some (dp_revision p)"
proof -
  have "plane_ok (d, P, S)" by (rule runs_ok [OF assms(1,2)])
  then have ok: "db_ok d" "approvals_ok d" "merges_ok d" "plans_ok d" "executions_ok d" "outcome_ok d w"
    using assms(3) by (simp_all add: plane_ok_iff svc_ok_pair)
  obtain a where a: "a \<in> set (deployments d)" "da_workflow_id a = wf_id w" "da_status a = DS_SUCCEEDED" "local_attempt d a"
    using ok(6) assms(4) by (auto simp: outcome_ok_def)
  obtain ap p where ap: "ap \<in> set (approvals d)" "p \<in> set (plans d)" "ap_id ap = da_approval_id a" "dp_id p = da_plan_id a"
    "dp_workflow_id p = da_workflow_id a" "used_for AA_DEPLOY (da_workflow_id a) p ap"
    using ok(5) a(1) unfolding executions_ok_def attempt_backed_def by blast
  obtain q e where q: "q \<in> set (plans d)" "e \<in> set (environments d)" "dp_id q = da_plan_id a" "de_id e = dp_environment_id q" "local_target e"
    and sim: "\<not> da_simulated a"
    using a(4) unfolding local_attempt_def by blast
  have qp: "q = p" using ok(4) q(1,3) ap(2,4) by (auto simp: plans_ok_def distinct_map inj_on_def)
  obtain rv where rv: "merge_confirmed_as d (wf_id w) rv (dp_revision p)"
    using ok(4) ap(2,5) a(2) by (auto simp: plans_ok_def plan_ok_def)
  note un = confirmed_unique [OF ok(3,1) assms(3) _ rv]
  obtain c where c: "c \<in> set (confirmations d)" "mc_workflow_id c = wf_id w" "mc_status c = ''SUCCEEDED''" "mc_revision c = rv"
    "mc_merge_commit_revision c = Some (dp_revision p)" using rv by (auto simp: merge_confirmed_as_def)
  have "approval_by_human d ap" using ok(2) ap(1) by (simp add: approvals_ok_def)
  then show ?thesis
    using a ap q c un sim assms(4)
    by (intro bexI [OF _ a(1)] bexI [OF _ ap(2)] bexI [OF _ q(2)] bexI [OF _ ap(1)] bexI [OF _ c(1)])
      (auto simp: qp used_for_def approval_by_human_def local_target_def delivered_def)
qed

theorem deployed_work_was_approved_witness:
  "\<exists>ap\<in>set (approvals demo_local). ap_action ap = AA_DEPLOY \<and> ap_revision ap = ''merge'' \<and> ap_consumed_at ap \<noteq> None"
  using deployed_work_was_approved [OF disjI2 [OF demo_planned_ok] demo_run_of [OF demo_local_facts(1)] demo_local_facts(2,3)]
    demo_local_facts(5)
  by auto

text \<open>C5: An approval is used once. In every reachable state no two executions, deployments and rollbacks
taken together, carry the same approval, and each of them carries a recorded approval of its own kind
that says APPROVED and has been consumed.\<close>

theorem approvals_single_use:
  assumes "W = plane_init \<or> plane_ok W" and "(plane_step cf dc)\<^sup>*\<^sup>* W (d, P, S)"
  shows "distinct (map da_approval_id (deployments d) @ map dr_approval_id (rollbacks d)) \<and>
     (\<forall>a\<in>set (deployments d). \<exists>ap\<in>set (approvals d). ap_id ap = da_approval_id a \<and> ap_action ap = AA_DEPLOY \<and>
        ap_decision ap = AD_APPROVED \<and> ap_consumed_at ap \<noteq> None) \<and>
     (\<forall>r\<in>set (rollbacks d). \<exists>ap\<in>set (approvals d). ap_id ap = dr_approval_id r \<and> ap_action ap = AA_ROLLBACK \<and>
        ap_decision ap = AD_APPROVED \<and> ap_deployment_attempt_id ap = Some (dr_attempt_id r) \<and> ap_consumed_at ap \<noteq> None)"
proof -
  have "plane_ok (d, P, S)" by (rule runs_ok [OF assms])
  then have ok: "approvals_ok d" "executions_ok d" by (simp_all add: plane_ok_iff)
  have dep: "\<forall>a\<in>set (deployments d). \<exists>ap\<in>set (approvals d). ap_id ap = da_approval_id a \<and> ap_action ap = AA_DEPLOY \<and>
      ap_decision ap = AD_APPROVED \<and> ap_consumed_at ap \<noteq> None"
    using ok(2) unfolding executions_ok_def attempt_backed_def used_for_def by blast
  have rol: "\<forall>r\<in>set (rollbacks d). \<exists>ap\<in>set (approvals d). ap_id ap = dr_approval_id r \<and> ap_action ap = AA_ROLLBACK \<and>
      ap_decision ap = AD_APPROVED \<and> ap_deployment_attempt_id ap = Some (dr_attempt_id r) \<and> ap_consumed_at ap \<noteq> None"
    using ok(2) unfolding executions_ok_def rollback_backed_def used_for_def by blast
  have "da_approval_id a \<noteq> dr_approval_id r" if ar: "a \<in> set (deployments d)" "r \<in> set (rollbacks d)" for a r
  proof -
    obtain x where x: "x \<in> set (approvals d)" "ap_id x = da_approval_id a" "ap_action x = AA_DEPLOY"
      using bspec [OF dep ar(1)] by blast
    obtain y where y: "y \<in> set (approvals d)" "ap_id y = dr_approval_id r" "ap_action y = AA_ROLLBACK"
      using bspec [OF rol ar(2)] by blast
    have "x \<noteq> y" using x(3) y(3) by auto
    moreover have "inj_on ap_id (set (approvals d))" using ok(1) by (simp add: approvals_ok_def distinct_map)
    ultimately show ?thesis using x y by (metis inj_onD)
  qed
  then have "distinct (map da_approval_id (deployments d) @ map dr_approval_id (rollbacks d))"
    using ok(2) by (auto simp: executions_ok_def)
  with dep rol show ?thesis by blast
qed

theorem approvals_single_use_witness:
  "\<exists>a\<in>set (deployments demo_local). \<exists>ap\<in>set (approvals demo_local). ap_id ap = da_approval_id a \<and> ap_consumed_at ap \<noteq> None"
proof -
  have "deployments demo_local \<noteq> []" using demo_local_facts(6) by auto
  then have "hd (deployments demo_local) \<in> set (deployments demo_local)" by simp
  then show ?thesis
    using approvals_single_use [OF disjI2 [OF demo_planned_ok] demo_run_of [OF demo_local_facts(1)]] by blast
qed

text \<open>C9: Merging needs both a human and GitHub. In every reachable state, a workflow that is MERGED or further
has an approved merge approval by a human for exactly its candidate revision, and a successful merge
confirmation whose revision is that candidate and whose merge commit is the workflow's merged revision.\<close>

theorem merged_needs_confirmation:
  assumes "W = plane_init \<or> plane_ok W" and "(plane_step cf dc)\<^sup>*\<^sup>* W (d, P, S)" and "w \<in> set (workflows d)"
    and "delivered (wf_state w)"
  shows "(\<exists>c\<in>set (confirmations d). mc_workflow_id c = wf_id w \<and> mc_status c = ''SUCCEEDED'' \<and>
        wf_candidate_revision w = Some (mc_revision c) \<and> mc_merge_commit_revision c \<noteq> None \<and>
        wf_merged_revision w = mc_merge_commit_revision c) \<and>
     (\<exists>a\<in>set (approvals d). ap_workflow_id a = wf_id w \<and> ap_action a = AA_MERGE \<and> ap_decision a = AD_APPROVED \<and>
        wf_candidate_revision w = Some (ap_revision a) \<and>
        (\<exists>u. row_get pn_id (ap_approver_id a) (principals d) = Some u \<and> pn_principal_type u = PT_HUMAN))"
proof -
  have "plane_ok (d, P, S)" by (rule runs_ok [OF assms(1,2)])
  then have ok: "merges_ok d" "approved_ok d" by (simp_all add: plane_ok_iff svc_ok_pair)
  have "after_approval (wf_state w)" using assms(4) by (auto simp: delivered_def after_approval_def)
  then have "merge_approved d w" using ok(2) assms(3) by (simp add: approved_ok_def)
  moreover obtain rv m where "wf_candidate_revision w = Some rv" "wf_merged_revision w = Some m" "merge_confirmed_as d (wf_id w) rv m"
    using ok(1) assms(3,4) by (auto simp: merges_ok_def)
  ultimately show ?thesis by (auto simp: merge_approved_def human_approver_def merge_confirmed_as_def)
qed

theorem merged_needs_confirmation_witness:
  "\<exists>c\<in>set (confirmations demo_main). mc_workflow_id c = ''w'' \<and> mc_status c = ''SUCCEEDED''"
  using merged_needs_confirmation [OF disjI2 [OF demo_reviewed_ok] demo_merging_run [of demo_dc] demo_main_facts(2)]
  by (auto simp: demo_main_facts delivered_def)

text \<open>C22: Every environment and every plan on record is well formed. In every reachable state an environment
has a bounded identifier over the allowed characters, non-empty policy fields, sorted and bounded lists
without duplicates, and is never a production environment; a plan has sorted, distinct SHA-256 artifact
digests, at least one operation and probe, and stays inside an environment on record: its operations in
the resource scope, its probes in the verification policy, its rollback the environment's own.\<close>

theorem environments_and_plans_well_formed:
  assumes "W = plane_init \<or> plane_ok W" and "(plane_step cf dc)\<^sup>*\<^sup>* W (d, P, S)"
  shows "(\<forall>e\<in>set (environments d). environment_wf e \<and> de_classification e \<noteq> EC_PRODUCTION) \<and>
     (\<forall>p\<in>set (plans d). plan_wf p \<and> (\<exists>e\<in>set (environments d). within_environment p e))"
proof -
  have "plane_ok (d, P, S)" by (rule runs_ok [OF assms])
  then have "plans_ok d" by (simp add: plane_ok_iff)
  then show ?thesis by (auto simp: plans_ok_def plan_ok_def environment_wf_def)
qed

theorem environments_and_plans_well_formed_witness: "environment_wf demo_environment \<and> plan_wf demo_plan_record"
  using environments_and_plans_well_formed [OF disjI2 [OF demo_planned_ok] rtranclp.rtrancl_refl [of "plane_step demo_cf demo_dc"]]
  by (simp add: demo_planned_def)

section \<open>Refinement\<close>

lemma delivers_any_step: "db_ok d \<Longrightarrow> delivers wid s f d d' \<Longrightarrow> plain f \<Longrightarrow> (any_step UNIV)\<^sup>*\<^sup>* d d'"
  by (intro r_into_rtranclp any_stepI [OF delivers_step]) simp_all

lemma core_kept_same: "core_kept d d' \<Longrightarrow> same_core d d'" "inert d d' \<Longrightarrow> same_core d d'"
  by (simp_all add: core_kept_def inert_def same_core_def)

lemma closes_refines:
  assumes "db_ok d" "closes loc aid wid d d'"
  shows "same_core d d' \<or> (any_step UNIV)\<^sup>*\<^sup>* d d'"
  using assms(2) unfolding closes_def
  by (elim exE conjE) (auto split: option.splits intro: core_kept_same delivers_any_step [OF assms(1)])

lemma closes_rollback_refines:
  assumes "db_ok d" "closes_rollback rid wid d d'"
  shows "same_core d d' \<or> (any_step UNIV)\<^sup>*\<^sup>* d d'"
  using assms(2) unfolding closes_rollback_def
  by (elim exE conjE) (auto intro: core_kept_same delivers_any_step [OF assms(1)])

lemma same_core_refl: "same_core d d"
  by (simp add: same_core_def)

lemma settle_confirmation_refines:
  assumes "db_ok d" "settle_confirmation cf en rid answer d = (r, d')"
  shows "same_core d d' \<or> (any_step UNIV)\<^sup>*\<^sup>* d d'"
proof -
  have "same_core d (mark_merge_confirmation_failed cf en rid code d)" for code
    using mark_merge_confirmation_failed_effect [of d cf en rid code] core_kept_same by blast
  moreover have "(any_step UNIV)\<^sup>*\<^sup>* d d1" if "complete_merge_confirmation cf en rid res d = Inr (j, d1)" for res j d1
    using that by (rule complete_merge_confirmation_effect) (rule delivers_any_step [OF assms(1)], assumption, simp)
  ultimately show ?thesis using assms(2) by (auto simp: settle_confirmation_def split: sum.splits)
qed

text \<open>C4: The handlers implement the life cycle. Seen through the tables of workflows and tasks, one step of
the control plane, whichever handler it is, changes nothing, adds one new workflow that is BLOCKED or in
PLANNING with its first task, or is a sequence of steps of the life-cycle relation, each of them on
one workflow: renewing a lease, stopping, advancing to the next stage, finishing the review, releasing,
retrying, giving up, settling, granting or delivering.\<close>

theorem control_plane_refines_lifecycle:
  assumes "W = plane_init \<or> plane_ok W" and "(plane_step cf dc)\<^sup>*\<^sup>* W (d, P, S)" and "plane_step cf dc (d, P, S) (d', P', S')"
  shows "same_core d d' \<or> born d d' \<or> (any_step UNIV)\<^sup>*\<^sup>* d d'"
proof -
  have ok: "plane_ok (d, P, S)" by (rule runs_ok [OF assms(1,2)])
  then have db: "svc_ok (d, P)" "db_ok d" by (simp_all add: plane_ok_iff svc_ok_pair)
  from assms(3) show ?thesis
  proof cases
    case service
    then show ?thesis using svc_step_refines [OF db(1) service(2)] any_steps_mono [of service_events d d' UNIV] by auto
  next
    case (proposed en rid v rec r)
    then show ?thesis using complete_pull_request_inert [of d cf en rid v rec] core_kept_same by auto
  next
    case (plan en wid actor ps r)
    then show ?thesis using create_plan_effect [OF plan(4)] delivers_any_step [OF db(2)]
      by (auto simp: adds_plan_def same_core_refl)
  next
    case (dry_done st en ad r)
    then have "d' = d \<or> closes False (st_attempt_id st) (st_workflow_id st) d d'"
      using complete_dry_run_effect by blast
    then show ?thesis using closes_refines [OF db(2)] same_core_refl by auto
  next
    case (local_done st en outcome contacted r)
    then have "d' = d \<or> closes True (st_attempt_id st) (st_workflow_id st) d d'"
      using complete_local_deployment_effect [OF ok] by blast
    then show ?thesis using closes_refines [OF db(2)] same_core_refl by auto
  next
    case (rollback_done rs en outcome contacted ms r)
    then have "d' = d \<or> closes_rollback (rs_rollback_id rs) (rs_workflow_id rs) d d'"
      using complete_local_rollback_effect by blast
    then show ?thesis using closes_rollback_refines [OF db(2)] same_core_refl by auto
  next
    case (confirm en g wid pid aid actor key z)
    then show ?thesis using start_confirmation_effect [OF confirm(4)] core_kept_same by blast
  next
    case (register en actor sp r)
    then show ?thesis using register_effect [OF register(3)] core_kept_same by (auto simp: same_core_def)
  next
    case (dry en wid pid actor key st ad)
    then show ?thesis using start_dry_run_effect [OF dry(4)] core_kept_same by (auto simp: begins_def)
  next
    case (local en wid pid actor key st ad)
    then show ?thesis using start_local_deployment_effect [OF local(4)] core_kept_same by (auto simp: begins_def)
  next
    case (rollback en wid aid actor key rs ad)
    then show ?thesis using start_local_rollback_effect [OF rollback(4)] core_kept_same by (auto simp: begins_rollback_def)
  next
    case (confirmed en rid answer r)
    then show ?thesis using settle_confirmation_refines [OF db(2) confirmed(3)] by blast
  qed (auto simp: same_core_refl intro: core_kept_same ingest_ci_inert start_pull_request_inert mark_pull_request_unknown_inert
      fail_proposal_inert start_readiness_inert record_merge_readiness_inert mark_readiness_failed_inert)
qed

theorem control_plane_refines_lifecycle_witness:
  "\<exists>st d. plane_step demo_cf demo_dc (demo_planned, [], []) (d, [], [Call_local st]) \<and>
     (same_core demo_planned d \<or> born demo_planned d \<or> (any_step UNIV)\<^sup>*\<^sup>* demo_planned d)"
proof -
  obtain st d where "demo_deploying = Inr (st, d)" using demo_deploying_ok by blast
  note s = demo_deploying_step [OF this]
  from control_plane_refines_lifecycle [OF disjI2 [OF demo_planned_ok] rtranclp.rtrancl_refl s] s show ?thesis by blast
qed

end
