(* ===== verification/Recovery_Properties.thy ===== *)
theory Recovery_Properties
  imports Delivery_Properties
begin

text \<open>
  What becomes of a deployment once it has been started: what is recorded is final, which errors are
  recorded how, and the two ways in which a changed target is left without a recorded way back.
\<close>

section \<open>Concrete runs\<close>

text \<open>The deployment of \<open>demo_deploying\<close> while it runs, and the same after a human rejected the deployment.\<close>

definition demo_rejected :: "error + started \<times> db" where
  "demo_rejected = ebind demo_deploying (\<lambda>(st, d).
     ebind (require (fresh_ids (demo_env 15 ''e'') d) demo_stale) (\<lambda>_.
     ebind (approve demo_cf (demo_env 15 ''e'') ''w'' ''dev-operator'' AA_DEPLOY ''dev'' ''merge'' AD_REJECTED ''no'' 15 (Some ''dev'') (Some ''h'')
       None d) (\<lambda>(x, d1). Inr (st, d1))))"

lemma demo_unverified_facts:
  "case demo_deploying of Inl _ \<Rightarrow> False | Inr (st, d) \<Rightarrow> running_deployment d (st_attempt_id st) \<noteq> None \<and>
     (case fst (complete_local_deployment demo_cf (demo_env 20 ''b'') st (Inl (DeploymentVerificationError ''m'')) True d) of
        Inl (DeploymentVerificationError m) \<Rightarrow> m = ''m'' | _ \<Rightarrow> False)"
  by code_simp

lemma demo_rejected_facts:
  "case demo_rejected of Inl _ \<Rightarrow> False | Inr (st, d) \<Rightarrow> running_deployment d (st_attempt_id st) \<noteq> None \<and> st_workflow_id st = ''w'' \<and>
     (case row_get wf_id ''w'' (workflows d) of None \<Rightarrow> False | Some w \<Rightarrow> wf_state w = WS_REJECTED)"
  by code_simp

lemma demo_unverified:
  obtains st d d1 a where "demo_deploying = Inr (st, d)" "running_deployment d (st_attempt_id st) = Some a"
    "complete_local_deployment demo_cf (demo_env 20 ''b'') st (Inl (DeploymentVerificationError ''m'')) True d =
       (Inl (DeploymentVerificationError ''m''), d1)"
proof -
  obtain st d a where d: "demo_deploying = Inr (st, d)" "running_deployment d (st_attempt_id st) = Some a"
    and r: "case fst (complete_local_deployment demo_cf (demo_env 20 ''b'') st (Inl (DeploymentVerificationError ''m'')) True d) of
        Inl (DeploymentVerificationError m) \<Rightarrow> m = ''m'' | _ \<Rightarrow> False"
    using sum_case_witness [OF demo_unverified_facts] by auto
  obtain y d1 where y: "complete_local_deployment demo_cf (demo_env 20 ''b'') st (Inl (DeploymentVerificationError ''m'')) True d = (y, d1)"
    by (metis surj_pair)
  have "y = Inl (DeploymentVerificationError ''m'')" using r unfolding y by (auto split: sum.splits error.splits)
  then show thesis using that [OF d] y by simp
qed

lemma demo_rejected_run:
  obtains st d a w where "(plane_step demo_cf demo_dc)\<^sup>*\<^sup>* (demo_planned, [], []) (d, [], [Call_local st])"
    "running_deployment d (st_attempt_id st) = Some a" "row_get wf_id (st_workflow_id st) (workflows d) = Some w"
    "wf_state w = WS_REJECTED"
proof -
  obtain st d a w where d: "demo_rejected = Inr (st, d)" and f: "running_deployment d (st_attempt_id st) = Some a"
      "row_get wf_id (st_workflow_id st) (workflows d) = Some w" "wf_state w = WS_REJECTED"
    using sum_case_witness [OF demo_rejected_facts] by (auto split: option.splits)
  obtain d0 x where d0: "demo_deploying = Inr (st, d0)" and fr: "fresh_ids (demo_env 15 ''e'') d0"
    and ap: "approve demo_cf (demo_env 15 ''e'') ''w'' ''dev-operator'' AA_DEPLOY ''dev'' ''merge'' AD_REJECTED ''no'' 15 (Some ''dev'') (Some ''h'')
       None d0 = Inr (x, d)"
    using d unfolding demo_rejected_def ebind_eq_Inr require_eq_Inr split_paired_Ex prod.case
    by (elim exE conjE) (metis sum.inject(2) prod.inject)
  have "(plane_step demo_cf demo_dc)\<^sup>*\<^sup>* (demo_planned, [], []) (d, [], [Call_local st])"
    by (rule rtranclp.rtrancl_into_rtrancl [OF r_into_rtranclp [of "plane_step demo_cf demo_dc", OF demo_deploying_step [OF d0]] plane_step.service [OF svc_step.approval [OF fr ap]]])
  then show thesis using that f by blast
qed

section \<open>Recorded outcomes\<close>

text \<open>No handler that is still under way will write the row \<open>a\<close>: its outcome is recorded, or no call in flight is for it.\<close>

definition untouched :: "call list \<Rightarrow> deployment_attempt_record \<Rightarrow> bool" where
  "untouched S a \<longleftrightarrow> da_status a \<noteq> DS_RUNNING \<or> (\<forall>st. Call_dry st \<in> set S \<or> Call_local st \<in> set S \<longrightarrow> st_attempt_id st \<noteq> da_id a)"

lemma untouched_mono: "untouched S a \<Longrightarrow> set S' \<subseteq> set S \<Longrightarrow> untouched S' a"
  by (auto simp: untouched_def)

lemma untouched_remove1: "untouched S a \<Longrightarrow> untouched (remove1 c S) a"
  by (erule untouched_mono) (rule set_remove1_subset)

lemma untouched_Cons:
  assumes "untouched S a" "\<And>st. c = Call_dry st \<or> c = Call_local st \<Longrightarrow> st_attempt_id st \<noteq> da_id a"
  shows "untouched (c # S) a"
  using assms unfolding untouched_def by (metis set_ConsD)

lemma closes_keeps:
  assumes "closes loc aid wid d d'" "a \<in> set (deployments d)" "da_status a \<noteq> DS_RUNNING \<or> da_id a \<noteq> aid"
    "distinct (map da_id (deployments d))"
  shows "a \<in> set (deployments d')"
proof -
  obtain b f where b: "running_deployment d aid = Some b" "deployments d' = row_upd da_id aid f (deployments d)"
    using assms(1) unfolding closes_def by (elim exE conjE)
  have get: "row_get da_id aid (deployments d) = Some b" "da_status b = DS_RUNNING"
    using b(1) by (auto simp: running_deployment_def split: option.splits if_splits)
  have "b \<in> set (deployments d)" "da_id b = aid" using row.get_SomeD [OF get(1)] by simp_all
  then have "da_id a \<noteq> aid" using assms(2-4) get(2) by (auto simp: distinct_map inj_on_def)
  then show ?thesis unfolding b(2) row.set_upd using assms(2) by (intro image_eqI [of _ _ a]) simp_all
qed

lemma settle_confirmation_deployments:
  assumes "settle_confirmation cf en rid answer d = (r, d')"
  shows "deployments d' = deployments d"
proof -
  have "deployments (mark_merge_confirmation_failed cf en rid code d) = deployments d" for code
    by (simp add: mark_merge_confirmation_failed_def Let_def split: option.split)
  moreover have "deployments d1 = deployments d" if "complete_merge_confirmation cf en rid res d = Inr (j, d1)" for res j d1
    using that by (rule complete_merge_confirmation_effect) simp
  ultimately show ?thesis using assms by (auto simp: settle_confirmation_def split: sum.splits)
qed

lemma begins_keeps:
  assumes "fresh_rows en d" "begins en sim st ap p b d d'" "a \<in> set (deployments d)"
  shows "a \<in> set (deployments d')" "st_attempt_id st \<noteq> da_id a"
  using assms by (auto simp: begins_def fresh_rows_def)

lemma plane_step_untouched:
  assumes ok: "plane_ok (d, P, S)" and st: "plane_step cf dc (d, P, S) (d', P', S')" and a: "a \<in> set (deployments d)" "untouched S a"
  shows "a \<in> set (deployments d') \<and> untouched S' a"
proof -
  have dist: "distinct (map da_id (deployments d))" using ok by (simp add: plane_ok_iff executions_ok_def)
  have keep: "a \<in> set (deployments d')" if "closes loc (st_attempt_id st) wid d d'" "Call_dry st \<in> set S \<or> Call_local st \<in> set S" for loc st wid
    by (rule closes_keeps [OF that(1) a(1) _ dist]) (use a(2) that(2) in \<open>auto simp: untouched_def\<close>)
  have inert: "a \<in> set (deployments d1)" if "inert d d1" for d1 using that a(1) by (simp add: inert_def)
  from st show ?thesis
  proof cases
    case service
    have "same_outer d d'" using svc_step_frame [OF service(2)]
      by (elim disjE exE conjE) (auto simp: steady_def dest: approve_frame(5))
    then show ?thesis using a service by simp
  next
    case (proposed en rid v rec r)
    then show ?thesis using complete_pull_request_inert [of d cf en rid v rec] inert a by auto
  next
    case (plan en wid actor ps r)
    then show ?thesis using create_plan_effect [OF plan(4)] a by (auto simp: adds_plan_def)
  next
    case (dry_done st en ad r)
    then have "d' = d \<or> closes False (st_attempt_id st) (st_workflow_id st) d d'" using complete_dry_run_effect by blast
    then show ?thesis using keep dry_done(2,3) a untouched_remove1 by auto
  next
    case (local_done st en outcome contacted r)
    then have "d' = d \<or> closes True (st_attempt_id st) (st_workflow_id st) d d'"
      using complete_local_deployment_effect [OF ok] by blast
    then show ?thesis using keep local_done(2,3) a untouched_remove1 by auto
  next
    case (rollback_done rs en outcome contacted ms r)
    then have "d' = d \<or> closes_rollback (rs_rollback_id rs) (rs_workflow_id rs) d d'" using complete_local_rollback_effect by blast
    then have "deployments d' = deployments d" by (auto simp: closes_rollback_def)
    then show ?thesis using rollback_done(2) a untouched_remove1 by simp
  next
    case (confirm en g wid pid aid actor key z)
    then show ?thesis using start_confirmation_effect [OF confirm(4)] a by (auto simp: inert_def)
  next
    case (register en actor sp r)
    then show ?thesis using register_effect [OF register(3)] inert a by auto
  next
    case (dry en wid pid actor key st ad)
    then show ?thesis using start_dry_run_effect [OF dry(4)] begins_keeps [OF dry(3) _ a(1)] a(2) by (auto intro: untouched_Cons)
  next
    case (local en wid pid actor key st ad)
    then show ?thesis using start_local_deployment_effect [OF local(4)] begins_keeps [OF local(3) _ a(1)] a(2) by (auto intro: untouched_Cons)
  next
    case (rollback en wid aid actor key rs ad)
    then have "deployments d' = deployments d" using start_local_rollback_effect [OF rollback(4)] by (auto simp: begins_rollback_def)
    then show ?thesis using rollback(2) a by (auto intro: untouched_Cons)
  next
    case (confirmed en rid answer r)
    then show ?thesis using settle_confirmation_deployments a by auto
  next
    case (lost c)
    then show ?thesis using a untouched_remove1 by simp
  qed (use a in \<open>auto intro: inert ingest_ci_inert start_pull_request_inert mark_pull_request_unknown_inert
      fail_proposal_inert start_readiness_inert record_merge_readiness_inert mark_readiness_failed_inert\<close>)
qed

lemma plane_run_untouched:
  assumes "(plane_step cf dc)\<^sup>*\<^sup>* (d, P, S) (d', P', S')" "plane_ok (d, P, S)" "a \<in> set (deployments d)" "untouched S a"
  shows "a \<in> set (deployments d')"
proof -
  have "a \<in> set (deployments (fst W')) \<and> untouched (snd (snd W')) a"
    if "(plane_step cf dc)\<^sup>*\<^sup>* (d, P, S) W'" for W'
    using that
  proof (induction rule: rtranclp_induct)
    case (step X Y)
    have "plane_ok X" by (rule plane_runs_ok [OF assms(2) step.hyps(1)])
    then show ?case using step plane_step_untouched [of "fst X" "fst (snd X)" "snd (snd X)" cf dc "fst Y" "fst (snd Y)" "snd (snd Y)" a]
      by simp
  qed (use assms in simp)
  from this [OF assms(1)] show ?thesis by simp
qed

text \<open>C12: Recorded outcomes are final. Once a deployment attempt is no longer RUNNING, no later step of the
control plane, whichever handler, in whatever order, changes anything of its row; and the row of an attempt
that is RUNNING is only ever written by the call that is carrying it out, so that when that call is gone, the
attempt keeps its row for ever.\<close>

theorem recorded_outcomes_final:
  assumes "W = plane_init \<or> plane_ok W" and "(plane_step cf dc)\<^sup>*\<^sup>* W (d, P, S)" and "(plane_step cf dc)\<^sup>*\<^sup>* (d, P, S) (d', P', S')"
    and "a \<in> set (deployments d)"
    and "da_status a \<noteq> DS_RUNNING \<or> (\<forall>st. Call_dry st \<in> set S \<or> Call_local st \<in> set S \<longrightarrow> st_attempt_id st \<noteq> da_id a)"
  shows "row_get da_id (da_id a) (deployments d') = Some a"
proof -
  have "a \<in> set (deployments d')"
    by (rule plane_run_untouched [OF assms(3) runs_ok [OF assms(1,2)] assms(4)]) (use assms(5) in \<open>simp add: untouched_def\<close>)
  moreover have "distinct (map da_id (deployments d'))"
    using plane_runs_ok [OF runs_ok [OF assms(1,2)] assms(3)] by (simp add: plane_ok_iff executions_ok_def)
  ultimately show ?thesis by (rule row.get_unique [rotated])
qed

theorem recorded_outcomes_final_witness:
  "\<exists>a\<in>set (deployments demo_local). row_get da_id (da_id a) (deployments demo_local) = Some a"
proof -
  have "deployments demo_local \<noteq> []" using demo_local_facts(6) by auto
  then have a: "hd (deployments demo_local) \<in> set (deployments demo_local)" by simp
  show ?thesis
    by (rule bexI [OF _ a], rule recorded_outcomes_final [OF disjI2 [OF demo_planned_ok] demo_run_of [OF demo_local_facts(1)]
          rtranclp.rtrancl_refl a]) simp
qed

lemma start_local_rollback_snapshot:
  assumes "start_local_rollback cf dc en wid aid actor key d = Inr (Inr x, d')"
  shows "\<exists>a. row_get da_id aid (deployments d) = Some a \<and> recorded_snapshot (da_result_json a) \<noteq> None"
  using assms by (auto simp: start_local_rollback_def tx_simps Let_def contained_attempt_Inr split: option.splits if_splits)

lemma fail_local_deployment_errors:
  assumes "fail_local_deployment cf en aid status code tc d = Inl e"
  shows "(\<exists>m. e = ValueError m) \<or> (\<exists>m. e = NotFoundError m) \<or> (\<exists>m. e = InvalidTransitionError m)"
  using assms unfolding fail_local_deployment_def Let_def
  by (auto simp: ebind_eq_Inl split: if_splits option.splits dest!: transition_errors)

lemma unverified_recorded:
  assumes "complete_local_deployment cf en st (Inl (DeploymentVerificationError m)) contacted d = (Inl (DeploymentVerificationError m), d')"
    and "running_deployment d (st_attempt_id st) = Some a"
  shows "\<exists>b w. row_get da_id (st_attempt_id st) (deployments d') = Some b \<and> da_status b = DS_ROLLBACK_REQUIRED \<and>
    recorded_snapshot (da_result_json b) = None \<and>
    row_get wf_id (da_workflow_id a) (workflows d') = Some w \<and> wf_state w = WS_ROLLBACK_REQUIRED"
proof -
  let ?aid = "st_attempt_id st"
  define f where "f = (\<lambda>a. a\<lparr>da_status := DS_ROLLBACK_REQUIRED, da_error_code := Some (take 64 (error_name (DeploymentVerificationError m))),
     da_completed_at := Some (en_now en 0), da_result_json := [(''credential_requested'', JBool True),
       (''error'', JStr ''local deployment did not produce verified success''), (''target_contacted'', JBool True)]\<rparr> :: deployment_attempt_record)"
  obtain re ex d2 ev ac rt oc pl where tr: "transition cf (da_workflow_id a) WS_ROLLBACK_REQUIRED ''orchestrator'' re ex (upd_deployment ?aid f d) = Inr d2"
    and d': "d' = audit cf (da_workflow_id a) ev ac rt ?aid oc pl d2"
  proof -
    have "fail_local_deployment cf en ?aid DS_ROLLBACK_REQUIRED (error_name (DeploymentVerificationError m)) True d = Inr d'"
      using assms(1) fail_local_deployment_errors
      unfolding complete_local_deployment_def failure_status.simps sum.case if_True
      by (fastforce split: sum.splits)
    then show ?thesis
      using that assms(2) unfolding fail_local_deployment_def Let_def f_def [symmetric]
      by (auto simp: ebind_eq_Inr)
  qed
  let ?W = "workflows (upd_deployment ?aid f d)"
  obtain v n where v: "row_get wf_id (da_workflow_id a) ?W = Some v"
    and d2: "workflows d2 = row_upd wf_id (da_workflow_id a) (\<lambda>x. x\<lparr>wf_state := WS_ROLLBACK_REQUIRED, wf_version := n\<rparr>) ?W"
    by (rule transition_Inr [OF tr])
  have "row_get wf_id (da_workflow_id a) (workflows d') = Some (v\<lparr>wf_state := WS_ROLLBACK_REQUIRED, wf_version := n\<rparr>)"
    unfolding d' using v by (simp add: d2 row.get_upd)
  moreover have "row_get da_id ?aid (deployments d) = Some a"
    using assms(2) by (auto simp: running_deployment_def split: option.splits if_splits)
  then have "row_get da_id ?aid (deployments d') = Some (f a)"
    unfolding d' using transition_frame [OF tr] by (simp add: row.get_upd f_def)
  moreover have "da_status (f a) = DS_ROLLBACK_REQUIRED" "recorded_snapshot (da_result_json (f a)) = None"
    by (simp_all add: f_def recorded_snapshot_def dict_get_def)
  ultimately show ?thesis by fastforce
qed

text \<open>C25: A deployment that could not be verified cannot be rolled back. When the adapter reports that the target
changed but verification failed, the attempt is recorded as ROLLBACK-REQUIRED and so is the workflow, whose only
way on is a rollback; but the result recorded for the attempt no longer holds the release to go back to, so in no
later state of the control plane does a rollback of that attempt start.\<close>

theorem unverified_deployment_cannot_be_rolled_back:
  assumes "W = plane_init \<or> plane_ok W" and "(plane_step cf dc)\<^sup>*\<^sup>* W (d, P, S)" and "Call_local st \<in> set S"
    and "running_deployment d (st_attempt_id st) = Some a"
    and "complete_local_deployment cf en st (Inl (DeploymentVerificationError m)) contacted d = (Inl (DeploymentVerificationError m), d1)"
    and "(plane_step cf dc)\<^sup>*\<^sup>* (d1, P, remove1 (Call_local st) S) (d2, P2, S2)"
  shows "(\<exists>w. row_get wf_id (da_workflow_id a) (workflows d1) = Some w \<and> wf_state w = WS_ROLLBACK_REQUIRED) \<and>
    start_local_rollback cf dc en2 wid (st_attempt_id st) actor key d2 \<noteq> Inr (Inr x, d3)"
proof -
  obtain b w where b: "row_get da_id (st_attempt_id st) (deployments d1) = Some b" "da_status b = DS_ROLLBACK_REQUIRED"
      "recorded_snapshot (da_result_json b) = None"
    and w: "row_get wf_id (da_workflow_id a) (workflows d1) = Some w" "wf_state w = WS_ROLLBACK_REQUIRED"
    using unverified_recorded [OF assms(5,4)] by blast
  have ok1: "plane_ok (d1, P, remove1 (Call_local st) S)"
    using plane_runs_ok [OF runs_ok [OF assms(1,2)] r_into_rtranclp [of "plane_step cf dc", OF plane_step.local_done [OF assms(3,5)]]] .
  have "b \<in> set (deployments d1)" using row.get_SomeD [OF b(1)] by simp
  then have "b \<in> set (deployments d2)"
    by (rule plane_run_untouched [OF assms(6) ok1]) (simp add: untouched_def b(2))
  moreover have "distinct (map da_id (deployments d2))"
    using plane_runs_ok [OF ok1 assms(6)] by (simp add: plane_ok_iff executions_ok_def)
  ultimately have "row_get da_id (da_id b) (deployments d2) = Some b" by (rule row.get_unique [rotated])
  then have g: "row_get da_id (st_attempt_id st) (deployments d2) = Some b" using row.get_key [OF b(1)] by simp
  have "start_local_rollback cf dc en2 wid (st_attempt_id st) actor key d2 \<noteq> Inr (Inr x, d3)"
  proof
    assume "start_local_rollback cf dc en2 wid (st_attempt_id st) actor key d2 = Inr (Inr x, d3)"
    from start_local_rollback_snapshot [OF this] g b(3) show False by simp
  qed
  with w show ?thesis by blast
qed

theorem unverified_deployment_cannot_be_rolled_back_witness:
  "\<exists>st d d1. demo_deploying = Inr (st, d) \<and>
     d1 = snd (complete_local_deployment demo_cf (demo_env 20 ''b'') st (Inl (DeploymentVerificationError ''m'')) True d) \<and>
     (\<forall>en wid actor key x d3. start_local_rollback demo_cf demo_dc en wid (st_attempt_id st) actor key d1 \<noteq> Inr (Inr x, d3))"
proof -
  obtain st d d1 a where d: "demo_deploying = Inr (st, d)" "running_deployment d (st_attempt_id st) = Some a"
    "complete_local_deployment demo_cf (demo_env 20 ''b'') st (Inl (DeploymentVerificationError ''m'')) True d =
       (Inl (DeploymentVerificationError ''m''), d1)" by (rule demo_unverified)
  have "Call_local st \<in> set [Call_local st]" by simp
  note t = unverified_deployment_cannot_be_rolled_back [OF disjI2 [OF demo_planned_ok] r_into_rtranclp [of "plane_step demo_cf demo_dc", OF demo_deploying_step [OF d(1)]] this d(2,3)
      rtranclp.rtrancl_refl, THEN conjunct2]
  show ?thesis by (rule exI [of _ st], rule exI [of _ d], rule exI [of _ d1]) (use t d in \<open>simp\<close>)
qed

section \<open>Errors\<close>



section \<open>A deployment overtaken\<close>

text \<open>C26: A deployment can be overtaken. If the workflow has left AWAITING-DEPLOYMENT-APPROVAL while its deployment was
being carried out (a human rejected a further deployment, or another attempt was recorded first), then the
verified success of the deployment is refused as a forbidden transition and nothing of it is recorded; and if
no other call is for that attempt, it stays RUNNING in every later state, although the target was changed.\<close>

theorem overtaken_deployment_never_recorded:
  assumes "W = plane_init \<or> plane_ok W" and "(plane_step cf dc)\<^sup>*\<^sup>* W (d, P, S)" and "Call_local st \<in> set S"
    and "running_deployment d (st_attempt_id st) = Some a"
    and "row_get wf_id (st_workflow_id st) (workflows d) = Some w" and "wf_state w \<noteq> WS_AWAITING_DEPLOYMENT_APPROVAL"
    and "vf_passed (cu_verification run)" and "\<not> dx_simulated (cu_execution run)"
    and "\<forall>st'. Call_dry st' \<in> set (remove1 (Call_local st) S) \<or> Call_local st' \<in> set (remove1 (Call_local st) S) \<longrightarrow>
      st_attempt_id st' \<noteq> st_attempt_id st"
    and "(plane_step cf dc)\<^sup>*\<^sup>* (d, P, remove1 (Call_local st) S) (d2, P2, S2)"
  shows "\<exists>m. complete_local_deployment cf en st (Inr (handle, run)) contacted d = (Inl (InvalidTransitionError m), d) \<and>
    running_deployment d2 (st_attempt_id st) = Some a"
proof -
  have na: "WS_DEPLOYED \<notin> ALLOWED_TRANSITIONS (wf_state w)" using assms(6) by (cases "wf_state w") simp_all
  define M where "M = ''transition '' @ workflow_state_value (wf_state w) @ '' -> '' @ workflow_state_value WS_DEPLOYED @ '' is forbidden''"
  have tr: "transition cf (st_workflow_id st) WS_DEPLOYED ac re ex d1 = Inl (InvalidTransitionError M)"
    if "workflows d1 = workflows d" for ac re ex d1
    using na assms(5) that by (simp add: transition_def get_workflow_def assert_transition_allowed_def M_def)
  have "finish_local_deployment cf en st handle run d = Inl (InvalidTransitionError M)"
    using assms(4,5,7,8) by (simp add: finish_local_deployment_def Let_def get_workflow_def tr add_verification_def)
  then have "complete_local_deployment cf en st (Inr (handle, run)) contacted d = (Inl (InvalidTransitionError M), d)"
    by (simp add: complete_local_deployment_def)
  note complete = this
  have ok: "plane_ok (d, P, remove1 (Call_local st) S)"
    by (rule plane_runs_ok [OF runs_ok [OF assms(1,2)] r_into_rtranclp [of "plane_step cf dc", OF plane_step.lost]])
  have g: "row_get da_id (st_attempt_id st) (deployments d) = Some a" "da_status a = DS_RUNNING"
    using assms(4) by (auto simp: running_deployment_def split: option.splits if_splits)
  have "a \<in> set (deployments d)" "da_id a = st_attempt_id st" using row.get_SomeD [OF g(1)] by simp_all
  then have "a \<in> set (deployments d2)"
    by (intro plane_run_untouched [OF assms(10) ok]) (use assms(9) in \<open>auto simp: untouched_def\<close>)
  moreover have "distinct (map da_id (deployments d2))"
    using plane_runs_ok [OF ok assms(10)] by (simp add: plane_ok_iff executions_ok_def)
  ultimately have "row_get da_id (da_id a) (deployments d2) = Some a" by (intro row.get_unique)
  then have "running_deployment d2 (st_attempt_id st) = Some a" using \<open>da_id a = _\<close> g(2) by (simp add: running_deployment_def)
  with complete show ?thesis by blast
qed

theorem overtaken_deployment_never_recorded_witness:
  "\<exists>st d m. complete_local_deployment demo_cf (demo_env 20 ''b'') st (Inr (demo_session_handle, demo_run True)) True d =
     (Inl (InvalidTransitionError m), d) \<and> running_deployment d (st_attempt_id st) \<noteq> None"
proof -
  obtain st d a w where d: "(plane_step demo_cf demo_dc)\<^sup>*\<^sup>* (demo_planned, [], []) (d, [], [Call_local st])"
    "running_deployment d (st_attempt_id st) = Some a" "row_get wf_id (st_workflow_id st) (workflows d) = Some w"
    "wf_state w = WS_REJECTED" by (rule demo_rejected_run)
  have "Call_local st \<in> set [Call_local st]" by simp
  from overtaken_deployment_never_recorded [OF disjI2 [OF demo_planned_ok] d(1) this d(2,3) _ _ _ _ rtranclp.rtrancl_refl,
      of "demo_run True" "demo_env 20 ''b''" demo_session_handle True] d(2,4)
  show ?thesis by (auto simp: demo_run_def)
qed

end
