(* ===== verification/Kubernetes_Deployment.thy ===== *)
theory Kubernetes_Deployment
  imports Deployment
begin

text \<open>
  \<open>kubernetes_deployment.py\<close>: the adapter that updates one release marker (a ConfigMap) in a local cluster,
  observes it, and restores the snapshot it took.  The API server is not part of the repository: the client
  is a pair of functions on its state \<open>'k\<close>, which answer with a status and a body (\<open>None\<close> when the body is
  not JSON) or with a transport failure.  The state is threaded through the calls, so a change made before
  an exception stays made.
\<close>

section \<open>The client\<close>

datatype http_outcome = HTTP_transport_error | HTTP_response int "json option"

record 'k kube_client =
  kc_get :: "string \<Rightarrow> string \<Rightarrow> 'k \<Rightarrow> http_outcome \<times> 'k"
  kc_put :: "string \<Rightarrow> string \<Rightarrow> json \<Rightarrow> 'k \<Rightarrow> http_outcome \<times> 'k"

section \<open>The adapter and its constructor\<close>

record k3d =
  k3_environment_id :: string
  k3_namespace :: string
  k3_audience :: string
  k3_subject :: string
  k3_lifetime_seconds :: int
  k3_path :: string

definition k3d_adapter_id :: string where
  "k3d_adapter_id = ''local-k3d-configmap-v1''"

definition k3d_resource_id :: string where
  "k3d_resource_id = ''configmap/eldridge-release''"

definition k3d_verification_probes :: "string list" where
  "k3d_verification_probes = [''revision-match'', ''plan-digest-match'', ''artifact-digest-match'']"

definition k3d_rollback_reference :: string where
  "k3d_rollback_reference = ''restore-previous-release-marker-v1''"

definition k3d_policy_version :: string where
  "k3d_policy_version = ''deployment/local-k3d-v1''"

text \<open>What \<open>urlsplit\<close> returns.\<close>

record url_parts =
  ur_scheme :: string
  ur_hostname :: "string option"
  ur_username :: "string option"
  ur_password :: "string option"
  ur_path :: string
  ur_query :: string
  ur_fragment :: string

definition rstrip_slash :: "string \<Rightarrow> string" where
  "rstrip_slash s = rev (dropWhile (\<lambda>c. c = CHR ''/'') (rev s))"

definition k3d_init :: "(string \<Rightarrow> url_parts) \<Rightarrow> string \<Rightarrow> string \<Rightarrow> string \<Rightarrow> string \<Rightarrow> string \<Rightarrow> int \<Rightarrow>
    error + k3d" where
  "k3d_init urlsplit api_server environment_id namespace audience subject lifetime_seconds =
     (let u = urlsplit api_server in
      if ur_scheme u \<noteq> ''https'' \<or> ur_hostname u \<notin> {Some ''127.0.0.1'', Some ''::1'', Some ''localhost''} \<or>
         ur_username u \<noteq> None \<or> ur_password u \<noteq> None \<or> ur_path u \<notin> {[], ''/''} \<or> ur_query u \<noteq> [] \<or>
         ur_fragment u \<noteq> []
      then Inl (ValidationError ''local k3d adapter requires an explicit loopback HTTPS API'')
      else if environment_id \<noteq> ''eldridge-local-k3d'' \<or> namespace \<noteq> ''eldridge-validation''
      then Inl (ValidationError ''local k3d adapter target is not allowlisted'')
      else if lifetime_seconds \<noteq> 600
      then Inl (ValidationError ''local k3d adapter credential lifetime must equal 600 seconds'')
      else Inr \<lparr>k3_environment_id = environment_id, k3_namespace = namespace, k3_audience = audience,
        k3_subject = subject, k3_lifetime_seconds = lifetime_seconds,
        k3_path = rstrip_slash api_server @ ''/api/v1/namespaces/'' @ namespace @ ''/configmaps/eldridge-release''\<rparr>)"

section \<open>Checks\<close>

text \<open>\<open>sha256:[0-9a-f]{64}\<close>\<close>

definition is_artifact_digest :: "string \<Rightarrow> bool" where
  "is_artifact_digest s \<longleftrightarrow> starts_with ''sha256:'' s \<and> is_hex 64 (remove_prefix ''sha256:'' s)"

definition key_chars :: "string \<Rightarrow> bool" where
  "key_chars s \<longleftrightarrow> s \<noteq> [] \<and> list_all (\<lambda>c. alnum c \<or> c \<in> set ''._-'') s"

definition k3d_check_operation :: "deployment_plan \<Rightarrow> dict \<Rightarrow> error + unit" where
  "k3d_check_operation plan operation =
     (if fst ` set operation \<noteq> {''kind'', ''resource_id'', ''artifact_digest''}
      then Inl (ValidationError ''local k3d operation fields do not exactly match policy'')
      else if dict_get operation ''kind'' \<noteq> Some (JStr (deployment_operation_kind_value OK_UPDATE_SERVICE))
      then Inl (ValidationError ''local k3d operation kind is not allowlisted'')
      else if dict_get operation ''resource_id'' \<noteq> Some (JStr k3d_resource_id)
      then Inl (ValidationError ''local k3d operation resource does not match policy'')
      else if dict_get operation ''artifact_digest'' \<notin> (\<lambda>a. Some (JStr a)) ` set (pl_artifact_digests plan)
      then Inl (ValidationError ''local k3d operation references an unbound artifact'')
      else Inr ())"

definition k3d_validate_plan :: "k3d \<Rightarrow> deployment_plan \<Rightarrow> error + unit" where
  "k3d_validate_plan k plan =
     (if pl_environment_id plan \<noteq> k3_environment_id k
      then Inl (ValidationError ''deployment plan environment does not match local k3d adapter'')
      else if pl_policy_version plan \<noteq> k3d_policy_version
      then Inl (ValidationError ''deployment plan policy does not match local k3d adapter'')
      else if pl_rollback_reference plan \<noteq> k3d_rollback_reference
      then Inl (ValidationError ''deployment rollback policy does not match local k3d adapter'')
      else if pl_verification_probes plan \<noteq> k3d_verification_probes
      then Inl (ValidationError ''deployment verification probes do not match local k3d adapter'')
      else if \<not> is_hex 40 (pl_revision plan) \<or> \<not> is_hex 64 (pl_digest plan) \<or>
         \<not> (case pl_artifact_digests plan of [a] \<Rightarrow> is_artifact_digest a | _ \<Rightarrow> False)
      then Inl (ValidationError ''local k3d plan revision or digest binding is invalid'')
      else (case pl_operations plan of
          [operation] \<Rightarrow> k3d_check_operation plan operation
        | _ \<Rightarrow> Inl (ValidationError ''local k3d deployment requires exactly one operation'')))"

definition k3d_credential_request :: "k3d \<Rightarrow> deployment_plan \<Rightarrow> error + workload_credential_request" where
  "k3d_credential_request k plan =
     ebind (k3d_validate_plan k plan) (\<lambda>_.
     Inr \<lparr>cr_environment_id = k3_environment_id k, cr_adapter_id = k3d_adapter_id, cr_plan_digest = pl_digest plan,
       cr_operation = CO_APPLY_PLAN, cr_audience = k3_audience k, cr_subject = k3_subject k,
       cr_resource_scope = [''namespace/'' @ k3_namespace k @ ''/'' @ k3d_resource_id],
       cr_lifetime_seconds = k3_lifetime_seconds k\<rparr>)"

definition k3d_rollback_credential_request :: "k3d \<Rightarrow> deployment_plan \<Rightarrow> error + workload_credential_request" where
  "k3d_rollback_credential_request k plan =
     ebind (k3d_credential_request k plan) (\<lambda>r. Inr (r\<lparr>cr_operation := CO_ROLLBACK\<rparr>))"

definition k3d_validate_handle :: "instant \<Rightarrow> workload_credential_request \<Rightarrow> workload_credential_handle \<Rightarrow> error + unit" where
  "k3d_validate_handle now r h =
     (if ch_environment_id h \<noteq> cr_environment_id r \<or> ch_plan_digest h \<noteq> cr_plan_digest r \<or>
         ch_operation h \<noteq> cr_operation r \<or> ch_audience h \<noteq> cr_audience r \<or> ch_subject h \<noteq> cr_subject r \<or>
         ch_resource_scope h \<noteq> cr_resource_scope r \<or> ch_simulated h \<or>
         ch_expires_at h - ch_issued_at h \<noteq> seconds_us 600 \<or> ch_expires_at h \<le> now
      then Inl (ValidationError ''credential handle does not match deployment operation'')
      else Inr ())"

definition release_get :: "release \<Rightarrow> string \<Rightarrow> string option" where
  "release_get = map_of"

definition k3d_validate_release_snapshot :: "release \<Rightarrow> error + unit" where
  "k3d_validate_release_snapshot snapshot =
     (if snapshot = [] then Inr ()
      else if fst ` set snapshot \<noteq> {''artifact_digest'', ''idempotency_key'', ''plan_digest'', ''revision''}
      then Inl (ValidationError ''recorded rollback snapshot fields do not match policy'')
      else if \<not> is_artifact_digest (the (release_get snapshot ''artifact_digest'')) \<or>
         \<not> is_hex 64 (the (release_get snapshot ''plan_digest'')) \<or>
         \<not> is_hex 40 (the (release_get snapshot ''revision'')) \<or>
         \<not> (key_chars (the (release_get snapshot ''idempotency_key'')) \<and>
              length (the (release_get snapshot ''idempotency_key'')) \<le> 128)
      then Inl (ValidationError ''recorded rollback snapshot values do not match policy'')
      else Inr ())"

definition release_json :: "release \<Rightarrow> json" where
  "release_json r = JObj (map (\<lambda>(k, v). (k, JStr v)) r)"

definition k3d_snapshot_digest :: "(string \<Rightarrow> string) \<Rightarrow> release \<Rightarrow> string" where
  "k3d_snapshot_digest sha snapshot = digest sha (release_json snapshot)"

text \<open>Equality of dictionaries, whose keys are distinct.\<close>

definition same_release :: "release \<Rightarrow> release \<Rightarrow> bool" where
  "same_release a b \<longleftrightarrow> set a = set b"

section \<open>Reading and writing the marker\<close>

definition k3d_read :: "'k kube_client \<Rightarrow> k3d \<Rightarrow> string \<Rightarrow> bool \<Rightarrow> 'k \<Rightarrow> (error + dict) \<times> 'k" where
  "k3d_read c k credential after_change s =
     (case kc_get c (k3_path k) credential s of
        (HTTP_transport_error, s') \<Rightarrow>
          (Inl (if after_change then DeploymentVerificationError ''local k3d observation failed after a confirmed change''
            else ValidationError ''local k3d target was unavailable before mutation''), s')
      | (HTTP_response status body, s') \<Rightarrow>
          if status \<noteq> 200
          then (Inl (if after_change
            then DeploymentVerificationError ''local k3d release marker could not be observed after change''
            else ValidationError ''local k3d release marker is unavailable''), s')
          else (case body of
              Some (JObj payload) \<Rightarrow> (Inr payload, s')
            | _ \<Rightarrow> (Inl (ValidationError ''local k3d returned malformed release-marker evidence''), s')))"

definition k3d_release_data :: "dict \<Rightarrow> error + release" where
  "k3d_release_data payload =
     (case dict_get payload ''data'' of
        None \<Rightarrow> Inr []
      | Some (JObj d) \<Rightarrow> from_option (ValidationError ''local k3d release-marker data is malformed'') (release_entries d)
      | Some _ \<Rightarrow> Inl (ValidationError ''local k3d release-marker data is malformed''))"

definition resource_version :: "dict \<Rightarrow> json option" where
  "resource_version payload =
     (case dict_get payload ''metadata'' of
        Some (JObj metadata) \<Rightarrow> (case dict_get metadata ''resourceVersion'' of
            Some v \<Rightarrow> if truthy v then Some v else None | None \<Rightarrow> None)
      | _ \<Rightarrow> None)"

definition marker_body :: "k3d \<Rightarrow> json \<Rightarrow> release \<Rightarrow> json" where
  "marker_body k version desired = JObj
     [(''apiVersion'', JStr ''v1''), (''kind'', JStr ''ConfigMap''),
      (''metadata'', JObj [(''name'', JStr ''eldridge-release''), (''namespace'', JStr (k3_namespace k)),
        (''resourceVersion'', version),
        (''labels'', JObj [(''app.kubernetes.io/managed-by'', JStr ''eldridge'')])]),
      (''data'', release_json desired)]"

text \<open>The conditional update, shared by deployment (\<open>what = "update"\<close>) and rollback.\<close>

definition k3d_write :: "'k kube_client \<Rightarrow> k3d \<Rightarrow> string \<Rightarrow> string \<Rightarrow> dict \<Rightarrow> release \<Rightarrow> 'k \<Rightarrow> (error + unit) \<times> 'k" where
  "k3d_write c k credential what current desired s =
     (case resource_version current of
        None \<Rightarrow> (Inl (ValidationError ''release marker lacks a Kubernetes resource version''), s)
      | Some version \<Rightarrow>
          (case kc_put c (k3_path k) credential (marker_body k version desired) s of
             (HTTP_transport_error, s') \<Rightarrow>
               (Inl (DeploymentOutcomeUnknownError (''local k3d '' @ what @ '' outcome is unknown and requires reconciliation'')), s')
           | (HTTP_response status _, s') \<Rightarrow>
               if status \<noteq> 200
               then (Inl (ValidationError (''local k3d '' @ what @ '' was rejected before confirmation'')), s')
               else (Inr (), s')))"

text \<open>
  Read the marker, write it unless it already holds \<open>desired\<close>, and read it again: the state before, whether
  it was written, and the state observed.
\<close>

definition k3d_converge :: "'k kube_client \<Rightarrow> k3d \<Rightarrow> string \<Rightarrow> string \<Rightarrow> release \<Rightarrow> 'k \<Rightarrow>
    (error + release \<times> bool \<times> release) \<times> 'k" where
  "k3d_converge c k credential what desired s =
     sbind (k3d_read c k credential False s) (\<lambda>current s1.
     sbind (k3d_release_data current, s1) (\<lambda>previous s2.
     let changed = (\<not> same_release previous desired) in
     sbind (if changed then k3d_write c k credential what current desired s2 else (Inr (), s2)) (\<lambda>_ s3.
     sbind (k3d_read c k credential changed s3) (\<lambda>observed s4.
     sbind (k3d_release_data observed, s4) (\<lambda>observed_data s5.
     (Inr (previous, changed, observed_data), s5))))))"

section \<open>Deployment and rollback\<close>

definition j_release_get :: "release \<Rightarrow> string \<Rightarrow> json" where
  "j_release_get r k = j_opt_str (release_get r k)"

definition desired_release :: "deployment_plan \<Rightarrow> ident \<Rightarrow> release" where
  "desired_release plan idempotency_key =
     [(''artifact_digest'', py_str (the (dict_get (hd (pl_operations plan)) ''artifact_digest''))),
      (''idempotency_key'', idempotency_key), (''plan_digest'', pl_digest plan), (''revision'', pl_revision plan)]"

definition or_empty :: "string option \<Rightarrow> string" where
  "or_empty s = (case s of None \<Rightarrow> [] | Some x \<Rightarrow> x)"

definition key_ok :: "ident \<Rightarrow> bool" where
  "key_ok key \<longleftrightarrow> length key \<le> 128 \<and> key_chars key"

definition deployment_report :: "deployment_plan \<Rightarrow> workload_credential_handle \<Rightarrow> ident \<Rightarrow> release \<Rightarrow> bool \<Rightarrow>
    release \<Rightarrow> credentialed_run" where
  "deployment_report plan handle idempotency_key previous changed observed =
     (let desired = desired_release plan idempotency_key;
          artifact_digest = the (release_get desired ''artifact_digest'');
          revision = or_empty (release_get observed ''revision'')
      in \<lparr>cu_execution = \<lparr>dx_operation_reference = ''k3d-configmap:'' @ pl_digest plan @ '':'' @ idempotency_key,
            dx_simulated = False, dx_changed = changed,
            dx_evidence = [(''adapter_id'', JStr k3d_adapter_id), (''credential_reference'', JStr (ch_reference handle)),
              (''external_target_contacted'', JBool True), (''plan_digest'', JStr (pl_digest plan)),
              (''previous_release'', release_json previous), (''resource'', JStr k3d_resource_id)]\<rparr>,
          cu_observation = \<lparr>do_observed_revision = revision,
            do_evidence = [(''artifact_digest'', j_release_get observed ''artifact_digest''),
              (''idempotency_key'', j_release_get observed ''idempotency_key''),
              (''plan_digest'', j_release_get observed ''plan_digest''), (''resource_id'', JStr k3d_resource_id)]\<rparr>,
          cu_verification = \<lparr>vf_passed = same_release observed desired, vf_observed_revision = revision,
            vf_evidence = [(''artifact_digest_matches'', JBool (release_get observed ''artifact_digest'' = Some artifact_digest)),
              (''plan_digest_matches'', JBool (release_get observed ''plan_digest'' = Some (pl_digest plan))),
              (''revision_matches'', JBool (release_get observed ''revision'' = Some (pl_revision plan))),
              (''probes'', j_strs k3d_verification_probes)]\<rparr>\<rparr>)"

definition k3d_run_with_credential :: "'k kube_client \<Rightarrow> instant \<Rightarrow> k3d \<Rightarrow> deployment_plan \<Rightarrow> string \<Rightarrow>
    workload_credential_handle \<Rightarrow> ident \<Rightarrow> 'k \<Rightarrow> (error + credentialed_run) \<times> 'k" where
  "k3d_run_with_credential c now k plan credential handle idempotency_key s =
     sbind (k3d_validate_plan k plan, s) (\<lambda>_ s.
     if \<not> key_ok idempotency_key then (Inl (ValidationError ''local k3d idempotency key is invalid''), s)
     else
     sbind (k3d_credential_request k plan, s) (\<lambda>request s.
     sbind (k3d_validate_handle now request handle, s) (\<lambda>_ s.
     sbind (k3d_converge c k credential ''update'' (desired_release plan idempotency_key) s)
       (\<lambda>(previous, changed, observed) s.
     (Inr (deployment_report plan handle idempotency_key previous changed observed), s)))))"

definition rollback_report :: "(string \<Rightarrow> string) \<Rightarrow> deployment_plan \<Rightarrow> workload_credential_handle \<Rightarrow> ident \<Rightarrow>
    release \<Rightarrow> bool \<Rightarrow> release \<Rightarrow> credentialed_run" where
  "rollback_report sha plan handle idempotency_key previous_release changed observed =
     (let passed = same_release observed previous_release;
          revision = or_empty (release_get observed ''revision'')
      in \<lparr>cu_execution = \<lparr>dx_operation_reference = ''k3d-configmap-rollback:'' @ pl_digest plan @ '':'' @ idempotency_key,
            dx_simulated = False, dx_changed = changed,
            dx_evidence = [(''adapter_id'', JStr k3d_adapter_id), (''credential_reference'', JStr (ch_reference handle)),
              (''external_target_contacted'', JBool True), (''failed_plan_digest'', JStr (pl_digest plan)),
              (''resource'', JStr k3d_resource_id), (''rollback_reference'', JStr k3d_rollback_reference),
              (''target_snapshot_digest'', JStr (k3d_snapshot_digest sha previous_release))]\<rparr>,
          cu_observation = \<lparr>do_observed_revision = revision,
            do_evidence = [(''artifact_digest'', j_release_get observed ''artifact_digest''),
              (''plan_digest'', j_release_get observed ''plan_digest''), (''resource_id'', JStr k3d_resource_id),
              (''restored_snapshot_digest'', JStr (k3d_snapshot_digest sha observed))]\<rparr>,
          cu_verification = \<lparr>vf_passed = passed, vf_observed_revision = revision,
            vf_evidence = [(''failed_plan_absent'', JBool (release_get observed ''plan_digest'' \<noteq> Some (pl_digest plan))),
              (''restored_snapshot_matches'', JBool passed),
              (''restored_snapshot_digest'', JStr (k3d_snapshot_digest sha observed))]\<rparr>\<rparr>)"

definition k3d_rollback_with_credential :: "(string \<Rightarrow> string) \<Rightarrow> 'k kube_client \<Rightarrow> instant \<Rightarrow> k3d \<Rightarrow>
    deployment_plan \<Rightarrow> release \<Rightarrow> string \<Rightarrow> workload_credential_handle \<Rightarrow> ident \<Rightarrow> 'k \<Rightarrow>
    (error + credentialed_run) \<times> 'k" where
  "k3d_rollback_with_credential sha c now k plan previous_release credential handle idempotency_key s =
     sbind (k3d_validate_plan k plan, s) (\<lambda>_ s.
     sbind (k3d_validate_release_snapshot previous_release, s) (\<lambda>_ s.
     if release_get previous_release ''plan_digest'' = Some (pl_digest plan)
     then (Inl (ValidationError ''rollback snapshot cannot equal the failed deployment plan''), s)
     else if \<not> key_ok idempotency_key
     then (Inl (ValidationError ''local k3d rollback idempotency key is invalid''), s)
     else
     sbind (k3d_rollback_credential_request k plan, s) (\<lambda>request s.
     sbind (k3d_validate_handle now request handle, s) (\<lambda>_ s.
     sbind (k3d_converge c k credential ''rollback'' previous_release s) (\<lambda>(_, changed, observed) s.
     (Inr (rollback_report sha plan handle idempotency_key previous_release changed observed), s))))))"

definition k3d_adapter :: "(string \<Rightarrow> string) \<Rightarrow> 'k kube_client \<Rightarrow> instant \<Rightarrow> k3d \<Rightarrow> 'k adapter" where
  "k3d_adapter sha c now k = \<lparr>ad_adapter_id = k3d_adapter_id, ad_requires_credentials = True, ad_recoverable = True,
     ad_validate_plan = k3d_validate_plan k, ad_execute = (\<lambda>_ _. no_method ()), ad_observe = (\<lambda>_ _. no_method ()),
     ad_verify = (\<lambda>_ _. no_method ()), ad_credential_request = k3d_credential_request k,
     ad_run_with_credential = k3d_run_with_credential c now k,
     ad_rollback_credential_request = k3d_rollback_credential_request k,
     ad_rollback_with_credential = k3d_rollback_with_credential sha c now k\<rparr>"

section \<open>Deploying to and rolling back on a server that keeps what it is told\<close>

text \<open>
  \<open>honest_server c content\<close>: reading gives the marker's content and a resource version and changes nothing,
  and an accepted update makes the body's data the content.  \<open>content\<close> reads the marker off the server's state.
\<close>

definition honest_server :: "'k kube_client \<Rightarrow> ('k \<Rightarrow> release) \<Rightarrow> bool" where
  "honest_server c content \<longleftrightarrow>
     (\<forall>path credential s. \<exists>payload. kc_get c path credential s = (HTTP_response 200 (Some (JObj payload)), s) \<and>
        k3d_release_data payload = Inr (content s) \<and> resource_version payload \<noteq> None) \<and>
     (\<forall>path credential k version r s. \<exists>b s'.
        kc_put c path credential (marker_body k version r) s = (HTTP_response 200 b, s') \<and> same_release (content s') r)"

lemma honest_read:
  assumes "honest_server c content"
  obtains payload where "k3d_read c k credential after s = (Inr payload, s)"
    "k3d_release_data payload = Inr (content s)" "resource_version payload \<noteq> None"
proof -
  obtain payload where "kc_get c (k3_path k) credential s = (HTTP_response 200 (Some (JObj payload)), s)"
    "k3d_release_data payload = Inr (content s)" "resource_version payload \<noteq> None"
    using assms unfolding honest_server_def by blast
  then show thesis using that by (simp add: k3d_read_def)
qed

lemma honest_write:
  assumes "honest_server c content" "resource_version current \<noteq> None"
  obtains s' where "k3d_write c k credential what current desired s = (Inr (), s')" "same_release (content s') desired"
proof -
  obtain version where v: "resource_version current = Some version" using assms(2) by auto
  obtain b s' where "kc_put c (k3_path k) credential (marker_body k version desired) s = (HTTP_response 200 b, s')"
    "same_release (content s') desired" using assms(1) unfolding honest_server_def by blast
  then show thesis using that v by (simp add: k3d_write_def)
qed

lemma honest_converge:
  assumes "honest_server c content"
  obtains s' where "k3d_converge c k credential what desired s =
      (Inr (content s, \<not> same_release (content s) desired, content s'), s')" "same_release (content s') desired"
proof -
  obtain current where rd: "k3d_read c k credential False s = (Inr current, s)"
    "k3d_release_data current = Inr (content s)" "resource_version current \<noteq> None"
    by (rule honest_read [OF assms])
  obtain s1 where s1: "(if \<not> same_release (content s) desired then k3d_write c k credential what current desired s
      else (Inr (), s)) = (Inr (), s1)" "same_release (content s1) desired"
    by (cases "same_release (content s) desired")
      (auto intro: honest_write [OF assms rd(3), of k credential what desired s])
  obtain observed where ob: "k3d_read c k credential (\<not> same_release (content s) desired) s1 = (Inr observed, s1)"
    "k3d_release_data observed = Inr (content s1)"
    by (rule honest_read [OF assms])
  show thesis using that [of s1] rd s1 ob by (simp add: k3d_converge_def Let_def)
qed

definition demo_client :: "release kube_client" where
  "demo_client = \<lparr>kc_get = (\<lambda>_ _ s. (HTTP_response 200 (Some (JObj
       [(''metadata'', JObj [(''resourceVersion'', JStr ''1'')]), (''data'', release_json s)])), s)),
     kc_put = (\<lambda>_ _ body s. (HTTP_response 200 None, case body of
         JObj b \<Rightarrow> (case dict_get b ''data'' of Some (JObj d) \<Rightarrow> the (release_entries d) | _ \<Rightarrow> s) | _ \<Rightarrow> s))\<rparr>"

lemma demo_client_honest: "honest_server demo_client (\<lambda>s. s)"
  by (auto simp: honest_server_def demo_client_def k3d_release_data_def resource_version_def dict_get_def release_json_def
      marker_body_def same_release_def)

definition demo_k3d :: k3d where
  "demo_k3d = \<lparr>k3_environment_id = ''eldridge-local-k3d'', k3_namespace = ''eldridge-validation'', k3_audience = ''a'',
     k3_subject = ''s'', k3_lifetime_seconds = 600, k3_path = ''p''\<rparr>"

definition demo_plan :: deployment_plan where
  "demo_plan = \<lparr>pl_plan_id = ''p'', pl_workflow_id = ''w'', pl_environment_id = ''eldridge-local-k3d'',
     pl_revision = replicate 40 (CHR ''a''), pl_artifact_digests = [''sha256:'' @ replicate 64 (CHR ''b'')],
     pl_operations = [[(''kind'', JStr ''UPDATE_SERVICE''), (''resource_id'', JStr ''configmap/eldridge-release''),
       (''artifact_digest'', JStr (''sha256:'' @ replicate 64 (CHR ''b'')))]],
     pl_verification_probes = k3d_verification_probes, pl_rollback_reference = k3d_rollback_reference,
     pl_policy_version = k3d_policy_version, pl_digest = replicate 64 (CHR ''c'')\<rparr>"

definition demo_handle :: "credential_operation \<Rightarrow> workload_credential_handle" where
  "demo_handle op = \<lparr>ch_reference = ''r'', ch_broker_id = ''b'', ch_environment_id = ''eldridge-local-k3d'',
     ch_plan_digest = replicate 64 (CHR ''c''), ch_operation = op, ch_audience = ''a'', ch_subject = ''s'',
     ch_resource_scope = [''namespace/eldridge-validation/configmap/eldridge-release''], ch_issued_at = 0,
     ch_expires_at = 600000000, ch_simulated = False\<rparr>"



end
