(* ===== verification/Evaluation.thy ===== *)
theory Evaluation
  imports Routing Python_Text
begin

text \<open>
  \<open>evaluation.py\<close>: the evidence of a batch of candidate outputs, the evaluation policy, the constructor checks of
  each, and the evaluator that picks a winner, asks for another iteration or gives up.  A frozen set of check names
  is a list (only membership and the sorted order are used); a float is a rational.  The checks that a value
  is a Boolean, an integer or a number hold by typing.
\<close>

section \<open>Statuses\<close>

datatype evaluation_status = VS_WINNER_SELECTED | VS_REFINEMENT_REQUIRED | VS_EXHAUSTED

fun evaluation_status_value :: "evaluation_status \<Rightarrow> string" where
  "evaluation_status_value VS_WINNER_SELECTED = ''WINNER_SELECTED''"
| "evaluation_status_value VS_REFINEMENT_REQUIRED = ''REFINEMENT_REQUIRED''"
| "evaluation_status_value VS_EXHAUSTED = ''EXHAUSTED''"

datatype evaluation_execution_status = XS_PREPARED | XS_RUNNING | XS_OUTPUTS_READY | XS_PARTIAL | XS_UNKNOWN | XS_FAILED

fun evaluation_execution_status_value :: "evaluation_execution_status \<Rightarrow> string" where
  "evaluation_execution_status_value XS_PREPARED = ''PREPARED''"
| "evaluation_execution_status_value XS_RUNNING = ''RUNNING''"
| "evaluation_execution_status_value XS_OUTPUTS_READY = ''OUTPUTS_READY''"
| "evaluation_execution_status_value XS_PARTIAL = ''PARTIAL''"
| "evaluation_execution_status_value XS_UNKNOWN = ''UNKNOWN''"
| "evaluation_execution_status_value XS_FAILED = ''FAILED''"

datatype evaluation_assessment_status = SS_PREPARED | SS_RUNNING | SS_CHECKS_READY | SS_REVIEW_PREPARED | SS_REVIEWS_RUNNING
  | SS_REVIEW_UNKNOWN | SS_REVIEWS_READY | SS_DECIDED | SS_FAILED

fun evaluation_assessment_status_value :: "evaluation_assessment_status \<Rightarrow> string" where
  "evaluation_assessment_status_value SS_PREPARED = ''PREPARED''"
| "evaluation_assessment_status_value SS_RUNNING = ''RUNNING''"
| "evaluation_assessment_status_value SS_CHECKS_READY = ''CHECKS_READY''"
| "evaluation_assessment_status_value SS_REVIEW_PREPARED = ''REVIEW_PREPARED''"
| "evaluation_assessment_status_value SS_REVIEWS_RUNNING = ''REVIEWS_RUNNING''"
| "evaluation_assessment_status_value SS_REVIEW_UNKNOWN = ''REVIEW_UNKNOWN''"
| "evaluation_assessment_status_value SS_REVIEWS_READY = ''REVIEWS_READY''"
| "evaluation_assessment_status_value SS_DECIDED = ''DECIDED''"
| "evaluation_assessment_status_value SS_FAILED = ''FAILED''"

section \<open>Identifiers and digests\<close>

text \<open>\<open>[A-Za-z0-9][A-Za-z0-9._:/@+-]{0,127}\<close> and \<open>sha256:[0-9a-f]{64}\<close>\<close>

definition IDENTIFIER :: "string \<Rightarrow> bool" where
  "IDENTIFIER s \<longleftrightarrow> (case s of [] \<Rightarrow> False
     | c # cs \<Rightarrow> alnum c \<and> length cs \<le> 127 \<and> list_all (\<lambda>c. alnum c \<or> c \<in> set ''._:/@+-'') cs)"

definition DIGEST :: "string \<Rightarrow> bool" where
  "DIGEST s \<longleftrightarrow> starts_with ''sha256:'' s \<and> is_hex 64 (remove_prefix ''sha256:'' s)"

definition require_identifier :: "string \<Rightarrow> string \<Rightarrow> error + unit" where
  "require_identifier name s = require (IDENTIFIER s) (ValueError (name @ '' is invalid''))"

definition require_digest :: "string \<Rightarrow> string \<Rightarrow> error + unit" where
  "require_digest name s = require (DIGEST s) (ValueError (name @ '' must be a full sha256 digest''))"

fun require_identifiers :: "(string \<times> string) list \<Rightarrow> error + unit" where
  "require_identifiers [] = Inr ()"
| "require_identifiers ((name, s) # rest) = ebind (require_identifier name s) (\<lambda>_. require_identifiers rest)"

record prompt_variant =
  pt_variant_id :: string
  pt_instruction :: string

definition check_prompt_variant :: "prompt_variant \<Rightarrow> error + unit" where
  "check_prompt_variant v =
     ebind (require_identifier ''prompt variant ID'' (pt_variant_id v)) (\<lambda>_.
     require (strip (pt_instruction v) \<noteq> [] \<and> length (pt_instruction v) \<le> 4000)
       (ValueError ''prompt variant instruction is invalid''))"

section \<open>Evidence\<close>

record deterministic_check =
  dk_name :: string
  dk_passed :: bool
  dk_evidence_digest :: string
  dk_validated_output_digest :: string

definition check_deterministic_check :: "deterministic_check \<Rightarrow> error + unit" where
  "check_deterministic_check c =
     ebind (require_identifier ''check name'' (dk_name c)) (\<lambda>_.
     ebind (require_digest ''check evidence'' (dk_evidence_digest c)) (\<lambda>_.
     require_digest ''validated output'' (dk_validated_output_digest c)))"

record independent_review =
  ir_reviewer_provider_id :: string
  ir_reviewer_provider_family :: string
  ir_reviewer_model_version :: string
  ir_reviewer_profile_version :: string
  ir_reviewed_output_digest :: string
  ir_passed :: bool
  ir_evidence_digest :: string

definition check_independent_review :: "independent_review \<Rightarrow> error + unit" where
  "check_independent_review r =
     ebind (require_identifiers [(''reviewer provider ID'', ir_reviewer_provider_id r),
       (''reviewer provider family'', ir_reviewer_provider_family r),
       (''reviewer model version'', ir_reviewer_model_version r),
       (''reviewer profile version'', ir_reviewer_profile_version r)]) (\<lambda>_.
     ebind (require_digest ''reviewed output'' (ir_reviewed_output_digest r)) (\<lambda>_.
     require_digest ''review evidence'' (ir_evidence_digest r)))"

record candidate_evidence =
  cv_candidate_id :: string
  cv_provider_id :: string
  cv_provider_family :: string
  cv_model_version :: string
  cv_profile_version :: string
  cv_prompt_variant_id :: string
  cv_prompt_contract_version :: string
  cv_iteration :: int
  cv_succeeded :: bool
  cv_output_digest :: "string option"
  cv_latency_ms :: int
  cv_cost_microunits :: int
  cv_routing_score :: rat
  cv_checks :: "deterministic_check list"
  cv_reviews :: "independent_review list"

definition check_candidate_evidence :: "candidate_evidence \<Rightarrow> error + unit" where
  "check_candidate_evidence c =
     ebind (require_identifiers [(''candidate ID'', cv_candidate_id c), (''provider ID'', cv_provider_id c),
       (''provider family'', cv_provider_family c), (''model version'', cv_model_version c),
       (''profile version'', cv_profile_version c), (''prompt variant ID'', cv_prompt_variant_id c),
       (''prompt contract version'', cv_prompt_contract_version c)]) (\<lambda>_.
     ebind (require (1 \<le> cv_iteration c) (ValueError ''candidate iteration must be positive'')) (\<lambda>_.
     ebind (case cv_output_digest c of
         None \<Rightarrow> require (\<not> cv_succeeded c) (ValueError ''successful candidate requires an output digest'')
       | Some output \<Rightarrow> require_digest ''candidate output'' output) (\<lambda>_.
     ebind (require (0 \<le> cv_latency_ms c \<and> 0 \<le> cv_cost_microunits c)
       (ValueError ''candidate latency and cost cannot be negative'')) (\<lambda>_.
     ebind (require (0 \<le> cv_routing_score c \<and> cv_routing_score c \<le> 1)
       (ValueError ''candidate routing score must be between zero and one'')) (\<lambda>_.
     ebind (require (distinct (map dk_name (cv_checks c))) (ValueError ''candidate check names must be unique'')) (\<lambda>_.
     ebind (require (list_all (\<lambda>k. Some (dk_validated_output_digest k) = cv_output_digest c) (cv_checks c))
       (ValueError ''candidate checks must bind the candidate output digest'')) (\<lambda>_.
     ebind (require (distinct (map ir_reviewer_provider_id (cv_reviews c)))
       (ValueError ''reviewer provider IDs must be unique per candidate'')) (\<lambda>_.
     require (list_all (\<lambda>r. Some (ir_reviewed_output_digest r) = cv_output_digest c) (cv_reviews c))
       (ValueError ''candidate reviews must bind the candidate output digest'')))))))))"

definition provider_model_key :: "candidate_evidence \<Rightarrow> string \<times> string" where
  "provider_model_key c = (cv_provider_id c, cv_model_version c)"

section \<open>Policy, batch and decision\<close>

record evaluation_policy =
  eo_required_checks :: "string list"
  eo_risk :: risk_level
  eo_max_candidates :: int
  eo_max_prompt_variants :: int
  eo_max_iterations :: int
  eo_max_total_cost_microunits :: int
  eo_minimum_independent_reviews :: int

definition check_evaluation_policy :: "evaluation_policy \<Rightarrow> error + unit" where
  "check_evaluation_policy p =
     ebind (require (eo_required_checks p \<noteq> []) (ValueError ''at least one deterministic check is required'')) (\<lambda>_.
     ebind (require_identifiers (map (Pair ''required check'') (eo_required_checks p))) (\<lambda>_.
     ebind (require (1 \<le> eo_max_candidates p \<and> eo_max_candidates p \<le> 8)
       (ValueError ''max_candidates must be between 1 and 8'')) (\<lambda>_.
     ebind (require (1 \<le> eo_max_prompt_variants p \<and> eo_max_prompt_variants p \<le> 8)
       (ValueError ''max_prompt_variants must be between 1 and 8'')) (\<lambda>_.
     ebind (require (1 \<le> eo_max_iterations p \<and> eo_max_iterations p \<le> 5)
       (ValueError ''max_iterations must be between 1 and 5'')) (\<lambda>_.
     ebind (require (0 \<le> eo_max_total_cost_microunits p) (ValueError ''max_total_cost_microunits cannot be negative'')) (\<lambda>_.
     ebind (require (0 \<le> eo_minimum_independent_reviews p \<and> eo_minimum_independent_reviews p \<le> 2)
       (ValueError ''minimum_independent_reviews must be between 0 and 2'')) (\<lambda>_.
     require (eo_risk p < RL_HIGH \<or> 2 \<le> eo_minimum_independent_reviews p)
       (ValueError ''high-risk evaluation requires two independent reviews''))))))))"

record evaluation_batch =
  eb_campaign_id :: string
  eb_prompt_contract_version :: string
  eb_current_iteration :: int
  eb_prior_cost_microunits :: int
  eb_candidates :: "candidate_evidence list"

definition check_evaluation_batch :: "evaluation_batch \<Rightarrow> error + unit" where
  "check_evaluation_batch b =
     ebind (require_identifiers [(''campaign ID'', eb_campaign_id b), (''prompt contract version'', eb_prompt_contract_version b)]) (\<lambda>_.
     ebind (require (1 \<le> eb_current_iteration b) (ValueError ''current_iteration must be positive'')) (\<lambda>_.
     ebind (require (0 \<le> eb_prior_cost_microunits b) (ValueError ''prior campaign cost cannot be negative'')) (\<lambda>_.
     require (eb_candidates b \<noteq> []) (ValueError ''evaluation batch requires candidates''))))"

record ranked_evaluation_candidate =
  rk_candidate_id :: string
  rk_provider_id :: string
  rk_model_version :: string
  rk_routing_score :: rat
  rk_cost_microunits :: int
  rk_latency_ms :: int

definition EVALUATION_POLICY_VERSION :: string where
  "EVALUATION_POLICY_VERSION = ''multi-model-evaluation/v1''"

record evaluation_decision =
  ed_status :: evaluation_status
  ed_winner_candidate_id :: "string option"
  ed_ranked_candidates :: "ranked_evaluation_candidate list"
  ed_rejected_candidates :: "(string \<times> string list) list"
  ed_next_iteration :: "int option"
  ed_total_cost_microunits :: int
  ed_policy_version :: string

section \<open>The evaluator\<close>

text \<open>\<open>_validate_batch\<close>\<close>

definition candidate_matches_batch :: "evaluation_batch \<Rightarrow> candidate_evidence \<Rightarrow> error + unit" where
  "candidate_matches_batch b c =
     (if cv_iteration c \<noteq> eb_current_iteration b
      then Inl (ValueError ''candidate iteration does not match the evaluation batch'')
      else require (cv_prompt_contract_version c = eb_prompt_contract_version b)
        (ValueError ''candidate prompt contract does not match the evaluation batch''))"

fun candidates_match_batch :: "evaluation_batch \<Rightarrow> candidate_evidence list \<Rightarrow> error + unit" where
  "candidates_match_batch b [] = Inr ()"
| "candidates_match_batch b (c # cs) = ebind (candidate_matches_batch b c) (\<lambda>_. candidates_match_batch b cs)"

definition validate_batch :: "evaluation_policy \<Rightarrow> evaluation_batch \<Rightarrow> error + unit" where
  "validate_batch p b =
     (let cs = eb_candidates b in
      if eo_max_iterations p < eb_current_iteration b
      then Inl (ValueError ''evaluation batch exceeds the iteration ceiling'')
      else if \<not> distinct (map cv_candidate_id cs) then Inl (ValueError ''candidate IDs must be unique'')
      else if eo_max_candidates p < int (length (remdups (map provider_model_key cs)))
      then Inl (ValueError ''evaluation batch exceeds the candidate ceiling'')
      else if eo_max_prompt_variants p < int (length (remdups (map cv_prompt_variant_id cs)))
      then Inl (ValueError ''evaluation batch exceeds the prompt-variant ceiling'')
      else candidates_match_batch b cs)"

text \<open>The dictionary \<open>{check.name: check}\<close>: a later check replaces an earlier one of its name.\<close>

definition check_named :: "candidate_evidence \<Rightarrow> string \<Rightarrow> deterministic_check option" where
  "check_named c n = map_of (rev (map (\<lambda>k. (dk_name k, k)) (cv_checks c))) n"

definition independent_reviews :: "evaluation_policy \<Rightarrow> candidate_evidence \<Rightarrow> independent_review list" where
  "independent_reviews p c =
     (let passed = filter ir_passed (cv_reviews c);
          independent = filter (\<lambda>r. ir_reviewer_provider_id r \<noteq> cv_provider_id c) passed
      in if RL_HIGH \<le> eo_risk p
         then filter (\<lambda>r. ir_reviewer_provider_family r \<noteq> cv_provider_family c) independent
         else independent)"

definition evaluation_rejection_reasons :: "evaluation_policy \<Rightarrow> candidate_evidence \<Rightarrow> string list" where
  "evaluation_rejection_reasons p c =
     (let missing = sorted_set (filter (\<lambda>n. check_named c n = None) (eo_required_checks p));
          failed = sorted_set (filter (\<lambda>n. case check_named c n of None \<Rightarrow> False | Some k \<Rightarrow> \<not> dk_passed k) (eo_required_checks p))
      in (if cv_succeeded c then [] else [''provider_execution_failed'']) @
         (if missing = [] then [] else [''missing_checks:'' @ join '','' missing]) @
         (if failed = [] then [] else [''failed_checks:'' @ join '','' failed]) @
         (if int (length (independent_reviews p c)) < eo_minimum_independent_reviews p
          then [''insufficient_independent_reviews''] else []))"

definition ranking_key :: "candidate_evidence \<Rightarrow> rat \<times> int \<times> int \<times> string \<times> string \<times> string \<times> string" where
  "ranking_key c = (- cv_routing_score c, cv_cost_microunits c, cv_latency_ms c, cv_provider_id c, cv_model_version c,
     cv_prompt_variant_id c, cv_candidate_id c)"

definition ranked_of :: "candidate_evidence \<Rightarrow> ranked_evaluation_candidate" where
  "ranked_of c = \<lparr>rk_candidate_id = cv_candidate_id c, rk_provider_id = cv_provider_id c, rk_model_version = cv_model_version c,
     rk_routing_score = cv_routing_score c, rk_cost_microunits = cv_cost_microunits c, rk_latency_ms = cv_latency_ms c\<rparr>"

definition total_cost :: "evaluation_batch \<Rightarrow> int" where
  "total_cost b = eb_prior_cost_microunits b + sum_list (map cv_cost_microunits (eb_candidates b))"

definition evaluate :: "evaluation_policy \<Rightarrow> evaluation_batch \<Rightarrow> error + evaluation_decision" where
  "evaluate p b =
     ebind (validate_batch p b) (\<lambda>_.
     let total = total_cost b in
     if eo_max_total_cost_microunits p < total
     then Inr \<lparr>ed_status = VS_EXHAUSTED, ed_winner_candidate_id = None, ed_ranked_candidates = [],
       ed_rejected_candidates = map (\<lambda>c. (cv_candidate_id c, [''campaign_cost_ceiling_exceeded''])) (eb_candidates b),
       ed_next_iteration = None, ed_total_cost_microunits = total, ed_policy_version = EVALUATION_POLICY_VERSION\<rparr>
     else
     let eligible = filter (\<lambda>c. evaluation_rejection_reasons p c = []) (eb_candidates b);
         rejected = map (\<lambda>c. (cv_candidate_id c, evaluation_rejection_reasons p c))
           (filter (\<lambda>c. evaluation_rejection_reasons p c \<noteq> []) (eb_candidates b));
         ranked = map ranked_of (sort_key ranking_key eligible);
         can_refine = (eb_current_iteration b < eo_max_iterations p \<and> total \<le> eo_max_total_cost_microunits p)
     in
     Inr (case ranked of
       winner # _ \<Rightarrow> \<lparr>ed_status = VS_WINNER_SELECTED, ed_winner_candidate_id = Some (rk_candidate_id winner),
         ed_ranked_candidates = ranked, ed_rejected_candidates = rejected, ed_next_iteration = None,
         ed_total_cost_microunits = total, ed_policy_version = EVALUATION_POLICY_VERSION\<rparr>
     | [] \<Rightarrow> \<lparr>ed_status = (if can_refine then VS_REFINEMENT_REQUIRED else VS_EXHAUSTED), ed_winner_candidate_id = None,
         ed_ranked_candidates = [], ed_rejected_candidates = rejected,
         ed_next_iteration = (if can_refine then Some (eb_current_iteration b + 1) else None),
         ed_total_cost_microunits = total, ed_policy_version = EVALUATION_POLICY_VERSION\<rparr>))"

section \<open>What the evaluator returns\<close>

definition acceptable :: "evaluation_policy \<Rightarrow> candidate_evidence \<Rightarrow> bool" where
  "acceptable p c \<longleftrightarrow> cv_succeeded c \<and> (\<forall>n\<in>set (eo_required_checks p). \<exists>k. check_named c n = Some k \<and> dk_passed k) \<and>
     eo_minimum_independent_reviews p \<le> int (length (independent_reviews p c))"

lemma filter_Nil_iff: "filter P xs = [] \<longleftrightarrow> (\<forall>x\<in>set xs. \<not> P x)"
  by (simp add: filter_empty_conv)

lemma evaluation_rejection_reasons_Nil: "evaluation_rejection_reasons p c = [] \<longleftrightarrow> acceptable p c"
  by (auto simp: evaluation_rejection_reasons_def acceptable_def Let_def filter_Nil_iff not_less split: option.splits if_splits)

lemma check_named_SomeD: "check_named c n = Some k \<Longrightarrow> k \<in> set (cv_checks c) \<and> dk_name k = n"
  by (auto simp: check_named_def dest!: map_of_SomeD)

lemma candidates_match_batch_Inr:
  "candidates_match_batch b cs = Inr () \<longleftrightarrow> (\<forall>c\<in>set cs. cv_iteration c = eb_current_iteration b \<and>
     cv_prompt_contract_version c = eb_prompt_contract_version b)"
  by (induction cs) (auto simp: candidate_matches_batch_def tx_simps)

lemma validate_batch_Inr:
  "validate_batch p b = Inr () \<longleftrightarrow> eb_current_iteration b \<le> eo_max_iterations p \<and> distinct (map cv_candidate_id (eb_candidates b)) \<and>
     int (card (provider_model_key ` set (eb_candidates b))) \<le> eo_max_candidates p \<and>
     int (card (cv_prompt_variant_id ` set (eb_candidates b))) \<le> eo_max_prompt_variants p \<and>
     (\<forall>c\<in>set (eb_candidates b). cv_iteration c = eb_current_iteration b \<and>
        cv_prompt_contract_version c = eb_prompt_contract_version b)"
  by (simp add: validate_batch_def Let_def tx_simps candidates_match_batch_Inr not_less length_remdups_card_conv)

text \<open>The decision, field by field.\<close>

lemma evaluate_Inr:
  assumes "evaluate p b = Inr d"
  defines "E \<equiv> sort_key ranking_key (filter (acceptable p) (eb_candidates b))"
  shows "validate_batch p b = Inr ()" "ed_total_cost_microunits d = total_cost b"
    "eo_max_total_cost_microunits p < total_cost b \<Longrightarrow> ed_status d = VS_EXHAUSTED \<and> ed_winner_candidate_id d = None \<and>
       ed_ranked_candidates d = [] \<and> ed_next_iteration d = None \<and>
       ed_rejected_candidates d = map (\<lambda>c. (cv_candidate_id c, [''campaign_cost_ceiling_exceeded''])) (eb_candidates b)"
    "total_cost b \<le> eo_max_total_cost_microunits p \<Longrightarrow> ed_ranked_candidates d = map ranked_of E \<and>
       ed_rejected_candidates d = map (\<lambda>c. (cv_candidate_id c, evaluation_rejection_reasons p c))
         (filter (\<lambda>c. \<not> acceptable p c) (eb_candidates b)) \<and>
       ed_winner_candidate_id d = (case E of [] \<Rightarrow> None | c # _ \<Rightarrow> Some (cv_candidate_id c)) \<and>
       ed_status d = (if E \<noteq> [] then VS_WINNER_SELECTED
         else if eb_current_iteration b < eo_max_iterations p then VS_REFINEMENT_REQUIRED else VS_EXHAUSTED) \<and>
       ed_next_iteration d = (if E = [] \<and> eb_current_iteration b < eo_max_iterations p
         then Some (eb_current_iteration b + 1) else None)"
  using assms(1)
  by (auto simp: evaluate_def tx_simps Let_def evaluation_rejection_reasons_Nil E_def ranked_of_def
      split: if_splits list.splits)

lemma winner_cases:
  assumes "evaluate p b = Inr d" "ed_winner_candidate_id d = Some i"
  obtains c where "c \<in> set (eb_candidates b)" "cv_candidate_id c = i" "acceptable p c"
    "total_cost b \<le> eo_max_total_cost_microunits p"
    "\<And>c'. c' \<in> set (eb_candidates b) \<Longrightarrow> acceptable p c' \<Longrightarrow> ranking_key c \<le> ranking_key c'"
proof -
  let ?E = "sort_key ranking_key (filter (acceptable p) (eb_candidates b))"
  note ev = evaluate_Inr [OF assms(1)]
  have le: "total_cost b \<le> eo_max_total_cost_microunits p" using ev(3) assms(2) by fastforce
  obtain c cs where E: "?E = c # cs" "cv_candidate_id c = i" using ev(4) [OF le] assms(2) by (auto split: list.splits)
  have set_E: "set ?E = {c \<in> set (eb_candidates b). acceptable p c}" by auto
  have "sorted (map ranking_key (c # cs))" using sorted_sort_key [of ranking_key "filter (acceptable p) (eb_candidates b)"] E(1) by simp
  then have "ranking_key c \<le> ranking_key c'" if "c' \<in> set ?E" for c' using that E(1) by auto
  moreover have "c \<in> set ?E" using E(1) by simp
  ultimately show thesis using that [of c] set_E E(2) le by auto
qed

lemma check_candidate_bound:
  assumes "check_candidate_evidence c = Inr ()"
  shows "cv_succeeded c \<Longrightarrow> cv_output_digest c \<noteq> None" "distinct (map ir_reviewer_provider_id (cv_reviews c))"
    "\<And>k. k \<in> set (cv_checks c) \<Longrightarrow> cv_output_digest c = Some (dk_validated_output_digest k)"
    "\<And>r. r \<in> set (cv_reviews c) \<Longrightarrow> cv_output_digest c = Some (ir_reviewed_output_digest r)"
  using assms by (auto simp: check_candidate_evidence_def tx_simps list_all_iff split: option.splits)

lemma independent_reviews_sub:
  "set (independent_reviews p c) \<subseteq> {r \<in> set (cv_reviews c). ir_passed r \<and> ir_reviewer_provider_id r \<noteq> cv_provider_id c \<and>
     (RL_HIGH \<le> eo_risk p \<longrightarrow> ir_reviewer_provider_family r \<noteq> cv_provider_family c)}"
  by (auto simp: independent_reviews_def Let_def)

lemma independent_reviews_distinct:
  "distinct (map ir_reviewer_provider_id (cv_reviews c)) \<Longrightarrow> distinct (map ir_reviewer_provider_id (independent_reviews p c))"
  by (simp add: independent_reviews_def Let_def distinct_map_filter)

section \<open>Properties\<close>

text \<open>The candidate \<open>c\<close> meets the policy \<open>p\<close>: what a winner has to show.\<close>

definition validated :: "evaluation_policy \<Rightarrow> candidate_evidence \<Rightarrow> bool" where
  "validated p c \<longleftrightarrow> cv_succeeded c \<and> (\<exists>output. cv_output_digest c = Some output \<and>
     (\<forall>n\<in>set (eo_required_checks p). \<exists>k\<in>set (cv_checks c). dk_name k = n \<and> dk_passed k \<and> dk_validated_output_digest k = output) \<and>
     (\<exists>R \<subseteq> set (cv_reviews c). eo_minimum_independent_reviews p \<le> int (card (ir_reviewer_provider_id ` R)) \<and>
       (\<forall>r\<in>R. ir_passed r \<and> ir_reviewed_output_digest r = output \<and> ir_reviewer_provider_id r \<noteq> cv_provider_id c) \<and>
       (RL_HIGH \<le> eo_risk p \<longrightarrow> 2 \<le> card (ir_reviewer_provider_id ` R) \<and>
          (\<forall>r\<in>R. ir_reviewer_provider_family r \<noteq> cv_provider_family c))))"

lemma acceptable_validated:
  assumes "check_evaluation_policy p = Inr ()" and ok: "check_candidate_evidence c = Inr ()" and c: "acceptable p c"
  shows "validated p c"
proof -
  obtain out where out: "cv_output_digest c = Some out" using check_candidate_bound(1) [OF ok] c by (auto simp: acceptable_def)
  let ?rs = "independent_reviews p c"
  have "card (ir_reviewer_provider_id ` set ?rs) = length ?rs"
    using distinct_card [OF independent_reviews_distinct [OF check_candidate_bound(2) [OF ok]], of p] by simp
  moreover have min: "eo_minimum_independent_reviews p \<le> int (length ?rs)" using c by (simp add: acceptable_def)
  moreover have "2 \<le> length ?rs" if "RL_HIGH \<le> eo_risk p"
    using assms(1) min that by (auto simp: check_evaluation_policy_def tx_simps not_less [symmetric])
  moreover have "ir_reviewed_output_digest r = out" if "r \<in> set ?rs" for r
    using check_candidate_bound(4) [OF ok, of r] independent_reviews_sub [of p c] that out by auto
  ultimately have reviews: "\<exists>R \<subseteq> set (cv_reviews c). eo_minimum_independent_reviews p \<le> int (card (ir_reviewer_provider_id ` R)) \<and>
       (\<forall>r\<in>R. ir_passed r \<and> ir_reviewed_output_digest r = out \<and> ir_reviewer_provider_id r \<noteq> cv_provider_id c) \<and>
       (RL_HIGH \<le> eo_risk p \<longrightarrow> 2 \<le> card (ir_reviewer_provider_id ` R) \<and>
          (\<forall>r\<in>R. ir_reviewer_provider_family r \<noteq> cv_provider_family c))"
    using independent_reviews_sub [of p c] by (intro exI [of _ "set ?rs"]) auto
  have checks: "\<exists>k\<in>set (cv_checks c). dk_name k = n \<and> dk_passed k \<and> dk_validated_output_digest k = out"
    if n: "n \<in> set (eo_required_checks p)" for n
  proof -
    obtain k where "check_named c n = Some k" "dk_passed k" using c n by (auto simp: acceptable_def)
    then show ?thesis using check_named_SomeD [of c n k] check_candidate_bound(3) [OF ok, of k] out by auto
  qed
  show ?thesis unfolding validated_def using c out reviews checks by (intro conjI exI [of _ out]) (simp_all add: acceptable_def)
qed

text \<open>C13: A winner is validated. If the evaluator selects a winner from well-formed evidence under a well-formed policy, that
candidate is in the batch and its provider run succeeded; every required check is on record for exactly the
output it delivered, and passed; the passed reviews of that output by other providers reach the minimum the policy
sets, counted by provider; for high and critical risk there are at least two of them, all from other provider
families; and the whole campaign is within its cost ceiling.\<close>

theorem winner_is_validated:
  assumes "check_evaluation_policy p = Inr ()" and "\<forall>c\<in>set (eb_candidates b). check_candidate_evidence c = Inr ()"
    and "evaluate p b = Inr d" and "ed_winner_candidate_id d = Some i"
  shows "\<exists>c\<in>set (eb_candidates b). \<exists>output. cv_candidate_id c = i \<and> cv_succeeded c \<and> cv_output_digest c = Some output \<and>
    (\<forall>n\<in>set (eo_required_checks p). \<exists>k\<in>set (cv_checks c). dk_name k = n \<and> dk_passed k \<and> dk_validated_output_digest k = output) \<and>
    (\<exists>R \<subseteq> set (cv_reviews c). eo_minimum_independent_reviews p \<le> int (card (ir_reviewer_provider_id ` R)) \<and>
       (\<forall>r\<in>R. ir_passed r \<and> ir_reviewed_output_digest r = output \<and> ir_reviewer_provider_id r \<noteq> cv_provider_id c) \<and>
       (RL_HIGH \<le> eo_risk p \<longrightarrow> 2 \<le> card (ir_reviewer_provider_id ` R) \<and>
          (\<forall>r\<in>R. ir_reviewer_provider_family r \<noteq> cv_provider_family c))) \<and>
    total_cost b \<le> eo_max_total_cost_microunits p"
proof -
  obtain c where c: "c \<in> set (eb_candidates b)" "cv_candidate_id c = i" "acceptable p c"
    and cost: "total_cost b \<le> eo_max_total_cost_microunits p" by (rule winner_cases [OF assms(3,4)])
  have "validated p c" using acceptable_validated [OF assms(1) _ c(3)] assms(2) c(1) by blast
  then show ?thesis unfolding validated_def using c cost by (intro bexI [OF _ c(1)]) blast
qed

definition demo_digest :: "char \<Rightarrow> string" where
  "demo_digest c = ''sha256:'' @ replicate 64 c"

definition demo_review :: "string \<Rightarrow> string \<Rightarrow> char \<Rightarrow> independent_review" where
  "demo_review i family c = \<lparr>ir_reviewer_provider_id = i, ir_reviewer_provider_family = family, ir_reviewer_model_version = ''m'',
     ir_reviewer_profile_version = ''v'', ir_reviewed_output_digest = demo_digest c, ir_passed = True,
     ir_evidence_digest = demo_digest CHR ''e''\<rparr>"

definition demo_candidate :: "string \<Rightarrow> rat \<Rightarrow> char \<Rightarrow> bool \<Rightarrow> candidate_evidence" where
  "demo_candidate i score c passed = \<lparr>cv_candidate_id = i, cv_provider_id = ''p'', cv_provider_family = ''f'', cv_model_version = ''m'',
     cv_profile_version = ''v'', cv_prompt_variant_id = ''q'', cv_prompt_contract_version = ''c'', cv_iteration = 1,
     cv_succeeded = True, cv_output_digest = Some (demo_digest c), cv_latency_ms = 5, cv_cost_microunits = 1,
     cv_routing_score = score, cv_checks = [\<lparr>dk_name = ''schema'', dk_passed = passed, dk_evidence_digest = demo_digest CHR ''e'',
       dk_validated_output_digest = demo_digest c\<rparr>],
     cv_reviews = [demo_review ''r1'' ''g'' c, demo_review ''r2'' ''h'' c]\<rparr>"

definition demo_evaluation_policy :: evaluation_policy where
  "demo_evaluation_policy = \<lparr>eo_required_checks = [''schema''], eo_risk = RL_HIGH, eo_max_candidates = 4, eo_max_prompt_variants = 3,
     eo_max_iterations = 3, eo_max_total_cost_microunits = 9, eo_minimum_independent_reviews = 2\<rparr>"

definition demo_batch :: "int \<Rightarrow> candidate_evidence list \<Rightarrow> evaluation_batch" where
  "demo_batch k cs = \<lparr>eb_campaign_id = ''x'', eb_prompt_contract_version = ''c'', eb_current_iteration = k, eb_prior_cost_microunits = 0,
     eb_candidates = cs\<rparr>"

definition demo_candidates :: "candidate_evidence list" where
  "demo_candidates = [demo_candidate ''a'' (1/2) CHR ''0'' True, demo_candidate ''b'' (3/4) CHR ''1'' True, demo_candidate ''d'' 1 CHR ''2'' False]"

lemma demo_evaluation:
  "case evaluate demo_evaluation_policy (demo_batch 1 demo_candidates) of Inl _ \<Rightarrow> False | Inr d \<Rightarrow> ed_winner_candidate_id d = Some ''b''"
  "check_evaluation_policy demo_evaluation_policy = Inr ()" "list_all (\<lambda>c. is_ok (check_candidate_evidence c)) demo_candidates"
  by code_simp+

lemma demo_winner:
  obtains d where "evaluate demo_evaluation_policy (demo_batch 1 demo_candidates) = Inr d" "ed_winner_candidate_id d = Some ''b''"
  using demo_evaluation(1) by (auto split: sum.splits)

theorem winner_is_validated_witness:
  "\<exists>c\<in>set demo_candidates. cv_candidate_id c = ''b'' \<and> cv_succeeded c \<and> (\<exists>k\<in>set (cv_checks c). dk_name k = ''schema'' \<and> dk_passed k)"
proof -
  obtain d where d: "evaluate demo_evaluation_policy (demo_batch 1 demo_candidates) = Inr d" "ed_winner_candidate_id d = Some ''b''"
    by (rule demo_winner)
  have "\<forall>c\<in>set (eb_candidates (demo_batch 1 demo_candidates)). check_candidate_evidence c = Inr ()"
    using demo_evaluation(3) by (auto simp: demo_batch_def list_all_iff is_ok_iff)
  from winner_is_validated [OF demo_evaluation(2) this d] show ?thesis
    by (auto simp: demo_batch_def demo_evaluation_policy_def)
qed

text \<open>C17: The choice is optimal and reproducible. A selected winner precedes every other acceptable candidate in the order of
routing score, cost, latency and identifiers; every candidate of an affordable batch is either ranked or rejected with
its reasons, never both; and the decision is the same in whatever order the candidates are presented.\<close>

theorem evaluation_optimal_and_reproducible:
  assumes "evaluate p b = Inr d" and "ed_winner_candidate_id d = Some i"
  shows "(\<exists>c\<in>set (eb_candidates b). cv_candidate_id c = i \<and>
      (\<forall>c'\<in>set (eb_candidates b). evaluation_rejection_reasons p c' = [] \<longrightarrow> ranking_key c \<le> ranking_key c')) \<and>
    mset (map rk_candidate_id (ed_ranked_candidates d)) + mset (map fst (ed_rejected_candidates d)) =
      mset (map cv_candidate_id (eb_candidates b)) \<and>
    (\<forall>(n, rs)\<in>set (ed_rejected_candidates d). rs \<noteq> []) \<and>
    (\<forall>cs. mset cs = mset (eb_candidates b) \<longrightarrow> (\<exists>d'. evaluate p (b\<lparr>eb_candidates := cs\<rparr>) = Inr d' \<and>
      ed_ranked_candidates d' = ed_ranked_candidates d \<and> ed_winner_candidate_id d' = Some i))"
proof (intro conjI allI impI)
  let ?E = "\<lambda>cs. sort_key ranking_key (filter (acceptable p) cs)"
  note ev = evaluate_Inr [OF assms(1)]
  obtain c where c: "c \<in> set (eb_candidates b)" "cv_candidate_id c = i" "acceptable p c"
    and cost: "total_cost b \<le> eo_max_total_cost_microunits p"
    and best: "\<And>c'. c' \<in> set (eb_candidates b) \<Longrightarrow> acceptable p c' \<Longrightarrow> ranking_key c \<le> ranking_key c'"
    by (rule winner_cases [OF assms]) blast
  show "\<exists>c\<in>set (eb_candidates b). cv_candidate_id c = i \<and>
      (\<forall>c'\<in>set (eb_candidates b). evaluation_rejection_reasons p c' = [] \<longrightarrow> ranking_key c \<le> ranking_key c')"
    using c best by (auto simp: evaluation_rejection_reasons_Nil)
  have "mset (filter (acceptable p) (eb_candidates b)) + mset (filter (\<lambda>c. \<not> acceptable p c) (eb_candidates b)) = mset (eb_candidates b)"
    by (simp add: multiset_partition [symmetric])
  then have "image_mset cv_candidate_id (mset (filter (acceptable p) (eb_candidates b))) +
      image_mset cv_candidate_id (mset (filter (\<lambda>c. \<not> acceptable p c) (eb_candidates b))) = image_mset cv_candidate_id (mset (eb_candidates b))"
    by (metis image_mset_union)
  then show "mset (map rk_candidate_id (ed_ranked_candidates d)) + mset (map fst (ed_rejected_candidates d)) =
      mset (map cv_candidate_id (eb_candidates b))"
    using ev(4) [OF cost] by (simp add: ranked_of_def comp_def)
  show "\<forall>(n, rs)\<in>set (ed_rejected_candidates d). rs \<noteq> []"
    using ev(4) [OF cost] by (auto simp: evaluation_rejection_reasons_Nil)
  fix cs assume cs: "mset cs = mset (eb_candidates b)"
  then have s: "set cs = set (eb_candidates b)" by (rule mset_eq_setD)
  let ?b = "b\<lparr>eb_candidates := cs\<rparr>"
  have valid: "validate_batch p ?b = Inr ()"
    using ev(1) cs by (auto simp: validate_batch_Inr s) (metis mset_map mset_eq_imp_distinct_iff)
  have total: "total_cost ?b = total_cost b" using cs by (simp add: total_cost_def) (metis mset_map sum_mset_sum_list)
  have "is_ok (evaluate p ?b)" using valid by (simp add: evaluate_def Let_def)
  then obtain d' where d': "evaluate p ?b = Inr d'" by (auto simp: is_ok_iff)
  have "?E cs = ?E (eb_candidates b)"
  proof (rule sort_key_inj_key_eq)
    have "distinct (map cv_candidate_id cs)" using valid by (simp add: validate_batch_Inr)
    then have "inj_on cv_candidate_id (set cs)" by (simp add: distinct_map)
    then show "inj_on ranking_key (set (filter (acceptable p) cs))" by (auto simp: ranking_key_def inj_on_def)
  qed (use cs in simp_all)
  then show "\<exists>d'. evaluate p ?b = Inr d' \<and> ed_ranked_candidates d' = ed_ranked_candidates d \<and> ed_winner_candidate_id d' = Some i"
    using d' evaluate_Inr(4) [OF d'] ev(4) [OF cost] cost total assms(2) by auto
qed

theorem evaluation_optimal_and_reproducible_witness:
  "\<exists>d. evaluate demo_evaluation_policy (demo_batch 1 (rev demo_candidates)) = Inr d \<and> ed_winner_candidate_id d = Some ''b''"
proof -
  obtain d where d: "evaluate demo_evaluation_policy (demo_batch 1 demo_candidates) = Inr d" "ed_winner_candidate_id d = Some ''b''"
    by (rule demo_winner)
  have "mset (rev demo_candidates) = mset (eb_candidates (demo_batch 1 demo_candidates))" by (simp add: demo_batch_def)
  from evaluation_optimal_and_reproducible [OF d, THEN conjunct2, THEN conjunct2, THEN conjunct2, rule_format, OF this]
  show ?thesis by (auto simp: demo_batch_def)
qed

end
