(* ===== verification/Evaluation_Store.thy ===== *)
theory Evaluation_Store
  imports Evaluation Workflow_Tasks
begin

text \<open>
  The rows of the evaluation tables (\<open>persistence.py\<close>) and the dictionaries made from them
  (\<open>evaluation_read_models.py\<close>).  The tables are kept beside the database of the workflow service,
  whose handlers do not touch them.  A JSON column that holds a list of dataclasses holds that list; the row of a candidate
  holds its evidence; \<open>fl\<close> is the text of a float.  An insertion that would break a unique constraint raises
  \<open>IntegrityError\<close>.
\<close>

section \<open>Rows\<close>

record evaluation_campaign =
  camp_id :: ident
  camp_workflow_id :: ident
  camp_actor_id :: ident
  camp_idempotency_key :: string
  camp_request_digest :: string
  camp_prompt_contract_version :: string
  camp_work_capability :: work_capability
  camp_required_checks :: "string list"
  camp_risk :: risk_level
  camp_max_candidates :: int
  camp_max_prompt_variants :: int
  camp_max_iterations :: int
  camp_max_total_cost_microunits :: int
  camp_minimum_independent_reviews :: int
  camp_policy_version :: string
  camp_status :: string
  camp_current_iteration :: int
  camp_total_cost_microunits :: int
  camp_winner_candidate_id :: "string option"
  camp_created_at :: instant
  camp_updated_at :: instant

record evaluation_batch_row =
  bat_id :: ident
  bat_campaign_id :: ident
  bat_workflow_id :: ident
  bat_actor_id :: ident
  bat_idempotency_key :: string
  bat_request_digest :: string
  bat_repair_id :: "ident option"
  bat_iteration :: int
  bat_status :: string
  bat_winner_candidate_id :: "string option"
  bat_ranked_candidates :: "ranked_evaluation_candidate list"
  bat_rejected_candidates :: "(string \<times> string list) list"
  bat_total_cost_microunits :: int
  bat_policy_version :: string
  bat_routing_snapshot :: dict
  bat_created_at :: instant

record evaluation_execution =
  exe_id :: ident
  exe_campaign_id :: ident
  exe_workflow_id :: ident
  exe_task_id :: ident
  exe_actor_id :: ident
  exe_idempotency_key :: string
  exe_request_digest :: string
  exe_repair_id :: "ident option"
  exe_iteration :: int
  exe_workflow_version :: int
  exe_candidate_revision :: "string option"
  exe_prompt_variants :: "prompt_variant list"
  exe_routing_snapshot :: dict
  exe_status :: string
  exe_error_code :: "string option"
  exe_created_at :: instant
  exe_completed_at :: "instant option"

record evaluation_provider_run =
  run_id :: ident
  run_execution_id :: ident
  run_campaign_id :: ident
  run_provider_id :: ident
  run_provider_family :: string
  run_model_version :: string
  run_profile_version :: string
  run_prompt_variant_id :: ident
  run_prompt_contract_version :: string
  run_request_digest :: string
  run_status :: string
  run_output_digest :: "string option"
  run_output_json :: dict
  run_usage_json :: dict
  run_latency_ms :: "int option"
  run_error_code :: "string option"
  run_started_at :: "instant option"
  run_completed_at :: "instant option"

record evaluation_assessment =
  asm_id :: ident
  asm_execution_id :: ident
  asm_campaign_id :: ident
  asm_workflow_id :: ident
  asm_actor_id :: ident
  asm_idempotency_key :: string
  asm_request_digest :: string
  asm_status :: string
  asm_batch_id :: "ident option"
  asm_error_code :: "string option"
  asm_created_at :: instant
  asm_completed_at :: "instant option"

record evaluation_artifact_row =
  art_id :: ident
  art_assessment_id :: ident
  art_execution_id :: ident
  art_provider_run_id :: ident
  art_campaign_id :: ident
  art_workflow_id :: ident
  art_task_id :: ident
  art_artifact_type :: string
  art_digest :: string
  art_workflow_version :: int
  art_candidate_revision :: "string option"
  art_content_json :: dict
  art_created_at :: instant

record evaluation_check_row =
  chk_id :: ident
  chk_assessment_id :: ident
  chk_artifact_id :: ident
  chk_check_name :: string
  chk_validator_version :: string
  chk_status :: string
  chk_passed :: "bool option"
  chk_evidence_digest :: "string option"
  chk_validated_output_digest :: string
  chk_details_json :: dict
  chk_created_at :: instant
  chk_completed_at :: "instant option"

record evaluation_review_run =
  rev_id :: ident
  rev_assessment_id :: ident
  rev_artifact_id :: ident
  rev_candidate_provider_run_id :: ident
  rev_reviewer_provider_id :: ident
  rev_reviewer_provider_family :: string
  rev_reviewer_model_version :: string
  rev_reviewer_profile_version :: string
  rev_request_digest :: string
  rev_status :: string
  rev_passed :: "bool option"
  rev_evidence_digest :: "string option"
  rev_reviewed_output_digest :: string
  rev_output_json :: dict
  rev_usage_json :: dict
  rev_latency_ms :: "int option"
  rev_error_code :: "string option"
  rev_created_at :: instant
  rev_started_at :: "instant option"
  rev_completed_at :: "instant option"

record evaluation_reconciliation =
  rcn_id :: ident
  rcn_workflow_id :: ident
  rcn_campaign_id :: ident
  rcn_actor_id :: ident
  rcn_idempotency_key :: string
  rcn_request_digest :: string
  rcn_target_type :: string
  rcn_target_id :: ident
  rcn_decision :: string
  rcn_rationale :: string
  rcn_affected_run_ids :: "ident list"
  rcn_created_at :: instant

record evaluation_repair =
  rep_id :: ident
  rep_workflow_id :: ident
  rep_campaign_id :: ident
  rep_source_batch_id :: ident
  rep_actor_id :: ident
  rep_idempotency_key :: string
  rep_request_digest :: string
  rep_source_iteration :: int
  rep_target_iteration :: int
  rep_workflow_version :: int
  rep_candidate_revision :: "string option"
  rep_prompt_variants :: "prompt_variant list"
  rep_failure_snapshot :: "(string \<times> string list) list"
  rep_rationale :: string
  rep_created_at :: instant

record evaluation_recovery =
  rcv_id :: ident
  rcv_workflow_id :: ident
  rcv_campaign_id :: ident
  rcv_assessment_id :: ident
  rcv_actor_id :: ident
  rcv_idempotency_key :: string
  rcv_request_digest :: string
  rcv_prior_status :: string
  rcv_outcome_status :: string
  rcv_decision :: string
  rcv_rationale :: string
  rcv_affected_record_ids :: "ident list"
  rcv_created_at :: instant

record evaluation_promotion =
  pro_id :: ident
  pro_workflow_id :: ident
  pro_campaign_id :: ident
  pro_assessment_id :: ident
  pro_batch_id :: ident
  pro_candidate_id :: ident
  pro_artifact_id :: ident
  pro_artifact_digest :: string
  pro_workflow_version :: int
  pro_candidate_revision :: "string option"
  pro_actor_id :: ident
  pro_idempotency_key :: string
  pro_request_digest :: string
  pro_rationale :: string
  pro_created_at :: instant

record evaluation_candidate_row =
  cand_id :: ident
  cand_campaign_id :: ident
  cand_batch_id :: ident
  cand_evidence :: candidate_evidence
  cand_rejection_reasons :: "string list"
  cand_rank :: "nat option"
  cand_created_at :: instant

record evaluation_observation =
  obs_assessment_id :: ident
  obs_provider_run_id :: ident
  obs_campaign_id :: ident
  obs_workflow_id :: ident
  obs_task_id :: ident
  obs_provider_id :: string
  obs_provider_family :: string
  obs_model_version :: string
  obs_profile_version :: string
  obs_work_capability :: work_capability
  obs_succeeded :: bool
  obs_validation_passed :: bool
  obs_selected_winner :: bool
  obs_latency_ms :: int
  obs_error_code :: "string option"
  obs_created_at :: instant

record eval_db =
  ev_db :: db
  ev_campaigns :: "evaluation_campaign list"
  ev_batches :: "evaluation_batch_row list"
  ev_candidates :: "evaluation_candidate_row list"
  ev_executions :: "evaluation_execution list"
  ev_runs :: "evaluation_provider_run list"
  ev_assessments :: "evaluation_assessment list"
  ev_artifacts :: "evaluation_artifact_row list"
  ev_checks :: "evaluation_check_row list"
  ev_reviews :: "evaluation_review_run list"
  ev_reconciliations :: "evaluation_reconciliation list"
  ev_repairs :: "evaluation_repair list"
  ev_recoveries :: "evaluation_recovery list"
  ev_promotions :: "evaluation_promotion list"
  ev_observations :: "evaluation_observation list"

definition empty_eval_db :: "db \<Rightarrow> eval_db" where
  "empty_eval_db d = \<lparr>ev_db = d, ev_campaigns = [], ev_batches = [], ev_candidates = [], ev_executions = [], ev_runs = [],
     ev_assessments = [], ev_artifacts = [], ev_checks = [], ev_reviews = [], ev_reconciliations = [], ev_repairs = [],
     ev_recoveries = [], ev_promotions = [], ev_observations = []\<rparr>"

section \<open>Access\<close>

definition eval_audit :: "config \<Rightarrow> ident \<Rightarrow> string \<Rightarrow> ident \<Rightarrow> string \<Rightarrow> ident \<Rightarrow> string \<Rightarrow> dict \<Rightarrow> eval_db \<Rightarrow> eval_db" where
  "eval_audit cf wid ev ac rt ri oc payload d = d\<lparr>ev_db := audit cf wid ev ac rt ri oc payload (ev_db d)\<rparr>"

definition integrity_error :: error where
  "integrity_error = OtherError ''IntegrityError''"

text \<open>Adding a row under a unique constraint on \<open>k\<close>.\<close>

definition insert_unique :: "('r \<Rightarrow> 'k) \<Rightarrow> 'r \<Rightarrow> 'r list \<Rightarrow> error + 'r list" where
  "insert_unique k r rows = (if k r \<in> set (map k rows) then Inl integrity_error else Inr (row_add r rows))"

fun insert_all :: "('r \<Rightarrow> 'k) \<Rightarrow> 'r list \<Rightarrow> 'r list \<Rightarrow> error + 'r list" where
  "insert_all k [] rows = Inr rows"
| "insert_all k (r # rs) rows = ebind (insert_unique k r rows) (insert_all k rs)"

definition require_active_evaluation_workflow :: "workflow \<Rightarrow> error + unit" where
  "require_active_evaluation_workflow w = require (wf_state w \<notin> {WS_APPROVED, WS_MERGED, WS_DEPLOYED, WS_FAILED, WS_REJECTED,
     WS_CANCELLED, WS_ROLLBACK_REQUIRED, WS_ROLLED_BACK}) (ConflictError ''evaluation workflow is terminal'')"

definition valid_key :: "string \<Rightarrow> bool" where
  "valid_key key \<longleftrightarrow> 8 \<le> length (strip key) \<and> length (strip key) \<le> 128"

definition valid_rationale :: "string \<Rightarrow> bool" where
  "valid_rationale reason \<longleftrightarrow> strip reason \<noteq> [] \<and> length (strip reason) \<le> 2000"

text \<open>\<open>select(Record).where(Record.actor_id == actor, Record.idempotency_key == key.strip())\<close>\<close>

definition find_by_key :: "('r \<Rightarrow> ident) \<Rightarrow> ('r \<Rightarrow> string) \<Rightarrow> ident \<Rightarrow> string \<Rightarrow> 'r list \<Rightarrow> 'r option" where
  "find_by_key actor key a k rows = List.find (\<lambda>r. actor r = a \<and> key r = strip k) rows"

definition campaign_of :: "eval_db \<Rightarrow> ident \<Rightarrow> ident \<Rightarrow> error + evaluation_campaign" where
  "campaign_of d wid cid = (case row_get camp_id cid (ev_campaigns d) of
     Some c \<Rightarrow> if camp_workflow_id c = wid then Inr c else Inl (NotFoundError ''evaluation campaign was not found'')
   | None \<Rightarrow> Inl (NotFoundError ''evaluation campaign was not found''))"

definition assessment_of :: "eval_db \<Rightarrow> ident \<Rightarrow> ident \<Rightarrow> error + evaluation_assessment" where
  "assessment_of d wid aid = (case row_get asm_id aid (ev_assessments d) of
     Some a \<Rightarrow> if asm_workflow_id a = wid then Inr a else Inl (NotFoundError ''evaluation assessment was not found'')
   | None \<Rightarrow> Inl (NotFoundError ''evaluation assessment was not found''))"

definition execution_of :: "eval_db \<Rightarrow> ident \<Rightarrow> ident \<Rightarrow> error + evaluation_execution" where
  "execution_of d wid xid = (case row_get exe_id xid (ev_executions d) of
     Some x \<Rightarrow> if exe_workflow_id x = wid then Inr x else Inl (NotFoundError ''evaluation execution was not found'')
   | None \<Rightarrow> Inl (NotFoundError ''evaluation execution was not found''))"

section \<open>Read models\<close>

abbreviation iso :: "config \<Rightarrow> instant \<Rightarrow> json" where
  "iso cf t \<equiv> JStr (cf_isoformat cf t)"

definition iso_opt :: "config \<Rightarrow> instant option \<Rightarrow> json" where
  "iso_opt cf t = (case t of None \<Rightarrow> JNull | Some x \<Rightarrow> iso cf x)"

definition j_opt_int :: "int option \<Rightarrow> json" where
  "j_opt_int i = (case i of None \<Rightarrow> JNull | Some n \<Rightarrow> JInt n)"

definition j_opt_bool :: "bool option \<Rightarrow> json" where
  "j_opt_bool b = (case b of None \<Rightarrow> JNull | Some v \<Rightarrow> JBool v)"

definition evaluation_policy_of :: "evaluation_campaign \<Rightarrow> evaluation_policy" where
  "evaluation_policy_of c = \<lparr>eo_required_checks = camp_required_checks c, eo_risk = camp_risk c, eo_max_candidates = camp_max_candidates c,
     eo_max_prompt_variants = camp_max_prompt_variants c, eo_max_iterations = camp_max_iterations c,
     eo_max_total_cost_microunits = camp_max_total_cost_microunits c,
     eo_minimum_independent_reviews = camp_minimum_independent_reviews c\<rparr>"

definition ranked_evaluation_dict :: "(rat \<Rightarrow> string) \<Rightarrow> ranked_evaluation_candidate \<Rightarrow> json" where
  "ranked_evaluation_dict fl r = JObj
     [(''candidate_id'', JStr (rk_candidate_id r)), (''provider_id'', JStr (rk_provider_id r)),
      (''model_version'', JStr (rk_model_version r)), (''routing_score'', JFloat (fl (rk_routing_score r))),
      (''cost_microunits'', JInt (rk_cost_microunits r)), (''latency_ms'', JInt (rk_latency_ms r))]"

definition rejected_dict :: "(string \<times> string list) list \<Rightarrow> json" where
  "rejected_dict rs = JObj (map (\<lambda>(i, reasons). (i, j_strs reasons)) rs)"

definition prompt_variant_dict :: "prompt_variant \<Rightarrow> json" where
  "prompt_variant_dict v = JObj [(''variant_id'', JStr (pt_variant_id v)), (''instruction'', JStr (pt_instruction v))]"

definition deterministic_check_dict :: "deterministic_check \<Rightarrow> json" where
  "deterministic_check_dict k = JObj
     [(''name'', JStr (dk_name k)), (''passed'', JBool (dk_passed k)), (''evidence_digest'', JStr (dk_evidence_digest k)),
      (''validated_output_digest'', JStr (dk_validated_output_digest k))]"

definition independent_review_dict :: "independent_review \<Rightarrow> json" where
  "independent_review_dict r = JObj
     [(''reviewer_provider_id'', JStr (ir_reviewer_provider_id r)),
      (''reviewer_provider_family'', JStr (ir_reviewer_provider_family r)),
      (''reviewer_model_version'', JStr (ir_reviewer_model_version r)),
      (''reviewer_profile_version'', JStr (ir_reviewer_profile_version r)),
      (''reviewed_output_digest'', JStr (ir_reviewed_output_digest r)), (''passed'', JBool (ir_passed r)),
      (''evidence_digest'', JStr (ir_evidence_digest r))]"

definition evaluation_candidate_dict :: "config \<Rightarrow> (rat \<Rightarrow> string) \<Rightarrow> evaluation_candidate_row \<Rightarrow> dict" where
  "evaluation_candidate_dict cf fl r = (let c = cand_evidence r in
     [(''candidate_id'', JStr (cv_candidate_id c)), (''provider_id'', JStr (cv_provider_id c)),
      (''provider_family'', JStr (cv_provider_family c)), (''model_version'', JStr (cv_model_version c)),
      (''profile_version'', JStr (cv_profile_version c)), (''prompt_variant_id'', JStr (cv_prompt_variant_id c)),
      (''prompt_contract_version'', JStr (cv_prompt_contract_version c)), (''iteration'', JInt (cv_iteration c)),
      (''succeeded'', JBool (cv_succeeded c)), (''output_digest'', j_opt_str (cv_output_digest c)),
      (''latency_ms'', JInt (cv_latency_ms c)), (''cost_microunits'', JInt (cv_cost_microunits c)),
      (''routing_score'', JFloat (fl (cv_routing_score c))),
      (''checks'', JList (map deterministic_check_dict (cv_checks c))),
      (''reviews'', JList (map independent_review_dict (cv_reviews c))),
      (''rejection_reasons'', j_strs (cand_rejection_reasons r)), (''rank'', j_opt_int (map_option int (cand_rank r))),
      (''created_at'', iso cf (cand_created_at r))])"

definition evaluation_campaign_dict :: "config \<Rightarrow> evaluation_campaign \<Rightarrow> dict" where
  "evaluation_campaign_dict cf c =
     [(''id'', JStr (camp_id c)), (''workflow_id'', JStr (camp_workflow_id c)),
      (''prompt_contract_version'', JStr (camp_prompt_contract_version c)),
      (''work_capability'', JStr (work_capability_value (camp_work_capability c))),
      (''required_checks'', j_strs (camp_required_checks c)), (''risk'', JStr (risk_level_name (camp_risk c))),
      (''max_candidates'', JInt (camp_max_candidates c)), (''max_prompt_variants'', JInt (camp_max_prompt_variants c)),
      (''max_iterations'', JInt (camp_max_iterations c)),
      (''max_total_cost_microunits'', JInt (camp_max_total_cost_microunits c)),
      (''minimum_independent_reviews'', JInt (camp_minimum_independent_reviews c)),
      (''policy_version'', JStr (camp_policy_version c)), (''status'', JStr (camp_status c)),
      (''current_iteration'', JInt (camp_current_iteration c)),
      (''total_cost_microunits'', JInt (camp_total_cost_microunits c)),
      (''winner_candidate_id'', j_opt_str (camp_winner_candidate_id c)), (''created_at'', iso cf (camp_created_at c)),
      (''updated_at'', iso cf (camp_updated_at c))]"

definition evaluation_batch_dict :: "config \<Rightarrow> (rat \<Rightarrow> string) \<Rightarrow> evaluation_batch_row \<Rightarrow> dict" where
  "evaluation_batch_dict cf fl b =
     [(''id'', JStr (bat_id b)), (''campaign_id'', JStr (bat_campaign_id b)), (''workflow_id'', JStr (bat_workflow_id b)),
      (''repair_id'', j_opt_str (bat_repair_id b)), (''iteration'', JInt (bat_iteration b)), (''status'', JStr (bat_status b)),
      (''winner_candidate_id'', j_opt_str (bat_winner_candidate_id b)),
      (''ranked_candidates'', JList (map (ranked_evaluation_dict fl) (bat_ranked_candidates b))),
      (''rejected_candidates'', rejected_dict (bat_rejected_candidates b)),
      (''total_cost_microunits'', JInt (bat_total_cost_microunits b)), (''policy_version'', JStr (bat_policy_version b)),
      (''routing_snapshot'', JObj (bat_routing_snapshot b)), (''created_at'', iso cf (bat_created_at b))]"

definition evaluation_provider_run_dict :: "config \<Rightarrow> evaluation_provider_run \<Rightarrow> dict" where
  "evaluation_provider_run_dict cf r =
     [(''id'', JStr (run_id r)), (''provider_id'', JStr (run_provider_id r)),
      (''provider_family'', JStr (run_provider_family r)), (''model_version'', JStr (run_model_version r)),
      (''profile_version'', JStr (run_profile_version r)), (''prompt_variant_id'', JStr (run_prompt_variant_id r)),
      (''prompt_contract_version'', JStr (run_prompt_contract_version r)), (''request_digest'', JStr (run_request_digest r)),
      (''status'', JStr (run_status r)), (''output_digest'', j_opt_str (run_output_digest r)),
      (''output'', JObj (run_output_json r)), (''usage'', JObj (run_usage_json r)),
      (''latency_ms'', j_opt_int (run_latency_ms r)), (''error_code'', j_opt_str (run_error_code r)),
      (''started_at'', iso_opt cf (run_started_at r)), (''completed_at'', iso_opt cf (run_completed_at r))]"

definition evaluation_check_dict :: "config \<Rightarrow> evaluation_check_row \<Rightarrow> dict" where
  "evaluation_check_dict cf r =
     [(''id'', JStr (chk_id r)), (''name'', JStr (chk_check_name r)), (''validator_version'', JStr (chk_validator_version r)),
      (''status'', JStr (chk_status r)), (''passed'', j_opt_bool (chk_passed r)),
      (''evidence_digest'', j_opt_str (chk_evidence_digest r)),
      (''validated_output_digest'', JStr (chk_validated_output_digest r)), (''details'', JObj (chk_details_json r)),
      (''created_at'', iso cf (chk_created_at r)), (''completed_at'', iso_opt cf (chk_completed_at r))]"

definition evaluation_review_dict :: "config \<Rightarrow> evaluation_review_run \<Rightarrow> dict" where
  "evaluation_review_dict cf r =
     [(''id'', JStr (rev_id r)), (''artifact_id'', JStr (rev_artifact_id r)),
      (''candidate_provider_run_id'', JStr (rev_candidate_provider_run_id r)),
      (''reviewer_provider_id'', JStr (rev_reviewer_provider_id r)),
      (''reviewer_provider_family'', JStr (rev_reviewer_provider_family r)),
      (''reviewer_model_version'', JStr (rev_reviewer_model_version r)),
      (''reviewer_profile_version'', JStr (rev_reviewer_profile_version r)), (''status'', JStr (rev_status r)),
      (''passed'', j_opt_bool (rev_passed r)), (''evidence_digest'', j_opt_str (rev_evidence_digest r)),
      (''reviewed_output_digest'', JStr (rev_reviewed_output_digest r)), (''latency_ms'', j_opt_int (rev_latency_ms r)),
      (''error_code'', j_opt_str (rev_error_code r)), (''created_at'', iso cf (rev_created_at r)),
      (''completed_at'', iso_opt cf (rev_completed_at r))]"

definition evaluation_reconciliation_dict :: "config \<Rightarrow> evaluation_reconciliation \<Rightarrow> dict" where
  "evaluation_reconciliation_dict cf r =
     [(''id'', JStr (rcn_id r)), (''workflow_id'', JStr (rcn_workflow_id r)), (''campaign_id'', JStr (rcn_campaign_id r)),
      (''target_type'', JStr (rcn_target_type r)), (''target_id'', JStr (rcn_target_id r)),
      (''decision'', JStr (rcn_decision r)), (''rationale'', JStr (rcn_rationale r)),
      (''affected_run_ids'', j_strs (rcn_affected_run_ids r)), (''created_at'', iso cf (rcn_created_at r))]"

definition evaluation_repair_dict :: "config \<Rightarrow> evaluation_repair \<Rightarrow> dict" where
  "evaluation_repair_dict cf r =
     [(''id'', JStr (rep_id r)), (''workflow_id'', JStr (rep_workflow_id r)), (''campaign_id'', JStr (rep_campaign_id r)),
      (''source_batch_id'', JStr (rep_source_batch_id r)), (''source_iteration'', JInt (rep_source_iteration r)),
      (''target_iteration'', JInt (rep_target_iteration r)), (''workflow_version'', JInt (rep_workflow_version r)),
      (''candidate_revision'', j_opt_str (rep_candidate_revision r)),
      (''prompt_variants'', JList (map prompt_variant_dict (rep_prompt_variants r))),
      (''failure_snapshot'', rejected_dict (rep_failure_snapshot r)), (''rationale'', JStr (rep_rationale r)),
      (''created_at'', iso cf (rep_created_at r))]"

definition evaluation_recovery_dict :: "config \<Rightarrow> evaluation_recovery \<Rightarrow> dict" where
  "evaluation_recovery_dict cf r =
     [(''id'', JStr (rcv_id r)), (''workflow_id'', JStr (rcv_workflow_id r)), (''campaign_id'', JStr (rcv_campaign_id r)),
      (''assessment_id'', JStr (rcv_assessment_id r)), (''prior_status'', JStr (rcv_prior_status r)),
      (''outcome_status'', JStr (rcv_outcome_status r)), (''decision'', JStr (rcv_decision r)),
      (''rationale'', JStr (rcv_rationale r)), (''affected_record_ids'', j_strs (rcv_affected_record_ids r)),
      (''created_at'', iso cf (rcv_created_at r))]"

definition evaluation_promotion_dict :: "config \<Rightarrow> evaluation_promotion \<Rightarrow> dict" where
  "evaluation_promotion_dict cf p =
     [(''id'', JStr (pro_id p)), (''workflow_id'', JStr (pro_workflow_id p)), (''campaign_id'', JStr (pro_campaign_id p)),
      (''assessment_id'', JStr (pro_assessment_id p)), (''batch_id'', JStr (pro_batch_id p)),
      (''candidate_id'', JStr (pro_candidate_id p)), (''artifact_id'', JStr (pro_artifact_id p)),
      (''artifact_digest'', JStr (pro_artifact_digest p)), (''workflow_version'', JInt (pro_workflow_version p)),
      (''candidate_revision'', j_opt_str (pro_candidate_revision p)), (''rationale'', JStr (pro_rationale p)),
      (''created_at'', iso cf (pro_created_at p))]"

text \<open>\<open>select(EvaluationProviderRunRecord).where(execution_id == \<dots>).order_by(provider_id, prompt_variant_id)\<close>\<close>

definition execution_runs :: "eval_db \<Rightarrow> ident \<Rightarrow> evaluation_provider_run list" where
  "execution_runs d xid = sort_key (\<lambda>r. (run_provider_id r, run_prompt_variant_id r))
     (filter (\<lambda>r. run_execution_id r = xid) (ev_runs d))"

definition evaluation_execution_dict :: "config \<Rightarrow> eval_db \<Rightarrow> evaluation_execution \<Rightarrow> dict" where
  "evaluation_execution_dict cf d x =
     [(''id'', JStr (exe_id x)), (''campaign_id'', JStr (exe_campaign_id x)), (''workflow_id'', JStr (exe_workflow_id x)),
      (''task_id'', JStr (exe_task_id x)), (''repair_id'', j_opt_str (exe_repair_id x)), (''iteration'', JInt (exe_iteration x)),
      (''workflow_version'', JInt (exe_workflow_version x)), (''candidate_revision'', j_opt_str (exe_candidate_revision x)),
      (''prompt_variants'', JList (map prompt_variant_dict (exe_prompt_variants x))),
      (''routing_snapshot'', JObj (exe_routing_snapshot x)), (''status'', JStr (exe_status x)),
      (''error_code'', j_opt_str (exe_error_code x)),
      (''runs'', JList (map (JObj \<circ> evaluation_provider_run_dict cf) (execution_runs d (exe_id x)))),
      (''created_at'', iso cf (exe_created_at x)), (''completed_at'', iso_opt cf (exe_completed_at x))]"

definition assessment_artifacts :: "eval_db \<Rightarrow> ident \<Rightarrow> evaluation_artifact_row list" where
  "assessment_artifacts d aid = sort_key art_provider_run_id (filter (\<lambda>t. art_assessment_id t = aid) (ev_artifacts d))"

definition assessment_checks :: "eval_db \<Rightarrow> ident \<Rightarrow> evaluation_check_row list" where
  "assessment_checks d aid = sort_key (\<lambda>k. (chk_artifact_id k, chk_check_name k)) (filter (\<lambda>k. chk_assessment_id k = aid) (ev_checks d))"

definition assessment_reviews :: "eval_db \<Rightarrow> ident \<Rightarrow> evaluation_review_run list" where
  "assessment_reviews d aid = sort_key (\<lambda>r. (rev_artifact_id r, rev_reviewer_provider_id r))
     (filter (\<lambda>r. rev_assessment_id r = aid) (ev_reviews d))"

definition artifact_dict :: "config \<Rightarrow> eval_db \<Rightarrow> ident \<Rightarrow> evaluation_artifact_row \<Rightarrow> dict" where
  "artifact_dict cf d aid t =
     [(''id'', JStr (art_id t)), (''provider_run_id'', JStr (art_provider_run_id t)), (''artifact_type'', JStr (art_artifact_type t)),
      (''digest'', JStr (art_digest t)), (''workflow_version'', JInt (art_workflow_version t)),
      (''candidate_revision'', j_opt_str (art_candidate_revision t)), (''content'', JObj (art_content_json t)),
      (''checks'', JList (map (JObj \<circ> evaluation_check_dict cf) (filter (\<lambda>k. chk_artifact_id k = art_id t) (assessment_checks d aid)))),
      (''reviews'', JList (map (JObj \<circ> evaluation_review_dict cf) (filter (\<lambda>r. rev_artifact_id r = art_id t) (assessment_reviews d aid)))),
      (''created_at'', iso cf (art_created_at t))]"

definition evaluation_assessment_dict :: "config \<Rightarrow> (rat \<Rightarrow> string) \<Rightarrow> eval_db \<Rightarrow> evaluation_assessment \<Rightarrow> dict" where
  "evaluation_assessment_dict cf fl d a =
     [(''id'', JStr (asm_id a)), (''execution_id'', JStr (asm_execution_id a)), (''campaign_id'', JStr (asm_campaign_id a)),
      (''workflow_id'', JStr (asm_workflow_id a)), (''status'', JStr (asm_status a)), (''batch_id'', j_opt_str (asm_batch_id a)),
      (''error_code'', j_opt_str (asm_error_code a)),
      (''artifacts'', JList (map (JObj \<circ> artifact_dict cf d (asm_id a)) (assessment_artifacts d (asm_id a)))),
      (''created_at'', iso cf (asm_created_at a)), (''completed_at'', iso_opt cf (asm_completed_at a))] @
     (case Option.bind (asm_batch_id a) (\<lambda>i. row_get bat_id i (ev_batches d)) of
        None \<Rightarrow> [] | Some b \<Rightarrow> [(''decision'', JObj (evaluation_batch_dict cf fl b))]) @
     [(''recoveries'', JList (map (JObj \<circ> evaluation_recovery_dict cf) (sort_key (\<lambda>r. (rcv_created_at r, rcv_id r))
         (filter (\<lambda>r. rcv_assessment_id r = asm_id a) (ev_recoveries d))))),
      (''promotion'', (case List.find (\<lambda>p. pro_assessment_id p = asm_id a) (ev_promotions d) of
         None \<Rightarrow> JNull | Some p \<Rightarrow> JObj (evaluation_promotion_dict cf p)))]"

section \<open>Lemmas\<close>

lemma insert_all_Inr [tx_simps]: "insert_all k rs rows = Inr rows' \<longleftrightarrow> rows' = rows @ rs \<and> distinct (map k rs) \<and> k ` set rs \<inter> k ` set rows = {}"
proof (induction rs arbitrary: rows)
  case (Cons r rs)
  have "insert_all k (r # rs) rows = Inr rows' \<longleftrightarrow> k r \<notin> k ` set rows \<and> insert_all k rs (rows @ [r]) = Inr rows'"
    by (auto simp: insert_unique_def row_add_def)
  then show ?case unfolding Cons.IH by auto
qed auto

lemma execution_of_Inr: "execution_of d wid xid = Inr x \<longleftrightarrow> row_get exe_id xid (ev_executions d) = Some x \<and> exe_workflow_id x = wid"
  by (auto simp: execution_of_def split: option.splits)

lemma insert_unique_Inr [tx_simps]: "insert_unique k r rows = Inr rows' \<longleftrightarrow> k r \<notin> k ` set rows \<and> rows' = rows @ [r]"
  by (auto simp: insert_unique_def row_add_def)

lemma campaign_of_Inr: "campaign_of d wid cid = Inr c \<longleftrightarrow> row_get camp_id cid (ev_campaigns d) = Some c \<and> camp_workflow_id c = wid"
  by (auto simp: campaign_of_def split: option.splits)

lemma assessment_of_Inr: "assessment_of d wid aid = Inr a \<longleftrightarrow> row_get asm_id aid (ev_assessments d) = Some a \<and> asm_workflow_id a = wid"
  by (auto simp: assessment_of_def split: option.splits)

lemma eval_audit_simps [simp]:
  "ev_campaigns (eval_audit cf w e a rt ri oc p d) = ev_campaigns d"
  "ev_batches (eval_audit cf w e a rt ri oc p d) = ev_batches d"
  "ev_candidates (eval_audit cf w e a rt ri oc p d) = ev_candidates d"
  "ev_executions (eval_audit cf w e a rt ri oc p d) = ev_executions d"
  "ev_runs (eval_audit cf w e a rt ri oc p d) = ev_runs d"
  "ev_assessments (eval_audit cf w e a rt ri oc p d) = ev_assessments d"
  "ev_artifacts (eval_audit cf w e a rt ri oc p d) = ev_artifacts d"
  "ev_checks (eval_audit cf w e a rt ri oc p d) = ev_checks d"
  "ev_reviews (eval_audit cf w e a rt ri oc p d) = ev_reviews d"
  "ev_reconciliations (eval_audit cf w e a rt ri oc p d) = ev_reconciliations d"
  "ev_repairs (eval_audit cf w e a rt ri oc p d) = ev_repairs d"
  "ev_recoveries (eval_audit cf w e a rt ri oc p d) = ev_recoveries d"
  "ev_promotions (eval_audit cf w e a rt ri oc p d) = ev_promotions d"
  "ev_observations (eval_audit cf w e a rt ri oc p d) = ev_observations d"
  "ev_db (eval_audit cf w e a rt ri oc p d) = audit cf w e a rt ri oc p (ev_db d)"
  by (simp_all add: eval_audit_def)

end
