(* ===== verification/Evaluation_Campaigns.thy ===== *)
theory Evaluation_Campaigns
  imports Evaluation_Store
begin

text \<open>
  \<open>evaluation_campaigns.py\<close>: creating a campaign, submitting the evidence of one iteration, and the queries.
  A handler takes the configuration, the environment of the call and the evaluation database, and returns an error
  or its answer with the new database.
\<close>

section \<open>Creating a campaign\<close>

text \<open>\<open>except ValueError as exc: raise ValidationError(str(exc))\<close>\<close>

definition as_validation_error :: "error + 'a \<Rightarrow> error + 'a" where
  "as_validation_error m = (case m of Inl (ValueError t) \<Rightarrow> Inl (ValidationError t) | _ \<Rightarrow> m)"

definition review_floor :: "int option \<Rightarrow> risk_level \<Rightarrow> int" where
  "review_floor minimum risk = (case minimum of None \<Rightarrow> if RL_HIGH \<le> risk then 2 else 0 | Some n \<Rightarrow> n)"

definition campaign_request_json :: "ident \<Rightarrow> string \<Rightarrow> work_capability \<Rightarrow> evaluation_policy \<Rightarrow> json" where
  "campaign_request_json workflow_id prompt_contract_version work_capability p = JObj
     [(''workflow_id'', JStr workflow_id), (''prompt_contract_version'', JStr prompt_contract_version),
      (''work_capability'', JStr (work_capability_value work_capability)),
      (''required_checks'', j_strs (sorted_set (eo_required_checks p))), (''risk'', JStr (risk_level_name (eo_risk p))),
      (''max_candidates'', JInt (eo_max_candidates p)), (''max_prompt_variants'', JInt (eo_max_prompt_variants p)),
      (''max_iterations'', JInt (eo_max_iterations p)),
      (''max_total_cost_microunits'', JInt (eo_max_total_cost_microunits p)),
      (''minimum_independent_reviews'', JInt (eo_minimum_independent_reviews p))]"

definition new_campaign :: "env \<Rightarrow> ident \<Rightarrow> ident \<Rightarrow> string \<Rightarrow> string \<Rightarrow> string \<Rightarrow> work_capability \<Rightarrow> evaluation_policy \<Rightarrow>
    evaluation_campaign" where
  "new_campaign en workflow_id actor_id key request_digest prompt_contract_version work_capability p =
     \<lparr>camp_id = en_uuid en 0, camp_workflow_id = workflow_id, camp_actor_id = actor_id, camp_idempotency_key = strip key,
      camp_request_digest = request_digest, camp_prompt_contract_version = prompt_contract_version,
      camp_work_capability = work_capability, camp_required_checks = sorted_set (eo_required_checks p), camp_risk = eo_risk p,
      camp_max_candidates = eo_max_candidates p, camp_max_prompt_variants = eo_max_prompt_variants p,
      camp_max_iterations = eo_max_iterations p, camp_max_total_cost_microunits = eo_max_total_cost_microunits p,
      camp_minimum_independent_reviews = eo_minimum_independent_reviews p, camp_policy_version = EVALUATION_POLICY_VERSION,
      camp_status = ''OPEN'', camp_current_iteration = 1, camp_total_cost_microunits = 0, camp_winner_candidate_id = None,
      camp_created_at = en_now en 1, camp_updated_at = en_now en 2\<rparr>"

definition create_evaluation_campaign :: "config \<Rightarrow> env \<Rightarrow> ident \<Rightarrow> ident \<Rightarrow> string \<Rightarrow> string \<Rightarrow> work_capability \<Rightarrow> string list \<Rightarrow>
    int \<Rightarrow> int \<Rightarrow> int \<Rightarrow> int \<Rightarrow> int option \<Rightarrow> eval_db \<Rightarrow> error + dict \<times> eval_db" where
  "create_evaluation_campaign cf en workflow_id actor_id idempotency_key prompt_contract_version work_capability
     required_checks max_candidates max_prompt_variants max_iterations max_total_cost minimum_independent_reviews d =
     (if \<not> valid_key idempotency_key then Inl (ValidationError ''evaluation campaign idempotency key is invalid'')
      else
      ebind (authorize (ev_db d) (en_now en 0) actor_id CAP_CREATE_EVALUATION None None True) (\<lambda>_.
      ebind (get_workflow (ev_db d) workflow_id) (\<lambda>w.
      let policy = \<lparr>eo_required_checks = required_checks, eo_risk = wf_risk_class w, eo_max_candidates = max_candidates,
            eo_max_prompt_variants = max_prompt_variants, eo_max_iterations = max_iterations,
            eo_max_total_cost_microunits = max_total_cost,
            eo_minimum_independent_reviews = review_floor minimum_independent_reviews (wf_risk_class w)\<rparr>
      in
      ebind (as_validation_error (ebind (check_evaluation_policy policy)
        (\<lambda>_. require_identifier ''prompt contract version'' prompt_contract_version))) (\<lambda>_.
      let request_digest = digest (cf_sha256 cf)
            (campaign_request_json workflow_id prompt_contract_version work_capability policy)
      in
      (case find_by_key camp_actor_id camp_idempotency_key actor_id idempotency_key (ev_campaigns d) of
         Some existing \<Rightarrow>
           if camp_request_digest existing \<noteq> request_digest
           then Inl (ConflictError ''evaluation campaign idempotency key was reused'')
           else Inr (evaluation_campaign_dict cf existing, d)
       | None \<Rightarrow>
           ebind (require_active_evaluation_workflow w) (\<lambda>_.
           let c = new_campaign en workflow_id actor_id idempotency_key request_digest prompt_contract_version work_capability policy
           in Inr (evaluation_campaign_dict cf c,
             eval_audit cf workflow_id ''evaluation.campaign_created'' actor_id ''evaluation_campaign'' (camp_id c) ''SUCCEEDED''
               [(''policy_version'', JStr (camp_policy_version c)),
                (''prompt_contract_version'', JStr (camp_prompt_contract_version c)),
                (''work_capability'', JStr (work_capability_value (camp_work_capability c))),
                (''required_checks'', j_strs (camp_required_checks c)), (''risk'', JStr (risk_level_name (camp_risk c))),
                (''max_total_cost_microunits'', JInt (camp_max_total_cost_microunits c))]
               (d\<lparr>ev_campaigns := row_add c (ev_campaigns d)\<rparr>))))))))"

section \<open>Submitting evidence\<close>

definition candidate_payload :: "candidate_evidence \<Rightarrow> json" where
  "candidate_payload c = JObj
     [(''candidate_id'', JStr (cv_candidate_id c)), (''provider_id'', JStr (cv_provider_id c)),
      (''provider_family'', JStr (cv_provider_family c)), (''model_version'', JStr (cv_model_version c)),
      (''profile_version'', JStr (cv_profile_version c)), (''prompt_variant_id'', JStr (cv_prompt_variant_id c)),
      (''prompt_contract_version'', JStr (cv_prompt_contract_version c)), (''iteration'', JInt (cv_iteration c)),
      (''succeeded'', JBool (cv_succeeded c)), (''output_digest'', j_opt_str (cv_output_digest c)),
      (''latency_ms'', JInt (cv_latency_ms c)), (''cost_microunits'', JInt (cv_cost_microunits c)),
      (''checks'', JList (map deterministic_check_dict (sort_key dk_name (cv_checks c)))),
      (''reviews'', JList (map independent_review_dict (sort_key ir_reviewer_provider_id (cv_reviews c))))]"

definition submission_json :: "ident \<Rightarrow> candidate_evidence list \<Rightarrow> ident option \<Rightarrow> json" where
  "submission_json campaign_id candidates repair_id = JObj
     [(''campaign_id'', JStr campaign_id),
      (''candidates'', JList (map candidate_payload (sort_key cv_candidate_id candidates))),
      (''repair_id'', j_opt_str repair_id)]"

definition submission_digest :: "config \<Rightarrow> ident \<Rightarrow> candidate_evidence list \<Rightarrow> ident option \<Rightarrow> string" where
  "submission_digest cf campaign_id candidates repair_id =
     digest (cf_sha256 cf) (submission_json campaign_id candidates repair_id)"

text \<open>The profiles with the health the providers reported before the transaction, and their evidence.\<close>

definition evaluation_profiles :: "config \<Rightarrow> env \<Rightarrow> db \<Rightarrow> provider_profile list" where
  "evaluation_profiles cf en d = hydrate_profiles (cf_window_size cf) d
     (map (\<lambda>p. p\<lparr>pp_healthy := pp_enabled p \<and> en_healthy en (pp_provider_id p)\<rparr>) (cf_profiles cf))"

definition campaign_routing_request :: "config \<Rightarrow> evaluation_campaign \<Rightarrow> workflow \<Rightarrow> routing_request" where
  "campaign_routing_request cf c w =
     \<lparr>rq_required_capabilities = {camp_work_capability c}, rq_data_classification = wf_data_classification w,
      rq_risk = camp_risk c, rq_purpose = RP_PRODUCE, rq_allowed_egress = cf_allowed_egress cf, rq_allowed_modes = {},
      rq_maximum_cost_tier = CT_HIGH,
      rq_minimum_evidence_samples = (if RL_HIGH \<le> camp_risk c then cf_high_risk_min_evidence_samples cf else 0),
      rq_producer_provider_id = None, rq_producer_family = None, rq_objective = cf_routing_objective cf\<rparr>"

definition ranked_named :: "routing_decision \<Rightarrow> string \<Rightarrow> ranked_candidate option" where
  "ranked_named r pid = List.find (\<lambda>c. rc_provider_id c = pid) (rd_ranked_candidates r)"

definition check_review :: "provider_profile list \<Rightarrow> routing_decision \<Rightarrow> independent_review \<Rightarrow> error + unit" where
  "check_review profiles review_routing r =
     (case find_profile (Some (ir_reviewer_provider_id r)) profiles of
        None \<Rightarrow> Inl (ValidationError ''reviewer provider is not policy eligible'')
      | Some p \<Rightarrow>
          if ranked_named review_routing (ir_reviewer_provider_id r) = None
          then Inl (ValidationError ''reviewer provider is not policy eligible'')
          else require (ir_reviewer_provider_family r = pp_provider_family p \<and> ir_reviewer_model_version r = pp_model_version p \<and>
              ir_reviewer_profile_version r = pp_profile_version p)
            (ValidationError ''reviewer provider identity does not match policy''))"

fun check_reviews :: "provider_profile list \<Rightarrow> routing_decision \<Rightarrow> independent_review list \<Rightarrow> error + unit" where
  "check_reviews profiles rr [] = Inr ()"
| "check_reviews profiles rr (r # rs) = ebind (check_review profiles rr r) (\<lambda>_. check_reviews profiles rr rs)"

text \<open>One candidate: its provider is eligible, it is who it says, so are its reviewers; the score is the router's.\<close>

definition normalize_candidate :: "routing_request \<Rightarrow> provider_profile list \<Rightarrow> routing_decision \<Rightarrow> candidate_evidence \<Rightarrow>
    error + candidate_evidence" where
  "normalize_candidate request profiles routing c =
     (case (ranked_named routing (cv_provider_id c), find_profile (Some (cv_provider_id c)) profiles) of
        (Some ranked, Some p) \<Rightarrow>
          if cv_provider_family c \<noteq> pp_provider_family p \<or> cv_model_version c \<noteq> pp_model_version p \<or>
             cv_profile_version c \<noteq> pp_profile_version p
          then Inl (ValidationError ''candidate provider identity does not match policy'')
          else
          ebind (route (request\<lparr>rq_purpose := RP_REVIEW, rq_producer_provider_id := Some (cv_provider_id c),
            rq_producer_family := Some (cv_provider_family c)\<rparr>) profiles) (\<lambda>review_routing.
          ebind (check_reviews profiles review_routing (cv_reviews c)) (\<lambda>_.
          let c' = c\<lparr>cv_routing_score := rc_score ranked\<rparr>
          in ebind (check_candidate_evidence c') (\<lambda>_. Inr c')))
      | _ \<Rightarrow> Inl (ValidationError ''candidate provider is not policy eligible''))"

fun normalize_candidates :: "routing_request \<Rightarrow> provider_profile list \<Rightarrow> routing_decision \<Rightarrow> candidate_evidence list \<Rightarrow>
    error + candidate_evidence list" where
  "normalize_candidates q ps rt [] = Inr []"
| "normalize_candidates q ps rt (c # cs) =
     ebind (normalize_candidate q ps rt c) (\<lambda>c'. ebind (normalize_candidates q ps rt cs) (\<lambda>cs'. Inr (c' # cs')))"

text \<open>The repair plan a later iteration needs.\<close>

definition check_repair :: "evaluation_campaign \<Rightarrow> workflow \<Rightarrow> candidate_evidence list \<Rightarrow> ident option \<Rightarrow> eval_db \<Rightarrow>
    error + ident option" where
  "check_repair c w candidates repair_id d =
     (if camp_current_iteration c = 1
      then (case repair_id of None \<Rightarrow> Inr None
            | Some _ \<Rightarrow> Inl (ValidationError ''initial evaluation evidence cannot use a repair plan''))
      else (case repair_id of
          None \<Rightarrow> Inl (ConflictError ''refinement evidence requires a committed repair plan'')
        | Some i \<Rightarrow>
            ebind (from_option (ConflictError ''evaluation repair plan does not match this iteration'')
              (case row_get rep_id i (ev_repairs d) of None \<Rightarrow> None
               | Some r \<Rightarrow> if rep_campaign_id r = camp_id c \<and> rep_target_iteration r = camp_current_iteration c then Some r else None)) (\<lambda>r.
            if rep_workflow_version r \<noteq> wf_version w \<or> rep_candidate_revision r \<noteq> wf_candidate_revision w
            then Inl (ConflictError ''evaluation repair plan workflow snapshot is stale'')
            else if set (map cv_prompt_variant_id candidates) \<noteq> set (map pt_variant_id (rep_prompt_variants r))
            then Inl (ConflictError ''evaluation candidate variants do not match the repair plan'')
            else Inr (Some (rep_id r)))))"

definition ranked_candidate_dict :: "(rat \<Rightarrow> string) \<Rightarrow> ranked_candidate \<Rightarrow> dict" where
  "ranked_candidate_dict fl r =
     [(''provider_id'', JStr (rc_provider_id r)), (''score'', JFloat (fl (rc_score r))),
      (''quality_utility'', JFloat (fl (rc_quality_utility r))), (''cost_utility'', JFloat (fl (rc_cost_utility r))),
      (''latency_utility'', JFloat (fl (rc_latency_utility r)))]"

fun routing_objective_value :: "routing_objective \<Rightarrow> string" where
  "routing_objective_value RO_BALANCED = ''BALANCED''"
| "routing_objective_value RO_QUALITY = ''QUALITY''"
| "routing_objective_value RO_SPEED = ''SPEED''"
| "routing_objective_value RO_FRUGAL = ''FRUGAL''"

definition evaluation_routing_snapshot :: "config \<Rightarrow> (rat \<Rightarrow> string) \<Rightarrow> routing_decision \<Rightarrow> dict" where
  "evaluation_routing_snapshot cf fl r =
     [(''policy_version'', JStr (rd_policy_version r)),
      (''provider_policy_version'', JStr (cf_provider_policy_version cf)),
      (''objective'', JStr (routing_objective_value (rd_objective r))),
      (''objective_profile_version'', JStr (rd_objective_profile_version r)),
      (''eligible'', JList (map (JObj \<circ> ranked_candidate_dict fl) (rd_ranked_candidates r))),
      (''rejected'', rejected_dict (rd_rejected r))]"

text \<open>\<open>ranks.get(candidate_id)\<close>: the place, from 1, in the ranking.\<close>

definition rank_of :: "evaluation_decision \<Rightarrow> string \<Rightarrow> nat option" where
  "rank_of dn i = map_of (rev (map (\<lambda>(n, r). (rk_candidate_id r, n)) (enumerate 1 (ed_ranked_candidates dn)))) i"

definition reasons_of :: "evaluation_decision \<Rightarrow> string \<Rightarrow> string list" where
  "reasons_of dn i = (case map_of (ed_rejected_candidates dn) i of None \<Rightarrow> [] | Some rs \<Rightarrow> rs)"

definition new_batch :: "config \<Rightarrow> (rat \<Rightarrow> string) \<Rightarrow> env \<Rightarrow> evaluation_campaign \<Rightarrow> ident \<Rightarrow> string \<Rightarrow> string \<Rightarrow> ident option \<Rightarrow>
    routing_decision \<Rightarrow> evaluation_decision \<Rightarrow> evaluation_batch_row" where
  "new_batch cf fl en c actor_id key request_digest repair_id routing dn =
     \<lparr>bat_id = en_uuid en 0, bat_campaign_id = camp_id c, bat_workflow_id = camp_workflow_id c, bat_actor_id = actor_id,
      bat_idempotency_key = strip key, bat_request_digest = request_digest, bat_repair_id = repair_id,
      bat_iteration = camp_current_iteration c, bat_status = evaluation_status_value (ed_status dn),
      bat_winner_candidate_id = ed_winner_candidate_id dn, bat_ranked_candidates = ed_ranked_candidates dn,
      bat_rejected_candidates = ed_rejected_candidates dn, bat_total_cost_microunits = ed_total_cost_microunits dn,
      bat_policy_version = ed_policy_version dn, bat_routing_snapshot = evaluation_routing_snapshot cf fl routing,
      bat_created_at = en_now en 2\<rparr>"

definition new_candidate_row :: "env \<Rightarrow> evaluation_campaign \<Rightarrow> evaluation_decision \<Rightarrow> nat \<times> candidate_evidence \<Rightarrow> evaluation_candidate_row" where
  "new_candidate_row en c dn = (\<lambda>(n, e). \<lparr>cand_id = en_uuid en n, cand_campaign_id = camp_id c, cand_batch_id = en_uuid en 0,
     cand_evidence = e, cand_rejection_reasons = reasons_of dn (cv_candidate_id e), cand_rank = rank_of dn (cv_candidate_id e),
     cand_created_at = en_now en 3\<rparr>)"

definition decided_campaign :: "env \<Rightarrow> evaluation_decision \<Rightarrow> evaluation_campaign \<Rightarrow> evaluation_campaign" where
  "decided_campaign en dn c = c\<lparr>camp_status := evaluation_status_value (ed_status dn),
     camp_total_cost_microunits := ed_total_cost_microunits dn, camp_winner_candidate_id := ed_winner_candidate_id dn,
     camp_current_iteration := (case ed_next_iteration dn of None \<Rightarrow> camp_current_iteration c | Some n \<Rightarrow> n),
     camp_updated_at := en_now en 4\<rparr>"

text \<open>Evaluating the normalised candidates under the policy of the campaign.\<close>

definition decide :: "evaluation_campaign \<Rightarrow> candidate_evidence list \<Rightarrow> error + evaluation_decision" where
  "decide c candidates = as_validation_error (
     let p = evaluation_policy_of c;
         b = \<lparr>eb_campaign_id = camp_id c, eb_prompt_contract_version = camp_prompt_contract_version c,
              eb_current_iteration = camp_current_iteration c, eb_prior_cost_microunits = camp_total_cost_microunits c,
              eb_candidates = candidates\<rparr>
     in ebind (check_evaluation_policy p) (\<lambda>_. ebind (check_evaluation_batch b) (\<lambda>_. evaluate p b)))"

text \<open>The writes of a submission, once its evidence is decided.\<close>

definition record_decision :: "config \<Rightarrow> (rat \<Rightarrow> string) \<Rightarrow> env \<Rightarrow> evaluation_campaign \<Rightarrow> ident \<Rightarrow> string \<Rightarrow> string \<Rightarrow> ident option \<Rightarrow>
    routing_decision \<Rightarrow> candidate_evidence list \<Rightarrow> evaluation_decision \<Rightarrow> eval_db \<Rightarrow> error + evaluation_batch_row \<times> eval_db" where
  "record_decision cf fl en c actor_id key request_digest repair_id routing candidates dn d =
     (let b = new_batch cf fl en c actor_id key request_digest repair_id routing dn in
      ebind (insert_unique (\<lambda>b. (bat_campaign_id b, bat_iteration b)) b (ev_batches d)) (\<lambda>batches.
      ebind (insert_all (\<lambda>r. (cand_campaign_id r, cv_candidate_id (cand_evidence r)))
        (map (new_candidate_row en c dn) (enumerate 1 candidates)) (ev_candidates d)) (\<lambda>rows.
      Inr (b, eval_audit cf (camp_workflow_id c) ''evaluation.batch_decided'' actor_id ''evaluation_batch'' (bat_id b)
        (evaluation_status_value (ed_status dn))
        [(''campaign_id'', JStr (camp_id c)), (''iteration'', JInt (bat_iteration b)),
         (''candidate_ids'', j_strs (sort (map cv_candidate_id candidates))),
         (''winner_candidate_id'', j_opt_str (ed_winner_candidate_id dn)),
         (''total_cost_microunits'', JInt (ed_total_cost_microunits dn)), (''policy_version'', JStr (ed_policy_version dn)),
         (''routing_policy_version'', JStr (rd_policy_version routing)), (''repair_id'', j_opt_str repair_id)]
        (d\<lparr>ev_batches := batches, ev_candidates := rows,
           ev_campaigns := row_upd camp_id (camp_id c) (decided_campaign en dn) (ev_campaigns d)\<rparr>)))))"

definition replay_batch :: "config \<Rightarrow> (rat \<Rightarrow> string) \<Rightarrow> string \<Rightarrow> ident \<Rightarrow> evaluation_batch_row \<Rightarrow> error + dict" where
  "replay_batch cf fl request_digest workflow_id b =
     (if bat_request_digest b \<noteq> request_digest \<or> bat_workflow_id b \<noteq> workflow_id
      then Inl (ConflictError ''evaluation batch idempotency key was reused'')
      else Inr (dict_set (evaluation_batch_dict cf fl b) ''replayed'' (JBool True)))"

text \<open>
  The first, read-only transaction returns a replay or lets the second one start.  Between the two no other
  transaction is modelled, so the second lookup of the key finds what the first found.
\<close>

definition submit_evaluation_evidence :: "config \<Rightarrow> (rat \<Rightarrow> string) \<Rightarrow> env \<Rightarrow> ident \<Rightarrow> ident \<Rightarrow> ident \<Rightarrow> string \<Rightarrow>
    candidate_evidence list \<Rightarrow> ident option \<Rightarrow> eval_db \<Rightarrow> error + dict \<times> eval_db" where
  "submit_evaluation_evidence cf fl en workflow_id campaign_id actor_id idempotency_key candidates repair_id d =
     (if \<not> valid_key idempotency_key then Inl (ValidationError ''evaluation batch idempotency key is invalid'')
      else
      let request_digest = submission_digest cf campaign_id candidates repair_id in
      ebind (authorize (ev_db d) (en_now en 0) actor_id CAP_SUBMIT_EVALUATION_EVIDENCE None None True) (\<lambda>_.
      (case find_by_key bat_actor_id bat_idempotency_key actor_id idempotency_key (ev_batches d) of
         Some existing \<Rightarrow> ebind (replay_batch cf fl request_digest workflow_id existing) (\<lambda>r. Inr (r, d))
       | None \<Rightarrow>
           ebind (authorize (ev_db d) (en_now en 1) actor_id CAP_SUBMIT_EVALUATION_EVIDENCE None None True) (\<lambda>_.
           ebind (get_workflow (ev_db d) workflow_id) (\<lambda>w.
           ebind (campaign_of d workflow_id campaign_id) (\<lambda>c.
           ebind (require_active_evaluation_workflow w) (\<lambda>_.
           if camp_status c \<notin> {''OPEN'', evaluation_status_value VS_REFINEMENT_REQUIRED}
           then Inl (ConflictError ''evaluation campaign is terminal'')
           else if candidates = [] then Inl (ValidationError ''evaluation batch requires candidates'')
           else if list_ex (\<lambda>e. cv_iteration e \<noteq> camp_current_iteration c) candidates
           then Inl (ConflictError ''candidate iteration does not match campaign state'')
           else if list_ex (\<lambda>r. cand_campaign_id r = camp_id c \<and>
               cv_candidate_id (cand_evidence r) \<in> set (map cv_candidate_id candidates)) (ev_candidates d)
           then Inl (ConflictError ''candidate ID was already recorded in this campaign'')
           else
           ebind (check_repair c w candidates repair_id d) (\<lambda>repair.
           let profiles = evaluation_profiles cf en (ev_db d); request = campaign_routing_request cf c w in
           ebind (route request profiles) (\<lambda>routing.
           ebind (normalize_candidates request profiles routing candidates) (\<lambda>normalized.
           ebind (decide c normalized) (\<lambda>dn.
           ebind (record_decision cf fl en c actor_id idempotency_key request_digest repair routing normalized dn d) (\<lambda>(b, d1).
           Inr (dict_set (evaluation_batch_dict cf fl b) ''replayed'' (JBool False), d1)))))))))))))"

section \<open>Queries\<close>

definition rank_order :: "evaluation_candidate_row \<Rightarrow> (bool \<times> nat) \<times> string" where
  "rank_order r = ((cand_rank r = None, (case cand_rank r of None \<Rightarrow> 0 | Some n \<Rightarrow> n)), cv_candidate_id (cand_evidence r))"

definition campaign_batch_dict :: "config \<Rightarrow> (rat \<Rightarrow> string) \<Rightarrow> eval_db \<Rightarrow> evaluation_batch_row \<Rightarrow> json" where
  "campaign_batch_dict cf fl d b = JObj (dict_set (evaluation_batch_dict cf fl b) ''candidates''
     (JList (map (JObj \<circ> evaluation_candidate_dict cf fl)
       (sort_key rank_order (filter (\<lambda>r. cand_batch_id r = bat_id b) (ev_candidates d))))))"

definition get_evaluation_campaign :: "config \<Rightarrow> (rat \<Rightarrow> string) \<Rightarrow> env \<Rightarrow> ident \<Rightarrow> ident \<Rightarrow> ident \<Rightarrow> eval_db \<Rightarrow> error + dict" where
  "get_evaluation_campaign cf fl en workflow_id campaign_id principal_id d =
     ebind (authorize (ev_db d) (en_now en 0) principal_id CAP_READ_EVALUATION None None False) (\<lambda>_.
     ebind (get_workflow (ev_db d) workflow_id) (\<lambda>_.
     ebind (campaign_of d workflow_id campaign_id) (\<lambda>c.
     Inr (evaluation_campaign_dict cf c @
       [(''batches'', JList (map (campaign_batch_dict cf fl d)
          (sort_key bat_iteration (filter (\<lambda>b. bat_campaign_id b = campaign_id) (ev_batches d))))),
        (''repairs'', JList (map (JObj \<circ> evaluation_repair_dict cf)
          (sort_key rep_target_iteration (filter (\<lambda>r. rep_campaign_id r = campaign_id) (ev_repairs d))))),
        (''promotions'', JList (map (JObj \<circ> evaluation_promotion_dict cf)
          (filter (\<lambda>p. pro_campaign_id p = campaign_id) (ev_promotions d))))]))))"

definition list_evaluation_campaigns :: "config \<Rightarrow> env \<Rightarrow> ident \<Rightarrow> ident \<Rightarrow> eval_db \<Rightarrow> error + dict list" where
  "list_evaluation_campaigns cf en workflow_id principal_id d =
     ebind (authorize (ev_db d) (en_now en 0) principal_id CAP_READ_EVALUATION None None False) (\<lambda>_.
     ebind (get_workflow (ev_db d) workflow_id) (\<lambda>_.
     Inr (map (evaluation_campaign_dict cf) (sort_key (\<lambda>c. (camp_created_at c, camp_id c))
       (filter (\<lambda>c. camp_workflow_id c = workflow_id) (ev_campaigns d))))))"

end
