(* ===== verification/Evaluation_Lifecycle.thy ===== *)
theory Evaluation_Lifecycle
  imports Evaluation_Campaigns
begin

text \<open>
  \<open>evaluation_lifecycle.py\<close>: planning a repair for the next iteration, recovering an interrupted assessment, and
  promoting a winner.  The two callbacks the service is built with, which continue and read an
  assessment, are parameters of the handler that uses them.
\<close>

section \<open>Repair\<close>

definition repair_digest :: "config \<Rightarrow> ident \<Rightarrow> prompt_variant list \<Rightarrow> string \<Rightarrow> string" where
  "repair_digest cf campaign_id variants rationale = digest (cf_sha256 cf) (JObj
     [(''campaign_id'', JStr campaign_id), (''prompt_variants'', JList (map prompt_variant_dict variants)),
      (''rationale'', JStr (strip rationale))])"

definition source_batch :: "eval_db \<Rightarrow> ident \<Rightarrow> int \<Rightarrow> evaluation_batch_row option" where
  "source_batch d cid k = List.find (\<lambda>b. bat_campaign_id b = cid \<and> bat_iteration b = k) (ev_batches d)"

definition plan_evaluation_repair :: "config \<Rightarrow> env \<Rightarrow> ident \<Rightarrow> ident \<Rightarrow> ident \<Rightarrow> string \<Rightarrow> prompt_variant list \<Rightarrow> string \<Rightarrow>
    eval_db \<Rightarrow> error + dict \<times> eval_db" where
  "plan_evaluation_repair cf en workflow_id campaign_id actor_id idempotency_key prompt_variants rationale d =
     (if \<not> valid_key idempotency_key then Inl (ValidationError ''evaluation repair idempotency key is invalid'')
      else if \<not> valid_rationale rationale then Inl (ValidationError ''evaluation repair rationale is invalid'')
      else if prompt_variants = [] then Inl (ValidationError ''evaluation repair requires prompt variants'')
      else if \<not> distinct (map pt_variant_id prompt_variants)
      then Inl (ValidationError ''evaluation repair prompt variant IDs must be unique'')
      else
      let variants = sort_key pt_variant_id prompt_variants;
          request_digest = repair_digest cf campaign_id variants rationale
      in
      ebind (authorize (ev_db d) (en_now en 0) actor_id CAP_PLAN_EVALUATION_REPAIR None None True) (\<lambda>_.
      ebind (get_workflow (ev_db d) workflow_id) (\<lambda>w.
      (case find_by_key rep_actor_id rep_idempotency_key actor_id idempotency_key (ev_repairs d) of
         Some existing \<Rightarrow>
           if rep_request_digest existing \<noteq> request_digest \<or> rep_workflow_id existing \<noteq> workflow_id
           then Inl (ConflictError ''evaluation repair idempotency key was reused'')
           else Inr (dict_set (evaluation_repair_dict cf existing) ''replayed'' (JBool True), d)
       | None \<Rightarrow>
           ebind (require_active_evaluation_workflow w) (\<lambda>_.
           ebind (campaign_of d workflow_id campaign_id) (\<lambda>c.
           if camp_status c \<noteq> evaluation_status_value VS_REFINEMENT_REQUIRED
           then Inl (ConflictError ''evaluation campaign does not require repair'')
           else if camp_max_prompt_variants c < int (length prompt_variants)
           then Inl (ValidationError ''evaluation repair exceeds the prompt-variant ceiling'')
           else
           ebind (from_option (ConflictError ''evaluation repair source is unavailable'')
             (case source_batch d (camp_id c) (camp_current_iteration c - 1) of
                None \<Rightarrow> None
              | Some b \<Rightarrow> if bat_status b = evaluation_status_value VS_REFINEMENT_REQUIRED then Some b else None)) (\<lambda>b.
           let r = \<lparr>rep_id = en_uuid en 0, rep_workflow_id = wf_id w, rep_campaign_id = camp_id c, rep_source_batch_id = bat_id b,
                 rep_actor_id = actor_id, rep_idempotency_key = strip idempotency_key, rep_request_digest = request_digest,
                 rep_source_iteration = camp_current_iteration c - 1, rep_target_iteration = camp_current_iteration c,
                 rep_workflow_version = wf_version w, rep_candidate_revision = wf_candidate_revision w,
                 rep_prompt_variants = variants, rep_failure_snapshot = bat_rejected_candidates b,
                 rep_rationale = strip rationale, rep_created_at = en_now en 1\<rparr>
           in
           ebind (insert_unique (\<lambda>r. (rep_campaign_id r, rep_target_iteration r)) r (ev_repairs d)) (\<lambda>repairs.
           Inr (dict_set (evaluation_repair_dict cf r) ''replayed'' (JBool False),
             eval_audit cf (wf_id w) ''evaluation.repair_planned'' actor_id ''evaluation_repair'' (rep_id r) ''SUCCEEDED''
               [(''campaign_id'', JStr (camp_id c)), (''source_batch_id'', JStr (bat_id b)),
                (''source_iteration'', JInt (rep_source_iteration r)), (''target_iteration'', JInt (rep_target_iteration r)),
                (''prompt_variant_ids'', j_strs (sort (map pt_variant_id prompt_variants))),
                (''workflow_version'', JInt (wf_version w)), (''candidate_revision'', j_opt_str (wf_candidate_revision w))]
               (d\<lparr>ev_repairs := repairs\<rparr>))))))))))"

section \<open>Recovery\<close>

text \<open>The result of the callbacks: a dictionary, and the database they leave.\<close>

type_synonym assessment_callback = "ident \<Rightarrow> ident \<Rightarrow> eval_db \<Rightarrow> (error + dict) \<times> eval_db"

definition recovery_digest :: "config \<Rightarrow> ident \<Rightarrow> string \<Rightarrow> string" where
  "recovery_digest cf assessment_id rationale = digest (cf_sha256 cf) (JObj
     [(''assessment_id'', JStr assessment_id), (''decision'', JStr ''MARK_INTERRUPTED_FAILED''),
      (''rationale'', JStr (strip rationale))])"

definition check_evidence_json :: "evaluation_check_row \<Rightarrow> bool \<Rightarrow> dict \<Rightarrow> json" where
  "check_evidence_json k passed details = JObj
     [(''artifact_id'', JStr (chk_artifact_id k)), (''check_name'', JStr (chk_check_name k)),
      (''validator_version'', JStr (chk_validator_version k)),
      (''validated_output_digest'', JStr (chk_validated_output_digest k)), (''passed'', JBool passed),
      (''details'', JObj details)]"

definition interrupted_check :: "config \<Rightarrow> instant \<Rightarrow> evaluation_check_row \<Rightarrow> evaluation_check_row" where
  "interrupted_check cf now k =
     (let details = [(''reason'', JStr ''interrupted_assessment_recovered_as_failed'')]
      in k\<lparr>chk_status := ''COMPLETED'', chk_passed := Some False, chk_details_json := details,
           chk_evidence_digest := Some (''sha256:'' @ digest (cf_sha256 cf) (check_evidence_json k False details)),
           chk_completed_at := Some now\<rparr>)"

definition recoverable_checks :: "string list" where
  "recoverable_checks = [evaluation_assessment_status_value SS_PREPARED, evaluation_assessment_status_value SS_RUNNING]"

definition set_assessment :: "ident \<Rightarrow> evaluation_assessment_status \<Rightarrow> string \<Rightarrow> eval_db \<Rightarrow> eval_db" where
  "set_assessment aid s code d = d\<lparr>ev_assessments := row_upd asm_id aid
     (\<lambda>a. a\<lparr>asm_status := evaluation_assessment_status_value s, asm_error_code := Some code\<rparr>) (ev_assessments d)\<rparr>"

text \<open>What the decision does to the interrupted rows, by the status of the assessment: the new status, the rows affected,
whether the assessment goes on, and the database.\<close>

definition recover_rows :: "config \<Rightarrow> instant \<Rightarrow> evaluation_assessment \<Rightarrow> eval_db \<Rightarrow>
    error + evaluation_assessment_status \<times> ident list \<times> bool \<times> eval_db" where
  "recover_rows cf now a d =
     (if asm_status a \<in> set recoverable_checks then
        let hit = (\<lambda>k. chk_assessment_id k = asm_id a \<and> chk_status k \<in> set recoverable_checks)
        in Inr (SS_CHECKS_READY, map chk_id (filter hit (ev_checks d)), True,
             set_assessment (asm_id a) SS_CHECKS_READY ''InterruptedChecksMarkedFailed''
               (d\<lparr>ev_checks := map (\<lambda>k. if hit k then interrupted_check cf now k else k) (ev_checks d)\<rparr>))
      else if asm_status a = evaluation_assessment_status_value SS_REVIEW_PREPARED then
        let hit = (\<lambda>r. rev_assessment_id r = asm_id a \<and> rev_status r = evaluation_assessment_status_value SS_REVIEW_PREPARED)
        in Inr (SS_REVIEWS_READY, map rev_id (filter hit (ev_reviews d)), True,
             set_assessment (asm_id a) SS_REVIEWS_READY ''InterruptedPreparedReviewsMarkedFailed''
               (d\<lparr>ev_reviews := map (\<lambda>r. if hit r then r\<lparr>rev_status := evaluation_execution_status_value XS_FAILED,
                   rev_error_code := Some ''InterruptedPreparedReviewMarkedFailed'', rev_completed_at := Some now\<rparr> else r)
                 (ev_reviews d)\<rparr>))
      else if asm_status a = evaluation_assessment_status_value SS_REVIEWS_RUNNING then
        let hit = (\<lambda>r. rev_assessment_id r = asm_id a \<and> rev_status r = evaluation_assessment_status_value SS_REVIEWS_RUNNING)
        in Inr (SS_REVIEW_UNKNOWN, map rev_id (filter hit (ev_reviews d)), False,
             set_assessment (asm_id a) SS_REVIEW_UNKNOWN ''InterruptedReviewOutcomeUnknown''
               (d\<lparr>ev_reviews := map (\<lambda>r. if hit r then r\<lparr>rev_status := evaluation_execution_status_value XS_UNKNOWN,
                   rev_error_code := Some ''InterruptedReviewOutcomeUnknown''\<rparr> else r) (ev_reviews d)\<rparr>))
      else Inl (ConflictError ''evaluation assessment is not in a recoverable state''))"

definition commit_recovery :: "config \<Rightarrow> env \<Rightarrow> ident \<Rightarrow> ident \<Rightarrow> ident \<Rightarrow> string \<Rightarrow> string \<Rightarrow> string \<Rightarrow> eval_db \<Rightarrow>
    error + (bool \<times> evaluation_recovery) \<times> eval_db" where
  "commit_recovery cf en workflow_id assessment_id actor_id idempotency_key request_digest rationale d =
     ebind (authorize (ev_db d) (en_now en 1) actor_id CAP_RECOVER_EVALUATION None None True) (\<lambda>_.
     ebind (get_workflow (ev_db d) workflow_id) (\<lambda>w.
     ebind (require_active_evaluation_workflow w) (\<lambda>_.
     ebind (assessment_of d workflow_id assessment_id) (\<lambda>a.
     ebind (recover_rows cf (en_now en 2) a d) (\<lambda>(s, affected, go_on, d1).
     let r = \<lparr>rcv_id = en_uuid en 0, rcv_workflow_id = workflow_id, rcv_campaign_id = asm_campaign_id a,
           rcv_assessment_id = asm_id a, rcv_actor_id = actor_id, rcv_idempotency_key = strip idempotency_key,
           rcv_request_digest = request_digest, rcv_prior_status = asm_status a,
           rcv_outcome_status = evaluation_assessment_status_value s, rcv_decision = ''MARK_INTERRUPTED_FAILED'',
           rcv_rationale = strip rationale, rcv_affected_record_ids = sort affected, rcv_created_at = en_now en 3\<rparr>
     in
     ebind (insert_unique (\<lambda>r. (rcv_assessment_id r, rcv_prior_status r)) r (ev_recoveries d1)) (\<lambda>recoveries.
     Inr ((go_on, r),
       eval_audit cf workflow_id ''evaluation.assessment_recovered'' actor_id ''evaluation_assessment'' (asm_id a)
         (evaluation_assessment_status_value s)
         [(''recovery_id'', JStr (rcv_id r)), (''decision'', JStr (rcv_decision r)), (''prior_status'', JStr (asm_status a)),
          (''affected_record_ids'', j_strs (sort affected))]
         (d1\<lparr>ev_recoveries := recoveries\<rparr>))))))))"

definition with_recovery :: "config \<Rightarrow> evaluation_recovery \<Rightarrow> bool \<Rightarrow> dict \<Rightarrow> dict" where
  "with_recovery cf r replayed result =
     dict_set (dict_set result ''recovery'' (JObj (evaluation_recovery_dict cf r))) ''replayed'' (JBool replayed)"

definition recover_evaluation_assessment :: "config \<Rightarrow> assessment_callback \<Rightarrow> (ident \<Rightarrow> ident \<Rightarrow> ident \<Rightarrow> eval_db \<Rightarrow> error + dict) \<Rightarrow> env \<Rightarrow>
    ident \<Rightarrow> ident \<Rightarrow> ident \<Rightarrow> string \<Rightarrow> string \<Rightarrow> eval_db \<Rightarrow> (error + dict) \<times> eval_db" where
  "recover_evaluation_assessment cf resume_assessment read_assessment en workflow_id assessment_id actor_id idempotency_key rationale d =
     (if \<not> valid_key idempotency_key then (Inl (ValidationError ''evaluation recovery idempotency key is invalid''), d)
      else if \<not> valid_rationale rationale then (Inl (ValidationError ''evaluation recovery rationale is invalid''), d)
      else
      let request_digest = recovery_digest cf assessment_id rationale;
          go = (\<lambda>resume r replayed d.
            let (result, d') = (if resume then resume_assessment assessment_id actor_id d
                  else (read_assessment workflow_id assessment_id actor_id d, d))
            in (ebind result (\<lambda>x. Inr (with_recovery cf r replayed x)), d'))
      in
      (case authorize (ev_db d) (en_now en 0) actor_id CAP_RECOVER_EVALUATION None None True of
         Inl e \<Rightarrow> (Inl e, d)
       | Inr _ \<Rightarrow>
           (case find_by_key rcv_actor_id rcv_idempotency_key actor_id idempotency_key (ev_recoveries d) of
              Some existing \<Rightarrow>
                if rcv_request_digest existing \<noteq> request_digest \<or> rcv_workflow_id existing \<noteq> workflow_id
                then (Inl (ConflictError ''evaluation recovery idempotency key was reused''), d)
                else (case assessment_of d workflow_id assessment_id of
                    Inl e \<Rightarrow> (Inl e, d)
                  | Inr a \<Rightarrow> go (asm_status a \<in> {evaluation_assessment_status_value SS_CHECKS_READY,
                      evaluation_assessment_status_value SS_REVIEWS_READY}) existing True d)
            | None \<Rightarrow>
                (case commit_recovery cf en workflow_id assessment_id actor_id idempotency_key request_digest rationale d of
                   Inl e \<Rightarrow> (Inl e, d)
                 | Inr ((go_on, r), d1) \<Rightarrow> go go_on r False d1))))"

section \<open>Promotion\<close>

definition promotion_digest :: "config \<Rightarrow> ident \<Rightarrow> string \<Rightarrow> string" where
  "promotion_digest cf assessment_id rationale = digest (cf_sha256 cf) (JObj
     [(''assessment_id'', JStr assessment_id), (''rationale'', JStr (strip rationale))])"

definition promotable_assessment :: "eval_db \<Rightarrow> ident \<Rightarrow> ident \<Rightarrow> error + evaluation_assessment \<times> ident" where
  "promotable_assessment d workflow_id assessment_id = from_option (ConflictError ''evaluation assessment is not promotable'')
     (case row_get asm_id assessment_id (ev_assessments d) of
        None \<Rightarrow> None
      | Some a \<Rightarrow> if asm_workflow_id a = workflow_id \<and> asm_status a = evaluation_assessment_status_value SS_DECIDED
          then map_option (Pair a) (asm_batch_id a) else None)"

definition promotion_source :: "eval_db \<Rightarrow> evaluation_assessment \<Rightarrow> ident \<Rightarrow>
    error + evaluation_campaign \<times> evaluation_batch_row \<times> evaluation_execution" where
  "promotion_source d a batch_id = from_option (ConflictError ''evaluation promotion source disappeared'')
     (case (row_get camp_id (asm_campaign_id a) (ev_campaigns d), row_get bat_id batch_id (ev_batches d),
            row_get exe_id (asm_execution_id a) (ev_executions d)) of
        (Some c, Some b, Some x) \<Rightarrow> Some (c, b, x) | _ \<Rightarrow> None)"

definition winner_artifact :: "eval_db \<Rightarrow> ident \<Rightarrow> ident \<Rightarrow> evaluation_artifact_row option" where
  "winner_artifact d aid winner = List.find (\<lambda>t. art_assessment_id t = aid \<and> art_provider_run_id t = winner) (ev_artifacts d)"

definition promote_evaluation_winner :: "config \<Rightarrow> env \<Rightarrow> ident \<Rightarrow> ident \<Rightarrow> ident \<Rightarrow> string \<Rightarrow> string \<Rightarrow> eval_db \<Rightarrow>
    error + dict \<times> eval_db" where
  "promote_evaluation_winner cf en workflow_id assessment_id actor_id idempotency_key rationale d =
     (if \<not> valid_key idempotency_key then Inl (ValidationError ''evaluation promotion idempotency key is invalid'')
      else if \<not> valid_rationale rationale then Inl (ValidationError ''evaluation promotion rationale is invalid'')
      else
      let request_digest = promotion_digest cf assessment_id rationale in
      ebind (authorize (ev_db d) (en_now en 0) actor_id CAP_PROMOTE_EVALUATION None None True) (\<lambda>_.
      ebind (get_workflow (ev_db d) workflow_id) (\<lambda>w.
      (case find_by_key pro_actor_id pro_idempotency_key actor_id idempotency_key (ev_promotions d) of
         Some existing \<Rightarrow>
           if pro_request_digest existing \<noteq> request_digest \<or> pro_workflow_id existing \<noteq> workflow_id
           then Inl (ConflictError ''evaluation promotion idempotency key was reused'')
           else Inr (dict_set (evaluation_promotion_dict cf existing) ''replayed'' (JBool True), d)
       | None \<Rightarrow>
           ebind (require_active_evaluation_workflow w) (\<lambda>_.
           ebind (promotable_assessment d workflow_id assessment_id) (\<lambda>(a, batch_id).
           ebind (promotion_source d a batch_id) (\<lambda>(c, b, x).
           ebind (from_option (ConflictError ''evaluation campaign has no validated winner'')
             (if camp_status c = evaluation_status_value VS_WINNER_SELECTED \<and> bat_winner_candidate_id b = camp_winner_candidate_id c
              then camp_winner_candidate_id c else None)) (\<lambda>winner.
           if exe_workflow_version x \<noteq> wf_version w \<or> exe_candidate_revision x \<noteq> wf_candidate_revision w
           then Inl (ConflictError ''evaluation winner workflow snapshot is stale'')
           else
           ebind (from_option (ConflictError ''evaluation winner artifact is unavailable'') (winner_artifact d (asm_id a) winner)) (\<lambda>t.
           if art_workflow_version t \<noteq> wf_version w \<or> art_candidate_revision t \<noteq> wf_candidate_revision w
           then Inl (ConflictError ''evaluation winner artifact snapshot is stale'')
           else
           let p = \<lparr>pro_id = en_uuid en 0, pro_workflow_id = wf_id w, pro_campaign_id = camp_id c, pro_assessment_id = asm_id a,
                 pro_batch_id = bat_id b, pro_candidate_id = winner, pro_artifact_id = art_id t, pro_artifact_digest = art_digest t,
                 pro_workflow_version = wf_version w, pro_candidate_revision = wf_candidate_revision w, pro_actor_id = actor_id,
                 pro_idempotency_key = strip idempotency_key, pro_request_digest = request_digest,
                 pro_rationale = strip rationale, pro_created_at = en_now en 1\<rparr>
           in
           ebind (insert_unique pro_campaign_id p (ev_promotions d)) (\<lambda>promotions.
           Inr (dict_set (evaluation_promotion_dict cf p) ''replayed'' (JBool False),
             eval_audit cf (wf_id w) ''evaluation.winner_promoted'' actor_id ''evaluation_promotion'' (pro_id p) ''PROMOTED''
               [(''campaign_id'', JStr (camp_id c)), (''assessment_id'', JStr (asm_id a)), (''batch_id'', JStr (bat_id b)),
                (''candidate_id'', JStr winner), (''artifact_id'', JStr (art_id t)), (''artifact_digest'', JStr (art_digest t)),
                (''workflow_version'', JInt (wf_version w)), (''candidate_revision'', j_opt_str (wf_candidate_revision w)),
                (''grants_merge_or_deployment_authority'', JBool False)]
               (d\<lparr>ev_promotions := promotions\<rparr>))))))))))))"

end
