(* ===== verification/Evaluation_Validation.thy ===== *)
theory Evaluation_Validation
  imports Validation Python_Text
begin

text \<open>
  \<open>evaluation_validation.py\<close>: the trusted, deterministic validators the evaluation pipeline runs on the output
  of a provider.  A validator is a record of its name, its version and its \<open>validate\<close>, which may raise; the
  hash is a parameter.
\<close>

section \<open>Artifacts, outcomes and validators\<close>

record trusted_artifact =
  ta_artifact_id :: ident
  ta_output :: dict
  ta_output_digest :: string
  ta_task_kind :: task_kind
  ta_workflow_version :: int
  ta_candidate_revision :: "string option"

record validation_outcome =
  vo_passed :: bool
  vo_details :: dict

record evaluation_validator =
  vd_name :: string
  vd_version :: string
  vd_validate :: "trusted_artifact \<Rightarrow> error + validation_outcome"

section \<open>The schema\<close>

text \<open>\<open>except ValidationError\<close>, with its subclass.\<close>

definition is_validation_error :: "error \<Rightarrow> bool" where
  "is_validation_error e \<longleftrightarrow> (case e of ValidationError _ \<Rightarrow> True | ProviderReviewRejectedError _ _ \<Rightarrow> True | _ \<Rightarrow> False)"

definition schema_validate :: "(string \<Rightarrow> string) \<Rightarrow> trusted_artifact \<Rightarrow> error + validation_outcome" where
  "schema_validate sha a =
     (let canonical = dumps (JObj (ta_output a)) in
      if ''sha256:'' @ sha canonical \<noteq> ta_output_digest a
      then Inr \<lparr>vo_passed = False, vo_details = [(''reason'', JStr ''output_digest_mismatch'')]\<rparr>
      else (case validate_provider_result (ta_task_kind a)
              \<lparr>res_status = ''SUCCEEDED'', res_output = JObj (ta_output a), res_provider = ''trusted-validator'',
               res_model = ''deterministic'', res_usage = []\<rparr> of
          Inl e \<Rightarrow> if is_validation_error e
            then Inr \<lparr>vo_passed = False, vo_details = [(''reason'', JStr ''task_schema_invalid'')]\<rparr> else Inl e
        | Inr _ \<Rightarrow> Inr \<lparr>vo_passed = True, vo_details = [(''reason'', JStr ''task_schema_valid''),
            (''canonical_size_bytes'', JInt (int (length canonical)))]\<rparr>))"

definition SchemaValidator :: "(string \<Rightarrow> string) \<Rightarrow> evaluation_validator" where
  "SchemaValidator sha = \<lparr>vd_name = ''schema'', vd_version = ''evaluation-schema/v1'', vd_validate = schema_validate sha\<rparr>"

section \<open>The security boundary\<close>

text \<open>
  \<open>str.casefold\<close> for code points below 256: capitals, with their accented forms, become small and \<open>U+00DF\<close> becomes
  \<open>ss\<close>.  The micro sign, whose folding lies above 255, is kept: it occurs in no key that is looked for.
\<close>

definition casefold_char :: "char \<Rightarrow> string" where
  "casefold_char c = (let n = of_char c :: nat in
     if n = 223 then ''ss''
     else if 65 \<le> n \<and> n \<le> 90 \<or> 192 \<le> n \<and> n \<le> 222 \<and> n \<noteq> 215 then [char_of (n + 32)]
     else [c])"

definition casefold :: "string \<Rightarrow> string" where
  "casefold s = concat (map casefold_char s)"

text \<open>\<open>_keys\<close>, as a list\<close>

primrec observed_keys :: "json \<Rightarrow> string list" where
  "observed_keys JNull = []"
| "observed_keys (JBool b) = []"
| "observed_keys (JInt i) = []"
| "observed_keys (JFloat t) = []"
| "observed_keys (JStr s) = []"
| "observed_keys (JList xs) = concat (map observed_keys xs)"
| "observed_keys (JObj kvs) = concat (map (\<lambda>kv. casefold (fst kv) # snd kv) (map (map_prod id observed_keys) kvs))"

definition forbidden_keys :: "string list" where
  "forbidden_keys = [''api_key'', ''authorization'', ''credential'', ''credentials'', ''password'', ''private_key'', ''secret'', ''token'']"

definition authority_keys :: "string list" where
  "authority_keys = [''approval_granted'', ''deploy_authorized'', ''merge_authorized'', ''publication_authorized'']"

definition boundary_validate :: "trusted_artifact \<Rightarrow> error + validation_outcome" where
  "boundary_validate a =
     (let observed = observed_keys (JObj (ta_output a));
          forbidden = sort (filter (\<lambda>k. k \<in> set observed) forbidden_keys);
          authority = sort (filter (\<lambda>k. k \<in> set observed) authority_keys);
          passed = (forbidden = [] \<and> authority = [])
      in Inr \<lparr>vo_passed = passed, vo_details =
        [(''reason'', JStr (if passed then ''boundary_clean'' else ''forbidden_output_fields'')),
         (''forbidden_fields'', j_strs forbidden), (''authority_fields'', j_strs authority)]\<rparr>)"

definition SecurityBoundaryValidator :: evaluation_validator where
  "SecurityBoundaryValidator =
     \<lparr>vd_name = ''security'', vd_version = ''evaluation-security-boundary/v1'', vd_validate = boundary_validate\<rparr>"

section \<open>The revision\<close>

definition revision_validate :: "trusted_artifact \<Rightarrow> error + validation_outcome" where
  "revision_validate a =
     (let passed = (0 < ta_workflow_version a \<and> (case ta_candidate_revision a of None \<Rightarrow> True
            | Some r \<Rightarrow> strip r \<noteq> [] \<and> length r \<le> 128))
      in Inr \<lparr>vo_passed = passed, vo_details =
        [(''reason'', JStr (if passed then ''snapshot_bound'' else ''snapshot_binding_invalid'')),
         (''workflow_version'', JInt (ta_workflow_version a)),
         (''candidate_revision_present'', JBool (ta_candidate_revision a \<noteq> None))]\<rparr>)"

definition RevisionBindingValidator :: evaluation_validator where
  "RevisionBindingValidator =
     \<lparr>vd_name = ''revision_binding'', vd_version = ''evaluation-revision-binding/v1'', vd_validate = revision_validate\<rparr>"

definition default_evaluation_validators :: "(string \<Rightarrow> string) \<Rightarrow> evaluation_validator list" where
  "default_evaluation_validators sha = [SchemaValidator sha, SecurityBoundaryValidator, RevisionBindingValidator]"

section \<open>What the boundary check guarantees\<close>

text \<open>A JSON value has a key if one of its objects, at any depth, has it.\<close>

inductive has_key :: "string \<Rightarrow> json \<Rightarrow> bool" where
  here: "(k, v) \<in> set kvs \<Longrightarrow> has_key k (JObj kvs)"
| below: "(k', v) \<in> set kvs \<Longrightarrow> has_key k v \<Longrightarrow> has_key k (JObj kvs)"
| inside: "v \<in> set vs \<Longrightarrow> has_key k v \<Longrightarrow> has_key k (JList vs)"

inductive_simps has_key_simps [simp]:
  "has_key k JNull" "has_key k (JBool b)" "has_key k (JInt i)" "has_key k (JFloat t)" "has_key k (JStr s)"
  "has_key k (JList vs)" "has_key k (JObj kvs)"

lemma observed_keys_iff: "x \<in> set (observed_keys j) \<longleftrightarrow> (\<exists>k. has_key k j \<and> casefold k = x)"
proof (induction j)
  case (JList vs)
  then show ?case by auto
next
  case (JObj kvs)
  have IH: "x \<in> set (observed_keys v) \<longleftrightarrow> (\<exists>k. has_key k v \<and> casefold k = x)" if "(k, v) \<in> set kvs" for k v
    using JObj [of "(k, v)" v] that by simp
  show ?case using IH by (auto simp: image_iff) (metis fst_conv snd_conv)+
qed simp_all

lemma boundary_passed_iff:
  "boundary_validate a = Inr r \<Longrightarrow> vo_passed r \<longleftrightarrow>
     (\<forall>k. has_key k (JObj (ta_output a)) \<longrightarrow> casefold k \<notin> set forbidden_keys \<union> set authority_keys)"
proof -
  assume r: "boundary_validate a = Inr r"
  have e: "sort xs = [] \<longleftrightarrow> xs = []" for xs :: "string list" by (metis length_0_conv length_sort)
  have "vo_passed r \<longleftrightarrow> (\<forall>x\<in>set forbidden_keys \<union> set authority_keys. x \<notin> set (observed_keys (JObj (ta_output a))))"
    using r by (auto simp: boundary_validate_def Let_def e filter_empty_conv simp del: observed_keys.simps)
  then show ?thesis unfolding observed_keys_iff by blast
qed

end
