(* ===== verification/Evaluation_Execution.thy ===== *)
theory Evaluation_Execution
  imports Evaluation_Lifecycle Evaluation_Validation
begin

text \<open>
  \<open>evaluation_pipeline.py\<close>, the first half: planning and committing an execution, calling the providers, recording
  what they returned, and reconciling the calls whose outcome is unknown.

  A handler that calls providers is a sequence of transactions with the calls between them.  Each transaction is
  a definition of its own; the handler at the end composes them with \<open>commit\<close>, so that what an earlier
  transaction wrote stays when a later one raises.  The providers are a parameter: what \<open>submit\<close> returns
  or raises, the name a provider reports, and the milliseconds a call took.  The futures of the thread pool finish in any
  order; the handler takes them in the order of the plan, and the rows a completion writes do not overlap.
\<close>

section \<open>Data\<close>

record prepared_evaluation_run =
  pe_run_id :: ident
  pe_execution_id :: ident
  pe_profile :: provider_profile
  pe_request :: provider_request

record evaluation_run_outcome =
  uo_run_id :: ident
  uo_status :: string
  uo_output :: dict
  uo_output_digest :: "string option"
  uo_usage :: dict
  uo_latency_ms :: int
  uo_error_code :: "string option"

record provider_calls =
  pv_submit :: "string \<Rightarrow> provider_request \<Rightarrow> error + provider_result"
  pv_name :: "string \<Rightarrow> string"
  pv_latency :: "ident \<Rightarrow> int"

section \<open>The plan\<close>

definition execution_request_digest :: "config \<Rightarrow> ident \<Rightarrow> ident \<Rightarrow> prompt_variant list \<Rightarrow> ident option \<Rightarrow> string" where
  "execution_request_digest cf campaign_id task_id variants repair_id = digest (cf_sha256 cf) (JObj
     [(''campaign_id'', JStr campaign_id), (''task_id'', JStr task_id),
      (''prompt_variants'', JList (map prompt_variant_dict variants)), (''repair_id'', j_opt_str repair_id)])"

definition evaluation_task :: "eval_db \<Rightarrow> ident \<Rightarrow> ident \<Rightarrow> error + task" where
  "evaluation_task d wid tid = (case row_get tk_id tid (tasks (ev_db d)) of
     Some t \<Rightarrow> if tk_workflow_id t = wid then Inr t else Inl (NotFoundError ''evaluation task was not found'')
   | None \<Rightarrow> Inl (NotFoundError ''evaluation task was not found''))"

definition check_execution_repair :: "evaluation_campaign \<Rightarrow> workflow \<Rightarrow> prompt_variant list \<Rightarrow> ident option \<Rightarrow> eval_db \<Rightarrow>
    error + ident option" where
  "check_execution_repair c w variants repair_id d =
     (if camp_current_iteration c = 1
      then (case repair_id of None \<Rightarrow> Inr None
            | Some _ \<Rightarrow> Inl (ValidationError ''initial evaluation execution cannot use a repair plan''))
      else (case repair_id of
          None \<Rightarrow> Inl (ConflictError ''refinement execution requires a committed repair plan'')
        | Some i \<Rightarrow>
            ebind (from_option (ConflictError ''evaluation repair plan does not match this iteration'')
              (case row_get rep_id i (ev_repairs d) of None \<Rightarrow> None
               | Some r \<Rightarrow> if rep_campaign_id r = camp_id c \<and> rep_target_iteration r = camp_current_iteration c then Some r else None)) (\<lambda>r.
            if rep_workflow_version r \<noteq> wf_version w \<or> rep_candidate_revision r \<noteq> wf_candidate_revision w
            then Inl (ConflictError ''evaluation repair plan workflow snapshot is stale'')
            else if rep_prompt_variants r \<noteq> variants
            then Inl (ConflictError ''evaluation prompt variants do not match the repair plan'')
            else Inr (Some (rep_id r)))))"

text \<open>Why a ranked provider may not run at no cost: it is metered, or its subscription covers fewer calls.\<close>

definition cost_rejection :: "nat \<Rightarrow> provider_profile \<Rightarrow> string list" where
  "cost_rejection n p =
     (if pp_egress_boundary p \<noteq> EB_LOCAL \<and>
         (pp_funding_mode p \<noteq> FM_SUBSCRIPTION \<or> pp_max_invocations_per_execution p < int n)
      then [if pp_funding_mode p = FM_SUBSCRIPTION then ''subscription_invocation_ceiling_exceeded''
            else ''zero_cost_execution_prohibits_metered_provider'']
      else [])"

definition zero_cost_rejections :: "provider_profile list \<Rightarrow> nat \<Rightarrow> routing_decision \<Rightarrow> (string \<times> string list) list" where
  "zero_cost_rejections profiles n routing = List.map_filter (\<lambda>r.
     case find_profile (Some (rc_provider_id r)) profiles of None \<Rightarrow> None
     | Some p \<Rightarrow> if cost_rejection n p = [] then None else Some (rc_provider_id r, cost_rejection n p)) (rd_ranked_candidates routing)"

definition selected_candidates :: "evaluation_campaign \<Rightarrow> provider_profile list \<Rightarrow> nat \<Rightarrow> routing_decision \<Rightarrow> ranked_candidate list" where
  "selected_candidates c profiles n routing = take (nat (camp_max_candidates c))
     (filter (\<lambda>r. rc_provider_id r \<notin> set (map fst (zero_cost_rejections profiles n routing))) (rd_ranked_candidates routing))"

fun funding_mode_value :: "funding_mode \<Rightarrow> string" where
  "funding_mode_value FM_LOCAL = ''LOCAL''"
| "funding_mode_value FM_SUBSCRIPTION = ''SUBSCRIPTION''"
| "funding_mode_value FM_METERED = ''METERED''"

definition selected_entry :: "(rat \<Rightarrow> string) \<Rightarrow> provider_profile list \<Rightarrow> ranked_candidate \<Rightarrow> dict" where
  "selected_entry fl profiles r = ranked_candidate_dict fl r @ (case find_profile (Some (rc_provider_id r)) profiles of
     None \<Rightarrow> []
   | Some p \<Rightarrow> [(''funding_mode'', JStr (funding_mode_value (pp_funding_mode p))),
       (''max_invocations_per_execution'', JInt (pp_max_invocations_per_execution p))])"

definition execution_routing_snapshot :: "config \<Rightarrow> (rat \<Rightarrow> string) \<Rightarrow> provider_profile list \<Rightarrow> nat \<Rightarrow> ranked_candidate list \<Rightarrow>
    routing_decision \<Rightarrow> dict" where
  "execution_routing_snapshot cf fl profiles n selected routing =
     [(''policy_version'', JStr (rd_policy_version routing)),
      (''provider_policy_version'', JStr (cf_provider_policy_version cf)),
      (''objective'', JStr (routing_objective_value (rd_objective routing))),
      (''objective_profile_version'', JStr (rd_objective_profile_version routing)),
      (''selected'', JList (map (JObj \<circ> selected_entry fl profiles) selected)),
      (''rejected'', JObj (dict_union (map (\<lambda>(i, rs). (i, j_strs rs)) (rd_rejected routing))
         (map (\<lambda>(i, rs). (i, j_strs rs)) (zero_cost_rejections profiles n routing))))]"

definition new_execution :: "env \<Rightarrow> evaluation_campaign \<Rightarrow> workflow \<Rightarrow> task \<Rightarrow> ident \<Rightarrow> string \<Rightarrow> string \<Rightarrow> ident option \<Rightarrow>
    prompt_variant list \<Rightarrow> dict \<Rightarrow> evaluation_execution" where
  "new_execution en c w t actor_id key request_digest repair variants snapshot =
     \<lparr>exe_id = en_uuid en 0, exe_campaign_id = camp_id c, exe_workflow_id = wf_id w, exe_task_id = tk_id t, exe_actor_id = actor_id,
      exe_idempotency_key = strip key, exe_request_digest = request_digest, exe_repair_id = repair,
      exe_iteration = camp_current_iteration c, exe_workflow_version = wf_version w,
      exe_candidate_revision = wf_candidate_revision w, exe_prompt_variants = variants, exe_routing_snapshot = snapshot,
      exe_status = evaluation_execution_status_value XS_PREPARED, exe_error_code = None, exe_created_at = en_now en 1,
      exe_completed_at = None\<rparr>"

definition evaluation_context :: "evaluation_campaign \<Rightarrow> workflow \<Rightarrow> prompt_variant \<Rightarrow> dict" where
  "evaluation_context c w v =
     [(''workflow_title'', JStr (wf_title w)), (''workflow_description'', JStr (wf_description w)),
      (''candidate_revision'', j_opt_str (wf_candidate_revision w)), (''workflow_version'', JInt (wf_version w)),
      (''content_trust'', JStr ''UNTRUSTED_REPOSITORY_CONTEXT''),
      (''data_classification'', JStr (data_classification_name (wf_data_classification w))),
      (''repository_scope'', j_opt_str (wf_repository_scope w)), (''evaluation_campaign_id'', JStr (camp_id c)),
      (''evaluation_iteration'', JInt (camp_current_iteration c)),
      (''prompt_contract_version'', JStr (camp_prompt_contract_version c)),
      (''prompt_variant_id'', JStr (pt_variant_id v)), (''prompt_variant_instruction'', JStr (pt_instruction v))]"

definition run_request_digest_of :: "config \<Rightarrow> evaluation_campaign \<Rightarrow> workflow \<Rightarrow> task \<Rightarrow> provider_profile \<Rightarrow> prompt_variant \<Rightarrow> string" where
  "run_request_digest_of cf c w t p v = digest (cf_sha256 cf) (JObj
     [(''workflow_id'', JStr (wf_id w)), (''task_id'', JStr (tk_id t)), (''task_kind'', JStr (task_kind_value (tk_kind t))),
      (''role'', JStr (agent_role_value (TASK_ROLE (tk_kind t)))), (''objective'', JStr (tk_objective t)),
      (''context'', JObj (evaluation_context c w v)), (''provider_id'', JStr (pp_provider_id p)),
      (''model_version'', JStr (pp_model_version p))])"

definition new_provider_run :: "config \<Rightarrow> ident \<Rightarrow> ident \<Rightarrow> evaluation_campaign \<Rightarrow> workflow \<Rightarrow> task \<Rightarrow> provider_profile \<Rightarrow> prompt_variant \<Rightarrow>
    evaluation_provider_run" where
  "new_provider_run cf rid xid c w t p v =
     \<lparr>run_id = rid, run_execution_id = xid, run_campaign_id = camp_id c, run_provider_id = pp_provider_id p,
      run_provider_family = pp_provider_family p, run_model_version = pp_model_version p, run_profile_version = pp_profile_version p,
      run_prompt_variant_id = pt_variant_id v, run_prompt_contract_version = camp_prompt_contract_version c,
      run_request_digest = run_request_digest_of cf c w t p v, run_status = evaluation_execution_status_value XS_PREPARED,
      run_output_digest = None, run_output_json = [], run_usage_json = [], run_latency_ms = None, run_error_code = None,
      run_started_at = None, run_completed_at = None\<rparr>"

definition new_prepared_run :: "ident \<Rightarrow> ident \<Rightarrow> evaluation_campaign \<Rightarrow> workflow \<Rightarrow> task \<Rightarrow> provider_profile \<Rightarrow> prompt_variant \<Rightarrow>
    prepared_evaluation_run" where
  "new_prepared_run rid xid c w t p v =
     \<lparr>pe_run_id = rid, pe_execution_id = xid, pe_profile = p,
      pe_request = \<lparr>pr_run_id = rid, pr_workflow_id = wf_id w, pr_task_id = tk_id t, pr_task_kind = tk_kind t,
        pr_role = TASK_ROLE (tk_kind t), pr_objective = tk_objective t, pr_context = evaluation_context c w v,
        pr_required_capability = TASK_CAPABILITY (tk_kind t), pr_idempotency_key = rid\<rparr>\<rparr>"

text \<open>What the plan leaves for the calls: the execution, the snapshot it was made on, and the runs.\<close>

record prepared_evaluation =
  pn_execution_id :: ident
  pn_workflow_version :: int
  pn_candidate_revision :: "string option"
  pn_runs :: "prepared_evaluation_run list"

text \<open>
  The transaction that commits the plan.  It looks for the key again: another process may have used it since the
  handler looked; then the result is the dictionary of the execution on record.
\<close>

definition commit_evaluation_plan :: "config \<Rightarrow> (rat \<Rightarrow> string) \<Rightarrow> env \<Rightarrow> ident \<Rightarrow> ident \<Rightarrow> ident \<Rightarrow> ident \<Rightarrow> string \<Rightarrow>
    prompt_variant list \<Rightarrow> ident option \<Rightarrow> eval_db \<Rightarrow> error + (dict + prepared_evaluation) \<times> eval_db" where
  "commit_evaluation_plan cf fl en workflow_id campaign_id task_id actor_id idempotency_key prompt_variants repair_id d =
     (let variants = sort_key pt_variant_id prompt_variants; n = length prompt_variants in
      ebind (authorize (ev_db d) (en_now en 0) actor_id CAP_EXECUTE_EVALUATION None None True) (\<lambda>_.
      ebind (get_workflow (ev_db d) workflow_id) (\<lambda>w.
      ebind (require_active_evaluation_workflow w) (\<lambda>_.
      ebind (campaign_of d workflow_id campaign_id) (\<lambda>c.
      ebind (evaluation_task d workflow_id task_id) (\<lambda>t.
      if tk_work_capability t \<noteq> camp_work_capability c
      then Inl (ConflictError ''evaluation task capability does not match the campaign'')
      else case find_by_key exe_actor_id exe_idempotency_key actor_id idempotency_key (ev_executions d) of
        Some x \<Rightarrow>
          if exe_request_digest x \<noteq> execution_request_digest cf campaign_id task_id variants repair_id
          then Inl (ConflictError ''evaluation execution idempotency key was reused'')
          else Inr (Inl (dict_set (evaluation_execution_dict cf d x) ''replayed'' (JBool True)), d)
      | None \<Rightarrow>
      if camp_status c \<notin> {''OPEN'', evaluation_status_value VS_REFINEMENT_REQUIRED}
      then Inl (ConflictError ''evaluation campaign is terminal'')
      else if camp_max_prompt_variants c < int n
      then Inl (ValidationError ''evaluation execution exceeds the prompt-variant ceiling'')
      else if camp_max_total_cost_microunits c \<noteq> 0
      then Inl (ConflictError ''priced evaluation execution requires a configured cost estimator'')
      else
      ebind (check_execution_repair c w variants repair_id d) (\<lambda>repair.
      if list_ex (\<lambda>x. exe_campaign_id x = camp_id c \<and> exe_iteration x = camp_current_iteration c) (ev_executions d)
      then Inl (ConflictError ''evaluation execution already exists for campaign iteration'')
      else
      let profiles = evaluation_profiles cf en (ev_db d) in
      ebind (route (campaign_routing_request cf c w) profiles) (\<lambda>routing.
      let selected = selected_candidates c profiles n routing in
      if selected = [] then Inl (ConflictError ''no policy-eligible providers are available for evaluation'')
      else
      let x = new_execution en c w t actor_id idempotency_key
            (execution_request_digest cf campaign_id task_id variants repair_id) repair variants
            (execution_routing_snapshot cf fl profiles n selected routing);
          plan = enumerate 1 (List.product
            (List.map_filter (\<lambda>r. find_profile (Some (rc_provider_id r)) profiles) selected) prompt_variants);
          runs = map (\<lambda>(i, p, v). new_provider_run cf (en_uuid en i) (exe_id x) c w t p v) plan;
          prepared = map (\<lambda>(i, p, v). new_prepared_run (en_uuid en i) (exe_id x) c w t p v) plan
      in
      ebind (insert_all (\<lambda>r. (run_execution_id r, run_provider_id r, run_prompt_variant_id r)) runs (ev_runs d)) (\<lambda>rows.
      Inr (Inr \<lparr>pn_execution_id = exe_id x, pn_workflow_version = wf_version w, pn_candidate_revision = wf_candidate_revision w,
            pn_runs = prepared\<rparr>,
        eval_audit cf (wf_id w) ''evaluation.execution_prepared'' actor_id ''evaluation_execution'' (exe_id x) ''SUCCEEDED''
          [(''campaign_id'', JStr (camp_id c)), (''iteration'', JInt (camp_current_iteration c)),
           (''provider_ids'', j_strs (map rc_provider_id selected)),
           (''prompt_variant_ids'', j_strs (sort (map pt_variant_id prompt_variants))),
           (''run_count'', JInt (int (length prepared))), (''routing_policy_version'', JStr (rd_policy_version routing)),
           (''repair_id'', j_opt_str repair)]
          (d\<lparr>ev_executions := row_add x (ev_executions d), ev_runs := rows\<rparr>)))))))))))"

section \<open>Starting the calls\<close>

definition upd_execution :: "ident \<Rightarrow> (evaluation_execution \<Rightarrow> evaluation_execution) \<Rightarrow> eval_db \<Rightarrow> eval_db" where
  "upd_execution xid f d = d\<lparr>ev_executions := row_upd exe_id xid f (ev_executions d)\<rparr>"

definition upd_runs :: "(evaluation_provider_run \<Rightarrow> bool) \<Rightarrow> (evaluation_provider_run \<Rightarrow> evaluation_provider_run) \<Rightarrow> eval_db \<Rightarrow> eval_db" where
  "upd_runs P f d = d\<lparr>ev_runs := map (\<lambda>r. if P r then f r else r) (ev_runs d)\<rparr>"

text \<open>
  A workflow that moved since the plan fails the execution and all its runs; the first component of the result is the
  dictionary returned in that case.
\<close>

definition start_evaluation_execution :: "config \<Rightarrow> env \<Rightarrow> ident \<Rightarrow> ident \<Rightarrow> prepared_evaluation \<Rightarrow> eval_db \<Rightarrow>
    error + dict option \<times> eval_db" where
  "start_evaluation_execution cf en workflow_id campaign_id pn d =
     (let xid = pn_execution_id pn; mine = (\<lambda>r. run_execution_id r = xid) in
      ebind (get_workflow (ev_db d) workflow_id) (\<lambda>w.
      ebind (from_option (ConflictError ''prepared evaluation execution disappeared'') (row_get exe_id xid (ev_executions d))) (\<lambda>x.
      if wf_version w \<noteq> pn_workflow_version pn \<or> wf_candidate_revision w \<noteq> pn_candidate_revision pn
      then
        let now = en_now en 0;
            d1 = eval_audit cf workflow_id ''evaluation.execution_completed'' ''orchestrator'' ''evaluation_execution'' xid
              (evaluation_execution_status_value XS_FAILED)
              [(''campaign_id'', JStr campaign_id), (''run_count'', JInt (int (length (filter mine (ev_runs d))))),
               (''error_code'', JStr ''StaleWorkflowSnapshot'')]
              (upd_runs mine (\<lambda>r. r\<lparr>run_status := evaluation_execution_status_value XS_FAILED,
                 run_error_code := Some ''StaleWorkflowSnapshot'', run_completed_at := Some now\<rparr>)
               (upd_execution xid (\<lambda>x. x\<lparr>exe_status := evaluation_execution_status_value XS_FAILED,
                 exe_error_code := Some ''StaleWorkflowSnapshot'', exe_completed_at := Some now\<rparr>) d));
            x' = x\<lparr>exe_status := evaluation_execution_status_value XS_FAILED, exe_error_code := Some ''StaleWorkflowSnapshot'',
                 exe_completed_at := Some now\<rparr>
        in Inr (Some (dict_set (evaluation_execution_dict cf d1 x') ''replayed'' (JBool False)), d1)
      else Inr (None,
        upd_runs mine (\<lambda>r. r\<lparr>run_status := evaluation_execution_status_value XS_RUNNING, run_started_at := Some (en_now en 0)\<rparr>)
          (upd_execution xid (\<lambda>x. x\<lparr>exe_status := evaluation_execution_status_value XS_RUNNING\<rparr>) d)))))"

section \<open>The calls\<close>

definition empty_outcome :: "ident \<Rightarrow> evaluation_execution_status \<Rightarrow> int \<Rightarrow> string \<Rightarrow> evaluation_run_outcome" where
  "empty_outcome rid s latency code = \<lparr>uo_run_id = rid, uo_status = evaluation_execution_status_value s, uo_output = [],
     uo_output_digest = None, uo_usage = [], uo_latency_ms = max latency 0, uo_error_code = Some code\<rparr>"

definition succeeded_outcome :: "config \<Rightarrow> ident \<Rightarrow> int \<Rightarrow> provider_result \<Rightarrow> dict \<Rightarrow> evaluation_run_outcome" where
  "succeeded_outcome cf rid latency result out = \<lparr>uo_run_id = rid, uo_status = ''SUCCEEDED'', uo_output = out,
     uo_output_digest = Some (''sha256:'' @ cf_sha256 cf (dumps (JObj out))),
     uo_usage = map (map_prod id JInt) (res_usage result), uo_latency_ms = max latency 0, uo_error_code = None\<rparr>"

text \<open>\<open>_execute_evaluation_provider_run\<close>: a call that raises has an unknown outcome, a result that is not acceptable fails.\<close>

definition execute_evaluation_provider_run :: "config \<Rightarrow> provider_calls \<Rightarrow> prepared_evaluation_run \<Rightarrow> evaluation_run_outcome" where
  "execute_evaluation_provider_run cf pv p =
     (let pid = pp_provider_id (pe_profile p); latency = pv_latency pv (pe_run_id p);
          invalid = empty_outcome (pe_run_id p) XS_FAILED latency ''InvalidProviderResult''
      in case pv_submit pv pid (pe_request p) of
           Inl e \<Rightarrow> empty_outcome (pe_run_id p) XS_UNKNOWN latency (take 64 (error_name e))
         | Inr result \<Rightarrow>
             if res_status result \<noteq> ''SUCCEEDED'' \<or> res_provider result \<noteq> pv_name pv pid \<or>
                res_model result \<noteq> pp_model_version (pe_profile p) \<or>
                \<not> is_ok (validate_provider_result (pr_task_kind (pe_request p)) result) \<or>
                list_ex (\<lambda>(k, n). n < 0) (res_usage result) \<or>
                1048576 < int (length (dumps (res_output result)))
             then invalid
             else (case res_output result of
                 JObj out \<Rightarrow> succeeded_outcome cf (pe_run_id p) latency result out
               | _ \<Rightarrow> invalid))"

section \<open>Recording the outcomes\<close>

fun settle_runs :: "instant \<Rightarrow> ident \<Rightarrow> evaluation_run_outcome list \<Rightarrow> evaluation_provider_run list \<Rightarrow>
    error + evaluation_provider_run list" where
  "settle_runs now xid [] rows = Inr rows"
| "settle_runs now xid (u # us) rows =
     (case row_get run_id (uo_run_id u) rows of
        None \<Rightarrow> Inl (ConflictError ''evaluation provider run disappeared'')
      | Some r \<Rightarrow>
          if run_execution_id r \<noteq> xid then Inl (ConflictError ''evaluation provider run disappeared'')
          else settle_runs now xid us (row_upd run_id (uo_run_id u) (\<lambda>r. r\<lparr>run_status := uo_status u, run_output_json := uo_output u,
            run_output_digest := uo_output_digest u, run_usage_json := uo_usage u, run_latency_ms := Some (uo_latency_ms u),
            run_error_code := uo_error_code u, run_completed_at := Some now\<rparr>) rows))"

definition success_count :: "evaluation_run_outcome list \<Rightarrow> nat" where
  "success_count us = length (filter (\<lambda>u. uo_status u = ''SUCCEEDED'') us)"

definition final_execution_status :: "evaluation_run_outcome list \<Rightarrow> evaluation_execution_status" where
  "final_execution_status us =
     (if list_ex (\<lambda>u. uo_status u = evaluation_execution_status_value XS_UNKNOWN) us then XS_UNKNOWN
      else if success_count us = length us then XS_OUTPUTS_READY
      else if success_count us \<noteq> 0 then XS_PARTIAL
      else XS_FAILED)"

definition finish_evaluation_execution :: "config \<Rightarrow> env \<Rightarrow> ident \<Rightarrow> ident \<Rightarrow> ident \<Rightarrow> evaluation_run_outcome list \<Rightarrow> eval_db \<Rightarrow>
    error + dict \<times> eval_db" where
  "finish_evaluation_execution cf en workflow_id campaign_id xid outcomes d =
     (case row_get exe_id xid (ev_executions d) of
        None \<Rightarrow> Inl (ConflictError ''evaluation execution state changed during provider calls'')
      | Some x \<Rightarrow>
          if exe_status x \<noteq> evaluation_execution_status_value XS_RUNNING
          then Inl (ConflictError ''evaluation execution state changed during provider calls'')
          else
          ebind (settle_runs (en_now en 0) xid outcomes (ev_runs d)) (\<lambda>rows.
          let s = final_execution_status outcomes;
              f = (\<lambda>x. x\<lparr>exe_status := evaluation_execution_status_value s, exe_completed_at := Some (en_now en 1)\<rparr>);
              d1 = eval_audit cf workflow_id ''evaluation.execution_completed'' ''orchestrator'' ''evaluation_execution'' xid
                (evaluation_execution_status_value s)
                [(''campaign_id'', JStr campaign_id), (''run_count'', JInt (int (length outcomes))),
                 (''succeeded'', JInt (int (success_count outcomes))),
                 (''failed'', JInt (int (length outcomes - success_count outcomes))),
                 (''requires_reconciliation'', JBool (s = XS_UNKNOWN))]
                (upd_execution xid f (d\<lparr>ev_runs := rows\<rparr>))
          in Inr (dict_set (evaluation_execution_dict cf d1 (f x)) ''replayed'' (JBool False), d1)))"

section \<open>The handler\<close>

definition execute_evaluation_campaign :: "config \<Rightarrow> (rat \<Rightarrow> string) \<Rightarrow> provider_calls \<Rightarrow> (nat \<Rightarrow> env) \<Rightarrow> ident \<Rightarrow> ident \<Rightarrow> ident \<Rightarrow> ident \<Rightarrow>
    string \<Rightarrow> prompt_variant list \<Rightarrow> ident option \<Rightarrow> eval_db \<Rightarrow> (error + dict) \<times> eval_db" where
  "execute_evaluation_campaign cf fl pv en workflow_id campaign_id task_id actor_id idempotency_key prompt_variants repair_id d =
     (if \<not> valid_key idempotency_key then (Inl (ValidationError ''evaluation execution idempotency key is invalid''), d)
      else if prompt_variants = [] then (Inl (ValidationError ''evaluation execution requires prompt variants''), d)
      else if \<not> distinct (map pt_variant_id prompt_variants)
      then (Inl (ValidationError ''evaluation prompt variant IDs must be unique''), d)
      else case authorize (ev_db d) (en_now (en 0) 0) actor_id CAP_EXECUTE_EVALUATION None None True of
        Inl e \<Rightarrow> (Inl e, d)
      | Inr _ \<Rightarrow>
          (case find_by_key exe_actor_id exe_idempotency_key actor_id idempotency_key (ev_executions d) of
             Some x \<Rightarrow>
               if exe_request_digest x \<noteq> execution_request_digest cf campaign_id task_id (sort_key pt_variant_id prompt_variants) repair_id \<or>
                  exe_workflow_id x \<noteq> workflow_id
               then (Inl (ConflictError ''evaluation execution idempotency key was reused''), d)
               else (Inr (dict_set (evaluation_execution_dict cf d x) ''replayed'' (JBool True)), d)
           | None \<Rightarrow>
               (case commit d (commit_evaluation_plan cf fl (en 1) workflow_id campaign_id task_id actor_id idempotency_key
                    prompt_variants repair_id d) of
                  (Inl e, d1) \<Rightarrow> (Inl e, d1)
                | (Inr (Inl replay), d1) \<Rightarrow> (Inr replay, d1)
                | (Inr (Inr pn), d1) \<Rightarrow>
                    (case commit d1 (start_evaluation_execution cf (en 2) workflow_id campaign_id pn d1) of
                       (Inl e, d2) \<Rightarrow> (Inl e, d2)
                     | (Inr (Some stale), d2) \<Rightarrow> (Inr stale, d2)
                     | (Inr None, d2) \<Rightarrow> commit d2 (finish_evaluation_execution cf (en 3) workflow_id campaign_id (pn_execution_id pn)
                         (map (execute_evaluation_provider_run cf pv) (pn_runs pn)) d2)))))"

definition get_evaluation_execution :: "config \<Rightarrow> env \<Rightarrow> ident \<Rightarrow> ident \<Rightarrow> ident \<Rightarrow> eval_db \<Rightarrow> error + dict" where
  "get_evaluation_execution cf en workflow_id execution_id principal_id d =
     ebind (authorize (ev_db d) (en_now en 0) principal_id CAP_READ_EVALUATION None None False) (\<lambda>_.
     ebind (get_workflow (ev_db d) workflow_id) (\<lambda>_.
     ebind (execution_of d workflow_id execution_id) (\<lambda>x. Inr (evaluation_execution_dict cf d x))))"

section \<open>Reconciliation\<close>

definition reconciliation_digest :: "config \<Rightarrow> string \<Rightarrow> ident \<Rightarrow> string \<Rightarrow> string" where
  "reconciliation_digest cf target_type target_id rationale = digest (cf_sha256 cf) (JObj
     [(''target_type'', JStr target_type), (''target_id'', JStr target_id), (''decision'', JStr ''MARK_FAILED''),
      (''rationale'', JStr (strip rationale))])"

definition new_reconciliation :: "env \<Rightarrow> ident \<Rightarrow> ident \<Rightarrow> ident \<Rightarrow> string \<Rightarrow> string \<Rightarrow> string \<Rightarrow> ident \<Rightarrow> string \<Rightarrow> ident list \<Rightarrow>
    evaluation_reconciliation" where
  "new_reconciliation en workflow_id campaign_id actor_id key request_digest target_type target_id rationale affected =
     \<lparr>rcn_id = en_uuid en 0, rcn_workflow_id = workflow_id, rcn_campaign_id = campaign_id, rcn_actor_id = actor_id,
      rcn_idempotency_key = strip key, rcn_request_digest = request_digest, rcn_target_type = target_type, rcn_target_id = target_id,
      rcn_decision = ''MARK_FAILED'', rcn_rationale = strip rationale, rcn_affected_run_ids = affected, rcn_created_at = en_now en 9\<rparr>"

definition reconcile_evaluation_execution :: "config \<Rightarrow> env \<Rightarrow> ident \<Rightarrow> ident \<Rightarrow> ident \<Rightarrow> string \<Rightarrow> string \<Rightarrow> eval_db \<Rightarrow>
    error + dict \<times> eval_db" where
  "reconcile_evaluation_execution cf en workflow_id execution_id actor_id idempotency_key rationale d =
     (if \<not> valid_key idempotency_key then Inl (ValidationError ''evaluation reconciliation idempotency key is invalid'')
      else if \<not> valid_rationale rationale then Inl (ValidationError ''evaluation reconciliation rationale is invalid'')
      else
      let request_digest = reconciliation_digest cf ''PROVIDER_EXECUTION'' execution_id rationale in
      ebind (authorize (ev_db d) (en_now en 0) actor_id CAP_RECONCILE_EVALUATION None None True) (\<lambda>_.
      ebind (get_workflow (ev_db d) workflow_id) (\<lambda>w.
      (case find_by_key rcn_actor_id rcn_idempotency_key actor_id idempotency_key (ev_reconciliations d) of
         Some existing \<Rightarrow>
           if rcn_request_digest existing \<noteq> request_digest
           then Inl (ConflictError ''evaluation reconciliation idempotency key was reused'')
           else ebind (execution_of d workflow_id execution_id) (\<lambda>x.
             Inr (dict_set (dict_set (evaluation_execution_dict cf d x) ''reconciliation''
               (JObj (evaluation_reconciliation_dict cf existing))) ''replayed'' (JBool True), d))
       | None \<Rightarrow>
           ebind (require_active_evaluation_workflow w) (\<lambda>_.
           ebind (execution_of d workflow_id execution_id) (\<lambda>x.
           if exe_status x \<noteq> evaluation_execution_status_value XS_UNKNOWN
           then Inl (ConflictError ''evaluation execution is not awaiting reconciliation'')
           else
           let mine = (\<lambda>r. run_execution_id r = exe_id x);
               unknown = (\<lambda>r. mine r \<and> run_status r = evaluation_execution_status_value XS_UNKNOWN);
               affected = sort (map run_id (filter unknown (ev_runs d)));
               succeeded = list_ex (\<lambda>r. mine r \<and> run_status r = ''SUCCEEDED'') (ev_runs d);
               f = (\<lambda>x. x\<lparr>exe_status := evaluation_execution_status_value (if succeeded then XS_PARTIAL else XS_FAILED),
                     exe_error_code := Some ''HumanReconciledUnknownAsFailed'', exe_completed_at := Some (en_now en 2)\<rparr>);
               r = new_reconciliation en workflow_id (exe_campaign_id x) actor_id idempotency_key request_digest
                     ''PROVIDER_EXECUTION'' (exe_id x) rationale affected
           in
           if affected = [] then Inl (ConflictError ''evaluation execution has no unknown provider runs'')
           else
           ebind (insert_unique (\<lambda>r. (rcn_target_type r, rcn_target_id r)) r (ev_reconciliations d)) (\<lambda>rows.
           let d1 = eval_audit cf workflow_id ''evaluation.execution_reconciled'' actor_id ''evaluation_execution'' (exe_id x)
                 (exe_status (f x))
                 [(''campaign_id'', JStr (exe_campaign_id x)), (''decision'', JStr ''MARK_FAILED''),
                  (''affected_run_ids'', j_strs affected), (''reconciliation_id'', JStr (rcn_id r))]
                 ((upd_runs unknown (\<lambda>r. r\<lparr>run_status := evaluation_execution_status_value XS_FAILED,
                    run_error_code := Some ''HumanReconciledUnknownAsFailed'', run_completed_at := Some (en_now en 1)\<rparr>)
                   (upd_execution (exe_id x) f d))\<lparr>ev_reconciliations := rows\<rparr>)
           in Inr (dict_set (dict_set (evaluation_execution_dict cf d1 (f x)) ''reconciliation''
               (JObj (evaluation_reconciliation_dict cf r))) ''replayed'' (JBool False), d1))))))))"

end
