(* ===== verification/Evaluation_Assessment.thy ===== *)
theory Evaluation_Assessment
  imports Evaluation_Execution
begin

text \<open>
  \<open>evaluation_pipeline.py\<close>, the second half: validating the outputs of an execution with the trusted validators, having
  them reviewed by independent providers, submitting the evidence, and reconciling reviews whose outcome is unknown.
  The validators are a parameter, a list with distinct names; \<open>fv\<close> reads the text of a float.
  As in the first half every transaction is a definition of its own.
\<close>

section \<open>Preparing the checks\<close>

record prepared_evaluation_check =
  pc_check_id :: ident
  pc_validator :: evaluation_validator
  pc_artifact :: trusted_artifact

record evaluation_check_outcome =
  co_check_id :: ident
  co_passed :: bool
  co_details :: dict

definition find_validator :: "evaluation_validator list \<Rightarrow> string \<Rightarrow> evaluation_validator option" where
  "find_validator vs n = List.find (\<lambda>v. vd_name v = n) vs"

definition assessment_digest :: "config \<Rightarrow> ident \<Rightarrow> ident \<Rightarrow> string" where
  "assessment_digest cf workflow_id execution_id =
     digest (cf_sha256 cf) (JObj [(''workflow_id'', JStr workflow_id), (''execution_id'', JStr execution_id)])"

definition new_evaluation_assessment :: "env \<Rightarrow> evaluation_execution \<Rightarrow> evaluation_campaign \<Rightarrow> workflow \<Rightarrow> ident \<Rightarrow> string \<Rightarrow> string \<Rightarrow>
    evaluation_assessment" where
  "new_evaluation_assessment en x c w actor_id key request_digest =
     \<lparr>asm_id = en_uuid en 0, asm_execution_id = exe_id x, asm_campaign_id = camp_id c, asm_workflow_id = wf_id w,
      asm_actor_id = actor_id, asm_idempotency_key = strip key, asm_request_digest = request_digest,
      asm_status = evaluation_assessment_status_value SS_PREPARED, asm_batch_id = None, asm_error_code = None,
      asm_created_at = en_now en 1, asm_completed_at = None\<rparr>"

definition new_artifact :: "env \<Rightarrow> ident \<Rightarrow> evaluation_assessment \<Rightarrow> evaluation_execution \<Rightarrow> task \<Rightarrow> evaluation_provider_run \<Rightarrow> string \<Rightarrow>
    evaluation_artifact_row" where
  "new_artifact en i a x t r output_digest =
     \<lparr>art_id = i, art_assessment_id = asm_id a, art_execution_id = exe_id x, art_provider_run_id = run_id r,
      art_campaign_id = asm_campaign_id a, art_workflow_id = asm_workflow_id a, art_task_id = tk_id t,
      art_artifact_type = ''MODEL_EVALUATION_OUTPUT'', art_digest = output_digest, art_workflow_version = exe_workflow_version x,
      art_candidate_revision = exe_candidate_revision x, art_content_json = run_output_json r, art_created_at = en_now en 2\<rparr>"

definition trusted_of :: "task_kind \<Rightarrow> evaluation_artifact_row \<Rightarrow> trusted_artifact" where
  "trusted_of kind t = \<lparr>ta_artifact_id = art_id t, ta_output = art_content_json t, ta_output_digest = art_digest t, ta_task_kind = kind,
     ta_workflow_version = art_workflow_version t, ta_candidate_revision = art_candidate_revision t\<rparr>"

definition new_check :: "env \<Rightarrow> ident \<Rightarrow> evaluation_artifact_row \<Rightarrow> string \<Rightarrow> evaluation_validator \<Rightarrow> evaluation_check_row" where
  "new_check en i t name v =
     \<lparr>chk_id = i, chk_assessment_id = art_assessment_id t, chk_artifact_id = art_id t, chk_check_name = name,
      chk_validator_version = vd_version v, chk_status = evaluation_assessment_status_value SS_PREPARED, chk_passed = None,
      chk_evidence_digest = None, chk_validated_output_digest = art_digest t, chk_details_json = [], chk_created_at = en_now en 3,
      chk_completed_at = None\<rparr>"

text \<open>The artifact of one successful run with its checks and what the validators get; \<open>i\<close> counts the identifiers drawn.\<close>

definition assess_run :: "evaluation_validator list \<Rightarrow> env \<Rightarrow> evaluation_assessment \<Rightarrow> evaluation_execution \<Rightarrow> string list \<Rightarrow> task \<Rightarrow> nat \<Rightarrow>
    evaluation_provider_run \<Rightarrow> error + evaluation_artifact_row \<times> (evaluation_check_row \<times> prepared_evaluation_check) list" where
  "assess_run vs en a x checks t i r =
     ebind (from_option (ConflictError ''successful evaluation run lacks an output digest'') (run_output_digest r)) (\<lambda>output_digest.
     let art = new_artifact en (en_uuid en i) a x t r output_digest
     in Inr (art, List.map_filter (\<lambda>(j, name). case find_validator vs name of None \<Rightarrow> None
          | Some v \<Rightarrow> Some (new_check en (en_uuid en j) art name v,
              \<lparr>pc_check_id = en_uuid en j, pc_validator = v, pc_artifact = trusted_of (tk_kind t) art\<rparr>))
        (enumerate (Suc i) (sort checks))))"

fun assess_runs :: "evaluation_validator list \<Rightarrow> env \<Rightarrow> evaluation_assessment \<Rightarrow> evaluation_execution \<Rightarrow> string list \<Rightarrow> task \<Rightarrow> nat \<Rightarrow>
    evaluation_provider_run list \<Rightarrow> error + (evaluation_artifact_row \<times> (evaluation_check_row \<times> prepared_evaluation_check) list) list" where
  "assess_runs vs en a x checks t i [] = Inr []"
| "assess_runs vs en a x checks t i (r # rs) =
     (if run_status r \<noteq> ''SUCCEEDED'' then assess_runs vs en a x checks t i rs
      else ebind (assess_run vs en a x checks t i r) (\<lambda>y.
           ebind (assess_runs vs en a x checks t (Suc i + length checks) rs) (\<lambda>ys. Inr (y # ys))))"

text \<open>The execution must be settled, current and on the present snapshot, and every required check configured.\<close>

definition check_assessable :: "evaluation_validator list \<Rightarrow> workflow \<Rightarrow> evaluation_execution \<Rightarrow> eval_db \<Rightarrow> error + evaluation_campaign" where
  "check_assessable vs w x d =
     (if exe_status x = evaluation_execution_status_value XS_UNKNOWN
      then Inl (ConflictError ''unknown evaluation execution requires reconciliation'')
      else if exe_status x \<notin> {evaluation_execution_status_value XS_OUTPUTS_READY, evaluation_execution_status_value XS_PARTIAL,
        evaluation_execution_status_value XS_FAILED}
      then Inl (ConflictError ''evaluation execution is not ready for validation'')
      else
      ebind (from_option (ConflictError ''evaluation campaign disappeared'') (row_get camp_id (exe_campaign_id x) (ev_campaigns d))) (\<lambda>c.
      if camp_status c \<notin> {''OPEN'', evaluation_status_value VS_REFINEMENT_REQUIRED}
      then Inl (ConflictError ''evaluation campaign is terminal'')
      else if camp_current_iteration c \<noteq> exe_iteration x
      then Inl (ConflictError ''evaluation execution iteration is stale'')
      else if wf_version w \<noteq> exe_workflow_version x \<or> wf_candidate_revision w \<noteq> exe_candidate_revision x
      then Inl (ConflictError ''evaluation execution workflow snapshot is stale'')
      else
      let missing_validators = sorted_set (filter (\<lambda>n. find_validator vs n = None) (camp_required_checks c)) in
      if missing_validators \<noteq> []
      then Inl (ConflictError (''trusted validators are not configured: '' @ join '','' missing_validators))
      else if list_ex (\<lambda>a. asm_execution_id a = exe_id x) (ev_assessments d)
      then Inl (ConflictError ''evaluation execution already has an assessment'')
      else Inr c))"

definition commit_evaluation_assessment :: "config \<Rightarrow> evaluation_validator list \<Rightarrow> env \<Rightarrow> ident \<Rightarrow> ident \<Rightarrow> ident \<Rightarrow> string \<Rightarrow> eval_db \<Rightarrow>
    error + (ident \<times> prepared_evaluation_check list) \<times> eval_db" where
  "commit_evaluation_assessment cf vs en workflow_id execution_id actor_id idempotency_key d =
     ebind (authorize (ev_db d) (en_now en 0) actor_id CAP_VALIDATE_EVALUATION None None True) (\<lambda>_.
     ebind (get_workflow (ev_db d) workflow_id) (\<lambda>w.
     ebind (require_active_evaluation_workflow w) (\<lambda>_.
     ebind (execution_of d workflow_id execution_id) (\<lambda>x.
     ebind (check_assessable vs w x d) (\<lambda>c.
     ebind (from_option (ConflictError ''evaluation task disappeared'') (row_get tk_id (exe_task_id x) (tasks (ev_db d)))) (\<lambda>t.
     let a = new_evaluation_assessment en x c w actor_id idempotency_key (assessment_digest cf workflow_id execution_id);
         runs = execution_runs d (exe_id x); checks = camp_required_checks c
     in
     ebind (assess_runs vs en a x checks t 1 runs) (\<lambda>ys.
     let kps = concat (map snd ys) in
     ebind (insert_all art_provider_run_id (map fst ys) (ev_artifacts d)) (\<lambda>artifacts.
     ebind (insert_all (\<lambda>k. (chk_artifact_id k, chk_check_name k)) (map fst kps) (ev_checks d)) (\<lambda>check_rows.
     Inr ((asm_id a, map snd kps),
       eval_audit cf (wf_id w) ''evaluation.assessment_prepared'' actor_id ''evaluation_assessment'' (asm_id a) ''SUCCEEDED''
         [(''execution_id'', JStr (exe_id x)),
          (''artifact_count'', JInt (int (length (filter (\<lambda>r. run_status r = ''SUCCEEDED'') runs)))),
          (''check_count'', JInt (int (length kps))),
          (''validator_versions'', JObj (List.map_filter (\<lambda>n. map_option (\<lambda>v. (n, JStr (vd_version v))) (find_validator vs n)) (sort checks)))]
         (d\<lparr>ev_assessments := row_add a (ev_assessments d), ev_artifacts := artifacts, ev_checks := check_rows\<rparr>)))))))))))"

section \<open>Running the checks\<close>

definition upd_evaluation_assessment :: "ident \<Rightarrow> (evaluation_assessment \<Rightarrow> evaluation_assessment) \<Rightarrow> eval_db \<Rightarrow> eval_db" where
  "upd_evaluation_assessment aid f d = d\<lparr>ev_assessments := row_upd asm_id aid f (ev_assessments d)\<rparr>"

definition start_evaluation_checks :: "ident \<Rightarrow> eval_db \<Rightarrow> error + unit \<times> eval_db" where
  "start_evaluation_checks aid d =
     ebind (from_option (ConflictError ''prepared evaluation assessment disappeared'') (row_get asm_id aid (ev_assessments d))) (\<lambda>_.
     Inr ((), (upd_evaluation_assessment aid (\<lambda>a. a\<lparr>asm_status := evaluation_assessment_status_value SS_RUNNING\<rparr>) d)
       \<lparr>ev_checks := map (\<lambda>k. if chk_assessment_id k = aid
          then k\<lparr>chk_status := evaluation_assessment_status_value SS_RUNNING\<rparr> else k) (ev_checks d)\<rparr>))"

text \<open>A validator that raises, or whose evidence is longer than 64 KiB, has not passed.\<close>

definition run_evaluation_check :: "prepared_evaluation_check \<Rightarrow> evaluation_check_outcome" where
  "run_evaluation_check p =
     (let failed = \<lparr>co_check_id = pc_check_id p, co_passed = False, co_details = [(''reason'', JStr ''validator_error'')]\<rparr>
      in case vd_validate (pc_validator p) (pc_artifact p) of
           Inl _ \<Rightarrow> failed
         | Inr r \<Rightarrow> if 65536 < int (length (dumps (JObj (vo_details r)))) then failed
             else \<lparr>co_check_id = pc_check_id p, co_passed = vo_passed r, co_details = vo_details r\<rparr>)"

definition completed_check :: "config \<Rightarrow> instant \<Rightarrow> evaluation_check_outcome \<Rightarrow> evaluation_check_row \<Rightarrow> evaluation_check_row" where
  "completed_check cf now u k =
     k\<lparr>chk_status := ''COMPLETED'', chk_passed := Some (co_passed u), chk_details_json := co_details u,
       chk_evidence_digest := Some (''sha256:'' @ digest (cf_sha256 cf) (check_evidence_json k (co_passed u) (co_details u))),
       chk_completed_at := Some now\<rparr>"

fun settle_checks :: "config \<Rightarrow> instant \<Rightarrow> ident \<Rightarrow> evaluation_check_outcome list \<Rightarrow> evaluation_check_row list \<Rightarrow>
    error + evaluation_check_row list" where
  "settle_checks cf now aid [] rows = Inr rows"
| "settle_checks cf now aid (u # us) rows =
     (case row_get chk_id (co_check_id u) rows of
        None \<Rightarrow> Inl (ConflictError ''evaluation check disappeared'')
      | Some k \<Rightarrow>
          if chk_assessment_id k \<noteq> aid then Inl (ConflictError ''evaluation check disappeared'')
          else settle_checks cf now aid us (row_upd chk_id (co_check_id u) (completed_check cf now u) rows))"

definition finish_evaluation_checks :: "config \<Rightarrow> env \<Rightarrow> ident \<Rightarrow> evaluation_check_outcome list \<Rightarrow> eval_db \<Rightarrow> error + unit \<times> eval_db" where
  "finish_evaluation_checks cf en aid outcomes d =
     (case row_get asm_id aid (ev_assessments d) of
        None \<Rightarrow> Inl (ConflictError ''evaluation assessment state changed during validation'')
      | Some a \<Rightarrow>
          if asm_status a \<noteq> evaluation_assessment_status_value SS_RUNNING
          then Inl (ConflictError ''evaluation assessment state changed during validation'')
          else
          ebind (settle_checks cf (en_now en 0) aid outcomes (ev_checks d)) (\<lambda>rows.
          Inr ((), eval_audit cf (asm_workflow_id a) ''evaluation.assessment_checks_completed'' ''trusted-validator''
            ''evaluation_assessment'' aid ''SUCCEEDED''
            [(''check_count'', JInt (int (length outcomes))),
             (''passed'', JInt (int (length (filter co_passed outcomes)))),
             (''failed'', JInt (int (length (filter (\<lambda>u. \<not> co_passed u) outcomes))))]
            ((upd_evaluation_assessment aid (\<lambda>a. a\<lparr>asm_status := evaluation_assessment_status_value SS_CHECKS_READY\<rparr>) d)\<lparr>ev_checks := rows\<rparr>))))"

section \<open>Preparing the reviews\<close>

definition review_routing_request :: "config \<Rightarrow> evaluation_campaign \<Rightarrow> workflow \<Rightarrow> evaluation_provider_run \<Rightarrow> routing_request" where
  "review_routing_request cf c w producer =
     \<lparr>rq_required_capabilities = {camp_work_capability c, WC_CODE_REVIEW}, rq_data_classification = wf_data_classification w,
      rq_risk = camp_risk c, rq_purpose = RP_REVIEW, rq_allowed_egress = {EB_LOCAL}, rq_allowed_modes = {},
      rq_maximum_cost_tier = CT_HIGH,
      rq_minimum_evidence_samples = (if RL_HIGH \<le> camp_risk c then cf_high_risk_min_evidence_samples cf else 0),
      rq_producer_provider_id = Some (run_provider_id producer), rq_producer_family = Some (run_provider_family producer),
      rq_objective = cf_routing_objective cf\<rparr>"

text \<open>Reviewers in the order of their rank, up to \<open>k\<close> of them; at high risk no two of one family.\<close>

fun select_reviewers :: "bool \<Rightarrow> nat \<Rightarrow> string list \<Rightarrow> provider_profile list \<Rightarrow> provider_profile list" where
  "select_reviewers high k families [] = []"
| "select_reviewers high k families (p # ps) =
     (if high \<and> pp_provider_family p \<in> set families then select_reviewers high k families ps
      else p # (if k = 1 then [] else select_reviewers high (k - 1) (pp_provider_family p # families) ps))"

definition review_request :: "ident \<Rightarrow> evaluation_campaign \<Rightarrow> evaluation_assessment \<Rightarrow> evaluation_execution \<Rightarrow> evaluation_provider_run \<Rightarrow>
    evaluation_artifact_row \<Rightarrow> provider_request" where
  "review_request rid c a x producer t =
     \<lparr>pr_run_id = rid, pr_workflow_id = asm_workflow_id a, pr_task_id = exe_task_id x, pr_task_kind = TK_CODE_REVIEW,
      pr_role = TASK_ROLE TK_CODE_REVIEW,
      pr_objective = ''Independently review the candidate output against the workflow '' @
        ''objective. Return only the bounded code-review schema.'',
      pr_context =
        [(''content_trust'', JStr ''UNTRUSTED_CANDIDATE_OUTPUT''), (''evaluation_campaign_id'', JStr (camp_id c)),
         (''evaluation_assessment_id'', JStr (asm_id a)), (''candidate_provider_id'', JStr (run_provider_id producer)),
         (''candidate_provider_family'', JStr (run_provider_family producer)), (''reviewed_output_digest'', JStr (art_digest t)),
         (''candidate_output'', JObj (art_content_json t)), (''workflow_version'', JInt (art_workflow_version t)),
         (''candidate_revision'', j_opt_str (art_candidate_revision t))],
      pr_required_capability = CAP_RUN_CODE_REVIEW, pr_idempotency_key = rid\<rparr>"

definition provider_request_json :: "provider_request \<Rightarrow> json" where
  "provider_request_json q = JObj
     [(''run_id'', JStr (pr_run_id q)), (''workflow_id'', JStr (pr_workflow_id q)), (''task_id'', JStr (pr_task_id q)),
      (''task_kind'', JStr (task_kind_value (pr_task_kind q))), (''role'', JStr (agent_role_value (pr_role q))),
      (''objective'', JStr (pr_objective q)), (''context'', JObj (pr_context q)),
      (''required_capability'', JStr (capability_value (pr_required_capability q))),
      (''idempotency_key'', JStr (pr_idempotency_key q))]"

definition new_review :: "config \<Rightarrow> env \<Rightarrow> ident \<Rightarrow> evaluation_campaign \<Rightarrow> evaluation_assessment \<Rightarrow> evaluation_execution \<Rightarrow>
    evaluation_provider_run \<Rightarrow> evaluation_artifact_row \<Rightarrow> provider_profile \<Rightarrow> evaluation_review_run" where
  "new_review cf en rid c a x producer t p =
     \<lparr>rev_id = rid, rev_assessment_id = asm_id a, rev_artifact_id = art_id t, rev_candidate_provider_run_id = run_id producer,
      rev_reviewer_provider_id = pp_provider_id p, rev_reviewer_provider_family = pp_provider_family p,
      rev_reviewer_model_version = pp_model_version p, rev_reviewer_profile_version = pp_profile_version p,
      rev_request_digest = digest (cf_sha256 cf) (provider_request_json (review_request rid c a x producer t)),
      rev_status = evaluation_assessment_status_value SS_REVIEW_PREPARED, rev_passed = None, rev_evidence_digest = None,
      rev_reviewed_output_digest = art_digest t, rev_output_json = [], rev_usage_json = [], rev_latency_ms = None,
      rev_error_code = None, rev_created_at = en_now en 1, rev_started_at = None, rev_completed_at = None\<rparr>"

definition passed_checks :: "eval_db \<Rightarrow> ident \<Rightarrow> ident \<Rightarrow> string set" where
  "passed_checks d aid tid = chk_check_name ` set (filter (\<lambda>k. chk_assessment_id k = aid \<and> chk_artifact_id k = tid \<and>
     chk_status k = ''COMPLETED'' \<and> chk_passed k = Some True) (ev_checks d))"

text \<open>The reviews of one artifact that passed every required check.\<close>

definition review_artifact :: "config \<Rightarrow> env \<Rightarrow> provider_profile list \<Rightarrow> evaluation_campaign \<Rightarrow> workflow \<Rightarrow> evaluation_assessment \<Rightarrow>
    evaluation_execution \<Rightarrow> eval_db \<Rightarrow> nat \<Rightarrow> evaluation_artifact_row \<Rightarrow> error + (evaluation_review_run \<times> prepared_evaluation_run) list" where
  "review_artifact cf en profiles c w a x d i t =
     ebind (from_option (ConflictError ''evaluation artifact producer disappeared'')
       (row_get run_id (art_provider_run_id t) (filter (\<lambda>r. run_execution_id r = exe_id x) (ev_runs d)))) (\<lambda>producer.
     ebind (route (review_routing_request cf c w producer) profiles) (\<lambda>routing.
     let reviewers = select_reviewers (RL_HIGH \<le> camp_risk c) (nat (camp_minimum_independent_reviews c)) []
           (List.map_filter (\<lambda>r. find_profile (Some (rc_provider_id r)) profiles) (rd_ranked_candidates routing))
     in
     if int (length reviewers) < camp_minimum_independent_reviews c
     then Inl (ConflictError ''insufficient policy-eligible independent reviewers'')
     else Inr (map (\<lambda>(j, p). (new_review cf en (en_uuid en j) c a x producer t p,
         \<lparr>pe_run_id = en_uuid en j, pe_execution_id = asm_id a, pe_profile = p,
          pe_request = review_request (en_uuid en j) c a x producer t\<rparr>)) (enumerate i reviewers))))"

fun review_artifacts :: "config \<Rightarrow> env \<Rightarrow> provider_profile list \<Rightarrow> evaluation_campaign \<Rightarrow> workflow \<Rightarrow> evaluation_assessment \<Rightarrow>
    evaluation_execution \<Rightarrow> eval_db \<Rightarrow> nat \<Rightarrow> evaluation_artifact_row list \<Rightarrow> error + (evaluation_review_run \<times> prepared_evaluation_run) list" where
  "review_artifacts cf en profiles c w a x d i [] = Inr []"
| "review_artifacts cf en profiles c w a x d i (t # ts) =
     (if \<not> set (camp_required_checks c) \<subseteq> passed_checks d (asm_id a) (art_id t)
      then review_artifacts cf en profiles c w a x d i ts
      else ebind (review_artifact cf en profiles c w a x d i t) (\<lambda>rs.
           ebind (review_artifacts cf en profiles c w a x d (i + length rs) ts) (\<lambda>rss. Inr (rs @ rss))))"

definition review_source :: "eval_db \<Rightarrow> ident \<Rightarrow> error + evaluation_assessment \<times> evaluation_campaign \<times> workflow \<times> evaluation_execution" where
  "review_source d aid =
     (case row_get asm_id aid (ev_assessments d) of
        None \<Rightarrow> Inl (ConflictError ''evaluation assessment state changed before review'')
      | Some a \<Rightarrow>
          if asm_status a \<noteq> evaluation_assessment_status_value SS_CHECKS_READY
          then Inl (ConflictError ''evaluation assessment state changed before review'')
          else from_option (ConflictError ''evaluation review source disappeared'')
            (case (row_get camp_id (asm_campaign_id a) (ev_campaigns d), row_get wf_id (asm_workflow_id a) (workflows (ev_db d)),
                   row_get exe_id (asm_execution_id a) (ev_executions d)) of
               (Some c, Some w, Some x) \<Rightarrow> Some (a, c, w, x) | _ \<Rightarrow> None))"

definition prepare_evaluation_reviews :: "config \<Rightarrow> env \<Rightarrow> ident \<Rightarrow> ident \<Rightarrow> eval_db \<Rightarrow>
    error + prepared_evaluation_run list \<times> eval_db" where
  "prepare_evaluation_reviews cf en aid actor_id d =
     ebind (review_source d aid) (\<lambda>(a, c, w, x).
     ebind (review_artifacts cf en (evaluation_profiles cf en (ev_db d)) c w a x d 0 (assessment_artifacts d aid)) (\<lambda>rs.
     ebind (insert_all (\<lambda>r. (rev_artifact_id r, rev_reviewer_provider_id r)) (map fst rs) (ev_reviews d)) (\<lambda>rows.
     Inr (map snd rs,
       eval_audit cf (asm_workflow_id a) ''evaluation.reviews_prepared'' actor_id ''evaluation_assessment'' aid ''SUCCEEDED''
         [(''review_count'', JInt (int (length rs))),
          (''minimum_independent_reviews'', JInt (camp_minimum_independent_reviews c)), (''local_egress_only'', JBool True)]
         ((upd_evaluation_assessment aid (\<lambda>a. a\<lparr>asm_status := evaluation_assessment_status_value SS_REVIEW_PREPARED\<rparr>) d)
            \<lparr>ev_reviews := rows\<rparr>)))))"

section \<open>Running the reviews\<close>

definition skip_evaluation_reviews :: "ident \<Rightarrow> eval_db \<Rightarrow> error + unit \<times> eval_db" where
  "skip_evaluation_reviews aid d =
     (case row_get asm_id aid (ev_assessments d) of
        None \<Rightarrow> Inl (ConflictError ''evaluation assessment state changed before empty review completion'')
      | Some a \<Rightarrow>
          if asm_status a \<noteq> evaluation_assessment_status_value SS_REVIEW_PREPARED
          then Inl (ConflictError ''evaluation assessment state changed before empty review completion'')
          else Inr ((), upd_evaluation_assessment aid (\<lambda>a. a\<lparr>asm_status := evaluation_assessment_status_value SS_REVIEWS_READY\<rparr>) d))"

definition start_evaluation_reviews :: "env \<Rightarrow> ident \<Rightarrow> eval_db \<Rightarrow> error + unit \<times> eval_db" where
  "start_evaluation_reviews en aid d =
     (case row_get asm_id aid (ev_assessments d) of
        None \<Rightarrow> Inl (ConflictError ''evaluation assessment state changed before reviews ran'')
      | Some a \<Rightarrow>
          if asm_status a \<noteq> evaluation_assessment_status_value SS_REVIEW_PREPARED
          then Inl (ConflictError ''evaluation assessment state changed before reviews ran'')
          else Inr ((), (upd_evaluation_assessment aid (\<lambda>a. a\<lparr>asm_status := evaluation_assessment_status_value SS_REVIEWS_RUNNING\<rparr>) d)
            \<lparr>ev_reviews := map (\<lambda>r. if rev_assessment_id r = aid
               then r\<lparr>rev_status := evaluation_assessment_status_value SS_REVIEWS_RUNNING, rev_started_at := Some (en_now en 0)\<rparr>
               else r) (ev_reviews d)\<rparr>))"

text \<open>What the boundary validator gets of a review: its output, with the snapshot of the request.\<close>

definition boundary_artifact :: "config \<Rightarrow> prepared_evaluation_run \<Rightarrow> dict \<Rightarrow> trusted_artifact" where
  "boundary_artifact cf p out =
     \<lparr>ta_artifact_id = pe_run_id p, ta_output = out, ta_output_digest = ''sha256:'' @ cf_sha256 cf (dumps (JObj out)),
      ta_task_kind = TK_CODE_REVIEW,
      ta_workflow_version = (case dict_get (pr_context (pe_request p)) ''workflow_version'' of Some (JInt n) \<Rightarrow> n | _ \<Rightarrow> 0),
      ta_candidate_revision = (case dict_get (pr_context (pe_request p)) ''candidate_revision'' of Some (JStr r) \<Rightarrow> Some r | _ \<Rightarrow> None)\<rparr>"

definition boundary_passed :: "trusted_artifact \<Rightarrow> bool" where
  "boundary_passed a = (case vd_validate SecurityBoundaryValidator a of Inl _ \<Rightarrow> False | Inr r \<Rightarrow> vo_passed r)"

text \<open>
  \<open>_execute_evaluation_review_run\<close>.  A result that is no object raises an \<open>AttributeError\<close> nothing catches, which the
  pool turns into an unknown outcome.
\<close>

definition execute_evaluation_review_run :: "config \<Rightarrow> provider_calls \<Rightarrow> prepared_evaluation_run \<Rightarrow> error + evaluation_run_outcome" where
  "execute_evaluation_review_run cf pv p =
     (let pid = pp_provider_id (pe_profile p); latency = pv_latency pv (pe_run_id p);
          invalid = empty_outcome (pe_run_id p) XS_FAILED latency ''InvalidReviewResult''
      in case pv_submit pv pid (pe_request p) of
           Inl e \<Rightarrow> Inr (empty_outcome (pe_run_id p) XS_UNKNOWN latency (take 64 (error_name e)))
         | Inr result \<Rightarrow>
             if res_status result \<noteq> ''SUCCEEDED'' \<or> res_provider result \<noteq> pv_name pv pid \<or>
                res_model result \<noteq> pp_model_version (pe_profile p)
             then Inr invalid
             else (case res_output result of
                 JObj out \<Rightarrow>
                   if \<not> (case dict_get out ''review_passed'' of Some (JBool _) \<Rightarrow> True | _ \<Rightarrow> False) \<or>
                      \<not> (case dict_get out ''blocking_findings'' of Some (JList _) \<Rightarrow> True | _ \<Rightarrow> False) \<or>
                      list_ex (\<lambda>(k, n). n < 0) (res_usage result) \<or>
                      1048576 < int (length (dumps (JObj out))) \<or>
                      \<not> boundary_passed (boundary_artifact cf p out)
                   then Inr invalid
                   else Inr (succeeded_outcome cf (pe_run_id p) latency result out)
               | _ \<Rightarrow> Inl (OtherError ''AttributeError'')))"

definition review_outcome :: "config \<Rightarrow> provider_calls \<Rightarrow> prepared_evaluation_run \<Rightarrow> evaluation_run_outcome" where
  "review_outcome cf pv p = (case execute_evaluation_review_run cf pv p of
     Inl _ \<Rightarrow> empty_outcome (pe_run_id p) XS_UNKNOWN 0 ''InternalReviewExecutionError'' | Inr u \<Rightarrow> u)"

definition completed_review :: "instant \<Rightarrow> evaluation_run_outcome \<Rightarrow> evaluation_review_run \<Rightarrow> evaluation_review_run" where
  "completed_review now u r =
     (let r1 = r\<lparr>rev_status := uo_status u, rev_output_json := uo_output u, rev_usage_json := uo_usage u,
           rev_latency_ms := Some (uo_latency_ms u), rev_error_code := uo_error_code u, rev_completed_at := Some now\<rparr>
      in if uo_status u = ''SUCCEEDED''
         then r1\<lparr>rev_passed := Some (dict_get (uo_output u) ''review_passed'' = Some (JBool True)), rev_evidence_digest := uo_output_digest u\<rparr>
         else r1)"

fun settle_reviews :: "instant \<Rightarrow> ident \<Rightarrow> evaluation_run_outcome list \<Rightarrow> evaluation_review_run list \<Rightarrow>
    error + evaluation_review_run list" where
  "settle_reviews now aid [] rows = Inr rows"
| "settle_reviews now aid (u # us) rows =
     (case row_get rev_id (uo_run_id u) rows of
        None \<Rightarrow> Inl (ConflictError ''evaluation review run disappeared'')
      | Some r \<Rightarrow>
          if rev_assessment_id r \<noteq> aid then Inl (ConflictError ''evaluation review run disappeared'')
          else settle_reviews now aid us (row_upd rev_id (uo_run_id u) (completed_review now u) rows))"

text \<open>The result is the dictionary returned when an outcome is unknown.\<close>

definition finish_evaluation_reviews :: "config \<Rightarrow> (rat \<Rightarrow> string) \<Rightarrow> env \<Rightarrow> ident \<Rightarrow> evaluation_run_outcome list \<Rightarrow> eval_db \<Rightarrow>
    error + dict option \<times> eval_db" where
  "finish_evaluation_reviews cf fl en aid outcomes d =
     (case row_get asm_id aid (ev_assessments d) of
        None \<Rightarrow> Inl (ConflictError ''evaluation assessment state changed during reviews'')
      | Some a \<Rightarrow>
          if asm_status a \<noteq> evaluation_assessment_status_value SS_REVIEWS_RUNNING
          then Inl (ConflictError ''evaluation assessment state changed during reviews'')
          else
          ebind (settle_reviews (en_now en 0) aid outcomes (ev_reviews d)) (\<lambda>rows.
          let unknown = list_ex (\<lambda>u. uo_status u = evaluation_execution_status_value XS_UNKNOWN) outcomes;
              s = evaluation_assessment_status_value (if unknown then SS_REVIEW_UNKNOWN else SS_REVIEWS_READY);
              d1 = eval_audit cf (asm_workflow_id a) ''evaluation.reviews_completed'' ''orchestrator'' ''evaluation_assessment'' aid s
                [(''review_count'', JInt (int (length outcomes))), (''succeeded'', JInt (int (success_count outcomes))),
                 (''requires_reconciliation'', JBool unknown)]
                ((upd_evaluation_assessment aid (\<lambda>a. a\<lparr>asm_status := s\<rparr>) d)\<lparr>ev_reviews := rows\<rparr>)
          in Inr (if unknown then Some (dict_set (evaluation_assessment_dict cf fl d1 (a\<lparr>asm_status := s\<rparr>)) ''replayed'' (JBool False))
                  else None, d1)))"

section \<open>Submitting the evidence\<close>

text \<open>\<open>routing_scores.get(provider_id, 0.0)\<close>, read back from the snapshot of the execution.\<close>

definition score_value :: "(string \<Rightarrow> rat) \<Rightarrow> json option \<Rightarrow> rat option" where
  "score_value fv j = (case j of Some (JFloat t) \<Rightarrow> Some (fv t) | Some (JInt n) \<Rightarrow> Some (of_int n) | _ \<Rightarrow> None)"

definition routing_score_of :: "(string \<Rightarrow> rat) \<Rightarrow> dict \<Rightarrow> string \<Rightarrow> rat" where
  "routing_score_of fv snapshot pid =
     (let scores = (case dict_get snapshot ''selected'' of
        Some (JList items) \<Rightarrow> List.map_filter (\<lambda>item. case item of
            JObj e \<Rightarrow> (case (dict_get e ''provider_id'', score_value fv (dict_get e ''score'')) of
               (Some (JStr i), Some v) \<Rightarrow> Some (i, v) | _ \<Rightarrow> None)
          | _ \<Rightarrow> None) items
      | _ \<Rightarrow> [])
      in case map_of (rev scores) pid of None \<Rightarrow> 0 | Some v \<Rightarrow> v)"

definition trusted_checks :: "eval_db \<Rightarrow> ident \<Rightarrow> ident \<Rightarrow> deterministic_check list" where
  "trusted_checks d aid tid = List.map_filter (\<lambda>k. case chk_evidence_digest k of None \<Rightarrow> None
     | Some e \<Rightarrow> if chk_status k = ''COMPLETED'' then Some \<lparr>dk_name = chk_check_name k, dk_passed = (chk_passed k = Some True),
         dk_evidence_digest = e, dk_validated_output_digest = chk_validated_output_digest k\<rparr> else None)
     (sort_key chk_check_name (filter (\<lambda>k. chk_assessment_id k = aid \<and> chk_artifact_id k = tid) (ev_checks d)))"

definition trusted_reviews :: "eval_db \<Rightarrow> ident \<Rightarrow> ident \<Rightarrow> independent_review list" where
  "trusted_reviews d aid tid = List.map_filter (\<lambda>r. case rev_evidence_digest r of None \<Rightarrow> None
     | Some e \<Rightarrow> if rev_status r = ''SUCCEEDED'' then Some \<lparr>ir_reviewer_provider_id = rev_reviewer_provider_id r,
         ir_reviewer_provider_family = rev_reviewer_provider_family r, ir_reviewer_model_version = rev_reviewer_model_version r,
         ir_reviewer_profile_version = rev_reviewer_profile_version r, ir_reviewed_output_digest = rev_reviewed_output_digest r,
         ir_passed = (rev_passed r = Some True), ir_evidence_digest = e\<rparr> else None)
     (sort_key rev_reviewer_provider_id (filter (\<lambda>r. rev_assessment_id r = aid \<and> rev_artifact_id r = tid) (ev_reviews d)))"

text \<open>\<open>artifacts_by_run.get(run.id)\<close>\<close>

definition artifact_of_run :: "eval_db \<Rightarrow> ident \<Rightarrow> ident \<Rightarrow> evaluation_artifact_row option" where
  "artifact_of_run d aid rid = row_get art_provider_run_id rid (rev (filter (\<lambda>t. art_assessment_id t = aid) (ev_artifacts d)))"

definition trusted_candidate :: "(string \<Rightarrow> rat) \<Rightarrow> eval_db \<Rightarrow> ident \<Rightarrow> evaluation_execution \<Rightarrow> evaluation_provider_run \<Rightarrow> candidate_evidence" where
  "trusted_candidate fv d aid x r =
     (let t = artifact_of_run d aid (run_id r) in
      \<lparr>cv_candidate_id = run_id r, cv_provider_id = run_provider_id r, cv_provider_family = run_provider_family r,
       cv_model_version = run_model_version r, cv_profile_version = run_profile_version r,
       cv_prompt_variant_id = run_prompt_variant_id r, cv_prompt_contract_version = run_prompt_contract_version r,
       cv_iteration = exe_iteration x, cv_succeeded = (t \<noteq> None \<and> run_status r = ''SUCCEEDED''),
       cv_output_digest = map_option art_digest t,
       cv_latency_ms = (case run_latency_ms r of None \<Rightarrow> 0 | Some n \<Rightarrow> n), cv_cost_microunits = 0,
       cv_routing_score = routing_score_of fv (exe_routing_snapshot x) (run_provider_id r),
       cv_checks = (case t of None \<Rightarrow> [] | Some t \<Rightarrow> trusted_checks d aid (art_id t)),
       cv_reviews = (case t of None \<Rightarrow> [] | Some t \<Rightarrow> trusted_reviews d aid (art_id t))\<rparr>)"

text \<open>The constructors of the evidence, which may raise.\<close>

fun check_each :: "('a \<Rightarrow> error + unit) \<Rightarrow> 'a list \<Rightarrow> error + unit" where
  "check_each f [] = Inr ()"
| "check_each f (x # xs) = ebind (f x) (\<lambda>_. check_each f xs)"

definition construct_candidate :: "candidate_evidence \<Rightarrow> error + unit" where
  "construct_candidate c =
     ebind (check_each check_deterministic_check (cv_checks c)) (\<lambda>_.
     ebind (check_each check_independent_review (cv_reviews c)) (\<lambda>_. check_candidate_evidence c))"

definition trusted_evidence :: "(string \<Rightarrow> rat) \<Rightarrow> eval_db \<Rightarrow> evaluation_assessment \<Rightarrow>
    error + evaluation_execution \<times> candidate_evidence list" where
  "trusted_evidence fv d a =
     (if asm_status a \<notin> {evaluation_assessment_status_value SS_CHECKS_READY, evaluation_assessment_status_value SS_REVIEWS_READY}
      then Inl (ConflictError ''evaluation assessment evidence is not ready'')
      else case (row_get exe_id (asm_execution_id a) (ev_executions d), row_get camp_id (asm_campaign_id a) (ev_campaigns d)) of
        (Some x, Some _) \<Rightarrow>
          let cs = map (trusted_candidate fv d (asm_id a) x) (execution_runs d (exe_id x))
          in ebind (check_each construct_candidate cs) (\<lambda>_. Inr (x, cs))
      | _ \<Rightarrow> Inl (ConflictError ''evaluation assessment source disappeared''))"

definition new_evaluation_observation :: "env \<Rightarrow> evaluation_assessment \<Rightarrow> evaluation_campaign \<Rightarrow> evaluation_execution \<Rightarrow> json option \<Rightarrow>
    evaluation_candidate_row list \<Rightarrow> evaluation_provider_run \<Rightarrow> evaluation_observation" where
  "new_evaluation_observation en a c x winner candidates r =
     \<lparr>obs_assessment_id = asm_id a, obs_provider_run_id = run_id r, obs_campaign_id = asm_campaign_id a,
      obs_workflow_id = asm_workflow_id a, obs_task_id = exe_task_id x, obs_provider_id = run_provider_id r,
      obs_provider_family = run_provider_family r, obs_model_version = run_model_version r,
      obs_profile_version = run_profile_version r, obs_work_capability = camp_work_capability c,
      obs_succeeded = (run_status r = ''SUCCEEDED''),
      obs_validation_passed = (case row_get (cv_candidate_id \<circ> cand_evidence) (run_id r) (rev candidates) of None \<Rightarrow> False
        | Some k \<Rightarrow> cand_rejection_reasons k = []),
      obs_selected_winner = (winner = Some (JStr (run_id r))),
      obs_latency_ms = max (case run_latency_ms r of None \<Rightarrow> 0 | Some n \<Rightarrow> n) 0, obs_error_code = run_error_code r,
      obs_created_at = en_now en 1\<rparr>"

text \<open>The columns the evidence store reads.\<close>

definition observation_view :: "evaluation_observation \<Rightarrow> observation" where
  "observation_view b = \<lparr>ob_workflow_id = obs_workflow_id b, ob_task_id = obs_task_id b, ob_attempt_id = obs_provider_run_id b,
     ob_provider_id = obs_provider_id b, ob_provider_family = obs_provider_family b, ob_model_version = obs_model_version b,
     ob_profile_version = obs_profile_version b, ob_work_capability = obs_work_capability b, ob_succeeded = obs_succeeded b,
     ob_validation_passed = obs_validation_passed b, ob_latency_ms = obs_latency_ms b, ob_error_code = obs_error_code b,
     ob_created_at = obs_created_at b\<rparr>"

definition add_observations :: "evaluation_observation list \<Rightarrow> eval_db \<Rightarrow> eval_db" where
  "add_observations obs d = d\<lparr>ev_observations := ev_observations d @ obs,
     ev_db := (ev_db d)\<lparr>evaluation_observations := evaluation_observations (ev_db d) @ map observation_view obs\<rparr>\<rparr>"

text \<open>The last transaction: the assessment is decided and every run of its execution observed once.\<close>

definition conclude_assessment :: "config \<Rightarrow> (rat \<Rightarrow> string) \<Rightarrow> env \<Rightarrow> ident \<Rightarrow> ident \<Rightarrow> dict \<Rightarrow> eval_db \<Rightarrow> error + dict \<times> eval_db" where
  "conclude_assessment cf fl en aid actor_id decision d =
     ebind (from_option (ConflictError ''evaluation assessment disappeared after decision'') (row_get asm_id aid (ev_assessments d))) (\<lambda>a.
     let show = (\<lambda>a d. dict_set (dict_set (evaluation_assessment_dict cf fl d a) ''decision'' (JObj decision)) ''replayed'' (JBool False)) in
     if asm_status a \<notin> {evaluation_assessment_status_value SS_CHECKS_READY, evaluation_assessment_status_value SS_REVIEWS_READY}
     then Inr (show a d, d)
     else
     ebind (from_option (ConflictError ''evaluation campaign disappeared after decision'') (row_get camp_id (asm_campaign_id a) (ev_campaigns d))) (\<lambda>c.
     ebind (from_option (ConflictError ''evaluation execution disappeared after decision'') (row_get exe_id (asm_execution_id a) (ev_executions d))) (\<lambda>x.
     let batch_id = str_get decision ''id'';
         f = (\<lambda>a. a\<lparr>asm_status := evaluation_assessment_status_value SS_DECIDED, asm_batch_id := Some batch_id,
               asm_completed_at := Some (en_now en 0)\<rparr>);
         candidates = filter (\<lambda>k. cand_batch_id k = batch_id) (ev_candidates d);
         winner = dict_get decision ''winner_candidate_id'';
         runs = filter (\<lambda>r. run_execution_id r = asm_execution_id a) (ev_runs d);
         fresh = filter (\<lambda>r. run_id r \<notin> obs_provider_run_id ` set (ev_observations d)) runs;
         obs = map (new_evaluation_observation en a c x winner candidates) fresh;
         d1 = eval_audit cf (asm_workflow_id a) ''evaluation.assessment_decided'' actor_id ''evaluation_assessment'' aid
           (str_get decision ''status'')
           [(''batch_id'', JStr batch_id), (''campaign_id'', JStr (asm_campaign_id a)),
            (''winner_candidate_id'', (case winner of None \<Rightarrow> JNull | Some j \<Rightarrow> j)), (''observation_count'', JInt (int (length obs)))]
           (add_observations obs (upd_evaluation_assessment aid f d))
     in Inr (show (f a) d1, d1))))"

definition submit_trusted_assessment :: "config \<Rightarrow> (rat \<Rightarrow> string) \<Rightarrow> (string \<Rightarrow> rat) \<Rightarrow> (nat \<Rightarrow> env) \<Rightarrow> ident \<Rightarrow> ident \<Rightarrow> eval_db \<Rightarrow>
    (error + dict) \<times> eval_db" where
  "submit_trusted_assessment cf fl fv en aid actor_id d =
     (case row_get asm_id aid (ev_assessments d) of
        None \<Rightarrow> (Inl (NotFoundError ''evaluation assessment was not found''), d)
      | Some a \<Rightarrow>
          if asm_status a = evaluation_assessment_status_value SS_DECIDED then (Inr (evaluation_assessment_dict cf fl d a), d)
          else (case trusted_evidence fv d a of
              Inl e \<Rightarrow> (Inl e, d)
            | Inr (x, candidates) \<Rightarrow>
                (case commit d (submit_evaluation_evidence cf fl (en 0) (asm_workflow_id a) (asm_campaign_id a) actor_id
                    (''trusted-validation:'' @ aid) candidates (exe_repair_id x) d) of
                   (Inl e, d1) \<Rightarrow> (Inl e, d1)
                 | (Inr decision, d1) \<Rightarrow> commit d1 (conclude_assessment cf fl (en 1) aid actor_id decision d1))))"

section \<open>Resuming an assessment\<close>

definition resume_trusted_assessment :: "config \<Rightarrow> (rat \<Rightarrow> string) \<Rightarrow> (string \<Rightarrow> rat) \<Rightarrow> provider_calls \<Rightarrow> (nat \<Rightarrow> env) \<Rightarrow> ident \<Rightarrow> ident \<Rightarrow>
    eval_db \<Rightarrow> (error + dict) \<times> eval_db" where
  "resume_trusted_assessment cf fl fv pv en aid actor_id d =
     (let submit = submit_trusted_assessment cf fl fv en aid actor_id in
      case row_get asm_id aid (ev_assessments d) of
        None \<Rightarrow> (Inl (NotFoundError ''evaluation assessment was not found''), d)
      | Some a \<Rightarrow>
          (case row_get camp_id (asm_campaign_id a) (ev_campaigns d) of
             None \<Rightarrow> (Inl (ConflictError ''evaluation campaign disappeared''), d)
           | Some c \<Rightarrow>
               if asm_status a = evaluation_assessment_status_value SS_REVIEWS_READY then submit d
               else if asm_status a \<noteq> evaluation_assessment_status_value SS_CHECKS_READY
               then (Inl (ConflictError ''evaluation assessment is not ready for review''), d)
               else if camp_minimum_independent_reviews c = 0 then submit d
               else (case commit d (prepare_evaluation_reviews cf (en 2) aid actor_id d) of
                   (Inl e, d1) \<Rightarrow> (Inl e, d1)
                 | (Inr prepared, d1) \<Rightarrow>
                     if prepared = []
                     then (case commit d1 (skip_evaluation_reviews aid d1) of
                         (Inl e, d2) \<Rightarrow> (Inl e, d2) | (Inr _, d2) \<Rightarrow> submit d2)
                     else (case commit d1 (start_evaluation_reviews (en 3) aid d1) of
                         (Inl e, d2) \<Rightarrow> (Inl e, d2)
                       | (Inr _, d2) \<Rightarrow>
                           (case commit d2 (finish_evaluation_reviews cf fl (en 4) aid (map (review_outcome cf pv) prepared) d2) of
                              (Inl e, d3) \<Rightarrow> (Inl e, d3)
                            | (Inr (Some r), d3) \<Rightarrow> (Inr r, d3)
                            | (Inr None, d3) \<Rightarrow> submit d3)))))"

definition mark_replayed :: "bool \<Rightarrow> (error + dict) \<times> eval_db \<Rightarrow> (error + dict) \<times> eval_db" where
  "mark_replayed b = (\<lambda>(r, d). (ebind r (\<lambda>x. Inr (dict_set x ''replayed'' (JBool b))), d))"

definition validate_evaluation_execution :: "config \<Rightarrow> (rat \<Rightarrow> string) \<Rightarrow> (string \<Rightarrow> rat) \<Rightarrow> evaluation_validator list \<Rightarrow> provider_calls \<Rightarrow>
    (nat \<Rightarrow> env) \<Rightarrow> ident \<Rightarrow> ident \<Rightarrow> ident \<Rightarrow> string \<Rightarrow> eval_db \<Rightarrow> (error + dict) \<times> eval_db" where
  "validate_evaluation_execution cf fl fv vs pv en workflow_id execution_id actor_id idempotency_key d =
     (if \<not> valid_key idempotency_key then (Inl (ValidationError ''evaluation assessment idempotency key is invalid''), d)
      else case authorize (ev_db d) (en_now (en 5) 0) actor_id CAP_VALIDATE_EVALUATION None None True of
        Inl e \<Rightarrow> (Inl e, d)
      | Inr _ \<Rightarrow>
          (case find_by_key asm_actor_id asm_idempotency_key actor_id idempotency_key (ev_assessments d) of
             Some a \<Rightarrow>
               if asm_request_digest a \<noteq> assessment_digest cf workflow_id execution_id \<or> asm_workflow_id a \<noteq> workflow_id
               then (Inl (ConflictError ''evaluation assessment idempotency key was reused''), d)
               else if asm_status a = evaluation_assessment_status_value SS_DECIDED
               then (Inr (dict_set (evaluation_assessment_dict cf fl d a) ''replayed'' (JBool True)), d)
               else if asm_status a \<in> {evaluation_assessment_status_value SS_CHECKS_READY, evaluation_assessment_status_value SS_REVIEWS_READY}
               then mark_replayed True (resume_trusted_assessment cf fl fv pv en (asm_id a) actor_id d)
               else (Inl (ConflictError ''evaluation assessment requires recovery''), d)
           | None \<Rightarrow>
               (case commit d (commit_evaluation_assessment cf vs (en 6) workflow_id execution_id actor_id idempotency_key d) of
                  (Inl e, d1) \<Rightarrow> (Inl e, d1)
                | (Inr (aid, prepared), d1) \<Rightarrow>
                    (case commit d1 (start_evaluation_checks aid d1) of
                       (Inl e, d2) \<Rightarrow> (Inl e, d2)
                     | (Inr _, d2) \<Rightarrow>
                         (case commit d2 (finish_evaluation_checks cf (en 7) aid (map run_evaluation_check prepared) d2) of
                            (Inl e, d3) \<Rightarrow> (Inl e, d3)
                          | (Inr _, d3) \<Rightarrow> resume_trusted_assessment cf fl fv pv en aid actor_id d3)))))"

definition get_evaluation_assessment :: "config \<Rightarrow> (rat \<Rightarrow> string) \<Rightarrow> env \<Rightarrow> ident \<Rightarrow> ident \<Rightarrow> ident \<Rightarrow> eval_db \<Rightarrow> error + dict" where
  "get_evaluation_assessment cf fl en workflow_id assessment_id principal_id d =
     ebind (authorize (ev_db d) (en_now en 0) principal_id CAP_READ_EVALUATION None None False) (\<lambda>_.
     ebind (get_workflow (ev_db d) workflow_id) (\<lambda>_.
     ebind (assessment_of d workflow_id assessment_id) (\<lambda>a. Inr (evaluation_assessment_dict cf fl d a))))"

section \<open>Reconciling reviews\<close>

definition commit_review_reconciliation :: "config \<Rightarrow> env \<Rightarrow> ident \<Rightarrow> ident \<Rightarrow> ident \<Rightarrow> string \<Rightarrow> string \<Rightarrow> eval_db \<Rightarrow>
    error + evaluation_reconciliation \<times> eval_db" where
  "commit_review_reconciliation cf en workflow_id assessment_id actor_id idempotency_key rationale d =
     ebind (authorize (ev_db d) (en_now en 0) actor_id CAP_RECONCILE_EVALUATION None None True) (\<lambda>_.
     ebind (get_workflow (ev_db d) workflow_id) (\<lambda>w.
     case find_by_key rcn_actor_id rcn_idempotency_key actor_id idempotency_key (ev_reconciliations d) of
       Some existing \<Rightarrow> Inl (ConflictError
         (if rcn_request_digest existing \<noteq> reconciliation_digest cf ''REVIEW_ASSESSMENT'' assessment_id rationale
          then ''evaluation reconciliation idempotency key was reused'' else ''evaluation reconciliation completed concurrently; retry''))
     | None \<Rightarrow>
     ebind (require_active_evaluation_workflow w) (\<lambda>_.
     ebind (assessment_of d workflow_id assessment_id) (\<lambda>a.
     if asm_status a \<noteq> evaluation_assessment_status_value SS_REVIEW_UNKNOWN
     then Inl (ConflictError ''evaluation reviews are not awaiting reconciliation'')
     else
     let unknown = (\<lambda>r. rev_assessment_id r = asm_id a \<and> rev_status r = evaluation_execution_status_value XS_UNKNOWN);
         affected = sort (map rev_id (filter unknown (ev_reviews d)));
         r = new_reconciliation en workflow_id (asm_campaign_id a) actor_id idempotency_key
               (reconciliation_digest cf ''REVIEW_ASSESSMENT'' assessment_id rationale) ''REVIEW_ASSESSMENT'' (asm_id a) rationale affected
     in
     if affected = [] then Inl (ConflictError ''evaluation assessment has no unknown review runs'')
     else
     ebind (insert_unique (\<lambda>r. (rcn_target_type r, rcn_target_id r)) r (ev_reconciliations d)) (\<lambda>rows.
     Inr (r, eval_audit cf workflow_id ''evaluation.reviews_reconciled'' actor_id ''evaluation_assessment'' (asm_id a)
       (evaluation_assessment_status_value SS_REVIEWS_READY)
       [(''campaign_id'', JStr (asm_campaign_id a)), (''decision'', JStr ''MARK_FAILED''), (''affected_run_ids'', j_strs affected),
        (''reconciliation_id'', JStr (rcn_id r))]
       ((upd_evaluation_assessment (asm_id a) (\<lambda>a. a\<lparr>asm_status := evaluation_assessment_status_value SS_REVIEWS_READY\<rparr>) d)
         \<lparr>ev_reviews := map (\<lambda>r. if unknown r then r\<lparr>rev_status := evaluation_execution_status_value XS_FAILED,
            rev_error_code := Some ''HumanReconciledUnknownAsFailed'', rev_completed_at := Some (en_now en 1)\<rparr> else r) (ev_reviews d),
          ev_reconciliations := rows\<rparr>)))))))"

definition with_reconciliation :: "config \<Rightarrow> evaluation_reconciliation \<Rightarrow> (error + dict) \<times> eval_db \<Rightarrow> (error + dict) \<times> eval_db" where
  "with_reconciliation cf r =
     (\<lambda>(m, d). (ebind m (\<lambda>x. Inr (dict_set x ''reconciliation'' (JObj (evaluation_reconciliation_dict cf r)))), d))"

definition reconcile_evaluation_reviews :: "config \<Rightarrow> (rat \<Rightarrow> string) \<Rightarrow> (string \<Rightarrow> rat) \<Rightarrow> (nat \<Rightarrow> env) \<Rightarrow> ident \<Rightarrow> ident \<Rightarrow> ident \<Rightarrow> string \<Rightarrow>
    string \<Rightarrow> eval_db \<Rightarrow> (error + dict) \<times> eval_db" where
  "reconcile_evaluation_reviews cf fl fv en workflow_id assessment_id actor_id idempotency_key rationale d =
     (if \<not> valid_key idempotency_key then (Inl (ValidationError ''evaluation reconciliation idempotency key is invalid''), d)
      else if \<not> valid_rationale rationale then (Inl (ValidationError ''evaluation reconciliation rationale is invalid''), d)
      else case authorize (ev_db d) (en_now (en 5) 0) actor_id CAP_RECONCILE_EVALUATION None None True of
        Inl e \<Rightarrow> (Inl e, d)
      | Inr _ \<Rightarrow>
          (case find_by_key rcn_actor_id rcn_idempotency_key actor_id idempotency_key (ev_reconciliations d) of
             Some existing \<Rightarrow>
               if rcn_request_digest existing \<noteq> reconciliation_digest cf ''REVIEW_ASSESSMENT'' assessment_id rationale
               then (Inl (ConflictError ''evaluation reconciliation idempotency key was reused''), d)
               else (case assessment_of d workflow_id assessment_id of
                   Inl e \<Rightarrow> (Inl e, d)
                 | Inr a \<Rightarrow>
                     mark_replayed True (with_reconciliation cf existing
                       (if asm_status a = evaluation_assessment_status_value SS_DECIDED then (Inr (evaluation_assessment_dict cf fl d a), d)
                        else if asm_status a \<noteq> evaluation_assessment_status_value SS_REVIEWS_READY
                        then (Inl (ConflictError ''evaluation reconciliation requires recovery''), d)
                        else submit_trusted_assessment cf fl fv en assessment_id actor_id d)))
           | None \<Rightarrow>
               (case commit d (commit_review_reconciliation cf (en 6) workflow_id assessment_id actor_id idempotency_key rationale d) of
                  (Inl e, d1) \<Rightarrow> (Inl e, d1)
                | (Inr r, d1) \<Rightarrow> mark_replayed False (with_reconciliation cf r
                    (submit_trusted_assessment cf fl fv en assessment_id actor_id d1)))))"

section \<open>Recovery\<close>

text \<open>\<open>service.py\<close> gives the life-cycle service these callbacks.\<close>

definition recover_assessment :: "config \<Rightarrow> (rat \<Rightarrow> string) \<Rightarrow> (string \<Rightarrow> rat) \<Rightarrow> provider_calls \<Rightarrow> (nat \<Rightarrow> env) \<Rightarrow> ident \<Rightarrow> ident \<Rightarrow> ident \<Rightarrow>
    string \<Rightarrow> string \<Rightarrow> eval_db \<Rightarrow> (error + dict) \<times> eval_db" where
  "recover_assessment cf fl fv pv en = recover_evaluation_assessment cf (resume_trusted_assessment cf fl fv pv en)
     (get_evaluation_assessment cf fl (en 9)) (en 8)"

end
