(* ===== verification/Evaluation_Effects.thy ===== *)
theory Evaluation_Effects
  imports Evaluation_Assessment
begin

text \<open>
  What each transaction of the evaluation services does to the tables: the rows it adds, the columns it may
  change, and what it leaves alone.  The invariants of the evaluation services rest on these lemmas only.
\<close>

section \<open>The text of a submission\<close>

text \<open>Two submissions with one text name one campaign and carry the same evidence, up to the score and the order of checks and reviews.\<close>

definition same_evidence :: "candidate_evidence \<Rightarrow> candidate_evidence \<Rightarrow> bool" where
  "same_evidence e f \<longleftrightarrow> cv_candidate_id f = cv_candidate_id e \<and> cv_provider_id f = cv_provider_id e \<and>
     cv_provider_family f = cv_provider_family e \<and> cv_succeeded f = cv_succeeded e \<and> cv_output_digest f = cv_output_digest e \<and>
     set (cv_checks f) = set (cv_checks e) \<and> set (cv_reviews f) = set (cv_reviews e)"

lemma same_evidence_refl [simp]: "same_evidence e e"
  by (simp add: same_evidence_def)

lemma same_evidence_score [simp]: "same_evidence e (f\<lparr>cv_routing_score := q\<rparr>) \<longleftrightarrow> same_evidence e f"
  by (simp add: same_evidence_def)

lemma same_evidence_trans: "same_evidence e f \<Longrightarrow> same_evidence f g \<Longrightarrow> same_evidence e g"
  by (simp add: same_evidence_def)

lemma sort_keys_check_dict: "sort_keys (deterministic_check_dict k) = sort_keys (deterministic_check_dict k') \<longleftrightarrow> k = k'"
  by (cases k; cases k') (auto simp: deterministic_check_dict_def)

lemma sort_keys_review_dict: "sort_keys (independent_review_dict k) = sort_keys (independent_review_dict k') \<longleftrightarrow> k = k'"
  by (cases k; cases k') (auto simp: independent_review_dict_def)

lemma j_opt_str_inj: "sort_keys (j_opt_str a) = sort_keys (j_opt_str b) \<longleftrightarrow> a = b"
  by (cases a; cases b) (simp_all add: j_opt_str_def)

lemma map_inj_eq: "(\<And>x y. f x = f y \<longleftrightarrow> x = y) \<Longrightarrow> map f xs = map f ys \<longleftrightarrow> xs = ys"
  by (simp add: inj_def inj_map_eq_map)

lemma candidate_payload_inj:
  assumes "sort_keys (candidate_payload e) = sort_keys (candidate_payload f)"
  shows "same_evidence e f"
proof -
  have "sort_key dk_name (cv_checks e) = sort_key dk_name (cv_checks f)"
    "sort_key ir_reviewer_provider_id (cv_reviews e) = sort_key ir_reviewer_provider_id (cv_reviews f)"
    using assms by (simp_all add: candidate_payload_def map_inj_eq [of "\<lambda>x. sort_keys (deterministic_check_dict x)"]
        map_inj_eq [of "\<lambda>x. sort_keys (independent_review_dict x)"] sort_keys_check_dict sort_keys_review_dict comp_def)
  then have "set (cv_checks e) = set (cv_checks f)" "set (cv_reviews e) = set (cv_reviews f)" by (metis set_sort)+
  then show ?thesis using assms by (simp add: candidate_payload_def same_evidence_def j_opt_str_inj)
qed

lemma candidate_payload_ok: "json_ok (candidate_payload e)"
proof -
  have "json_ok (deterministic_check_dict k)" "json_ok (independent_review_dict r)" "json_ok (j_opt_str s)" for k r s
    by (simp_all add: deterministic_check_dict_def independent_review_dict_def j_opt_str_def split: option.split)
  then show ?thesis by (simp add: candidate_payload_def list_all_iff)
qed

lemma submission_json_inj:
  assumes "dumps (submission_json c es r) = dumps (submission_json c' es' r')"
  shows "c = c'" "\<forall>f\<in>set es'. \<exists>e\<in>set es. same_evidence e f"
proof -
  have ok: "json_ok (submission_json c es r)" for c es r
    by (auto simp: submission_json_def candidate_payload_ok list_all_iff j_opt_str_def split: option.split)
  have eq: "sort_keys (submission_json c es r) = sort_keys (submission_json c' es' r')"
    using dumps_inj [OF ok ok assms] by (simp add: json_eq_def)
  then show "c = c'" by (simp add: submission_json_def)
  have "map (\<lambda>e. sort_keys (candidate_payload e)) (sort_key cv_candidate_id es) =
      map (\<lambda>e. sort_keys (candidate_payload e)) (sort_key cv_candidate_id es')"
    using eq by (simp add: submission_json_def comp_def)
  then have "(\<lambda>e. sort_keys (candidate_payload e)) ` set es = (\<lambda>e. sort_keys (candidate_payload e)) ` set es'"
    by (metis set_map set_sort)
  then show "\<forall>f\<in>set es'. \<exists>e\<in>set es. same_evidence e f"
    using candidate_payload_inj by (metis (no_types, lifting) image_iff)
qed

section \<open>Tables kept\<close>

definition core_tables_kept :: "eval_db \<Rightarrow> eval_db \<Rightarrow> bool" where
  "core_tables_kept d d' \<longleftrightarrow> ev_campaigns d' = ev_campaigns d \<and> ev_batches d' = ev_batches d \<and> ev_candidates d' = ev_candidates d \<and>
     ev_promotions d' = ev_promotions d"

definition evidence_kept :: "eval_db \<Rightarrow> eval_db \<Rightarrow> bool" where
  "evidence_kept d d' \<longleftrightarrow> ev_runs d' = ev_runs d \<and> ev_artifacts d' = ev_artifacts d \<and> ev_checks d' = ev_checks d \<and>
     ev_assessments d' = ev_assessments d"

lemmas kept_defs = core_tables_kept_def evidence_kept_def

lemma core_tables_keptD:
  assumes "core_tables_kept d d'"
  shows "ev_campaigns d' = ev_campaigns d" "ev_batches d' = ev_batches d" "ev_candidates d' = ev_candidates d" "ev_promotions d' = ev_promotions d"
  using assms by (simp_all add: core_tables_kept_def)

lemma evidence_keptD:
  assumes "evidence_kept d d'"
  shows "ev_runs d' = ev_runs d" "ev_artifacts d' = ev_artifacts d" "ev_checks d' = ev_checks d" "ev_assessments d' = ev_assessments d"
  using assms by (simp_all add: evidence_kept_def)

text \<open>The columns of a check and of an assessment that name what they belong to.\<close>

definition chk_key :: "evaluation_check_row \<Rightarrow> ident \<times> ident \<times> string" where
  "chk_key k = (chk_id k, chk_artifact_id k, chk_check_name k)"

definition asm_key :: "evaluation_assessment \<Rightarrow> ident \<times> ident \<times> ident option" where
  "asm_key a = (asm_id a, asm_campaign_id a, asm_batch_id a)"

text \<open>No check passes that did not pass before.\<close>

definition checks_weaker :: "evaluation_check_row list \<Rightarrow> evaluation_check_row list \<Rightarrow> bool" where
  "checks_weaker ks ks' \<longleftrightarrow> map chk_key ks' = map chk_key ks \<and>
     (\<forall>k'\<in>set ks'. chk_passed k' = Some True \<longrightarrow> (\<exists>k\<in>set ks. chk_key k = chk_key k' \<and> chk_passed k = Some True))"

lemma checks_weaker_refl [simp]: "checks_weaker ks ks"
  by (auto simp: checks_weaker_def)

lemma checks_weaker_map:
  assumes "\<And>k. chk_key (f k) = chk_key k" "\<And>k. chk_passed (f k) = Some True \<Longrightarrow> chk_passed k = Some True"
  shows "checks_weaker ks (map (\<lambda>k. if P k then f k else k) ks)"
  using assms unfolding checks_weaker_def by (auto split: if_splits)

lemma asm_keys_upd:
  "(\<And>a. asm_key (f a) = asm_key a) \<Longrightarrow> map asm_key (row_upd asm_id aid f as) = map asm_key as"
  by (simp add: row_upd_def)

section \<open>Effects of the handlers\<close>

lemma find_NoneD: "List.find P xs = None \<Longrightarrow> x \<in> set xs \<Longrightarrow> \<not> P x"
  by (auto simp: find_None_iff)

lemma as_validation_error_Inr [simp]: "as_validation_error m = Inr x \<longleftrightarrow> m = Inr x"
  by (auto simp: as_validation_error_def split: sum.splits error.splits)

lemma new_campaign_simps [simp]:
  "camp_id (new_campaign en wid actor key rd pcv wc p) = en_uuid en 0" "camp_workflow_id (new_campaign en wid actor key rd pcv wc p) = wid"
  "camp_status (new_campaign en wid actor key rd pcv wc p) = ''OPEN''" "camp_current_iteration (new_campaign en wid actor key rd pcv wc p) = 1"
  "camp_total_cost_microunits (new_campaign en wid actor key rd pcv wc p) = 0"
  "camp_winner_candidate_id (new_campaign en wid actor key rd pcv wc p) = None"
  by (simp_all add: new_campaign_def)

text \<open>A new campaign is open, at its first iteration, under a well-formed policy.\<close>

lemma create_evaluation_campaign_effect:
  assumes "create_evaluation_campaign cf en wid actor key pcv wc checks mc mv mi mt mr d = Inr (r, d')"
  shows "d' = d \<or> (\<exists>c. check_evaluation_policy (evaluation_policy_of c) = Inr () \<and> camp_id c = en_uuid en 0 \<and> camp_workflow_id c = wid \<and>
    camp_status c = ''OPEN'' \<and> camp_current_iteration c = 1 \<and> camp_total_cost_microunits c = 0 \<and> camp_winner_candidate_id c = None \<and>
    ev_campaigns d' = ev_campaigns d @ [c] \<and> ev_batches d' = ev_batches d \<and> ev_candidates d' = ev_candidates d \<and>
    ev_promotions d' = ev_promotions d \<and> evidence_kept d d')"
proof -
  have pol: "check_evaluation_policy (evaluation_policy_of (new_campaign en wid actor key rd pcv wc p)) = Inr ()"
    if p: "check_evaluation_policy p = Inr ()" for rd p
  proof -
    have ids: "require_identifiers (map (Pair n) xs) = Inr () \<longleftrightarrow> (\<forall>x\<in>set xs. IDENTIFIER x)" for n xs
      by (induction xs) (auto simp: require_identifier_def tx_simps)
    show ?thesis using p by (auto simp: check_evaluation_policy_def evaluation_policy_of_def new_campaign_def tx_simps ids)
  qed
  show ?thesis
  proof (cases "find_by_key camp_actor_id camp_idempotency_key actor key (ev_campaigns d)")
    case (Some x)
    then show ?thesis using assms by (auto simp: create_evaluation_campaign_def tx_simps Let_def split: if_splits)
  next
    case None
    then obtain p rd ev ac rt oc pl where p: "check_evaluation_policy p = Inr ()"
      and d': "d' = eval_audit cf wid ev ac rt (en_uuid en 0) oc pl
        (d\<lparr>ev_campaigns := row_add (new_campaign en wid actor key rd pcv wc p) (ev_campaigns d)\<rparr>)"
      using assms by (auto simp: create_evaluation_campaign_def tx_simps Let_def)
    show ?thesis unfolding d'
      by (rule disjI2, rule exI [of _ "new_campaign en wid actor key rd pcv wc p"]) (simp add: pol [OF p] row_add_def evidence_kept_def)
  qed
qed

lemma normalize_candidates_ok: "normalize_candidates q ps rt cs = Inr cs' \<Longrightarrow> \<forall>c\<in>set cs'. check_candidate_evidence c = Inr ()"
proof (induction cs arbitrary: cs')
  case (Cons c cs)
  then obtain c1 cs1 where "normalize_candidate q ps rt c = Inr c1" "normalize_candidates q ps rt cs = Inr cs1" "cs' = c1 # cs1"
    by (auto simp: tx_simps)
  moreover from this(1) have "check_candidate_evidence c1 = Inr ()"
    by (auto simp: normalize_candidate_def tx_simps Let_def split: option.splits if_splits)
  ultimately show ?case using Cons.IH by auto
qed simp

text \<open>What one decided submission adds.\<close>

definition decides :: "evaluation_campaign \<Rightarrow> evaluation_batch_row \<Rightarrow> evaluation_candidate_row list \<Rightarrow> evaluation_campaign \<Rightarrow> eval_db \<Rightarrow>
    eval_db \<Rightarrow> bool" where
  "decides c b rows c' d d' \<longleftrightarrow> camp_status c \<in> {''OPEN'', ''REFINEMENT_REQUIRED''} \<and>
     bat_campaign_id b = camp_id c \<and> bat_iteration b = camp_current_iteration c \<and>
     (\<forall>x\<in>set (ev_batches d). \<not> (bat_campaign_id x = camp_id c \<and> bat_iteration x = camp_current_iteration c)) \<and>
     camp_id c' = camp_id c \<and> evaluation_policy_of c' = evaluation_policy_of c \<and> camp_workflow_id c' = camp_workflow_id c \<and>
     camp_status c' = bat_status b \<and> camp_winner_candidate_id c' = bat_winner_candidate_id b \<and>
     bat_status b \<in> {''WINNER_SELECTED'', ''REFINEMENT_REQUIRED'', ''EXHAUSTED''} \<and>
     (bat_status b = ''WINNER_SELECTED'' \<longleftrightarrow> bat_winner_candidate_id b \<noteq> None) \<and>
     camp_current_iteration c' = (if bat_status b = ''REFINEMENT_REQUIRED'' then camp_current_iteration c + 1 else camp_current_iteration c) \<and>
     camp_current_iteration c' \<le> camp_max_iterations c \<and>
     (\<forall>i. bat_winner_candidate_id b = Some i \<longrightarrow> camp_total_cost_microunits c' \<le> camp_max_total_cost_microunits c \<and>
        (\<exists>r\<in>set rows. cand_batch_id r = bat_id b \<and> cv_candidate_id (cand_evidence r) = i \<and> validated (evaluation_policy_of c) (cand_evidence r))) \<and>
     (\<exists>f. c' = f c \<and> (\<forall>x. camp_id (f x) = camp_id x) \<and> ev_campaigns d' = row_upd camp_id (camp_id c) f (ev_campaigns d)) \<and>
     ev_batches d' = ev_batches d @ [b] \<and> ev_candidates d' = ev_candidates d @ rows \<and> ev_promotions d' = ev_promotions d \<and>
     evidence_kept d d'"

lemma decidesD:
  assumes "decides c b rows c' d d'"
  shows "camp_status c \<in> {''OPEN'', ''REFINEMENT_REQUIRED''}" "bat_campaign_id b = camp_id c" "bat_iteration b = camp_current_iteration c"
    "camp_id c' = camp_id c" "evaluation_policy_of c' = evaluation_policy_of c" "camp_status c' = bat_status b"
    "camp_winner_candidate_id c' = bat_winner_candidate_id b"
    "bat_status b \<in> {''WINNER_SELECTED'', ''REFINEMENT_REQUIRED'', ''EXHAUSTED''}"
    "bat_status b = ''WINNER_SELECTED'' \<longleftrightarrow> bat_winner_candidate_id b \<noteq> None"
    "camp_current_iteration c' = (if bat_status b = ''REFINEMENT_REQUIRED'' then camp_current_iteration c + 1 else camp_current_iteration c)"
    "camp_current_iteration c' \<le> camp_max_iterations c"
    "\<forall>i. bat_winner_candidate_id b = Some i \<longrightarrow> camp_total_cost_microunits c' \<le> camp_max_total_cost_microunits c \<and>
        (\<exists>r\<in>set rows. cand_batch_id r = bat_id b \<and> cv_candidate_id (cand_evidence r) = i \<and> validated (evaluation_policy_of c) (cand_evidence r))"
    "\<exists>f. c' = f c \<and> (\<forall>x. camp_id (f x) = camp_id x) \<and> ev_campaigns d' = row_upd camp_id (camp_id c) f (ev_campaigns d)"
    "ev_batches d' = ev_batches d @ [b]" "ev_candidates d' = ev_candidates d @ rows" "ev_promotions d' = ev_promotions d"
    "evidence_kept d d'"
  using assms unfolding decides_def by - (elim conjE, assumption)+

lemma decide_Inr:
  assumes "decide c cs = Inr dn" "\<forall>e\<in>set cs. check_candidate_evidence e = Inr ()"
  shows "ed_status dn = VS_WINNER_SELECTED \<longleftrightarrow> ed_winner_candidate_id dn \<noteq> None"
    "ed_next_iteration dn = (if ed_status dn = VS_REFINEMENT_REQUIRED then Some (camp_current_iteration c + 1) else None)"
    "(if ed_status dn = VS_REFINEMENT_REQUIRED then camp_current_iteration c + 1 else camp_current_iteration c) \<le> camp_max_iterations c"
    "ed_winner_candidate_id dn = Some i \<Longrightarrow> ed_total_cost_microunits dn \<le> camp_max_total_cost_microunits c \<and>
       (\<exists>e\<in>set cs. cv_candidate_id e = i \<and> validated (evaluation_policy_of c) e)"
proof -
  define p where "p = evaluation_policy_of c"
  define b where "b = \<lparr>eb_campaign_id = camp_id c, eb_prompt_contract_version = camp_prompt_contract_version c,
      eb_current_iteration = camp_current_iteration c, eb_prior_cost_microunits = camp_total_cost_microunits c, eb_candidates = cs\<rparr>"
  have pol: "check_evaluation_policy p = Inr ()" and ev: "evaluate p b = Inr dn"
    using assms(1) by (auto simp: decide_def Let_def tx_simps p_def b_def)
  have flds: "eb_current_iteration b = camp_current_iteration c" "eb_candidates b = cs" "eo_max_iterations p = camp_max_iterations c"
    "eo_max_total_cost_microunits p = camp_max_total_cost_microunits c" by (simp_all add: b_def p_def evaluation_policy_of_def)
  note e = evaluate_Inr [OF ev, unfolded flds]
  have it: "camp_current_iteration c \<le> camp_max_iterations c" using e(1) by (simp add: validate_batch_Inr flds)
  show "ed_status dn = VS_WINNER_SELECTED \<longleftrightarrow> ed_winner_candidate_id dn \<noteq> None"
    "ed_next_iteration dn = (if ed_status dn = VS_REFINEMENT_REQUIRED then Some (camp_current_iteration c + 1) else None)"
    "(if ed_status dn = VS_REFINEMENT_REQUIRED then camp_current_iteration c + 1 else camp_current_iteration c) \<le> camp_max_iterations c"
    using e(3,4) it by (cases "camp_max_total_cost_microunits c < total_cost b"; auto split: list.splits if_splits)+
  show "ed_total_cost_microunits dn \<le> camp_max_total_cost_microunits c \<and>
      (\<exists>e\<in>set cs. cv_candidate_id e = i \<and> validated (evaluation_policy_of c) e)" if w: "ed_winner_candidate_id dn = Some i"
    using w winner_cases [OF ev w] acceptable_validated [OF pol] assms(2) e(2) flds by (metis p_def)
qed

lemma evaluation_status_value_cases:
  "evaluation_status_value x \<in> {''WINNER_SELECTED'', ''REFINEMENT_REQUIRED'', ''EXHAUSTED''}"
  "evaluation_status_value x = ''WINNER_SELECTED'' \<longleftrightarrow> x = VS_WINNER_SELECTED"
  "evaluation_status_value x = ''REFINEMENT_REQUIRED'' \<longleftrightarrow> x = VS_REFINEMENT_REQUIRED"
  by (cases x; simp)+

lemma new_batch_simps [simp]:
  "bat_id (new_batch cf fl en c actor key rd rep rt dn) = en_uuid en 0"
  "bat_campaign_id (new_batch cf fl en c actor key rd rep rt dn) = camp_id c"
  "bat_iteration (new_batch cf fl en c actor key rd rep rt dn) = camp_current_iteration c"
  "bat_status (new_batch cf fl en c actor key rd rep rt dn) = evaluation_status_value (ed_status dn)"
  "bat_winner_candidate_id (new_batch cf fl en c actor key rd rep rt dn) = ed_winner_candidate_id dn"
  by (simp_all add: new_batch_def)

lemma decided_campaign_simps [simp]:
  "camp_id (decided_campaign en dn c) = camp_id c" "evaluation_policy_of (decided_campaign en dn c) = evaluation_policy_of c"
  "camp_workflow_id (decided_campaign en dn c) = camp_workflow_id c"
  "camp_status (decided_campaign en dn c) = evaluation_status_value (ed_status dn)"
  "camp_winner_candidate_id (decided_campaign en dn c) = ed_winner_candidate_id dn"
  "camp_total_cost_microunits (decided_campaign en dn c) = ed_total_cost_microunits dn"
  "camp_current_iteration (decided_campaign en dn c) = (case ed_next_iteration dn of None \<Rightarrow> camp_current_iteration c | Some n \<Rightarrow> n)"
  by (simp_all add: decided_campaign_def evaluation_policy_of_def)

lemma record_decision_decides:
  assumes rec: "record_decision cf fl en c actor key rd rep rt cs dn d = Inr (b, d')"
    and dec: "decide c cs = Inr dn" "\<forall>e\<in>set cs. check_candidate_evidence e = Inr ()"
    and st: "camp_status c \<in> {''OPEN'', ''REFINEMENT_REQUIRED''}"
  shows "decides c b (map (new_candidate_row en c dn) (enumerate 1 cs)) (decided_campaign en dn c) d d'" "bat_id b = en_uuid en 0"
proof -
  let ?rows = "map (new_candidate_row en c dn) (enumerate 1 cs)"
  have b: "b = new_batch cf fl en c actor key rd rep rt dn"
    and fresh: "(camp_id c, camp_current_iteration c) \<notin> (\<lambda>b. (bat_campaign_id b, bat_iteration b)) ` set (ev_batches d)"
    and d': "ev_batches d' = ev_batches d @ [b]" "ev_candidates d' = ev_candidates d @ ?rows"
      "ev_campaigns d' = row_upd camp_id (camp_id c) (decided_campaign en dn) (ev_campaigns d)" "ev_promotions d' = ev_promotions d"
      "evidence_kept d d'"
    using rec by (auto simp: evidence_kept_def record_decision_def Let_def tx_simps)
  have new: "\<forall>x\<in>set (ev_batches d). \<not> (bat_campaign_id x = camp_id c \<and> bat_iteration x = camp_current_iteration c)"
    using fresh by (auto simp: image_iff)
  note dn = decide_Inr [OF dec]
  have row: "\<exists>r\<in>set ?rows. cand_batch_id r = en_uuid en 0 \<and> cand_evidence r = e" if "e \<in> set cs" for e
  proof -
    from that obtain n where "(n, e) \<in> set (enumerate 1 cs)" by (metis in_set_impl_in_set_zip2 enumerate_eq_zip length_upt add_diff_cancel_left')
    then have "new_candidate_row en c dn (n, e) \<in> set ?rows" unfolding set_map by (rule imageI)
    then show ?thesis by (rule bexI [rotated]) (simp add: new_candidate_row_def)
  qed
  show "bat_id b = en_uuid en 0" by (simp add: b)
  have it: "camp_current_iteration (decided_campaign en dn c) =
      (if ed_status dn = VS_REFINEMENT_REQUIRED then camp_current_iteration c + 1 else camp_current_iteration c)"
    using dn(2) by simp
  have win: "ed_total_cost_microunits dn \<le> camp_max_total_cost_microunits c \<and>
      (\<exists>r\<in>set ?rows. cand_batch_id r = en_uuid en 0 \<and> cv_candidate_id (cand_evidence r) = i \<and> validated (evaluation_policy_of c) (cand_evidence r))"
    if i: "ed_winner_candidate_id dn = Some i" for i
  proof -
    obtain e where "e \<in> set cs" "cv_candidate_id e = i" "validated (evaluation_policy_of c) e" using dn(4) [OF i] by blast
    with row [of e] dn(4) [OF i] show ?thesis by metis
  qed
  show "decides c b ?rows (decided_campaign en dn c) d d'"
    unfolding decides_def
    by (intro conjI exI [of _ "decided_campaign en dn"])
      (use st new d' dn(1,3) it win evaluation_status_value_cases(1) [of "ed_status dn"] in
        \<open>simp_all add: b evaluation_status_value_cases(2,3)\<close>)
qed

lemma normalize_candidates_same: "normalize_candidates q ps rt cs = Inr cs' \<Longrightarrow> \<forall>e'\<in>set cs'. \<exists>e\<in>set cs. same_evidence e e'"
proof (induction cs arbitrary: cs')
  case (Cons c cs)
  then obtain c1 cs1 where "normalize_candidate q ps rt c = Inr c1" "normalize_candidates q ps rt cs = Inr cs1" "cs' = c1 # cs1"
    by (auto simp: tx_simps)
  moreover from this(1) have "same_evidence c c1"
    by (auto simp: normalize_candidate_def tx_simps Let_def split: option.splits if_splits)
  ultimately show ?case using Cons.IH by auto
qed simp

lemma str_get_set [simp]: "k \<noteq> k' \<Longrightarrow> str_get (dict_set x k' v) k = str_get x k"
  by (simp add: str_get_def dict_get_set)

lemma batch_dict_id [simp]: "str_get (evaluation_batch_dict cf fl b) ''id'' = bat_id b"
  by (simp add: str_get_def evaluation_batch_dict_def dict_get_def py_str_def)

lemma submit_evaluation_evidence_effect:
  assumes "submit_evaluation_evidence cf fl en wid cid actor key cs rep d = Inr (r, d')"
  shows "d' = d \<and> (\<exists>b\<in>set (ev_batches d). str_get r ''id'' = bat_id b \<and> bat_request_digest b = submission_digest cf cid cs rep) \<or>
    (\<exists>c b rows c'. row_get camp_id cid (ev_campaigns d) = Some c \<and> decides c b rows c' d d' \<and> bat_id b = en_uuid en 0 \<and>
      str_get r ''id'' = bat_id b \<and> bat_request_digest b = submission_digest cf cid cs rep \<and> bat_campaign_id b = cid \<and>
      (\<forall>k\<in>set rows. cand_batch_id k = bat_id b \<and> (\<exists>e\<in>set cs. same_evidence e (cand_evidence k))))"
proof (cases "find_by_key bat_actor_id bat_idempotency_key actor key (ev_batches d)")
  case (Some b)
  then have b: "b \<in> set (ev_batches d)" unfolding find_by_key_def find_Some_iff by auto
  from Some assms have "d' = d" "bat_request_digest b = submission_digest cf cid cs rep"
    "r = dict_set (evaluation_batch_dict cf fl b) ''replayed'' (JBool True)"
    by (auto simp: submit_evaluation_evidence_def replay_batch_def tx_simps Let_def)
  with b show ?thesis by (intro disjI1 conjI bexI [of _ b]) simp_all
next
  case None
  then obtain c rp q ps rt cs' dn b where c: "campaign_of d wid cid = Inr c" "camp_status c \<in> {''OPEN'', ''REFINEMENT_REQUIRED''}"
    and n: "normalize_candidates q ps rt cs = Inr cs'" and dn: "decide c cs' = Inr dn"
    and rec: "record_decision cf fl en c actor key (submission_digest cf cid cs rep) rp rt cs' dn d = Inr (b, d')"
    and r: "r = dict_set (evaluation_batch_dict cf fl b) ''replayed'' (JBool False)"
    using assms by (auto simp: submit_evaluation_evidence_def tx_simps Let_def split: if_splits)
  have g: "row_get camp_id cid (ev_campaigns d) = Some c" using c(1) by (simp add: campaign_of_Inr)
  have b: "b = new_batch cf fl en c actor key (submission_digest cf cid cs rep) rp rt dn"
    using rec by (auto simp: record_decision_def Let_def tx_simps)
  let ?rows = "map (new_candidate_row en c dn) (enumerate 1 cs')"
  note dec = record_decision_decides [OF rec dn normalize_candidates_ok [OF n] c(2)]
  have "cand_batch_id k = bat_id b \<and> (\<exists>e\<in>set cs. same_evidence e (cand_evidence k))" if "k \<in> set ?rows" for k
  proof -
    from that obtain i e where e: "k = new_candidate_row en c dn (i, e)" "(i, e) \<in> set (enumerate 1 cs')" by auto
    then have "e \<in> set cs'" by (metis enumerate_eq_zip set_zip_rightD)
    then show ?thesis using normalize_candidates_same [OF n] dec(2) by (simp add: e(1) new_candidate_row_def)
  qed
  moreover have "bat_request_digest b = submission_digest cf cid cs rep" "bat_campaign_id b = cid"
    using row.get_key [OF g] by (simp_all add: b new_batch_def)
  ultimately show ?thesis
    using g dec r by (intro disjI2 exI [of _ c] exI [of _ b] exI [of _ ?rows] exI [of _ "decided_campaign en dn c"]) simp
qed

lemma plan_evaluation_repair_effect:
  assumes "plan_evaluation_repair cf en wid cid actor key vs ra d = Inr (r, d')"
  shows "core_tables_kept d d'" "evidence_kept d d'"
  using assms by (auto simp: plan_evaluation_repair_def tx_simps Let_def kept_defs split: option.splits if_splits)

lemma interrupted_check_key [simp]: "chk_key (interrupted_check cf now k) = chk_key k" "chk_passed (interrupted_check cf now k) = Some False"
  by (simp_all add: interrupted_check_def chk_key_def Let_def)

lemma set_assessment_frame [simp]:
  "core_tables_kept d' (set_assessment aid s code d) \<longleftrightarrow> core_tables_kept d' d" "ev_runs (set_assessment aid s code d) = ev_runs d"
  "ev_artifacts (set_assessment aid s code d) = ev_artifacts d" "ev_checks (set_assessment aid s code d) = ev_checks d"
  "map asm_key (ev_assessments (set_assessment aid s code d)) = map asm_key (ev_assessments d)"
  unfolding set_assessment_def core_tables_kept_def by (simp_all add: asm_keys_upd asm_key_def)

lemma recover_rows_effect:
  assumes "recover_rows cf now a d = Inr (s, af, go, d')"
  shows "core_tables_kept d d'" "ev_runs d' = ev_runs d" "ev_artifacts d' = ev_artifacts d" "checks_weaker (ev_checks d) (ev_checks d')"
    "map asm_key (ev_assessments d') = map asm_key (ev_assessments d)"
proof -
  have w: "checks_weaker (ev_checks d) (map (\<lambda>k. if P k then interrupted_check cf now k else k) (ev_checks d))" for P
    by (rule checks_weaker_map) simp_all
  show "core_tables_kept d d'" "ev_runs d' = ev_runs d" "ev_artifacts d' = ev_artifacts d" "checks_weaker (ev_checks d) (ev_checks d')"
    "map asm_key (ev_assessments d') = map asm_key (ev_assessments d)"
    using assms w by (auto simp: recover_rows_def Let_def split: if_splits) (simp_all add: core_tables_kept_def)
qed

lemma commit_recovery_effect:
  assumes "commit_recovery cf en wid aid actor key rd ra d = Inr (x, d')"
  shows "core_tables_kept d d'" "ev_runs d' = ev_runs d" "ev_artifacts d' = ev_artifacts d" "checks_weaker (ev_checks d) (ev_checks d')"
    "map asm_key (ev_assessments d') = map asm_key (ev_assessments d)"
proof -
  obtain a s af go d1 where r: "recover_rows cf (en_now en 2) a d = Inr (s, af, go, d1)"
    and k: "core_tables_kept d1 d'" "evidence_kept d1 d'"
    using assms by (auto simp: commit_recovery_def tx_simps Let_def kept_defs)
  show "core_tables_kept d d'" "ev_runs d' = ev_runs d" "ev_artifacts d' = ev_artifacts d" "checks_weaker (ev_checks d) (ev_checks d')"
    "map asm_key (ev_assessments d') = map asm_key (ev_assessments d)"
    using recover_rows_effect [OF r] core_tables_keptD [OF k(1)] evidence_keptD [OF k(2)] by (simp_all add: core_tables_kept_def)
qed

lemma promote_evaluation_winner_effect:
  assumes "promote_evaluation_winner cf en wid aid actor key ra d = Inr (r, d')"
  shows "d' = d \<or> (\<exists>p c b. ev_promotions d' = ev_promotions d @ [p] \<and> pro_campaign_id p \<notin> pro_campaign_id ` set (ev_promotions d) \<and>
    row_get camp_id (pro_campaign_id p) (ev_campaigns d) = Some c \<and> row_get bat_id (pro_batch_id p) (ev_batches d) = Some b \<and>
    (\<exists>a\<in>set (ev_assessments d). asm_key a = (pro_assessment_id p, pro_campaign_id p, Some (pro_batch_id p))) \<and>
    (\<exists>t\<in>set (ev_artifacts d). art_id t = pro_artifact_id p \<and> art_digest t = pro_artifact_digest p \<and>
      art_assessment_id t = pro_assessment_id p \<and> art_provider_run_id t = pro_candidate_id p) \<and> evidence_kept d d' \<and>
    camp_status c = ''WINNER_SELECTED'' \<and> camp_winner_candidate_id c = Some (pro_candidate_id p) \<and>
    bat_winner_candidate_id b = Some (pro_candidate_id p) \<and>
    ev_campaigns d' = ev_campaigns d \<and> ev_batches d' = ev_batches d \<and> ev_candidates d' = ev_candidates d)"
proof (cases "find_by_key pro_actor_id pro_idempotency_key actor key (ev_promotions d)")
  case (Some x)
  then show ?thesis using assms by (auto simp: promote_evaluation_winner_def tx_simps Let_def)
next
  case None
  then obtain a i c b x p where asm: "promotable_assessment d wid aid = Inr (a, i)" and src: "promotion_source d a i = Inr (c, b, x)"
    and c: "camp_status c = ''WINNER_SELECTED''" "bat_winner_candidate_id b = camp_winner_candidate_id c"
      "camp_winner_candidate_id c = Some (pro_candidate_id p)" "pro_campaign_id p = camp_id c" "pro_batch_id p = bat_id b"
    and d': "ev_promotions d' = ev_promotions d @ [p]" "pro_campaign_id p \<notin> pro_campaign_id ` set (ev_promotions d)"
      "ev_campaigns d' = ev_campaigns d" "ev_batches d' = ev_batches d" "ev_candidates d' = ev_candidates d"
      "evidence_kept d d'" and t: "pro_assessment_id p = asm_id a"
      "\<exists>t. winner_artifact d (asm_id a) (pro_candidate_id p) = Some t \<and> pro_artifact_id p = art_id t \<and> pro_artifact_digest p = art_digest t"
    using assms by (fastforce simp: promote_evaluation_winner_def tx_simps Let_def evidence_kept_def split: if_splits)
  have g: "row_get camp_id (asm_campaign_id a) (ev_campaigns d) = Some c" "row_get bat_id i (ev_batches d) = Some b"
    using src by (auto simp: promotion_source_def tx_simps split: option.splits)
  have "row_get camp_id (pro_campaign_id p) (ev_campaigns d) = Some c" "row_get bat_id (pro_batch_id p) (ev_batches d) = Some b"
    using g row.get_key [OF g(1)] row.get_key [OF g(2)] c(4,5) by simp_all
  moreover have "\<exists>a\<in>set (ev_assessments d). asm_key a = (pro_assessment_id p, pro_campaign_id p, Some (pro_batch_id p))"
  proof -
    have "a \<in> set (ev_assessments d)" "asm_batch_id a = Some i"
      using asm by (auto simp: promotable_assessment_def tx_simps split: option.splits if_splits dest: row.get_SomeD)
    moreover have "asm_campaign_id a = pro_campaign_id p" "i = pro_batch_id p"
      using row.get_key [OF g(1)] row.get_key [OF g(2)] c(4,5) by simp_all
    ultimately show ?thesis using t(1) by (intro bexI [of _ a]) (simp_all add: asm_key_def)
  qed
  moreover have "\<exists>t\<in>set (ev_artifacts d). art_id t = pro_artifact_id p \<and> art_digest t = pro_artifact_digest p \<and>
      art_assessment_id t = pro_assessment_id p \<and> art_provider_run_id t = pro_candidate_id p"
    using t unfolding winner_artifact_def find_Some_iff by (metis nth_mem)
  ultimately show ?thesis using c d' by (intro disjI2 exI [of _ p] exI [of _ c] exI [of _ b]) simp
qed

end
