(* ===== verification/Evaluation_Provenance.thy ===== *)
theory Evaluation_Provenance
  imports Evaluation_Effects
begin

text \<open>
  Where the evidence of the pipeline comes from: the outputs the runs and the artifacts hold, the verdicts of
  the validators the checks hold, and the candidates made of them.
\<close>

section \<open>Outputs\<close>

definition output_hash :: "config \<Rightarrow> dict \<Rightarrow> string" where
  "output_hash cf out = ''sha256:'' @ cf_sha256 cf (dumps (JObj out))"

definition run_ok :: "config \<Rightarrow> evaluation_provider_run \<Rightarrow> bool" where
  "run_ok cf r \<longleftrightarrow> (run_status r = ''SUCCEEDED'' \<longrightarrow> run_output_digest r = Some (output_hash cf (run_output_json r)))"

definition run_outcome_ok :: "config \<Rightarrow> evaluation_run_outcome \<Rightarrow> bool" where
  "run_outcome_ok cf u \<longleftrightarrow> (uo_status u = ''SUCCEEDED'' \<longrightarrow> uo_output_digest u = Some (output_hash cf (uo_output u)))"

lemma status_value_not_succeeded [simp]: "evaluation_execution_status_value s \<noteq> ''SUCCEEDED''" "evaluation_assessment_status_value s' \<noteq> ''SUCCEEDED''"
  by (cases s; simp) (cases s'; simp)

lemma empty_outcome_ok [simp]: "run_outcome_ok cf (empty_outcome i s l c)"
  by (simp add: run_outcome_ok_def empty_outcome_def)

lemma succeeded_outcome_ok [simp]: "run_outcome_ok cf (succeeded_outcome cf i l r out)"
  by (simp add: run_outcome_ok_def succeeded_outcome_def output_hash_def)

lemma execute_evaluation_provider_run_ok: "run_outcome_ok cf (execute_evaluation_provider_run cf pv p)"
  by (auto simp: execute_evaluation_provider_run_def Let_def split: sum.splits json.splits)

lemma settle_runs_ok:
  assumes "settle_runs now xid us rows = Inr rows'" "\<forall>u\<in>set us. run_outcome_ok cf u" "\<forall>r\<in>set rows. run_ok cf r"
  shows "\<forall>r\<in>set rows'. run_ok cf r"
  using assms
proof (induction us arbitrary: rows)
  case (Cons u us)
  let ?rows = "row_upd run_id (uo_run_id u) (\<lambda>r. r\<lparr>run_status := uo_status u, run_output_json := uo_output u,
    run_output_digest := uo_output_digest u, run_usage_json := uo_usage u, run_latency_ms := Some (uo_latency_ms u),
    run_error_code := uo_error_code u, run_completed_at := Some now\<rparr>) rows"
  have s: "settle_runs now xid us ?rows = Inr rows'" using Cons.prems(1) by (auto split: option.splits if_splits)
  have "\<forall>r\<in>set ?rows. run_ok cf r" using Cons.prems(2,3) by (auto simp: row_upd_def run_ok_def run_outcome_ok_def)
  then show ?case using Cons.IH [OF s] Cons.prems(2) by simp
qed simp

lemma upd_frame [simp]:
  "core_tables_kept d' (upd_execution xid f d) \<longleftrightarrow> core_tables_kept d' d" "ev_runs (upd_execution xid f d) = ev_runs d"
  "ev_artifacts (upd_execution xid f d) = ev_artifacts d" "ev_checks (upd_execution xid f d) = ev_checks d"
  "ev_assessments (upd_execution xid f d) = ev_assessments d"
  "core_tables_kept d' (upd_runs P g d) \<longleftrightarrow> core_tables_kept d' d" "ev_runs (upd_runs P g d) = map (\<lambda>r. if P r then g r else r) (ev_runs d)"
  "ev_artifacts (upd_runs P g d) = ev_artifacts d" "ev_checks (upd_runs P g d) = ev_checks d"
  "ev_assessments (upd_runs P g d) = ev_assessments d"
  by (simp_all add: upd_execution_def upd_runs_def core_tables_kept_def)

text \<open>The four transactions on executions and runs.\<close>

definition runs_step :: "config \<Rightarrow> eval_db \<Rightarrow> eval_db \<Rightarrow> bool" where
  "runs_step cf d d' \<longleftrightarrow> core_tables_kept d d' \<and> ev_artifacts d' = ev_artifacts d \<and> ev_checks d' = ev_checks d \<and>
     ev_assessments d' = ev_assessments d \<and> ((\<forall>r\<in>set (ev_runs d). run_ok cf r) \<longrightarrow> (\<forall>r\<in>set (ev_runs d'). run_ok cf r))"

lemma commit_evaluation_plan_step:
  assumes "commit_evaluation_plan cf fl en wid cid tid actor key vs rep d = Inr (pn, d')"
  shows "runs_step cf d d'"
proof -
  have ok: "run_ok cf (new_provider_run cf rid xid c w t p v)" for rid xid c w t p v
    by (simp add: run_ok_def new_provider_run_def)
  show ?thesis
    using assms by (auto simp: commit_evaluation_plan_def tx_simps Let_def runs_step_def core_tables_kept_def ok split: option.splits if_splits)
qed

lemma start_evaluation_execution_step:
  assumes "start_evaluation_execution cf en wid cid pn d = Inr (r, d')"
  shows "runs_step cf d d'"
  using assms by (auto simp: start_evaluation_execution_def tx_simps Let_def runs_step_def run_ok_def core_tables_kept_def upd_execution_def upd_runs_def split: if_splits)

lemma finish_evaluation_execution_step:
  assumes "finish_evaluation_execution cf en wid cid xid us d = Inr (r, d')" "\<forall>u\<in>set us. run_outcome_ok cf u"
  shows "runs_step cf d d'"
proof -
  obtain rows where rows: "settle_runs (en_now en 0) xid us (ev_runs d) = Inr rows" "ev_runs d' = rows"
    and k: "core_tables_kept d d'" "ev_artifacts d' = ev_artifacts d" "ev_checks d' = ev_checks d" "ev_assessments d' = ev_assessments d"
    using assms(1) by (auto simp: finish_evaluation_execution_def tx_simps Let_def core_tables_kept_def upd_execution_def split: option.splits if_splits)
  show ?thesis unfolding runs_step_def using k settle_runs_ok [OF rows(1) assms(2)] rows(2) by simp
qed

lemma reconcile_evaluation_execution_step:
  assumes "reconcile_evaluation_execution cf en wid xid actor key ra d = Inr (r, d')"
  shows "runs_step cf d d'"
proof (cases "find_by_key rcn_actor_id rcn_idempotency_key actor key (ev_reconciliations d)")
  case (Some x)
  then show ?thesis using assms by (auto simp: reconcile_evaluation_execution_def tx_simps Let_def runs_step_def core_tables_kept_def)
next
  case None
  then obtain P now f i rows ev ac rt ri oc pl w where d': "d' = eval_audit cf w ev ac rt ri oc pl
      ((upd_runs P (\<lambda>r. r\<lparr>run_status := evaluation_execution_status_value XS_FAILED,
        run_error_code := Some ''HumanReconciledUnknownAsFailed'', run_completed_at := now\<rparr>) (upd_execution i f d))\<lparr>ev_reconciliations := rows\<rparr>)"
    using assms by (auto simp: reconcile_evaluation_execution_def tx_simps Let_def)
  show ?thesis unfolding runs_step_def d' by (auto simp: run_ok_def core_tables_kept_def upd_execution_def upd_runs_def)
qed

section \<open>Artifacts and checks\<close>

text \<open>The validator of that name, given the artifact, returned a passing outcome.\<close>

definition accepted :: "evaluation_validator list \<Rightarrow> string \<Rightarrow> evaluation_artifact_row \<Rightarrow> bool" where
  "accepted vs n t \<longleftrightarrow> (\<exists>v kind r. find_validator vs n = Some v \<and> vd_validate v (trusted_of kind t) = Inr r \<and> vo_passed r)"

definition check_ok :: "evaluation_validator list \<Rightarrow> evaluation_artifact_row list \<Rightarrow> evaluation_check_row \<Rightarrow> bool" where
  "check_ok vs ts k \<longleftrightarrow> (chk_passed k = Some True \<longrightarrow> (\<exists>t\<in>set ts. art_id t = chk_artifact_id k \<and> accepted vs (chk_check_name k) t))"

text \<open>A check in flight is the check of a row, with the validator of its name and the artifact of the row.\<close>

definition prepared_ok :: "evaluation_validator list \<Rightarrow> evaluation_artifact_row list \<Rightarrow> evaluation_check_row list \<Rightarrow> prepared_evaluation_check \<Rightarrow> bool" where
  "prepared_ok vs ts ks p \<longleftrightarrow> (\<exists>t\<in>set ts. \<exists>kind n. (pc_check_id p, art_id t, n) \<in> chk_key ` set ks \<and> pc_artifact p = trusted_of kind t \<and>
     find_validator vs n = Some (pc_validator p))"

lemma run_evaluation_check_id [simp]: "co_check_id (run_evaluation_check p) = pc_check_id p"
  by (simp add: run_evaluation_check_def Let_def split: sum.split)

lemma run_evaluation_check_passed:
  "co_passed (run_evaluation_check p) \<Longrightarrow> \<exists>r. vd_validate (pc_validator p) (pc_artifact p) = Inr r \<and> vo_passed r"
  by (auto simp: run_evaluation_check_def Let_def split: sum.splits if_splits)

lemma completed_check_simps [simp]: "chk_key (completed_check cf now u k) = chk_key k" "chk_passed (completed_check cf now u k) = Some (co_passed u)"
  "chk_id (completed_check cf now u k) = chk_id k"
  by (simp_all add: completed_check_def chk_key_def)

lemma settle_checks_Inr:
  assumes "settle_checks cf now aid us ks = Inr ks'"
  shows "map chk_key ks' = map chk_key ks"
    "\<forall>k'\<in>set ks'. k' \<in> set ks \<or> (\<exists>u\<in>set us. chk_id k' = co_check_id u \<and> chk_passed k' = Some (co_passed u))"
proof -
  have "map chk_key ks' = map chk_key ks \<and>
    (\<forall>k'\<in>set ks'. k' \<in> set ks \<or> (\<exists>u\<in>set us. chk_id k' = co_check_id u \<and> chk_passed k' = Some (co_passed u)))"
    using assms
  proof (induction us arbitrary: ks)
    case (Cons u us)
    let ?ks = "row_upd chk_id (co_check_id u) (completed_check cf now u) ks"
    have s: "settle_checks cf now aid us ?ks = Inr ks'" using Cons.prems by (auto split: option.splits if_splits)
    have "map chk_key ?ks = map chk_key ks" by (simp add: row_upd_def)
    moreover have "k \<in> set ks \<or> chk_id k = co_check_id u \<and> chk_passed k = Some (co_passed u)" if "k \<in> set ?ks" for k
      using that by (auto simp: row_upd_def)
    ultimately show ?case using Cons.IH [OF s] by (metis list.set_intros(1,2))
  qed simp
  then show "map chk_key ks' = map chk_key ks"
    "\<forall>k'\<in>set ks'. k' \<in> set ks \<or> (\<exists>u\<in>set us. chk_id k' = co_check_id u \<and> chk_passed k' = Some (co_passed u))" by simp_all
qed

lemma chk_key_inj:
  assumes "distinct (map chk_id ks)" "(i, t, n) \<in> chk_key ` set ks" "k \<in> set ks" "chk_id k = i"
  shows "chk_artifact_id k = t" "chk_check_name k = n"
proof -
  obtain k0 where k0: "k0 \<in> set ks" "chk_key k0 = (i, t, n)" using assms(2) by auto
  then have "k0 = k" using assms(1,3,4) by (auto simp: chk_key_def distinct_map inj_on_def)
  then show "chk_artifact_id k = t" "chk_check_name k = n" using k0(2) by (simp_all add: chk_key_def)
qed

lemma distinct_chk_id: "map chk_key ks' = map chk_key ks \<Longrightarrow> map chk_id ks' = map chk_id ks"
proof -
  have "map chk_id ks = map fst (map chk_key ks)" for ks by (simp add: chk_key_def comp_def)
  then show "map chk_key ks' = map chk_key ks \<Longrightarrow> map chk_id ks' = map chk_id ks" by metis
qed

lemma settle_checks_ok:
  assumes s: "settle_checks cf now aid (map run_evaluation_check ps) ks = Inr ks'" and d: "distinct (map chk_id ks)"
    and ps: "\<forall>p\<in>set ps. prepared_ok vs ts ks p" and ok: "\<forall>k\<in>set ks. check_ok vs ts k"
  shows "\<forall>k\<in>set ks'. check_ok vs ts k"
proof
  fix k assume k: "k \<in> set ks'"
  note eff = settle_checks_Inr [OF s]
  from eff(2) k consider "k \<in> set ks" | p where "p \<in> set ps" "chk_id k = pc_check_id p" "chk_passed k = Some (co_passed (run_evaluation_check p))"
    by fastforce
  then show "check_ok vs ts k"
  proof cases
    case 2
    obtain t kind n where t: "t \<in> set ts" "(pc_check_id p, art_id t, n) \<in> chk_key ` set ks" "pc_artifact p = trusted_of kind t"
      "find_validator vs n = Some (pc_validator p)" using ps 2(1) unfolding prepared_ok_def by blast
    have "chk_key ` set ks' = chk_key ` set ks" using arg_cong [OF eff(1), of set] by simp
    then have key: "chk_artifact_id k = art_id t" "chk_check_name k = n"
      using chk_key_inj [of ks' "pc_check_id p" "art_id t" n k] d distinct_chk_id [OF eff(1)] t(2) k 2(2) by simp_all
    show ?thesis unfolding check_ok_def
    proof
      assume "chk_passed k = Some True"
      then obtain r where "vd_validate (pc_validator p) (pc_artifact p) = Inr r" "vo_passed r"
        using 2(3) run_evaluation_check_passed [of p] by auto
      then have "accepted vs n t" unfolding accepted_def using t(3,4) by metis
      then show "\<exists>t\<in>set ts. art_id t = chk_artifact_id k \<and> accepted vs (chk_check_name k) t" using t(1) key by auto
    qed
  qed (use ok in blast)
qed

section \<open>Preparing an assessment\<close>

lemma map_filter_enumerate:
  assumes "\<And>j x y. f (j, x) = Some y \<Longrightarrow> g y = h j"
  shows "\<exists>js. map g (List.map_filter f (enumerate n xs)) = map h js \<and> sorted_wrt (<) js \<and> set js \<subseteq> {n..<n + length xs}"
proof (induction xs arbitrary: n)
  case (Cons x xs)
  obtain js where js: "map g (List.map_filter f (enumerate (Suc n) xs)) = map h js" "sorted_wrt (<) js" "set js \<subseteq> {Suc n..<Suc n + length xs}"
    using Cons.IH by blast
  show ?case
  proof (cases "f (n, x)")
    case None
    then show ?thesis using js by (intro exI [of _ js]) (auto simp: List.map_filter_simps)
  next
    case (Some y)
    then show ?thesis using js assms [OF Some] by (intro exI [of _ "n # js"]) (auto simp: List.map_filter_simps)
  qed
qed (simp add: List.map_filter_simps)

lemma assess_run_Inr:
  assumes "assess_run vs en a x cs t i r = Inr (art, kps)"
  shows "art_id art = en_uuid en i" "art_provider_run_id art = run_id r" "art_assessment_id art = asm_id a"
    "run_output_digest r = Some (art_digest art)" "art_content_json art = run_output_json r"
    "\<forall>(k, p)\<in>set kps. chk_key k = (pc_check_id p, art_id art, chk_check_name k) \<and> chk_passed k = None \<and>
       find_validator vs (chk_check_name k) = Some (pc_validator p) \<and> pc_artifact p = trusted_of (tk_kind t) art"
    "\<exists>js. map (chk_id \<circ> fst) kps = map (en_uuid en) js \<and> sorted_wrt (<) js \<and> set js \<subseteq> {Suc i..<Suc i + length cs}"
proof -
  let ?f = "\<lambda>art (j, name). case find_validator vs name of None \<Rightarrow> None
          | Some v \<Rightarrow> Some (new_check en (en_uuid en j) art name v,
              \<lparr>pc_check_id = en_uuid en j, pc_validator = v, pc_artifact = trusted_of (tk_kind t) art\<rparr>)"
  obtain dg where dg: "run_output_digest r = Some dg" and art: "art = new_artifact en (en_uuid en i) a x t r dg"
    and kps: "kps = List.map_filter (?f art) (enumerate (Suc i) (sort cs))"
    using assms by (auto simp: assess_run_def tx_simps Let_def)
  show "art_id art = en_uuid en i" "art_provider_run_id art = run_id r" "art_assessment_id art = asm_id a"
    "run_output_digest r = Some (art_digest art)" "art_content_json art = run_output_json r"
    by (simp_all add: art new_artifact_def dg)
  show "\<forall>(k, p)\<in>set kps. chk_key k = (pc_check_id p, art_id art, chk_check_name k) \<and> chk_passed k = None \<and>
       find_validator vs (chk_check_name k) = Some (pc_validator p) \<and> pc_artifact p = trusted_of (tk_kind t) art"
    unfolding kps by (auto simp: List.map_filter_def new_check_def chk_key_def split: option.splits)
  show "\<exists>js. map (chk_id \<circ> fst) kps = map (en_uuid en) js \<and> sorted_wrt (<) js \<and> set js \<subseteq> {Suc i..<Suc i + length cs}"
  proof -
    have "(chk_id \<circ> fst) y = en_uuid en j" if "?f art (j, n) = Some y" for j n y
      using that by (auto simp: new_check_def split: option.splits)
    from map_filter_enumerate [of "?f art" "chk_id \<circ> fst" "en_uuid en" "Suc i" "sort cs", OF this] show ?thesis
      unfolding kps length_sort .
  qed
qed

lemma ballE_imp: "\<forall>x\<in>A. P x \<Longrightarrow> (\<And>x. P x \<Longrightarrow> Q x) \<Longrightarrow> \<forall>x\<in>A. Q x"
  by blast

lemma sorted_wrt_append_less:
  "sorted_wrt (<) js \<Longrightarrow> set js \<subseteq> {a..<b} \<Longrightarrow> sorted_wrt (<) ls \<Longrightarrow> (\<forall>l\<in>set ls. b \<le> l) \<Longrightarrow> sorted_wrt (<) (js @ ls)" for b :: nat
  by (fastforce simp: sorted_wrt_append)

text \<open>The rows of an assessment: fresh identifiers, the outputs of successful runs, unanswered checks with their validators.\<close>

definition assessed :: "evaluation_validator list \<Rightarrow> env \<Rightarrow> ident \<Rightarrow> evaluation_provider_run list \<Rightarrow>
    evaluation_artifact_row \<times> (evaluation_check_row \<times> prepared_evaluation_check) list \<Rightarrow> bool" where
  "assessed vs en aid rs y \<longleftrightarrow> (case y of (art, kps) \<Rightarrow> art_id art \<in> range (en_uuid en) \<and> art_assessment_id art = aid \<and>
     (\<exists>r\<in>set rs. run_status r = ''SUCCEEDED'' \<and> run_output_digest r = Some (art_digest art) \<and> art_content_json art = run_output_json r) \<and>
     (\<forall>(k, p)\<in>set kps. chk_key k = (pc_check_id p, art_id art, chk_check_name k) \<and> chk_passed k = None \<and>
        find_validator vs (chk_check_name k) = Some (pc_validator p) \<and> (\<exists>kind. pc_artifact p = trusted_of kind art)))"

lemma assessed_Cons: "assessed vs en aid rs y \<Longrightarrow> assessed vs en aid (r # rs) y"
  unfolding assessed_def by (cases y) simp

lemma assess_run_assessed:
  assumes "assess_run vs en a x cs t i r = Inr y" "run_status r = ''SUCCEEDED''"
  shows "assessed vs en (asm_id a) (r # rs) y"
proof -
  obtain art kps where y: "y = (art, kps)" by (cases y)
  note f = assess_run_Inr [OF assms(1) [unfolded y]]
  have "\<forall>(k, p)\<in>set kps. chk_key k = (pc_check_id p, art_id art, chk_check_name k) \<and> chk_passed k = None \<and>
      find_validator vs (chk_check_name k) = Some (pc_validator p) \<and> (\<exists>kind. pc_artifact p = trusted_of kind art)"
    using f(6) by (rule ballE_imp) auto
  then show ?thesis unfolding assessed_def y prod.case using f(1,3-5) assms(2) by simp
qed

definition ids_from :: "env \<Rightarrow> nat \<Rightarrow> ident list \<Rightarrow> bool" where
  "ids_from en i xs \<longleftrightarrow> (\<exists>js. xs = map (en_uuid en) js \<and> sorted_wrt (<) js \<and> (\<forall>j\<in>set js. i \<le> j))"

lemma ids_from_distinct: "ids_from en i xs \<Longrightarrow> inj (en_uuid en) \<Longrightarrow> distinct xs"
  unfolding ids_from_def by (metis distinct_map inj_on_subset strict_sorted_iff subset_UNIV)

lemma ids_from_range: "ids_from en i xs \<Longrightarrow> x \<in> set xs \<Longrightarrow> x \<in> range (en_uuid en)"
  by (auto simp: ids_from_def)

lemma ids_from_append:
  assumes "xs = map (en_uuid en) js" "sorted_wrt (<) js" "set js \<subseteq> {i..<k}" "ids_from en k ys" "i \<le> k"
  shows "ids_from en i (xs @ ys)"
proof -
  obtain ls where ls: "ys = map (en_uuid en) ls" "sorted_wrt (<) ls" "\<forall>l\<in>set ls. k \<le> l" using assms(4) by (auto simp: ids_from_def)
  have "sorted_wrt (<) (js @ ls)" using sorted_wrt_append_less [OF assms(2,3) ls(2,3)] .
  moreover have "\<forall>j\<in>set (js @ ls). i \<le> j" using assms(3,5) ls(3) by auto
  ultimately show ?thesis unfolding ids_from_def assms(1) ls(1) by (metis map_append)
qed

lemma ids_from_le: "ids_from en k ys \<Longrightarrow> i \<le> k \<Longrightarrow> ids_from en i ys"
  unfolding ids_from_def by force

lemma assess_runs_Inr:
  assumes "assess_runs vs en a x cs t i rs = Inr ys"
  shows "(\<forall>y\<in>set ys. assessed vs en (asm_id a) rs y) \<and> ids_from en i (map (art_id \<circ> fst) ys) \<and>
    ids_from en i (map (chk_id \<circ> fst) (concat (map snd ys)))"
  using assms
proof (induction rs arbitrary: i ys)
  case (Cons r rs)
  show ?case
  proof (cases "run_status r = ''SUCCEEDED''")
    case False
    then have "assess_runs vs en a x cs t i rs = Inr ys" using Cons.prems by simp
    from Cons.IH [OF this] show ?thesis using assessed_Cons by metis
  next
    case True
    then obtain art kps zs where y: "assess_run vs en a x cs t i r = Inr (art, kps)"
      and zs: "assess_runs vs en a x cs t (Suc i + length cs) rs = Inr zs" and ys: "ys = (art, kps) # zs"
      using Cons.prems by (auto simp: tx_simps)
    note f = assess_run_Inr [OF y] and IH = Cons.IH [OF zs]
    obtain js where js: "map (chk_id \<circ> fst) kps = map (en_uuid en) js" "sorted_wrt (<) js" "set js \<subseteq> {Suc i..<Suc i + length cs}"
      using f(7) by blast
    have "\<forall>y\<in>set ys. assessed vs en (asm_id a) (r # rs) y"
      using assess_run_assessed [OF y True] IH assessed_Cons unfolding ys by (metis set_ConsD)
    moreover have "ids_from en i ([art_id art] @ map (art_id \<circ> fst) zs)"
      by (rule ids_from_append [of _ _ "[i]" _ "Suc i + length cs"]) (use IH f(1) in \<open>auto simp: comp_def\<close>)
    moreover have "ids_from en (Suc i) (map (chk_id \<circ> fst) kps @ map (chk_id \<circ> fst) (concat (map snd zs)))"
      by (rule ids_from_append [OF js]) (use IH in \<open>auto simp: comp_def\<close>)
    ultimately show ?thesis using ids_from_le [of en "Suc i" _ i] by (simp add: ys comp_def)
  qed
qed (simp add: ids_from_def)

text \<open>What preparing an assessment adds, with identifiers that are fresh.\<close>

definition ids_fresh :: "env \<Rightarrow> eval_db \<Rightarrow> bool" where
  "ids_fresh en d \<longleftrightarrow> inj (en_uuid en) \<and> range (en_uuid en) \<inter> (camp_id ` set (ev_campaigns d) \<union> bat_id ` set (ev_batches d) \<union>
     asm_id ` set (ev_assessments d) \<union> art_id ` set (ev_artifacts d) \<union> chk_id ` set (ev_checks d)) = {}"

lemma ids_freshD:
  assumes "ids_fresh en d"
  shows "inj (en_uuid en)" "en_uuid en i \<notin> camp_id ` set (ev_campaigns d)" "en_uuid en i \<notin> bat_id ` set (ev_batches d)"
    "en_uuid en i \<notin> asm_id ` set (ev_assessments d)" "en_uuid en i \<notin> art_id ` set (ev_artifacts d)" "en_uuid en i \<notin> chk_id ` set (ev_checks d)"
  using assms unfolding ids_fresh_def by blast+

definition artifacts_ok :: "config \<Rightarrow> evaluation_artifact_row list \<Rightarrow> bool" where
  "artifacts_ok cf ts \<longleftrightarrow> distinct (map art_id ts) \<and> distinct (map art_provider_run_id ts) \<and>
     (\<forall>t\<in>set ts. art_digest t = output_hash cf (art_content_json t))"

definition checks_ok :: "evaluation_validator list \<Rightarrow> evaluation_artifact_row list \<Rightarrow> evaluation_check_row list \<Rightarrow> bool" where
  "checks_ok vs ts ks \<longleftrightarrow> distinct (map chk_id ks) \<and> (\<forall>k\<in>set ks. check_ok vs ts k)"

lemma check_ok_mono: "check_ok vs ts k \<Longrightarrow> set ts \<subseteq> set ts' \<Longrightarrow> check_ok vs ts' k"
  unfolding check_ok_def by blast

lemma prepared_ok_mono: "prepared_ok vs ts ks p \<Longrightarrow> set ts \<subseteq> set ts' \<Longrightarrow> chk_key ` set ks \<subseteq> chk_key ` set ks' \<Longrightarrow> prepared_ok vs ts' ks' p"
  unfolding prepared_ok_def by blast

lemma distinct_append_fresh:
  assumes "ids_from en i ys" "inj (en_uuid en)" "distinct xs" "range (en_uuid en) \<inter> set xs = {}"
  shows "distinct (xs @ ys)"
  using ids_from_distinct [OF assms(1,2)] ids_from_range [OF assms(1)] assms(3,4) by auto

lemma assessed_artifact:
  assumes "assessed vs en aid rs y" "\<forall>r\<in>set rs. run_ok cf r"
  shows "art_digest (fst y) = output_hash cf (art_content_json (fst y))"
  using assms by (cases y) (fastforce simp: assessed_def run_ok_def)

lemma assessed_check:
  assumes "assessed vs en aid rs y" "(k, p) \<in> set (snd y)"
  shows "chk_passed k = None" "chk_key k = (pc_check_id p, art_id (fst y), chk_check_name k)"
    "find_validator vs (chk_check_name k) = Some (pc_validator p)" "\<exists>kind. pc_artifact p = trusted_of kind (fst y)"
  using assms unfolding assessed_def by (cases y, auto)+

lemma assessed_prepared:
  assumes ys: "\<forall>y\<in>set ys. assessed vs en aid rs y" and p: "p \<in> set (map snd (concat (map snd ys)))"
    and sub: "fst ` set ys \<subseteq> set ts" "set (map fst (concat (map snd ys))) \<subseteq> set ks"
  shows "prepared_ok vs ts ks p"
proof -
  obtain y k where y: "y \<in> set ys" and k: "(k, p) \<in> set (snd y)" using p by auto
  note f = assessed_check [OF bspec [OF ys y] k]
  have "k \<in> set (map fst (concat (map snd ys)))" using y k by (auto simp: image_iff) (metis fst_conv)
  then have "(pc_check_id p, art_id (fst y), chk_check_name k) \<in> chk_key ` set ks" using sub(2) f(2) by (metis image_eqI subsetD)
  moreover have "fst y \<in> set ts" using sub(1) y by auto
  ultimately show ?thesis unfolding prepared_ok_def using f(3,4) by blast
qed

lemma assessed_unanswered:
  assumes ys: "\<forall>y\<in>set ys. assessed vs en aid rs y" and k: "k \<in> set (map fst (concat (map snd ys)))"
  shows "check_ok vs ts k"
proof -
  obtain y p where y: "y \<in> set ys" "(k, p) \<in> set (snd y)" using k by auto
  then show ?thesis using assessed_check(1) [OF bspec [OF ys y(1)] y(2)] by (simp add: check_ok_def)
qed

lemma commit_evaluation_assessment_Inr:
  assumes "commit_evaluation_assessment cf vs en wid xid actor key d = Inr ((aid, ps), d')"
  obtains a x cs t ys where "assess_runs vs en a x cs t 1 (execution_runs d (exe_id x)) = Inr ys" "asm_id a = en_uuid en 0" "asm_batch_id a = None"
    "distinct (map art_provider_run_id (map fst ys))" "art_provider_run_id ` set (map fst ys) \<inter> art_provider_run_id ` set (ev_artifacts d) = {}"
    "ps = map snd (concat (map snd ys))" "ev_assessments d' = ev_assessments d @ [a]" "ev_artifacts d' = ev_artifacts d @ map fst ys"
    "ev_checks d' = ev_checks d @ map fst (concat (map snd ys))" "core_tables_kept d d'" "ev_runs d' = ev_runs d"
  using assms unfolding commit_evaluation_assessment_def Let_def
  by (clarsimp simp only: tx_simps prod.inject)
    (auto simp: new_evaluation_assessment_def core_tables_kept_def row_add_def)

lemma commit_evaluation_assessment_effect:
  assumes tx: "commit_evaluation_assessment cf vs en wid xid actor key d = Inr ((aid, ps), d')" and fr: "ids_fresh en d"
    and runs: "\<forall>r\<in>set (ev_runs d). run_ok cf r" and arts: "artifacts_ok cf (ev_artifacts d)" and ks: "checks_ok vs (ev_artifacts d) (ev_checks d)"
  shows "core_tables_kept d d'" "ev_runs d' = ev_runs d" "set (ev_artifacts d) \<subseteq> set (ev_artifacts d')" "artifacts_ok cf (ev_artifacts d')"
    "chk_key ` set (ev_checks d) \<subseteq> chk_key ` set (ev_checks d')" "checks_ok vs (ev_artifacts d') (ev_checks d')"
    "\<forall>p\<in>set ps. prepared_ok vs (ev_artifacts d') (ev_checks d') p"
    "\<exists>a. ev_assessments d' = ev_assessments d @ [a] \<and> asm_id a \<notin> asm_id ` set (ev_assessments d) \<and> asm_batch_id a = None"
proof -
  obtain a x cs t ys where y: "assess_runs vs en a x cs t 1 (execution_runs d (exe_id x)) = Inr ys" "asm_id a = en_uuid en 0" "asm_batch_id a = None"
    and uq: "distinct (map art_provider_run_id (map fst ys))" "art_provider_run_id ` set (map fst ys) \<inter> art_provider_run_id ` set (ev_artifacts d) = {}"
    and ps: "ps = map snd (concat (map snd ys))"
    and d': "ev_assessments d' = ev_assessments d @ [a]" "ev_artifacts d' = ev_artifacts d @ map fst ys"
      "ev_checks d' = ev_checks d @ map fst (concat (map snd ys))" "core_tables_kept d d'" "ev_runs d' = ev_runs d"
    by (rule commit_evaluation_assessment_Inr [OF tx])
  note f = assess_runs_Inr [OF y(1)] and fresh = ids_freshD [OF fr]
  have as: "\<forall>y\<in>set ys. assessed vs en (asm_id a) (execution_runs d (exe_id x)) y" using f by blast
  have "set (execution_runs d (exe_id x)) \<subseteq> set (ev_runs d)" by (auto simp: execution_runs_def)
  then have rok: "\<forall>r\<in>set (execution_runs d (exe_id x)). run_ok cf r" using runs by blast
  show "core_tables_kept d d'" "ev_runs d' = ev_runs d" by (fact d')+
  show sub: "set (ev_artifacts d) \<subseteq> set (ev_artifacts d')" "chk_key ` set (ev_checks d) \<subseteq> chk_key ` set (ev_checks d')" by (auto simp: d')
  show "\<exists>a. ev_assessments d' = ev_assessments d @ [a] \<and> asm_id a \<notin> asm_id ` set (ev_assessments d) \<and> asm_batch_id a = None"
    using d'(1) y(2,3) fresh(4) by metis
  have frees: "range (en_uuid en) \<inter> set (map art_id (ev_artifacts d)) = {}" "range (en_uuid en) \<inter> set (map chk_id (ev_checks d)) = {}"
    using fr unfolding ids_fresh_def set_map by blast+
  have "distinct (map art_id (ev_artifacts d))" "distinct (map chk_id (ev_checks d))" using arts ks by (simp_all add: artifacts_ok_def checks_ok_def)
  then have dis: "distinct (map art_id (ev_artifacts d) @ map (art_id \<circ> fst) ys)"
      "distinct (map chk_id (ev_checks d) @ map (chk_id \<circ> fst) (concat (map snd ys)))"
    using distinct_append_fresh [OF f [THEN conjunct2, THEN conjunct1] fresh(1) _ frees(1)]
      distinct_append_fresh [OF f [THEN conjunct2, THEN conjunct2] fresh(1) _ frees(2)] by blast+
  have "\<forall>t\<in>set (map fst ys). art_digest t = output_hash cf (art_content_json t)" using as assessed_artifact [OF _ rok] by auto
  then show "artifacts_ok cf (ev_artifacts d')" using arts dis(1) uq by (auto simp: artifacts_ok_def d')
  have "check_ok vs (ev_artifacts d') k" if "k \<in> set (ev_checks d')" for k
    using that ks check_ok_mono [OF _ sub(1)] assessed_unanswered [OF as] unfolding d'(3) checks_ok_def set_append by blast
  then show "checks_ok vs (ev_artifacts d') (ev_checks d')" using dis(2) by (simp add: checks_ok_def d' comp_def)
  show "\<forall>p\<in>set ps. prepared_ok vs (ev_artifacts d') (ev_checks d') p"
    using assessed_prepared [OF as, of _ "ev_artifacts d'" "ev_checks d'"] unfolding ps d'(2,3) by auto
qed

text \<open>The later transactions of an assessment keep the runs and the artifacts, and the columns that name what a row belongs to.\<close>

definition assessment_step :: "eval_db \<Rightarrow> eval_db \<Rightarrow> bool" where
  "assessment_step d d' \<longleftrightarrow> core_tables_kept d d' \<and> ev_runs d' = ev_runs d \<and> ev_artifacts d' = ev_artifacts d \<and>
     checks_weaker (ev_checks d) (ev_checks d') \<and> map asm_key (ev_assessments d') = map asm_key (ev_assessments d)"

lemma checks_weaker_keys: "checks_weaker ks ks' \<Longrightarrow> chk_key ` set ks' = chk_key ` set ks" "checks_weaker ks ks' \<Longrightarrow> map chk_id ks' = map chk_id ks"
  unfolding checks_weaker_def using distinct_chk_id by (metis set_map)+

lemma checks_ok_weaker:
  assumes "checks_weaker ks ks'" "checks_ok vs ts ks"
  shows "checks_ok vs ts ks'"
proof -
  have "check_ok vs ts k'" if k': "k' \<in> set ks'" for k'
    unfolding check_ok_def
  proof
    assume "chk_passed k' = Some True"
    then obtain k where k: "k \<in> set ks" "chk_key k = chk_key k'" "chk_passed k = Some True"
      using assms(1) k' unfolding checks_weaker_def by blast
    then show "\<exists>t\<in>set ts. art_id t = chk_artifact_id k' \<and> accepted vs (chk_check_name k') t"
      using assms(2) unfolding checks_ok_def check_ok_def chk_key_def by (metis prod.inject)
  qed
  then show ?thesis using assms(2) checks_weaker_keys(2) [OF assms(1)] by (simp add: checks_ok_def)
qed

lemma upd_evaluation_assessment_frame [simp]:
  "core_tables_kept d' (upd_evaluation_assessment aid f d) \<longleftrightarrow> core_tables_kept d' d" "ev_runs (upd_evaluation_assessment aid f d) = ev_runs d"
  "ev_artifacts (upd_evaluation_assessment aid f d) = ev_artifacts d" "ev_checks (upd_evaluation_assessment aid f d) = ev_checks d"
  "ev_assessments (upd_evaluation_assessment aid f d) = row_upd asm_id aid f (ev_assessments d)"
  "ev_campaigns (upd_evaluation_assessment aid f d) = ev_campaigns d" "ev_batches (upd_evaluation_assessment aid f d) = ev_batches d"
  "ev_candidates (upd_evaluation_assessment aid f d) = ev_candidates d" "ev_promotions (upd_evaluation_assessment aid f d) = ev_promotions d"
  by (simp_all add: upd_evaluation_assessment_def core_tables_kept_def)

lemma start_evaluation_checks_effect:
  assumes "start_evaluation_checks aid d = Inr (r, d')"
  shows "assessment_step d d'"
proof -
  have w: "checks_weaker (ev_checks d) (map (\<lambda>k. if chk_assessment_id k = aid then k\<lparr>chk_status := s\<rparr> else k) (ev_checks d))" for s
    by (rule checks_weaker_map) (simp_all add: chk_key_def)
  show ?thesis using assms w
    by (auto simp: start_evaluation_checks_def tx_simps assessment_step_def core_tables_kept_def asm_keys_upd asm_key_def)
qed

lemma finish_evaluation_checks_effect:
  assumes "finish_evaluation_checks cf en aid (map run_evaluation_check ps) d = Inr (r, d')"
    and ks: "checks_ok vs (ev_artifacts d) (ev_checks d)" and ps: "\<forall>p\<in>set ps. prepared_ok vs (ev_artifacts d) (ev_checks d) p"
  shows "core_tables_kept d d'" "ev_runs d' = ev_runs d" "ev_artifacts d' = ev_artifacts d" "chk_key ` set (ev_checks d') = chk_key ` set (ev_checks d)"
    "checks_ok vs (ev_artifacts d) (ev_checks d')" "map asm_key (ev_assessments d') = map asm_key (ev_assessments d)"
proof -
  have s: "settle_checks cf (en_now en 0) aid (map run_evaluation_check ps) (ev_checks d) = Inr (ev_checks d')"
    and k: "core_tables_kept d d'" "ev_runs d' = ev_runs d" "ev_artifacts d' = ev_artifacts d" "map asm_key (ev_assessments d') = map asm_key (ev_assessments d)"
    using assms(1) by (auto simp: finish_evaluation_checks_def tx_simps core_tables_kept_def asm_keys_upd asm_key_def split: option.splits if_splits)
  show "core_tables_kept d d'" "ev_runs d' = ev_runs d" "ev_artifacts d' = ev_artifacts d" "map asm_key (ev_assessments d') = map asm_key (ev_assessments d)"
    by (fact k)+
  note e = settle_checks_Inr(1) [OF s]
  show "chk_key ` set (ev_checks d') = chk_key ` set (ev_checks d)" using arg_cong [OF e, of set] by simp
  show "checks_ok vs (ev_artifacts d) (ev_checks d')"
    using settle_checks_ok [OF s _ ps] ks distinct_chk_id [OF e] by (simp add: checks_ok_def)
qed

lemma prepare_evaluation_reviews_effect:
  assumes "prepare_evaluation_reviews cf en aid actor d = Inr (r, d')"
  shows "assessment_step d d'"
  using assms by (auto simp: prepare_evaluation_reviews_def tx_simps assessment_step_def core_tables_kept_def asm_keys_upd asm_key_def)

lemma skip_evaluation_reviews_effect:
  assumes "skip_evaluation_reviews aid d = Inr (r, d')"
  shows "assessment_step d d'"
  using assms by (auto simp: skip_evaluation_reviews_def assessment_step_def core_tables_kept_def asm_keys_upd asm_key_def split: option.splits if_splits)

lemma start_evaluation_reviews_effect:
  assumes "start_evaluation_reviews en aid d = Inr (r, d')"
  shows "assessment_step d d'"
  using assms by (auto simp: start_evaluation_reviews_def assessment_step_def core_tables_kept_def asm_keys_upd asm_key_def split: option.splits if_splits)

lemma finish_evaluation_reviews_effect:
  assumes "finish_evaluation_reviews cf fl en aid us d = Inr (r, d')"
  shows "assessment_step d d'"
  using assms by (auto simp: finish_evaluation_reviews_def Let_def tx_simps assessment_step_def core_tables_kept_def asm_keys_upd asm_key_def
      split: option.splits if_splits)

lemma commit_review_reconciliation_effect:
  assumes "commit_review_reconciliation cf en wid aid actor key ra d = Inr (r, d')"
  shows "assessment_step d d'"
  using assms by (auto simp: commit_review_reconciliation_def Let_def tx_simps assessment_step_def core_tables_kept_def asm_keys_upd asm_key_def
      split: option.splits)

lemma recovery_step: "commit_recovery cf en wid aid actor key rd ra d = Inr (x, d') \<Longrightarrow> assessment_step d d'"
  unfolding assessment_step_def by (intro conjI commit_recovery_effect)

section \<open>Evidence\<close>

text \<open>A successful candidate is the output of an artifact of the assessment, and its passed checks were passed by that artifact.\<close>

definition from_trusted :: "evaluation_validator list \<Rightarrow> evaluation_artifact_row list \<Rightarrow> ident \<Rightarrow> candidate_evidence \<Rightarrow> bool" where
  "from_trusted vs ts aid e \<longleftrightarrow> (cv_succeeded e \<longrightarrow> (\<exists>t\<in>set ts. art_assessment_id t = aid \<and> art_provider_run_id t = cv_candidate_id e \<and>
     cv_output_digest e = Some (art_digest t) \<and> (\<forall>k\<in>set (cv_checks e). dk_passed k \<longrightarrow> accepted vs (dk_name k) t)))"

lemma from_trusted_mono: "from_trusted vs ts aid e \<Longrightarrow> set ts \<subseteq> set ts' \<Longrightarrow> from_trusted vs ts' aid e"
  unfolding from_trusted_def by blast

lemma from_trusted_same: "from_trusted vs ts aid e \<Longrightarrow> same_evidence e f \<Longrightarrow> from_trusted vs ts aid f"
  by (simp add: from_trusted_def same_evidence_def)

lemma trusted_checks_row:
  assumes "c \<in> set (trusted_checks d aid tid)" "dk_passed c"
  shows "\<exists>k\<in>set (ev_checks d). chk_artifact_id k = tid \<and> chk_check_name k = dk_name c \<and> chk_passed k = Some True"
  using assms by (auto simp: trusted_checks_def List.map_filter_def split: option.splits if_splits)

lemma trusted_candidate_from_trusted:
  assumes arts: "artifacts_ok cf (ev_artifacts d)" and ks: "checks_ok vs (ev_artifacts d) (ev_checks d)"
  shows "from_trusted vs (ev_artifacts d) aid (trusted_candidate fv d aid x r)"
  unfolding from_trusted_def
proof
  assume "cv_succeeded (trusted_candidate fv d aid x r)"
  then obtain t where g: "artifact_of_run d aid (run_id r) = Some t" by (auto simp: trusted_candidate_def Let_def)
  have t: "t \<in> set (ev_artifacts d)" "art_assessment_id t = aid" "art_provider_run_id t = run_id r"
    using row.get_SomeD [OF g [unfolded artifact_of_run_def]] row.get_key [OF g [unfolded artifact_of_run_def]] by auto
  have "accepted vs (dk_name c) t" if c: "c \<in> set (trusted_checks d aid (art_id t))" "dk_passed c" for c
  proof -
    obtain k where k: "k \<in> set (ev_checks d)" "chk_artifact_id k = art_id t" "chk_check_name k = dk_name c" "chk_passed k = Some True"
      using trusted_checks_row [OF c] by blast
    obtain u where "u \<in> set (ev_artifacts d)" "art_id u = art_id t" "accepted vs (dk_name c) u"
      using ks k unfolding checks_ok_def check_ok_def by metis
    then show ?thesis using arts t(1) unfolding artifacts_ok_def by (metis distinct_map inj_onD)
  qed
  then show "\<exists>t\<in>set (ev_artifacts d). art_assessment_id t = aid \<and> art_provider_run_id t = cv_candidate_id (trusted_candidate fv d aid x r) \<and>
      cv_output_digest (trusted_candidate fv d aid x r) = Some (art_digest t) \<and>
      (\<forall>k\<in>set (cv_checks (trusted_candidate fv d aid x r)). dk_passed k \<longrightarrow> accepted vs (dk_name k) t)"
    using t g by (intro bexI [OF _ t(1)]) (simp add: trusted_candidate_def Let_def)
qed

lemma trusted_evidence_from_trusted:
  assumes "trusted_evidence fv d a = Inr (x, cs)" "artifacts_ok cf (ev_artifacts d)" "checks_ok vs (ev_artifacts d) (ev_checks d)"
  shows "\<forall>e\<in>set cs. from_trusted vs (ev_artifacts d) (asm_id a) e"
proof -
  obtain x' where "cs = map (trusted_candidate fv d (asm_id a) x') (execution_runs d (exe_id x'))"
    using assms(1) by (auto simp: trusted_evidence_def Let_def tx_simps split: option.splits if_splits)
  then show ?thesis using trusted_candidate_from_trusted [OF assms(2,3)] by simp
qed

text \<open>The decision is written to the assessment it was made for.\<close>

lemma conclude_assessment_effect:
  assumes "conclude_assessment cf fl en aid actor dec d = Inr (r, d')"
  shows "core_tables_kept d d'" "ev_runs d' = ev_runs d" "ev_artifacts d' = ev_artifacts d" "ev_checks d' = ev_checks d"
    "\<exists>f. ev_assessments d' = row_upd asm_id aid f (ev_assessments d) \<and>
      (\<forall>a. asm_id (f a) = asm_id a \<and> asm_campaign_id (f a) = asm_campaign_id a \<and> (asm_batch_id (f a) = asm_batch_id a \<or> asm_batch_id (f a) = Some (str_get dec ''id'')))"
proof -
  define g :: "evaluation_assessment \<Rightarrow> evaluation_assessment" where "g = (\<lambda>a. a\<lparr>asm_status := evaluation_assessment_status_value SS_DECIDED, asm_batch_id := Some (str_get dec ''id''),
    asm_completed_at := Some (en_now en 0)\<rparr>)"
  have *: "core_tables_kept d d' \<and> ev_runs d' = ev_runs d \<and> ev_artifacts d' = ev_artifacts d \<and> ev_checks d' = ev_checks d \<and>
    (ev_assessments d' = row_upd asm_id aid (\<lambda>a. a) (ev_assessments d) \<or> ev_assessments d' = row_upd asm_id aid g (ev_assessments d))"
    using assms by (auto simp: conclude_assessment_def Let_def tx_simps add_observations_def core_tables_kept_def g_def row_upd_def split: if_splits)
  then show "core_tables_kept d d'" "ev_runs d' = ev_runs d" "ev_artifacts d' = ev_artifacts d" "ev_checks d' = ev_checks d" by blast+
  have "\<forall>a. asm_id (g a) = asm_id a \<and> asm_campaign_id (g a) = asm_campaign_id a \<and> asm_batch_id (g a) = Some (str_get dec ''id'')"
    by (simp add: g_def)
  with * show "\<exists>f. ev_assessments d' = row_upd asm_id aid f (ev_assessments d) \<and>
      (\<forall>a. asm_id (f a) = asm_id a \<and> asm_campaign_id (f a) = asm_campaign_id a \<and> (asm_batch_id (f a) = asm_batch_id a \<or> asm_batch_id (f a) = Some (str_get dec ''id'')))"
    by (metis (no_types, lifting))
qed

end
