(* ===== verification/Evaluation_Core.thy ===== *)
theory Evaluation_Core
  imports Evaluation_Provenance
begin

text \<open>
  The invariant of the tables of campaigns, batches, candidates and promotions, and that a new campaign, a decided
  submission and a promotion keep it.
\<close>

section \<open>Campaigns, batches and promotions\<close>

definition campaign_batches :: "eval_db \<Rightarrow> evaluation_campaign \<Rightarrow> evaluation_batch_row list" where
  "campaign_batches d c = filter (\<lambda>b. bat_campaign_id b = camp_id c) (ev_batches d)"

text \<open>The iterations that have been decided are \<open>1\<close> to the current one, which counts once the campaign is over.\<close>

definition campaign_ok :: "eval_db \<Rightarrow> evaluation_campaign \<Rightarrow> bool" where
  "campaign_ok d c \<longleftrightarrow> check_evaluation_policy (evaluation_policy_of c) = Inr () \<and>
     camp_status c \<in> {''OPEN'', ''WINNER_SELECTED'', ''REFINEMENT_REQUIRED'', ''EXHAUSTED''} \<and>
     1 \<le> camp_current_iteration c \<and> camp_current_iteration c \<le> camp_max_iterations c \<and>
     distinct (map bat_iteration (campaign_batches d c)) \<and>
     set (map bat_iteration (campaign_batches d c)) =
       (if camp_status c \<in> {''OPEN'', ''REFINEMENT_REQUIRED''} then {1..<camp_current_iteration c} else {1..camp_current_iteration c}) \<and>
     (camp_status c = ''WINNER_SELECTED'' \<longleftrightarrow> camp_winner_candidate_id c \<noteq> None) \<and>
     (camp_winner_candidate_id c \<noteq> None \<longrightarrow> camp_total_cost_microunits c \<le> camp_max_total_cost_microunits c)"

definition winner_recorded :: "eval_db \<Rightarrow> evaluation_campaign \<Rightarrow> evaluation_batch_row \<Rightarrow> string \<Rightarrow> bool" where
  "winner_recorded d c b i \<longleftrightarrow> (\<exists>r\<in>set (ev_candidates d). cand_batch_id r = bat_id b \<and> cv_candidate_id (cand_evidence r) = i \<and>
     validated (evaluation_policy_of c) (cand_evidence r))"

definition batch_ok :: "eval_db \<Rightarrow> evaluation_batch_row \<Rightarrow> bool" where
  "batch_ok d b \<longleftrightarrow> (\<exists>c\<in>set (ev_campaigns d). camp_id c = bat_campaign_id b \<and>
     (\<forall>i. bat_winner_candidate_id b = Some i \<longrightarrow> winner_recorded d c b i))"

definition promotion_ok :: "eval_db \<Rightarrow> evaluation_promotion \<Rightarrow> bool" where
  "promotion_ok d p \<longleftrightarrow> (\<exists>c\<in>set (ev_campaigns d). \<exists>b\<in>set (ev_batches d). camp_id c = pro_campaign_id p \<and> bat_id b = pro_batch_id p \<and>
     camp_status c = ''WINNER_SELECTED'' \<and> camp_winner_candidate_id c = Some (pro_candidate_id p) \<and>
     bat_winner_candidate_id b = Some (pro_candidate_id p))"

definition campaigns_ok :: "eval_db \<Rightarrow> bool" where
  "campaigns_ok d \<longleftrightarrow> distinct (map camp_id (ev_campaigns d)) \<and> (\<forall>c\<in>set (ev_campaigns d). campaign_ok d c) \<and>
     distinct (map bat_id (ev_batches d)) \<and> (\<forall>b\<in>set (ev_batches d). batch_ok d b) \<and>
     distinct (map pro_campaign_id (ev_promotions d)) \<and> (\<forall>p\<in>set (ev_promotions d). promotion_ok d p)"

lemma campaign_ok_cong: "ev_batches d' = ev_batches d \<Longrightarrow> campaign_ok d' c \<longleftrightarrow> campaign_ok d c"
  by (simp only: campaign_ok_def campaign_batches_def)

lemma batch_ok_mono:
  assumes "batch_ok d b" "set (ev_campaigns d) \<subseteq> set (ev_campaigns d')" "set (ev_candidates d) \<subseteq> set (ev_candidates d')"
  shows "batch_ok d' b"
  using assms unfolding batch_ok_def winner_recorded_def by (meson subsetD)

lemma promotion_ok_mono:
  assumes "promotion_ok d p" "set (ev_campaigns d) \<subseteq> set (ev_campaigns d')" "set (ev_batches d) \<subseteq> set (ev_batches d')"
  shows "promotion_ok d' p"
  using assms unfolding promotion_ok_def by (meson subsetD)

lemma campaigns_okI:
  assumes "distinct (map camp_id (ev_campaigns d))" "\<And>c. c \<in> set (ev_campaigns d) \<Longrightarrow> campaign_ok d c"
    "distinct (map bat_id (ev_batches d))" "\<And>b. b \<in> set (ev_batches d) \<Longrightarrow> batch_ok d b"
    "distinct (map pro_campaign_id (ev_promotions d))" "\<And>p. p \<in> set (ev_promotions d) \<Longrightarrow> promotion_ok d p"
  shows "campaigns_ok d"
  using assms by (simp add: campaigns_ok_def)

lemma campaigns_okD:
  assumes "campaigns_ok d"
  shows "distinct (map camp_id (ev_campaigns d))" "c \<in> set (ev_campaigns d) \<Longrightarrow> campaign_ok d c"
    "distinct (map bat_id (ev_batches d))" "b \<in> set (ev_batches d) \<Longrightarrow> batch_ok d b"
    "distinct (map pro_campaign_id (ev_promotions d))" "p \<in> set (ev_promotions d) \<Longrightarrow> promotion_ok d p"
  using assms by (simp_all add: campaigns_ok_def)

lemma campaigns_ok_core:
  assumes ok: "campaigns_ok d" and d': "core_tables_kept d d'"
  shows "campaigns_ok d'"
proof (rule campaigns_okI)
  have eq: "ev_campaigns d' = ev_campaigns d" "ev_batches d' = ev_batches d" "ev_candidates d' = ev_candidates d" "ev_promotions d' = ev_promotions d"
    using d' by (simp_all add: core_tables_kept_def)
  show "campaign_ok d' c" if "c \<in> set (ev_campaigns d')" for c using campaigns_okD(2) [OF ok] that campaign_ok_cong [OF eq(2)] by (simp add: eq)
  show "batch_ok d' b" if "b \<in> set (ev_batches d')" for b using campaigns_okD(4) [OF ok] that batch_ok_mono [of d b d'] by (simp add: eq)
  show "promotion_ok d' p" if "p \<in> set (ev_promotions d')" for p using campaigns_okD(6) [OF ok] that promotion_ok_mono [of d p d'] by (simp add: eq)
qed (use d' campaigns_okD(1,3,5) [OF ok] in \<open>simp_all add: core_tables_kept_def\<close>)

lemma campaigns_ok_create:
  assumes ok: "campaigns_ok d" and new: "camp_id c \<notin> camp_id ` set (ev_campaigns d)"
    and c: "check_evaluation_policy (evaluation_policy_of c) = Inr ()" "camp_status c = ''OPEN''" "camp_current_iteration c = 1"
      "camp_winner_candidate_id c = None"
    and d': "ev_campaigns d' = ev_campaigns d @ [c]" "ev_batches d' = ev_batches d" "ev_candidates d' = ev_candidates d"
      "ev_promotions d' = ev_promotions d"
  shows "campaigns_ok d'"
proof (rule campaigns_okI)
  have "bat_campaign_id b \<noteq> camp_id c" if b: "b \<in> set (ev_batches d)" for b
  proof -
    obtain x where "x \<in> set (ev_campaigns d)" "camp_id x = bat_campaign_id b" using campaigns_okD(4) [OF ok b] by (auto simp: batch_ok_def)
    then show ?thesis using new by (metis imageI)
  qed
  then have "campaign_batches d' c = []" by (simp add: campaign_batches_def filter_empty_conv d')
  moreover have "1 \<le> camp_max_iterations c" using c(1) by (auto simp: check_evaluation_policy_def tx_simps evaluation_policy_of_def)
  ultimately have "campaign_ok d' c" using c by (simp add: campaign_ok_def)
  then show "campaign_ok d' x" if x: "x \<in> set (ev_campaigns d')" for x
    using x campaigns_okD(2) [OF ok, of x] unfolding d'(1) campaign_ok_cong [OF d'(2)] by (cases "x = c") simp_all
  have sub: "set (ev_campaigns d) \<subseteq> set (ev_campaigns d')" "set (ev_candidates d) \<subseteq> set (ev_candidates d')"
    "set (ev_batches d) \<subseteq> set (ev_batches d')" unfolding d' by auto
  show "batch_ok d' b" if "b \<in> set (ev_batches d')" for b
    using batch_ok_mono [OF campaigns_okD(4) [OF ok] sub(1,2)] that unfolding d'(2) .
  show "promotion_ok d' p" if "p \<in> set (ev_promotions d')" for p
    using promotion_ok_mono [OF campaigns_okD(6) [OF ok] sub(1,3)] that unfolding d'(4) .
qed (use d' new campaigns_okD(1,3,5) [OF ok] in simp_all)

lemma campaign_batches_snoc:
  "ev_batches d' = ev_batches d @ [b] \<Longrightarrow> campaign_batches d' x = campaign_batches d x @ (if bat_campaign_id b = camp_id x then [b] else [])"
  by (simp add: campaign_batches_def)

lemma decides_campaign_ok:
  assumes ok: "campaign_ok d c" and dec: "decides c b rows c' d d'"
  shows "campaign_ok d' c'"
proof -
  let ?B = "campaign_batches d c"
  note f = decidesD [OF dec] and it = decidesD(10) [OF dec]
  have win: "camp_status c' = ''WINNER_SELECTED'' \<longleftrightarrow> camp_winner_candidate_id c' \<noteq> None"
    "camp_winner_candidate_id c' \<noteq> None \<longrightarrow> camp_total_cost_microunits c' \<le> camp_max_total_cost_microunits c"
    using f(6,7,9,12) by auto
  have bs: "campaign_batches d' c' = ?B @ [b]"
    using campaign_batches_snoc [OF f(14), of c'] f(2,4) by (simp add: campaign_batches_def)
  have old: "distinct (map bat_iteration ?B)" "set (map bat_iteration ?B) = {1..<camp_current_iteration c}" "1 \<le> camp_current_iteration c"
    using ok f(1) unfolding campaign_ok_def by auto
  have pol: "check_evaluation_policy (evaluation_policy_of c') = Inr ()" using ok f(5) by (simp add: campaign_ok_def)
  have mx: "camp_max_iterations c' = camp_max_iterations c" "camp_max_total_cost_microunits c' = camp_max_total_cost_microunits c"
    using f(5) by (simp_all add: evaluation_policy_of_def)
  have its: "set (map bat_iteration (campaign_batches d' c')) =
      (if camp_status c' \<in> {''OPEN'', ''REFINEMENT_REQUIRED''} then {1..<camp_current_iteration c'} else {1..camp_current_iteration c'})"
    using old(2,3) f(3,6,8) it by (auto simp: bs)
  have "distinct (map bat_iteration (campaign_batches d' c'))" using old(1,2) f(3) by (simp add: bs)
  moreover have "1 \<le> camp_current_iteration c'" using old(3) it by simp
  ultimately show ?thesis
    unfolding campaign_ok_def mx using pol its win f(6,8,11) by (intro conjI) (assumption | auto)+
qed

text \<open>A decided submission replaces the campaign's row and leaves the others.\<close>

lemma decides_campaigns:
  assumes "distinct (map camp_id (ev_campaigns d))" "c \<in> set (ev_campaigns d)" "decides c b rows c' d d'"
  shows "set (ev_campaigns d') = insert c' {x \<in> set (ev_campaigns d). camp_id x \<noteq> camp_id c}"
    "map camp_id (ev_campaigns d') = map camp_id (ev_campaigns d)"
proof -
  obtain f where f: "c' = f c" "\<forall>x. camp_id (f x) = camp_id x" "ev_campaigns d' = row_upd camp_id (camp_id c) f (ev_campaigns d)"
    using decidesD(13) [OF assms(3)] by blast
  have same: "x = c" if "x \<in> set (ev_campaigns d)" "camp_id x = camp_id c" for x
    using that assms(1,2) by (simp add: distinct_map inj_on_def)
  show "map camp_id (ev_campaigns d') = map camp_id (ev_campaigns d)" using f(2) by (simp add: f(3) row_upd_def)
  show "set (ev_campaigns d') = insert c' {x \<in> set (ev_campaigns d). camp_id x \<noteq> camp_id c}"
    unfolding f(3) row_upd_def set_map using same assms(2) f(1) by (auto simp: image_iff)
qed

lemma campaigns_ok_submit:
  assumes ok: "campaigns_ok d" and c: "c \<in> set (ev_campaigns d)" and dec: "decides c b rows c' d d'"
    and new: "bat_id b \<notin> bat_id ` set (ev_batches d)"
  shows "campaigns_ok d'"
proof (rule campaigns_okI)
  note f = decidesD [OF dec] and cs = decides_campaigns [OF campaigns_okD(1) [OF ok] c dec]
  have mem: "x = c' \<or> x \<in> set (ev_campaigns d) \<and> camp_id x \<noteq> camp_id c" if "x \<in> set (ev_campaigns d')" for x
    using that by (auto simp: cs(1))
  have keep: "\<exists>y\<in>set (ev_campaigns d'). camp_id y = camp_id x \<and> evaluation_policy_of y = evaluation_policy_of x"
    if x: "x \<in> set (ev_campaigns d)" for x
  proof (cases "camp_id x = camp_id c")
    case True
    then have "x = c" using x c campaigns_okD(1) [OF ok] by (simp add: distinct_map inj_on_def)
    then show ?thesis using f(4,5) by (intro bexI [of _ c']) (simp_all add: cs(1))
  next
    case False
    then show ?thesis using x by (intro bexI [of _ x]) (simp_all add: cs(1))
  qed
  show "distinct (map camp_id (ev_campaigns d'))" using campaigns_okD(1) [OF ok] by (simp add: cs(2))
  show "distinct (map bat_id (ev_batches d'))" using campaigns_okD(3) [OF ok] new by (simp add: f(14))
  show "distinct (map pro_campaign_id (ev_promotions d'))" using campaigns_okD(5) [OF ok] by (simp add: f(16))
  show "campaign_ok d' x" if x: "x \<in> set (ev_campaigns d')" for x
  proof (cases "x = c'")
    case True
    then show ?thesis using decides_campaign_ok [OF campaigns_okD(2) [OF ok c] dec] by simp
  next
    case False
    with mem [OF x] have m: "x \<in> set (ev_campaigns d)" "camp_id x \<noteq> camp_id c" by simp_all
    then have "campaign_batches d' x = campaign_batches d x" using campaign_batches_snoc [OF f(14), of x] f(2) by simp
    then show ?thesis using campaigns_okD(2) [OF ok m(1)] unfolding campaign_ok_def by (elim subst [OF sym])
  qed
  show "batch_ok d' x" if x: "x \<in> set (ev_batches d')" for x
  proof (cases "x = b")
    case True
    have "winner_recorded d' c' b i" if "bat_winner_candidate_id b = Some i" for i
      using f(12) that unfolding winner_recorded_def f(5,15) set_append by blast
    then show ?thesis unfolding batch_ok_def True using f(2,4) by (intro bexI [of _ c']) (simp_all add: cs(1))
  next
    case False
    then have "batch_ok d x" using x campaigns_okD(4) [OF ok] by (simp add: f(14))
    then obtain y where y: "y \<in> set (ev_campaigns d)" "camp_id y = bat_campaign_id x"
      "\<forall>i. bat_winner_candidate_id x = Some i \<longrightarrow> winner_recorded d y x i" unfolding batch_ok_def by blast
    obtain z where z: "z \<in> set (ev_campaigns d')" "camp_id z = camp_id y" "evaluation_policy_of z = evaluation_policy_of y"
      using keep [OF y(1)] by blast
    have "winner_recorded d' z x i" if "bat_winner_candidate_id x = Some i" for i
      using y(3) that unfolding winner_recorded_def z(3) f(15) set_append by blast
    then show ?thesis unfolding batch_ok_def using z(1,2) y(2) by (intro bexI [of _ z]) simp_all
  qed
  show "promotion_ok d' p" if p: "p \<in> set (ev_promotions d')" for p
  proof -
    have "promotion_ok d p" using p campaigns_okD(6) [OF ok] by (simp add: f(16))
    then obtain y z where y: "y \<in> set (ev_campaigns d)" "camp_id y = pro_campaign_id p" "camp_status y = ''WINNER_SELECTED''"
        "camp_winner_candidate_id y = Some (pro_candidate_id p)"
      and z: "z \<in> set (ev_batches d)" "bat_id z = pro_batch_id p" "bat_winner_candidate_id z = Some (pro_candidate_id p)"
      unfolding promotion_ok_def by blast
    have "y \<noteq> c" using f(1) y(3) by auto
    then have "camp_id y \<noteq> camp_id c" using y(1) c campaigns_okD(1) [OF ok] by (auto simp: distinct_map inj_on_def)
    then have "y \<in> set (ev_campaigns d')" using y(1) by (simp add: cs(1))
    moreover have "z \<in> set (ev_batches d')" using z(1) by (simp add: f(14))
    ultimately show ?thesis unfolding promotion_ok_def using y(2-4) z(2,3) by blast
  qed
qed

lemma campaigns_ok_promote:
  assumes ok: "campaigns_ok d" and p: "ev_promotions d' = ev_promotions d @ [p]" "pro_campaign_id p \<notin> pro_campaign_id ` set (ev_promotions d)"
      "promotion_ok d p"
    and d': "ev_campaigns d' = ev_campaigns d" "ev_batches d' = ev_batches d" "ev_candidates d' = ev_candidates d"
  shows "campaigns_ok d'"
proof (rule campaigns_okI)
  show "campaign_ok d' c" if "c \<in> set (ev_campaigns d')" for c
    using campaigns_okD(2) [OF ok] that campaign_ok_cong [OF d'(2)] by (simp add: d')
  show "batch_ok d' b" if "b \<in> set (ev_batches d')" for b
    using campaigns_okD(4) [OF ok] that batch_ok_mono [of d b d'] by (simp add: d')
  show "promotion_ok d' q" if "q \<in> set (ev_promotions d')" for q
    using campaigns_okD(6) [OF ok, of q] p(3) that promotion_ok_mono [of d q d'] by (cases "q = p") (simp_all add: d' p(1))
qed (use d' p(1,2) campaigns_okD(1,3,5) [OF ok] in simp_all)

end
