(* ===== verification/Evaluation_Runs.thy ===== *)
theory Evaluation_Runs
  imports Evaluation_Core Workflow_Properties
begin

text \<open>
  Runs of the evaluation services.  Several processes work at once, each a sequence of transactions, so a step is one
  transaction, and what a process carries from one of its transactions to a later one is in flight meanwhile.
\<close>

section \<open>Steps\<close>

text \<open>
  In flight are the checks of an assessment that was prepared, the evidence read of an assessment, and the decision
  its submission returned.  \<open>Submitted\<close> records the content of every submission whose digest was taken.
  Nothing leaves the set: a process may always be delayed, or a call repeated.
\<close>

datatype flight = Checking ident "prepared_evaluation_check list"
  | Evidence ident ident ident "ident option" "candidate_evidence list"
  | Decision ident ident dict
  | Submitted ident "candidate_evidence list" "ident option"

type_synonym eval_state = "eval_db \<times> flight set"

inductive eval_step :: "config \<Rightarrow> (rat \<Rightarrow> string) \<Rightarrow> (string \<Rightarrow> rat) \<Rightarrow> evaluation_validator list \<Rightarrow> eval_state \<Rightarrow> eval_state \<Rightarrow> bool"
  for cf fl fv vs where
  create: "ids_fresh en d \<Longrightarrow>
    create_evaluation_campaign cf en wid actor key pcv wc checks mc mv mi mt mr d = Inr (r, d') \<Longrightarrow> eval_step cf fl fv vs (d, F) (d', F)"
| submit: "ids_fresh en d \<Longrightarrow> submit_evaluation_evidence cf fl en wid cid actor key cs rep d = Inr (r, d') \<Longrightarrow>
    eval_step cf fl fv vs (d, F) (d', insert (Submitted cid cs rep) F)"
| repair: "plan_evaluation_repair cf en wid cid actor key pvs ra d = Inr (r, d') \<Longrightarrow> eval_step cf fl fv vs (d, F) (d', F)"
| recover: "commit_recovery cf en wid aid actor key rd ra d = Inr (x, d') \<Longrightarrow> eval_step cf fl fv vs (d, F) (d', F)"
| promote: "promote_evaluation_winner cf en wid aid actor key ra d = Inr (r, d') \<Longrightarrow> eval_step cf fl fv vs (d, F) (d', F)"
| service: "eval_step cf fl fv vs (d, F) (d\<lparr>ev_db := x\<rparr>, F)"
| plan: "commit_evaluation_plan cf fl en wid cid tid actor key pvs rep d = Inr (pn, d') \<Longrightarrow> eval_step cf fl fv vs (d, F) (d', F)"
| start_execution: "start_evaluation_execution cf en wid cid pn d = Inr (r, d') \<Longrightarrow> eval_step cf fl fv vs (d, F) (d', F)"
| finish_execution: "finish_evaluation_execution cf en wid cid xid (map (execute_evaluation_provider_run cf pv) ps) d = Inr (r, d') \<Longrightarrow>
    eval_step cf fl fv vs (d, F) (d', F)"
| reconcile_execution: "reconcile_evaluation_execution cf en wid xid actor key ra d = Inr (r, d') \<Longrightarrow> eval_step cf fl fv vs (d, F) (d', F)"
| assess: "ids_fresh en d \<Longrightarrow> commit_evaluation_assessment cf vs en wid xid actor key d = Inr ((aid, ps), d') \<Longrightarrow>
    eval_step cf fl fv vs (d, F) (d', insert (Checking aid ps) F)"
| start_checks: "start_evaluation_checks aid d = Inr (r, d') \<Longrightarrow> eval_step cf fl fv vs (d, F) (d', F)"
| finish_checks: "Checking aid ps \<in> F \<Longrightarrow> set qs \<subseteq> set ps \<Longrightarrow>
    finish_evaluation_checks cf en aid (map run_evaluation_check qs) d = Inr (r, d') \<Longrightarrow> eval_step cf fl fv vs (d, F) (d', F)"
| prepare_reviews: "prepare_evaluation_reviews cf en aid actor d = Inr (prs, d') \<Longrightarrow> eval_step cf fl fv vs (d, F) (d', F)"
| skip_reviews: "skip_evaluation_reviews aid d = Inr (r, d') \<Longrightarrow> eval_step cf fl fv vs (d, F) (d', F)"
| start_reviews: "start_evaluation_reviews en aid d = Inr (r, d') \<Longrightarrow> eval_step cf fl fv vs (d, F) (d', F)"
| finish_reviews: "finish_evaluation_reviews cf fl en aid us d = Inr (o', d') \<Longrightarrow> eval_step cf fl fv vs (d, F) (d', F)"
| reconcile_reviews: "commit_review_reconciliation cf en wid aid actor key ra d = Inr (rc, d') \<Longrightarrow> eval_step cf fl fv vs (d, F) (d', F)"
| read_evidence: "row_get asm_id aid (ev_assessments d) = Some a \<Longrightarrow> trusted_evidence fv d a = Inr (x, cs) \<Longrightarrow>
    eval_step cf fl fv vs (d, F) (d, insert (Evidence aid (asm_workflow_id a) (asm_campaign_id a) (exe_repair_id x) cs) F)"
| submit_trusted: "Evidence aid wid cid rep cs \<in> F \<Longrightarrow> ids_fresh en d \<Longrightarrow>
    submit_evaluation_evidence cf fl en wid cid actor (''trusted-validation:'' @ aid) cs rep d = Inr (r, d') \<Longrightarrow>
    eval_step cf fl fv vs (d, F) (d', insert (Decision aid cid r) (insert (Submitted cid cs rep) F))"
| conclude: "Decision aid cid dec \<in> F \<Longrightarrow> conclude_assessment cf fl en aid actor dec d = Inr (r, d') \<Longrightarrow> eval_step cf fl fv vs (d, F) (d', F)"

definition eval_init :: eval_state where
  "eval_init = (empty_eval_db (seed_principals empty_db), {})"

section \<open>The invariant\<close>

definition asm_pair :: "evaluation_assessment \<Rightarrow> ident \<times> ident" where
  "asm_pair a = (asm_id a, asm_campaign_id a)"

fun flight_ok :: "evaluation_validator list \<Rightarrow> eval_db \<Rightarrow> flight \<Rightarrow> bool" where
  "flight_ok vs d (Checking aid ps) \<longleftrightarrow> (\<forall>p\<in>set ps. prepared_ok vs (ev_artifacts d) (ev_checks d) p)"
| "flight_ok vs d (Evidence aid wid cid rep cs) \<longleftrightarrow> (aid, cid) \<in> asm_pair ` set (ev_assessments d) \<and>
     (\<forall>e\<in>set cs. from_trusted vs (ev_artifacts d) aid e)"
| "flight_ok vs d (Decision aid cid dec) \<longleftrightarrow> (aid, cid) \<in> asm_pair ` set (ev_assessments d)"
| "flight_ok vs d (Submitted cid cs rep) \<longleftrightarrow> True"

definition submitted_rows :: "config \<Rightarrow> flight set \<Rightarrow> evaluation_candidate_row list \<Rightarrow> evaluation_batch_row \<Rightarrow> bool" where
  "submitted_rows cf F rows b \<longleftrightarrow> (\<exists>cs rep. Submitted (bat_campaign_id b) cs rep \<in> F \<and>
     bat_request_digest b = submission_digest cf (bat_campaign_id b) cs rep \<and>
     (\<forall>k\<in>set rows. cand_batch_id k = bat_id b \<longrightarrow> (\<exists>e\<in>set cs. same_evidence e (cand_evidence k))))"

definition promoted_artifact :: "eval_db \<Rightarrow> evaluation_promotion \<Rightarrow> bool" where
  "promoted_artifact d p \<longleftrightarrow> (\<exists>t\<in>set (ev_artifacts d). art_id t = pro_artifact_id p \<and> art_digest t = pro_artifact_digest p \<and>
     art_provider_run_id t = pro_candidate_id p)"

definition records_ok :: "config \<Rightarrow> evaluation_validator list \<Rightarrow> flight set \<Rightarrow> eval_db \<Rightarrow> bool" where
  "records_ok cf vs F d \<longleftrightarrow> (\<forall>r\<in>set (ev_runs d). run_ok cf r) \<and> artifacts_ok cf (ev_artifacts d) \<and>
     checks_ok vs (ev_artifacts d) (ev_checks d) \<and> distinct (map asm_id (ev_assessments d)) \<and> (\<forall>f\<in>F. flight_ok vs d f) \<and>
     (\<forall>b\<in>set (ev_batches d). submitted_rows cf F (ev_candidates d) b) \<and>
     cand_batch_id ` set (ev_candidates d) \<subseteq> bat_id ` set (ev_batches d) \<and> (\<forall>p\<in>set (ev_promotions d). promoted_artifact d p)"

text \<open>The batch holds evidence of that assessment only, for that campaign.\<close>

definition trusted_batch :: "evaluation_validator list \<Rightarrow> eval_db \<Rightarrow> ident \<Rightarrow> ident \<Rightarrow> ident \<Rightarrow> bool" where
  "trusted_batch vs d aid cid i \<longleftrightarrow> (\<exists>b\<in>set (ev_batches d). bat_id b = i \<and> bat_campaign_id b = cid) \<and>
     (\<forall>k\<in>set (ev_candidates d). cand_batch_id k = i \<longrightarrow> from_trusted vs (ev_artifacts d) aid (cand_evidence k))"

fun flight_linked :: "evaluation_validator list \<Rightarrow> eval_db \<Rightarrow> flight \<Rightarrow> bool" where
  "flight_linked vs d (Decision aid cid dec) \<longleftrightarrow> trusted_batch vs d aid cid (str_get dec ''id'')"
| "flight_linked vs d f \<longleftrightarrow> True"

definition linked :: "evaluation_validator list \<Rightarrow> flight set \<Rightarrow> eval_db \<Rightarrow> bool" where
  "linked vs F d \<longleftrightarrow> (\<forall>f\<in>F. flight_linked vs d f) \<and>
     (\<forall>a\<in>set (ev_assessments d). \<forall>i. asm_batch_id a = Some i \<longrightarrow> trusted_batch vs d (asm_id a) (asm_campaign_id a) i) \<and>
     (\<forall>p\<in>set (ev_promotions d). trusted_batch vs d (pro_assessment_id p) (pro_campaign_id p) (pro_batch_id p))"

text \<open>No two submissions with different texts had one digest.\<close>

definition collision_free :: "config \<Rightarrow> flight set \<Rightarrow> bool" where
  "collision_free cf F \<longleftrightarrow> (\<forall>c cs r c' cs' r'. Submitted c cs r \<in> F \<longrightarrow> Submitted c' cs' r' \<in> F \<longrightarrow>
     submission_digest cf c cs r = submission_digest cf c' cs' r' \<longrightarrow> dumps (submission_json c cs r) = dumps (submission_json c' cs' r'))"

definition eval_ok :: "config \<Rightarrow> evaluation_validator list \<Rightarrow> eval_state \<Rightarrow> bool" where
  "eval_ok cf vs s \<longleftrightarrow> (case s of (d, F) \<Rightarrow> campaigns_ok d \<and> records_ok cf vs F d \<and> (collision_free cf F \<longrightarrow> linked vs F d))"

lemma collision_free_mono: "collision_free cf F' \<Longrightarrow> F \<subseteq> F' \<Longrightarrow> collision_free cf F"
  unfolding collision_free_def by blast

section \<open>Frames\<close>

lemma submitted_rows_mono: "submitted_rows cf F rows b \<Longrightarrow> F \<subseteq> F' \<Longrightarrow> submitted_rows cf F' rows b"
  unfolding submitted_rows_def by blast

lemma flight_ok_mono:
  assumes "flight_ok vs d f" "set (ev_artifacts d) \<subseteq> set (ev_artifacts d')" "chk_key ` set (ev_checks d) \<subseteq> chk_key ` set (ev_checks d')"
    "asm_pair ` set (ev_assessments d) \<subseteq> asm_pair ` set (ev_assessments d')"
  shows "flight_ok vs d' f"
  using assms prepared_ok_mono [OF _ assms(2,3)] from_trusted_mono [OF _ assms(2)] by (cases f) auto

lemma records_ok_insert: "records_ok cf vs F d \<Longrightarrow> flight_ok vs d f \<Longrightarrow> records_ok cf vs (insert f F) d"
  unfolding records_ok_def using submitted_rows_mono [OF _ subset_insertI] by simp

lemma records_okD:
  assumes "records_ok cf vs F d"
  shows "\<forall>r\<in>set (ev_runs d). run_ok cf r" "artifacts_ok cf (ev_artifacts d)" "checks_ok vs (ev_artifacts d) (ev_checks d)"
    "distinct (map asm_id (ev_assessments d))" "f \<in> F \<Longrightarrow> flight_ok vs d f" "b \<in> set (ev_batches d) \<Longrightarrow> submitted_rows cf F (ev_candidates d) b"
    "cand_batch_id ` set (ev_candidates d) \<subseteq> bat_id ` set (ev_batches d)" "p \<in> set (ev_promotions d) \<Longrightarrow> promoted_artifact d p"
  using assms unfolding records_ok_def by blast+

lemma records_ok_frame:
  assumes ok: "records_ok cf vs F d" and eq: "ev_batches d' = ev_batches d" "ev_candidates d' = ev_candidates d" "ev_promotions d' = ev_promotions d"
    and new: "\<forall>r\<in>set (ev_runs d'). run_ok cf r" "artifacts_ok cf (ev_artifacts d')" "checks_ok vs (ev_artifacts d') (ev_checks d')"
      "distinct (map asm_id (ev_assessments d'))"
    and sub: "set (ev_artifacts d) \<subseteq> set (ev_artifacts d')" "chk_key ` set (ev_checks d) \<subseteq> chk_key ` set (ev_checks d')"
      "asm_pair ` set (ev_assessments d) \<subseteq> asm_pair ` set (ev_assessments d')"
  shows "records_ok cf vs F d'"
proof -
  have "promoted_artifact d' p" if "p \<in> set (ev_promotions d')" for p
    using records_okD(8) [OF ok] that sub(1) unfolding eq(3) promoted_artifact_def by blast
  moreover have "flight_ok vs d' f" if "f \<in> F" for f using flight_ok_mono [OF records_okD(5) [OF ok that] sub] .
  moreover have "submitted_rows cf F (ev_candidates d') b" if "b \<in> set (ev_batches d')" for b using records_okD(6) [OF ok] that by (simp add: eq)
  moreover have "cand_batch_id ` set (ev_candidates d') \<subseteq> bat_id ` set (ev_batches d')" using records_okD(7) [OF ok] by (simp add: eq)
  ultimately show ?thesis unfolding records_ok_def using new by blast
qed

lemma trusted_batch_frame:
  assumes "trusted_batch vs d aid cid i" "ev_batches d' = ev_batches d" "ev_candidates d' = ev_candidates d" "set (ev_artifacts d) \<subseteq> set (ev_artifacts d')"
  shows "trusted_batch vs d' aid cid i"
  using assms(1) from_trusted_mono [OF _ assms(4)] unfolding trusted_batch_def assms(2,3) by blast

lemma flight_linked_mono:
  "flight_linked vs d f \<Longrightarrow> (\<And>aid cid i. trusted_batch vs d aid cid i \<Longrightarrow> trusted_batch vs d' aid cid i) \<Longrightarrow> flight_linked vs d' f"
  by (cases f) auto

lemma linkedD:
  assumes "linked vs F d"
  shows "f \<in> F \<Longrightarrow> flight_linked vs d f" "a \<in> set (ev_assessments d) \<Longrightarrow> asm_batch_id a = Some i \<Longrightarrow> trusted_batch vs d (asm_id a) (asm_campaign_id a) i"
    "p \<in> set (ev_promotions d) \<Longrightarrow> trusted_batch vs d (pro_assessment_id p) (pro_campaign_id p) (pro_batch_id p)"
  using assms unfolding linked_def by blast+

lemma linked_mono:
  assumes ok: "linked vs F d" and t: "\<And>aid cid i. trusted_batch vs d aid cid i \<Longrightarrow> trusted_batch vs d' aid cid i"
    and p: "ev_promotions d' = ev_promotions d"
    and a: "\<And>a i. a \<in> set (ev_assessments d') \<Longrightarrow> asm_batch_id a = Some i \<Longrightarrow>
      asm_key a \<in> asm_key ` set (ev_assessments d) \<or> trusted_batch vs d (asm_id a) (asm_campaign_id a) i"
  shows "linked vs F d'"
proof -
  have "trusted_batch vs d (asm_id x) (asm_campaign_id x) i" if x: "x \<in> set (ev_assessments d')" "asm_batch_id x = Some i" for x i
    using a [OF x] linkedD(2) [OF ok] x(2) by (auto simp: asm_key_def)
  then show ?thesis unfolding linked_def using linkedD(1,3) [OF ok] flight_linked_mono [OF _ t] t p by metis
qed

section \<open>Preservation\<close>

lemma eval_ok_pair: "eval_ok cf vs (d, F) \<longleftrightarrow> campaigns_ok d \<and> records_ok cf vs F d \<and> (collision_free cf F \<longrightarrow> linked vs F d)"
  by (simp add: eval_ok_def)

lemma eval_ok_frame:
  assumes ok: "eval_ok cf vs (d, F)" and core: "core_tables_kept d d'"
    and new: "\<forall>r\<in>set (ev_runs d'). run_ok cf r" "artifacts_ok cf (ev_artifacts d')" "checks_ok vs (ev_artifacts d') (ev_checks d')"
      "distinct (map asm_id (ev_assessments d'))"
    and sub: "set (ev_artifacts d) \<subseteq> set (ev_artifacts d')" "chk_key ` set (ev_checks d) \<subseteq> chk_key ` set (ev_checks d')"
      "asm_pair ` set (ev_assessments d) \<subseteq> asm_pair ` set (ev_assessments d')"
    and a: "\<And>a i. linked vs F d \<Longrightarrow> a \<in> set (ev_assessments d') \<Longrightarrow> asm_batch_id a = Some i \<Longrightarrow>
      asm_key a \<in> asm_key ` set (ev_assessments d) \<or> trusted_batch vs d (asm_id a) (asm_campaign_id a) i"
  shows "eval_ok cf vs (d', F)"
proof -
  note eq = core_tables_keptD [OF core]
  have ok': "campaigns_ok d" "records_ok cf vs F d" "collision_free cf F \<Longrightarrow> linked vs F d" using ok by (simp_all add: eval_ok_pair)
  have "linked vs F d'" if "linked vs F d"
    by (rule linked_mono [OF that trusted_batch_frame eq(4) a [OF that]]) (use eq sub in simp_all)
  then show ?thesis unfolding eval_ok_pair
    using campaigns_ok_core [OF ok'(1) core] records_ok_frame [OF ok'(2) eq(2-4) new sub] ok'(3) by blast
qed

lemma asm_keys_same:
  assumes "map asm_key as' = map asm_key as"
  shows "map asm_id as' = map asm_id as" "asm_pair ` set as' = asm_pair ` set as" "asm_key ` set as' = asm_key ` set as"
proof -
  have i: "map asm_id as = map fst (map asm_key as)" "asm_pair ` set as = (\<lambda>(i, c, b). (i, c)) ` set (map asm_key as)" for as
    by (simp_all add: asm_key_def asm_pair_def image_image)
  show "map asm_id as' = map asm_id as" "asm_pair ` set as' = asm_pair ` set as" using assms i by metis+
  show "asm_key ` set as' = asm_key ` set as" using arg_cong [OF assms, of set] by simp
qed

lemma eval_ok_runs_step:
  assumes ok: "eval_ok cf vs (d, F)" and st: "runs_step cf d d'"
  shows "eval_ok cf vs (d', F)"
proof -
  have r: "records_ok cf vs F d" using ok by (simp add: eval_ok_pair)
  have k: "core_tables_kept d d'" "ev_artifacts d' = ev_artifacts d" "ev_checks d' = ev_checks d" "ev_assessments d' = ev_assessments d"
    "\<forall>r\<in>set (ev_runs d'). run_ok cf r" using st records_okD(1) [OF r] unfolding runs_step_def by blast+
  show ?thesis by (rule eval_ok_frame [OF ok k(1,5)]) (use records_okD(2-4) [OF r] in \<open>simp_all add: k(2-4)\<close>)
qed

lemma eval_ok_assessment_step:
  assumes ok: "eval_ok cf vs (d, F)" and st: "assessment_step d d'"
  shows "eval_ok cf vs (d', F)"
proof -
  have r: "records_ok cf vs F d" using ok by (simp add: eval_ok_pair)
  have k: "core_tables_kept d d'" "ev_runs d' = ev_runs d" "ev_artifacts d' = ev_artifacts d" "checks_weaker (ev_checks d) (ev_checks d')"
    "map asm_key (ev_assessments d') = map asm_key (ev_assessments d)" using st unfolding assessment_step_def by blast+
  note key = asm_keys_same [OF k(5)]
  show ?thesis
    by (rule eval_ok_frame [OF ok k(1)])
      (use records_okD(1-4) [OF r] checks_ok_weaker [OF k(4)] checks_weaker_keys(1) [OF k(4)] key in \<open>auto simp: k(2,3)\<close>)
qed

lemma eval_ok_finish_checks:
  assumes ok: "eval_ok cf vs (d, F)" and fl: "Checking aid ps \<in> F" "set qs \<subseteq> set ps"
    and tx: "finish_evaluation_checks cf en aid (map run_evaluation_check qs) d = Inr (r, d')"
  shows "eval_ok cf vs (d', F)"
proof -
  have r: "records_ok cf vs F d" using ok by (simp add: eval_ok_pair)
  have "\<forall>p\<in>set qs. prepared_ok vs (ev_artifacts d) (ev_checks d) p" using records_okD(5) [OF r fl(1)] fl(2) by auto
  note e = finish_evaluation_checks_effect [OF tx records_okD(3) [OF r] this]
  show ?thesis by (rule eval_ok_frame [OF ok e(1)]) (use records_okD(1-4) [OF r] e asm_keys_same [OF e(6)] in auto)
qed

lemma eval_ok_insert:
  assumes "eval_ok cf vs (d, F)" "flight_ok vs d f" "flight_linked vs d f"
  shows "eval_ok cf vs (d, insert f F)"
  using assms records_ok_insert collision_free_mono [OF _ subset_insertI] unfolding eval_ok_pair linked_def by (metis insert_iff)

lemma eval_ok_assess:
  assumes ok: "eval_ok cf vs (d, F)" and fr: "ids_fresh en d"
    and tx: "commit_evaluation_assessment cf vs en wid xid actor key d = Inr ((aid, ps), d')"
  shows "eval_ok cf vs (d', insert (Checking aid ps) F)"
proof (rule eval_ok_insert)
  have r: "records_ok cf vs F d" using ok by (simp add: eval_ok_pair)
  note e = commit_evaluation_assessment_effect [OF tx fr records_okD(1-3) [OF r]]
  obtain a where a: "ev_assessments d' = ev_assessments d @ [a]" "asm_id a \<notin> asm_id ` set (ev_assessments d)" "asm_batch_id a = None"
    using e(8) by blast
  show "eval_ok cf vs (d', F)"
    by (rule eval_ok_frame [OF ok e(1)]) (use records_okD(1,4) [OF r] e(2-6) a in auto)
  show "flight_ok vs d' (Checking aid ps)" using e(7) by simp
qed simp

lemma eval_ok_conclude:
  assumes ok: "eval_ok cf vs (d, F)" and fl: "Decision aid cid dec \<in> F" and tx: "conclude_assessment cf fl en aid actor dec d = Inr (r, d')"
  shows "eval_ok cf vs (d', F)"
proof -
  have r: "records_ok cf vs F d" using ok by (simp add: eval_ok_pair)
  note e = conclude_assessment_effect [OF tx]
  obtain f where f: "ev_assessments d' = row_upd asm_id aid f (ev_assessments d)" and
    k: "\<And>a. asm_id (f a) = asm_id a" "\<And>a. asm_campaign_id (f a) = asm_campaign_id a"
      "\<And>a. asm_batch_id (f a) = asm_batch_id a \<or> asm_batch_id (f a) = Some (str_get dec ''id'')" using e(5) by blast
  have p: "map asm_pair (ev_assessments d') = map asm_pair (ev_assessments d)" "map asm_id (ev_assessments d') = map asm_id (ev_assessments d)"
    by (simp_all add: f row_upd_def asm_pair_def k)
  have ps: "asm_pair ` set (ev_assessments d') = asm_pair ` set (ev_assessments d)" using arg_cong [OF p(1), of set] by simp
  have cid: "asm_campaign_id a = cid" if "a \<in> set (ev_assessments d)" "asm_id a = aid" for a
  proof -
    obtain x where "x \<in> set (ev_assessments d)" "asm_id x = aid" "asm_campaign_id x = cid"
      using records_okD(5) [OF r fl] by (auto simp: asm_pair_def)
    then show ?thesis using that records_okD(4) [OF r] by (metis distinct_map inj_onD)
  qed
  have b: "asm_key a \<in> asm_key ` set (ev_assessments d) \<or> trusted_batch vs d (asm_id a) (asm_campaign_id a) i"
    if l: "linked vs F d" and a: "a \<in> set (ev_assessments d')" "asm_batch_id a = Some i" for a i
  proof -
    from a(1) obtain x where x: "x \<in> set (ev_assessments d)" "a = (if asm_id x = aid then f x else x)" by (auto simp: f row_upd_def)
    have t: "trusted_batch vs d aid cid (str_get dec ''id'')" using linkedD(1) [OF l fl] by simp
    show ?thesis
    proof (cases "asm_id x = aid \<and> asm_batch_id (f x) \<noteq> asm_batch_id x")
      case True
      then show ?thesis using x(2) a(2) k t cid [OF x(1)] by (metis option.inject)
    next
      case False
      then have "asm_key a = asm_key x" using x(2) k by (auto simp: asm_key_def)
      then show ?thesis using x(1) by auto
    qed
  qed
  show ?thesis
    by (rule eval_ok_frame [OF ok e(1)])
      (use records_okD(1-4) [OF r] e(2-4) p(2) ps b in simp_all)
qed

lemma eval_ok_create:
  assumes ok: "eval_ok cf vs (d, F)" and fr: "ids_fresh en d"
    and tx: "create_evaluation_campaign cf en wid actor key pcv wc checks mc mv mi mt mr d = Inr (r, d')"
  shows "eval_ok cf vs (d', F)"
  using create_evaluation_campaign_effect [OF tx]
proof
  assume "\<exists>c. check_evaluation_policy (evaluation_policy_of c) = Inr () \<and> camp_id c = en_uuid en 0 \<and> camp_workflow_id c = wid \<and>
    camp_status c = ''OPEN'' \<and> camp_current_iteration c = 1 \<and> camp_total_cost_microunits c = 0 \<and> camp_winner_candidate_id c = None \<and>
    ev_campaigns d' = ev_campaigns d @ [c] \<and> ev_batches d' = ev_batches d \<and> ev_candidates d' = ev_candidates d \<and>
    ev_promotions d' = ev_promotions d \<and> evidence_kept d d'"
  then obtain c where c: "check_evaluation_policy (evaluation_policy_of c) = Inr ()" "camp_id c = en_uuid en 0" "camp_status c = ''OPEN''"
      "camp_current_iteration c = 1" "camp_winner_candidate_id c = None"
    and eq: "ev_campaigns d' = ev_campaigns d @ [c]" "ev_batches d' = ev_batches d" "ev_candidates d' = ev_candidates d" "ev_promotions d' = ev_promotions d"
    and k: "evidence_kept d d'" by blast
  note e = evidence_keptD [OF k]
  have ok': "campaigns_ok d" "records_ok cf vs F d" "collision_free cf F \<Longrightarrow> linked vs F d" using ok by (simp_all add: eval_ok_pair)
  have "campaigns_ok d'" using campaigns_ok_create [OF ok'(1) _ c(1,3-5) eq] ids_freshD(2) [OF fr] c(2) by simp
  moreover have "records_ok cf vs F d'"
    by (rule records_ok_frame [OF ok'(2) eq(2-4)]) (use records_okD(1-4) [OF ok'(2)] in \<open>simp_all add: e\<close>)
  moreover have "linked vs F d'" if "linked vs F d"
    by (rule linked_mono [OF that trusted_batch_frame eq(4)]) (use eq e in auto)
  ultimately show ?thesis unfolding eval_ok_pair using ok'(3) by blast
qed (simp add: ok)

text \<open>A submission, trusted or not.  A new batch leaves the candidates of the others as they were.\<close>

lemma trusted_batch_decides:
  assumes dec: "decides c b rows c' d d'" and new: "bat_id b \<notin> bat_id ` set (ev_batches d)" and rows: "\<forall>k\<in>set rows. cand_batch_id k = bat_id b"
    and t: "trusted_batch vs d aid cid i"
  shows "trusted_batch vs d' aid cid i"
proof -
  note f = decidesD(14,15,17) [OF dec] and e = evidence_keptD [OF decidesD(17) [OF dec]]
  have "i \<noteq> bat_id b" using t new unfolding trusted_batch_def by (metis imageI)
  then show ?thesis using t rows unfolding trusted_batch_def f(1,2) e(2) set_append by auto
qed

lemma records_ok_decides:
  assumes ok: "records_ok cf vs F d" and dec: "decides c b rows c' d d'" and new: "bat_id b \<notin> bat_id ` set (ev_batches d)"
    and sub: "Submitted (bat_campaign_id b) cs rep \<in> F" "bat_request_digest b = submission_digest cf (bat_campaign_id b) cs rep"
    and rows: "\<forall>k\<in>set rows. cand_batch_id k = bat_id b \<and> (\<exists>e\<in>set cs. same_evidence e (cand_evidence k))"
  shows "records_ok cf vs F d'"
proof -
  note f = decidesD(14-16) [OF dec] and e = evidence_keptD [OF decidesD(17) [OF dec]]
  have old: "cand_batch_id k \<noteq> bat_id b" if "k \<in> set (ev_candidates d)" for k using records_okD(7) [OF ok] that new by (metis image_subset_iff)
  have b: "submitted_rows cf F (ev_candidates d') x" if x: "x \<in> set (ev_batches d')" for x
  proof (cases "x = b")
    case True
    then show ?thesis unfolding submitted_rows_def f(2) using sub rows old by (intro exI [of _ cs] exI [of _ rep]) auto
  next
    case False
    then have m: "x \<in> set (ev_batches d)" using x f(1) by simp
    then have "bat_id x \<noteq> bat_id b" using new by (metis imageI)
    then show ?thesis using records_okD(6) [OF ok m] rows unfolding submitted_rows_def f(2) by fastforce
  qed
  have "flight_ok vs d' x" if "x \<in> F" for x by (rule flight_ok_mono [OF records_okD(5) [OF ok that]]) (simp_all add: e)
  moreover have "cand_batch_id ` set (ev_candidates d') \<subseteq> bat_id ` set (ev_batches d')" using records_okD(7) [OF ok] rows by (auto simp: f)
  moreover have "promoted_artifact d' p" if "p \<in> set (ev_promotions d')" for p
    using records_okD(8) [OF ok] that by (simp add: f(3) promoted_artifact_def e)
  ultimately show ?thesis unfolding records_ok_def e using records_okD(1-4) [OF ok] b by blast
qed

lemma eval_ok_submit:
  assumes ok: "eval_ok cf vs (d, F)" and fr: "ids_fresh en d"
    and tx: "submit_evaluation_evidence cf fl en wid cid actor key cs rep d = Inr (r, d')"
  shows "eval_ok cf vs (d', insert (Submitted cid cs rep) F)"
proof -
  let ?F = "insert (Submitted cid cs rep) F"
  have ok1: "eval_ok cf vs (d, ?F)" by (rule eval_ok_insert [OF ok]) simp_all
  from submit_evaluation_evidence_effect [OF tx] show ?thesis
  proof
    assume "\<exists>c b rows c'. row_get camp_id cid (ev_campaigns d) = Some c \<and> decides c b rows c' d d' \<and> bat_id b = en_uuid en 0 \<and>
      str_get r ''id'' = bat_id b \<and> bat_request_digest b = submission_digest cf cid cs rep \<and> bat_campaign_id b = cid \<and>
      (\<forall>k\<in>set rows. cand_batch_id k = bat_id b \<and> (\<exists>e\<in>set cs. same_evidence e (cand_evidence k)))"
    then obtain c b rows c' where c: "row_get camp_id cid (ev_campaigns d) = Some c" "decides c b rows c' d d'" "bat_id b = en_uuid en 0"
      and b: "bat_request_digest b = submission_digest cf (bat_campaign_id b) cs rep" "bat_campaign_id b = cid"
      and rows: "\<forall>k\<in>set rows. cand_batch_id k = bat_id b \<and> (\<exists>e\<in>set cs. same_evidence e (cand_evidence k))" by blast
    have new: "bat_id b \<notin> bat_id ` set (ev_batches d)" using ids_freshD(3) [OF fr] c(3) by simp
    have ok': "campaigns_ok d" "records_ok cf vs ?F d" "collision_free cf ?F \<Longrightarrow> linked vs ?F d" using ok1 by (simp_all add: eval_ok_pair)
    note t = trusted_batch_decides [OF c(2) new] and e = evidence_keptD [OF decidesD(17) [OF c(2)]]
    have "campaigns_ok d'" using campaigns_ok_submit [OF ok'(1) _ c(2) new] row.get_SomeD [OF c(1)] by blast
    moreover have "records_ok cf vs ?F d'" by (rule records_ok_decides [OF ok'(2) c(2) new _ b(1) rows]) (simp add: b(2))
    moreover have "linked vs ?F d'" if "linked vs ?F d"
      by (rule linked_mono [OF that t decidesD(16) [OF c(2)]]) (use rows e in auto)
    ultimately show ?thesis unfolding eval_ok_pair using ok'(3) by blast
  qed (use ok1 in blast)
qed

text \<open>The batch a trusted submission returns, new or replayed, holds the evidence submitted.\<close>

lemma trusted_submission:
  assumes ok: "eval_ok cf vs (d, F)" and ev: "\<forall>e\<in>set cs. from_trusted vs (ev_artifacts d) aid e" and fr: "ids_fresh en d"
    and tx: "submit_evaluation_evidence cf fl en wid cid actor key cs rep d = Inr (r, d')"
    and cf: "collision_free cf (insert (Submitted cid cs rep) F)"
  shows "trusted_batch vs d' aid cid (str_get r ''id'')"
proof -
  let ?F = "insert (Submitted cid cs rep) F"
  have rec: "records_ok cf vs F d" using ok by (simp add: eval_ok_pair)
  have same: "from_trusted vs (ev_artifacts d) aid (cand_evidence k)" if "\<exists>e\<in>set cs. same_evidence e (cand_evidence k)" for k
    using that ev from_trusted_same by blast
  from submit_evaluation_evidence_effect [OF tx] show ?thesis
  proof (elim disjE conjE bexE exE)
    fix b assume eq: "d' = d" and b: "b \<in> set (ev_batches d)" "str_get r ''id'' = bat_id b" "bat_request_digest b = submission_digest cf cid cs rep"
    obtain cs' rep' where s: "Submitted (bat_campaign_id b) cs' rep' \<in> F" "bat_request_digest b = submission_digest cf (bat_campaign_id b) cs' rep'"
      and rows: "\<forall>k\<in>set (ev_candidates d). cand_batch_id k = bat_id b \<longrightarrow> (\<exists>e\<in>set cs'. same_evidence e (cand_evidence k))"
      using records_okD(6) [OF rec b(1)] unfolding submitted_rows_def by blast
    have "dumps (submission_json cid cs rep) = dumps (submission_json (bat_campaign_id b) cs' rep')"
      using cf s b(3) unfolding collision_free_def by (metis insert_iff)
    note inj = submission_json_inj [OF this]
    have "\<forall>k\<in>set (ev_candidates d). cand_batch_id k = bat_id b \<longrightarrow> from_trusted vs (ev_artifacts d) aid (cand_evidence k)"
      using rows inj(2) same same_evidence_trans by metis
    then show ?thesis unfolding trusted_batch_def eq b(2) using b(1) inj(1) by auto
  next
    fix c b rows c'
    assume dec: "decides c b rows c' d d'" and b: "bat_id b = en_uuid en 0" "str_get r ''id'' = bat_id b" "bat_campaign_id b = cid"
      and rows: "\<forall>k\<in>set rows. cand_batch_id k = bat_id b \<and> (\<exists>e\<in>set cs. same_evidence e (cand_evidence k))"
    note f = decidesD(14,15) [OF dec] and e = evidence_keptD [OF decidesD(17) [OF dec]]
    have "cand_batch_id k \<noteq> bat_id b" if "k \<in> set (ev_candidates d)" for k
      using records_okD(7) [OF rec] that ids_freshD(3) [OF fr, of 0] b(1) by (metis image_subset_iff)
    then show ?thesis unfolding trusted_batch_def f e(2) b(2) using b(3) rows same by auto
  qed
qed

lemma eval_ok_submit_trusted:
  assumes ok: "eval_ok cf vs (d, F)" and fr: "ids_fresh en d" and ev: "Evidence aid wid cid rep cs \<in> F"
    and tx: "submit_evaluation_evidence cf fl en wid cid actor key cs rep d = Inr (r, d')"
  shows "eval_ok cf vs (d', insert (Decision aid cid r) (insert (Submitted cid cs rep) F))"
proof -
  let ?F = "insert (Submitted cid cs rep) F"
  have f: "flight_ok vs d (Evidence aid wid cid rep cs)" using ok ev records_okD(5) unfolding eval_ok_pair by blast
  have ok1: "eval_ok cf vs (d', ?F)" by (rule eval_ok_submit [OF ok fr tx])
  have "flight_ok vs d' (Evidence aid wid cid rep cs)" using ok1 ev records_okD(5) unfolding eval_ok_pair by blast
  then have rec: "records_ok cf vs (insert (Decision aid cid r) ?F) d'" using ok1 records_ok_insert unfolding eval_ok_pair by simp
  have "linked vs (insert (Decision aid cid r) ?F) d'" if c: "collision_free cf (insert (Decision aid cid r) ?F)"
  proof -
    have c': "collision_free cf ?F" by (rule collision_free_mono [OF c subset_insertI])
    have "trusted_batch vs d' aid cid (str_get r ''id'')" using trusted_submission [OF ok _ fr tx c'] f by simp
    then show ?thesis using ok1 c' unfolding eval_ok_pair linked_def by simp
  qed
  then show ?thesis using ok1 rec unfolding eval_ok_pair by blast
qed

lemma eval_ok_promote:
  assumes ok: "eval_ok cf vs (d, F)" and tx: "promote_evaluation_winner cf en wid aid actor key ra d = Inr (r, d')"
  shows "eval_ok cf vs (d', F)"
  using promote_evaluation_winner_effect [OF tx]
proof (elim disjE exE conjE)
  fix p c b
  assume p: "ev_promotions d' = ev_promotions d @ [p]" "pro_campaign_id p \<notin> pro_campaign_id ` set (ev_promotions d)"
    and g: "row_get camp_id (pro_campaign_id p) (ev_campaigns d) = Some c" "row_get bat_id (pro_batch_id p) (ev_batches d) = Some b"
    and a: "\<exists>a\<in>set (ev_assessments d). asm_key a = (pro_assessment_id p, pro_campaign_id p, Some (pro_batch_id p))"
    and t: "\<exists>t\<in>set (ev_artifacts d). art_id t = pro_artifact_id p \<and> art_digest t = pro_artifact_digest p \<and>
      art_assessment_id t = pro_assessment_id p \<and> art_provider_run_id t = pro_candidate_id p"
    and k: "evidence_kept d d'" and w: "camp_status c = ''WINNER_SELECTED''" "camp_winner_candidate_id c = Some (pro_candidate_id p)"
      "bat_winner_candidate_id b = Some (pro_candidate_id p)"
    and eq: "ev_campaigns d' = ev_campaigns d" "ev_batches d' = ev_batches d" "ev_candidates d' = ev_candidates d"
  note e = evidence_keptD [OF k]
  have ok': "campaigns_ok d" "records_ok cf vs F d" "collision_free cf F \<Longrightarrow> linked vs F d" using ok by (simp_all add: eval_ok_pair)
  have "promotion_ok d p" unfolding promotion_ok_def
    using w row.get_SomeD [OF g(1)] row.get_SomeD [OF g(2)] row.get_key [OF g(1)] row.get_key [OF g(2)] by metis
  then have "campaigns_ok d'" by (rule campaigns_ok_promote [OF ok'(1) p _ eq])
  moreover have "records_ok cf vs F d'"
  proof -
    have pa: "promoted_artifact d' q \<longleftrightarrow> promoted_artifact d q" for q by (simp add: promoted_artifact_def e)
    have "promoted_artifact d p" using t unfolding promoted_artifact_def by blast
    moreover have "flight_ok vs d' f" if "f \<in> F" for f by (rule flight_ok_mono [OF records_okD(5) [OF ok'(2) that]]) (simp_all add: e)
    ultimately show ?thesis using ok'(2) unfolding records_ok_def e eq p(1) pa by auto
  qed
  moreover have "linked vs F d'" if l: "linked vs F d"
  proof -
    have tb: "trusted_batch vs d' = trusted_batch vs d" by (intro ext) (simp add: trusted_batch_def eq e)
    have "flight_linked vs d' f \<longleftrightarrow> flight_linked vs d f" for f by (cases f) (simp_all add: tb)
    moreover have "trusted_batch vs d (pro_assessment_id p) (pro_campaign_id p) (pro_batch_id p)"
      using a linkedD(2) [OF l] unfolding asm_key_def by (metis prod.inject)
    ultimately show ?thesis using l unfolding linked_def tb e p(1) by auto
  qed
  ultimately show ?thesis unfolding eval_ok_pair using ok'(3) by blast
qed (simp add: ok)

lemma provider_outcomes_ok: "\<forall>u\<in>set (map (execute_evaluation_provider_run cf pv) ps). run_outcome_ok cf u"
  using execute_evaluation_provider_run_ok by simp

lemma kept_step: "core_tables_kept d d' \<Longrightarrow> evidence_kept d d' \<Longrightarrow> assessment_step d d'"
  by (simp add: assessment_step_def evidence_kept_def)

lemma eval_step_ok:
  assumes "eval_step cf fl fv vs s s'" and ok: "eval_ok cf vs s"
  shows "eval_ok cf vs s'"
  using assms
proof (induction rule: eval_step.induct)
  case (service d F x)
  then show ?case by (rule eval_ok_assessment_step) (simp add: kept_step kept_defs)
next
  case (repair en wid cid actor key pvs ra d r d' F)
  show ?case by (rule eval_ok_assessment_step [OF repair(2) kept_step [OF plan_evaluation_repair_effect [OF repair(1)]]])
next
  case (read_evidence aid d a x cs F)
  have r: "records_ok cf vs F d" using read_evidence(3) by (simp add: eval_ok_pair)
  have "(aid, asm_campaign_id a) \<in> asm_pair ` set (ev_assessments d)"
    using row.get_SomeD [OF read_evidence(1)] row.get_key [OF read_evidence(1)] by (force simp: asm_pair_def)
  moreover have "\<forall>e\<in>set cs. from_trusted vs (ev_artifacts d) aid e"
    using trusted_evidence_from_trusted [OF read_evidence(2) records_okD(2,3) [OF r]] row.get_key [OF read_evidence(1)] by simp
  ultimately show ?case by (intro eval_ok_insert [OF read_evidence(3)]) simp_all
qed (blast intro: eval_ok_create eval_ok_submit eval_ok_promote eval_ok_assess eval_ok_finish_checks eval_ok_conclude eval_ok_submit_trusted
    eval_ok_assessment_step eval_ok_runs_step recovery_step commit_evaluation_plan_step start_evaluation_execution_step
    finish_evaluation_execution_step [OF _ provider_outcomes_ok] reconcile_evaluation_execution_step start_evaluation_checks_effect
    prepare_evaluation_reviews_effect skip_evaluation_reviews_effect start_evaluation_reviews_effect finish_evaluation_reviews_effect
    commit_review_reconciliation_effect)+

lemma eval_init_ok: "eval_ok cf vs eval_init"
  by (simp add: eval_ok_def eval_init_def campaigns_ok_def records_ok_def linked_def artifacts_ok_def checks_ok_def empty_eval_db_def)

interpretation evaluation: step_system "eval_step cf fl fv vs" eval_init "eval_ok cf vs" for cf fl fv vs
  by unfold_locales (blast intro: eval_init_ok eval_step_ok)+

end
