(* ===== verification/Evaluation_Handlers.thy ===== *)
theory Evaluation_Handlers
  imports Evaluation_Runs
begin

text \<open>
  The handlers of the pipeline that commit several transactions are runs of the step relation, whatever their result:
  what holds in every reachable state holds after each of them, and between their transactions.
\<close>

lemma steps_trans: "S s t \<Longrightarrow> S\<^sup>*\<^sup>* t u \<Longrightarrow> S\<^sup>*\<^sup>* s u"
  by (rule converse_rtranclp_into_rtranclp)

definition runs_to :: "config \<Rightarrow> (rat \<Rightarrow> string) \<Rightarrow> (string \<Rightarrow> rat) \<Rightarrow> evaluation_validator list \<Rightarrow> eval_state \<Rightarrow> eval_db \<Rightarrow> bool" where
  "runs_to cf fl fv vs s d' \<longleftrightarrow> (\<exists>F'. (eval_step cf fl fv vs)\<^sup>*\<^sup>* s (d', F'))"

lemma runs_to_refl [simp]: "runs_to cf fl fv vs (d, F) d"
  unfolding runs_to_def by blast

lemma runs_to_step: "eval_step cf fl fv vs s s1 \<Longrightarrow> runs_to cf fl fv vs s1 d' \<Longrightarrow> runs_to cf fl fv vs s d'"
  unfolding runs_to_def by (metis steps_trans)

lemma runs_to_one: "eval_step cf fl fv vs s (d', F') \<Longrightarrow> runs_to cf fl fv vs s d'"
  unfolding runs_to_def by blast

text \<open>One transaction of a handler and the rest of it.\<close>

lemma runs_commit:
  assumes "(case commit d m of (Inl e, d1) \<Rightarrow> (Inl e, d1) | (Inr x, d1) \<Rightarrow> f x d1) = (r, d')"
    and "\<And>x d1. m = Inr (x, d1) \<Longrightarrow> eval_step cf fl fv vs (d, F) (d1, G x)"
    and "\<And>x d1. m = Inr (x, d1) \<Longrightarrow> f x d1 = (r, d') \<Longrightarrow> runs_to cf fl fv vs (d1, G x) d'"
  shows "runs_to cf fl fv vs (d, F) d'"
  using assms runs_to_step by (cases m) (auto simp: commit_def)

lemma runs_commit_last:
  assumes "commit d m = (r, d')" "\<And>x d1. m = Inr (x, d1) \<Longrightarrow> eval_step cf fl fv vs (d, F) (d1, G x)"
  shows "runs_to cf fl fv vs (d, F) d'"
  using assms runs_to_one by (cases m) (auto simp: commit_def)

text \<open>Identifiers stay fresh while no row with an identifier is added.\<close>

lemma ids_fresh_assessment_step:
  assumes "ids_fresh en d" "assessment_step d d'"
  shows "ids_fresh en d'"
proof -
  have k: "core_tables_kept d d'" "ev_artifacts d' = ev_artifacts d" "checks_weaker (ev_checks d) (ev_checks d')"
    "map asm_key (ev_assessments d') = map asm_key (ev_assessments d)" using assms(2) unfolding assessment_step_def by blast+
  have "asm_id ` set (ev_assessments d') = asm_id ` set (ev_assessments d)" "chk_id ` set (ev_checks d') = chk_id ` set (ev_checks d)"
    using arg_cong [OF asm_keys_same(1) [OF k(4)], of set] arg_cong [OF checks_weaker_keys(2) [OF k(3)], of set] by simp_all
  then show ?thesis using assms(1) core_tables_keptD [OF k(1)] k(2) by (simp add: ids_fresh_def)
qed

lemma submit_trusted_assessment_runs:
  assumes h: "submit_trusted_assessment cf fl fv en aid actor d = (r, d')" and fr: "ids_fresh (en 0) d"
  shows "runs_to cf fl fv vs (d, F) d'"
proof (cases "row_get asm_id aid (ev_assessments d)")
  case None
  then show ?thesis using h by (simp add: submit_trusted_assessment_def)
next
  case (Some a)
  consider "d' = d" | x cs where "trusted_evidence fv d a = Inr (x, cs)"
    "(case commit d (submit_evaluation_evidence cf fl (en 0) (asm_workflow_id a) (asm_campaign_id a) actor
        (''trusted-validation:'' @ aid) cs (exe_repair_id x) d) of (Inl e, d1) \<Rightarrow> (Inl e, d1)
      | (Inr decision, d1) \<Rightarrow> commit d1 (conclude_assessment cf fl (en 1) aid actor decision d1)) = (r, d')"
    using h Some unfolding submit_trusted_assessment_def by (auto split: if_splits sum.splits)
  then show ?thesis
  proof cases
    case (2 x cs)
    let ?F = "insert (Evidence aid (asm_workflow_id a) (asm_campaign_id a) (exe_repair_id x) cs) F"
    have "runs_to cf fl fv vs (d, ?F) d'"
    proof (rule runs_commit [OF 2(2), where G = "\<lambda>r. insert (Decision aid (asm_campaign_id a) r) (insert (Submitted (asm_campaign_id a) cs (exe_repair_id x)) ?F)"])
      fix dec d1
      assume m: "submit_evaluation_evidence cf fl (en 0) (asm_workflow_id a) (asm_campaign_id a) actor (''trusted-validation:'' @ aid) cs (exe_repair_id x) d = Inr (dec, d1)"
      let ?F1 = "insert (Decision aid (asm_campaign_id a) dec) (insert (Submitted (asm_campaign_id a) cs (exe_repair_id x)) ?F)"
      show "eval_step cf fl fv vs (d, ?F) (d1, ?F1)" by (rule eval_step.submit_trusted [OF _ fr m]) simp
      assume "commit d1 (conclude_assessment cf fl (en 1) aid actor dec d1) = (r, d')"
      moreover have "Decision aid (asm_campaign_id a) dec \<in> ?F1" by simp
      ultimately show "runs_to cf fl fv vs (d1, ?F1) d'" by (rule runs_commit_last [OF _ eval_step.conclude])
    qed
    then show ?thesis by (rule runs_to_step [OF eval_step.read_evidence [OF Some 2(1)]])
  qed simp
qed

lemma resume_trusted_assessment_runs:
  assumes h: "resume_trusted_assessment cf fl fv pv en aid actor d = (r, d')" and fr: "ids_fresh (en 0) d"
  shows "runs_to cf fl fv vs (d, F) d'"
proof -
  note sub = submit_trusted_assessment_runs [of cf fl fv en aid actor _ r d' vs F] and fresh = ids_fresh_assessment_step
  let ?reviews = "\<lambda>p d1. if p = [] then (case commit d1 (skip_evaluation_reviews aid d1) of (Inl e, d2) \<Rightarrow> (Inl e, d2)
            | (Inr _, d2) \<Rightarrow> submit_trusted_assessment cf fl fv en aid actor d2)
          else (case commit d1 (start_evaluation_reviews (en 3) aid d1) of (Inl e, d2) \<Rightarrow> (Inl e, d2)
            | (Inr _, d2) \<Rightarrow> (case commit d2 (finish_evaluation_reviews cf fl (en 4) aid (map (review_outcome cf pv) p) d2) of
                (Inl e, d3) \<Rightarrow> (Inl e, d3) | (Inr (Some r), d3) \<Rightarrow> (Inr r, d3)
              | (Inr None, d3) \<Rightarrow> submit_trusted_assessment cf fl fv en aid actor d3))"
  have reviews: "runs_to cf fl fv vs (d1, F) d'" if c: "?reviews p d1 = (r, d')" and f1: "ids_fresh (en 0) d1" for p d1
  proof (cases "p = []")
    case True
    show ?thesis
      by (rule runs_commit [OF c [unfolded True if_P [OF refl]] eval_step.skip_reviews], assumption, rule sub, assumption)
        (rule fresh [OF f1 skip_evaluation_reviews_effect])
  next
    case False
    show ?thesis
    proof (rule runs_commit [OF c [unfolded if_not_P [OF False]] eval_step.start_reviews], assumption, erule runs_commit, erule eval_step.finish_reviews)
      fix x d2 o' d3
      assume y: "start_evaluation_reviews (en 3) aid d1 = Inr (x, d2)"
        and z: "finish_evaluation_reviews cf fl (en 4) aid (map (review_outcome cf pv) p) d2 = Inr (o', d3)"
        and c: "(case o' of None \<Rightarrow> submit_trusted_assessment cf fl fv en aid actor d3 | Some r \<Rightarrow> (Inr r, d3)) = (r, d')"
      have "ids_fresh (en 0) d3"
        by (rule fresh [OF fresh [OF f1 start_evaluation_reviews_effect [OF y]] finish_evaluation_reviews_effect [OF z]])
      then show "runs_to cf fl fv vs (d3, F) d'" using c sub by (cases o') simp_all
    qed
  qed
  consider "d' = d" | "submit_trusted_assessment cf fl fv en aid actor d = (r, d')" |
      "(case commit d (prepare_evaluation_reviews cf (en 2) aid actor d) of (Inl e, d1) \<Rightarrow> (Inl e, d1) | (Inr p, d1) \<Rightarrow> ?reviews p d1) = (r, d')"
    using h unfolding resume_trusted_assessment_def Let_def by (auto split: option.splits if_splits)
  then show ?thesis
  proof cases
    case 3
    show ?thesis
      by (rule runs_commit [OF 3 eval_step.prepare_reviews], assumption, rule reviews, assumption)
        (rule fresh [OF fr prepare_evaluation_reviews_effect])
  qed (use sub fr in simp_all)
qed

text \<open>The identifiers an assessment takes are those of its environment.\<close>

lemma disjoint_grown: "A \<subseteq> B \<union> C \<Longrightarrow> R \<inter> B = {} \<Longrightarrow> C \<inter> R = {} \<Longrightarrow> R \<inter> A = {}"
  by blast

lemma ids_fresh_assess:
  assumes tx: "commit_evaluation_assessment cf vs en wid xid actor key d = Inr ((aid, ps), d')" and fr: "ids_fresh en' d"
    and dj: "range (en_uuid en) \<inter> range (en_uuid en') = {}"
  shows "ids_fresh en' d'"
proof -
  obtain a x cs t ys where y: "assess_runs vs en a x cs t 1 (execution_runs d (exe_id x)) = Inr ys" "asm_id a = en_uuid en 0"
    and d': "ev_assessments d' = ev_assessments d @ [a]" "ev_artifacts d' = ev_artifacts d @ map fst ys"
      "ev_checks d' = ev_checks d @ map fst (concat (map snd ys))" "core_tables_kept d d'"
    using commit_evaluation_assessment_Inr [OF tx] by metis
  note f = assess_runs_Inr [OF y(1), THEN conjunct2] and eq = core_tables_keptD [OF d'(4)]
  have "art_id ` set (map fst ys) \<subseteq> range (en_uuid en)" "chk_id ` set (map fst (concat (map snd ys))) \<subseteq> range (en_uuid en)"
    using ids_from_range [OF f [THEN conjunct1]] ids_from_range [OF f [THEN conjunct2]] by fastforce+
  moreover have "asm_id ` set (ev_assessments d') \<subseteq> asm_id ` set (ev_assessments d) \<union> range (en_uuid en)" using y(2) by (auto simp: d')
  ultimately have "camp_id ` set (ev_campaigns d') \<union> bat_id ` set (ev_batches d') \<union> asm_id ` set (ev_assessments d') \<union>
      art_id ` set (ev_artifacts d') \<union> chk_id ` set (ev_checks d') \<subseteq>
    (camp_id ` set (ev_campaigns d) \<union> bat_id ` set (ev_batches d) \<union> asm_id ` set (ev_assessments d) \<union>
      art_id ` set (ev_artifacts d) \<union> chk_id ` set (ev_checks d)) \<union> range (en_uuid en)" (is "?U' \<subseteq> ?U \<union> _")
    unfolding eq(1,2) d'(2,3) set_append image_Un by (intro Un_least) blast+
  then have "range (en_uuid en') \<inter> ?U' = {}" by (rule disjoint_grown) (use fr dj in \<open>simp_all add: ids_fresh_def\<close>)
  then show ?thesis unfolding ids_fresh_def by (rule conjI [OF ids_freshD(1) [OF fr]])
qed

lemma ids_fresh_finish_checks:
  assumes "finish_evaluation_checks cf en aid us d = Inr (r, d')" "ids_fresh en' d"
  shows "ids_fresh en' d'"
proof -
  have s: "settle_checks cf (en_now en 0) aid us (ev_checks d) = Inr (ev_checks d')"
    and k: "core_tables_kept d d'" "ev_artifacts d' = ev_artifacts d" "map asm_key (ev_assessments d') = map asm_key (ev_assessments d)"
    using assms(1) by (auto simp: finish_evaluation_checks_def tx_simps core_tables_kept_def asm_keys_upd asm_key_def split: option.splits if_splits)
  have "asm_id ` set (ev_assessments d') = asm_id ` set (ev_assessments d)" "chk_id ` set (ev_checks d') = chk_id ` set (ev_checks d)"
    using arg_cong [OF asm_keys_same(1) [OF k(3)], of set] arg_cong [OF distinct_chk_id [OF settle_checks_Inr(1) [OF s]], of set] by simp_all
  then show ?thesis using assms(2) core_tables_keptD [OF k(1)] k(2) by (simp add: ids_fresh_def)
qed

lemma mark_replayed_state [simp]: "mark_replayed b m = (r, d') \<Longrightarrow> \<exists>r'. m = (r', d')"
  by (cases m) (auto simp: mark_replayed_def)

lemma with_reconciliation_state: "with_reconciliation cf rc m = (r, d') \<Longrightarrow> \<exists>r'. m = (r', d')"
  by (cases m) (auto simp: with_reconciliation_def)

lemma validate_evaluation_execution_runs:
  assumes h: "validate_evaluation_execution cf fl fv vs pv en wid xid actor key d = (r, d')"
    and fr: "ids_fresh (en 0) d" "ids_fresh (en 6) d" "range (en_uuid (en 6)) \<inter> range (en_uuid (en 0)) = {}"
  shows "runs_to cf fl fv vs (d, F) d'"
proof -
  note resume = resume_trusted_assessment_runs [of cf fl fv pv en]
  let ?finish = "\<lambda>aid ps d2. case commit d2 (finish_evaluation_checks cf (en 7) aid (map run_evaluation_check ps) d2) of
              (Inl e, d3) \<Rightarrow> (Inl e, d3) | (Inr _, d3) \<Rightarrow> resume_trusted_assessment cf fl fv pv en aid actor d3"
  let ?start = "\<lambda>x d1. case commit d1 (start_evaluation_checks (fst x) d1) of (Inl e, d2) \<Rightarrow> (Inl e, d2)
          | (Inr _, d2) \<Rightarrow> ?finish (fst x) (snd x) d2"
  have finish: "runs_to cf fl fv vs (d2, insert (Checking aid ps) F) d'" if c: "?finish aid ps d2 = (r, d')" and f2: "ids_fresh (en 0) d2" for aid ps d2
    by (rule runs_commit [OF c, where G = "\<lambda>_. insert (Checking aid ps) F"])
      (blast intro: eval_step.finish_checks resume ids_fresh_finish_checks [OF _ f2])+
  have start: "runs_to cf fl fv vs (d1, insert (Checking (fst x) (snd x)) F) d'" if c: "?start x d1 = (r, d')" and f1: "ids_fresh (en 0) d1" for x d1
    by (rule runs_commit [OF c, where G = "\<lambda>_. insert (Checking (fst x) (snd x)) F"])
      (blast intro: eval_step.start_checks finish ids_fresh_assessment_step [OF f1 start_evaluation_checks_effect])+
  consider "d' = d" | i r' where "resume_trusted_assessment cf fl fv pv en i actor d = (r', d')" |
      "(case commit d (commit_evaluation_assessment cf vs (en 6) wid xid actor key d) of (Inl e, d1) \<Rightarrow> (Inl e, d1)
        | (Inr x, d1) \<Rightarrow> ?start x d1) = (r, d')"
    using h unfolding validate_evaluation_execution_def case_prod_beta
    by (auto split: sum.splits option.splits if_splits dest: mark_replayed_state)
  then show ?thesis
  proof cases
    case 2
    then show ?thesis by (rule resume [OF _ fr(1)])
  next
    case 3
    show ?thesis
    proof (rule runs_commit [OF 3, where G = "\<lambda>x. insert (Checking (fst x) (snd x)) F"])
      fix x d1
      assume m: "commit_evaluation_assessment cf vs (en 6) wid xid actor key d = Inr (x, d1)"
      then have m': "commit_evaluation_assessment cf vs (en 6) wid xid actor key d = Inr ((fst x, snd x), d1)" by simp
      show "eval_step cf fl fv vs (d, F) (d1, insert (Checking (fst x) (snd x)) F)" by (rule eval_step.assess [OF fr(2) m'])
      show "runs_to cf fl fv vs (d1, insert (Checking (fst x) (snd x)) F) d'" if "?start x d1 = (r, d')"
        by (rule start [OF that ids_fresh_assess [OF m' fr(1,3)]])
    qed
  qed simp
qed

lemma execute_evaluation_campaign_runs:
  assumes h: "execute_evaluation_campaign cf fl pv en wid cid tid actor key pvs rep d = (r, d')"
  shows "runs_to cf fl fv vs (d, F) d'"
proof -
  let ?finish = "\<lambda>pn d2. commit d2 (finish_evaluation_execution cf (en 3) wid cid (pn_execution_id pn)
    (map (execute_evaluation_provider_run cf pv) (pn_runs pn)) d2)"
  let ?start = "\<lambda>pn d1. case commit d1 (start_evaluation_execution cf (en 2) wid cid pn d1) of (Inl e, d2) \<Rightarrow> (Inl e, d2)
    | (Inr s, d2) \<Rightarrow> (case s of None \<Rightarrow> ?finish pn d2 | Some stale \<Rightarrow> (Inr stale, d2))"
  have finish: "runs_to cf fl fv vs (d2, F) d'" if "(case s of None \<Rightarrow> ?finish pn d2 | Some stale \<Rightarrow> (Inr stale, d2)) = (r, d')" for s pn d2
    using that by (cases s) (auto intro: runs_commit_last [OF _ eval_step.finish_execution])
  have start: "runs_to cf fl fv vs (d1, F) d'" if c: "?start pn d1 = (r, d')" for pn d1
    by (rule runs_commit [OF c, where G = "\<lambda>_. F"]) (blast intro: eval_step.start_execution finish)+
  consider "d' = d" | "(case commit d (commit_evaluation_plan cf fl (en 1) wid cid tid actor key pvs rep d) of (Inl e, d1) \<Rightarrow> (Inl e, d1)
      | (Inr y, d1) \<Rightarrow> (case y of Inl replay \<Rightarrow> (Inr replay, d1) | Inr pn \<Rightarrow> ?start pn d1)) = (r, d')"
    using h unfolding execute_evaluation_campaign_def by (auto split: sum.splits option.splits if_splits)
  then show ?thesis
  proof cases
    case 2
    have plan: "runs_to cf fl fv vs (d1, F) d'" if "(case y of Inl replay \<Rightarrow> (Inr replay, d1) | Inr pn \<Rightarrow> ?start pn d1) = (r, d')" for y d1
      using that start by (cases y) simp_all
    show ?thesis by (rule runs_commit [OF 2, where G = "\<lambda>_. F"]) (blast intro: eval_step.plan plan)+
  qed simp
qed

lemma reconcile_evaluation_reviews_runs:
  assumes h: "reconcile_evaluation_reviews cf fl fv en wid aid actor key ra d = (r, d')" and fr: "ids_fresh (en 0) d"
  shows "runs_to cf fl fv vs (d, F) d'"
proof -
  note sub = submit_trusted_assessment_runs [of cf fl fv en aid actor]
  let ?m = "commit_review_reconciliation cf (en 6) wid aid actor key ra d"
  consider "d' = d" | r' where "submit_trusted_assessment cf fl fv en aid actor d = (r', d')" |
      x d1 r' where "?m = Inr (x, d1)" "submit_trusted_assessment cf fl fv en aid actor d1 = (r', d')"
    using h unfolding reconcile_evaluation_reviews_def commit_def
    by (auto split: sum.splits option.splits if_splits dest!: mark_replayed_state with_reconciliation_state)
  then show ?thesis
  proof cases
    case 3
    show ?thesis
      by (rule runs_to_step [OF eval_step.reconcile_reviews [OF 3(1)] sub [OF 3(2)]])
        (rule ids_fresh_assessment_step [OF fr commit_review_reconciliation_effect [OF 3(1)]])
  qed (use sub fr in simp_all)
qed

lemma recover_assessment_runs:
  assumes h: "recover_assessment cf fl fv pv en wid aid actor key ra d = (r, d')" and fr: "ids_fresh (en 0) d"
  shows "runs_to cf fl fv vs (d, F) d'"
proof -
  note resume = resume_trusted_assessment_runs [of cf fl fv pv en aid actor]
  let ?m = "commit_recovery cf (en 8) wid aid actor key (recovery_digest cf aid ra) ra d"
  consider "d' = d" | r' where "resume_trusted_assessment cf fl fv pv en aid actor d = (r', d')" |
      x d1 where "?m = Inr (x, d1)" "d' = d1 \<or> (\<exists>r'. resume_trusted_assessment cf fl fv pv en aid actor d1 = (r', d'))"
    using h unfolding recover_assessment_def recover_evaluation_assessment_def Let_def
    by (auto split: sum.splits option.splits if_splits prod.splits)
  then show ?thesis
  proof cases
    case 3
    have f1: "ids_fresh (en 0) d1" by (rule ids_fresh_assessment_step [OF fr recovery_step [OF 3(1)]])
    have "runs_to cf fl fv vs (d1, F) d'" using 3(2) resume [OF _ f1] by auto
    then show ?thesis by (rule runs_to_step [OF eval_step.recover [OF 3(1)]])
  qed (use resume fr in simp_all)
qed

end
