(* ===== verification/Evaluation_Demo.thy ===== *)
theory Evaluation_Demo
  imports Evaluation_Handlers
begin

text \<open>
  A concrete campaign, transaction by transaction, from its creation to the promotion of its winner: one local
  provider, one prompt variant, the default validators, no review demanded.
\<close>

definition demo_evaluation_cf :: config where
  "demo_evaluation_cf = demo_cf\<lparr>cf_sha256 := (\<lambda>s. replicate 64 CHR ''0''), cf_profiles := [mock_profile ''mock-producer'']\<rparr>"

definition demo_calls :: provider_calls where
  "demo_calls = \<lparr>pv_submit = (\<lambda>i q. Inr \<lparr>res_status = ''SUCCEEDED'', res_output = JObj [(''plan'', JList []), (''assumptions'', JList [])],
     res_provider = ''mock'', res_model = ''deterministic-mock-v1'', res_usage = []\<rparr>), pv_name = (\<lambda>i. ''mock''), pv_latency = (\<lambda>i. 5)\<rparr>"

definition demo_validators :: "evaluation_validator list" where
  "demo_validators = default_evaluation_validators (cf_sha256 demo_evaluation_cf)"

definition demo_start :: eval_db where
  "demo_start = (fst eval_init)\<lparr>ev_db := demo_db\<rparr>"

text \<open>Every environment draws identifiers of its own, told apart by their first character.\<close>

definition tagged_env :: "int \<Rightarrow> char \<Rightarrow> env" where
  "tagged_env t c = \<lparr>en_now = (\<lambda>i. t + int i), en_uuid = (\<lambda>i. c # nat_str i), en_healthy = (\<lambda>_. True)\<rparr>"

definition untagged :: "char \<Rightarrow> eval_db \<Rightarrow> bool" where
  "untagged c d \<longleftrightarrow> list_all (\<lambda>i. i = [] \<or> hd i \<noteq> c) (map camp_id (ev_campaigns d) @ map bat_id (ev_batches d) @ map asm_id (ev_assessments d) @
     map art_id (ev_artifacts d) @ map chk_id (ev_checks d))"

lemma ids_fresh_tagged:
  assumes "untagged c d"
  shows "ids_fresh (tagged_env t c) d"
proof -
  have "inj (\<lambda>i. c # nat_str i)" by (auto intro!: injI dest: nat_str_inj)
  then show ?thesis using assms by (fastforce simp: ids_fresh_def tagged_env_def untagged_def list_all_iff)
qed

definition demo_campaign :: "error + dict \<times> eval_db" where
  "demo_campaign = create_evaluation_campaign demo_evaluation_cf (tagged_env 10 CHR ''c'') ''a0'' ''dev-operator'' ''key-0001'' ''c'' WC_PLANNING
     [''schema'', ''security''] 4 3 2 0 None demo_start"

definition demo_evaluation_plan :: "eval_db \<Rightarrow> error + (dict + prepared_evaluation) \<times> eval_db" where
  "demo_evaluation_plan = commit_evaluation_plan demo_evaluation_cf (\<lambda>_. ''x'') (tagged_env 20 CHR ''x'') ''a0'' ''c0'' ''a1'' ''dev-operator'' ''key-0001''
     [\<lparr>pt_variant_id = ''v1'', pt_instruction = ''plan the change''\<rparr>] None"

definition demo_planned :: "dict + prepared_evaluation \<Rightarrow> error + prepared_evaluation" where
  "demo_planned y = (case y of Inl _ \<Rightarrow> Inl (ValueError ''replay'') | Inr pn \<Rightarrow> Inr pn)"

lemma demo_planned_Inr [simp]: "demo_planned y = Inr pn \<longleftrightarrow> y = Inr pn"
  by (cases y) (simp_all add: demo_planned_def)

definition demo_executed :: "error + ident \<times> eval_db" where
  "demo_executed =
     ebind demo_campaign (\<lambda>(_, d0).
     ebind (demo_evaluation_plan d0) (\<lambda>(y, d1).
     ebind (demo_planned y) (\<lambda>pn.
     ebind (start_evaluation_execution demo_evaluation_cf (tagged_env 30 CHR ''y'') ''a0'' ''c0'' pn d1) (\<lambda>(_, d2).
     ebind (finish_evaluation_execution demo_evaluation_cf (tagged_env 40 CHR ''z'') ''a0'' ''c0'' (pn_execution_id pn)
       (map (execute_evaluation_provider_run demo_evaluation_cf demo_calls) (pn_runs pn)) d2) (\<lambda>(_, d3). Inr (pn_execution_id pn, d3))))))"

definition demo_assessed :: "ident \<Rightarrow> eval_db \<Rightarrow> error + evaluation_assessment \<times> eval_db" where
  "demo_assessed xid d3 =
     ebind (require (untagged CHR ''s'' d3 \<and> untagged CHR ''b'' d3) (ValueError ''id'')) (\<lambda>_.
     ebind (commit_evaluation_assessment demo_evaluation_cf demo_validators (tagged_env 50 CHR ''s'') ''a0'' xid ''dev-operator'' ''key-0001'' d3) (\<lambda>((aid, ps), d4).
     ebind (start_evaluation_checks aid d4) (\<lambda>(_, d5).
     ebind (finish_evaluation_checks demo_evaluation_cf (tagged_env 60 CHR ''f'') aid (map run_evaluation_check ps) d5) (\<lambda>(_, d6).
     ebind (from_option (ValueError ''assessment'') (row_get asm_id aid (ev_assessments d6))) (\<lambda>a. Inr (a, d6))))))"

definition demo_decided :: "evaluation_assessment \<Rightarrow> eval_db \<Rightarrow> error + eval_db" where
  "demo_decided a d6 =
     ebind (trusted_evidence (\<lambda>_. 0) d6 a) (\<lambda>(x, cs).
     ebind (require (untagged CHR ''b'' d6) (ValueError ''id'')) (\<lambda>_.
     ebind (submit_evaluation_evidence demo_evaluation_cf (\<lambda>_. ''x'') (tagged_env 70 CHR ''b'') (asm_workflow_id a) (asm_campaign_id a) ''dev-operator''
       (''trusted-validation:'' @ asm_id a) cs (exe_repair_id x) d6) (\<lambda>(dec, d7).
     ebind (conclude_assessment demo_evaluation_cf (\<lambda>_. ''x'') (tagged_env 80 CHR ''o'') (asm_id a) ''dev-operator'' dec d7) (\<lambda>(_, d8).
     ebind (promote_evaluation_winner demo_evaluation_cf (tagged_env 90 CHR ''p'') ''a0'' (asm_id a) ''dev-operator'' ''key-0001''
       ''the best of the batch'' d8) (\<lambda>(_, d). Inr d)))))"

definition demo_evaluation_run :: "error + eval_db" where
  "demo_evaluation_run = ebind demo_executed (\<lambda>(xid, d). ebind (demo_assessed xid d) (\<lambda>(a, d). demo_decided a d))"

definition demo_promoted :: eval_db where
  "demo_promoted = (case demo_evaluation_run of Inr d \<Rightarrow> d | Inl _ \<Rightarrow> demo_start)"

text \<open>The whole run, evaluated.\<close>

lemma demo_evaluation_run_rows:
  "map_sum (\<lambda>e. ()) (\<lambda>d. (map (\<lambda>p. (pro_campaign_id p, pro_candidate_id p)) (ev_promotions d),
     map (\<lambda>c. (camp_id c, camp_required_checks c, camp_status c, camp_max_iterations c)) (ev_campaigns d), map art_content_json (ev_artifacts d))) demo_evaluation_run =
   Inr ([(''c0'', ''x1'')], [(''c0'', [''schema'', ''security''], ''WINNER_SELECTED'', 2)], [[(''plan'', JList []), (''assumptions'', JList [])]])"
  by code_simp

lemma demo_evaluation_run_Inr: "demo_evaluation_run = Inr demo_promoted"
proof (cases demo_evaluation_run)
  case (Inl e)
  show ?thesis using demo_evaluation_run_rows unfolding Inl map_sum.simps by simp
next
  case (Inr d)
  show ?thesis unfolding demo_promoted_def Inr sum.case by (rule refl)
qed

lemma demo_promoted_facts:
  obtains p c t where "ev_promotions demo_promoted = [p]" "pro_campaign_id p = ''c0''" "pro_candidate_id p = ''x1''" "ev_campaigns demo_promoted = [c]" "camp_id c = ''c0''"
    "camp_required_checks c = [''schema'', ''security'']" "camp_status c = ''WINNER_SELECTED''" "camp_max_iterations c = 2"
    "ev_artifacts demo_promoted = [t]" "art_content_json t = [(''plan'', JList []), (''assumptions'', JList [])]"
  using demo_evaluation_run_rows unfolding demo_evaluation_run_Inr map_sum.simps
  by (cases "ev_promotions demo_promoted"; cases "ev_campaigns demo_promoted"; cases "ev_artifacts demo_promoted") auto

lemma demo_executed_steps:
  assumes "demo_executed = Inr (xid, d)"
  shows "(eval_step demo_evaluation_cf (\<lambda>_. ''x'') (\<lambda>_. 0) demo_validators)\<^sup>*\<^sup>* eval_init (d, {})"
proof -
  let ?S = "eval_step demo_evaluation_cf (\<lambda>_. ''x'') (\<lambda>_. 0) demo_validators"
  obtain r0 d0 pn d1 r2 d2 r3 where c: "demo_campaign = Inr (r0, d0)" and p: "demo_evaluation_plan d0 = Inr (Inr pn, d1)"
    and s: "start_evaluation_execution demo_evaluation_cf (tagged_env 30 CHR ''y'') ''a0'' ''c0'' pn d1 = Inr (r2, d2)"
    and f: "finish_evaluation_execution demo_evaluation_cf (tagged_env 40 CHR ''z'') ''a0'' ''c0'' (pn_execution_id pn)
       (map (execute_evaluation_provider_run demo_evaluation_cf demo_calls) (pn_runs pn)) d2 = Inr (r3, d)"
    using assms by (auto simp: demo_executed_def tx_simps)
  have "?S eval_init (demo_start, {})" unfolding demo_start_def eval_init_def fst_conv by (rule eval_step.service)
  moreover have "?S (demo_start, {}) (d0, {})"
  proof (rule eval_step.create [OF _ c [unfolded demo_campaign_def]])
    show "ids_fresh (tagged_env 10 CHR ''c'') demo_start"
      by (rule ids_fresh_tagged) (simp add: untagged_def demo_start_def eval_init_def empty_eval_db_def)
  qed
  moreover have "?S (d0, {}) (d1, {})" by (rule eval_step.plan [OF p [unfolded demo_evaluation_plan_def]])
  moreover have "?S (d1, {}) (d2, {})" by (rule eval_step.start_execution [OF s])
  moreover have "?S (d2, {}) (d, {})" by (rule eval_step.finish_execution [OF f])
  ultimately show ?thesis by (meson converse_rtranclp_into_rtranclp rtranclp.rtrancl_refl)
qed

lemma demo_assessed_steps:
  assumes "demo_assessed xid d3 = Inr (a, d)"
  shows "\<exists>aid ps. (eval_step demo_evaluation_cf (\<lambda>_. ''x'') (\<lambda>_. 0) demo_validators)\<^sup>*\<^sup>* (d3, {}) (d, {Checking aid ps}) \<and>
    row_get asm_id (asm_id a) (ev_assessments d) = Some a"
proof -
  let ?S = "eval_step demo_evaluation_cf (\<lambda>_. ''x'') (\<lambda>_. 0) demo_validators"
  obtain aid ps d4 r5 d5 r6 where u: "untagged CHR ''s'' d3"
    and c: "commit_evaluation_assessment demo_evaluation_cf demo_validators (tagged_env 50 CHR ''s'') ''a0'' xid ''dev-operator'' ''key-0001'' d3 =
      Inr ((aid, ps), d4)" and s: "start_evaluation_checks aid d4 = Inr (r5, d5)"
    and f: "finish_evaluation_checks demo_evaluation_cf (tagged_env 60 CHR ''f'') aid (map run_evaluation_check ps) d5 = Inr (r6, d)"
    and a: "row_get asm_id aid (ev_assessments d) = Some a"
    using assms by (auto simp: demo_assessed_def tx_simps)
  have "?S (d3, {}) (d4, {Checking aid ps})" by (rule eval_step.assess [OF ids_fresh_tagged [OF u] c])
  moreover have "?S (d4, {Checking aid ps}) (d5, {Checking aid ps})" by (rule eval_step.start_checks [OF s])
  moreover have "?S (d5, {Checking aid ps}) (d, {Checking aid ps})" by (rule eval_step.finish_checks [OF _ order_refl f]) simp
  ultimately have "?S\<^sup>*\<^sup>* (d3, {}) (d, {Checking aid ps})" by (meson converse_rtranclp_into_rtranclp rtranclp.rtrancl_refl)
  then show ?thesis using a row.get_key [OF a] by blast
qed

lemma demo_decided_steps:
  assumes "demo_decided a d6 = Inr d" and a: "row_get asm_id (asm_id a) (ev_assessments d6) = Some a"
  shows "\<exists>f g cid cs rep. (eval_step demo_evaluation_cf (\<lambda>_. ''x'') (\<lambda>_. 0) demo_validators)\<^sup>*\<^sup>* (d6, {Checking aid ps})
    (d, {Decision (asm_id a) cid f, Submitted cid cs rep, Evidence (asm_id a) g cid rep cs, Checking aid ps})"
proof -
  let ?S = "eval_step demo_evaluation_cf (\<lambda>_. ''x'') (\<lambda>_. 0) demo_validators"
  obtain x cs dec d7 r8 d8 r9 where ev: "trusted_evidence (\<lambda>_. 0) d6 a = Inr (x, cs)" and u: "untagged CHR ''b'' d6"
    and s: "submit_evaluation_evidence demo_evaluation_cf (\<lambda>_. ''x'') (tagged_env 70 CHR ''b'') (asm_workflow_id a) (asm_campaign_id a) ''dev-operator''
       (''trusted-validation:'' @ asm_id a) cs (exe_repair_id x) d6 = Inr (dec, d7)"
    and c: "conclude_assessment demo_evaluation_cf (\<lambda>_. ''x'') (tagged_env 80 CHR ''o'') (asm_id a) ''dev-operator'' dec d7 = Inr (r8, d8)"
    and p: "promote_evaluation_winner demo_evaluation_cf (tagged_env 90 CHR ''p'') ''a0'' (asm_id a) ''dev-operator'' ''key-0001''
       ''the best of the batch'' d8 = Inr (r9, d)"
    using assms(1) by (auto simp: demo_decided_def tx_simps)
  let ?E = "Evidence (asm_id a) (asm_workflow_id a) (asm_campaign_id a) (exe_repair_id x) cs"
  let ?D = "Decision (asm_id a) (asm_campaign_id a) dec" and ?T = "Submitted (asm_campaign_id a) cs (exe_repair_id x)"
  have "?S (d6, {Checking aid ps}) (d6, {?E, Checking aid ps})" by (rule eval_step.read_evidence [OF a ev])
  moreover have "?S (d6, {?E, Checking aid ps}) (d7, {?D, ?T, ?E, Checking aid ps})"
    by (rule eval_step.submit_trusted [OF _ ids_fresh_tagged [OF u] s]) simp
  moreover have "?S (d7, {?D, ?T, ?E, Checking aid ps}) (d8, {?D, ?T, ?E, Checking aid ps})" by (rule eval_step.conclude [OF _ c]) simp
  moreover have "?S (d8, {?D, ?T, ?E, Checking aid ps}) (d, {?D, ?T, ?E, Checking aid ps})" by (rule eval_step.promote [OF p])
  ultimately show ?thesis by (meson converse_rtranclp_into_rtranclp rtranclp.rtrancl_refl)
qed

lemma demo_promoted_reachable:
  "\<exists>F. (eval_step demo_evaluation_cf (\<lambda>_. ''x'') (\<lambda>_. 0) demo_validators)\<^sup>*\<^sup>* eval_init (demo_promoted, F) \<and> collision_free demo_evaluation_cf F"
proof -
  let ?S = "eval_step demo_evaluation_cf (\<lambda>_. ''x'') (\<lambda>_. 0) demo_validators"
  obtain xid d3 a d6 where e: "demo_executed = Inr (xid, d3)" and as: "demo_assessed xid d3 = Inr (a, d6)"
    and dc: "demo_decided a d6 = Inr demo_promoted"
    using demo_evaluation_run_Inr [unfolded demo_evaluation_run_def ebind_eq_Inr] by (auto simp: ebind_eq_Inr)
  obtain aid ps where s: "?S\<^sup>*\<^sup>* (d3, {}) (d6, {Checking aid ps})" "row_get asm_id (asm_id a) (ev_assessments d6) = Some a"
    using demo_assessed_steps [OF as] by blast
  obtain f g cid cs rep where t: "?S\<^sup>*\<^sup>* (d6, {Checking aid ps}) (demo_promoted,
      {Decision (asm_id a) cid f, Submitted cid cs rep, Evidence (asm_id a) g cid rep cs, Checking aid ps})"
    using demo_decided_steps [OF dc s(2)] by blast
  have "?S\<^sup>*\<^sup>* eval_init (demo_promoted, {Decision (asm_id a) cid f, Submitted cid cs rep, Evidence (asm_id a) g cid rep cs, Checking aid ps})"
    by (rule rtranclp_trans [OF demo_executed_steps [OF e] rtranclp_trans [OF s(1) t]])
  moreover have "collision_free demo_evaluation_cf {Decision (asm_id a) cid f, Submitted cid cs rep, Evidence (asm_id a) g cid rep cs, Checking aid ps}"
    by (auto simp: collision_free_def)
  ultimately show ?thesis by blast
qed

end
