(* ===== verification/Evaluation_Properties.thy ===== *)
theory Evaluation_Properties
  imports Evaluation_Demo
begin

text \<open>
  What every run of the evaluation services guarantees: a promoted output was validated by the configured validators,
  a campaign ends within its iterations, a plan calls nobody who would charge, and the handlers are such runs.
\<close>

section \<open>Promotions\<close>

lemma promoted_candidate:
  assumes reach: "(eval_step cf fl fv vs)\<^sup>*\<^sup>* eval_init (d, F)" and free: "collision_free cf F" and p: "p \<in> set (ev_promotions d)"
  obtains c r t where "c \<in> set (ev_campaigns d)" "camp_id c = pro_campaign_id p" "camp_status c = ''WINNER_SELECTED''"
    "camp_winner_candidate_id c = Some (pro_candidate_id p)" "camp_total_cost_microunits c \<le> camp_max_total_cost_microunits c"
    "r \<in> set (ev_candidates d)" "cand_batch_id r = pro_batch_id p" "cv_candidate_id (cand_evidence r) = pro_candidate_id p"
    "validated (evaluation_policy_of c) (cand_evidence r)"
    "t \<in> set (ev_artifacts d)" "art_id t = pro_artifact_id p" "art_digest t = pro_artifact_digest p"
    "art_digest t = output_hash cf (art_content_json t)" "cv_output_digest (cand_evidence r) = Some (art_digest t)"
    "\<forall>k\<in>set (cv_checks (cand_evidence r)). dk_passed k \<longrightarrow> accepted vs (dk_name k) t"
proof -
  have ok: "campaigns_ok d" "records_ok cf vs F d" "linked vs F d" using evaluation.reach_inv [OF reach] free by (simp_all add: eval_ok_pair)
  note arts = records_okD(2) [OF ok(2), unfolded artifacts_ok_def]
  obtain c b where c: "c \<in> set (ev_campaigns d)" "camp_id c = pro_campaign_id p" "camp_status c = ''WINNER_SELECTED''"
      "camp_winner_candidate_id c = Some (pro_candidate_id p)"
    and b: "b \<in> set (ev_batches d)" "bat_id b = pro_batch_id p" "bat_winner_candidate_id b = Some (pro_candidate_id p)"
    using campaigns_okD(6) [OF ok(1) p] unfolding promotion_ok_def by blast
  have t: "\<exists>b\<in>set (ev_batches d). bat_id b = pro_batch_id p \<and> bat_campaign_id b = pro_campaign_id p"
      "\<forall>k\<in>set (ev_candidates d). cand_batch_id k = pro_batch_id p \<longrightarrow> from_trusted vs (ev_artifacts d) (pro_assessment_id p) (cand_evidence k)"
    using linkedD(3) [OF ok(3) p] unfolding trusted_batch_def by blast+
  have bc: "bat_campaign_id b = camp_id c" using t(1) b(1,2) c(2) campaigns_okD(3) [OF ok(1)] by (metis distinct_map inj_onD)
  obtain c2 where c2: "c2 \<in> set (ev_campaigns d)" "camp_id c2 = bat_campaign_id b" "winner_recorded d c2 b (pro_candidate_id p)"
    using campaigns_okD(4) [OF ok(1) b(1)] b(3) unfolding batch_ok_def by blast
  have "c2 = c" using c2(1,2) c(1) bc campaigns_okD(1) [OF ok(1)] by (auto simp: distinct_map inj_on_def)
  then obtain r where r: "r \<in> set (ev_candidates d)" "cand_batch_id r = bat_id b" "cv_candidate_id (cand_evidence r) = pro_candidate_id p"
    "validated (evaluation_policy_of c) (cand_evidence r)" using c2(3) unfolding winner_recorded_def by blast
  have "cv_succeeded (cand_evidence r)" using r(4) unfolding validated_def by blast
  then obtain u where u: "u \<in> set (ev_artifacts d)" "art_provider_run_id u = pro_candidate_id p" "cv_output_digest (cand_evidence r) = Some (art_digest u)"
    "\<forall>k\<in>set (cv_checks (cand_evidence r)). dk_passed k \<longrightarrow> accepted vs (dk_name k) u"
    using t(2) r(1-3) b(2) unfolding from_trusted_def by auto
  obtain t where w: "t \<in> set (ev_artifacts d)" "art_id t = pro_artifact_id p" "art_digest t = pro_artifact_digest p" "art_provider_run_id t = pro_candidate_id p"
    using records_okD(8) [OF ok(2) p] unfolding promoted_artifact_def by blast
  have "t = u" using w(1,4) u(1,2) arts by (metis distinct_map inj_onD)
  note u' = u(3,4) [folded this]
  have hash: "art_digest t = output_hash cf (art_content_json t)" using arts w(1) by blast
  have cost: "camp_total_cost_microunits c \<le> camp_max_total_cost_microunits c"
    using campaigns_okD(2) [OF ok(1) c(1)] c(4) by (simp add: campaign_ok_def)
  show ?thesis by (rule that [OF c cost r(1) r(2) [unfolded b(2)] r(3,4) w(1-3) hash u'])
qed

text \<open>C6: Only validated output is promoted. In every state the evaluation services reach, with any number of processes
interleaved and no digest shared by two different submissions, each promotion is the only one of its campaign, which has
selected a winner within its cost ceiling, and names that winner. The batch it names recorded a candidate with that
identifier that succeeded, with at least the required number of independent reviewers of its output, for high and
critical risk at least two from other provider families. The artifact it names is on record, holds the output that
candidate was judged by, its digest is the hash of its content, and for every check the campaign requires the
configured validator of that name was run on that artifact and passed it.\<close>

theorem promoted_output_was_validated:
  assumes "(eval_step cf fl fv vs)\<^sup>*\<^sup>* eval_init (d, F)" and "collision_free cf F" and "p \<in> set (ev_promotions d)"
  shows "(\<forall>q\<in>set (ev_promotions d). pro_campaign_id q = pro_campaign_id p \<longrightarrow> q = p) \<and>
    (\<exists>c\<in>set (ev_campaigns d). \<exists>r\<in>set (ev_candidates d). \<exists>t\<in>set (ev_artifacts d).
      camp_id c = pro_campaign_id p \<and> camp_status c = ''WINNER_SELECTED'' \<and>
      camp_winner_candidate_id c = Some (pro_candidate_id p) \<and> camp_total_cost_microunits c \<le> camp_max_total_cost_microunits c \<and>
      cand_batch_id r = pro_batch_id p \<and> cv_candidate_id (cand_evidence r) = pro_candidate_id p \<and> cv_succeeded (cand_evidence r) \<and>
      art_id t = pro_artifact_id p \<and> art_digest t = pro_artifact_digest p \<and> art_digest t = output_hash cf (art_content_json t) \<and>
      cv_output_digest (cand_evidence r) = Some (art_digest t) \<and> (\<forall>n\<in>set (camp_required_checks c). accepted vs n t) \<and>
      (\<exists>R \<subseteq> set (cv_reviews (cand_evidence r)). camp_minimum_independent_reviews c \<le> int (card (ir_reviewer_provider_id ` R)) \<and>
         (\<forall>v\<in>R. ir_passed v \<and> ir_reviewed_output_digest v = art_digest t \<and> ir_reviewer_provider_id v \<noteq> cv_provider_id (cand_evidence r)) \<and>
         (RL_HIGH \<le> camp_risk c \<longrightarrow> 2 \<le> card (ir_reviewer_provider_id ` R) \<and>
            (\<forall>v\<in>R. ir_reviewer_provider_family v \<noteq> cv_provider_family (cand_evidence r)))))"
proof
  have ok: "campaigns_ok d" using evaluation.reach_inv [OF assms(1)] by (simp add: eval_ok_pair)
  show "\<forall>q\<in>set (ev_promotions d). pro_campaign_id q = pro_campaign_id p \<longrightarrow> q = p"
    using campaigns_okD(5) [OF ok] assms(3) by (auto simp: distinct_map inj_on_def)
  obtain c r t where c: "c \<in> set (ev_campaigns d)" "camp_id c = pro_campaign_id p" "camp_status c = ''WINNER_SELECTED''"
      "camp_winner_candidate_id c = Some (pro_candidate_id p)" "camp_total_cost_microunits c \<le> camp_max_total_cost_microunits c"
    and r: "r \<in> set (ev_candidates d)" "cand_batch_id r = pro_batch_id p" "cv_candidate_id (cand_evidence r) = pro_candidate_id p"
      "validated (evaluation_policy_of c) (cand_evidence r)"
    and t: "t \<in> set (ev_artifacts d)" "art_id t = pro_artifact_id p" "art_digest t = pro_artifact_digest p"
      "art_digest t = output_hash cf (art_content_json t)" "cv_output_digest (cand_evidence r) = Some (art_digest t)"
      "\<forall>k\<in>set (cv_checks (cand_evidence r)). dk_passed k \<longrightarrow> accepted vs (dk_name k) t"
    by (rule promoted_candidate [OF assms])
  have pol: "eo_required_checks (evaluation_policy_of c) = camp_required_checks c" "eo_risk (evaluation_policy_of c) = camp_risk c"
    "eo_minimum_independent_reviews (evaluation_policy_of c) = camp_minimum_independent_reviews c" by (simp_all add: evaluation_policy_of_def)
  obtain out where v: "cv_succeeded (cand_evidence r)" "cv_output_digest (cand_evidence r) = Some out"
      "\<forall>n\<in>set (camp_required_checks c). \<exists>k\<in>set (cv_checks (cand_evidence r)). dk_name k = n \<and> dk_passed k \<and> dk_validated_output_digest k = out"
    and R: "\<exists>R \<subseteq> set (cv_reviews (cand_evidence r)). camp_minimum_independent_reviews c \<le> int (card (ir_reviewer_provider_id ` R)) \<and>
         (\<forall>v\<in>R. ir_passed v \<and> ir_reviewed_output_digest v = out \<and> ir_reviewer_provider_id v \<noteq> cv_provider_id (cand_evidence r)) \<and>
         (RL_HIGH \<le> camp_risk c \<longrightarrow> 2 \<le> card (ir_reviewer_provider_id ` R) \<and>
            (\<forall>v\<in>R. ir_reviewer_provider_family v \<noteq> cv_provider_family (cand_evidence r)))"
    using r(4) [unfolded validated_def pol] by blast
  have out: "out = art_digest t" using v(2) t(5) by simp
  have acc: "\<forall>n\<in>set (camp_required_checks c). accepted vs n t"
  proof
    fix n assume "n \<in> set (camp_required_checks c)"
    then obtain k where "k \<in> set (cv_checks (cand_evidence r))" "dk_name k = n" "dk_passed k" using v(3) by blast
    then show "accepted vs n t" using t(6) by blast
  qed
  show "\<exists>c\<in>set (ev_campaigns d). \<exists>r\<in>set (ev_candidates d). \<exists>t\<in>set (ev_artifacts d).
      camp_id c = pro_campaign_id p \<and> camp_status c = ''WINNER_SELECTED'' \<and>
      camp_winner_candidate_id c = Some (pro_candidate_id p) \<and> camp_total_cost_microunits c \<le> camp_max_total_cost_microunits c \<and>
      cand_batch_id r = pro_batch_id p \<and> cv_candidate_id (cand_evidence r) = pro_candidate_id p \<and> cv_succeeded (cand_evidence r) \<and>
      art_id t = pro_artifact_id p \<and> art_digest t = pro_artifact_digest p \<and> art_digest t = output_hash cf (art_content_json t) \<and>
      cv_output_digest (cand_evidence r) = Some (art_digest t) \<and> (\<forall>n\<in>set (camp_required_checks c). accepted vs n t) \<and>
      (\<exists>R \<subseteq> set (cv_reviews (cand_evidence r)). camp_minimum_independent_reviews c \<le> int (card (ir_reviewer_provider_id ` R)) \<and>
         (\<forall>v\<in>R. ir_passed v \<and> ir_reviewed_output_digest v = art_digest t \<and> ir_reviewer_provider_id v \<noteq> cv_provider_id (cand_evidence r)) \<and>
         (RL_HIGH \<le> camp_risk c \<longrightarrow> 2 \<le> card (ir_reviewer_provider_id ` R) \<and>
            (\<forall>v\<in>R. ir_reviewer_provider_family v \<noteq> cv_provider_family (cand_evidence r))))"
    by (intro bexI [OF _ c(1)] bexI [OF _ r(1)] bexI [OF _ t(1)] conjI c(2-5) r(2,3) v(1) t(2-5) acc R [unfolded out])
qed

theorem promoted_output_was_validated_witness:
  "\<exists>t\<in>set (ev_artifacts demo_promoted). accepted demo_validators ''schema'' t \<and> accepted demo_validators ''security'' t \<and>
     (\<exists>p\<in>set (ev_promotions demo_promoted). art_id t = pro_artifact_id p)"
proof -
  obtain p c where d: "ev_promotions demo_promoted = [p]" "ev_campaigns demo_promoted = [c]" "camp_required_checks c = [''schema'', ''security'']"
    by (rule demo_promoted_facts)
  obtain F where F: "(eval_step demo_evaluation_cf (\<lambda>_. ''x'') (\<lambda>_. 0) demo_validators)\<^sup>*\<^sup>* eval_init (demo_promoted, F)" "collision_free demo_evaluation_cf F"
    using demo_promoted_reachable by blast
  have p: "p \<in> set (ev_promotions demo_promoted)" by (simp add: d(1))
  obtain t where t: "t \<in> set (ev_artifacts demo_promoted)" "art_id t = pro_artifact_id p" "\<forall>n\<in>set (camp_required_checks c). accepted demo_validators n t"
    using promoted_output_was_validated [OF F p, THEN conjunct2] unfolding d(2) by (elim bexE conjE) simp
  then show ?thesis using d(1,3) by (intro bexI [OF _ t(1)]) simp
qed

text \<open>C7: No credential and no authority leaves through a promotion. With the default validators, a promoted output of a
campaign that requires the security check has no key, at any depth and in any letter case, among the names of
secrets and of authorisations the boundary lists.\<close>

theorem promoted_output_is_clean:
  assumes "(eval_step cf fl fv (default_evaluation_validators sha))\<^sup>*\<^sup>* eval_init (d, F)" and "collision_free cf F"
    and "p \<in> set (ev_promotions d)" and "c \<in> set (ev_campaigns d)" and "camp_id c = pro_campaign_id p"
    and "''security'' \<in> set (camp_required_checks c)"
  shows "\<exists>t\<in>set (ev_artifacts d). art_id t = pro_artifact_id p \<and> art_digest t = pro_artifact_digest p \<and>
    (\<forall>k. has_key k (JObj (art_content_json t)) \<longrightarrow> casefold k \<notin> set forbidden_keys \<union> set authority_keys)"
proof -
  obtain c' r t where c': "c' \<in> set (ev_campaigns d)" "camp_id c' = pro_campaign_id p" "camp_status c' = ''WINNER_SELECTED''"
      "camp_winner_candidate_id c' = Some (pro_candidate_id p)" "camp_total_cost_microunits c' \<le> camp_max_total_cost_microunits c'"
      "r \<in> set (ev_candidates d)" "cand_batch_id r = pro_batch_id p" "cv_candidate_id (cand_evidence r) = pro_candidate_id p"
    and v: "validated (evaluation_policy_of c') (cand_evidence r)"
    and t: "t \<in> set (ev_artifacts d)" "art_id t = pro_artifact_id p" "art_digest t = pro_artifact_digest p"
      "art_digest t = output_hash cf (art_content_json t)" "cv_output_digest (cand_evidence r) = Some (art_digest t)"
      "\<forall>k\<in>set (cv_checks (cand_evidence r)). dk_passed k \<longrightarrow> accepted (default_evaluation_validators sha) (dk_name k) t"
    by (rule promoted_candidate [OF assms(1-3)])
  have "campaigns_ok d" using evaluation.reach_inv [OF assms(1)] by (simp add: eval_ok_pair)
  then have "c' = c" using c'(1,2) assms(4,5) campaigns_okD(1) by (metis distinct_map inj_onD)
  then have "\<exists>k\<in>set (cv_checks (cand_evidence r)). dk_name k = ''security'' \<and> dk_passed k"
    using v assms(6) unfolding validated_def by (auto simp: evaluation_policy_of_def)
  then have "accepted (default_evaluation_validators sha) ''security'' t" using t(6) by metis
  then obtain kind x where "boundary_validate (trusted_of kind t) = Inr x" "vo_passed x"
    by (auto simp: accepted_def find_validator_def default_evaluation_validators_def SchemaValidator_def SecurityBoundaryValidator_def)
  then have "\<forall>k. has_key k (JObj (art_content_json t)) \<longrightarrow> casefold k \<notin> set forbidden_keys \<union> set authority_keys"
    using boundary_passed_iff [of "trusted_of kind t" x] by (simp add: trusted_of_def)
  then show ?thesis using t(1-3) by blast
qed

theorem promoted_output_is_clean_witness:
  "\<exists>p\<in>set (ev_promotions demo_promoted). \<exists>t\<in>set (ev_artifacts demo_promoted). art_id t = pro_artifact_id p \<and>
     \<not> has_key ''API_KEY'' (JObj (art_content_json t))"
proof -
  obtain p c where d: "ev_promotions demo_promoted = [p]" "pro_campaign_id p = ''c0''" "ev_campaigns demo_promoted = [c]" "camp_id c = ''c0''"
    "camp_required_checks c = [''schema'', ''security'']" by (rule demo_promoted_facts)
  obtain F where F: "(eval_step demo_evaluation_cf (\<lambda>_. ''x'') (\<lambda>_. 0) (default_evaluation_validators (cf_sha256 demo_evaluation_cf)))\<^sup>*\<^sup>* eval_init (demo_promoted, F)"
    "collision_free demo_evaluation_cf F" using demo_promoted_reachable unfolding demo_validators_def by blast
  obtain t where t: "t \<in> set (ev_artifacts demo_promoted)" "art_id t = pro_artifact_id p"
    "\<forall>k. has_key k (JObj (art_content_json t)) \<longrightarrow> casefold k \<notin> set forbidden_keys \<union> set authority_keys"
    using promoted_output_is_clean [OF F, of p c] d by auto
  have "casefold ''API_KEY'' \<in> set forbidden_keys" by code_simp
  then have "\<not> has_key ''API_KEY'' (JObj (art_content_json t))" using t(3) by blast
  then show ?thesis using t(1,2) d(1) by auto
qed

section \<open>Campaigns\<close>

text \<open>C16: A campaign ends within its iterations. In every reachable state the decided batches of a campaign carry the
iterations \<open>1, 2, \<dots>\<close> without a gap or a repetition; at most \<open>max_iterations\<close>, never more than five, are decided; and
once a winner is selected or the campaign is exhausted the current iteration is the last one decided.\<close>

theorem campaign_iterations_bounded:
  assumes "(eval_step cf fl fv vs)\<^sup>*\<^sup>* eval_init (d, F)" and "c \<in> set (ev_campaigns d)"
  shows "distinct (map bat_iteration (campaign_batches d c)) \<and>
    set (map bat_iteration (campaign_batches d c)) = {1..int (length (campaign_batches d c))} \<and>
    int (length (campaign_batches d c)) \<le> camp_max_iterations c \<and> camp_max_iterations c \<le> 5 \<and>
    int (length (campaign_batches d c)) =
      (if camp_status c \<in> {''OPEN'', ''REFINEMENT_REQUIRED''} then camp_current_iteration c - 1 else camp_current_iteration c)"
proof -
  let ?B = "campaign_batches d c" and ?n = "if camp_status c \<in> {''OPEN'', ''REFINEMENT_REQUIRED''} then camp_current_iteration c - 1
    else camp_current_iteration c"
  have ok: "campaign_ok d c" using evaluation.reach_inv [OF assms(1)] campaigns_okD(2) assms(2) unfolding eval_ok_pair by blast
  have it: "distinct (map bat_iteration ?B)" "1 \<le> camp_current_iteration c" "camp_current_iteration c \<le> camp_max_iterations c"
    and s: "set (map bat_iteration ?B) = {1..?n}"
    using ok unfolding campaign_ok_def by (auto split: if_splits)
  have "camp_max_iterations c \<le> 5"
    using ok by (auto simp: campaign_ok_def check_evaluation_policy_def tx_simps evaluation_policy_of_def)
  moreover have "int (length ?B) = ?n"
  proof -
    have "length ?B = card {1..?n}" using distinct_card [OF it(1)] unfolding s by simp
    moreover have "0 \<le> ?n" using it(2) by simp
    ultimately show ?thesis unfolding card_atLeastAtMost_int by linarith
  qed
  ultimately show ?thesis using it s by auto
qed

theorem campaign_iterations_bounded_witness:
  "\<exists>c\<in>set (ev_campaigns demo_promoted). int (length (campaign_batches demo_promoted c)) = camp_current_iteration c \<and>
     camp_current_iteration c \<le> 2"
proof -
  obtain c where d: "ev_campaigns demo_promoted = [c]" "camp_status c = ''WINNER_SELECTED''" "camp_max_iterations c = 2"
    by (rule demo_promoted_facts)
  obtain F where reach: "(eval_step demo_evaluation_cf (\<lambda>_. ''x'') (\<lambda>_. 0) demo_validators)\<^sup>*\<^sup>* eval_init (demo_promoted, F)"
    using demo_promoted_reachable by blast
  have c: "c \<in> set (ev_campaigns demo_promoted)" by (simp add: d(1))
  show ?thesis using d campaign_iterations_bounded [OF reach c] by (intro bexI [OF _ c]) auto
qed

section \<open>Plans\<close>

lemma map_enumerate_snd: "map (\<lambda>(i, y). f y) (enumerate n ys) = map f ys"
  by (induction ys arbitrary: n) simp_all

lemma selected_free:
  assumes "route q profiles = Inr routing" "r \<in> set (selected_candidates c profiles n routing)" "find_profile (Some (rc_provider_id r)) profiles = Some p"
  shows "eligible q p" "pp_egress_boundary p = EB_LOCAL \<or> pp_funding_mode p = FM_SUBSCRIPTION \<and> int n \<le> pp_max_invocations_per_execution p"
proof -
  have r: "r \<in> set (rd_ranked_candidates routing)" "rc_provider_id r \<notin> fst ` set (zero_cost_rejections profiles n routing)"
    using in_set_takeD [OF assms(2) [unfolded selected_candidates_def]] by simp_all
  obtain p' where p': "p' \<in> set profiles" "eligible q p'" "r = score_candidate q p'" using r(1) route_ranked_set [OF assms(1)] by auto
  have "distinct (map pp_provider_id profiles)" by (rule route_Inr(2) [OF assms(1)])
  moreover have "p \<in> set profiles" "pp_provider_id p = rc_provider_id r" using assms(3) by (auto simp: find_profile_def find_Some_iff)
  ultimately have "p = p'" using p' by (metis score_candidate_id distinct_map inj_onD)
  then show "eligible q p" using p'(2) by simp
  have "cost_rejection n p = []"
  proof (rule ccontr)
    assume "cost_rejection n p \<noteq> []"
    then have "(rc_provider_id r, cost_rejection n p) \<in> set (zero_cost_rejections profiles n routing)"
      using r(1) assms(3) by (force simp: zero_cost_rejections_def List.map_filter_def)
    then show False using r(2) by force
  qed
  then show "pp_egress_boundary p = EB_LOCAL \<or> pp_funding_mode p = FM_SUBSCRIPTION \<and> int n \<le> pp_max_invocations_per_execution p"
    by (auto simp: cost_rejection_def split: if_splits)
qed

text \<open>One provider is called at most once per prompt variant.\<close>

lemma product_count:
  assumes "distinct (map (\<lambda>(p, v). (f p, g v)) (List.product ps vs))"
  shows "length (filter (\<lambda>(p, v). f p = i) (List.product ps vs)) \<le> length vs"
proof -
  let ?L = "filter (\<lambda>(p, v). f p = i) (List.product ps vs)"
  have "distinct (map (\<lambda>(p, v). (f p, g v)) ?L)" using assms by (rule distinct_map_filter)
  moreover have "map (\<lambda>(p, v). (f p, g v)) ?L = map (Pair i) (map (g \<circ> snd) ?L)" by (auto simp: case_prod_beta)
  ultimately have "distinct (map (g \<circ> snd) ?L)" by (metis distinct_map)
  then have "length ?L = card (set (map (g \<circ> snd) ?L))" by (metis distinct_card length_map)
  also have "\<dots> \<le> card (g ` set vs)" by (rule card_mono) auto
  also have "\<dots> \<le> length vs" by (metis card_image_le card_length finite_set le_trans)
  finally show ?thesis .
qed

definition planned_profiles :: "evaluation_campaign \<Rightarrow> provider_profile list \<Rightarrow> nat \<Rightarrow> routing_decision \<Rightarrow> provider_profile list" where
  "planned_profiles c profiles n routing = List.map_filter (\<lambda>r. find_profile (Some (rc_provider_id r)) profiles) (selected_candidates c profiles n routing)"

lemma commit_evaluation_plan_Inr:
  assumes "commit_evaluation_plan cf fl en wid cid tid actor key pvs rep d = Inr (Inr pn, d')"
  obtains c w routing where "row_get camp_id cid (ev_campaigns d) = Some c" "w \<in> set (workflows (ev_db d))"
    "camp_max_total_cost_microunits c = 0" "int (length pvs) \<le> camp_max_prompt_variants c"
    "route (campaign_routing_request cf c w) (evaluation_profiles cf en (ev_db d)) = Inr routing"
    "selected_candidates c (evaluation_profiles cf en (ev_db d)) (length pvs) routing \<noteq> []"
    "map pe_profile (pn_runs pn) = map fst (List.product (planned_profiles c (evaluation_profiles cf en (ev_db d)) (length pvs) routing) pvs)"
    "distinct (map (\<lambda>(p, v). (pp_provider_id p, pt_variant_id v)) (List.product (planned_profiles c (evaluation_profiles cf en (ev_db d)) (length pvs) routing) pvs))"
proof -
  let ?P = "evaluation_profiles cf en (ev_db d)"
  let ?key = "\<lambda>r. (run_execution_id r, run_provider_id r, run_prompt_variant_id r)" and ?xid = "en_uuid en 0"
  have xid [simp]: "exe_id (new_execution en c w t a k rd rp vs sn) = ?xid" for c w t a k rd rp vs sn by (simp add: new_execution_def)
  let ?plan = "\<lambda>c routing. enumerate (Suc 0) (List.product (planned_profiles c ?P (length pvs) routing) pvs)"
  have "\<exists>c w t routing. row_get camp_id cid (ev_campaigns d) = Some c \<and> row_get wf_id (camp_workflow_id c) (workflows (ev_db d)) = Some w \<and>
      evaluation_task d (camp_workflow_id c) tid = Inr t \<and> route (campaign_routing_request cf c w) ?P = Inr routing \<and>
      selected_candidates c ?P (length pvs) routing \<noteq> [] \<and> camp_max_total_cost_microunits c = 0 \<and> int (length pvs) \<le> camp_max_prompt_variants c \<and>
      pn_runs pn = map (\<lambda>(i, p, v). new_prepared_run (en_uuid en i) ?xid c w t p v) (?plan c routing) \<and>
      distinct (map (?key \<circ> (\<lambda>(i, p, v). new_provider_run cf (en_uuid en i) ?xid c w t p v)) (?plan c routing))"
    using assms unfolding commit_evaluation_plan_def Let_def planned_profiles_def
    by (auto simp: tx_simps campaign_of_Inr not_less split: option.splits if_splits)
  then obtain c w t routing where c: "row_get camp_id cid (ev_campaigns d) = Some c" "row_get wf_id (camp_workflow_id c) (workflows (ev_db d)) = Some w"
      "camp_max_total_cost_microunits c = 0" "int (length pvs) \<le> camp_max_prompt_variants c"
    and rt: "route (campaign_routing_request cf c w) ?P = Inr routing" "selected_candidates c ?P (length pvs) routing \<noteq> []"
    and pn: "pn_runs pn = map (\<lambda>(i, p, v). new_prepared_run (en_uuid en i) ?xid c w t p v) (?plan c routing)"
    and dis: "distinct (map (?key \<circ> (\<lambda>(i, p, v). new_provider_run cf (en_uuid en i) ?xid c w t p v)) (?plan c routing))"
    by (elim exE conjE)
  let ?L = "List.product (planned_profiles c ?P (length pvs) routing) pvs"
  have "map pe_profile (pn_runs pn) = map (\<lambda>(i, y). fst y) (enumerate (Suc 0) ?L)"
    unfolding pn by (simp add: new_prepared_run_def case_prod_beta comp_def)
  then have runs: "map pe_profile (pn_runs pn) = map fst ?L" unfolding map_enumerate_snd .
  have eq: "map (?key \<circ> (\<lambda>(i, p, v). new_provider_run cf (en_uuid en i) ?xid c w t p v)) (enumerate (Suc 0) ?L) =
      map (Pair ?xid) (map (\<lambda>(i, y). (\<lambda>(p, v). (pp_provider_id p, pt_variant_id v)) y) (enumerate (Suc 0) ?L))"
    by (simp add: new_provider_run_def case_prod_beta comp_def)
  have "distinct (map (\<lambda>(p, v). (pp_provider_id p, pt_variant_id v)) ?L)"
    using iffD1 [OF distinct_map dis [unfolded eq], THEN conjunct1] unfolding map_enumerate_snd .
  then show ?thesis by (rule that [OF c(1) row.get_SomeD [OF c(2), THEN conjunct1] c(3,4) rt runs])
qed

text \<open>C15: An evaluation costs nothing. A plan is only made for a campaign whose cost ceiling is zero; it makes at least
one call, at most \<open>max_candidates\<close> times \<open>max_prompt_variants\<close>, and every provider it calls is eligible under the routing
policy and either local or paid by a subscription whose ceiling of calls per execution the plan does not exceed.\<close>

theorem evaluation_plan_is_free:
  assumes "commit_evaluation_plan cf fl en wid cid tid actor key pvs rep d = Inr (Inr pn, d')" and "pvs \<noteq> []"
  shows "\<exists>c\<in>set (ev_campaigns d). \<exists>w\<in>set (workflows (ev_db d)). camp_id c = cid \<and> camp_max_total_cost_microunits c = 0 \<and>
    pn_runs pn \<noteq> [] \<and> int (length (pn_runs pn)) \<le> camp_max_candidates c * camp_max_prompt_variants c \<and>
    (\<forall>q\<in>set (pn_runs pn). eligible (campaign_routing_request cf c w) (pe_profile q) \<and>
      (pp_egress_boundary (pe_profile q) = EB_LOCAL \<or> pp_funding_mode (pe_profile q) = FM_SUBSCRIPTION \<and>
       int (length (filter (\<lambda>x. pp_provider_id (pe_profile x) = pp_provider_id (pe_profile q)) (pn_runs pn)))
         \<le> pp_max_invocations_per_execution (pe_profile q)))"
proof -
  let ?P = "evaluation_profiles cf en (ev_db d)" and ?n = "length pvs"
  obtain c w routing where c: "row_get camp_id cid (ev_campaigns d) = Some c" "w \<in> set (workflows (ev_db d))"
      "camp_max_total_cost_microunits c = 0" "int ?n \<le> camp_max_prompt_variants c"
    and rt: "route (campaign_routing_request cf c w) ?P = Inr routing" "selected_candidates c ?P ?n routing \<noteq> []"
    and runs: "map pe_profile (pn_runs pn) = map fst (List.product (planned_profiles c ?P ?n routing) pvs)"
    and dis: "distinct (map (\<lambda>(p, v). (pp_provider_id p, pt_variant_id v)) (List.product (planned_profiles c ?P ?n routing) pvs))"
    by (rule commit_evaluation_plan_Inr [OF assms(1)])
  let ?ps = "planned_profiles c ?P ?n routing"
  have count: "length (filter (\<lambda>x. pp_provider_id (pe_profile x) = i) (pn_runs pn)) \<le> ?n" for i
  proof -
    have "length (filter (\<lambda>x. pp_provider_id (pe_profile x) = i) (pn_runs pn)) = length (filter (\<lambda>p. pp_provider_id p = i) (map pe_profile (pn_runs pn)))"
      by (simp add: filter_map comp_def)
    also have "\<dots> = length (filter (\<lambda>(p, v). pp_provider_id p = i) (List.product ?ps pvs))"
      unfolding runs by (simp add: filter_map comp_def case_prod_unfold)
    finally show ?thesis using product_count [OF dis] by simp
  qed
  have free: "eligible (campaign_routing_request cf c w) p \<and>
      (pp_egress_boundary p = EB_LOCAL \<or> pp_funding_mode p = FM_SUBSCRIPTION \<and> int ?n \<le> pp_max_invocations_per_execution p)"
    if p: "p \<in> set ?ps" for p
  proof -
    obtain r where "r \<in> set (selected_candidates c ?P ?n routing)" "find_profile (Some (rc_provider_id r)) ?P = Some p"
      using p by (auto simp: planned_profiles_def List.map_filter_def)
    from selected_free [OF rt(1) this] show ?thesis by blast
  qed
  have q: "pe_profile q \<in> set ?ps" if "q \<in> set (pn_runs pn)" for q
  proof -
    have "pe_profile q \<in> set (map fst (List.product ?ps pvs))" unfolding runs [symmetric] using that by simp
    then show ?thesis by (auto split: if_splits)
  qed
  have len: "length (pn_runs pn) = length ?ps * ?n" using arg_cong [OF runs, of length] by simp
  have le: "length ?ps \<le> nat (camp_max_candidates c)" "0 < nat (camp_max_candidates c)"
    using rt(2) by (auto simp: planned_profiles_def selected_candidates_def List.map_filter_def intro: order_trans [OF length_filter_le])
  have "int (length ?ps) * int ?n \<le> camp_max_candidates c * camp_max_prompt_variants c" by (rule mult_mono) (use le c(4) in linarith)+
  then have "int (length (pn_runs pn)) \<le> camp_max_candidates c * camp_max_prompt_variants c" unfolding len by simp
  moreover have "pn_runs pn \<noteq> []"
  proof -
    obtain r rs where r: "selected_candidates c ?P ?n routing = r # rs" using rt(2) by (cases "selected_candidates c ?P ?n routing") auto
    then have "r \<in> set (take (nat (camp_max_candidates c)) (filter (\<lambda>r. rc_provider_id r \<notin> set (map fst (zero_cost_rejections ?P ?n routing)))
        (rd_ranked_candidates routing)))" unfolding selected_candidates_def by simp
    then have "r \<in> set (rd_ranked_candidates routing)" by (auto dest: in_set_takeD)
    then obtain p' where "p' \<in> set ?P" "pp_provider_id p' = rc_provider_id r" using route_ranked_set [OF rt(1)] by auto
    then obtain p where "find_profile (Some (rc_provider_id r)) ?P = Some p"
      unfolding find_profile_def by (metis (mono_tags, lifting) find_None_iff not_None_eq)
    then have "?ps \<noteq> []" by (simp add: planned_profiles_def r List.map_filter_simps)
    then show ?thesis using len assms(2) by auto
  qed
  moreover have "eligible (campaign_routing_request cf c w) (pe_profile q) \<and>
      (pp_egress_boundary (pe_profile q) = EB_LOCAL \<or> pp_funding_mode (pe_profile q) = FM_SUBSCRIPTION \<and>
       int (length (filter (\<lambda>x. pp_provider_id (pe_profile x) = pp_provider_id (pe_profile q)) (pn_runs pn))) \<le> pp_max_invocations_per_execution (pe_profile q))"
    if "q \<in> set (pn_runs pn)" for q
    using free [OF q [OF that]] count [of "pp_provider_id (pe_profile q)"] by linarith
  ultimately show ?thesis using c(2,3) row.get_SomeD [OF c(1)] row.get_key [OF c(1)] by blast
qed

theorem evaluation_plan_is_free_witness:
  "\<exists>d pn d'. demo_evaluation_plan d = Inr (Inr pn, d') \<and> pn_runs pn \<noteq> [] \<and> (\<forall>q\<in>set (pn_runs pn). pp_egress_boundary (pe_profile q) = EB_LOCAL \<or>
     pp_funding_mode (pe_profile q) = FM_SUBSCRIPTION)"
proof -
  obtain d pn d' where p: "demo_evaluation_plan d = Inr (Inr pn, d')"
    using demo_evaluation_run_Inr unfolding demo_evaluation_run_def demo_executed_def by (auto simp: tx_simps)
  show ?thesis using evaluation_plan_is_free [OF p [unfolded demo_evaluation_plan_def]] p by (intro exI [of _ d] exI [of _ pn] exI [of _ d']) auto
qed

section \<open>Handlers\<close>

text \<open>C14: The handlers of the pipeline are runs of the service. Executing a campaign, validating an execution, reconciling
its reviews and recovering its assessment commit several transactions, with calls of providers and validators
between them; from a reachable state, with fresh identifiers, each leads to a reachable state whatever it returns,
also when it stops half way.\<close>

theorem evaluation_handlers_are_runs:
  assumes "(eval_step cf fl fv vs)\<^sup>*\<^sup>* eval_init (d, F)"
    and "ids_fresh (en 0) d" and "ids_fresh (en 6) d" and "range (en_uuid (en 6)) \<inter> range (en_uuid (en 0)) = {}"
    and "d' = snd (execute_evaluation_campaign cf fl pv en wid cid tid actor key pvs rep d) \<or>
      d' = snd (validate_evaluation_execution cf fl fv vs pv en wid xid actor key d) \<or>
      d' = snd (reconcile_evaluation_reviews cf fl fv en wid aid actor key ra d) \<or>
      d' = snd (recover_assessment cf fl fv pv en wid aid actor key ra d)"
  shows "\<exists>F'. (eval_step cf fl fv vs)\<^sup>*\<^sup>* eval_init (d', F') \<and> eval_ok cf vs (d', F')"
proof -
  note fresh = assms(2-4)
  have eq: "d' = snd x \<Longrightarrow> x = (fst x, d')" for x :: "(error + dict) \<times> eval_db" by simp
  from assms(5) have "runs_to cf fl fv vs (d, F) d'"
  proof (elim disjE)
    assume e: "d' = snd (execute_evaluation_campaign cf fl pv en wid cid tid actor key pvs rep d)"
    show ?thesis by (rule execute_evaluation_campaign_runs [OF eq [OF e]])
  next
    assume e: "d' = snd (validate_evaluation_execution cf fl fv vs pv en wid xid actor key d)"
    show ?thesis by (rule validate_evaluation_execution_runs [OF eq [OF e] fresh])
  next
    assume e: "d' = snd (reconcile_evaluation_reviews cf fl fv en wid aid actor key ra d)"
    show ?thesis by (rule reconcile_evaluation_reviews_runs [OF eq [OF e] fresh(1)])
  next
    assume e: "d' = snd (recover_assessment cf fl fv pv en wid aid actor key ra d)"
    show ?thesis by (rule recover_assessment_runs [OF eq [OF e] fresh(1)])
  qed
  then obtain F' where r: "(eval_step cf fl fv vs)\<^sup>*\<^sup>* eval_init (d', F')" unfolding runs_to_def using rtranclp_trans [OF assms(1)] by blast
  then show ?thesis using evaluation.reach_inv [OF r] by blast
qed

theorem evaluation_handlers_are_runs_witness:
  "\<exists>xid d F'. demo_executed = Inr (xid, d) \<and> (eval_step demo_evaluation_cf (\<lambda>_. ''x'') (\<lambda>_. 0) demo_validators)\<^sup>*\<^sup>* eval_init
     (snd (validate_evaluation_execution demo_evaluation_cf (\<lambda>_. ''x'') (\<lambda>_. 0) demo_validators demo_calls
       (\<lambda>i. tagged_env 50 (if i = 6 then CHR ''s'' else CHR ''b'')) ''a0'' xid ''dev-operator'' ''key-0001'' d), F')"
proof -
  let ?en = "\<lambda>i :: nat. tagged_env 50 (if i = 6 then CHR ''s'' else CHR ''b'')"
  obtain xid d where e: "demo_executed = Inr (xid, d)" and u: "untagged CHR ''s'' d" "untagged CHR ''b'' d"
    using demo_evaluation_run_Inr unfolding demo_evaluation_run_def demo_assessed_def by (auto simp: tx_simps)
  have fr: "ids_fresh (?en 0) d" "ids_fresh (?en 6) d" using u ids_fresh_tagged by simp_all
  have dj: "range (en_uuid (?en 6)) \<inter> range (en_uuid (?en 0)) = {}" by (auto simp: tagged_env_def)
  show ?thesis using evaluation_handlers_are_runs [OF demo_executed_steps [OF e] fr dj disjI2 [OF disjI1 [OF refl]]] e by blast
qed

section \<open>A delayed process\<close>

text \<open>
  The transaction that starts the checks does not look at the status of the assessment.  A process that was delayed between
  preparing an assessment and starting its checks, while the assessment was recovered and decided by somebody else,
  reopens it, its checks included, and nothing can be promoted from it any more.
\<close>

lemma delayed_start_reopens_decided:
  assumes "row_get asm_id aid (ev_assessments d) = Some a" "asm_status a = evaluation_assessment_status_value SS_DECIDED"
  shows "\<exists>d'. start_evaluation_checks aid d = Inr ((), d') \<and> promotable_assessment d' wid aid = Inl (ConflictError ''evaluation assessment is not promotable'') \<and>
    (\<exists>a'. row_get asm_id aid (ev_assessments d') = Some a' \<and> asm_status a' = evaluation_assessment_status_value SS_RUNNING \<and> asm_batch_id a' = asm_batch_id a) \<and>
    (\<forall>k\<in>set (ev_checks d'). chk_assessment_id k = aid \<longrightarrow> chk_status k = evaluation_assessment_status_value SS_RUNNING)"
proof -
  let ?f = "\<lambda>a. a\<lparr>asm_status := evaluation_assessment_status_value SS_RUNNING\<rparr>"
  let ?g = "\<lambda>k. if chk_assessment_id k = aid then k\<lparr>chk_status := evaluation_assessment_status_value SS_RUNNING\<rparr> else k"
  let ?d = "(upd_evaluation_assessment aid ?f d)\<lparr>ev_checks := map ?g (ev_checks d)\<rparr>"
  have s: "start_evaluation_checks aid d = Inr ((), ?d)" unfolding start_evaluation_checks_def assms(1) from_option_def option.case ebind_simps by (rule refl)
  have g: "row_get asm_id aid (ev_assessments ?d) = Some (?f a)" using assms(1) by (simp add: row.get_upd)
  have p: "promotable_assessment ?d wid aid = Inl (ConflictError ''evaluation assessment is not promotable'')"
    unfolding promotable_assessment_def g by (simp add: from_option_def)
  have k: "\<forall>k\<in>set (ev_checks ?d). chk_assessment_id k = aid \<longrightarrow> chk_status k = evaluation_assessment_status_value SS_RUNNING"
  proof (intro ballI impI)
    fix k assume k: "k \<in> set (ev_checks ?d)" "chk_assessment_id k = aid"
    have e: "ev_checks ?d = map ?g (ev_checks d)" by simp
    from k(1) obtain x where x: "k = ?g x" unfolding e set_map by (rule imageE)
    show "chk_status k = evaluation_assessment_status_value SS_RUNNING"
      using k(2) unfolding x by (cases "chk_assessment_id x = aid") simp_all
  qed
  show ?thesis by (intro exI [of _ ?d] conjI exI [of _ "?f a"] s p g k) simp_all
qed

end
