(* ===== verification/Spec2Isabelle.thy ===== *)
theory Spec2Isabelle
  imports Recovery_Properties Kubernetes_Deployment Evaluation_Properties
begin

text \<open>
  A verification development for the control plane under \<open>src/src/control_plane\<close>: a service that takes a change request
  through design, implementation, test and review by model providers, stops at human approvals, merges through GitHub,
  deploys to a local target and recovers it, and that compares several providers on one task in evaluation campaigns.
  File names below are relative to that directory.

  \<^bold>\<open>The program and its parts.\<close>  Every command enters a service (\<open>workflow_tasks.py\<close>, \<open>git_pull_requests.py\<close>,
  \<open>deployment_recovery.py\<close>, \<open>evaluation_campaigns.py\<close>, \<open>evaluation_pipeline.py\<close>, \<open>evaluation_lifecycle.py\<close>), asks
  the policy engine (\<open>policy.py\<close>) whether the principal may act, reads and writes rows (\<open>persistence.py\<close>) within one
  transaction, moves the workflow only through the guard of \<open>state_machine.py\<close>, and appends to the hash-chained log of
  \<open>audit.py\<close>.  The task service picks a provider with \<open>routing.py\<close> on the evidence \<open>learning.py\<close> computes, plans with
  \<open>task_strategy.py\<close> and accepts a provider's output only after \<open>validation.py\<close>.  Deployments take short-lived
  credentials from \<open>credentials.py\<close> and call an adapter (\<open>deployment.py\<close>, \<open>kubernetes_deployment.py\<close>); the pull-request
  service calls \<open>github_app.py\<close>.  The pipeline has providers produce candidates, validates them
  (\<open>evaluation_validation.py\<close>), has them reviewed, and submits them to the evaluator (\<open>evaluation.py\<close>).

  \<^bold>\<open>How the model is written.\<close>  A table is a list of records in insertion order and the database a record of
  tables; a handler is a function from its arguments and the database to \<open>Inl\<close> an error of the source's hierarchy or
  \<open>Inr\<close> a result with the new database, so that a raise rolls its transaction back.  A handler with several
  transactions around outside calls is the composition of one definition per transaction, and returns the database in
  the error case too.  JSON is a datatype, Python dictionaries are association lists, integers \<open>int\<close>, floats rationals
  (a rounding error of a float is not modelled), instants microseconds as \<open>int\<close>.  What is not under \<open>src/\<close> is a parameter:
  SHA-256, HMAC and JWT signing, the text of instants and floats, the clock and the fresh identifiers of each call
  (\<open>env\<close>), the providers, the executor, the HTTP client of GitHub, the Kubernetes client and \<open>kubectl\<close>.  No
  assumption is made about what these answer, except where a property names it: fresh identifiers differ from those
  in the tables, and for promotions two different submissions have different digests (\<open>collision_free\<close>).

  \<^bold>\<open>Theories, from the bottom.\<close>
  \<^item> \<open>Prelude\<close>: identifiers, the plumbing of errors, rows, the locale \<open>keyed_table\<close> (what a lookup returns after an
    update or an insert) and its interpretation \<open>row\<close>, on which every table of the development rests.
  \<^item> \<open>Json\<close>, \<open>Python_Text\<close>: JSON values, their canonical text (injective on well-formed values), \<open>repr\<close>, \<open>str\<close> and
    the other text functions the sources use.  \<open>Domain\<close>: \<open>domain.py\<close>.
  \<^item> \<open>State_Machine\<close>: \<open>state_machine.py\<close>; a human gate cannot be bypassed, runs from a gate terminate.
  \<^item> \<open>Routing\<close>, \<open>Task_Strategy\<close>, \<open>Learning\<close>, \<open>Validation\<close>: the files of these names; the router selects an eligible
    profile of the best score whatever the order of the profiles, and accounts for every rejected one; the planner keeps
    the safety gates; evidence stays within its window and the 95th percentile is the nearest rank.
  \<^item> \<open>Persistence\<close>, \<open>Policy\<close>, \<open>Audit_Log\<close>: the rows, \<open>PolicyEngine.authorize\<close> with a sound and complete
    characterisation, and the log, whose verification detects every change (up to a collision of the hash).
  \<^item> \<open>Credentials\<close>, \<open>Deployment\<close>, \<open>Kubernetes_Deployment\<close>, \<open>Github_App\<close>: brokers and handles (bound to their
    request, never holding the secret), the adapters, and the GitHub client with its readiness checks.
  \<^item> \<open>Workflow_Core\<close>, \<open>Workflow_Tasks\<close>: the helpers and the handlers of \<open>workflow_tasks.py\<close>.  \<open>Lifecycle\<close> is the
    abstract specification of one workflow and its tasks, \<open>Workflow_Refinement\<close> shows that each committed handler is a
    step of it, \<open>Workflow_Attempts\<close> adds the attempts, \<open>Workflow_Service\<close> has the step relation \<open>svc_step\<close> of all
    handlers in any order, and \<open>Workflow_Properties\<close> its properties over all runs.
  \<^item> \<open>Deployment_Recovery\<close>, \<open>Pull_Requests\<close>: the handlers of \<open>deployment_recovery.py\<close> and \<open>git_pull_requests.py\<close>;
    \<open>Delivery_Effects\<close> says what each reads and writes; \<open>Control_Plane\<close> has the step relation \<open>plane_step\<close> of the
    three services on one database; \<open>Delivery_Demo\<close> two concrete runs; \<open>Delivery_Properties\<close> and \<open>Recovery_Properties\<close>
    what holds of every run: approvals precede merges and deployments and are used once, outcomes are final.
  \<^item> \<open>Evaluation\<close>: \<open>evaluation.py\<close>; the winner meets the policy, is optimal, and does not depend on the order.
    \<open>Evaluation_Store\<close>, \<open>Evaluation_Campaigns\<close>, \<open>Evaluation_Lifecycle\<close>, \<open>Evaluation_Validation\<close>: the rows with
    \<open>evaluation_read_models.py\<close>, and the files of these names.  \<open>Evaluation_Execution\<close> and \<open>Evaluation_Assessment\<close>:
    the two halves of \<open>evaluation_pipeline.py\<close>, and how \<open>service.py\<close> ties a recovery to the pipeline.
  \<^item> \<open>Evaluation_Effects\<close>, \<open>Evaluation_Provenance\<close>, \<open>Evaluation_Core\<close>: what each transaction changes, where the
    evidence of a candidate comes from, and the invariant of campaigns, batches and promotions.  \<open>Evaluation_Runs\<close>:
    the step relation \<open>eval_step\<close>, one rule per transaction; \<open>Evaluation_Handlers\<close>: the handlers with several
    transactions are runs of it; \<open>Evaluation_Demo\<close>: a campaign up to its promotion; \<open>Evaluation_Properties\<close>.

  \<^bold>\<open>Interfaces.\<close>  The locale \<open>step_system\<close> (a step relation, an initial state and an invariant every step keeps)
  gives the induction over runs once; its interpretations \<open>svc\<close>, \<open>plane\<close> and \<open>evaluation\<close> discharge the laws for the
  three step relations.

  \<^bold>\<open>Runs.\<close>  Concurrency is the interleaving of committed transactions, which is what the database's isolation leaves
  of it.  What a process carries between two transactions is in flight: the executions of the task service, the
  deployments, and in the evaluation services the checks, the evidence and the decision of an assessment.  In
  \<open>eval_step\<close> nothing leaves the flights, so a transaction may be delayed or repeated at will, provider outcomes come
  in any order, and the tables of the workflow service may change arbitrarily (rule \<open>service\<close>): the relation has more
  runs than the program, and what holds of its runs holds of the program's.

  \<^bold>\<open>Bounds.\<close>  The limits of the sources are written as they are there (a candidate's output and an artifact's size
  in bytes, texts, numbers of candidates, iterations, attempts, the evidence window).  No definition runs on fuel: every
  loop is a recursion over a list or has its termination proved.

  \<^bold>\<open>What modelling showed.\<close>  A deployment whose verification fails loses the entry its rollback needs, and one
  overtaken by a rejection is carried out without being recorded (\<open>Recovery_Properties\<close>); a process delayed before it
  starts the checks of an assessment reopens a decided one (\<open>delayed_start_reopens_decided\<close> in
  \<open>Evaluation_Properties\<close>).

  \<^bold>\<open>Not modelled.\<close>  The facade \<open>service.py\<close> but for the tie above, since it forwards its calls; the HTTP routes
  \<open>api.py\<close>, the command lines and the MCP server, which parse and forward; the model providers under \<open>providers/\<close>,
  the executors and workspaces, \<open>opentofu.py\<close> and the Devin and Windsurf integrations, which call outside programs; the
  operator tooling (receipts, visual evidence, video); the export and signing of the audit log, and \<open>identity.py\<close>, which
  rest on cryptographic libraries; the worker process, its wiring, the lease heartbeat thread and configuration; the database engine
  with its sessions, the migrations and the scripts under \<open>src/deployment\<close>.
\<close>

end
